(* ===== verification/Prelude.thy ===== *)
theory Prelude
  imports Main "HOL-Library.AList"
begin

text \<open>
  What the component theories share. First the part of the JavaScript standard library the
  packages use, as total functions on HOL values: strings are character lists, a number that may
  be \<open>NaN\<close> is an \<open>int option\<close> (\<open>None\<close> for \<open>NaN\<close>), an insertion-ordered \<open>Map\<close> is an
  association list updated with \<open>AList.update\<close>. Then two interfaces: \<open>keyed_store\<close>, the laws every
  key-value store of the system obeys, and \<open>reducer\<close>, a state machine with an invariant.
\<close>

named_theorems store_simps \<comment> \<open>lookup-after-update laws of the stores\<close>
named_theorems hex_simps \<comment> \<open>printing and parsing of numerals\<close>

section \<open>Strings\<close>

text \<open>\<open>String.prototype.substring(a, b)\<close>: both ends are clamped, and swapped when out of order.\<close>

definition clamp_index :: "nat \<Rightarrow> int \<Rightarrow> nat" where
  "clamp_index n i = min n (nat i)"

definition js_substring :: "string \<Rightarrow> int \<Rightarrow> int \<Rightarrow> string" where
  "js_substring s a b =
     (let i = clamp_index (length s) a; j = clamp_index (length s) b;
          lo = min i j; hi = max i j
      in take (hi - lo) (drop lo s))"

definition js_substring_from :: "string \<Rightarrow> int \<Rightarrow> string" where
  "js_substring_from s a = drop (clamp_index (length s) a) s"

text \<open>\<open>String.prototype.substr(start, len)\<close>: a negative start counts from the end.\<close>

definition js_substr :: "string \<Rightarrow> int \<Rightarrow> nat \<Rightarrow> string" where
  "js_substr s a len =
     (let n = int (length s); i = (if a < 0 then max 0 (n + a) else a) in take len (drop (nat i) s))"

definition js_substr_from :: "string \<Rightarrow> int \<Rightarrow> string" where
  "js_substr_from s a = js_substr s a (length s)"

text \<open>\<open>split\<close> on one character and \<open>join\<close>.\<close>

fun js_split :: "char \<Rightarrow> string \<Rightarrow> string list" where
  "js_split c [] = [[]]"
| "js_split c (x # xs) =
     (if x = c then [] # js_split c xs
      else (case js_split c xs of [] \<Rightarrow> [[x]] | p # ps \<Rightarrow> (x # p) # ps))"

fun js_join :: "string \<Rightarrow> string list \<Rightarrow> string" where
  "js_join sep [] = []"
| "js_join sep [x] = x"
| "js_join sep (x # y # ys) = x @ sep @ js_join sep (y # ys)"

text \<open>\<open>toUpperCase\<close>, on ASCII.\<close>

definition to_upper :: "char \<Rightarrow> char" where
  "to_upper c = (let n = of_char c :: nat in if 97 \<le> n \<and> n \<le> 122 then char_of (n - 32) else c)"

definition js_concat :: "string list \<Rightarrow> string" where
  "js_concat = concat"

lemma js_split_nonempty [simp]: "js_split c s \<noteq> []"
  by (induction s) (auto split: list.splits)

lemma js_split_no_sep: "c \<notin> set s \<Longrightarrow> js_split c s = [s]"
  by (induction s) auto

lemma js_split_append_sep: "c \<notin> set s \<Longrightarrow> js_split c (s @ c # t) = s # js_split c t"
  by (induction s) auto

lemma js_split_join:
  "xs \<noteq> [] \<Longrightarrow> \<forall>x\<in>set xs. c \<notin> set x \<Longrightarrow> js_split c (js_join [c] xs) = xs"
  by (induction "[c]" xs rule: js_join.induct) (auto simp: js_split_no_sep js_split_append_sep)

lemma js_join_split: "js_join [c] (js_split c s) = s"
proof (induction s)
  case (Cons x xs)
  then show ?case by (cases "js_split c xs"; cases "tl (js_split c xs)") (auto split: list.splits)
qed simp

lemma set_js_join: "set (js_join sep xs) \<subseteq> (\<Union>x\<in>set xs. set x) \<union> set sep"
  by (induction sep xs rule: js_join.induct) auto

section \<open>Numerals\<close>

text \<open>\<open>Number.prototype.toString(radix)\<close> of a non-negative integer.\<close>

fun digits_of :: "nat \<Rightarrow> nat \<Rightarrow> nat list" where
  "digits_of b n = (if b < 2 \<or> n < b then [n] else digits_of b (n div b) @ [n mod b])"

declare digits_of.simps [simp del]

definition digit_char :: "nat \<Rightarrow> char" where
  "digit_char d = ''0123456789abcdef'' ! d"

definition show_base :: "nat \<Rightarrow> nat \<Rightarrow> string" where
  "show_base b n = map digit_char (digits_of b n)"

definition show_nat :: "nat \<Rightarrow> string" where
  "show_nat n = show_base 10 n"

definition show_int :: "int \<Rightarrow> string" where
  "show_int i = (if i < 0 then CHR ''-'' # show_nat (nat (- i)) else show_nat (nat i))"

text \<open>\<open>parseInt(s, radix)\<close>; \<open>None\<close> is \<open>NaN\<close>.  White space, one sign and, in radix 16 (or with no
  radix), a \<open>0x\<close> prefix are skipped; then the longest run of digits of the radix is read.\<close>

definition digit_value :: "char \<Rightarrow> nat option" where
  "digit_value c =
     (let n = of_char c :: nat in
      if 48 \<le> n \<and> n \<le> 57 then Some (n - 48)
      else if 97 \<le> n \<and> n \<le> 122 then Some (n - 87)
      else if 65 \<le> n \<and> n \<le> 90 then Some (n - 55)
      else None)"

definition is_digit :: "nat \<Rightarrow> char \<Rightarrow> bool" where
  "is_digit b c = (case digit_value c of None \<Rightarrow> False | Some d \<Rightarrow> d < b)"

definition digits_val :: "nat \<Rightarrow> nat list \<Rightarrow> nat" where
  "digits_val b ds = foldl (\<lambda>acc d. acc * b + d) 0 ds"

definition is_space :: "char \<Rightarrow> bool" where
  "is_space c = (let n = of_char c :: nat in n = 32 \<or> (9 \<le> n \<and> n \<le> 13))"

definition read_digits :: "nat \<Rightarrow> string \<Rightarrow> nat option" where
  "read_digits b s =
     (let ds = takeWhile (is_digit b) s
      in if ds = [] then None else Some (digits_val b (map (\<lambda>c. the (digit_value c)) ds)))"

definition drop_0x :: "string \<Rightarrow> string" where
  "drop_0x s = (if take 2 s = ''0x'' \<or> take 2 s = ''0X'' then drop 2 s else s)"

definition parseInt :: "nat option \<Rightarrow> string \<Rightarrow> int option" where
  "parseInt radix s =
     (let s1 = dropWhile is_space s;
          neg = (take 1 s1 = ''-'');
          s2 = (if neg \<or> take 1 s1 = ''+'' then drop 1 s1 else s1);
          hexed = (drop_0x s2 \<noteq> s2);
          (b, s3) = (case radix of
                       None \<Rightarrow> (if hexed then 16 else 10, drop_0x s2)
                     | Some r \<Rightarrow> (r, if r = 16 then drop_0x s2 else s2))
      in map_option (\<lambda>n. if neg then - int n else int n) (read_digits b s3))"

lemma digits_of_bound: "2 \<le> b \<Longrightarrow> \<forall>d\<in>set (digits_of b n). d < b"
proof (induction b n rule: digits_of.induct)
  case (1 b n)
  then show ?case by (subst digits_of.simps) auto
qed

lemma digits_of_nonempty [simp]: "digits_of b n \<noteq> []"
  by (subst digits_of.simps) simp

lemma digits_val_snoc [simp]: "digits_val b (ds @ [d]) = digits_val b ds * b + d"
  by (simp add: digits_val_def)

lemma digits_val_single [simp]: "digits_val b [d] = d"
  by (simp add: digits_val_def)

lemma digits_val_of: "digits_val b (digits_of b n) = n"
proof (induction b n rule: digits_of.induct)
  case (1 b n)
  then show ?case by (subst digits_of.simps) (auto simp: div_mult_mod_eq)
qed

lemma digits_of_length: "2 \<le> b \<Longrightarrow> n < b ^ k \<Longrightarrow> 0 < k \<Longrightarrow> length (digits_of b n) \<le> k"
proof (induction b n arbitrary: k rule: digits_of.induct)
  case (1 b n)
  show ?case
  proof (cases "n < b")
    case True
    with "1.prems" show ?thesis by (subst digits_of.simps) simp
  next
    case False
    then have "k \<noteq> 1" using "1.prems" by auto
    then obtain j where k: "k = Suc j" "0 < j" using "1.prems" by (cases k) auto
    have "n div b < b ^ j"
      using "1.prems" k by (simp add: less_mult_imp_div_less mult.commute)
    with False "1.IH" "1.prems" k have "length (digits_of b (n div b)) \<le> j" by simp
    with False "1.prems" k show ?thesis by (subst digits_of.simps) simp
  qed
qed

lemma lt16_cases:
  fixes d :: nat
  assumes "d < 16"
  shows "d \<in> {0, 1, 2, 3, 4, 5, 6, 7, 8, 9, 10, 11, 12, 13, 14, 15}"
  using assms unfolding insert_iff empty_iff by presburger

lemma digit_value_char: "d < 16 \<Longrightarrow> digit_value (digit_char d) = Some d"
  using lt16_cases [of d] by (auto simp: digit_char_def digit_value_def)

lemma digit_char_not_special:
  "d < 16 \<Longrightarrow> \<not> is_space (digit_char d) \<and> digit_char d \<noteq> CHR ''-'' \<and> digit_char d \<noteq> CHR ''+''
     \<and> digit_char d \<noteq> CHR ''x'' \<and> digit_char d \<noteq> CHR ''X''"
  using lt16_cases [of d] by (auto simp: digit_char_def is_space_def)

lemma read_digits_chars:
  assumes "b \<le> 16" "ds \<noteq> []" "\<forall>d\<in>set ds. d < b"
  shows "read_digits b (map digit_char ds) = Some (digits_val b ds)"
proof -
  have "\<forall>c\<in>set (map digit_char ds). is_digit b c"
    using assms by (auto simp: is_digit_def digit_value_char)
  then have tw: "takeWhile (is_digit b) (map digit_char ds) = map digit_char ds"
    by (simp only: takeWhile_eq_all_conv)
  have "map (\<lambda>c. the (digit_value c)) (map digit_char ds) = ds"
    using assms by (auto simp: digit_value_char intro!: map_idI)
  then show ?thesis
    using assms(2) by (simp only: read_digits_def tw Let_def map_is_Nil_conv if_False)
qed

lemma drop_0x_digits: "\<forall>d\<in>set ds. d < 16 \<Longrightarrow> drop_0x (map digit_char ds) = map digit_char ds"
  using digit_char_not_special by (cases ds; cases "tl ds") (auto simp: drop_0x_def)

lemma parseInt_chars:
  assumes "2 \<le> b" "b \<le> 16" "ds \<noteq> []" "\<forall>d\<in>set ds. d < b"
  shows "parseInt (Some b) (map digit_char ds) = Some (int (digits_val b ds))"
proof -
  let ?s = "map digit_char ds"
  from assms have lt: "\<forall>d\<in>set ds. d < 16" by auto
  obtain d es where ds: "ds = d # es" using assms(3) by (cases ds) auto
  with lt have "\<not> is_space (digit_char d)" "digit_char d \<noteq> CHR ''-''" "digit_char d \<noteq> CHR ''+''"
    using digit_char_not_special by auto
  then have "dropWhile is_space ?s = ?s" "take 1 ?s \<noteq> ''-''" "take 1 ?s \<noteq> ''+''"
    using ds by auto
  with lt assms show ?thesis
    by (simp add: parseInt_def drop_0x_digits read_digits_chars Let_def)
qed

lemma parseInt_show_base [hex_simps]:
  "2 \<le> b \<Longrightarrow> b \<le> 16 \<Longrightarrow> parseInt (Some b) (show_base b n) = Some (int n)"
  using parseInt_chars [of b "digits_of b n"] digits_of_bound [of b n]
  by (simp add: show_base_def digits_val_of)

lemma parseInt_show_nat [hex_simps]: "parseInt (Some 10) (show_nat n) = Some (int n)"
  by (simp add: show_nat_def parseInt_show_base)

lemma show_nat_inj [simp]: "show_nat m = show_nat n \<longleftrightarrow> m = n"
  using parseInt_show_nat by (metis of_nat_eq_iff option.inject)

lemma set_show_nat: "c \<in> set (show_nat n) \<Longrightarrow> \<exists>d < 10. c = digit_char d"
  using digits_of_bound [of 10 n] by (auto simp: show_nat_def show_base_def)

lemma show_nat_nonempty [simp]: "show_nat n \<noteq> []"
  by (simp add: show_nat_def show_base_def)

section \<open>Numbers with NaN\<close>

type_synonym jsnum = "int option"

definition num_add :: "jsnum \<Rightarrow> jsnum \<Rightarrow> jsnum" where
  "num_add a b = (case (a, b) of (Some x, Some y) \<Rightarrow> Some (x + y) | _ \<Rightarrow> None)"

definition num_sub :: "jsnum \<Rightarrow> jsnum \<Rightarrow> jsnum" where
  "num_sub a b = (case (a, b) of (Some x, Some y) \<Rightarrow> Some (x - y) | _ \<Rightarrow> None)"

definition num_le :: "jsnum \<Rightarrow> jsnum \<Rightarrow> bool" where
  "num_le a b = (case (a, b) of (Some x, Some y) \<Rightarrow> x \<le> y | _ \<Rightarrow> False)"

definition num_pos :: "jsnum \<Rightarrow> bool" where
  "num_pos a = (case a of Some x \<Rightarrow> x > 0 | None \<Rightarrow> False)"

definition num_eq :: "jsnum \<Rightarrow> jsnum \<Rightarrow> bool" where
  "num_eq a b = (case (a, b) of (Some x, Some y) \<Rightarrow> x = y | _ \<Rightarrow> False)"

definition show_num :: "jsnum \<Rightarrow> string" where
  "show_num a = (case a of None \<Rightarrow> ''NaN'' | Some x \<Rightarrow> show_int x)"

definition num_times10 :: "jsnum \<Rightarrow> jsnum" where
  "num_times10 a = map_option (\<lambda>x. x * 10) a"

definition num_lt :: "jsnum \<Rightarrow> jsnum \<Rightarrow> bool" where
  "num_lt a b = (case (a, b) of (Some x, Some y) \<Rightarrow> x < y | _ \<Rightarrow> False)"

text \<open>\<open>Number(s)\<close> on the numerals of the system: white space around, a sign, decimal digits, a \<open>0x\<close> prefix.\<close>

definition trim :: "string \<Rightarrow> string" where
  "trim s = rev (dropWhile is_space (rev (dropWhile is_space s)))"

definition all_digits :: "nat \<Rightarrow> string \<Rightarrow> jsnum" where
  "all_digits b s =
     (if s \<noteq> [] \<and> list_all (is_digit b) s then Some (int (digits_val b (map (\<lambda>c. the (digit_value c)) s))) else None)"

definition js_Number :: "string \<Rightarrow> jsnum" where
  "js_Number s =
     (let t = trim s
      in if t = [] then Some 0
         else if drop_0x t \<noteq> t then all_digits 16 (drop_0x t)
         else if take 1 t = ''-'' then map_option uminus (all_digits 10 (drop 1 t))
         else if take 1 t = ''+'' then all_digits 10 (drop 1 t)
         else all_digits 10 t)"

lemma js_Number_show_nat [hex_simps]: "js_Number (show_nat n) = Some (int n)"
proof -
  let ?ds = "digits_of 10 n"
  have lt: "\<forall>d\<in>set ?ds. d < 10" using digits_of_bound [of 10 n] by simp
  then have lt16: "\<forall>d\<in>set ?ds. d < 16" by auto
  have s: "show_nat n = map digit_char ?ds" by (simp add: show_nat_def show_base_def)
  have nsp: "\<forall>c\<in>set (show_nat n). \<not> is_space c \<and> c \<noteq> CHR ''-'' \<and> c \<noteq> CHR ''+''"
    using lt16 digit_char_not_special by (auto simp: s)
  then have "dropWhile is_space (show_nat n) = show_nat n" "dropWhile is_space (rev (show_nat n)) = rev (show_nat n)"
    using hd_in_set [of "show_nat n"] last_in_set [of "show_nat n"]
    by (simp_all add: dropWhile_eq_self_iff hd_rev)
  then have t: "trim (show_nat n) = show_nat n" by (simp add: trim_def)
  have sign: "take 1 (show_nat n) \<noteq> ''-''" "take 1 (show_nat n) \<noteq> ''+''"
    using nsp by (cases "show_nat n"; auto)+
  have hex: "drop_0x (show_nat n) = show_nat n" using drop_0x_digits [OF lt16] by (simp add: s)
  have val: "map (\<lambda>c. the (digit_value c)) (show_nat n) = ?ds"
    using lt16 by (auto simp: s digit_value_char intro!: map_idI)
  have "list_all (is_digit 10) (show_nat n)"
    using lt lt16 by (auto simp: list_all_iff s is_digit_def digit_value_char)
  then have "all_digits 10 (show_nat n) = Some (int n)"
    by (simp add: all_digits_def val digits_val_of)
  then show ?thesis using t sign hex by (simp add: js_Number_def)
qed

lemmas num_defs = num_lt_def num_add_def num_sub_def num_le_def num_pos_def num_eq_def

section \<open>Results of a list\<close>

lemma those_eq_Some: "those xs = Some ys \<longleftrightarrow> xs = map Some ys"
proof (induction xs arbitrary: ys)
  case (Cons x xs)
  then show ?case by (cases x; cases ys) (auto split: option.splits)
qed auto

section \<open>Interfaces\<close>

text \<open>
  A key-value store: what a client of \<open>redis\<close>, \<open>localStorage\<close>, a JavaScript \<open>Map\<close> or a table of
  graph-node entities relies on.
\<close>

locale keyed_store =
  fixes get :: "'s \<Rightarrow> 'k \<Rightarrow> 'v option"
    and put :: "'k \<Rightarrow> 'v \<Rightarrow> 's \<Rightarrow> 's"
  assumes get_put_same: "get (put k v s) k = Some v"
    and get_put_other: "k' \<noteq> k \<Longrightarrow> get (put k v s) k' = get s k'"
begin

lemma get_put: "get (put k v s) k' = (if k' = k then Some v else get s k')"
  by (simp add: get_put_same get_put_other)

lemma get_fold_put_notin:
  "k \<notin> key ` set xs \<Longrightarrow> get (fold (\<lambda>x. put (key x) (val x)) xs s) k = get s k"
  by (induction xs arbitrary: s) (auto simp: get_put_other)

lemma get_fold_put:
  "distinct (map key xs) \<Longrightarrow> x \<in> set xs \<Longrightarrow>
     get (fold (\<lambda>x. put (key x) (val x)) xs s) (key x) = Some (val x)"
proof (induction xs arbitrary: s)
  case (Cons y ys)
  then show ?case by (cases "x = y") (auto simp: get_fold_put_notin get_put_same)
qed simp

lemma put_put_commute:
  "k \<noteq> k' \<Longrightarrow> get (put k v (put k' v' s)) = get (put k' v' (put k v s))"
  by (rule ext) (simp add: get_put)

end

text \<open>A JavaScript \<open>Map\<close>: an association list in insertion order.\<close>

type_synonym ('k, 'v) jsmap = "('k \<times> 'v) list"

definition jm_get :: "('k, 'v) jsmap \<Rightarrow> 'k \<Rightarrow> 'v option" where
  "jm_get m k = map_of m k"

definition jm_set :: "'k \<Rightarrow> 'v \<Rightarrow> ('k, 'v) jsmap \<Rightarrow> ('k, 'v) jsmap" where
  "jm_set k v m = AList.update k v m"

definition jm_has :: "('k, 'v) jsmap \<Rightarrow> 'k \<Rightarrow> bool" where
  "jm_has m k = (jm_get m k \<noteq> None)"

definition jm_delete :: "'k \<Rightarrow> ('k, 'v) jsmap \<Rightarrow> ('k, 'v) jsmap" where
  "jm_delete k m = AList.delete k m"

definition jm_keys :: "('k, 'v) jsmap \<Rightarrow> 'k list" where
  "jm_keys m = map fst m"

interpretation jm: keyed_store jm_get jm_set
  by unfold_locales (simp_all add: jm_get_def jm_set_def update_conv)

lemmas jm_get_set [store_simps] = jm.get_put

lemma jm_set_fresh: "\<not> jm_has m k \<Longrightarrow> jm_set k v m = m @ [(k, v)]"
  by (auto simp: jm_has_def jm_get_def jm_set_def update_nonempty map_of_eq_None_iff
      intro: update_triv) (induction m; auto)

lemma jm_get_delete [store_simps]: "jm_get (jm_delete k m) k' = (if k' = k then None else jm_get m k')"
  by (simp add: jm_get_def jm_delete_def delete_conv)

lemma jm_has_keys: "jm_has m k \<longleftrightarrow> k \<in> set (jm_keys m)"
  by (auto simp: jm_has_def jm_get_def jm_keys_def map_of_eq_None_iff)

lemma jm_keys_set_fresh: "\<not> jm_has m k \<Longrightarrow> jm_keys (jm_set k v m) = jm_keys m @ [k]"
  by (simp add: jm_set_fresh jm_keys_def)

text \<open>A HOL map is a keyed store too; the entity tables and \<open>redis\<close> are modelled by one.\<close>

definition tbl_get :: "('k \<rightharpoonup> 'v) \<Rightarrow> 'k \<Rightarrow> 'v option" where
  "tbl_get t k = t k"

definition tbl_put :: "'k \<Rightarrow> 'v \<Rightarrow> ('k \<rightharpoonup> 'v) \<Rightarrow> ('k \<rightharpoonup> 'v)" where
  "tbl_put k v t = t(k \<mapsto> v)"

interpretation tbl: keyed_store tbl_get tbl_put
  by unfold_locales (simp_all add: tbl_get_def tbl_put_def)

text \<open>
  A state machine driven by actions: the contract between a slice of the application state and
  the dispatcher, and between a table of event handlers and the block stream.
\<close>

locale reducer =
  fixes step :: "'a \<Rightarrow> 's \<Rightarrow> 's" and good :: "'a \<Rightarrow> bool" and inv :: "'s \<Rightarrow> bool"
  assumes step_inv: "good a \<Longrightarrow> inv s \<Longrightarrow> inv (step a s)"
begin

lemma run_inv: "inv s \<Longrightarrow> \<forall>a\<in>set as. good a \<Longrightarrow> inv (fold step as s)"
  by (induction as arbitrary: s) (auto intro: step_inv)

lemma run_append_inv:
  "inv s \<Longrightarrow> \<forall>a\<in>set (as @ bs). good a \<Longrightarrow> inv (fold step bs (fold step as s))"
  by (rule run_inv) (auto intro: run_inv)

end

end
