(* ===== verification/Sdk_Image.thy ===== *)
theory Sdk_Image
  imports Prelude
begin

text \<open>
  The image encoder of the SDK (\<open>nouns-sdk/src/image/image.ts\<close>, \<open>utils.ts\<close>, \<open>types.ts\<close>): an image is
  a width, a height and a pixel accessor; \<open>toRLE\<close> finds the bounding box of the non-transparent
  pixels, maps each pixel of the box to an index of a growing colour table, and prints the bounds
  and the run-length encoded indexes as hexadecimal bytes.
\<close>

section \<open>Hexadecimal output (utils.ts)\<close>

definition padStart :: "nat \<Rightarrow> char \<Rightarrow> string \<Rightarrow> string" where
  "padStart n c s = replicate (n - length s) c @ s"

definition toPaddedHex :: "nat \<Rightarrow> nat \<Rightarrow> string" where
  "toPaddedHex c pad = padStart pad (CHR ''0'') (show_base 16 c)"

definition rgbToHex :: "nat \<Rightarrow> nat \<Rightarrow> nat \<Rightarrow> string" where
  "rgbToHex r g b = toPaddedHex r 2 @ toPaddedHex g 2 @ toPaddedHex b 2"

lemma show_base16_nonempty [simp]: "show_base 16 n \<noteq> []"
  by (simp add: show_base_def)

lemma rgbToHex_nonempty [simp]: "rgbToHex r g b \<noteq> []"
  by (simp add: rgbToHex_def toPaddedHex_def padStart_def)

lemma toPaddedHex_digits:
  "\<exists>ds. toPaddedHex n 2 = map digit_char ds \<and> ds \<noteq> [] \<and> (\<forall>d\<in>set ds. d < 16) \<and> digits_val 16 ds = n"
proof -
  let ?ds = "replicate (2 - length (show_base 16 n)) 0 @ digits_of 16 n"
  have zeros: "digits_val 16 (replicate k 0 @ ds) = digits_val 16 ds" for k ds
    by (induction k) (simp_all add: digits_val_def)
  have "toPaddedHex n 2 = map digit_char ?ds"
    by (simp add: toPaddedHex_def padStart_def show_base_def digit_char_def map_replicate_trivial)
  moreover have "\<forall>d\<in>set ?ds. d < 16" using digits_of_bound [of 16 n] by auto
  ultimately show ?thesis by (intro exI [of _ ?ds]) (simp add: zeros digits_val_of)
qed

lemma parseInt_toPaddedHex [hex_simps]: "parseInt (Some 16) (toPaddedHex n 2) = Some (int n)"
  using toPaddedHex_digits [of n] parseInt_chars [of 16] by fastforce

lemma length_toPaddedHex [hex_simps]:
  assumes "n < 256"
  shows "length (toPaddedHex n 2) = 2"
proof -
  have "length (digits_of 16 n) \<le> 2" using digits_of_length [of 16 n 2] assms by simp
  then show ?thesis by (simp add: toPaddedHex_def padStart_def show_base_def)
qed

section \<open>Images (types.ts, image.ts)\<close>

record rgba =
  rgba_r :: nat
  rgba_g :: nat
  rgba_b :: nat
  rgba_a :: nat

record image_bounds =
  b_top :: int
  b_right :: int
  b_bottom :: int
  b_left :: int

record image =
  im_width :: int
  im_height :: int
  im_bounds :: image_bounds
  im_tuples :: "(nat \<times> nat) list"
  im_getRgbaAt :: "int \<Rightarrow> int \<Rightarrow> rgba"

definition new_Image :: "int \<Rightarrow> int \<Rightarrow> (int \<Rightarrow> int \<Rightarrow> rgba) \<Rightarrow> image" where
  "new_Image width height getRgbaAt =
     \<lparr>im_width = width, im_height = height,
      im_bounds = \<lparr>b_top = 0, b_right = 0, b_bottom = 0, b_left = 0\<rparr>,
      im_tuples = [], im_getRgbaAt = getRgbaAt\<rparr>"

definition isTransparentColumn :: "image \<Rightarrow> int \<Rightarrow> bool" where
  "isTransparentColumn img column =
     list_all (\<lambda>row. rgba_a (im_getRgbaAt img column row) = 0) [0..im_height img - 1]"

definition isTransparentRow :: "image \<Rightarrow> int \<Rightarrow> bool" where
  "isTransparentRow img row =
     list_all (\<lambda>column. rgba_a (im_getRgbaAt img column row) = 0) [0..im_width img - 1]"

text \<open>The four loops of \<open>calcBounds\<close>, in its order.\<close>

function scan_bottom :: "image \<Rightarrow> int \<Rightarrow> int" where
  "scan_bottom img bottom =
     (if bottom > 0 \<and> isTransparentRow img bottom then scan_bottom img (bottom - 1) else bottom)"
  by pat_completeness auto
termination by (relation "measure (\<lambda>(img, bottom). nat bottom)") auto

function scan_top :: "image \<Rightarrow> int \<Rightarrow> int \<Rightarrow> int" where
  "scan_top img bottom top_y =
     (if top_y < bottom \<and> isTransparentRow img top_y then scan_top img bottom (top_y + 1) else top_y)"
  by pat_completeness auto
termination by (relation "measure (\<lambda>(img, bottom, top_y). nat (bottom - top_y))") auto

function scan_right :: "image \<Rightarrow> int \<Rightarrow> int" where
  "scan_right img right_x =
     (if right_x \<ge> 0 \<and> isTransparentColumn img right_x then scan_right img (right_x - 1) else right_x)"
  by pat_completeness auto
termination by (relation "measure (\<lambda>(img, right_x). nat (right_x + 1))") auto

function scan_left :: "image \<Rightarrow> int \<Rightarrow> int \<Rightarrow> int" where
  "scan_left img right_x left_x =
     (if left_x < right_x \<and> isTransparentColumn img left_x then scan_left img right_x (left_x + 1)
      else left_x)"
  by pat_completeness auto
termination by (relation "measure (\<lambda>(img, right_x, left_x). nat (right_x - left_x))") auto

declare scan_bottom.simps [simp del] scan_top.simps [simp del]
  scan_right.simps [simp del] scan_left.simps [simp del]

definition calcBounds :: "image \<Rightarrow> image_bounds" where
  "calcBounds img =
     (let bottom = scan_bottom img (im_height img - 1);
          top_y = scan_top img bottom 0;
          right_x = scan_right img (im_width img - 1);
          left_x = scan_left img right_x 0
      in \<lparr>b_top = top_y, b_right = right_x + 1, b_bottom = bottom, b_left = left_x\<rparr>)"

text \<open>
  The scan of \<open>toRLE\<close>: the pixels of the box in row-major order, and one iteration of its body,
  which adds an unknown colour to the table and pushes an index.
\<close>

definition box_pixels :: "image_bounds \<Rightarrow> (int \<times> int) list" where
  "box_pixels bd =
     concat (map (\<lambda>y. map (\<lambda>x. (x, y)) [b_left bd..b_right bd - 1]) [b_top bd..b_bottom bd])"

definition push_pixel ::
  "image \<Rightarrow> int \<times> int \<Rightarrow> (string, nat) jsmap \<times> nat list \<Rightarrow> (string, nat) jsmap \<times> nat list" where
  "push_pixel img xy st =
     (let (colors, indexes) = st;
          c = im_getRgbaAt img (fst xy) (snd xy);
          hexColor = rgbToHex (rgba_r c) (rgba_g c) (rgba_b c);
          colors' = (if \<not> jm_has colors hexColor then jm_set hexColor (length colors) colors else colors)
      in (colors', indexes @ [if rgba_a c = 0 then 0 else the (jm_get colors' hexColor)]))"

text \<open>\<open>encode\<close>: the loop over \<open>data\<close>, which returns the finished runs and the run in progress.\<close>

fun encode_loop :: "nat list \<Rightarrow> nat \<Rightarrow> nat \<Rightarrow> (nat \<times> nat) list \<times> (nat \<times> nat)" where
  "encode_loop [] previous count = ([], (count, previous))"
| "encode_loop (d # ds) previous count =
     (if d \<noteq> previous \<or> count = 255
      then (let (ts, last_run) = encode_loop ds d 1 in ((count, previous) # ts, last_run))
      else encode_loop ds previous (count + 1))"

definition hex_pair :: "nat \<times> nat \<Rightarrow> string" where
  "hex_pair run = toPaddedHex (fst run) 2 @ toPaddedHex (snd run) 2"

definition encode :: "nat list \<Rightarrow> (nat \<times> nat) list \<times> string" where
  "encode data =
     (case data of
        [] \<Rightarrow> ([], [])
      | d # ds \<Rightarrow>
          (let (ts, last_run) = encode_loop ds d 1
           in (ts, concat (map hex_pair ts) @ hex_pair last_run)))"

definition toRLE :: "image \<Rightarrow> (string, nat) jsmap \<Rightarrow> image \<times> (string, nat) jsmap \<times> string" where
  "toRLE img colors =
     (let bd = calcBounds img;
          (colors', indexes) = fold (push_pixel img) (box_pixels bd) (colors, []);
          metadata = map (\<lambda>v. toPaddedHex (nat v) 2) [0, b_top bd, b_right bd, b_bottom bd, b_left bd];
          (ts, body) = encode indexes
      in (img\<lparr>im_bounds := bd, im_tuples := im_tuples img @ ts\<rparr>, colors',
          ''0x'' @ concat metadata @ body))"

section \<open>The bounding box\<close>

lemma isTransparentRow_iff:
  "isTransparentRow img y \<longleftrightarrow> (\<forall>x. 0 \<le> x \<and> x < im_width img \<longrightarrow> rgba_a (im_getRgbaAt img x y) = 0)"
  by (auto simp: isTransparentRow_def list_all_iff)

lemma isTransparentColumn_iff:
  "isTransparentColumn img x \<longleftrightarrow> (\<forall>y. 0 \<le> y \<and> y < im_height img \<longrightarrow> rgba_a (im_getRgbaAt img x y) = 0)"
  by (auto simp: isTransparentColumn_def list_all_iff)

lemma scan_bottom_spec:
  "scan_bottom img b \<le> b \<and> (0 \<le> b \<longrightarrow> 0 \<le> scan_bottom img b)
     \<and> (\<forall>y. scan_bottom img b < y \<and> y \<le> b \<longrightarrow> isTransparentRow img y)"
proof (induction img b rule: scan_bottom.induct)
  case (1 img b)
  show ?case
  proof (cases "b > 0 \<and> isTransparentRow img b")
    case True
    with 1 have ih: "scan_bottom img (b - 1) \<le> b - 1 \<and> 0 \<le> scan_bottom img (b - 1)
      \<and> (\<forall>y. scan_bottom img (b - 1) < y \<and> y \<le> b - 1 \<longrightarrow> isTransparentRow img y)" by auto
    have "isTransparentRow img y" if "scan_bottom img (b - 1) < y" "y \<le> b" for y
      using that True ih by (cases "y = b") auto
    with True ih show ?thesis by (auto simp: scan_bottom.simps [of img b])
  qed (auto simp: scan_bottom.simps [of img b])
qed

lemma scan_top_spec:
  "t \<le> scan_top img b t \<and> (t \<le> b \<longrightarrow> scan_top img b t \<le> b)
     \<and> (\<forall>y. t \<le> y \<and> y < scan_top img b t \<longrightarrow> isTransparentRow img y)"
proof (induction img b t rule: scan_top.induct)
  case (1 img b t)
  show ?case
  proof (cases "t < b \<and> isTransparentRow img t")
    case True
    with 1 have ih: "t + 1 \<le> scan_top img b (t + 1) \<and> scan_top img b (t + 1) \<le> b
      \<and> (\<forall>y. t + 1 \<le> y \<and> y < scan_top img b (t + 1) \<longrightarrow> isTransparentRow img y)" by auto
    have "isTransparentRow img y" if "t \<le> y" "y < scan_top img b (t + 1)" for y
      using that True ih by (cases "y = t") auto
    with True ih show ?thesis by (auto simp: scan_top.simps [of img b t])
  qed (auto simp: scan_top.simps [of img b t])
qed

lemma scan_right_spec:
  "scan_right img r \<le> r \<and> (- 1 \<le> r \<longrightarrow> - 1 \<le> scan_right img r)
     \<and> (\<forall>x. scan_right img r < x \<and> x \<le> r \<longrightarrow> isTransparentColumn img x)"
proof (induction img r rule: scan_right.induct)
  case (1 img r)
  show ?case
  proof (cases "r \<ge> 0 \<and> isTransparentColumn img r")
    case True
    with 1 have ih: "scan_right img (r - 1) \<le> r - 1 \<and> - 1 \<le> scan_right img (r - 1)
      \<and> (\<forall>x. scan_right img (r - 1) < x \<and> x \<le> r - 1 \<longrightarrow> isTransparentColumn img x)" by auto
    have "isTransparentColumn img x" if "scan_right img (r - 1) < x" "x \<le> r" for x
      using that True ih by (cases "x = r") auto
    with True ih show ?thesis by (auto simp: scan_right.simps [of img r])
  qed (auto simp: scan_right.simps [of img r])
qed

lemma scan_left_spec:
  "l \<le> scan_left img r l \<and> (l \<le> r \<longrightarrow> scan_left img r l \<le> r) \<and> (r < l \<longrightarrow> scan_left img r l = l)
     \<and> (\<forall>x. l \<le> x \<and> x < scan_left img r l \<longrightarrow> isTransparentColumn img x)"
proof (induction img r l rule: scan_left.induct)
  case (1 img r l)
  show ?case
  proof (cases "l < r \<and> isTransparentColumn img l")
    case True
    with 1 have ih: "l + 1 \<le> scan_left img r (l + 1) \<and> scan_left img r (l + 1) \<le> r
      \<and> (\<forall>x. l + 1 \<le> x \<and> x < scan_left img r (l + 1) \<longrightarrow> isTransparentColumn img x)" by auto
    have "isTransparentColumn img x" if "l \<le> x" "x < scan_left img r (l + 1)" for x
      using that True ih by (cases "x = l") auto
    with True ih show ?thesis by (auto simp: scan_left.simps [of img r l])
  qed (auto simp: scan_left.simps [of img r l])
qed

definition size_ok :: "image \<Rightarrow> bool" where
  "size_ok img \<longleftrightarrow> 0 < im_width img \<and> im_width img \<le> 255 \<and> 0 < im_height img \<and> im_height img \<le> 255"

lemma calcBounds_box:
  assumes "size_ok img"
  defines "bd \<equiv> calcBounds img"
  shows "0 \<le> b_top bd" "b_top bd \<le> b_bottom bd" "b_bottom bd < im_height img"
    "0 \<le> b_left bd" "b_left bd \<le> b_right bd" "b_right bd \<le> im_width img"
proof -
  note specs = scan_bottom_spec [of img "im_height img - 1"] scan_right_spec [of img "im_width img - 1"]
    scan_top_spec [of 0 img "scan_bottom img (im_height img - 1)"]
    scan_left_spec [of 0 img "scan_right img (im_width img - 1)"]
  from assms specs show "0 \<le> b_top bd" "b_top bd \<le> b_bottom bd" "b_bottom bd < im_height img"
    "0 \<le> b_left bd" "b_right bd \<le> im_width img"
    by (auto simp: bd_def calcBounds_def Let_def size_ok_def)
  show "b_left bd \<le> b_right bd"
    using assms specs by (cases "0 \<le> scan_right img (im_width img - 1)")
      (auto simp: bd_def calcBounds_def Let_def size_ok_def)
qed

lemma calcBounds_covers:
  assumes "0 \<le> x" "x < im_width img" "0 \<le> y" "y < im_height img"
    and opaque: "rgba_a (im_getRgbaAt img x y) \<noteq> 0"
  defines "bd \<equiv> calcBounds img"
  shows "b_left bd \<le> x" "x < b_right bd" "b_top bd \<le> y" "y \<le> b_bottom bd"
proof -
  note specs = scan_bottom_spec [of img "im_height img - 1"] scan_right_spec [of img "im_width img - 1"]
    scan_top_spec [of 0 img "scan_bottom img (im_height img - 1)"]
    scan_left_spec [of 0 img "scan_right img (im_width img - 1)"]
  have "\<not> isTransparentRow img y" "\<not> isTransparentColumn img x"
    using assms by (auto simp: isTransparentRow_iff isTransparentColumn_iff)
  then have r: "x \<le> scan_right img (im_width img - 1)" and b: "y \<le> scan_bottom img (im_height img - 1)"
    and l: "scan_left img (scan_right img (im_width img - 1)) 0 \<le> x"
    and t: "scan_top img (scan_bottom img (im_height img - 1)) 0 \<le> y"
    using specs assms by (meson linorder_not_less zle_diff1_eq)+
  then show "b_left bd \<le> x" "x < b_right bd" "b_top bd \<le> y" "y \<le> b_bottom bd"
    by (auto simp: bd_def calcBounds_def Let_def)
qed

section \<open>Run-length encoding\<close>

definition expand :: "(nat \<times> nat) list \<Rightarrow> nat list" where
  "expand runs = concat (map (\<lambda>(n, c). replicate n c) runs)"

lemma expand_simps [simp]:
  "expand [] = []" "expand ((n, c) # rs) = replicate n c @ expand rs" "expand (rs @ rs') = expand rs @ expand rs'"
  by (simp_all add: expand_def)

definition run_ok :: "nat \<times> nat \<Rightarrow> bool" where
  "run_ok run \<longleftrightarrow> 1 \<le> fst run \<and> fst run \<le> 255"

text \<open>No two neighbouring runs could have been merged into one byte-sized run.\<close>

fun maximal_runs :: "(nat \<times> nat) list \<Rightarrow> bool" where
  "maximal_runs ((n, c) # (m, d) # rs) = ((c \<noteq> d \<or> n = 255) \<and> maximal_runs ((m, d) # rs))"
| "maximal_runs _ = True"

lemma encode_loop_expand:
  "encode_loop ds p k = (ts, l) \<Longrightarrow> expand (ts @ [l]) = replicate k p @ ds"
proof (induction ds p k arbitrary: ts l rule: encode_loop.induct)
  case (2 d ds p k)
  then show ?case
    by (auto split: if_splits prod.splits simp: replicate_append_same [symmetric])
qed simp

lemma encode_loop_runs:
  "encode_loop ds p k = (ts, l) \<Longrightarrow> 1 \<le> k \<Longrightarrow> k \<le> 255 \<Longrightarrow> \<forall>r\<in>set (ts @ [l]). run_ok r"
  by (induction ds p k arbitrary: ts l rule: encode_loop.induct)
     (auto split: if_splits prod.splits simp: run_ok_def)

lemma encode_loop_colors:
  "encode_loop ds p k = (ts, l) \<Longrightarrow> snd ` set (ts @ [l]) \<subseteq> insert p (set ds)"
  by (induction ds p k arbitrary: ts l rule: encode_loop.induct)
     (fastforce split: if_splits prod.splits)+

lemma encode_loop_head:
  "encode_loop ds p k = (ts, l) \<Longrightarrow> \<exists>n rs. ts @ [l] = (n, p) # rs"
  by (induction ds p k arbitrary: ts l rule: encode_loop.induct) (auto split: if_splits prod.splits)

lemma encode_loop_maximal: "encode_loop ds p k = (ts, l) \<Longrightarrow> maximal_runs (ts @ [l])"
proof (induction ds p k arbitrary: ts l rule: encode_loop.induct)
  case (2 d ds p k)
  show ?case
  proof (cases "d \<noteq> p \<or> k = 255")
    case True
    with 2 obtain ts' where ts: "encode_loop ds d 1 = (ts', l)" "ts = (k, p) # ts'"
      by (auto split: prod.splits)
    from encode_loop_head [OF ts(1)] obtain n rs where h: "ts' @ [l] = (n, d) # rs" by auto
    with True 2 ts have "maximal_runs ((n, d) # rs)" by auto
    with h ts True show ?thesis by auto
  qed (use 2 in auto)
qed simp

text \<open>The runs the encoder writes, the one after the loop included.\<close>

definition runs_of :: "nat list \<Rightarrow> (nat \<times> nat) list" where
  "runs_of data =
     (case data of [] \<Rightarrow> [] | d # ds \<Rightarrow> (let (ts, last_run) = encode_loop ds d 1 in ts @ [last_run]))"

lemma runs_of_Nil [simp]: "runs_of [] = []"
  by (simp add: runs_of_def)

lemma runs_of_Cons: "encode_loop ds d 1 = (ts, l) \<Longrightarrow> runs_of (d # ds) = ts @ [l]"
  by (simp add: runs_of_def)

lemma runs_of_cases:
  obtains (Nil) "data = []"
    | (Cons) d ds ts l where "data = d # ds" "encode_loop ds d 1 = (ts, l)" "runs_of data = ts @ [l]"
  by (metis runs_of_Cons list.exhaust surj_pair)

lemma encode_runs: "snd (encode data) = concat (map hex_pair (runs_of data))"
  by (cases data rule: runs_of_cases) (simp_all add: encode_def)

lemma encode_tuples: "fst (encode data) = butlast (runs_of data)"
  by (cases data rule: runs_of_cases) (simp_all add: encode_def)

lemma expand_runs_of: "expand (runs_of data) = data"
  by (cases data rule: runs_of_cases) (use encode_loop_expand in fastforce)+

lemma runs_of_ok: "\<forall>r\<in>set (runs_of data). run_ok r"
  by (cases data rule: runs_of_cases) (use encode_loop_runs in fastforce)+

lemma runs_of_colors: "snd ` set (runs_of data) \<subseteq> set data"
  by (cases data rule: runs_of_cases) (use encode_loop_colors in fastforce)+

lemma runs_of_maximal: "maximal_runs (runs_of data)"
  by (cases data rule: runs_of_cases) (use encode_loop_maximal in fastforce)+

section \<open>The colour table\<close>

definition palette_ok :: "(string, nat) jsmap \<Rightarrow> bool" where
  "palette_ok m \<longleftrightarrow> distinct (map fst m) \<and> map snd m = [0..<length m] \<and> jm_get m [] = Some 0"

lemma palette_get_iff:
  assumes "palette_ok m"
  shows "jm_get m k = Some i \<longleftrightarrow> i < length m \<and> jm_keys m ! i = k"
proof -
  have nth: "m ! i = (fst (m ! i), i)" if "i < length m" for i
    using assms that by (metis add.left_neutral nth_map nth_upt palette_ok_def prod.collapse)
  have "jm_get m k = Some i \<longleftrightarrow> (k, i) \<in> set m"
    using assms by (simp add: jm_get_def palette_ok_def)
  also have "\<dots> \<longleftrightarrow> i < length m \<and> jm_keys m ! i = k"
  proof
    assume "(k, i) \<in> set m"
    then obtain j where j: "j < length m" "m ! j = (k, i)" by (auto simp: in_set_conv_nth)
    with nth [of j] have "i = j" by simp
    with j show "i < length m \<and> jm_keys m ! i = k" by (simp add: jm_keys_def)
  next
    assume "i < length m \<and> jm_keys m ! i = k"
    with nth [of i] show "(k, i) \<in> set m"
      by (metis fst_conv in_set_conv_nth jm_keys_def nth_map)
  qed
  finally show ?thesis .
qed

lemma palette_ok_push:
  assumes "palette_ok m" "\<not> jm_has m k" "k \<noteq> []"
  shows "palette_ok (jm_set k (length m) m)"
  using assms by (auto simp: palette_ok_def jm_set_fresh jm_has_def jm_get_def map_of_eq_None_iff
      split: option.splits)

text \<open>The colour table only grows: it keeps every entry it has.\<close>

definition extends :: "(string, nat) jsmap \<Rightarrow> (string, nat) jsmap \<Rightarrow> bool" where
  "extends m m' \<longleftrightarrow> (\<forall>k i. jm_get m k = Some i \<longrightarrow> jm_get m' k = Some i)"

lemma extends_trans: "extends a b \<Longrightarrow> extends b c \<Longrightarrow> extends a c"
  by (simp add: extends_def)

definition pixel_hex :: "image \<Rightarrow> int \<Rightarrow> int \<Rightarrow> string" where
  "pixel_hex img x y = (let c = im_getRgbaAt img x y in rgbToHex (rgba_r c) (rgba_g c) (rgba_b c))"

definition pixel_index :: "image \<Rightarrow> (string, nat) jsmap \<Rightarrow> int \<times> int \<Rightarrow> nat" where
  "pixel_index img m xy =
     (if rgba_a (im_getRgbaAt img (fst xy) (snd xy)) = 0 then 0
      else the (jm_get m (pixel_hex img (fst xy) (snd xy))))"

lemma push_pixel_step:
  assumes "palette_ok m" "push_pixel img xy (m, is) = (m', is')"
  shows "palette_ok m'" "extends m m'" "jm_has m' (pixel_hex img (fst xy) (snd xy))"
    "is' = is @ [pixel_index img m' xy]"
  using assms palette_ok_push [of m "pixel_hex img (fst xy) (snd xy)"]
  by (auto simp: push_pixel_def pixel_hex_def pixel_index_def Let_def extends_def jm_has_def
      store_simps split: if_splits)

lemma pixel_index_extends:
  "extends m m' \<Longrightarrow> jm_has m (pixel_hex img (fst xy) (snd xy)) \<Longrightarrow> pixel_index img m' xy = pixel_index img m xy"
  by (auto simp: extends_def pixel_index_def jm_has_def)

lemma push_pixels:
  assumes "palette_ok m" "fold (push_pixel img) ps (m, is) = (m', is')"
  shows "palette_ok m' \<and> extends m m' \<and> is' = is @ map (pixel_index img m') ps
     \<and> (\<forall>xy\<in>set ps. jm_has m' (pixel_hex img (fst xy) (snd xy)))"
  using assms
proof (induction ps arbitrary: m "is")
  case Nil
  then show ?case by (simp add: extends_def)
next
  case (Cons p ps)
  obtain m1 is1 where st: "push_pixel img p (m, is) = (m1, is1)" by fastforce
  note s1 = push_pixel_step [OF Cons.prems(1) st]
  from Cons.prems st have "fold (push_pixel img) ps (m1, is1) = (m', is')" by simp
  note ih = Cons.IH [OF s1(1) this]
  from ih s1 have has: "jm_has m' (pixel_hex img (fst p) (snd p))"
    by (auto simp: extends_def jm_has_def)
  have "pixel_index img m' p = pixel_index img m1 p"
    using ih s1(3) by (intro pixel_index_extends) auto
  with ih s1 has show ?case
    by (auto intro: extends_trans)
qed

text \<open>What \<open>toRLE\<close> writes, in terms of the box, the final colour table and the runs.\<close>

definition encoded_indexes :: "image \<Rightarrow> (string, nat) jsmap \<Rightarrow> nat list" where
  "encoded_indexes img m = map (pixel_index img m) (box_pixels (calcBounds img))"

definition bounds_hex :: "image_bounds \<Rightarrow> string" where
  "bounds_hex bd = concat (map (\<lambda>v. toPaddedHex (nat v) 2) [0, b_top bd, b_right bd, b_bottom bd, b_left bd])"

lemma toRLE_spec:
  assumes "palette_ok m" "toRLE img m = (img', m', rle)"
  shows "palette_ok m'" "extends m m'"
    "rle = ''0x'' @ bounds_hex (calcBounds img) @ concat (map hex_pair (runs_of (encoded_indexes img m')))"
    "im_bounds img' = calcBounds img"
    "im_tuples img' = im_tuples img @ butlast (runs_of (encoded_indexes img m'))"
    "\<forall>xy\<in>set (box_pixels (calcBounds img)). jm_has m' (pixel_hex img (fst xy) (snd xy))"
proof -
  let ?bd = "calcBounds img"
  obtain m1 is1 where f: "fold (push_pixel img) (box_pixels ?bd) (m, []) = (m1, is1)" by fastforce
  note p = push_pixels [OF assms(1) f]
  have e: "encode is1 = (fst (encode is1), snd (encode is1))" by simp
  from assms(2) f have "m1 = m'" by (auto simp: toRLE_def Let_def split: prod.splits)
  with p have idx: "is1 = encoded_indexes img m'" by (simp add: encoded_indexes_def)
  from p \<open>m1 = m'\<close> show "palette_ok m'" "extends m m'"
    "\<forall>xy\<in>set (box_pixels ?bd). jm_has m' (pixel_hex img (fst xy) (snd xy))" by auto
  from assms(2) f e idx
  show "rle = ''0x'' @ bounds_hex ?bd @ concat (map hex_pair (runs_of (encoded_indexes img m')))"
    "im_bounds img' = ?bd" "im_tuples img' = im_tuples img @ butlast (runs_of (encoded_indexes img m'))"
    by (auto simp: toRLE_def Let_def bounds_hex_def encode_runs [symmetric] encode_tuples [symmetric]
        split: prod.splits)
qed

end
