(* ===== verification/Sdk_Svg.thy ===== *)
theory Sdk_Svg
  imports Sdk_Image
begin

text \<open>
  The SVG builder of the SDK (\<open>nouns-sdk/src/image/svg-builder.ts\<close>): it decodes the encoder's
  hexadecimal strings and emits one \<open>rect\<close> element for each horizontal stretch of one colour.
  Numbers come from \<open>parseInt\<close>, so each may be \<open>NaN\<close> (\<open>None\<close>); the inner \<open>while\<close> loop runs forever
  on a \<open>NaN\<close> draw length, so it is a \<open>partial_function\<close> and not returning is \<open>None\<close>.
\<close>

section \<open>decodeImage\<close>

record num_bounds =
  n_top :: jsnum
  n_right :: jsnum
  n_bottom :: jsnum
  n_left :: jsnum

record decoded_image =
  d_paletteIndex :: jsnum
  d_bounds :: num_bounds
  d_rects :: "(jsnum \<times> jsnum) list"

definition is_line_end :: "char \<Rightarrow> bool" where
  "is_line_end c = (c = CHR 0x0A \<or> c = CHR 0x0D)"

text \<open>\<open>match(/.{1,4}/g)\<close>: greedy pieces of up to four characters, line ends skipped.\<close>

function match_chunks :: "string \<Rightarrow> string list" where
  "match_chunks [] = []"
| "match_chunks (c # cs) =
     (if is_line_end c then match_chunks cs
      else (let m = take 4 (c # takeWhile (\<lambda>d. \<not> is_line_end d) cs)
            in m # match_chunks (drop (length m) (c # cs))))"
  by pat_completeness auto
termination by (relation "measure length") auto

definition strip_0x :: "string \<Rightarrow> string" where
  "strip_0x s = (if take 2 s = ''0x'' then drop 2 s else s)"

definition decodeImage :: "string \<Rightarrow> decoded_image" where
  "decodeImage image_str =
     (let data = strip_0x image_str;
          num = (\<lambda>a b. parseInt (Some 16) (js_substring data a b))
      in \<lparr>d_paletteIndex = num 0 2,
          d_bounds = \<lparr>n_top = num 2 4, n_right = num 4 6, n_bottom = num 6 8, n_left = num 8 10\<rparr>,
          d_rects = map (\<lambda>rect. (parseInt (Some 16) (js_substring rect 0 2),
                                 parseInt (Some 16) (js_substring rect 2 4)))
                      (match_chunks (js_substring_from data 10))\<rparr>)"

section \<open>buildSVG\<close>

definition getRectLength :: "jsnum \<Rightarrow> jsnum \<Rightarrow> jsnum \<Rightarrow> jsnum" where
  "getRectLength currentX drawLength rightBound =
     (let remaining = num_sub rightBound currentX
      in if num_le drawLength remaining then drawLength else remaining)"

text \<open>One pushed \<open>rect\<close>; \<open>fill\<close> is \<open>None\<close> where the palette has no such entry (\<open>undefined\<close>).\<close>

record svg_rect =
  sr_len :: jsnum
  sr_x :: jsnum
  sr_y :: jsnum
  sr_fill :: "string option"

definition render_rect :: "svg_rect \<Rightarrow> string" where
  "render_rect r =
     ''<rect width=\"'' @ show_num (num_times10 (sr_len r)) @ ''\" height=\"10\" x=\"''
     @ show_num (num_times10 (sr_x r)) @ ''\" y=\"'' @ show_num (num_times10 (sr_y r))
     @ ''\" fill=\"#'' @ (case sr_fill r of None \<Rightarrow> ''undefined'' | Some h \<Rightarrow> h) @ ''\" />''"

partial_function (option) draw_loop ::
  "jsnum \<Rightarrow> jsnum \<Rightarrow> jsnum \<Rightarrow> string option \<Rightarrow> jsnum \<Rightarrow> jsnum \<Rightarrow> jsnum \<Rightarrow> jsnum \<Rightarrow> svg_rect list
     \<Rightarrow> (jsnum \<times> jsnum \<times> svg_rect list) option" where
  "draw_loop left_b right_b colorIndex hexColor currentX currentY drawLength len svgRects =
     (if num_pos len then
        (let svgRects' = (if colorIndex \<noteq> Some 0
               then svgRects @ [\<lparr>sr_len = len, sr_x = currentX, sr_y = currentY, sr_fill = hexColor\<rparr>]
               else svgRects);
             x1 = num_add currentX len;
             wrap = num_eq x1 right_b;
             x2 = (if wrap then left_b else x1);
             y2 = (if wrap then num_add currentY (Some 1) else currentY);
             drawLength' = num_sub drawLength len
         in draw_loop left_b right_b colorIndex hexColor x2 y2 drawLength'
              (getRectLength x2 drawLength' right_b) svgRects')
      else Some (currentX, currentY, svgRects))"

definition palette_entry :: "string list \<Rightarrow> jsnum \<Rightarrow> string option" where
  "palette_entry paletteColors i =
     (case i of None \<Rightarrow> None
      | Some k \<Rightarrow> if 0 \<le> k \<and> k < int (length paletteColors) then Some (paletteColors ! nat k) else None)"

fun draw_rects ::
  "num_bounds \<Rightarrow> string list \<Rightarrow> (jsnum \<times> jsnum) list \<Rightarrow> jsnum \<times> jsnum \<times> svg_rect list
     \<Rightarrow> (jsnum \<times> jsnum \<times> svg_rect list) option" where
  "draw_rects bd paletteColors [] st = Some st"
| "draw_rects bd paletteColors ((drawLength, colorIndex) # rects) (currentX, currentY, svgRects) =
     Option.bind
       (draw_loop (n_left bd) (n_right bd) colorIndex (palette_entry paletteColors colorIndex)
          currentX currentY drawLength (getRectLength currentX drawLength (n_right bd)) svgRects)
       (draw_rects bd paletteColors rects)"

definition part_rects :: "string list \<Rightarrow> string \<Rightarrow> svg_rect list option" where
  "part_rects paletteColors data =
     (let img = decodeImage data
      in map_option (snd \<circ> snd)
           (draw_rects (d_bounds img) paletteColors (d_rects img)
              (n_left (d_bounds img), n_top (d_bounds img), [])))"

definition svg_head :: "string \<Rightarrow> string" where
  "svg_head bgColor =
     ''<svg width=\"320\" height=\"320\" viewBox=\"0 0 320 320\" xmlns=\"http://www.w3.org/2000/svg\" ''
     @ ''shape-rendering=\"crispEdges\"><rect width=\"100%\" height=\"100%\" fill=\"#'' @ bgColor @ ''\" />''"

fun svg_parts :: "string list \<Rightarrow> string list \<Rightarrow> string \<Rightarrow> string option" where
  "svg_parts paletteColors [] result = Some result"
| "svg_parts paletteColors (part # parts) result =
     Option.bind (part_rects paletteColors part)
       (\<lambda>svgRects. svg_parts paletteColors parts (result @ concat (map render_rect svgRects)))"

definition buildSVG :: "string list \<Rightarrow> string list \<Rightarrow> string \<Rightarrow> string option" where
  "buildSVG parts paletteColors bgColor =
     map_option (\<lambda>s. s @ ''</svg>'') (svg_parts paletteColors parts (svg_head bgColor))"

section \<open>The inner loop\<close>

lemma draw_loop_returns:
  "\<exists>x y rs. draw_loop l r ci h cx cy (Some d) (getRectLength cx (Some d) r) acc = Some (x, y, rs)"
proof (induction "nat d" arbitrary: d cx cy acc rule: less_induct)
  case less
  let ?len = "getRectLength cx (Some d) r"
  show ?case
  proof (cases "num_pos ?len")
    case True
    then obtain k where k: "?len = Some k" "0 < k" "k \<le> d"
      by (auto simp: getRectLength_def num_defs Let_def split: option.splits if_splits)
    then have "nat (d - k) < nat d" by simp
    from less [OF this] k show ?thesis
      by (subst draw_loop.simps) (simp add: num_defs Let_def)
  qed (subst draw_loop.simps, simp)
qed

lemma draw_rects_returns:
  "\<forall>rect\<in>set rects. fst rect \<noteq> None \<Longrightarrow> \<exists>st'. draw_rects bd pal rects st = Some st'"
proof (induction bd pal rects st rule: draw_rects.induct)
  case (2 bd pal dl ci rects cx cy acc)
  from "2.prems" obtain d where d: "dl = Some d" by auto
  obtain x y rs where
    "draw_loop (n_left bd) (n_right bd) ci (palette_entry pal ci) cx cy dl
       (getRectLength cx dl (n_right bd)) acc = Some (x, y, rs)"
    using draw_loop_returns d by blast
  with 2 show ?case by auto
qed auto

text \<open>A \<open>NaN\<close> draw length, with room left in the line, never leaves the loop.\<close>

definition nan_state :: "jsnum \<Rightarrow> jsnum \<Rightarrow> jsnum \<Rightarrow> jsnum \<Rightarrow> jsnum \<Rightarrow> bool" where
  "nan_state l r cx dl len \<longleftrightarrow>
     (\<exists>l' r' x. l = Some l' \<and> r = Some r' \<and> cx = Some x \<and> dl = None \<and> x < r' \<and> l' < r'
        \<and> len = Some (r' - x))"

lemma nan_state_step:
  assumes "nan_state l r cx dl len"
  shows "num_pos len"
    and "x2 = (if num_eq (num_add cx len) r then l else num_add cx len) \<Longrightarrow>
      nan_state l r x2 (num_sub dl len) (getRectLength x2 (num_sub dl len) r)"
  using assms by (auto simp: nan_state_def getRectLength_def num_defs Let_def)

lemma draw_loop_nan: "draw_loop l r ci h cx cy dl len acc = Some res \<Longrightarrow> \<not> nan_state l r cx dl len"
proof (rule draw_loop.raw_induct
    [where P = "\<lambda>l r ci h cx cy dl len acc res. \<not> nan_state l r cx dl len"], goal_cases)
  case (1 loop l r ci h cx cy dl len acc res)
  show ?case
  proof
    assume nan: "nan_state l r cx dl len"
    note step = nan_state_step [OF nan]
    from 1(3) step(1) 1(2) step(2) [OF refl] show False
      by (auto simp: Let_def)
  qed
qed

lemma draw_loop_diverges:
  assumes "l < r" "x < r"
  shows "draw_loop (Some l) (Some r) ci h (Some x) cy None (getRectLength (Some x) None (Some r)) acc = None"
proof (rule ccontr)
  have nan: "nan_state (Some l) (Some r) (Some x) None (getRectLength (Some x) None (Some r))"
    using assms by (simp add: nan_state_def getRectLength_def num_defs)
  assume "\<not> ?thesis"
  with draw_loop_nan nan show False by auto
qed

section \<open>Painted pixels\<close>

text \<open>The pixels a \<open>rect\<close> paints, in units of ten SVG pixels, from left to right.\<close>

definition rect_paint :: "svg_rect \<Rightarrow> ((int \<times> int) \<times> string option) list" where
  "rect_paint r = map (\<lambda>x. ((x, the (sr_y r)), sr_fill r))
     [the (sr_x r)..the (sr_x r) + the (sr_len r) - 1]"

definition paint :: "svg_rect list \<Rightarrow> ((int \<times> int) \<times> string option) list" where
  "paint rs = concat (map rect_paint rs)"

lemma paint_simps [simp]: "paint [] = []" "paint (rs @ rs') = paint rs @ paint rs'"
  by (simp_all add: paint_def)

text \<open>The \<open>k\<close>-th cell of a box in row-major order.\<close>

definition cell :: "int \<Rightarrow> int \<Rightarrow> int \<Rightarrow> int \<Rightarrow> int \<times> int" where
  "cell l w t k = (l + k mod w, t + k div w)"

lemma upto_split: "a \<le> b \<Longrightarrow> b \<le> c + 1 \<Longrightarrow> [a..c] = [a..b - 1] @ [b..c::int]"
proof (cases "b \<le> c")
  case False
  moreover assume "a \<le> b" "b \<le> c + 1"
  ultimately have "b = c + 1" by simp
  then show ?thesis by simp
qed (simp add: upto_split1)

lemma cell_step:
  fixes w p k :: int
  assumes "0 < w" "0 \<le> p" "0 < k" "k \<le> w - p mod w"
  shows "p mod w + k = w \<Longrightarrow> (p + k) mod w = 0 \<and> (p + k) div w = p div w + 1"
    and "p mod w + k \<noteq> w \<Longrightarrow> (p + k) mod w = p mod w + k \<and> (p + k) div w = p div w"
proof -
  have p: "p = w * (p div w) + p mod w" by (simp only: mult_div_mod_eq)
  {
    assume "p mod w + k = w"
    then have "p + k = w * (p div w) + w" using p by linarith
    then have "p + k = w * (p div w + 1)" by (simp add: distrib_left)
    then show "(p + k) mod w = 0 \<and> (p + k) div w = p div w + 1" using assms by simp
  }
  {
    assume "p mod w + k \<noteq> w"
    then have b: "0 \<le> p mod w + k" "p mod w + k < w" using assms by auto
    have "p + k = w * (p div w) + (p mod w + k)" using p by simp
    with b show "(p + k) mod w = p mod w + k \<and> (p + k) div w = p div w"
      by (metis add.commute add.left_neutral div_mult_self2 div_pos_pos_trivial mod_mult_self2
          mod_pos_pos_trivial mult.commute not_less_iff_gr_or_eq order.strict_trans1)
  }
qed

lemma paint_stretch:
  fixes w p k :: int
  assumes "0 < w" "0 \<le> p" "0 < k" "k \<le> w - p mod w"
  shows "map (\<lambda>x. (x, t + p div w)) [l + p mod w..l + p mod w + k - 1] = map (cell l w t) [p..p + k - 1]"
proof -
  have c: "cell l w t (p + i) = (l + p mod w + i, t + p div w)" if "0 \<le> i" "i < k" for i
    using that assms cell_step(2) [of w p i] by (cases "i = 0") (auto simp: cell_def)
  have "[p..p + k - 1] = map (\<lambda>i. p + i) [0..k - 1]"
    "[l + p mod w..l + p mod w + k - 1] = map (\<lambda>i. l + p mod w + i) [0..k - 1]"
    by (auto simp: list_eq_iff_nth_eq)
  then show ?thesis by (auto simp: c)
qed

lemma draw_loop_step:
  assumes "0 < k"
  shows "draw_loop (Some l) (Some r) ci h (Some x) (Some y) (Some n) (Some k) acc
    = (let c2 = (if x + k = r then (l, y + 1) else (x + k, y))
       in draw_loop (Some l) (Some r) ci h (Some (fst c2)) (Some (snd c2)) (Some (n - k))
            (getRectLength (Some (fst c2)) (Some (n - k)) (Some r))
            (if ci \<noteq> Some 0 then acc @ [\<lparr>sr_len = Some k, sr_x = Some x, sr_y = Some y, sr_fill = h\<rparr>] else acc))"
  using assms by (subst draw_loop.simps) (simp add: num_defs Let_def)

lemma draw_run:
  assumes "l < r" "w = r - l" "0 \<le> p" "0 \<le> n"
  shows "\<exists>rs. draw_loop (Some l) (Some r) ci h (Some (fst (cell l w t p))) (Some (snd (cell l w t p))) (Some n)
      (getRectLength (Some (fst (cell l w t p))) (Some n) (Some r)) acc
    = Some (Some (fst (cell l w t (p + n))), Some (snd (cell l w t (p + n))), acc @ rs)
    \<and> paint rs = (if ci = Some 0 then [] else map (\<lambda>k. (cell l w t k, h)) [p..p + n - 1])"
  using assms(3,4)
proof (induction "nat n" arbitrary: n p acc rule: less_induct)
  case less
  have w: "0 < w" using assms by simp
  have m: "0 \<le> p mod w" "p mod w < w" using w by auto
  show ?case
  proof (cases "n = 0")
    case True
    with m assms show ?thesis
      by (intro exI [of _ "[]"], subst draw_loop.simps)
         (simp add: getRectLength_def num_defs cell_def Let_def)
  next
    case False
    define k where "k = min n (w - p mod w)"
    have k: "0 < k" "k \<le> n" "k \<le> w - p mod w" using False less.prems m by (auto simp: k_def)
    have len: "getRectLength (Some (fst (cell l w t p))) (Some n) (Some r) = Some k"
      using assms by (auto simp: getRectLength_def num_defs cell_def k_def)
    let ?r = "\<lparr>sr_len = Some k, sr_x = Some (l + p mod w), sr_y = Some (t + p div w), sr_fill = h\<rparr>"
    let ?acc = "if ci \<noteq> Some 0 then acc @ [?r] else acc"
    have next_cell: "(if fst (cell l w t p) + k = r then (l, snd (cell l w t p) + 1)
        else (fst (cell l w t p) + k, snd (cell l w t p))) = cell l w t (p + k)"
      using cell_step [OF w less.prems(1) k(1,3)] assms by (auto simp: cell_def)
    obtain rs where rs: "draw_loop (Some l) (Some r) ci h (Some (fst (cell l w t (p + k))))
        (Some (snd (cell l w t (p + k)))) (Some (n - k))
        (getRectLength (Some (fst (cell l w t (p + k)))) (Some (n - k)) (Some r)) ?acc
      = Some (Some (fst (cell l w t (p + n))), Some (snd (cell l w t (p + n))), ?acc @ rs)"
      "paint rs = (if ci = Some 0 then [] else map (\<lambda>j. (cell l w t j, h)) [p + k..p + n - 1])"
      using less.hyps [of "n - k" "p + k" ?acc] k less.prems by (auto simp: algebra_simps)
    have unfold1: "draw_loop (Some l) (Some r) ci h (Some (fst (cell l w t p))) (Some (snd (cell l w t p))) (Some n)
        (getRectLength (Some (fst (cell l w t p))) (Some n) (Some r)) acc
      = draw_loop (Some l) (Some r) ci h (Some (fst (cell l w t (p + k)))) (Some (snd (cell l w t (p + k))))
          (Some (n - k)) (getRectLength (Some (fst (cell l w t (p + k)))) (Some (n - k)) (Some r)) ?acc"
      by (simp only: len draw_loop_step [OF k(1)] Let_def next_cell) (simp add: cell_def [of l w t p])
    have split: "[p..p + n - 1] = [p..p + k - 1] @ [p + k..p + n - 1]"
      using k by (intro upto_split) auto
    have "rect_paint ?r = map (\<lambda>c. (c, h)) (map (\<lambda>x. (x, t + p div w)) [l + p mod w..l + p mod w + k - 1])"
      by (simp add: rect_paint_def)
    also have "\<dots> = map (\<lambda>j. (cell l w t j, h)) [p..p + k - 1]"
      by (simp only: paint_stretch [OF w less.prems(1) k(1,3)]) simp
    finally have one: "rect_paint ?r = map (\<lambda>j. (cell l w t j, h)) [p..p + k - 1]" .
    show ?thesis
      using rs one split
      by (intro exI [of _ "(if ci \<noteq> Some 0 then [?r] else []) @ rs"])
         (simp only: unfold1, simp add: paint_def)
  qed
qed

section \<open>Drawing the runs of an encoded image\<close>

definition num_run :: "nat \<times> nat \<Rightarrow> jsnum \<times> jsnum" where
  "num_run run = (Some (int (fst run)), Some (int (snd run)))"

lemma num_run_pair [simp]: "num_run (n, c) = (Some (int n), Some (int c))"
  by (simp add: num_run_def)

text \<open>The cells from \<open>p\<close> on that hold a non-zero index, with the colour each index names.\<close>

definition coloured :: "(int \<Rightarrow> int \<times> int) \<Rightarrow> string list \<Rightarrow> int \<Rightarrow> nat list \<Rightarrow> ((int \<times> int) \<times> string option) list"
  where "coloured f pal p is =
    map (\<lambda>(k, c). (f k, palette_entry pal (Some (int c)))) (filter (\<lambda>(k, c). c \<noteq> 0) (zip [p..p + int (length is) - 1] is))"

lemma coloured_append: "coloured f pal p (is @ js) = coloured f pal p is @ coloured f pal (p + int (length is)) js"
proof -
  have "[p..p + int (length (is @ js)) - 1]
      = [p..p + int (length is) - 1] @ [p + int (length is)..p + int (length (is @ js)) - 1]"
    by (rule upto_split) auto
  then show ?thesis by (simp add: coloured_def zip_append1 ac_simps)
qed

lemma coloured_replicate:
  "coloured f pal p (replicate n c) =
     (if c = 0 then [] else map (\<lambda>k. (f k, palette_entry pal (Some (int c)))) [p..p + int n - 1])"
proof -
  have "zip [p..p + int n - 1] (replicate n c) = map (\<lambda>k. (k, c)) [p..p + int n - 1]"
    by (simp add: zip_replicate2)
  then show ?thesis by (simp add: coloured_def filter_map o_def)
qed

lemma draw_runs:
  assumes "l < r" "w = r - l" "n_left bd = Some l" "n_right bd = Some r" "0 \<le> p"
  shows "\<exists>st rs. draw_rects bd pal (map num_run runs)
      (Some (fst (cell l w t p)), Some (snd (cell l w t p)), acc) = Some (fst st, snd st, acc @ rs)
    \<and> paint rs = coloured (cell l w t) pal p (expand runs)"
  using assms(5)
proof (induction runs arbitrary: p acc)
  case Nil
  then show ?case by (simp add: coloured_def)
next
  case (Cons run runs)
  obtain n c where run: "run = (n, c)" by (cases run)
  obtain rs1 where rs1: "draw_loop (Some l) (Some r) (Some (int c)) (palette_entry pal (Some (int c)))
      (Some (fst (cell l w t p))) (Some (snd (cell l w t p))) (Some (int n))
      (getRectLength (Some (fst (cell l w t p))) (Some (int n)) (Some r)) acc
    = Some (Some (fst (cell l w t (p + int n))), Some (snd (cell l w t (p + int n))), acc @ rs1)"
    "paint rs1 = (if Some (int c) = Some 0 then [] else map (\<lambda>k. (cell l w t k, palette_entry pal (Some (int c)))) [p..p + int n - 1])"
    using draw_run [OF assms(1,2) Cons.prems, of "int n"] by (metis of_nat_0_le_iff)
  obtain st rs where rs: "draw_rects bd pal (map num_run runs)
      (Some (fst (cell l w t (p + int n))), Some (snd (cell l w t (p + int n))), acc @ rs1)
      = Some (fst st, snd st, (acc @ rs1) @ rs)"
    "paint rs = coloured (cell l w t) pal (p + int n) (expand runs)"
    using Cons.IH [of "p + int n" "acc @ rs1"] Cons.prems by auto
  show ?case
    using rs rs1 assms(3,4)
    by (intro exI [of _ st] exI [of _ "rs1 @ rs"])
       (simp add: run coloured_append coloured_replicate)
qed

lemma box_pixels_cells:
  assumes "b_left bd \<le> b_right bd" "b_top bd \<le> b_bottom bd"
  defines "w \<equiv> b_right bd - b_left bd"
  shows "box_pixels bd = map (cell (b_left bd) w (b_top bd)) [0..w * (b_bottom bd - b_top bd + 1) - 1]"
proof (cases "w = 0")
  case True
  then show ?thesis by (simp add: box_pixels_def w_def)
next
  case False
  with assms have w: "0 < w" by simp
  define t where "t = b_top bd"
  define row :: "int \<Rightarrow> (int \<times> int) list" where "row = (\<lambda>y. map (\<lambda>x. (x, y)) [b_left bd..b_right bd - 1])"
  have "concat (map row [t..t + int n - 1]) = map (cell (b_left bd) w t) [0..w * int n - 1]" for n
  proof (induction n)
    case (Suc n)
    have s: "[t..t + int (Suc n) - 1] = [t..t + int n - 1] @ [t + int n]"
      using upto_split [of t "t + int n" "t + int n"] by simp
    have c: "[0..w * int (Suc n) - 1] = [0..w * int n - 1] @ [w * int n..w * int n + w - 1]"
      using upto_split [of 0 "w * int n" "w * int n + w - 1"] w by (simp add: distrib_left add.commute)
    have "map (\<lambda>x. (x, t + w * int n div w)) [b_left bd + w * int n mod w..b_left bd + w * int n mod w + w - 1]
        = map (cell (b_left bd) w t) [w * int n..w * int n + w - 1]"
      using w by (intro paint_stretch) auto
    then have "row (t + int n) = map (cell (b_left bd) w t) [w * int n..w * int n + w - 1]"
      using w by (simp add: row_def) (simp add: w_def)
    with Suc s c show ?case by simp
  qed simp
  from this [of "nat (b_bottom bd - t + 1)"] assms show ?thesis
    by (simp add: box_pixels_def row_def t_def)
qed

lemma coloured_map:
  assumes "0 \<le> n"
  shows "coloured f pal 0 (map (\<lambda>k. g (f k)) [0..n - 1])
    = map (\<lambda>xy. (xy, palette_entry pal (Some (int (g xy))))) (filter (\<lambda>xy. g xy \<noteq> 0) (map f [0..n - 1]))"
proof -
  have "zip [0..n - 1] (map (\<lambda>k. g (f k)) [0..n - 1]) = map (\<lambda>k. (k, g (f k))) [0..n - 1]"
    by (simp add: zip_map2 zip_same_conv_map)
  then show ?thesis using assms by (simp add: coloured_def filter_map o_def)
qed

section \<open>Decoding what the encoder wrote\<close>

lemma match_chunks_concat:
  assumes "\<forall>x\<in>set xs. length x = 4 \<and> (\<forall>c\<in>set x. \<not> is_line_end c)"
  shows "match_chunks (concat xs) = xs"
  using assms
proof (induction xs)
  case (Cons x xs)
  then obtain a b c d where x: "x = [a, b, c, d]"
    by (auto simp: length_Suc_conv numeral_eq_Suc)
  with Cons show ?case by (simp add: Let_def)
qed simp

lemma digit_char_no_line_end: "d < 16 \<Longrightarrow> \<not> is_line_end (digit_char d)"
  using lt16_cases [of d] by (auto simp: digit_char_def is_line_end_def)

lemma toPaddedHex_no_line_end: "c \<in> set (toPaddedHex n 2) \<Longrightarrow> \<not> is_line_end c"
  using toPaddedHex_digits [of n] digit_char_no_line_end by auto

lemma hex_pair_chunks:
  assumes "\<forall>run\<in>set runs. fst run < 256 \<and> snd run < 256"
  shows "match_chunks (concat (map hex_pair runs)) = map hex_pair runs"
  using assms by (intro match_chunks_concat)
    (auto simp: hex_pair_def hex_simps dest: toPaddedHex_no_line_end)

lemma two_chars: "n < 256 \<Longrightarrow> \<exists>a b. toPaddedHex n 2 = [a, b]"
  using length_toPaddedHex [of n] by (auto simp: length_Suc_conv numeral_2_eq_2)

lemma hex_pair_decode:
  assumes "fst run < 256" "snd run < 256"
  shows "(parseInt (Some 16) (js_substring (hex_pair run) 0 2), parseInt (Some 16) (js_substring (hex_pair run) 2 4))
    = num_run run"
proof -
  obtain a b c d where ab: "toPaddedHex (fst run) 2 = [a, b]" "toPaddedHex (snd run) 2 = [c, d]"
    using assms two_chars by metis
  have "js_substring (hex_pair run) 0 2 = toPaddedHex (fst run) 2"
    "js_substring (hex_pair run) 2 4 = toPaddedHex (snd run) 2"
    by (simp_all add: hex_pair_def ab js_substring_def clamp_index_def)
  then show ?thesis by (cases run) (simp add: hex_simps)
qed

lemma decode_encoded:
  assumes bounds: "0 \<le> b_top bd" "b_top bd < 256" "0 \<le> b_right bd" "b_right bd < 256"
      "0 \<le> b_bottom bd" "b_bottom bd < 256" "0 \<le> b_left bd" "b_left bd < 256"
    and runs: "\<forall>run\<in>set runs. fst run < 256 \<and> snd run < 256"
  shows "decodeImage (''0x'' @ bounds_hex bd @ concat (map hex_pair runs)) =
    \<lparr>d_paletteIndex = Some 0,
     d_bounds = \<lparr>n_top = Some (b_top bd), n_right = Some (b_right bd), n_bottom = Some (b_bottom bd),
                 n_left = Some (b_left bd)\<rparr>,
     d_rects = map num_run runs\<rparr>"
proof -
  have lt: "nat (b_top bd) < 256" "nat (b_right bd) < 256" "nat (b_bottom bd) < 256" "nat (b_left bd) < 256"
    using bounds by auto
  obtain p p' t t' r r' b b' l l' where hex: "toPaddedHex 0 2 = [p, p']" "toPaddedHex (nat (b_top bd)) 2 = [t, t']"
    "toPaddedHex (nat (b_right bd)) 2 = [r, r']" "toPaddedHex (nat (b_bottom bd)) 2 = [b, b']"
    "toPaddedHex (nat (b_left bd)) 2 = [l, l']"
    using lt two_chars [of 0] two_chars by (metis zero_less_numeral)
  let ?body = "concat (map hex_pair runs)"
  let ?s = "bounds_hex bd @ ?body"
  have s: "?s = [p, p', t, t', r, r', b, b', l, l'] @ ?body"
    by (simp add: bounds_hex_def hex)
  have cuts: "js_substring ?s 0 2 = toPaddedHex 0 2" "js_substring ?s 2 4 = toPaddedHex (nat (b_top bd)) 2"
    "js_substring ?s 4 6 = toPaddedHex (nat (b_right bd)) 2" "js_substring ?s 6 8 = toPaddedHex (nat (b_bottom bd)) 2"
    "js_substring ?s 8 10 = toPaddedHex (nat (b_left bd)) 2" "js_substring_from ?s 10 = ?body"
    by (simp_all only: s hex) (simp_all add: js_substring_def js_substring_from_def clamp_index_def)
  have strip: "strip_0x (''0x'' @ ?s) = ?s" by (simp add: strip_0x_def)
  have rects: "map (\<lambda>rect. (parseInt (Some 16) (js_substring rect 0 2), parseInt (Some 16) (js_substring rect 2 4)))
      (match_chunks ?body) = map num_run runs"
    using runs by (simp only: hex_pair_chunks [OF runs] map_map) (simp add: hex_pair_decode)
  show ?thesis
    using bounds by (simp only: decodeImage_def strip Let_def cuts rects) (simp add: hex_simps)
qed

lemma encoded_index_bounds:
  assumes "palette_ok m'" "length m' \<le> 256"
    and "\<forall>xy\<in>set (box_pixels (calcBounds img)). jm_has m' (pixel_hex img (fst xy) (snd xy))"
  shows "\<forall>run\<in>set (runs_of (encoded_indexes img m')). fst run < 256 \<and> snd run < 256"
proof -
  have pos: "0 < length m'"
    using palette_get_iff [OF assms(1), of "[]" 0] assms(1) by (auto simp: palette_ok_def)
  have "pixel_index img m' xy < length m'" if "xy \<in> set (box_pixels (calcBounds img))" for xy
  proof -
    have "jm_has m' (pixel_hex img (fst xy) (snd xy))" by (rule bspec [OF assms(3) that])
    then obtain i where i: "jm_get m' (pixel_hex img (fst xy) (snd xy)) = Some i"
      unfolding jm_has_def by (cases "jm_get m' (pixel_hex img (fst xy) (snd xy))") simp_all
    then have "i < length m'" using palette_get_iff [OF assms(1)] by simp
    with i pos show ?thesis by (simp add: pixel_index_def)
  qed
  then have "\<forall>c\<in>set (encoded_indexes img m'). c < 256"
    using less_le_trans [OF _ assms(2)] by (auto simp: encoded_indexes_def)
  moreover have "\<forall>run\<in>set (runs_of (encoded_indexes img m')). snd run \<in> set (encoded_indexes img m')"
    using runs_of_colors by fastforce
  moreover have "\<forall>run\<in>set (runs_of (encoded_indexes img m')). fst run < 256"
    using runs_of_ok [of "encoded_indexes img m'"] unfolding run_ok_def by fastforce
  ultimately show ?thesis by blast
qed

lemma palette_entry_index:
  assumes "palette_ok m'" "palette_ok m2" "extends m' m2" "jm_has m' (pixel_hex img x y)"
    "rgba_a (im_getRgbaAt img x y) \<noteq> 0"
  shows "pixel_index img m' (x, y) \<noteq> 0"
    and "palette_entry (jm_keys m2) (Some (int (pixel_index img m' (x, y)))) = Some (pixel_hex img x y)"
proof -
  obtain i where i: "jm_get m' (pixel_hex img x y) = Some i" using assms(4) by (auto simp: jm_has_def)
  have g0: "jm_keys m' ! 0 = []"
    using palette_get_iff [OF assms(1), of "[]" 0] assms(1) by (simp add: palette_ok_def)
  from i palette_get_iff [OF assms(1)] have k: "i < length m'" "jm_keys m' ! i = pixel_hex img x y" by auto
  have "jm_get m2 (pixel_hex img x y) = Some i" using i assms(3) by (simp add: extends_def)
  then have k2: "i < length m2" "jm_keys m2 ! i = pixel_hex img x y"
    using palette_get_iff [OF assms(2)] by auto
  have "pixel_hex img x y \<noteq> []" by (simp add: pixel_hex_def Let_def)
  with k g0 have "i \<noteq> 0" by metis
  with i assms(5) show "pixel_index img m' (x, y) \<noteq> 0" by (simp add: pixel_index_def)
  from i assms(5) k2 show "palette_entry (jm_keys m2) (Some (int (pixel_index img m' (x, y)))) = Some (pixel_hex img x y)"
    by (simp add: pixel_index_def palette_entry_def jm_keys_def)
qed

section \<open>Encoder and builder together\<close>

text \<open>The opaque pixels of an image in row-major order, each with its colour.\<close>

definition opaque_pixels :: "image \<Rightarrow> ((int \<times> int) \<times> string option) list" where
  "opaque_pixels img =
     map (\<lambda>(x, y). ((x, y), Some (pixel_hex img x y)))
       (filter (\<lambda>(x, y). rgba_a (im_getRgbaAt img x y) \<noteq> 0) (box_pixels (calcBounds img)))"

lemma box_pixels_product:
  "box_pixels bd = map prod.swap (List.product [b_top bd..b_bottom bd] [b_left bd..b_right bd - 1])"
  by (simp add: box_pixels_def product_concat_map map_concat o_def)

lemma set_box_pixels:
  "(x, y) \<in> set (box_pixels bd) \<longleftrightarrow> b_left bd \<le> x \<and> x < b_right bd \<and> b_top bd \<le> y \<and> y \<le> b_bottom bd"
  by (auto simp: box_pixels_def image_iff)

lemma opaque_pixels_iff:
  assumes "size_ok img"
  shows "((x, y), h) \<in> set (opaque_pixels img) \<longleftrightarrow>
    0 \<le> x \<and> x < im_width img \<and> 0 \<le> y \<and> y < im_height img
      \<and> rgba_a (im_getRgbaAt img x y) \<noteq> 0 \<and> h = Some (pixel_hex img x y)"
proof -
  have "((x, y), h) \<in> set (opaque_pixels img) \<longleftrightarrow>
    (x, y) \<in> set (box_pixels (calcBounds img)) \<and> rgba_a (im_getRgbaAt img x y) \<noteq> 0 \<and> h = Some (pixel_hex img x y)"
    by (auto simp: opaque_pixels_def)
  then show ?thesis
    unfolding set_box_pixels
    using calcBounds_box [OF assms] calcBounds_covers [of x img y] by linarith
qed

lemma opaque_pixels_distinct: "distinct (map fst (opaque_pixels img))"
proof -
  have "distinct (box_pixels bd)" for bd
    unfolding box_pixels_product distinct_map by (auto intro!: distinct_product inj_onI)
  then show ?thesis
    by (simp add: opaque_pixels_def o_def case_prod_unfold)
qed

lemma part_rects_encoded:
  assumes ok: "palette_ok m" and enc: "toRLE img m = (img', m', rle)"
    and size: "size_ok img" and small: "length m' \<le> 256"
    and later: "palette_ok m2" "extends m' m2"
  shows "\<exists>rs. part_rects (jm_keys m2) rle = Some rs \<and> paint rs = opaque_pixels img"
proof -
  let ?bd = "calcBounds img"
  let ?idx = "encoded_indexes img m'"
  note spec = toRLE_spec [OF ok enc]
  note box = calcBounds_box [OF size]
  have dec: "decodeImage rle =
    \<lparr>d_paletteIndex = Some 0,
     d_bounds = \<lparr>n_top = Some (b_top ?bd), n_right = Some (b_right ?bd), n_bottom = Some (b_bottom ?bd),
                 n_left = Some (b_left ?bd)\<rparr>,
     d_rects = map num_run (runs_of ?idx)\<rparr>"
    unfolding spec(3)
    by (rule decode_encoded) (use box size encoded_index_bounds [OF spec(1) small spec(6)] in \<open>auto simp: size_ok_def\<close>)
  show ?thesis
  proof (cases "b_left ?bd = b_right ?bd")
    case True
    then have "box_pixels ?bd = []" by (simp add: box_pixels_def)
    then show ?thesis by (simp add: part_rects_def dec encoded_indexes_def opaque_pixels_def)
  next
    case False
    define w where "w = b_right ?bd - b_left ?bd"
    define f where "f = cell (b_left ?bd) w (b_top ?bd)"
    define n where "n = w * (b_bottom ?bd - b_top ?bd + 1)"
    have lr: "b_left ?bd < b_right ?bd" and n: "0 \<le> n" using False box by (auto simp: n_def w_def)
    have start: "f 0 = (b_left ?bd, b_top ?bd)" using lr by (simp add: f_def cell_def)
    have bp: "box_pixels ?bd = map f [0..n - 1]"
      using box_pixels_cells [of ?bd] box by (simp add: f_def n_def w_def)
    obtain st rs where rs: "draw_rects (d_bounds (decodeImage rle)) (jm_keys m2) (map num_run (runs_of ?idx))
        (Some (fst (f 0)), Some (snd (f 0)), []) = Some (fst st, snd st, [] @ rs)"
      "paint rs = coloured f (jm_keys m2) 0 (expand (runs_of ?idx))"
      using draw_runs [OF lr w_def, of "d_bounds (decodeImage rle)" 0 "jm_keys m2" "runs_of ?idx" "b_top ?bd" "[]"]
      unfolding f_def [symmetric] by (auto simp: dec)
    have "paint rs = map (\<lambda>xy. (xy, palette_entry (jm_keys m2) (Some (int (pixel_index img m' xy)))))
        (filter (\<lambda>xy. pixel_index img m' xy \<noteq> 0) (box_pixels ?bd))"
      unfolding rs(2) expand_runs_of encoded_indexes_def bp
      using coloured_map [OF n, of f "jm_keys m2" "pixel_index img m'"] by (simp add: o_def)
    also have "filter (\<lambda>xy. pixel_index img m' xy \<noteq> 0) (box_pixels ?bd)
        = filter (\<lambda>(x, y). rgba_a (im_getRgbaAt img x y) \<noteq> 0) (box_pixels ?bd)"
      using spec(6) palette_entry_index(1) [OF spec(1) later]
      by (intro filter_cong) (auto simp: pixel_index_def)
    also have "map (\<lambda>xy. (xy, palette_entry (jm_keys m2) (Some (int (pixel_index img m' xy))))) \<dots> = opaque_pixels img"
      unfolding opaque_pixels_def using spec(6) palette_entry_index(2) [OF spec(1) later]
      by (intro map_cong) auto
    finally show ?thesis
      using rs(1) by (simp add: part_rects_def dec start Let_def)
  qed
qed

section \<open>When the builder returns\<close>

text \<open>With numeric bounds the pen stays on a line of the box.\<close>

definition pen_ok :: "int \<Rightarrow> int \<Rightarrow> jsnum \<Rightarrow> bool" where
  "pen_ok l r x = (case x of None \<Rightarrow> False | Some x' \<Rightarrow> l \<le> x' \<and> x' < r)"

lemma draw_loop_pen:
  assumes "l < r" "pen_ok l r cx"
  shows "\<exists>x y rs. draw_loop (Some l) (Some r) ci h cx cy (Some d) (getRectLength cx (Some d) (Some r)) acc
    = Some (x, y, rs) \<and> pen_ok l r x"
  using assms(2)
proof (induction "nat d" arbitrary: d cx cy acc rule: less_induct)
  case less
  let ?len = "getRectLength cx (Some d) (Some r)"
  show ?case
  proof (cases "num_pos ?len")
    case True
    with less.prems assms(1) obtain k x where k: "?len = Some k" "0 < k" "k \<le> d" "cx = Some x" "l \<le> x" "x + k \<le> r"
      by (auto simp: getRectLength_def num_defs Let_def pen_ok_def split: option.splits if_splits)
    let ?x = "if num_eq (num_add cx ?len) (Some r) then Some l else num_add cx ?len"
    have pen: "pen_ok l r ?x" using k assms(1) by (auto simp: num_defs pen_ok_def)
    have dec: "nat (d - k) < nat d" using k by simp
    have sub: "num_sub (Some d) ?len = Some (d - k)" using k by (simp add: num_defs)
    show ?thesis
      by (subst draw_loop.simps) (simp only: True if_True Let_def sub, rule less.hyps [OF dec pen])
  qed (use less.prems in \<open>subst draw_loop.simps, simp\<close>)
qed

lemma draw_rects_iff:
  assumes "l < r" "n_left bd = Some l" "n_right bd = Some r" "pen_ok l r (fst st)"
  shows "draw_rects bd pal rects st \<noteq> None \<longleftrightarrow> (\<forall>rect\<in>set rects. fst rect \<noteq> None)"
  using assms(2-4)
proof (induction bd pal rects st rule: draw_rects.induct)
  case (2 bd pal dl ci rects cx cy acc)
  show ?case
  proof (cases dl)
    case None
    with "2.prems" assms(1) show ?thesis
      by (auto simp: pen_ok_def draw_loop_diverges split: option.splits)
  next
    case (Some d)
    obtain x y rs where step: "draw_loop (Some l) (Some r) ci (palette_entry pal ci) cx cy (Some d)
        (getRectLength cx (Some d) (Some r)) acc = Some (x, y, rs)" "pen_ok l r x"
      using draw_loop_pen [OF assms(1), of cx ci "palette_entry pal ci" cy d acc] "2.prems" by auto
    with 2 Some show ?thesis by simp
  qed
qed simp

section \<open>Properties\<close>

definition sample_image :: image where
  "sample_image = new_Image 3 2 (\<lambda>x y. if y = 0 \<and> x > 0
     then \<lparr>rgba_r = 255, rgba_g = 0, rgba_b = 16, rgba_a = 255\<rparr>
     else \<lparr>rgba_r = 7, rgba_g = 7, rgba_b = 7, rgba_a = 0\<rparr>)"

definition sample_rle :: "image \<times> (string, nat) jsmap \<times> string" where
  "sample_rle = toRLE sample_image [([], 0)]"

lemma sample_run:
  "toRLE sample_image [([], 0)] = (fst sample_rle, fst (snd sample_rle), snd (snd sample_rle))"
  by (simp add: sample_rle_def)

lemma sample_ok: "palette_ok [([], 0)]" "size_ok sample_image" "length (fst (snd sample_rle)) \<le> 256"
  "palette_ok (fst (snd sample_rle))" "im_tuples sample_image = []"
  by code_simp+

text \<open>
  C6. Encoding an image with \<open>toRLE\<close> and drawing the result with \<open>buildSVG\<close>'s per-part loop, with the
  palette of that moment or any later one that extends it, terminates and paints every opaque pixel
  of the image exactly once, at its place and in its colour, and nothing else.
\<close>

theorem svg_paints_image:
  assumes "palette_ok m" "toRLE img m = (img', m', rle)" "size_ok img" "length m' \<le> 256"
    and "palette_ok m2" "extends m' m2"
  shows "\<exists>rs. part_rects (jm_keys m2) rle = Some rs \<and> distinct (map fst (paint rs))
    \<and> (\<forall>x y h. ((x, y), h) \<in> set (paint rs) \<longleftrightarrow>
         0 \<le> x \<and> x < im_width img \<and> 0 \<le> y \<and> y < im_height img
         \<and> rgba_a (im_getRgbaAt img x y) \<noteq> 0 \<and> h = Some (pixel_hex img x y))"
  using part_rects_encoded [OF assms] opaque_pixels_iff [OF assms(3)] opaque_pixels_distinct by metis

theorem svg_paints_image_witness:
  "\<exists>rs. part_rects (jm_keys (fst (snd sample_rle))) (snd (snd sample_rle)) = Some rs
    \<and> distinct (map fst (paint rs))
    \<and> (\<forall>x y h. ((x, y), h) \<in> set (paint rs) \<longleftrightarrow>
         0 \<le> x \<and> x < im_width sample_image \<and> 0 \<le> y \<and> y < im_height sample_image
         \<and> rgba_a (im_getRgbaAt sample_image x y) \<noteq> 0 \<and> h = Some (pixel_hex sample_image x y))"
  by (rule svg_paints_image [OF sample_ok(1) sample_run sample_ok(2,3,4)]) (simp add: extends_def)

text \<open>
  C7. The string \<open>toRLE\<close> returns decodes to the bounds it stored and to runs that expand to the
  colour indexes of the box's pixels in row-major order; each run is one to 255 pixels long and no two
  neighbouring runs could have been merged. The stored \<open>tuples\<close> are these runs without the last one.
\<close>

theorem toRLE_roundtrip:
  assumes "palette_ok m" "toRLE img m = (img', m', rle)" "size_ok img" "length m' \<le> 256"
    "im_tuples img = []"
  shows "\<exists>runs. decodeImage rle =
      \<lparr>d_paletteIndex = Some 0,
       d_bounds = \<lparr>n_top = Some (b_top (im_bounds img')), n_right = Some (b_right (im_bounds img')),
          n_bottom = Some (b_bottom (im_bounds img')), n_left = Some (b_left (im_bounds img'))\<rparr>,
       d_rects = map num_run runs\<rparr>
      \<and> expand runs = map (pixel_index img m') (box_pixels (im_bounds img'))
      \<and> (\<forall>run\<in>set runs. run_ok run) \<and> maximal_runs runs \<and> im_tuples img' = butlast runs"
proof -
  note spec = toRLE_spec [OF assms(1,2)]
  let ?runs = "runs_of (encoded_indexes img m')"
  have dec: "decodeImage rle = \<lparr>d_paletteIndex = Some 0,
     d_bounds = \<lparr>n_top = Some (b_top (calcBounds img)), n_right = Some (b_right (calcBounds img)),
        n_bottom = Some (b_bottom (calcBounds img)), n_left = Some (b_left (calcBounds img))\<rparr>,
     d_rects = map num_run ?runs\<rparr>"
    unfolding spec(3)
    by (rule decode_encoded)
      (use calcBounds_box [OF assms(3)] assms(3) encoded_index_bounds [OF spec(1) assms(4) spec(6)] in \<open>auto simp: size_ok_def\<close>)
  show ?thesis
    using spec(4,5) assms(5) runs_of_ok runs_of_maximal
    by (intro exI [of _ ?runs]) (simp add: dec expand_runs_of encoded_indexes_def)
qed

theorem toRLE_roundtrip_witness:
  "\<exists>runs. decodeImage (snd (snd sample_rle)) =
      \<lparr>d_paletteIndex = Some 0,
       d_bounds = \<lparr>n_top = Some (b_top (im_bounds (fst sample_rle))), n_right = Some (b_right (im_bounds (fst sample_rle))),
          n_bottom = Some (b_bottom (im_bounds (fst sample_rle))), n_left = Some (b_left (im_bounds (fst sample_rle)))\<rparr>,
       d_rects = map num_run runs\<rparr>
      \<and> expand runs = map (pixel_index sample_image (fst (snd sample_rle))) (box_pixels (im_bounds (fst sample_rle)))
      \<and> (\<forall>run\<in>set runs. run_ok run) \<and> maximal_runs runs \<and> im_tuples (fst sample_rle) = butlast runs"
  by (rule toRLE_roundtrip [OF sample_ok(1) sample_run sample_ok(2,3,5)])

text \<open>
  C38. Drawing a part whose bounds are numbers with a positive width returns exactly when every run
  length in it is a number: one that \<open>parseInt\<close> reads as \<open>NaN\<close> makes the inner loop run forever.
\<close>

theorem part_rects_returns_iff:
  assumes "n_left (d_bounds (decodeImage data)) = Some l" "n_right (d_bounds (decodeImage data)) = Some r" "l < r"
  shows "part_rects pal data \<noteq> None \<longleftrightarrow> (\<forall>rect\<in>set (d_rects (decodeImage data)). fst rect \<noteq> None)"
  using draw_rects_iff [OF assms(3,1,2), of "(Some l, n_top (d_bounds (decodeImage data)), [])" pal "d_rects (decodeImage data)"] assms
  by (simp add: part_rects_def Let_def pen_ok_def)

theorem part_rects_returns_iff_witness:
  "part_rects [[]] ''0x000002010001010101'' \<noteq> None \<and> part_rects [[]] ''0x00000201000101zz01'' = None"
proof -
  have a: "n_left (d_bounds (decodeImage ''0x000002010001010101'')) = Some 0"
    "n_right (d_bounds (decodeImage ''0x000002010001010101'')) = Some 2"
    "\<forall>rect\<in>set (d_rects (decodeImage ''0x000002010001010101'')). fst rect \<noteq> None"
    by code_simp+
  have b: "n_left (d_bounds (decodeImage ''0x00000201000101zz01'')) = Some 0"
    "n_right (d_bounds (decodeImage ''0x00000201000101zz01'')) = Some 2"
    "\<not> (\<forall>rect\<in>set (d_rects (decodeImage ''0x00000201000101zz01'')). fst rect \<noteq> None)"
    by code_simp+
  show ?thesis
    using part_rects_returns_iff [OF a(1,2), where pal = "[[]]"] a(3)
      part_rects_returns_iff [OF b(1,2), where pal = "[[]]"] b(3) by (simp del: not_None_eq)
qed

end
