(* ===== verification/Sdk_Collection.thy ===== *)
theory Sdk_Collection
  imports Sdk_Svg
begin

text \<open>
  The collection encoder of the SDK (\<open>nouns-sdk/src/image/png-collection-encoder.ts\<close>) and the asset
  scripts that drive it (\<open>nouns-assets/scripts\<close>): one colour table shared by all images of a
  collection, the images by name, and the names by folder. The PNG decoder and the file system are
  not under \<open>src/\<close>: a decoded PNG is a width, a height and its bytes, a directory a list of files.
\<close>

section \<open>PNGCollectionEncoder\<close>

record png_image =
  png_width :: int
  png_height :: int
  png_rgbaAt :: "int \<Rightarrow> int \<Rightarrow> rgba"

text \<open>A file of a collection; \<open>None\<close> is the \<open>undefined\<close> a name that is no longer in the table gives.\<close>

type_synonym encoded_image = "string \<times> string option"

record encoder =
  enc_colors :: "(string, nat) jsmap"
  enc_images :: "(string, string) jsmap"
  enc_folders :: "(string, string list) jsmap"

definition new_encoder :: "string list option \<Rightarrow> encoder" where
  "new_encoder colors =
     \<lparr>enc_colors = (case colors of
          None \<Rightarrow> [([], 0)]
        | Some cs \<Rightarrow> fold (\<lambda>(index, color). jm_set color index) (zip [0..<length cs] cs) [([], 0)]),
      enc_images = [], enc_folders = []\<rparr>"

definition encodeImage :: "string \<Rightarrow> png_image \<Rightarrow> string option \<Rightarrow> encoder \<Rightarrow> encoder \<times> string" where
  "encodeImage name png folder e =
     (let image = new_Image (png_width png) (png_height png) (png_rgbaAt png);
          (_, colors', rle) = toRLE image (enc_colors e);
          images' = jm_set name rle (enc_images e);
          folders' = (case folder of
              Some f \<Rightarrow> if f \<noteq> [] then jm_set f (case jm_get (enc_folders e) f of None \<Rightarrow> [name] | Some ns \<Rightarrow> ns @ [name]) (enc_folders e)
                        else enc_folders e
            | None \<Rightarrow> enc_folders e)
      in (\<lparr>enc_colors = colors', enc_images = images', enc_folders = folders'\<rparr>, rle))"

text \<open>\<open>format\<close>: each folder takes its files out of a copy of the table; the rest goes to \<open>root\<close>.\<close>

definition take_file ::
  "string \<Rightarrow> (string, string) jsmap \<times> encoded_image list \<Rightarrow> (string, string) jsmap \<times> encoded_image list" where
  "take_file filename st = (jm_delete filename (fst st), snd st @ [(filename, jm_get (fst st) filename)])"

definition take_folder ::
  "string \<times> string list \<Rightarrow> (string, string) jsmap \<times> (string, encoded_image list) jsmap
     \<Rightarrow> (string, string) jsmap \<times> (string, encoded_image list) jsmap" where
  "take_folder fo st =
     (let (images', files) = fold take_file (snd fo) (fst st, [])
      in (images', jm_set (fst fo) files (snd st)))"

definition format_images :: "bool \<Rightarrow> encoder \<Rightarrow> (string, encoded_image list) jsmap" where
  "format_images flatten e =
     (let (images, data) =
            (if \<not> flatten \<and> enc_folders e \<noteq> [] then fold take_folder (enc_folders e) (enc_images e, [])
             else (enc_images e, []))
      in if images \<noteq> [] then jm_set ''root'' (map (\<lambda>(filename, d). (filename, Some d)) images) data else data)"

definition get_images :: "encoder \<Rightarrow> encoded_image list option" where
  "get_images e = jm_get (format_images True e) ''root''"

record image_data =
  id_palette :: "string list"
  id_images :: "(string, encoded_image list) jsmap"

definition get_data :: "encoder \<Rightarrow> image_data" where
  "get_data e = \<lparr>id_palette = jm_keys (enc_colors e), id_images = format_images False e\<rparr>"

section \<open>The scripts of the asset package\<close>

text \<open>\<open>readPngImage\<close>: the accessor over the four bytes per pixel the PNG decoder returns.\<close>

record png_bytes =
  pb_width :: int
  pb_height :: int
  pb_data :: "nat list"

definition readPngImage :: "png_bytes \<Rightarrow> png_image" where
  "readPngImage png =
     \<lparr>png_width = pb_width png, png_height = pb_height png,
      png_rgbaAt = (\<lambda>x y.
        let idx = nat ((pb_width png * y + x) * 4)
        in \<lparr>rgba_r = pb_data png ! idx, rgba_g = pb_data png ! (idx + 1),
            rgba_b = pb_data png ! (idx + 2), rgba_a = pb_data png ! (idx + 3)\<rparr>)\<rparr>"

definition strip_png :: "string \<Rightarrow> string" where
  "strip_png file =
     (if 4 \<le> length file \<and> drop (length file - 4) file = ''.png'' then take (length file - 4) file else file)"

definition strip_number :: "string \<Rightarrow> string" where
  "strip_number folder =
     (case folder of d # m # rest \<Rightarrow> if is_digit 10 d \<and> m = CHR ''-'' then rest else folder | _ \<Rightarrow> folder)"

definition partfolders :: "string list" where
  "partfolders = [''1-bodies'', ''2-accessories'', ''3-heads'', ''4-glasses'']"

text \<open>\<open>dirs folder\<close>: what \<open>readdir\<close> lists in a part folder, with each file's decoded content.\<close>

type_synonym dirs = "string \<Rightarrow> (string \<times> png_bytes) list"

definition encode_files :: "(string \<Rightarrow> bool) \<Rightarrow> dirs \<Rightarrow> encoder \<Rightarrow> encoder" where
  "encode_files skip dirs e =
     fold (\<lambda>folder. fold (\<lambda>(file, png) e.
         if skip file then e
         else fst (encodeImage (strip_png file) (readPngImage png) (Some (strip_number folder)) e))
       (dirs folder)) partfolders e"

definition encode_bgcolors :: "string list" where
  "encode_bgcolors = [''63a0f9'', ''018146'', ''000000'', ''76858b'', ''f8d689'', ''d5d7e1'', ''e1d7d5'']"

definition encode_script :: "dirs \<Rightarrow> string list \<times> image_data" where
  "encode_script dirs = (encode_bgcolors, get_data (encode_files (\<lambda>_. False) dirs (new_encoder None)))"

datatype encode_error = PaletteChanged

definition encode_more :: "string list \<Rightarrow> dirs \<Rightarrow> encode_error + (string, encoded_image list) jsmap" where
  "encode_more palette dirs =
     (let encoder = encode_files (\<lambda>file. file = ''.gitkeep'') dirs (new_encoder (Some palette))
      in if id_palette (get_data encoder) \<noteq> palette then Inl PaletteChanged
         else Inr (id_images (get_data encoder)))"

text \<open>\<open>append-image-data.ts\<close>: a key the base file lacks makes \<open>push\<close> raise (\<open>None\<close>).\<close>

fun merge_images ::
  "(string \<times> encoded_image list) list \<Rightarrow> (string, encoded_image list) jsmap \<Rightarrow> (string, encoded_image list) jsmap option"
  where
  "merge_images [] base = Some base"
| "merge_images ((k, v) # rest) base =
     (case jm_get base k of None \<Rightarrow> None | Some old \<Rightarrow> merge_images rest (jm_set k (old @ v) base))"

definition merge :: "image_data \<Rightarrow> image_data \<Rightarrow> image_data option" where
  "merge baseData newData =
     map_option (\<lambda>images. baseData\<lparr>id_images := images\<rparr>) (merge_images (id_images newData) (id_images baseData))"

section \<open>The colour table of a collection\<close>

record encode_call =
  ec_name :: string
  ec_png :: png_image
  ec_folder :: "string option"

definition encode_step :: "encode_call \<Rightarrow> encoder \<Rightarrow> encoder" where
  "encode_step c e = fst (encodeImage (ec_name c) (ec_png c) (ec_folder c) e)"

definition png_Image :: "png_image \<Rightarrow> image" where
  "png_Image png = new_Image (png_width png) (png_height png) (png_rgbaAt png)"

lemma encode_step_simps:
  assumes "toRLE (png_Image (ec_png c)) (enc_colors e) = (i, m', rle)"
  shows "enc_colors (encode_step c e) = m'" "enc_images (encode_step c e) = jm_set (ec_name c) rle (enc_images e)"
  using assms by (simp_all add: encode_step_def encodeImage_def png_Image_def)

lemma toRLE_cases: obtains i m' rle where "toRLE img m = (i, m', rle)"
  by (cases "toRLE img m") auto

lemma encode_step_palette:
  assumes "palette_ok (enc_colors e)"
  shows "palette_ok (enc_colors (encode_step c e))" "extends (enc_colors e) (enc_colors (encode_step c e))"
proof -
  obtain i m' rle where t: "toRLE (png_Image (ec_png c)) (enc_colors e) = (i, m', rle)" by (rule toRLE_cases)
  from toRLE_spec(1,2) [OF assms t] encode_step_simps(1) [OF t]
  show "palette_ok (enc_colors (encode_step c e))" "extends (enc_colors e) (enc_colors (encode_step c e))" by simp_all
qed

interpretation encoding: reducer encode_step "\<lambda>_. True" "\<lambda>e. palette_ok (enc_colors e)"
  by unfold_locales (rule encode_step_palette(1))

lemma extends_refl [simp]: "extends m m"
  by (simp add: extends_def)

lemma encode_steps_extend:
  "palette_ok (enc_colors e) \<Longrightarrow> extends (enc_colors e) (enc_colors (fold encode_step cs e))"
proof (induction cs arbitrary: e)
  case (Cons c cs)
  from Cons.IH [OF encode_step_palette(1) [OF Cons.prems]] encode_step_palette(2) [OF Cons.prems]
  show ?case by (auto intro: extends_trans)
qed simp

lemma encode_steps_images:
  "jm_get (enc_images (fold encode_step cs e)) n =
     (if n \<in> ec_name ` set cs then jm_get (enc_images (fold encode_step cs e)) n else jm_get (enc_images e) n)"
proof (induction cs arbitrary: e)
  case (Cons c cs)
  obtain i m' rle where t: "toRLE (png_Image (ec_png c)) (enc_colors e) = (i, m', rle)" by (rule toRLE_cases)
  show ?case
    using Cons [of "encode_step c e"] encode_step_simps(2) [OF t] by (auto simp: store_simps)
qed simp

lemma extends_length:
  assumes "palette_ok m" "palette_ok m'" "extends m m'"
  shows "length m \<le> length m'"
proof (cases "length m")
  case (Suc k)
  then have "jm_get m (jm_keys m ! k) = Some k" using palette_get_iff [OF assms(1)] by simp
  with assms(3) have "jm_get m' (jm_keys m ! k) = Some k" by (simp add: extends_def)
  with palette_get_iff [OF assms(2)] Suc show ?thesis by simp
qed simp

text \<open>Every image of a collection is the encoding of its PNG under a table the final one extends.\<close>

lemma collection_image:
  assumes "palette_ok (enc_colors e)" "distinct (map ec_name cs)" "c \<in> set cs"
  shows "\<exists>m i m' rle. palette_ok m \<and> toRLE (png_Image (ec_png c)) m = (i, m', rle)
    \<and> jm_get (enc_images (fold encode_step cs e)) (ec_name c) = Some rle
    \<and> palette_ok m' \<and> extends m' (enc_colors (fold encode_step cs e))"
  using assms
proof (induction cs arbitrary: e)
  case (Cons d cs)
  note pal = encode_step_palette(1) [OF Cons.prems(1)]
  show ?case
  proof (cases "c = d")
    case True
    obtain i m' rle where t: "toRLE (png_Image (ec_png c)) (enc_colors e) = (i, m', rle)" by (rule toRLE_cases)
    note st = encode_step_simps [OF t]
    have "jm_get (enc_images (fold encode_step cs (encode_step c e))) (ec_name c) = Some rle"
      using encode_steps_images [of cs "encode_step c e" "ec_name c"] Cons.prems(2) True st(2)
      by (simp add: store_simps image_iff)
    moreover have "extends m' (enc_colors (fold encode_step cs (encode_step c e)))"
      using encode_steps_extend [of "encode_step c e" cs] pal st(1) True by simp
    ultimately show ?thesis using t True Cons.prems(1) pal st(1) by auto
  next
    case False
    with Cons pal show ?thesis by auto
  qed
qed simp

definition png_ok :: "png_image \<Rightarrow> bool" where
  "png_ok png \<longleftrightarrow> 0 < png_width png \<and> png_width png \<le> 255 \<and> 0 < png_height png \<and> png_height png \<le> 255"

lemma png_ok_size: "png_ok png \<Longrightarrow> size_ok (png_Image png)"
  by (simp add: png_ok_def size_ok_def png_Image_def new_Image_def)

lemma palette_ok_new: "palette_ok (enc_colors (new_encoder None))"
  by (simp add: new_encoder_def palette_ok_def jm_get_def)

text \<open>The palette a finished collection stores can seed another encoder.\<close>

lemma seed_palette:
  assumes "distinct ([] # cs)"
  shows "palette_ok (enc_colors (new_encoder (Some ([] # cs)))) \<and> jm_keys (enc_colors (new_encoder (Some ([] # cs)))) = [] # cs"
proof -
  have "palette_ok (fold (\<lambda>(i, c). jm_set c i) (zip [1..<Suc (length cs)] cs) [([], 0)])
      \<and> jm_keys (fold (\<lambda>(i, c). jm_set c i) (zip [1..<Suc (length cs)] cs) [([], 0)]) = [] # cs"
    using assms
  proof (induction cs rule: rev_induct)
    case (snoc x xs)
    let ?m = "fold (\<lambda>(i, c). jm_set c i) (zip [1..<Suc (length xs)] xs) [([], 0)]"
    have ih: "palette_ok ?m" "jm_keys ?m = [] # xs" using snoc by auto
    have "length ?m = Suc (length xs)" using arg_cong [OF ih(2), of length] by (simp add: jm_keys_def)
    moreover have "\<not> jm_has ?m x"
      unfolding jm_has_keys ih(2) using snoc.prems by auto
    moreover have "x \<noteq> []" using snoc.prems by auto
    moreover have "zip [1..<Suc (length (xs @ [x]))] (xs @ [x]) = zip [1..<Suc (length xs)] xs @ [(Suc (length xs), x)]"
      using zip_append [of "[1..<Suc (length xs)]" xs "[Suc (length xs)]" "[x]"]
        upt_Suc_append [of 1 "Suc (length xs)"] by (simp del: upt_Suc)
    ultimately show ?case
      using palette_ok_push [OF ih(1), of x] ih snoc.prems by (simp add: jm_keys_set_fresh del: upt_Suc)
  qed (simp add: palette_ok_def jm_get_def jm_keys_def)
  moreover have "zip [0..<length ([] # cs)] ([] # cs) = (0, []) # zip [1..<Suc (length cs)] cs"
    using upt_conv_Cons [of 0 "Suc (length cs)"] by (simp del: upt_Suc)
  ultimately show ?thesis by (simp add: new_encoder_def jm_set_def del: upt_Suc)
qed

section \<open>Folders\<close>

lemma take_files:
  "distinct ns \<Longrightarrow> fold take_file ns (images, acc) =
     (fold jm_delete ns images, acc @ map (\<lambda>n. (n, jm_get images n)) ns)"
proof (induction ns arbitrary: images acc)
  case (Cons n ns)
  then have "fold take_file ns (jm_delete n images, acc @ [(n, jm_get images n)])
      = (fold jm_delete ns (jm_delete n images), (acc @ [(n, jm_get images n)]) @ map (\<lambda>n'. (n', jm_get (jm_delete n images) n')) ns)"
    by simp
  moreover have "map (\<lambda>n'. (n', jm_get (jm_delete n images) n')) ns = map (\<lambda>n'. (n', jm_get images n')) ns"
    using Cons.prems by (auto simp: store_simps)
  moreover have "take_file n (images, acc) = (jm_delete n images, acc @ [(n, jm_get images n)])"
    by (simp add: take_file_def)
  ultimately show ?case by simp
qed simp

lemma get_fold_delete: "jm_get (fold jm_delete ns images) n = (if n \<in> set ns then None else jm_get images n)"
  by (induction ns arbitrary: images) (auto simp: store_simps)

lemma take_folders:
  assumes "distinct (map fst fos)" "distinct (concat (map snd fos))"
  shows "jm_get (snd (fold take_folder fos (images, data))) f =
    (case map_of fos f of Some ns \<Rightarrow> Some (map (\<lambda>n. (n, jm_get images n)) ns) | None \<Rightarrow> jm_get data f)"
  using assms
proof (induction fos arbitrary: images data)
  case (Cons fo fos)
  obtain g ns where fo: "fo = (g, ns)" by (cases fo)
  let ?images = "fold jm_delete ns images"
  have step: "take_folder fo (images, data) = (?images, jm_set g (map (\<lambda>n. (n, jm_get images n)) ns) data)"
    using Cons.prems by (simp add: take_folder_def fo take_files)
  have same: "map (\<lambda>n. (n, jm_get ?images n)) ms = map (\<lambda>n. (n, jm_get images n)) ms"
    if "map_of fos f = Some ms" for ms
  proof -
    from that have "(f, ms) \<in> set fos" by (rule map_of_SomeD)
    then have "set ms \<subseteq> set (concat (map snd fos))" by force
    with Cons.prems show ?thesis by (auto simp: fo get_fold_delete)
  qed
  have "map_of fos g = None" using Cons.prems by (auto simp: fo map_of_eq_None_iff)
  with Cons step same show ?case
    by (auto simp: fo store_simps split: option.splits)
qed simp

definition names_in :: "string \<Rightarrow> encode_call list \<Rightarrow> string list" where
  "names_in f cs = map ec_name (filter (\<lambda>c. ec_folder c = Some f) cs)"

definition folders_match :: "encode_call list \<Rightarrow> (string, string list) jsmap \<Rightarrow> bool" where
  "folders_match cs fos \<longleftrightarrow> distinct (map fst fos)
     \<and> (\<forall>f. f \<noteq> [] \<longrightarrow> map_of fos f = (if names_in f cs = [] then None else Some (names_in f cs)))
     \<and> [] \<notin> fst ` set fos"

lemma folders_step:
  assumes "folders_match cs (enc_folders e)"
  shows "folders_match (cs @ [c]) (enc_folders (encode_step c e))"
proof -
  have f: "enc_folders (encode_step c e) = (case ec_folder c of
      Some f \<Rightarrow> if f \<noteq> [] then jm_set f (case jm_get (enc_folders e) f of None \<Rightarrow> [ec_name c] | Some ns \<Rightarrow> ns @ [ec_name c]) (enc_folders e)
                else enc_folders e
    | None \<Rightarrow> enc_folders e)"
    by (simp add: encode_step_def encodeImage_def Let_def split: prod.splits)
  show ?thesis
  proof (cases "\<exists>f. ec_folder c = Some f \<and> f \<noteq> []")
    case True
    then obtain f where c: "ec_folder c = Some f" "f \<noteq> []" by auto
    let ?v = "case jm_get (enc_folders e) f of None \<Rightarrow> [ec_name c] | Some ns \<Rightarrow> ns @ [ec_name c]"
    have v: "?v = names_in f (cs @ [c])"
      using assms c by (simp add: folders_match_def jm_get_def names_in_def)
    have get: "map_of (enc_folders (encode_step c e)) = (map_of (enc_folders e))(f \<mapsto> names_in f (cs @ [c]))"
      using c v by (simp add: f jm_set_def update_conv')
    have names: "names_in g (cs @ [c]) = names_in g cs" if "g \<noteq> f" for g
      using that c by (simp add: names_in_def)
    have "names_in f (cs @ [c]) \<noteq> []" using c by (simp add: names_in_def)
    moreover have "distinct (map fst (enc_folders (encode_step c e)))"
      using assms c by (simp add: f jm_set_def folders_match_def distinct_update)
    moreover have "[] \<notin> fst ` set (enc_folders (encode_step c e))"
      using assms c by (simp add: f jm_set_def folders_match_def dom_update)
    ultimately show ?thesis
      using assms names by (auto simp: folders_match_def get)
  next
    case False
    then have "enc_folders (encode_step c e) = enc_folders e" by (auto simp: f split: option.splits)
    with assms False show ?thesis by (auto simp: folders_match_def names_in_def)
  qed
qed

lemma folders_run: "enc_folders e = [] \<Longrightarrow> folders_match cs (enc_folders (fold encode_step cs e))"
proof (induction cs rule: rev_induct)
  case Nil
  then show ?case by (simp add: folders_match_def names_in_def)
qed (simp add: folders_step)

lemma folders_distinct:
  assumes "folders_match cs fos" "distinct (map ec_name cs)"
  shows "distinct (concat (map snd fos))"
proof -
  have get: "ns = names_in f cs \<and> f \<noteq> []" if "(f, ns) \<in> set fos" for f ns
  proof -
    have "f \<noteq> []" using that assms(1) by (force simp: folders_match_def)
    moreover have "map_of fos f = Some ns"
      using that assms(1) by (auto simp: folders_match_def intro: map_of_is_SomeI)
    ultimately show ?thesis
      using assms(1) unfolding folders_match_def by (metis option.distinct(1) option.inject)
  qed
  have dis: "distinct (names_in f cs)" for f
    using assms(2) by (simp add: names_in_def distinct_map_filter)
  have inj: "inj_on ec_name (set cs)" using assms(2) by (simp add: distinct_map)
  have disj: "set (names_in f cs) \<inter> set (names_in g cs) = {}" if "f \<noteq> g" for f g
  proof -
    have False if "c \<in> set cs" "d \<in> set cs" "ec_name c = ec_name d" "ec_folder c = Some f" "ec_folder d = Some g" for c d
      using inj_onD [OF inj that(3,1,2)] that(4,5) \<open>f \<noteq> g\<close> by simp
    then show ?thesis by (fastforce simp: names_in_def)
  qed
  from assms(1) have "distinct (map fst fos)" by (simp add: folders_match_def)
  with get show ?thesis
  proof (induction fos)
    case (Cons fo fos)
    obtain f ns where fo: "fo = (f, ns)" by (cases fo)
    have ns: "ns = names_in f cs" using Cons.prems(1) [of f ns] by (simp add: fo)
    have "set ns \<inter> set (concat (map snd fos)) = {}"
    proof (rule ccontr)
      assume "\<not> ?thesis"
      then obtain g ms n where g: "(g, ms) \<in> set fos" "n \<in> set ns" "n \<in> set ms" by auto
      then have "ms = names_in g cs" using Cons.prems(1) by auto
      moreover have "g \<noteq> f" using g Cons.prems(2) by (force simp: fo)
      ultimately show False using g disj [of g f] ns by auto
    qed
    moreover have "distinct (concat (map snd fos))"
      by (rule Cons.IH) (use Cons.prems in auto)
    moreover have "distinct ns" using dis ns by simp
    ultimately show ?case by (simp add: fo)
  qed simp
qed

lemma folder_files:
  assumes "enc_folders e = []" "distinct (map ec_name cs)" "f \<noteq> []" "f \<noteq> ''root''" "names_in f cs \<noteq> []"
  shows "jm_get (id_images (get_data (fold encode_step cs e))) f
    = Some (map (\<lambda>n. (n, jm_get (enc_images (fold encode_step cs e)) n)) (names_in f cs))"
proof -
  let ?e = "fold encode_step cs e"
  note m = folders_run [OF assms(1), of cs]
  from m assms(3,5) have get: "map_of (enc_folders ?e) f = Some (names_in f cs)" by (simp add: folders_match_def)
  then have ne: "enc_folders ?e \<noteq> []" by auto
  have "jm_get (snd (fold take_folder (enc_folders ?e) (enc_images ?e, []))) f
      = Some (map (\<lambda>n. (n, jm_get (enc_images ?e) n)) (names_in f cs))"
    using take_folders [OF _ folders_distinct [OF m assms(2)]] m get by (simp add: folders_match_def)
  then show ?thesis
    using ne assms(4) by (simp add: get_data_def format_images_def Let_def store_simps case_prod_unfold)
qed

section \<open>Properties\<close>

text \<open>
  C8. In a collection of images with distinct names, every image is stored under its name as a string
  which, drawn with the palette of the finished collection, paints exactly the opaque pixels of its
  PNG in their colours: colours added by later images never disturb an earlier one.
\<close>

theorem collection_renders:
  assumes "palette_ok (enc_colors e)" "distinct (map ec_name cs)" "c \<in> set cs" "png_ok (ec_png c)"
    and "length (id_palette (get_data (fold encode_step cs e))) \<le> 256"
  shows "\<exists>rle rs. jm_get (enc_images (fold encode_step cs e)) (ec_name c) = Some rle
    \<and> part_rects (id_palette (get_data (fold encode_step cs e))) rle = Some rs
    \<and> paint rs = opaque_pixels (png_Image (ec_png c))"
proof -
  let ?e = "fold encode_step cs e"
  obtain m i m' rle where run: "palette_ok m" "toRLE (png_Image (ec_png c)) m = (i, m', rle)"
    "jm_get (enc_images ?e) (ec_name c) = Some rle" "palette_ok m'" "extends m' (enc_colors ?e)"
    using collection_image [OF assms(1-3)] by blast
  have pal: "palette_ok (enc_colors ?e)" using encoding.run_inv [OF assms(1)] by simp
  have "length m' \<le> 256"
    using extends_length [OF run(4) pal run(5)] assms(5) by (simp add: get_data_def jm_keys_def)
  from part_rects_encoded [OF run(1,2) png_ok_size [OF assms(4)] this pal run(5)] run(3)
  show ?thesis by (auto simp: get_data_def)
qed

definition sample_png :: "nat \<Rightarrow> png_image" where
  "sample_png r = readPngImage \<lparr>pb_width = 2, pb_height = 1, pb_data = [r, 0, 0, 255, 1, 2, 3, 0]\<rparr>"

definition sample_calls :: "encode_call list" where
  "sample_calls = [\<lparr>ec_name = ''head-a'', ec_png = sample_png 17, ec_folder = Some ''heads''\<rparr>,
                   \<lparr>ec_name = ''head-b'', ec_png = sample_png 34, ec_folder = Some ''heads''\<rparr>]"

lemma sample_calls_ok: "distinct (map ec_name sample_calls)" "png_ok (ec_png (sample_calls ! 0))"
  "sample_calls ! 0 \<in> set sample_calls" "names_in ''heads'' sample_calls \<noteq> []"
  "length (id_palette (get_data (fold encode_step sample_calls (new_encoder None)))) \<le> 256"
  by (simp_all add: sample_calls_def names_in_def png_ok_def sample_png_def readPngImage_def) code_simp

theorem collection_renders_witness:
  "\<exists>rle rs. jm_get (enc_images (fold encode_step sample_calls (new_encoder None))) (ec_name (sample_calls ! 0)) = Some rle
    \<and> part_rects (id_palette (get_data (fold encode_step sample_calls (new_encoder None)))) rle = Some rs
    \<and> paint rs = opaque_pixels (png_Image (ec_png (sample_calls ! 0)))"
  by (rule collection_renders [OF palette_ok_new sample_calls_ok(1,3,2,5)])

text \<open>
  The data the encoder exports lists, for every folder of the collection, exactly the images
  encoded into it, in the order of the calls, each with its own encoding.
\<close>

theorem collection_folders:
  assumes "enc_folders e = []" "distinct (map ec_name cs)" "f \<noteq> []" "f \<noteq> ''root''" "names_in f cs \<noteq> []"
    and "palette_ok (enc_colors e)"
  shows "\<exists>files. jm_get (id_images (get_data (fold encode_step cs e))) f = Some files
    \<and> map fst files = map ec_name (filter (\<lambda>c. ec_folder c = Some f) cs)
    \<and> (\<forall>(n, d)\<in>set files. d = jm_get (enc_images (fold encode_step cs e)) n \<and> d \<noteq> None)"
proof -
  let ?imgs = "enc_images (fold encode_step cs e)"
  have "jm_get ?imgs n \<noteq> None" if n: "n \<in> set (names_in f cs)" for n
  proof -
    from n obtain c where "c \<in> set cs" "n = ec_name c" by (auto simp: names_in_def)
    then show ?thesis using collection_image [OF assms(6,2)] by auto
  qed
  then show ?thesis
    unfolding folder_files [OF assms(1-5)] by (auto simp: names_in_def)
qed

theorem collection_folders_witness:
  "\<exists>files. jm_get (id_images (get_data (fold encode_step sample_calls (new_encoder None)))) ''heads'' = Some files
    \<and> map fst files = map ec_name (filter (\<lambda>c. ec_folder c = Some ''heads'') sample_calls)
    \<and> (\<forall>(n, d)\<in>set files. d = jm_get (enc_images (fold encode_step sample_calls (new_encoder None))) n \<and> d \<noteq> None)"
  by (rule collection_folders [OF _ sample_calls_ok(1) _ _ sample_calls_ok(4) palette_ok_new])
     (simp_all add: new_encoder_def)

text \<open>The second script succeeds only if no image brought a colour the palette lacked.\<close>

definition script_calls :: "(string \<Rightarrow> bool) \<Rightarrow> dirs \<Rightarrow> encode_call list" where
  "script_calls skip dirs =
     concat (map (\<lambda>folder. map (\<lambda>(file, png). \<lparr>ec_name = strip_png file, ec_png = readPngImage png,
          ec_folder = Some (strip_number folder)\<rparr>) (filter (\<lambda>(file, png). \<not> skip file) (dirs folder))) partfolders)"

lemma encode_files_steps:
  "encode_files skip dirs e = fold encode_step (script_calls skip dirs) e"
proof -
  have one: "fold (\<lambda>(file, png) e. if skip file then e
        else fst (encodeImage (strip_png file) (readPngImage png) (Some g) e)) fs e
      = fold encode_step (map (\<lambda>(file, png). \<lparr>ec_name = strip_png file, ec_png = readPngImage png, ec_folder = Some g\<rparr>)
          (filter (\<lambda>(file, png). \<not> skip file) fs)) e" for g fs e
    by (induction fs arbitrary: e) (auto simp: encode_step_def)
  have "fold (\<lambda>folder. fold (\<lambda>(file, png) e. if skip file then e
        else fst (encodeImage (strip_png file) (readPngImage png) (Some (strip_number folder)) e)) (dirs folder)) fos e
      = fold encode_step (concat (map (\<lambda>folder. map (\<lambda>(file, png). \<lparr>ec_name = strip_png file, ec_png = readPngImage png,
          ec_folder = Some (strip_number folder)\<rparr>) (filter (\<lambda>(file, png). \<not> skip file) (dirs folder))) fos)) e" for fos e
    by (induction fos arbitrary: e) (simp_all add: one)
  then show ?thesis by (simp add: encode_files_def script_calls_def)
qed

lemma script_folder:
  assumes "c \<in> set (script_calls skip dirs)"
  shows "\<exists>f. ec_folder c = Some f \<and> f \<in> {''bodies'', ''accessories'', ''heads'', ''glasses''}"
  using assms by (auto simp: script_calls_def partfolders_def strip_number_def is_digit_def digit_value_def)

text \<open>
  When \<open>encode-more.ts\<close> succeeds, every file it was given (other than \<open>.gitkeep\<close>) is listed in its
  folder with an encoding that the palette of the existing collection, unchanged, draws correctly.
\<close>

theorem encode_more_renders:
  assumes "encode_more ([] # cols) dirs = Inr images" "distinct ([] # cols)" "length ([] # cols) \<le> 256"
    and "distinct (map ec_name (script_calls (\<lambda>file. file = ''.gitkeep'') dirs))"
    and "c \<in> set (script_calls (\<lambda>file. file = ''.gitkeep'') dirs)" "png_ok (ec_png c)" "ec_folder c = Some f"
  shows "\<exists>files rle rs. jm_get images f = Some files \<and> (ec_name c, Some rle) \<in> set files
    \<and> part_rects ([] # cols) rle = Some rs \<and> paint rs = opaque_pixels (png_Image (ec_png c))"
proof -
  let ?cs = "script_calls (\<lambda>file. file = ''.gitkeep'') dirs"
  let ?start = "new_encoder (Some ([] # cols))"
  let ?e = "fold encode_step ?cs ?start"
  note seed = seed_palette [OF assms(2)]
  have pal: "palette_ok (enc_colors ?start)" using seed by blast
  from assms(1) have keep: "jm_keys (enc_colors ?e) = [] # cols" and imgs: "images = id_images (get_data ?e)"
    by (auto simp: encode_more_def encode_files_steps get_data_def Let_def split: if_splits)
  obtain m i m' rle where run: "palette_ok m" "toRLE (png_Image (ec_png c)) m = (i, m', rle)"
    "jm_get (enc_images ?e) (ec_name c) = Some rle" "palette_ok m'" "extends m' (enc_colors ?e)"
    using collection_image [OF pal assms(4,5)] by blast
  have pale: "palette_ok (enc_colors ?e)" using encoding.run_inv [OF pal] by simp
  have "length (enc_colors ?e) \<le> 256" using arg_cong [OF keep, of length] assms(3) by (simp add: jm_keys_def)
  with extends_length [OF run(4) pale run(5)] have "length m' \<le> 256" by simp
  from part_rects_encoded [OF run(1,2) png_ok_size [OF assms(6)] this pale run(5)] keep
  obtain rs where rs: "part_rects ([] # cols) rle = Some rs" "paint rs = opaque_pixels (png_Image (ec_png c))" by auto
  have mem: "ec_name c \<in> set (names_in f ?cs)" using assms(5,7) by (auto simp: names_in_def)
  have f: "f \<noteq> []" "f \<noteq> ''root''" using script_folder [OF assms(5)] assms(7) by auto
  have ne: "names_in f ?cs \<noteq> []" using mem by auto
  have fresh: "enc_folders ?start = []" by (simp add: new_encoder_def)
  have "jm_get images f = Some (map (\<lambda>n. (n, jm_get (enc_images ?e) n)) (names_in f ?cs))"
    unfolding imgs by (rule folder_files [OF fresh assms(4) f ne])
  with mem run(3) rs show ?thesis by force
qed

definition sample_dirs :: dirs where
  "sample_dirs folder =
     (if folder = ''3-heads'' then [(''a.png'', \<lparr>pb_width = 2, pb_height = 1, pb_data = [17, 0, 0, 255, 1, 2, 3, 0]\<rparr>)] else [])"

lemma sample_script: "script_calls (\<lambda>file. file = ''.gitkeep'') sample_dirs =
    [\<lparr>ec_name = ''a'', ec_png = sample_png 17, ec_folder = Some ''heads''\<rparr>]"
  by (simp add: script_calls_def partfolders_def sample_dirs_def sample_png_def strip_png_def strip_number_def
      is_digit_def digit_value_def)

lemma sample_more: "isl (encode_more [[], ''110000'', ''010203''] sample_dirs) = False"
  unfolding encode_more_def encode_files_steps sample_script by code_simp

theorem encode_more_renders_witness:
  "\<exists>files rle rs. jm_get (projr (encode_more [[], ''110000'', ''010203''] sample_dirs)) ''heads'' = Some files
    \<and> (''a'', Some rle) \<in> set files
    \<and> part_rects [[], ''110000'', ''010203''] rle = Some rs \<and> paint rs = opaque_pixels (png_Image (sample_png 17))"
proof -
  let ?c = "\<lparr>ec_name = ''a'', ec_png = sample_png 17, ec_folder = Some ''heads''\<rparr>"
  have run: "encode_more [[], ''110000'', ''010203''] sample_dirs = Inr (projr (encode_more [[], ''110000'', ''010203''] sample_dirs))"
    using sample_more by (simp add: sum.expand)
  show ?thesis
    using encode_more_renders [OF run, of ?c "''heads''"]
    by (simp add: sample_script png_ok_def sample_png_def readPngImage_def)
qed

end
