(* ===== verification/Subgraph_Store.thy ===== *)
theory Subgraph_Store
  imports Prelude "HOL-Library.Word"
begin

text \<open>
  The entity store of the subgraph (\<open>nouns-subgraph/schema.graphql\<close>) and its loading helpers
  (\<open>src/utils/helpers.ts\<close>, \<open>constants.ts\<close>). A table maps ids to entities. \<open>load\<close> returns a copy, so a
  handler's local variable and the stored entity drift apart until \<open>save\<close>, which writes the whole
  entity; the definitions keep each local copy as a variable of its own. \<open>BigInt\<close> is \<open>int\<close>, \<open>i32\<close> a
  32-bit word, an address or hash its hexadecimal string. A handler that aborts stops the subgraph
  and drops the block's writes: its result is \<open>None\<close>.
\<close>

type_synonym i32 = "32 word"

section \<open>Entities\<close>

record account =
  ac_id :: string
  ac_delegate :: "string option"
  ac_tokenBalanceRaw :: int
  ac_tokenBalance :: int
  ac_totalTokensHeldRaw :: int
  ac_totalTokensHeld :: int
  ac_alps :: "string list"

record delegate =
  dl_id :: string
  dl_delegatedVotesRaw :: int
  dl_delegatedVotes :: int
  dl_tokenHoldersRepresentedAmount :: i32
  dl_alpsRepresented :: "string list"

record governance =
  gv_proposals :: int
  gv_currentTokenHolders :: int
  gv_currentDelegates :: int
  gv_totalTokenHolders :: int
  gv_totalDelegates :: int
  gv_delegatedVotesRaw :: int
  gv_delegatedVotes :: int
  gv_proposalsQueued :: int

record seed =
  sd_background :: int
  sd_body :: int
  sd_accessory :: int
  sd_head :: int
  sd_glasses :: int

record alp =
  al_seed :: "string option"
  al_owner :: string

record transfer_event =
  te_alp :: string
  te_previousHolder :: string
  te_newHolder :: string
  te_blockNumber :: int
  te_blockTimestamp :: int

record delegation_event =
  de_alp :: string
  de_previousDelegate :: string
  de_newDelegate :: string
  de_blockNumber :: int
  de_blockTimestamp :: int

record auction =
  au_id :: string
  au_alp :: string
  au_amount :: int
  au_startTime :: int
  au_endTime :: int
  au_bidder :: "string option"
  au_settled :: bool

record bid =
  bd_alp :: string
  bd_amount :: int
  bd_bidder :: "string option"
  bd_blockNumber :: int
  bd_txIndex :: int
  bd_auction :: string
  bd_blockTimestamp :: int

datatype proposal_status = PENDING | ACTIVE | CANCELLED | VETOED | QUEUED | EXECUTED

record proposal =
  pr_id :: string
  pr_proposer :: string
  pr_targets :: "string list"
  pr_values :: "int list"
  pr_signatures :: "string list"
  pr_calldatas :: "string list"
  pr_createdTimestamp :: int
  pr_createdBlock :: int
  pr_createdTransactionHash :: string
  pr_startBlock :: int
  pr_endBlock :: int
  pr_proposalThreshold :: int
  pr_quorumVotes :: int
  pr_forVotes :: int
  pr_againstVotes :: int
  pr_abstainVotes :: int
  pr_description :: string
  pr_status :: proposal_status
  pr_executionETA :: "int option"
  pr_totalSupply :: int
  pr_minQuorumVotesBPS :: i32
  pr_maxQuorumVotesBPS :: i32
  pr_quorumCoefficient :: int

record vote =
  vt_support :: bool
  vt_supportDetailed :: i32
  vt_votesRaw :: int
  vt_votes :: int
  vt_reason :: "string option"
  vt_voter :: string
  vt_alps :: "string list"
  vt_proposal :: string
  vt_blockNumber :: int

record dq_params =
  dq_minQuorumVotesBPS :: i32
  dq_maxQuorumVotesBPS :: i32
  dq_quorumCoefficient :: int
  dq_dynamicQuorumStartBlock :: "int option"

text \<open>Messages of \<open>log.error\<close>, with their arguments.\<close>

datatype log_error =
    AlpCreated_NotFound string string
  | NegativeBalance string int
  | AuctionCreated_AlpNotFound string string
  | AuctionBid_NotFound string string
  | AuctionExtended_NotFound string string
  | AuctionSettled_NotFound string string
  | ProposalCreated_DelegateNotFound string string
  | VoteCast_DelegateNotFound string string

record store =
  st_accounts :: "string \<rightharpoonup> account"
  st_delegates :: "string \<rightharpoonup> delegate"
  st_governance :: "governance option"
  st_seeds :: "string \<rightharpoonup> seed"
  st_alps :: "string \<rightharpoonup> alp"
  st_transferEvents :: "string \<rightharpoonup> transfer_event"
  st_delegationEvents :: "string \<rightharpoonup> delegation_event"
  st_auctions :: "string \<rightharpoonup> auction"
  st_bids :: "string \<rightharpoonup> bid"
  st_proposals :: "string \<rightharpoonup> proposal"
  st_votes :: "string \<rightharpoonup> vote"
  st_dqParams :: "dq_params option"
  st_log :: "log_error list"

definition empty_store :: store where
  "empty_store = \<lparr>st_accounts = Map.empty, st_delegates = Map.empty, st_governance = None, st_seeds = Map.empty,
     st_alps = Map.empty, st_transferEvents = Map.empty, st_delegationEvents = Map.empty, st_auctions = Map.empty,
     st_bids = Map.empty, st_proposals = Map.empty, st_votes = Map.empty, st_dqParams = None, st_log = []\<rparr>"

definition log_error :: "log_error \<Rightarrow> store \<Rightarrow> store" where
  "log_error m s = s\<lparr>st_log := st_log s @ [m]\<rparr>"

section \<open>Saving\<close>

definition put_account :: "string \<Rightarrow> account \<Rightarrow> store \<Rightarrow> store" where
  "put_account k a s = s\<lparr>st_accounts := tbl_put k a (st_accounts s)\<rparr>"

definition save_account :: "account \<Rightarrow> store \<Rightarrow> store" where
  "save_account a s = put_account (ac_id a) a s"

definition put_delegate :: "string \<Rightarrow> delegate \<Rightarrow> store \<Rightarrow> store" where
  "put_delegate k d s = s\<lparr>st_delegates := tbl_put k d (st_delegates s)\<rparr>"

definition save_delegate :: "delegate \<Rightarrow> store \<Rightarrow> store" where
  "save_delegate d s = put_delegate (dl_id d) d s"

definition save_governance :: "governance \<Rightarrow> store \<Rightarrow> store" where
  "save_governance g s = s\<lparr>st_governance := Some g\<rparr>"

definition save_seed :: "string \<Rightarrow> seed \<Rightarrow> store \<Rightarrow> store" where
  "save_seed k x s = s\<lparr>st_seeds := tbl_put k x (st_seeds s)\<rparr>"

definition save_alp :: "string \<Rightarrow> alp \<Rightarrow> store \<Rightarrow> store" where
  "save_alp k x s = s\<lparr>st_alps := tbl_put k x (st_alps s)\<rparr>"

definition save_transferEvent :: "string \<Rightarrow> transfer_event \<Rightarrow> store \<Rightarrow> store" where
  "save_transferEvent k x s = s\<lparr>st_transferEvents := tbl_put k x (st_transferEvents s)\<rparr>"

definition save_delegationEvent :: "string \<Rightarrow> delegation_event \<Rightarrow> store \<Rightarrow> store" where
  "save_delegationEvent k x s = s\<lparr>st_delegationEvents := tbl_put k x (st_delegationEvents s)\<rparr>"

definition save_auction :: "auction \<Rightarrow> store \<Rightarrow> store" where
  "save_auction x s = s\<lparr>st_auctions := tbl_put (au_id x) x (st_auctions s)\<rparr>"

definition save_bid :: "string \<Rightarrow> bid \<Rightarrow> store \<Rightarrow> store" where
  "save_bid k x s = s\<lparr>st_bids := tbl_put k x (st_bids s)\<rparr>"

definition save_proposal :: "proposal \<Rightarrow> store \<Rightarrow> store" where
  "save_proposal x s = s\<lparr>st_proposals := tbl_put (pr_id x) x (st_proposals s)\<rparr>"

definition save_vote :: "string \<Rightarrow> vote \<Rightarrow> store \<Rightarrow> store" where
  "save_vote k x s = s\<lparr>st_votes := tbl_put k x (st_votes s)\<rparr>"

definition save_dqParams :: "dq_params \<Rightarrow> store \<Rightarrow> store" where
  "save_dqParams x s = s\<lparr>st_dqParams := Some x\<rparr>"

interpretation accounts: keyed_store st_accounts put_account
  by unfold_locales (simp_all add: put_account_def tbl_put_def)

interpretation delegates: keyed_store st_delegates put_delegate
  by unfold_locales (simp_all add: put_delegate_def tbl_put_def)

lemmas save_defs = save_account_def save_delegate_def put_account_def put_delegate_def save_governance_def
  save_seed_def save_alp_def save_transferEvent_def save_delegationEvent_def save_auction_def save_bid_def
  save_proposal_def save_vote_def save_dqParams_def log_error_def tbl_put_def

section \<open>Constants and helpers\<close>

definition ZERO_ADDRESS :: string where
  "ZERO_ADDRESS = ''0x0000000000000000000000000000000000000000''"

definition BIGINT_10K :: int where
  "BIGINT_10K = 10000"

text \<open>The helpers with the default arguments, the only ones a handler passes for \<open>save\<close>.\<close>

definition new_account :: "string \<Rightarrow> account" where
  "new_account eid =
     \<lparr>ac_id = eid, ac_delegate = None, ac_tokenBalanceRaw = 0, ac_tokenBalance = 0,
      ac_totalTokensHeldRaw = 0, ac_totalTokensHeld = 0, ac_alps = []\<rparr>"

definition getOrCreateAccount :: "string \<Rightarrow> store \<Rightarrow> account \<times> store" where
  "getOrCreateAccount eid s =
     (case st_accounts s eid of
        Some tokenHolder \<Rightarrow> (tokenHolder, s)
      | None \<Rightarrow> (let tokenHolder = new_account eid in (tokenHolder, save_account tokenHolder s)))"

definition getGovernanceEntity :: "store \<Rightarrow> governance" where
  "getGovernanceEntity s =
     (case st_governance s of
        Some governance \<Rightarrow> governance
      | None \<Rightarrow> \<lparr>gv_proposals = 0, gv_currentTokenHolders = 0, gv_currentDelegates = 0, gv_totalTokenHolders = 0,
                 gv_totalDelegates = 0, gv_delegatedVotesRaw = 0, gv_delegatedVotes = 0, gv_proposalsQueued = 0\<rparr>)"

definition new_delegate :: "string \<Rightarrow> delegate" where
  "new_delegate eid =
     \<lparr>dl_id = eid, dl_delegatedVotesRaw = 0, dl_delegatedVotes = 0,
      dl_tokenHoldersRepresentedAmount = 0, dl_alpsRepresented = []\<rparr>"

definition getOrCreateDelegateWithNullOption :: "string \<Rightarrow> bool \<Rightarrow> store \<Rightarrow> delegate option \<times> store" where
  "getOrCreateDelegateWithNullOption eid createIfNotFound s =
     (case st_delegates s eid of
        Some delegate \<Rightarrow> (Some delegate, s)
      | None \<Rightarrow>
          if createIfNotFound
          then (let delegate = new_delegate eid;
                    governance = getGovernanceEntity s;
                    s' = (if eid \<noteq> ZERO_ADDRESS
                          then save_governance (governance\<lparr>gv_totalDelegates := gv_totalDelegates governance + 1\<rparr>) s
                          else s)
                in (Some delegate, save_delegate delegate s'))
          else (None, s))"

definition getOrCreateDelegate :: "string \<Rightarrow> store \<Rightarrow> delegate \<times> store" where
  "getOrCreateDelegate eid s =
     (let (delegate, s') = getOrCreateDelegateWithNullOption eid True s in (the delegate, s'))"

text \<open>
  \<open>new Proposal(id)\<close> has no field but the id, and reading or saving a required field that is not set
  aborts: the result is \<open>None\<close> for an entity that does not exist yet. The same holds for a \<open>Vote\<close>.
\<close>

definition getOrCreateProposal :: "string \<Rightarrow> store \<Rightarrow> proposal option \<times> store" where
  "getOrCreateProposal eid s =
     (case st_proposals s eid of
        Some proposal \<Rightarrow> (Some proposal, s)
      | None \<Rightarrow> (let governance = getGovernanceEntity s
                 in (None, save_governance (governance\<lparr>gv_proposals := gv_proposals governance + 1\<rparr>) s)))"

definition getOrCreateVote :: "string \<Rightarrow> store \<Rightarrow> vote option" where
  "getOrCreateVote eid s = st_votes s eid"

definition getOrCreateDynamicQuorumParams :: "int option \<Rightarrow> store \<Rightarrow> dq_params \<times> store" where
  "getOrCreateDynamicQuorumParams block s =
     (let (params, s1) = (case st_dqParams s of
            Some params \<Rightarrow> (params, s)
          | None \<Rightarrow> (let params = \<lparr>dq_minQuorumVotesBPS = 0, dq_maxQuorumVotesBPS = 0, dq_quorumCoefficient = 0,
                                  dq_dynamicQuorumStartBlock = block\<rparr>
                     in (params, save_dqParams params s)))
      in if dq_dynamicQuorumStartBlock params = None \<and> block \<noteq> None
         then (let params' = params\<lparr>dq_dynamicQuorumStartBlock := block\<rparr> in (params', save_dqParams params' s1))
         else (params, s1))"

section \<open>What the helpers return\<close>

lemma getOrCreateAccount_fst: "fst (getOrCreateAccount eid s) = (case st_accounts s eid of Some a \<Rightarrow> a | None \<Rightarrow> new_account eid)"
  by (simp add: getOrCreateAccount_def Let_def split: option.splits)

lemma getOrCreateAccount_snd:
  "ac_id (fst (getOrCreateAccount eid s)) = eid \<Longrightarrow>
     snd (getOrCreateAccount eid s) = save_account (fst (getOrCreateAccount eid s)) s"
  by (auto simp: getOrCreateAccount_def Let_def save_defs map_upd_triv split: option.splits)

lemma getOrCreateDelegate_fst: "fst (getOrCreateDelegate eid s) = (case st_delegates s eid of Some d \<Rightarrow> d | None \<Rightarrow> new_delegate eid)"
  by (simp add: getOrCreateDelegate_def getOrCreateDelegateWithNullOption_def Let_def split: option.splits)

lemma getOrCreateDelegate_tables:
  "st_delegates (snd (getOrCreateDelegate eid s)) = (st_delegates s)(eid \<mapsto> fst (getOrCreateDelegate eid s))"
  "st_accounts (snd (getOrCreateDelegate eid s)) = st_accounts s"
  "st_alps (snd (getOrCreateDelegate eid s)) = st_alps s"
  by (auto simp: getOrCreateDelegate_def getOrCreateDelegateWithNullOption_def Let_def save_defs map_upd_triv
      new_delegate_def split: option.splits)

lemma getOrCreateDelegate_governance:
  "getGovernanceEntity (snd (getOrCreateDelegate eid s)) = (getGovernanceEntity s)
     \<lparr>gv_totalDelegates := gv_totalDelegates (getGovernanceEntity s)
        + (if st_delegates s eid = None \<and> eid \<noteq> ZERO_ADDRESS then 1 else 0)\<rparr>"
  by (auto simp: getOrCreateDelegate_def getOrCreateDelegateWithNullOption_def Let_def save_defs
      getGovernanceEntity_def split: option.splits)

lemma getGovernance_save [simp]: "getGovernanceEntity (save_governance g s) = g"
  by (simp add: getGovernanceEntity_def save_governance_def)

end
