(* ===== verification/Subgraph_Token.thy ===== *)
theory Subgraph_Token
  imports Subgraph_Store
begin

text \<open>
  The handlers of the token contract's events (\<open>nouns-subgraph/src/alps-erc-721.ts\<close>). Each handler is
  the sequence of loads, local changes and saves of the source, in its order. The two halves of
  \<open>handleTransfer\<close>, which work on copies loaded at its start, are definitions of their own.
\<close>

section \<open>Events\<close>

record event_meta =
  em_txHash :: string
  em_txIndex :: int
  em_blockNumber :: int
  em_blockTimestamp :: int

record transfer_params =
  tp_from :: string
  tp_to :: string
  tp_tokenId :: nat

record delegate_changed_params =
  dc_delegator :: string
  dc_fromDelegate :: string
  dc_toDelegate :: string

record delegate_votes_changed_params =
  dv_delegate :: string
  dv_previousBalance :: int
  dv_newBalance :: int

record alp_created_params =
  acp_tokenId :: nat
  acp_seed :: seed

section \<open>Handlers\<close>

definition handleAlpCreated :: "event_meta \<Rightarrow> alp_created_params \<Rightarrow> store \<Rightarrow> store" where
  "handleAlpCreated m p s =
     (let alpId = show_nat (acp_tokenId p);
          s1 = save_seed alpId (acp_seed p) s
      in case st_alps s1 alpId of
           None \<Rightarrow> log_error (AlpCreated_NotFound alpId (em_txHash m)) s1
         | Some alp \<Rightarrow> save_alp alpId (alp\<lparr>al_seed := Some alpId\<rparr>) s1)"

definition delegation_events :: "event_meta \<Rightarrow> string list \<Rightarrow> string \<Rightarrow> string \<Rightarrow> store \<Rightarrow> store" where
  "delegation_events m alps previous new s =
     fold (\<lambda>a. save_delegationEvent (em_txHash m @ ''_'' @ a)
        \<lparr>de_alp = a, de_previousDelegate = previous, de_newDelegate = new,
         de_blockNumber = em_blockNumber m, de_blockTimestamp = em_blockTimestamp m\<rparr>) alps s"

definition or_else :: "string \<Rightarrow> string \<Rightarrow> string" where
  "or_else a b = (if a \<noteq> [] then a else b)"

definition handleDelegateChanged :: "event_meta \<Rightarrow> delegate_changed_params \<Rightarrow> store \<Rightarrow> store" where
  "handleDelegateChanged m p s =
     (let (tokenHolder, s1) = getOrCreateAccount (dc_delegator p) s;
          (previousDelegate, s2) = getOrCreateDelegate (dc_fromDelegate p) s1;
          (newDelegate, s3) = getOrCreateDelegate (dc_toDelegate p) s2;
          accountAlps = ac_alps tokenHolder;
          s4 = save_account (tokenHolder\<lparr>ac_delegate := Some (dl_id newDelegate)\<rparr>) s3;
          previousDelegate' = previousDelegate
            \<lparr>dl_tokenHoldersRepresentedAmount := dl_tokenHoldersRepresentedAmount previousDelegate - 1,
             dl_alpsRepresented := filter (\<lambda>n. n \<notin> set accountAlps) (dl_alpsRepresented previousDelegate)\<rparr>;
          newDelegate' = newDelegate
            \<lparr>dl_tokenHoldersRepresentedAmount := dl_tokenHoldersRepresentedAmount newDelegate + 1,
             dl_alpsRepresented := dl_alpsRepresented newDelegate @ accountAlps\<rparr>;
          s5 = save_delegate newDelegate' (save_delegate previousDelegate' s4)
      in delegation_events m accountAlps (or_else (dl_id previousDelegate') (ac_id tokenHolder))
           (or_else (dl_id newDelegate') (ac_id tokenHolder)) s5)"

definition handleDelegateVotesChanged :: "delegate_votes_changed_params \<Rightarrow> store \<Rightarrow> store" where
  "handleDelegateVotesChanged p s =
     (let governance = getGovernanceEntity s;
          (delegate, s1) = getOrCreateDelegate (dv_delegate p) s;
          votesDifference = dv_newBalance p - dv_previousBalance p;
          s2 = save_delegate (delegate\<lparr>dl_delegatedVotesRaw := dv_newBalance p, dl_delegatedVotes := dv_newBalance p\<rparr>) s1;
          g1 = (if dv_previousBalance p = 0 \<and> dv_newBalance p > 0
                then governance\<lparr>gv_currentDelegates := gv_currentDelegates governance + 1\<rparr> else governance);
          g2 = (if dv_newBalance p = 0 then g1\<lparr>gv_currentDelegates := gv_currentDelegates g1 - 1\<rparr> else g1);
          raw = gv_delegatedVotesRaw g2 + votesDifference
      in save_governance (g2\<lparr>gv_delegatedVotesRaw := raw, gv_delegatedVotes := raw\<rparr>) s2)"

text \<open>Lines 119 to 156: the sender of a token that is not minted.\<close>

definition represent_out :: "string \<Rightarrow> string option \<Rightarrow> store \<Rightarrow> store" where
  "represent_out alpId holderDelegate s =
     (case holderDelegate of
        None \<Rightarrow> s
      | Some d \<Rightarrow>
          (let (dl, s') = getOrCreateDelegate d s
           in save_delegate (dl\<lparr>dl_alpsRepresented := filter (\<lambda>n. n \<noteq> alpId) (dl_alpsRepresented dl)\<rparr>) s'))"

definition transfer_out :: "string \<Rightarrow> account \<times> governance \<times> store \<Rightarrow> account \<times> governance \<times> store" where
  "transfer_out alpId st =
     (let (fromHolder, governance, s) = st;
          previousBalance = ac_tokenBalanceRaw fromHolder;
          balance = previousBalance - 1;
          h = fromHolder\<lparr>ac_tokenBalanceRaw := balance, ac_tokenBalance := balance,
                         ac_alps := filter (\<lambda>n. n \<noteq> alpId) (ac_alps fromHolder)\<rparr>;
          s1 = represent_out alpId (ac_delegate h) s;
          s2 = (if balance < 0 then log_error (NegativeBalance (ac_id h) balance) s1 else s1)
      in if balance = 0 \<and> previousBalance > 0 then
           (let g = governance\<lparr>gv_currentTokenHolders := gv_currentTokenHolders governance - 1\<rparr>;
                h' = h\<lparr>ac_delegate := None\<rparr>
            in (h', g, save_account h' (save_governance g s2)))
         else if balance > 0 \<and> previousBalance = 0 then
           (let g = governance\<lparr>gv_currentTokenHolders := gv_currentTokenHolders governance + 1\<rparr>
            in (h, g, save_account h (save_governance g s2)))
         else (h, governance, save_account h s2))"

text \<open>Lines 178 to 211: the receiver and the token itself.\<close>

definition represent_in :: "string \<Rightarrow> string \<Rightarrow> store \<Rightarrow> store" where
  "represent_in alpId d s =
     (let (dl, s') = getOrCreateDelegate d s
      in save_delegate (dl\<lparr>dl_alpsRepresented := dl_alpsRepresented dl @ [alpId]\<rparr>) s')"

definition save_owner :: "string \<Rightarrow> string \<Rightarrow> store \<Rightarrow> store" where
  "save_owner alpId owner s =
     save_alp alpId (case st_alps s alpId of
         None \<Rightarrow> \<lparr>al_seed = None, al_owner = owner\<rparr>
       | Some alp \<Rightarrow> alp\<lparr>al_owner := owner\<rparr>) s"

definition transfer_in :: "string \<Rightarrow> account \<Rightarrow> governance \<Rightarrow> store \<Rightarrow> store" where
  "transfer_in alpId toHolder governance s =
     (let s1 = represent_in alpId (case ac_delegate toHolder of None \<Rightarrow> ac_id toHolder | Some d \<Rightarrow> d) s;
          previousBalance = ac_tokenBalanceRaw toHolder;
          balance = previousBalance + 1;
          held = ac_totalTokensHeldRaw toHolder + 1;
          h = toHolder\<lparr>ac_tokenBalanceRaw := balance, ac_tokenBalance := balance,
                       ac_totalTokensHeldRaw := held, ac_totalTokensHeld := held,
                       ac_alps := ac_alps toHolder @ [alpId]\<rparr>
      in if balance = 0 \<and> previousBalance > 0 then
           (let g = governance\<lparr>gv_currentTokenHolders := gv_currentTokenHolders governance - 1\<rparr>
            in save_account h (save_owner alpId (ac_id h) (save_governance g s1)))
         else if balance > 0 \<and> previousBalance = 0 then
           (let g = governance\<lparr>gv_currentTokenHolders := gv_currentTokenHolders governance + 1\<rparr>;
                h' = h\<lparr>ac_delegate := Some (ac_id h)\<rparr>
            in save_account h' (save_owner alpId (ac_id h) (save_governance g s1)))
         else save_account h (save_owner alpId (ac_id h) s1))"

text \<open>Lines 115 to 162: a mint or a burn changes the number of tokens in existence.\<close>

definition transfer_debit :: "string \<Rightarrow> string \<Rightarrow> account \<times> governance \<times> store \<Rightarrow> account \<times> governance \<times> store" where
  "transfer_debit sender alpId st =
     (if sender = ZERO_ADDRESS
      then (let (fromHolder, governance, s) = st;
                g = governance\<lparr>gv_totalTokenHolders := gv_totalTokenHolders governance + 1\<rparr>
            in (fromHolder, g, save_governance g s))
      else transfer_out alpId st)"

definition transfer_burn :: "string \<Rightarrow> governance \<times> store \<Rightarrow> governance \<times> store" where
  "transfer_burn receiver st =
     (if receiver = ZERO_ADDRESS
      then (let (governance, s) = st;
                g = governance\<lparr>gv_totalTokenHolders := gv_totalTokenHolders governance - 1\<rparr>
            in (g, save_governance g s))
      else st)"

definition handleTransfer :: "event_meta \<Rightarrow> transfer_params \<Rightarrow> store \<Rightarrow> store" where
  "handleTransfer m p s =
     (let (fromHolder, s1) = getOrCreateAccount (tp_from p) s;
          (toHolder, s2) = getOrCreateAccount (tp_to p) s1;
          governance = getGovernanceEntity s2;
          alpId = show_nat (tp_tokenId p);
          s3 = save_transferEvent (em_txHash m @ ''_'' @ alpId)
                 \<lparr>te_alp = alpId, te_previousHolder = ac_id fromHolder, te_newHolder = ac_id toHolder,
                  te_blockNumber = em_blockNumber m, te_blockTimestamp = em_blockTimestamp m\<rparr> s2;
          (fromHolder', g1, s4) = transfer_debit (tp_from p) alpId (fromHolder, governance, s3);
          (g2, s5) = transfer_burn (tp_to p) (g1, s4);
          s6 = save_delegationEvent (em_txHash m @ ''_'' @ alpId)
                 \<lparr>de_alp = alpId,
                  de_previousDelegate = (case ac_delegate fromHolder' of None \<Rightarrow> ac_id fromHolder' | Some d \<Rightarrow> d),
                  de_newDelegate = (case ac_delegate toHolder of None \<Rightarrow> ac_id toHolder | Some d \<Rightarrow> d),
                  de_blockNumber = em_blockNumber m, de_blockTimestamp = em_blockTimestamp m\<rparr> s5
      in transfer_in alpId toHolder g2 s6)"

section \<open>The effect of a transfer on each table\<close>

definition delegate_at :: "(string \<rightharpoonup> delegate) \<Rightarrow> string \<Rightarrow> delegate" where
  "delegate_at D d = (case D d of Some dl \<Rightarrow> dl | None \<Rightarrow> new_delegate d)"

definition account_at :: "(string \<rightharpoonup> account) \<Rightarrow> string \<Rightarrow> account" where
  "account_at A a = (case A a of Some acc \<Rightarrow> acc | None \<Rightarrow> new_account a)"

definition out_account :: "string \<Rightarrow> account \<Rightarrow> account" where
  "out_account alpId h =
     (let b = ac_tokenBalanceRaw h - 1
      in h\<lparr>ac_tokenBalanceRaw := b, ac_tokenBalance := b, ac_alps := filter (\<lambda>n. n \<noteq> alpId) (ac_alps h),
           ac_delegate := (if b = 0 then None else ac_delegate h)\<rparr>)"

definition in_account :: "string \<Rightarrow> account \<Rightarrow> account" where
  "in_account alpId h =
     (let b = ac_tokenBalanceRaw h + 1
      in h\<lparr>ac_tokenBalanceRaw := b, ac_tokenBalance := b,
           ac_totalTokensHeldRaw := ac_totalTokensHeldRaw h + 1, ac_totalTokensHeld := ac_totalTokensHeldRaw h + 1,
           ac_alps := ac_alps h @ [alpId],
           ac_delegate := (if b = 1 then Some (ac_id h) else ac_delegate h)\<rparr>)"

definition out_delegates :: "string \<Rightarrow> string option \<Rightarrow> (string \<rightharpoonup> delegate) \<Rightarrow> (string \<rightharpoonup> delegate)" where
  "out_delegates alpId h D =
     (case h of None \<Rightarrow> D
      | Some d \<Rightarrow> D(d \<mapsto> (delegate_at D d)\<lparr>dl_alpsRepresented := filter (\<lambda>n. n \<noteq> alpId) (dl_alpsRepresented (delegate_at D d))\<rparr>))"

definition in_delegates :: "string \<Rightarrow> string \<Rightarrow> (string \<rightharpoonup> delegate) \<Rightarrow> (string \<rightharpoonup> delegate)" where
  "in_delegates alpId d D =
     D(d \<mapsto> (delegate_at D d)\<lparr>dl_alpsRepresented := dl_alpsRepresented (delegate_at D d) @ [alpId]\<rparr>)"

text \<open>A delegate is stored under its own id.\<close>

definition keyed_delegates :: "(string \<rightharpoonup> delegate) \<Rightarrow> bool" where
  "keyed_delegates D \<longleftrightarrow> (\<forall>d dl. D d = Some dl \<longrightarrow> dl_id dl = d)"

lemma delegate_at_id: "keyed_delegates D \<Longrightarrow> dl_id (delegate_at D d) = d"
  by (auto simp: keyed_delegates_def delegate_at_def new_delegate_def split: option.splits)

text \<open>The two counters of a transfer in the stored entity agree with the handler's local copy.\<close>

definition gov_sync :: "governance \<Rightarrow> store \<Rightarrow> bool" where
  "gov_sync g s \<longleftrightarrow> gv_currentTokenHolders (getGovernanceEntity s) = gv_currentTokenHolders g
     \<and> gv_totalTokenHolders (getGovernanceEntity s) = gv_totalTokenHolders g"

lemma getGovernance_unaffected [simp]:
  "getGovernanceEntity (save_account a s) = getGovernanceEntity s"
  "getGovernanceEntity (save_delegate dl s) = getGovernanceEntity s"
  "getGovernanceEntity (save_alp k x s) = getGovernanceEntity s"
  "getGovernanceEntity (save_transferEvent k te s) = getGovernanceEntity s"
  "getGovernanceEntity (save_delegationEvent k de s) = getGovernanceEntity s"
  "getGovernanceEntity (save_seed k sd s) = getGovernanceEntity s"
  "getGovernanceEntity (log_error l s) = getGovernanceEntity s"
  by (simp_all add: getGovernanceEntity_def save_defs)

lemma save_tables [simp]:
  "st_accounts (save_account a s) = (st_accounts s)(ac_id a \<mapsto> a)"
  "st_delegates (save_account a s) = st_delegates s"
  "st_alps (save_account a s) = st_alps s"
  "st_accounts (save_delegate dl s) = st_accounts s"
  "st_delegates (save_delegate dl s) = (st_delegates s)(dl_id dl \<mapsto> dl)"
  "st_alps (save_delegate dl s) = st_alps s"
  "st_accounts (save_governance g s) = st_accounts s"
  "st_delegates (save_governance g s) = st_delegates s"
  "st_alps (save_governance g s) = st_alps s"
  "st_accounts (save_alp k x s) = st_accounts s"
  "st_delegates (save_alp k x s) = st_delegates s"
  "st_alps (save_alp k x s) = (st_alps s)(k \<mapsto> x)"
  "st_accounts (save_transferEvent k te s) = st_accounts s"
  "st_delegates (save_transferEvent k te s) = st_delegates s"
  "st_alps (save_transferEvent k te s) = st_alps s"
  "st_accounts (save_delegationEvent k de s) = st_accounts s"
  "st_delegates (save_delegationEvent k de s) = st_delegates s"
  "st_alps (save_delegationEvent k de s) = st_alps s"
  "st_accounts (save_seed k sd s) = st_accounts s"
  "st_delegates (save_seed k sd s) = st_delegates s"
  "st_alps (save_seed k sd s) = st_alps s"
  "st_accounts (log_error l s) = st_accounts s"
  "st_delegates (log_error l s) = st_delegates s"
  "st_alps (log_error l s) = st_alps s"
  by (simp_all add: save_defs)

lemma gov_sync_save [simp]: "gov_sync g (save_governance g s)"
  by (simp add: gov_sync_def)

lemma gov_sync_unaffected [simp]:
  "gov_sync g (save_account a s) = gov_sync g s"
  "gov_sync g (save_delegate dl s) = gov_sync g s"
  "gov_sync g (save_alp k x s) = gov_sync g s"
  "gov_sync g (save_transferEvent k te s) = gov_sync g s"
  "gov_sync g (save_delegationEvent k de s) = gov_sync g s"
  "gov_sync g (log_error l s) = gov_sync g s"
  by (simp_all add: gov_sync_def)

lemma gov_sync_delegate [simp]: "gov_sync g (snd (getOrCreateDelegate d s)) = gov_sync g s"
  by (simp add: gov_sync_def getOrCreateDelegate_governance)

lemma delegate_at_load: "fst (getOrCreateDelegate d s) = delegate_at (st_delegates s) d"
  by (simp add: getOrCreateDelegate_fst delegate_at_def)

lemma delegate_pair: "getOrCreateDelegate d s = (delegate_at (st_delegates s) d, snd (getOrCreateDelegate d s))"
  by (simp add: delegate_at_load [symmetric])

lemma account_at_load: "fst (getOrCreateAccount a s) = account_at (st_accounts s) a"
  by (simp add: getOrCreateAccount_fst account_at_def)

lemma account_pair: "getOrCreateAccount a s = (account_at (st_accounts s) a, snd (getOrCreateAccount a s))"
  by (simp add: account_at_load [symmetric])

lemma account_load_tables [simp]:
  "st_delegates (snd (getOrCreateAccount a s)) = st_delegates s"
  "st_alps (snd (getOrCreateAccount a s)) = st_alps s"
  "getGovernanceEntity (snd (getOrCreateAccount a s)) = getGovernanceEntity s"
  "st_accounts (snd (getOrCreateAccount a s)) = (st_accounts s)(a \<mapsto> account_at (st_accounts s) a)"
  by (auto simp: getOrCreateAccount_def Let_def account_at_def new_account_def map_upd_triv split: option.splits)

lemma represent_eqs:
  "represent_out alpId None s = s"
  "represent_out alpId (Some d) s = save_delegate ((delegate_at (st_delegates s) d)
     \<lparr>dl_alpsRepresented := filter (\<lambda>n. n \<noteq> alpId) (dl_alpsRepresented (delegate_at (st_delegates s) d))\<rparr>)
     (snd (getOrCreateDelegate d s))"
  "represent_in alpId d s = save_delegate ((delegate_at (st_delegates s) d)
     \<lparr>dl_alpsRepresented := dl_alpsRepresented (delegate_at (st_delegates s) d) @ [alpId]\<rparr>)
     (snd (getOrCreateDelegate d s))"
  by (simp_all add: represent_out_def represent_in_def case_prod_unfold delegate_at_load)

lemma represent_out_effect:
  assumes "keyed_delegates (st_delegates s)"
  shows "st_delegates (represent_out alpId h s) = out_delegates alpId h (st_delegates s)"
    "st_accounts (represent_out alpId h s) = st_accounts s" "st_alps (represent_out alpId h s) = st_alps s"
    "gov_sync g s \<Longrightarrow> gov_sync g (represent_out alpId h s)"
  by (cases h; simp add: represent_eqs out_delegates_def getOrCreateDelegate_tables delegate_at_id [OF assms])+

lemma represent_in_effect:
  assumes "keyed_delegates (st_delegates s)"
  shows "st_delegates (represent_in alpId d s) = in_delegates alpId d (st_delegates s)"
    "st_accounts (represent_in alpId d s) = st_accounts s" "st_alps (represent_in alpId d s) = st_alps s"
    "gov_sync g s \<Longrightarrow> gov_sync g (represent_in alpId d s)"
  by (simp_all add: represent_eqs in_delegates_def getOrCreateDelegate_tables delegate_at_id [OF assms])

lemma transfer_out_effect:
  assumes "keyed_delegates (st_delegates s)" "gov_sync g s" "1 \<le> ac_tokenBalanceRaw h"
    and "transfer_out alpId (h, g, s) = (h', g', s')"
  shows "h' = out_account alpId h" "st_accounts s' = (st_accounts s)(ac_id h \<mapsto> out_account alpId h)"
    "st_delegates s' = out_delegates alpId (ac_delegate h) (st_delegates s)" "st_alps s' = st_alps s"
    "gov_sync g' s'" "gv_totalTokenHolders g' = gv_totalTokenHolders g"
    "gv_currentTokenHolders g' = gv_currentTokenHolders g - (if ac_tokenBalanceRaw h = 1 then 1 else 0)"
  using assms(2-4)
  by (auto simp: transfer_out_def Let_def out_account_def represent_out_effect [OF assms(1)] split: if_splits)

lemma transfer_in_effect:
  fixes alpId :: string
  assumes "keyed_delegates (st_delegates s)" "gov_sync g s" "0 \<le> ac_tokenBalanceRaw h"
  defines "s' \<equiv> transfer_in alpId h g s"
  shows "st_accounts s' = (st_accounts s)(ac_id h \<mapsto> in_account alpId h)"
    "st_delegates s' = in_delegates alpId (case ac_delegate h of None \<Rightarrow> ac_id h | Some d \<Rightarrow> d) (st_delegates s)"
    "map_option al_owner (st_alps s' k) = (if k = alpId then Some (ac_id h) else map_option al_owner (st_alps s k))"
    "gv_totalTokenHolders (getGovernanceEntity s') = gv_totalTokenHolders g"
    "gv_currentTokenHolders (getGovernanceEntity s') = gv_currentTokenHolders g + (if ac_tokenBalanceRaw h = 0 then 1 else 0)"
  using assms(3) represent_in_effect(4) [OF assms(1,2)]
  by (auto simp: s'_def transfer_in_def Let_def in_account_def save_owner_def gov_sync_def
      represent_in_effect(1-3) [OF assms(1)] split: option.splits)

definition keyed_accounts :: "(string \<rightharpoonup> account) \<Rightarrow> bool" where
  "keyed_accounts A \<longleftrightarrow> (\<forall>a acc. A a = Some acc \<longrightarrow> ac_id acc = a)"

lemma account_at_id: "keyed_accounts A \<Longrightarrow> ac_id (account_at A a) = a"
  by (auto simp: keyed_accounts_def account_at_def new_account_def split: option.splits)

lemma keyed_out_delegates: "keyed_delegates D \<Longrightarrow> keyed_delegates (out_delegates alpId h D)"
  by (auto simp: keyed_delegates_def out_delegates_def delegate_at_def new_delegate_def split: option.splits)

lemma keyed_in_delegates: "keyed_delegates D \<Longrightarrow> keyed_delegates (in_delegates alpId d D)"
  by (auto simp: keyed_delegates_def in_delegates_def delegate_at_def new_delegate_def split: option.splits)

lemma ac_id_updates [simp]: "ac_id (out_account alpId h) = ac_id h" "ac_id (in_account alpId h) = ac_id h"
  by (simp_all add: out_account_def in_account_def Let_def)

lemma transfer_debit_effect:
  assumes "keyed_delegates (st_delegates s)" "gov_sync g s" "sender \<noteq> ZERO_ADDRESS \<Longrightarrow> 1 \<le> ac_tokenBalanceRaw h"
    and "transfer_debit sender k (h, g, s) = (h', g', s')" "st_accounts s (ac_id h) = Some h"
  shows "st_accounts s' = (st_accounts s)(ac_id h \<mapsto> if sender = ZERO_ADDRESS then h else out_account k h)"
    "st_delegates s' = (if sender = ZERO_ADDRESS then st_delegates s else out_delegates k (ac_delegate h) (st_delegates s))"
    "st_alps s' = st_alps s" "gov_sync g' s'"
    "gv_totalTokenHolders g' = gv_totalTokenHolders g + (if sender = ZERO_ADDRESS then 1 else 0)"
    "gv_currentTokenHolders g' = gv_currentTokenHolders g
       - (if sender \<noteq> ZERO_ADDRESS \<and> ac_tokenBalanceRaw h = 1 then 1 else 0)"
  using assms(3-5) transfer_out_effect [OF assms(1,2)]
  by (cases "sender = ZERO_ADDRESS"; auto simp: transfer_debit_def Let_def fun_upd_idem; fail)+

lemma transfer_burn_effect:
  assumes "transfer_burn receiver (g, s) = (g', s')" "gov_sync g s"
  shows "st_accounts s' = st_accounts s" "st_delegates s' = st_delegates s" "st_alps s' = st_alps s" "gov_sync g' s'"
    "gv_totalTokenHolders g' = gv_totalTokenHolders g - (if receiver = ZERO_ADDRESS then 1 else 0)"
    "gv_currentTokenHolders g' = gv_currentTokenHolders g"
  using assms by (auto simp: transfer_burn_def Let_def split: if_splits)

lemma handleTransfer_effect:
  fixes m p s j
  defines "A \<equiv> st_accounts s" and "D \<equiv> st_delegates s" and "k \<equiv> show_nat (tp_tokenId p)"
    and "f \<equiv> account_at (st_accounts s) (tp_from p)" and "t \<equiv> account_at (st_accounts s) (tp_to p)"
    and "s' \<equiv> handleTransfer m p s"
  assumes keyed: "keyed_accounts A" "keyed_delegates D" and ne: "tp_from p \<noteq> tp_to p"
    and bal: "tp_from p \<noteq> ZERO_ADDRESS \<Longrightarrow> 1 \<le> ac_tokenBalanceRaw f" "0 \<le> ac_tokenBalanceRaw t"
  shows "st_accounts s' = A(tp_from p \<mapsto> if tp_from p = ZERO_ADDRESS then f else out_account k f, tp_to p \<mapsto> in_account k t)"
    "st_delegates s' = in_delegates k (case ac_delegate t of None \<Rightarrow> tp_to p | Some d \<Rightarrow> d)
       (if tp_from p = ZERO_ADDRESS then D else out_delegates k (ac_delegate f) D)"
    "map_option al_owner (st_alps s' j) = (if j = k then Some (tp_to p) else map_option al_owner (st_alps s j))"
    "gv_totalTokenHolders (getGovernanceEntity s') = gv_totalTokenHolders (getGovernanceEntity s)
       + (if tp_from p = ZERO_ADDRESS then 1 else 0) - (if tp_to p = ZERO_ADDRESS then 1 else 0)"
    "gv_currentTokenHolders (getGovernanceEntity s') = gv_currentTokenHolders (getGovernanceEntity s)
       - (if tp_from p \<noteq> ZERO_ADDRESS \<and> ac_tokenBalanceRaw f = 1 then 1 else 0) + (if ac_tokenBalanceRaw t = 0 then 1 else 0)"
proof -
  define s1 where "s1 = snd (getOrCreateAccount (tp_from p) s)"
  define s2 where "s2 = snd (getOrCreateAccount (tp_to p) s1)"
  define g where "g = getGovernanceEntity s2"
  define s3 where "s3 = save_transferEvent (em_txHash m @ ''_'' @ k)
     \<lparr>te_alp = k, te_previousHolder = ac_id f, te_newHolder = ac_id t,
      te_blockNumber = em_blockNumber m, te_blockTimestamp = em_blockTimestamp m\<rparr> s2"
  obtain f' g1 s4 where debit: "transfer_debit (tp_from p) k (f, g, s3) = (f', g1, s4)" by (rule prod_cases3)
  obtain g2 s5 where burn: "transfer_burn (tp_to p) (g1, s4) = (g2, s5)" by (rule prod.exhaust)
  have t_load: "account_at (st_accounts s1) (tp_to p) = t"
    using ne by (simp add: s1_def t_def account_at_def)
  have loads: "getOrCreateAccount (tp_from p) s = (f, s1)" "getOrCreateAccount (tp_to p) s1 = (t, s2)"
    using account_at_load [of "tp_from p" s] account_at_load [of "tp_to p" s1] t_load
    by (simp_all add: prod_eq_iff s1_def s2_def f_def)
  obtain de where run: "s' = transfer_in k t g2 (save_delegationEvent (em_txHash m @ ''_'' @ k) de s5)"
    unfolding s'_def handleTransfer_def loads Let_def prod.case g_def [symmetric] k_def [symmetric] s3_def [symmetric] debit burn
    by blast
  let ?s6 = "save_delegationEvent (em_txHash m @ ''_'' @ k) de s5"
  have ids: "ac_id f = tp_from p" "ac_id t = tp_to p"
    using keyed(1) by (simp_all add: f_def t_def account_at_id A_def)
  have s3: "st_accounts s3 = A(tp_from p \<mapsto> f, tp_to p \<mapsto> t)" "st_delegates s3 = D" "st_alps s3 = st_alps s"
    "gov_sync g s3" "g = getGovernanceEntity s"
    using t_load by (simp_all add: s3_def s2_def s1_def A_def D_def f_def g_def gov_sync_def)
  have kd: "keyed_delegates (st_delegates s3)" and stored: "st_accounts s3 (ac_id f) = Some f"
    using keyed(2) s3(1,2) ids ne by simp_all
  note s4 = transfer_debit_effect [OF kd s3(4) bal(1) debit stored]
  note s5 = transfer_burn_effect [OF burn s4(4)]
  have kd6: "keyed_delegates (st_delegates ?s6)" using keyed(2) by (simp add: s5 s4 s3 keyed_out_delegates)
  have sync6: "gov_sync g2 ?s6" using s5(4) by simp
  note eff = transfer_in_effect [OF kd6 sync6 bal(2), where alpId = k, folded run]
  show "st_accounts s' = A(tp_from p \<mapsto> if tp_from p = ZERO_ADDRESS then f else out_account k f, tp_to p \<mapsto> in_account k t)"
    using eff(1) ids ne by (simp add: s5 s4 s3 fun_upd_twist)
  show "st_delegates s' = in_delegates k (case ac_delegate t of None \<Rightarrow> tp_to p | Some d \<Rightarrow> d)
       (if tp_from p = ZERO_ADDRESS then D else out_delegates k (ac_delegate f) D)"
    using eff(2) ids by (cases "ac_delegate t") (simp_all add: s5 s4 s3)
  show "map_option al_owner (st_alps s' j) = (if j = k then Some (tp_to p) else map_option al_owner (st_alps s j))"
    using eff(3) [of j] ids by (simp add: s5 s4 s3)
  show "gv_totalTokenHolders (getGovernanceEntity s') = gv_totalTokenHolders (getGovernanceEntity s)
       + (if tp_from p = ZERO_ADDRESS then 1 else 0) - (if tp_to p = ZERO_ADDRESS then 1 else 0)"
    using eff(4) s4(5) s3(5) s5(5) by simp
  show "gv_currentTokenHolders (getGovernanceEntity s') = gv_currentTokenHolders (getGovernanceEntity s)
       - (if tp_from p \<noteq> ZERO_ADDRESS \<and> ac_tokenBalanceRaw f = 1 then 1 else 0) + (if ac_tokenBalanceRaw t = 0 then 1 else 0)"
    using eff(5) s4(6) s3(5) s5(6) by simp
qed

section \<open>The token ledger\<close>

text \<open>
  The contract's state the store should mirror: each token's owner, each holder's delegate, and how
  many tokens exist. The delegate is tracked the way the handlers track it: an account that receives
  its first token delegates to itself, one that gives away its last token to nobody.
\<close>

record ledger =
  lg_owner :: "nat \<rightharpoonup> string"
  lg_delegate :: "string \<rightharpoonup> string"
  lg_supply :: int

definition held :: "ledger \<Rightarrow> string \<Rightarrow> nat set" where
  "held L a = {i. lg_owner L i = Some a}"

definition represented :: "ledger \<Rightarrow> string \<Rightarrow> nat set" where
  "represented L d = {i. \<exists>a. lg_owner L i = Some a \<and> lg_delegate L a = Some d}"

definition holders :: "ledger \<Rightarrow> string set" where
  "holders L = ran (lg_owner L)"

datatype token_event =
    Transfer event_meta transfer_params
  | DelegateChanged event_meta delegate_changed_params
  | DelegateVotesChanged delegate_votes_changed_params
  | AlpCreated event_meta alp_created_params

fun handle_token :: "token_event \<Rightarrow> store \<Rightarrow> store" where
  "handle_token (Transfer m p) s = handleTransfer m p s"
| "handle_token (DelegateChanged m p) s = handleDelegateChanged m p s"
| "handle_token (DelegateVotesChanged p) s = handleDelegateVotesChanged p s"
| "handle_token (AlpCreated m p) s = handleAlpCreated m p s"

text \<open>
  The events the contract emits: a mint of a new token, a transfer by the owner to somebody else, a
  change of delegate from the current one to another by an account that holds tokens.
\<close>

fun event_ok :: "ledger \<Rightarrow> token_event \<Rightarrow> bool" where
  "event_ok L (Transfer m p) =
     (tp_from p \<noteq> tp_to p
      \<and> lg_owner L (tp_tokenId p) = (if tp_from p = ZERO_ADDRESS then None else Some (tp_from p)))"
| "event_ok L (DelegateChanged m p) =
     (dc_fromDelegate p \<noteq> dc_toDelegate p \<and> lg_delegate L (dc_delegator p) = Some (dc_fromDelegate p))"
| "event_ok L _ = True"

fun ledger_step :: "token_event \<Rightarrow> ledger \<Rightarrow> ledger" where
  "ledger_step (Transfer m p) L =
     \<lparr>lg_owner = (lg_owner L)(tp_tokenId p \<mapsto> tp_to p),
      lg_delegate = (\<lambda>a.
        if a = tp_to p then (if held L a = {} then Some a else lg_delegate L a)
        else if a = tp_from p \<and> held L a = {tp_tokenId p} then None
        else lg_delegate L a),
      lg_supply = lg_supply L + (if tp_from p = ZERO_ADDRESS then 1 else 0) - (if tp_to p = ZERO_ADDRESS then 1 else 0)\<rparr>"
| "ledger_step (DelegateChanged m p) L = L\<lparr>lg_delegate := (lg_delegate L)(dc_delegator p \<mapsto> dc_toDelegate p)\<rparr>"
| "ledger_step _ L = L"

fun events_ok :: "ledger \<Rightarrow> token_event list \<Rightarrow> bool" where
  "events_ok L [] = True"
| "events_ok L (e # es) = (event_ok L e \<and> events_ok (ledger_step e L) es)"

definition empty_ledger :: ledger where
  "empty_ledger = \<lparr>lg_owner = Map.empty, lg_delegate = Map.empty, lg_supply = 0\<rparr>"

text \<open>The store mirrors the ledger, table by table.\<close>

definition account_ok :: "ledger \<Rightarrow> string \<Rightarrow> account \<Rightarrow> bool" where
  "account_ok L a acc \<longleftrightarrow> ac_id acc = a
     \<and> ac_tokenBalanceRaw acc = int (card (held L a)) \<and> ac_tokenBalance acc = int (card (held L a))
     \<and> distinct (ac_alps acc) \<and> set (ac_alps acc) = show_nat ` held L a \<and> ac_delegate acc = lg_delegate L a"

definition delegate_ok :: "ledger \<Rightarrow> string \<Rightarrow> delegate \<Rightarrow> bool" where
  "delegate_ok L d dl \<longleftrightarrow> dl_id dl = d \<and> distinct (dl_alpsRepresented dl)
     \<and> set (dl_alpsRepresented dl) = show_nat ` represented L d"

definition ledger_wf :: "ledger \<Rightarrow> bool" where
  "ledger_wf L \<longleftrightarrow> finite (dom (lg_owner L)) \<and> (\<forall>a. lg_delegate L a = None \<longleftrightarrow> held L a = {})"

definition mirrors :: "ledger \<Rightarrow> store \<Rightarrow> bool" where
  "mirrors L s \<longleftrightarrow> ledger_wf L
     \<and> (\<forall>a. account_ok L a (account_at (st_accounts s) a))
     \<and> (\<forall>d. delegate_ok L d (delegate_at (st_delegates s) d))
     \<and> (\<forall>i. map_option al_owner (st_alps s (show_nat i)) = lg_owner L i)
     \<and> gv_totalTokenHolders (getGovernanceEntity s) = lg_supply L
     \<and> gv_currentTokenHolders (getGovernanceEntity s) = int (card (holders L))"

lemma mirrors_empty: "mirrors empty_ledger empty_store"
  by (simp add: mirrors_def empty_ledger_def empty_store_def ledger_wf_def account_ok_def delegate_ok_def
      account_at_def delegate_at_def new_account_def new_delegate_def held_def represented_def
      getGovernanceEntity_def holders_def)

lemma finite_held: "ledger_wf L \<Longrightarrow> finite (held L a)"
  by (auto simp: ledger_wf_def held_def dom_def elim: rev_finite_subset)

lemma finite_holders: "ledger_wf L \<Longrightarrow> finite (holders L)"
  by (simp add: ledger_wf_def holders_def finite_ran)

lemma holders_iff: "a \<in> holders L \<longleftrightarrow> held L a \<noteq> {}"
  by (auto simp: holders_def ran_def held_def)

lemma held_transfer:
  assumes "event_ok L (Transfer m p)"
  shows "held (ledger_step (Transfer m p) L) a =
    (if a = tp_to p then insert (tp_tokenId p) (held L a)
     else if a = tp_from p then held L a - {tp_tokenId p} else held L a)"
  using assms by (auto simp: held_def split: if_splits)

lemma token_not_held_by_receiver: "event_ok L (Transfer m p) \<Longrightarrow> tp_tokenId p \<notin> held L (tp_to p)"
  by (auto simp: held_def split: if_splits)

lemma token_held_by_sender:
  "event_ok L (Transfer m p) \<Longrightarrow> tp_tokenId p \<in> held L (tp_from p) \<longleftrightarrow> tp_from p \<noteq> ZERO_ADDRESS"
  by (auto simp: held_def split: if_splits)

lemma account_at_upd: "account_at (A(b \<mapsto> x)) a = (if a = b then x else account_at A a)"
  by (simp add: account_at_def)

lemma delegate_at_upd: "delegate_at (D(b \<mapsto> x)) a = (if a = b then x else delegate_at D a)"
  by (simp add: delegate_at_def)

lemma delegate_at_out:
  "delegate_at (out_delegates k h D) d =
     (if h = Some d then (delegate_at D d)\<lparr>dl_alpsRepresented := filter (\<lambda>n. n \<noteq> k) (dl_alpsRepresented (delegate_at D d))\<rparr>
      else delegate_at D d)"
  by (auto simp: out_delegates_def delegate_at_upd split: option.splits)

lemma delegate_at_in:
  "delegate_at (in_delegates k nd D) d =
     (if d = nd then (delegate_at D d)\<lparr>dl_alpsRepresented := dl_alpsRepresented (delegate_at D d) @ [k]\<rparr>
      else delegate_at D d)"
  by (simp add: in_delegates_def delegate_at_upd)

lemma mirrors_keyed:
  assumes "mirrors L s"
  shows "keyed_accounts (st_accounts s)" "keyed_delegates (st_delegates s)"
proof -
  have "ac_id (account_at (st_accounts s) a) = a" "dl_id (delegate_at (st_delegates s) d) = d" for a d
    using assms by (auto simp: mirrors_def account_ok_def delegate_ok_def)
  then show "keyed_accounts (st_accounts s)" "keyed_delegates (st_delegates s)"
    unfolding keyed_accounts_def keyed_delegates_def account_at_def delegate_at_def by (metis option.simps(5))+
qed

lemma account_in_ok:
  assumes "account_ok L a acc" "finite (held L a)" "i \<notin> held L a" "held L' a = insert i (held L a)"
    and "lg_delegate L' a = (if held L a = {} then Some a else lg_delegate L a)"
  shows "account_ok L' a (in_account (show_nat i) acc)"
proof -
  have "card (held L a) = 0 \<longleftrightarrow> held L a = {}" using assms(2) by simp
  with assms show ?thesis by (auto simp: account_ok_def in_account_def Let_def)
qed

lemma account_out_ok:
  assumes "account_ok L a acc" "finite (held L a)" "i \<in> held L a" "held L' a = held L a - {i}"
    and "lg_delegate L' a = (if held L a = {i} then None else lg_delegate L a)"
  shows "account_ok L' a (out_account (show_nat i) acc)"
proof -
  have c: "int (card (held L a - {i})) = int (card (held L a)) - 1"
    using assms(2,3) by (metis card_Suc_Diff1 of_nat_Suc add_diff_cancel_left')
  have "card (held L a) = Suc 0 \<longleftrightarrow> held L a = {i}"
    using assms(3) by (auto simp: card_1_singleton_iff)
  then have "int (card (held L a)) - 1 = 0 \<longleftrightarrow> held L a = {i}" by linarith
  with assms c show ?thesis by (auto simp: account_ok_def out_account_def Let_def)
qed

lemma represented_transfer:
  assumes "ledger_wf L" "event_ok L (Transfer m p)"
  defines "nd \<equiv> (case lg_delegate L (tp_to p) of None \<Rightarrow> tp_to p | Some d \<Rightarrow> d)"
  shows "represented (ledger_step (Transfer m p) L) d =
    (represented L d - {tp_tokenId p}) \<union> (if d = nd then {tp_tokenId p} else {})"
proof -
  let ?L = "ledger_step (Transfer m p) L" and ?i = "tp_tokenId p"
  have new: "lg_delegate ?L (tp_to p) = Some nd"
  proof -
    have "lg_delegate L (tp_to p) = None \<longleftrightarrow> held L (tp_to p) = {}" using assms(1) by (simp add: ledger_wf_def)
    then show ?thesis by (auto simp: nd_def split: option.splits)
  qed
  have keep: "lg_delegate ?L a = lg_delegate L a" if "lg_owner L j = Some a" "j \<noteq> ?i" for a j
    using that by (auto simp: held_def)
  have "j \<in> represented ?L d \<longleftrightarrow> j \<in> (represented L d - {?i}) \<union> (if d = nd then {?i} else {})" for j
  proof (cases "j = ?i")
    case True
    then show ?thesis using new by (auto simp: represented_def)
  next
    case False
    then have "lg_owner ?L j = lg_owner L j" by simp
    with False keep show ?thesis by (auto simp: represented_def simp del: ledger_step.simps)
  qed
  then show ?thesis by blast
qed

lemma holders_transfer:
  assumes "ledger_wf L" "event_ok L (Transfer m p)"
  shows "int (card (holders (ledger_step (Transfer m p) L))) = int (card (holders L))
    - (if held L (tp_from p) = {tp_tokenId p} then 1 else 0) + (if held L (tp_to p) = {} then 1 else 0)"
proof -
  let ?L = "ledger_step (Transfer m p) L" and ?i = "tp_tokenId p"
  have ne: "tp_from p \<noteq> tp_to p" using assms(2) by simp
  let ?H = "holders L - (if held L (tp_from p) = {?i} then {tp_from p} else {})"
  have eq: "holders ?L = insert (tp_to p) ?H"
    using ne by (auto simp: holders_iff held_transfer [OF assms(2)] simp del: ledger_step.simps split: if_splits)
  have fin: "finite (holders L)" by (rule finite_holders [OF assms(1)])
  have "int (card ?H) = int (card (holders L)) - (if held L (tp_from p) = {?i} then 1 else 0)"
  proof (cases "held L (tp_from p) = {?i}")
    case True
    then have m: "tp_from p \<in> holders L" by (simp add: holders_iff)
    with fin have "card (holders L) = Suc (card (holders L - {tp_from p}))" by (simp only: card_Suc_Diff1)
    with True show ?thesis by simp
  qed simp
  moreover have "tp_to p \<in> ?H \<longleftrightarrow> held L (tp_to p) \<noteq> {}" using ne by (auto simp: holders_iff)
  ultimately show ?thesis unfolding eq using fin by (simp add: card_insert_if)
qed

lemma ledger_wf_transfer:
  assumes "ledger_wf L" "event_ok L (Transfer m p)"
  shows "ledger_wf (ledger_step (Transfer m p) L)"
proof -
  have "lg_delegate (ledger_step (Transfer m p) L) a = None \<longleftrightarrow> held (ledger_step (Transfer m p) L) a = {}" for a
    using assms(1) unfolding held_transfer [OF assms(2)]
    by (auto simp: ledger_wf_def)
  then show ?thesis using assms(1) by (simp add: ledger_wf_def)
qed

lemma mirrors_transfer:
  assumes inv: "mirrors L s" and ok: "event_ok L (Transfer m p)"
  shows "mirrors (ledger_step (Transfer m p) L) (handleTransfer m p s)"
proof -
  let ?L = "ledger_step (Transfer m p) L" and ?i = "tp_tokenId p"
  let ?f = "account_at (st_accounts s) (tp_from p)" and ?t = "account_at (st_accounts s) (tp_to p)"
  have wf: "ledger_wf L" and acc: "\<And>a. account_ok L a (account_at (st_accounts s) a)"
    and del: "\<And>d. delegate_ok L d (delegate_at (st_delegates s) d)"
    using inv by (simp_all add: mirrors_def)
  have fin: "finite (held L a)" for a by (rule finite_held [OF wf])
  note keyed = mirrors_keyed [OF inv]
  have ne: "tp_from p \<noteq> tp_to p" using ok by simp
  note sent = token_held_by_sender [OF ok]
  have card1: "ac_tokenBalanceRaw ?f = int (card (held L (tp_from p)))" "ac_tokenBalanceRaw ?t = int (card (held L (tp_to p)))"
    "ac_delegate ?f = lg_delegate L (tp_from p)" "ac_delegate ?t = lg_delegate L (tp_to p)"
    using acc by (auto simp: account_ok_def)
  have one: "tp_from p \<noteq> ZERO_ADDRESS \<Longrightarrow> 1 \<le> ac_tokenBalanceRaw ?f" and zero: "0 \<le> ac_tokenBalanceRaw ?t"
    using sent fin [of "tp_from p"] unfolding card1 by (auto simp: Suc_le_eq card_gt_0_iff)
  note eff = handleTransfer_effect [OF keyed ne one zero, where m = m]
  have accounts: "account_ok ?L a (account_at (st_accounts (handleTransfer m p s)) a)" for a
  proof (cases "a = tp_to p")
    case True
    have "account_ok ?L (tp_to p) (in_account (show_nat ?i) ?t)"
      by (rule account_in_ok [OF acc fin token_not_held_by_receiver [OF ok]])
        (simp add: held_transfer [OF ok] del: ledger_step.simps, simp)
    with True show ?thesis by (simp add: eff(1) account_at_upd del: ledger_step.simps)
  next
    case False
    show ?thesis
    proof (cases "a = tp_from p \<and> a \<noteq> ZERO_ADDRESS")
      case True
      then have mem: "?i \<in> held L (tp_from p)" using sent by blast
      have less: "held ?L (tp_from p) = held L (tp_from p) - {?i}"
        using ne by (simp add: held_transfer [OF ok] del: ledger_step.simps)
      have "account_ok ?L (tp_from p) (out_account (show_nat ?i) ?f)"
        by (rule account_out_ok [OF acc fin mem less]) (use ne in simp)
      with True ne show ?thesis by (auto simp: eff(1) account_at_upd simp del: ledger_step.simps)
    next
      case unsent: False
      then have "account_at (st_accounts (handleTransfer m p s)) a = account_at (st_accounts s) a"
        using False by (auto simp: eff(1) account_at_upd)
      moreover have "held ?L a = held L a"
        unfolding held_transfer [OF ok] using False unsent sent by auto
      moreover have "lg_delegate ?L a = lg_delegate L a" using False unsent sent by auto
      ultimately show ?thesis using acc [of a] by (simp add: account_ok_def del: ledger_step.simps)
    qed
  qed
  have delegates: "delegate_ok ?L d (delegate_at (st_delegates (handleTransfer m p s)) d)" for d
  proof -
    let ?nd = "case lg_delegate L (tp_to p) of None \<Rightarrow> tp_to p | Some d \<Rightarrow> d"
    note rep = represented_transfer [OF wf ok, of d]
    have mem: "?i \<in> represented L d \<longleftrightarrow> tp_from p \<noteq> ZERO_ADDRESS \<and> lg_delegate L (tp_from p) = Some d"
      using ok by (auto simp: represented_def)
    define dl where "dl = delegate_at (st_delegates s) d"
    define out where "out = (tp_from p \<noteq> ZERO_ADDRESS \<and> lg_delegate L (tp_from p) = Some d)"
    have at: "delegate_at (st_delegates (handleTransfer m p s)) d = dl\<lparr>dl_alpsRepresented :=
        (if out then filter (\<lambda>n. n \<noteq> show_nat ?i) (dl_alpsRepresented dl) else dl_alpsRepresented dl)
        @ (if d = ?nd then [show_nat ?i] else [])\<rparr>"
      by (auto simp: eff(2) card1 delegate_at_in delegate_at_out dl_def out_def)
    have "distinct (dl_alpsRepresented dl)" "set (dl_alpsRepresented dl) = show_nat ` represented L d" "dl_id dl = d"
      using del by (simp_all add: delegate_ok_def dl_def)
    with mem show ?thesis
      unfolding delegate_ok_def at rep by (auto simp: out_def [symmetric])
  qed
  have owners: "map_option al_owner (st_alps (handleTransfer m p s) (show_nat j)) = lg_owner ?L j" for j
    using inv eff(3) [of "show_nat j"] by (simp add: mirrors_def)
  have f1: "tp_from p \<noteq> ZERO_ADDRESS \<and> ac_tokenBalanceRaw ?f = 1 \<longleftrightarrow> held L (tp_from p) = {?i}"
    using sent unfolding card1 by (auto simp: card_1_singleton_iff)
  have t0: "ac_tokenBalanceRaw ?t = 0 \<longleftrightarrow> held L (tp_to p) = {}"
    using fin unfolding card1 by simp
  show ?thesis
    using accounts delegates owners ledger_wf_transfer [OF wf ok] eff(4,5) holders_transfer [OF wf ok] inv
    by (simp add: mirrors_def f1 t0 del: ledger_step.simps) simp
qed

section \<open>The other events\<close>

lemma delegation_events_tables [simp]:
  "st_accounts (delegation_events m alps a b s) = st_accounts s"
  "st_delegates (delegation_events m alps a b s) = st_delegates s"
  "st_alps (delegation_events m alps a b s) = st_alps s"
  "getGovernanceEntity (delegation_events m alps a b s) = getGovernanceEntity s"
  unfolding delegation_events_def by (induction alps arbitrary: s) simp_all

lemma handleDelegateChanged_effect:
  fixes m d
  assumes keyed: "keyed_accounts (st_accounts s)" "keyed_delegates (st_delegates s)"
    and ne: "dc_fromDelegate p \<noteq> dc_toDelegate p"
  defines "acc \<equiv> account_at (st_accounts s) (dc_delegator p)" and "s' \<equiv> handleDelegateChanged m p s"
    and "prev \<equiv> delegate_at (st_delegates s) (dc_fromDelegate p)" and "new \<equiv> delegate_at (st_delegates s) (dc_toDelegate p)"
  shows "st_accounts s' = (st_accounts s)(dc_delegator p \<mapsto> acc\<lparr>ac_delegate := Some (dc_toDelegate p)\<rparr>)"
    "delegate_at (st_delegates s') d =
       (if d = dc_fromDelegate p then prev\<lparr>dl_tokenHoldersRepresentedAmount := dl_tokenHoldersRepresentedAmount prev - 1,
            dl_alpsRepresented := filter (\<lambda>n. n \<notin> set (ac_alps acc)) (dl_alpsRepresented prev)\<rparr>
        else if d = dc_toDelegate p then new\<lparr>dl_tokenHoldersRepresentedAmount := dl_tokenHoldersRepresentedAmount new + 1,
            dl_alpsRepresented := dl_alpsRepresented new @ ac_alps acc\<rparr>
        else delegate_at (st_delegates s) d)"
    "st_alps s' = st_alps s"
    "gv_totalTokenHolders (getGovernanceEntity s') = gv_totalTokenHolders (getGovernanceEntity s)"
    "gv_currentTokenHolders (getGovernanceEntity s') = gv_currentTokenHolders (getGovernanceEntity s)"
proof -
  define s1 where "s1 = snd (getOrCreateAccount (dc_delegator p) s)"
  define s2 where "s2 = snd (getOrCreateDelegate (dc_fromDelegate p) s1)"
  define s3 where "s3 = snd (getOrCreateDelegate (dc_toDelegate p) s2)"
  have d2: "st_delegates s2 = (st_delegates s)(dc_fromDelegate p \<mapsto> prev)"
    by (simp add: s2_def getOrCreateDelegate_tables s1_def prev_def delegate_at_load)
  have new2: "delegate_at (st_delegates s2) (dc_toDelegate p) = new"
    using ne by (simp add: d2 delegate_at_upd new_def)
  have d3: "st_delegates s3 = (st_delegates s)(dc_fromDelegate p \<mapsto> prev, dc_toDelegate p \<mapsto> new)"
    using new2 by (simp add: s3_def getOrCreateDelegate_tables delegate_at_load d2)
  have loads: "getOrCreateAccount (dc_delegator p) s = (acc, s1)"
    "getOrCreateDelegate (dc_fromDelegate p) s1 = (prev, s2)" "getOrCreateDelegate (dc_toDelegate p) s2 = (new, s3)"
    using new2 by (simp_all add: prod_eq_iff s1_def s2_def s3_def acc_def account_at_load delegate_at_load prev_def)
  have ids: "ac_id acc = dc_delegator p" "dl_id prev = dc_fromDelegate p" "dl_id new = dc_toDelegate p"
    using keyed by (simp_all add: acc_def prev_def new_def account_at_id delegate_at_id)
  have tabs: "st_accounts s3 = (st_accounts s)(dc_delegator p \<mapsto> acc)" "st_alps s3 = st_alps s"
    "gv_totalTokenHolders (getGovernanceEntity s3) = gv_totalTokenHolders (getGovernanceEntity s)"
    "gv_currentTokenHolders (getGovernanceEntity s3) = gv_currentTokenHolders (getGovernanceEntity s)"
    by (simp_all add: s3_def s2_def s1_def getOrCreateDelegate_tables getOrCreateDelegate_governance acc_def)
  note run = s'_def handleDelegateChanged_def loads Let_def prod.case
  show "st_accounts s' = (st_accounts s)(dc_delegator p \<mapsto> acc\<lparr>ac_delegate := Some (dc_toDelegate p)\<rparr>)"
    "st_alps s' = st_alps s"
    "gv_totalTokenHolders (getGovernanceEntity s') = gv_totalTokenHolders (getGovernanceEntity s)"
    "gv_currentTokenHolders (getGovernanceEntity s') = gv_currentTokenHolders (getGovernanceEntity s)"
    unfolding run using tabs ids by simp_all
  show "delegate_at (st_delegates s') d =
       (if d = dc_fromDelegate p then prev\<lparr>dl_tokenHoldersRepresentedAmount := dl_tokenHoldersRepresentedAmount prev - 1,
            dl_alpsRepresented := filter (\<lambda>n. n \<notin> set (ac_alps acc)) (dl_alpsRepresented prev)\<rparr>
        else if d = dc_toDelegate p then new\<lparr>dl_tokenHoldersRepresentedAmount := dl_tokenHoldersRepresentedAmount new + 1,
            dl_alpsRepresented := dl_alpsRepresented new @ ac_alps acc\<rparr>
        else delegate_at (st_delegates s) d)"
    unfolding run using ids ne by (simp add: delegate_at_upd d3)
qed

lemma represented_delegate_change:
  assumes "event_ok L (DelegateChanged m p)"
  shows "represented (ledger_step (DelegateChanged m p) L) d =
    (if d = dc_fromDelegate p then represented L d - held L (dc_delegator p)
     else if d = dc_toDelegate p then represented L d \<union> held L (dc_delegator p)
     else represented L d)"
proof (rule set_eqI)
  fix i
  show "i \<in> represented (ledger_step (DelegateChanged m p) L) d \<longleftrightarrow>
    i \<in> (if d = dc_fromDelegate p then represented L d - held L (dc_delegator p)
      else if d = dc_toDelegate p then represented L d \<union> held L (dc_delegator p)
      else represented L d)"
    using assms by (cases "lg_owner L i") (auto simp: represented_def held_def)
qed

lemma mirrors_delegate_change:
  assumes inv: "mirrors L s" and ok: "event_ok L (DelegateChanged m p)"
  shows "mirrors (ledger_step (DelegateChanged m p) L) (handleDelegateChanged m p s)"
proof -
  let ?L = "ledger_step (DelegateChanged m p) L" and ?s = "handleDelegateChanged m p s"
  have ne: "dc_fromDelegate p \<noteq> dc_toDelegate p" and cur: "lg_delegate L (dc_delegator p) = Some (dc_fromDelegate p)"
    using ok by auto
  note eff = handleDelegateChanged_effect [OF mirrors_keyed [OF inv] ne, where m = m]
  have wf: "ledger_wf L" and acc: "\<And>a. account_ok L a (account_at (st_accounts s) a)"
    and del: "\<And>d. delegate_ok L d (delegate_at (st_delegates s) d)"
    using inv by (simp_all add: mirrors_def)
  have held_eq: "held ?L a = held L a" for a by (simp add: held_def)
  have wf': "ledger_wf ?L"
    using wf cur unfolding ledger_wf_def held_eq
    by (auto split: if_splits) (metis emptyE option.distinct(1))
  have accounts: "account_ok ?L a (account_at (st_accounts ?s) a)" for a
    using acc [of a] unfolding eff(1) account_ok_def held_eq by (auto simp: account_at_upd)
  have delegates: "delegate_ok ?L d (delegate_at (st_delegates ?s) d)" for d
  proof -
    have alps: "set (ac_alps (account_at (st_accounts s) (dc_delegator p))) = show_nat ` held L (dc_delegator p)"
      "distinct (ac_alps (account_at (st_accounts s) (dc_delegator p)))"
      using acc by (auto simp: account_ok_def)
    have dl: "distinct (dl_alpsRepresented (delegate_at (st_delegates s) d))" "dl_id (delegate_at (st_delegates s) d) = d"
      "set (dl_alpsRepresented (delegate_at (st_delegates s) d)) = show_nat ` represented L d" for d
      using del by (simp_all add: delegate_ok_def)
    have disj: "represented L (dc_toDelegate p) \<inter> held L (dc_delegator p) = {}"
      using cur ne by (auto simp: represented_def held_def)
    show ?thesis
      unfolding delegate_ok_def eff(2) represented_delegate_change [OF ok]
      using dl alps disj ne by auto
  qed
  have "holders ?L = holders L" by (simp add: holders_def)
  with accounts delegates wf' inv eff(3-5) show ?thesis
    by (simp add: mirrors_def)
qed

lemma handleDelegateVotesChanged_tables:
  "st_accounts (handleDelegateVotesChanged p s) = st_accounts s" "st_alps (handleDelegateVotesChanged p s) = st_alps s"
  "gv_totalTokenHolders (getGovernanceEntity (handleDelegateVotesChanged p s)) = gv_totalTokenHolders (getGovernanceEntity s)"
  "gv_currentTokenHolders (getGovernanceEntity (handleDelegateVotesChanged p s)) = gv_currentTokenHolders (getGovernanceEntity s)"
  by (simp_all add: handleDelegateVotesChanged_def Let_def case_prod_unfold getOrCreateDelegate_tables)

lemma mirrors_votes_changed:
  assumes "mirrors L s"
  shows "mirrors L (handleDelegateVotesChanged p s)"
proof -
  have id: "dl_id (delegate_at (st_delegates s) (dv_delegate p)) = dv_delegate p"
    using mirrors_keyed(2) [OF assms] by (rule delegate_at_id)
  have "delegate_ok L d (delegate_at (st_delegates (handleDelegateVotesChanged p s)) d)" for d
    using assms id by (auto simp: mirrors_def handleDelegateVotesChanged_def Let_def case_prod_unfold
        getOrCreateDelegate_tables delegate_at_load delegate_at_upd delegate_ok_def)
  with assms show ?thesis by (simp add: mirrors_def handleDelegateVotesChanged_tables)
qed

lemma handleAlpCreated_tables:
  "st_accounts (handleAlpCreated m p s) = st_accounts s" "st_delegates (handleAlpCreated m p s) = st_delegates s"
  "map_option al_owner (st_alps (handleAlpCreated m p s) k) = map_option al_owner (st_alps s k)"
  "getGovernanceEntity (handleAlpCreated m p s) = getGovernanceEntity s"
  by (auto simp: handleAlpCreated_def Let_def split: option.splits)

lemma mirrors_created: "mirrors L s \<Longrightarrow> mirrors L (handleAlpCreated m p s)"
  by (simp add: mirrors_def handleAlpCreated_tables)

lemma mirrors_step: "mirrors L s \<Longrightarrow> event_ok L e \<Longrightarrow> mirrors (ledger_step e L) (handle_token e s)"
proof (cases e)
  case (Transfer m p)
  moreover assume "mirrors L s" "event_ok L e"
  ultimately show ?thesis using mirrors_transfer by simp
next
  case (DelegateChanged m p)
  moreover assume "mirrors L s" "event_ok L e"
  ultimately show ?thesis using mirrors_delegate_change by simp
qed (simp_all add: mirrors_votes_changed mirrors_created)

lemma mirrors_run:
  "mirrors L s \<Longrightarrow> events_ok L es \<Longrightarrow> mirrors (fold ledger_step es L) (fold handle_token es s)"
  by (induction es arbitrary: L s) (auto intro: mirrors_step)

section \<open>Properties\<close>

definition sample_meta :: event_meta where
  "sample_meta = \<lparr>em_txHash = ''0xabc'', em_txIndex = 0, em_blockNumber = 100, em_blockTimestamp = 1600000000\<rparr>"

text \<open>Two mints, a transfer, a delegation, a burn.\<close>

definition sample_events :: "token_event list" where
  "sample_events =
     [Transfer sample_meta \<lparr>tp_from = ZERO_ADDRESS, tp_to = ''0xa1'', tp_tokenId = 0\<rparr>,
      Transfer sample_meta \<lparr>tp_from = ZERO_ADDRESS, tp_to = ''0xa1'', tp_tokenId = 1\<rparr>,
      Transfer sample_meta \<lparr>tp_from = ''0xa1'', tp_to = ''0xb2'', tp_tokenId = 1\<rparr>,
      DelegateChanged sample_meta \<lparr>dc_delegator = ''0xb2'', dc_fromDelegate = ''0xb2'', dc_toDelegate = ''0xa1''\<rparr>,
      DelegateVotesChanged \<lparr>dv_delegate = ''0xa1'', dv_previousBalance = 1, dv_newBalance = 2\<rparr>,
      Transfer sample_meta \<lparr>tp_from = ''0xa1'', tp_to = ZERO_ADDRESS, tp_tokenId = 0\<rparr>]"

lemma sample_events_ok: "events_ok empty_ledger sample_events"
  by (simp add: sample_events_def empty_ledger_def ZERO_ADDRESS_def held_def)



text \<open>
  The counters of the governance entity: \<open>currentTokenHolders\<close> is the number of accounts that hold
  a token (the zero address included once a token was burned), \<open>totalTokenHolders\<close> is not a number of
  holders but the supply, mints minus burns.
\<close>

theorem holder_counters:
  assumes "events_ok empty_ledger es"
  shows "gv_currentTokenHolders (getGovernanceEntity (fold handle_token es empty_store))
        = int (card {a. \<exists>i. lg_owner (fold ledger_step es empty_ledger) i = Some a})
    \<and> gv_totalTokenHolders (getGovernanceEntity (fold handle_token es empty_store))
        = (\<Sum>e\<leftarrow>es. case e of Transfer m p \<Rightarrow>
             (if tp_from p = ZERO_ADDRESS then 1 else 0) - (if tp_to p = ZERO_ADDRESS then 1 else 0) | _ \<Rightarrow> 0)"
proof -
  have minted: "lg_supply (fold ledger_step es L) = lg_supply L + (\<Sum>e\<leftarrow>es. case e of Transfer m p \<Rightarrow>
             (if tp_from p = ZERO_ADDRESS then 1 else 0) - (if tp_to p = ZERO_ADDRESS then 1 else 0) | _ \<Rightarrow> 0)" for L
  proof (induction es arbitrary: L)
    case (Cons e es)
    show ?case by (cases e) (simp_all add: Cons)
  qed simp
  show ?thesis
    using mirrors_run [OF mirrors_empty assms] minted [of empty_ledger]
    by (simp add: mirrors_def holders_def ran_def empty_ledger_def)
qed

theorem holder_counters_witness:
  "gv_totalTokenHolders (getGovernanceEntity (fold handle_token sample_events empty_store)) = 1"
  using holder_counters [OF sample_events_ok] by (simp add: sample_events_def ZERO_ADDRESS_def)



text \<open>
  A transfer of a token from an account to itself, which ERC-721 allows, breaks the mirror: the
  receiver's copy was loaded before the sender's was saved, so the balance grows by one and the
  token is listed twice.
\<close>

theorem self_transfer_inflates_balance:
  assumes "keyed_delegates (st_delegates s)" "tp_from p = tp_to p" "tp_to p \<noteq> ZERO_ADDRESS"
    and "st_accounts s (tp_to p) = Some acc" "ac_id acc = tp_to p" "1 \<le> ac_tokenBalanceRaw acc"
  shows "\<exists>acc'. st_accounts (handleTransfer m p s) (tp_to p) = Some acc'
    \<and> ac_tokenBalanceRaw acc' = ac_tokenBalanceRaw acc + 1
    \<and> ac_alps acc' = ac_alps acc @ [show_nat (tp_tokenId p)]"
proof -
  have load: "getOrCreateAccount (tp_to p) s = (acc, s)" using assms(4) by (simp add: getOrCreateAccount_def)
  let ?k = "show_nat (tp_tokenId p)"
  let ?g = "getGovernanceEntity s"
  define s3 where "s3 = save_transferEvent (em_txHash m @ ''_'' @ ?k)
     \<lparr>te_alp = ?k, te_previousHolder = ac_id acc, te_newHolder = ac_id acc,
      te_blockNumber = em_blockNumber m, te_blockTimestamp = em_blockTimestamp m\<rparr> s"
  obtain f' g1 s4 where debit: "transfer_debit (tp_to p) ?k (acc, ?g, s3) = (f', g1, s4)" by (rule prod_cases3)
  have burn: "transfer_burn (tp_to p) (g1, s4) = (g1, s4)" using assms(3) by (simp add: transfer_burn_def)
  obtain de where run: "handleTransfer m p s = transfer_in ?k acc g1 (save_delegationEvent (em_txHash m @ ''_'' @ ?k) de s4)"
    unfolding handleTransfer_def assms(2) load Let_def prod.case s3_def [symmetric] debit burn by blast
  have kd: "keyed_delegates (st_delegates s3)" "gov_sync ?g s3" "st_accounts s3 (ac_id acc) = Some acc"
    using assms by (simp_all add: s3_def gov_sync_def)
  note s4 = transfer_debit_effect [OF kd(1,2) assms(6) debit kd(3)]
  let ?s6 = "save_delegationEvent (em_txHash m @ ''_'' @ ?k) de s4"
  have kd6: "keyed_delegates (st_delegates ?s6)" "gov_sync g1 ?s6"
    using kd(1) s4 by (simp_all add: keyed_out_delegates)
  have "st_accounts (handleTransfer m p s) (ac_id acc) = Some (in_account ?k acc)"
    using transfer_in_effect(1) [OF kd6, of acc ?k] assms(6) by (simp add: run)
  then show ?thesis using assms(5) by (simp add: in_account_def Let_def)
qed

definition sample_self :: store where
  "sample_self = handleTransfer sample_meta \<lparr>tp_from = ZERO_ADDRESS, tp_to = ''0xa1'', tp_tokenId = 0\<rparr> empty_store"

lemma sample_self_account:
  "st_accounts sample_self ''0xa1'' = Some (in_account ''0'' (new_account ''0xa1''))" "mirrors
     (ledger_step (Transfer sample_meta \<lparr>tp_from = ZERO_ADDRESS, tp_to = ''0xa1'', tp_tokenId = 0\<rparr>) empty_ledger) sample_self"
proof -
  let ?p = "\<lparr>tp_from = ZERO_ADDRESS, tp_to = ''0xa1'', tp_tokenId = 0\<rparr>"
  have ok: "event_ok empty_ledger (Transfer sample_meta ?p)" by (simp add: empty_ledger_def ZERO_ADDRESS_def)
  show m: "mirrors (ledger_step (Transfer sample_meta ?p) empty_ledger) sample_self"
    unfolding sample_self_def by (rule mirrors_transfer [OF mirrors_empty ok])
  have zero: "show_nat 0 = ''0''" by (simp add: show_nat_def show_base_def digits_of.simps digit_char_def)
  show "st_accounts sample_self ''0xa1'' = Some (in_account ''0'' (new_account ''0xa1''))"
    using handleTransfer_effect(1) [of empty_store ?p sample_meta]
    by (simp add: sample_self_def empty_store_def keyed_accounts_def keyed_delegates_def account_at_def new_account_def
        ZERO_ADDRESS_def zero)
qed

theorem self_transfer_inflates_balance_witness:
  "\<exists>acc'. st_accounts (handleTransfer sample_meta \<lparr>tp_from = ''0xa1'', tp_to = ''0xa1'', tp_tokenId = 0\<rparr> sample_self) ''0xa1'' = Some acc'
    \<and> ac_tokenBalanceRaw acc' = 2 \<and> ac_alps acc' = [''0'', show_nat 0]"
  using self_transfer_inflates_balance [OF mirrors_keyed(2) [OF sample_self_account(2)],
      of "\<lparr>tp_from = ''0xa1'', tp_to = ''0xa1'', tp_tokenId = 0\<rparr>" "in_account ''0'' (new_account ''0xa1'')" sample_meta]
    sample_self_account(1)
  by (simp add: in_account_def new_account_def ZERO_ADDRESS_def)

text \<open>
  \<open>totalDelegates\<close> is counted up when a delegate entity is created, but the vote handler then saves
  the copy of the governance entity it loaded before: the delegate exists, the count is unchanged.
\<close>

theorem votes_changed_loses_new_delegate:
  assumes "st_delegates s (dv_delegate p) = None" "dv_delegate p \<noteq> ZERO_ADDRESS"
  shows "gv_totalDelegates (getGovernanceEntity (snd (getOrCreateDelegate (dv_delegate p) s)))
      = gv_totalDelegates (getGovernanceEntity s) + 1
    \<and> st_delegates (handleDelegateVotesChanged p s) (dv_delegate p) \<noteq> None
    \<and> gv_totalDelegates (getGovernanceEntity (handleDelegateVotesChanged p s)) = gv_totalDelegates (getGovernanceEntity s)"
  using assms
  by (simp add: handleDelegateVotesChanged_def Let_def case_prod_unfold getOrCreateDelegate_tables
      getOrCreateDelegate_governance getOrCreateDelegate_fst new_delegate_def)

theorem votes_changed_loses_new_delegate_witness:
  "gv_totalDelegates (getGovernanceEntity (handleDelegateVotesChanged
      \<lparr>dv_delegate = ''0xa1'', dv_previousBalance = 0, dv_newBalance = 1\<rparr> empty_store)) = 0"
  using votes_changed_loses_new_delegate [of empty_store "\<lparr>dv_delegate = ''0xa1'', dv_previousBalance = 0, dv_newBalance = 1\<rparr>"]
  by (simp add: empty_store_def ZERO_ADDRESS_def getGovernanceEntity_def)

end
