(* ===== verification/Subgraph_Auction.thy ===== *)
theory Subgraph_Auction
  imports Subgraph_Token
begin

text \<open>
  The handlers of the auction house's events (\<open>nouns-subgraph/src/alps-auction-house.ts\<close>). Saving a
  \<open>new Auction(id)\<close> merges its fields into the entity of that id, so one that already exists keeps the
  bidder the handler does not set.
\<close>

record auction_created_params =
  cp_alpId :: nat
  cp_startTime :: int
  cp_endTime :: int

record auction_bid_params =
  bp_alpId :: nat
  bp_sender :: string
  bp_value :: int
  bp_extended :: bool

record auction_extended_params =
  xp_alpId :: nat
  xp_endTime :: int

record auction_settled_params =
  sp_alpId :: nat
  sp_winner :: string
  sp_amount :: int

definition handleAuctionCreated :: "event_meta \<Rightarrow> auction_created_params \<Rightarrow> store \<Rightarrow> store" where
  "handleAuctionCreated m p s =
     (let alpId = show_nat (cp_alpId p)
      in case st_alps s alpId of
           None \<Rightarrow> log_error (AuctionCreated_AlpNotFound alpId (em_txHash m)) s
         | Some alp \<Rightarrow>
             save_auction \<lparr>au_id = alpId, au_alp = alpId, au_amount = 0, au_startTime = cp_startTime p,
               au_endTime = cp_endTime p,
               au_bidder = (case st_auctions s alpId of None \<Rightarrow> None | Some old \<Rightarrow> au_bidder old),
               au_settled = False\<rparr> s)"

definition handleAuctionBid :: "event_meta \<Rightarrow> auction_bid_params \<Rightarrow> store \<Rightarrow> store" where
  "handleAuctionBid m p s =
     (let alpId = show_nat (bp_alpId p);
          (bidder, s1) = getOrCreateAccount (bp_sender p) s
      in case st_auctions s1 alpId of
           None \<Rightarrow> log_error (AuctionBid_NotFound alpId (em_txHash m)) s1
         | Some auction \<Rightarrow>
             (let auction' = auction\<lparr>au_amount := bp_value p, au_bidder := Some (ac_id bidder)\<rparr>;
                  s2 = save_auction auction' s1
              in save_bid (em_txHash m)
                   \<lparr>bd_alp = au_alp auction', bd_amount = au_amount auction', bd_bidder = Some (ac_id bidder),
                    bd_blockNumber = em_blockNumber m, bd_txIndex = em_txIndex m, bd_auction = au_id auction',
                    bd_blockTimestamp = em_blockTimestamp m\<rparr> s2))"

definition handleAuctionExtended :: "event_meta \<Rightarrow> auction_extended_params \<Rightarrow> store \<Rightarrow> store" where
  "handleAuctionExtended m p s =
     (let alpId = show_nat (xp_alpId p)
      in case st_auctions s alpId of
           None \<Rightarrow> log_error (AuctionExtended_NotFound alpId (em_txHash m)) s
         | Some auction \<Rightarrow> save_auction (auction\<lparr>au_endTime := xp_endTime p\<rparr>) s)"

definition handleAuctionSettled :: "event_meta \<Rightarrow> auction_settled_params \<Rightarrow> store \<Rightarrow> store" where
  "handleAuctionSettled m p s =
     (let alpId = show_nat (sp_alpId p)
      in case st_auctions s alpId of
           None \<Rightarrow> log_error (AuctionSettled_NotFound alpId (em_txHash m)) s
         | Some auction \<Rightarrow> save_auction (auction\<lparr>au_settled := True\<rparr>) s)"

datatype auction_event =
    AuctionCreated event_meta auction_created_params
  | AuctionBid event_meta auction_bid_params
  | AuctionExtended event_meta auction_extended_params
  | AuctionSettled event_meta auction_settled_params

fun handle_auction :: "auction_event \<Rightarrow> store \<Rightarrow> store" where
  "handle_auction (AuctionCreated m p) s = handleAuctionCreated m p s"
| "handle_auction (AuctionBid m p) s = handleAuctionBid m p s"
| "handle_auction (AuctionExtended m p) s = handleAuctionExtended m p s"
| "handle_auction (AuctionSettled m p) s = handleAuctionSettled m p s"

section \<open>What one event does to one auction\<close>

text \<open>The auction of one token as the contract sees it, after one more event.\<close>

fun auction_spec :: "nat \<Rightarrow> auction_event \<Rightarrow> auction \<Rightarrow> auction" where
  "auction_spec i (AuctionCreated m p) a =
     (if cp_alpId p = i then a\<lparr>au_amount := 0, au_startTime := cp_startTime p, au_endTime := cp_endTime p, au_settled := False\<rparr> else a)"
| "auction_spec i (AuctionBid m p) a =
     (if bp_alpId p = i then a\<lparr>au_amount := bp_value p, au_bidder := Some (bp_sender p)\<rparr> else a)"
| "auction_spec i (AuctionExtended m p) a = (if xp_alpId p = i then a\<lparr>au_endTime := xp_endTime p\<rparr> else a)"
| "auction_spec i (AuctionSettled m p) a = (if sp_alpId p = i then a\<lparr>au_settled := True\<rparr> else a)"

definition auctions_keyed :: "store \<Rightarrow> bool" where
  "auctions_keyed s \<longleftrightarrow> keyed_accounts (st_accounts s)
     \<and> (\<forall>k a. st_auctions s k = Some a \<longrightarrow> au_id a = k \<and> au_alp a = k)"

lemma save_auction_tables [simp]:
  "st_auctions (save_auction a s) = (st_auctions s)(au_id a \<mapsto> a)" "st_alps (save_auction a s) = st_alps s"
  "st_accounts (save_auction a s) = st_accounts s"
  "st_auctions (save_bid k b s) = st_auctions s" "st_alps (save_bid k b s) = st_alps s"
  "st_accounts (save_bid k b s) = st_accounts s"
  "st_auctions (log_error l s) = st_auctions s"
  "st_auctions (save_account x s) = st_auctions s"
  by (simp_all add: save_defs)

lemma account_load_auctions [simp]: "st_auctions (snd (getOrCreateAccount a s)) = st_auctions s"
  by (simp add: getOrCreateAccount_def Let_def split: option.splits)

lemma keyed_load: "keyed_accounts A \<Longrightarrow> keyed_accounts (A(a \<mapsto> account_at A a))"
  using account_at_id [of A a] by (simp add: keyed_accounts_def)

lemma handle_auction_keyed: "auctions_keyed s \<Longrightarrow> auctions_keyed (handle_auction e s)"
  by (cases e) (auto simp: auctions_keyed_def handleAuctionCreated_def handleAuctionBid_def handleAuctionExtended_def
      handleAuctionSettled_def Let_def case_prod_unfold keyed_load split: option.splits if_splits)

interpretation auction_store: reducer handle_auction "\<lambda>_. True" auctions_keyed
  by unfold_locales (rule handle_auction_keyed)

lemma handle_auction_effect:
  assumes "auctions_keyed s" "st_auctions s (show_nat i) = Some a" "st_alps s (show_nat i) \<noteq> None"
  shows "st_auctions (handle_auction e s) (show_nat i) = Some (auction_spec i e a)"
proof -
  have id: "au_id a = show_nat i" "au_alp a = show_nat i" using assms by (auto simp: auctions_keyed_def)
  have acc: "ac_id (account_at (st_accounts s) x) = x" for x
    using assms(1) by (auto simp: auctions_keyed_def intro: account_at_id)
  have bidder: "ac_id (fst (getOrCreateAccount x s)) = x" for x by (simp add: account_at_load acc)
  have ids: "au_id b = k" if "st_auctions s k = Some b" for k b using assms(1) that by (auto simp: auctions_keyed_def)
  show ?thesis
    using assms(2,3) id ids bidder
    by (cases e) (auto simp: handleAuctionCreated_def handleAuctionBid_def handleAuctionExtended_def
        handleAuctionSettled_def Let_def case_prod_unfold split: option.splits)
qed

lemma handle_auction_alps: "st_alps (handle_auction e s) = st_alps s"
  by (cases e) (auto simp: handleAuctionCreated_def handleAuctionBid_def handleAuctionExtended_def
      handleAuctionSettled_def Let_def case_prod_unfold split: option.splits)

lemma handle_auctions_effect:
  "auctions_keyed s \<Longrightarrow> st_auctions s (show_nat i) = Some a \<Longrightarrow> st_alps s (show_nat i) \<noteq> None \<Longrightarrow>
     st_auctions (fold handle_auction es s) (show_nat i) = Some (fold (auction_spec i) es a)"
proof (induction es arbitrary: s a)
  case (Cons e es)
  have "st_alps (handle_auction e s) (show_nat i) \<noteq> None" using Cons.prems by (simp add: handle_auction_alps)
  from Cons.IH [OF handle_auction_keyed [OF Cons.prems(1)] handle_auction_effect [OF Cons.prems] this]
  show ?case by simp
qed simp

section \<open>Properties\<close>

definition bids_on :: "nat \<Rightarrow> auction_event list \<Rightarrow> auction_bid_params list" where
  "bids_on i es = concat (map (\<lambda>e. case e of AuctionBid m p \<Rightarrow> if bp_alpId p = i then [p] else [] | _ \<Rightarrow> []) es)"

definition settles_of :: "nat \<Rightarrow> auction_event list \<Rightarrow> auction_event list" where
  "settles_of i es = filter (\<lambda>e. case e of AuctionSettled m p \<Rightarrow> sp_alpId p = i | _ \<Rightarrow> False) es"

definition created_on :: "nat \<Rightarrow> auction_event \<Rightarrow> bool" where
  "created_on i e = (case e of AuctionCreated m p \<Rightarrow> cp_alpId p = i | _ \<Rightarrow> False)"

definition end_of :: "nat \<Rightarrow> auction_event list \<Rightarrow> int \<Rightarrow> int" where
  "end_of i es t = fold (\<lambda>e t. case e of AuctionExtended m p \<Rightarrow> if xp_alpId p = i then xp_endTime p else t | _ \<Rightarrow> t) es t"

lemma auction_spec_run:
  "\<forall>e\<in>set es. \<not> created_on i e \<Longrightarrow>
     fold (auction_spec i) es a = a\<lparr>
       au_amount := (if bids_on i es = [] then au_amount a else bp_value (last (bids_on i es))),
       au_bidder := (if bids_on i es = [] then au_bidder a else Some (bp_sender (last (bids_on i es)))),
       au_endTime := end_of i es (au_endTime a),
       au_settled := (au_settled a \<or> settles_of i es \<noteq> [])\<rparr>"
proof (induction es arbitrary: a)
  case (Cons e es)
  then have "\<forall>e\<in>set es. \<not> created_on i e" by simp
  note ih = Cons.IH [OF this]
  show ?case
    using Cons.prems by (cases e) (auto simp: ih bids_on_def end_of_def settles_of_def created_on_def)
qed (simp add: bids_on_def end_of_def settles_of_def)

text \<open>
  From its creation on, whatever other auctions do in between, a stored auction has the amount and
  the bidder of the last bid placed on it, the end time of the last extension, and is settled
  exactly when a settlement was seen.
\<close>

lemma created_auction_run:
  assumes "auctions_keyed s" "st_alps s (show_nat (cp_alpId p)) \<noteq> None" "st_auctions s (show_nat (cp_alpId p)) = None"
    and "\<forall>e\<in>set es. \<not> created_on (cp_alpId p) e"
  defines "i \<equiv> cp_alpId p"
  shows "\<exists>a. st_auctions (fold handle_auction (AuctionCreated m p # es) s) (show_nat i) = Some a
    \<and> au_startTime a = cp_startTime p \<and> au_endTime a = end_of i es (cp_endTime p)
    \<and> au_amount a = (if bids_on i es = [] then 0 else bp_value (last (bids_on i es)))
    \<and> au_bidder a = (if bids_on i es = [] then None else Some (bp_sender (last (bids_on i es))))
    \<and> (au_settled a \<longleftrightarrow> settles_of i es \<noteq> [])"
proof -
  obtain alp where alp: "st_alps s (show_nat i) = Some alp" using assms(2) by (auto simp: i_def)
  let ?s = "handle_auction (AuctionCreated m p) s"
  let ?a = "\<lparr>au_id = show_nat i, au_alp = show_nat i, au_amount = 0, au_startTime = cp_startTime p,
               au_endTime = cp_endTime p, au_bidder = None, au_settled = False\<rparr>"
  have a: "st_auctions ?s (show_nat i) = Some ?a"
    using alp assms(3) by (simp add: handleAuctionCreated_def i_def Let_def)
  have "st_alps ?s (show_nat i) \<noteq> None" using alp by (simp add: handle_auction_alps del: handle_auction.simps)
  from handle_auctions_effect [OF handle_auction_keyed [OF assms(1)] a this, of es]
  show ?thesis using assms(4) by (simp add: auction_spec_run i_def)
qed

definition sample_created :: auction_created_params where
  "sample_created = \<lparr>cp_alpId = 0, cp_startTime = 10, cp_endTime = 20\<rparr>"

definition sample_bids :: "auction_event list" where
  "sample_bids = [AuctionBid sample_meta \<lparr>bp_alpId = 0, bp_sender = ''0xa1'', bp_value = 5, bp_extended = False\<rparr>,
                  AuctionBid sample_meta \<lparr>bp_alpId = 0, bp_sender = ''0xb2'', bp_value = 7, bp_extended = True\<rparr>,
                  AuctionExtended sample_meta \<lparr>xp_alpId = 0, xp_endTime = 25\<rparr>,
                  AuctionSettled sample_meta \<lparr>sp_alpId = 0, sp_winner = ''0xb2'', sp_amount = 7\<rparr>]"

definition sample_alps :: store where
  "sample_alps = save_alp (show_nat 0) \<lparr>al_seed = None, al_owner = ''0xhouse''\<rparr> empty_store"

lemma sample_alps_ok: "auctions_keyed sample_alps" "st_alps sample_alps (show_nat (cp_alpId sample_created)) \<noteq> None"
  "st_auctions sample_alps (show_nat (cp_alpId sample_created)) = None"
  "\<forall>e\<in>set sample_bids. \<not> created_on (cp_alpId sample_created) e"
  by (simp_all add: sample_alps_def save_alp_def tbl_put_def empty_store_def auctions_keyed_def keyed_accounts_def
      sample_created_def sample_bids_def created_on_def)

lemma created_auction_run_sample:
  "\<exists>a. st_auctions (fold handle_auction (AuctionCreated sample_meta sample_created # sample_bids) sample_alps) (show_nat 0) = Some a
     \<and> au_amount a = 7 \<and> au_bidder a = Some ''0xb2'' \<and> au_endTime a = 25 \<and> au_settled a"
  using created_auction_run [OF sample_alps_ok, of sample_meta]
  by (auto simp: sample_created_def sample_bids_def bids_on_def end_of_def settles_of_def)

end
