(* ===== verification/Subgraph_Dao.thy ===== *)
theory Subgraph_Dao
  imports Subgraph_Token "HOL-Library.Signed_Division"
begin

text \<open>
  The handlers of the DAO's events (\<open>nouns-subgraph/src/alps-dao.ts\<close>) and the dynamic quorum
  (\<open>src/utils/dynamicQuorum.ts\<close>). A handler that aborts (a required field of a fresh entity, a
  division by zero, a value that does not fit \<open>i32\<close>) returns \<open>None\<close>.
\<close>

section \<open>dynamicQuorum.ts\<close>

definition bigint_div :: "int \<Rightarrow> int \<Rightarrow> int option" where
  "bigint_div a b = (if b = 0 then None else Some (a sdiv b))"

definition bigint_toI32 :: "int \<Rightarrow> i32 option" where
  "bigint_toI32 a = (if - (2 ^ 31) \<le> a \<and> a < 2 ^ 31 then Some (word_of_int a) else None)"

definition bigint_fromI32 :: "i32 \<Rightarrow> int" where
  "bigint_fromI32 w = sint w"

definition dynamicQuorumVotes :: "int \<Rightarrow> int \<Rightarrow> i32 \<Rightarrow> i32 \<Rightarrow> int \<Rightarrow> int option" where
  "dynamicQuorumVotes againstVotes totalSupply minQuorumVotesBPS maxQuorumVotesBPS quorumCoefficient =
     Option.bind (bigint_div (againstVotes * BIGINT_10K) totalSupply) (\<lambda>againstVotesBPS.
     Option.bind (bigint_div (quorumCoefficient * againstVotesBPS) 1000000) (\<lambda>quorumAdjustmentBPS.
     Option.bind (bigint_toI32 (quorumAdjustmentBPS + bigint_fromI32 minQuorumVotesBPS)) (\<lambda>adjusted.
     let quorumBPS = (if sint maxQuorumVotesBPS \<le> sint adjusted then maxQuorumVotesBPS else adjusted)
     in bigint_div (totalSupply * bigint_fromI32 quorumBPS) 10000)))"

section \<open>Events\<close>

record proposal_created_params =
  pc_id :: nat
  pc_proposer :: string
  pc_targets :: "string list"
  pc_values :: "int list"
  pc_signatures :: "string list"
  pc_calldatas :: "string list"
  pc_startBlock :: int
  pc_endBlock :: int
  pc_proposalThreshold :: int
  pc_quorumVotes :: int
  pc_description :: string

record proposal_queued_params =
  pq_id :: nat
  pq_eta :: int

record vote_cast_params =
  vc_voter :: string
  vc_proposalId :: nat
  vc_support :: i32
  vc_votes :: int
  vc_reason :: string

section \<open>Handlers\<close>

text \<open>\<open>split('\\n').join('\n')\<close>: a backslash followed by an \<open>n\<close> becomes a line end.\<close>

fun unescape_newlines :: "string \<Rightarrow> string" where
  "unescape_newlines (a # b # cs) =
     (if a = CHR 0x5C \<and> b = CHR ''n'' then CHR 0x0A # unescape_newlines cs
      else a # unescape_newlines (b # cs))"
| "unescape_newlines cs = cs"

definition note_missing_delegate :: "string \<Rightarrow> log_error \<Rightarrow> store \<Rightarrow> store" where
  "note_missing_delegate d msg s =
     (case fst (getOrCreateDelegateWithNullOption d False s) of None \<Rightarrow> log_error msg s | Some _ \<Rightarrow> s)"

definition handleProposalCreatedWithRequirements ::
  "event_meta \<Rightarrow> proposal_created_params \<Rightarrow> store \<Rightarrow> store option" where
  "handleProposalCreatedWithRequirements m p s =
     (let (old, s1) = getOrCreateProposal (show_nat (pc_id p)) s;
          s2 = note_missing_delegate (pc_proposer p) (ProposalCreated_DelegateNotFound (pc_proposer p) (em_txHash m)) s1;
          (proposer, s3) = getOrCreateDelegate (pc_proposer p) s2;
          governance = getGovernanceEntity s3;
          (dynamicQuorum, s4) = getOrCreateDynamicQuorumParams None s3
      in Some (save_proposal
           \<lparr>pr_id = show_nat (pc_id p), pr_proposer = dl_id proposer, pr_targets = pc_targets p,
            pr_values = pc_values p, pr_signatures = pc_signatures p, pr_calldatas = pc_calldatas p,
            pr_createdTimestamp = em_blockTimestamp m, pr_createdBlock = em_blockNumber m,
            pr_createdTransactionHash = em_txHash m, pr_startBlock = pc_startBlock p, pr_endBlock = pc_endBlock p,
            pr_proposalThreshold = pc_proposalThreshold p, pr_quorumVotes = pc_quorumVotes p,
            pr_forVotes = 0, pr_againstVotes = 0, pr_abstainVotes = 0,
            pr_description = unescape_newlines (pc_description p),
            pr_status = (if em_blockNumber m \<ge> pc_startBlock p then ACTIVE else PENDING),
            pr_executionETA = (case old of None \<Rightarrow> None | Some pr \<Rightarrow> pr_executionETA pr),
            pr_totalSupply = gv_totalTokenHolders governance,
            pr_minQuorumVotesBPS = dq_minQuorumVotesBPS dynamicQuorum,
            pr_maxQuorumVotesBPS = dq_maxQuorumVotesBPS dynamicQuorum,
            pr_quorumCoefficient = dq_quorumCoefficient dynamicQuorum\<rparr> s4))"

definition handleProposalCanceled :: "nat \<Rightarrow> store \<Rightarrow> store option" where
  "handleProposalCanceled pid s =
     (let (proposal, s1) = getOrCreateProposal (show_nat pid) s
      in map_option (\<lambda>pr. save_proposal (pr\<lparr>pr_status := CANCELLED\<rparr>) s1) proposal)"

definition handleProposalVetoed :: "nat \<Rightarrow> store \<Rightarrow> store option" where
  "handleProposalVetoed pid s =
     (let (proposal, s1) = getOrCreateProposal (show_nat pid) s
      in map_option (\<lambda>pr. save_proposal (pr\<lparr>pr_status := VETOED\<rparr>) s1) proposal)"

definition handleProposalQueued :: "proposal_queued_params \<Rightarrow> store \<Rightarrow> store option" where
  "handleProposalQueued p s =
     (let governance = getGovernanceEntity s;
          (proposal, s1) = getOrCreateProposal (show_nat (pq_id p)) s
      in map_option (\<lambda>pr.
           let s2 = save_proposal (pr\<lparr>pr_status := QUEUED, pr_executionETA := Some (pq_eta p)\<rparr>) s1
           in save_governance (governance\<lparr>gv_proposalsQueued := gv_proposalsQueued governance + 1\<rparr>) s2) proposal)"

definition handleProposalExecuted :: "nat \<Rightarrow> store \<Rightarrow> store option" where
  "handleProposalExecuted pid s =
     (let governance = getGovernanceEntity s;
          (proposal, s1) = getOrCreateProposal (show_nat pid) s
      in map_option (\<lambda>pr.
           let s2 = save_proposal (pr\<lparr>pr_status := EXECUTED, pr_executionETA := None\<rparr>) s1
           in save_governance (governance\<lparr>gv_proposalsQueued := gv_proposalsQueued governance - 1\<rparr>) s2) proposal)"

definition count_vote :: "i32 \<Rightarrow> int \<Rightarrow> proposal \<Rightarrow> proposal" where
  "count_vote support votes pr =
     (if support = 0 then pr\<lparr>pr_againstVotes := pr_againstVotes pr + votes\<rparr>
      else if support = 1 then pr\<lparr>pr_forVotes := pr_forVotes pr + votes\<rparr>
      else if support = 2 then pr\<lparr>pr_abstainVotes := pr_abstainVotes pr + votes\<rparr>
      else pr)"

definition usingDynamicQuorum :: "dq_params \<Rightarrow> proposal \<Rightarrow> bool" where
  "usingDynamicQuorum dqParams pr =
     (case dq_dynamicQuorumStartBlock dqParams of None \<Rightarrow> False | Some b \<Rightarrow> b < pr_createdBlock pr)"

definition update_quorum :: "dq_params \<Rightarrow> proposal \<Rightarrow> proposal option" where
  "update_quorum dqParams pr =
     (if usingDynamicQuorum dqParams pr
      then map_option (\<lambda>q. pr\<lparr>pr_quorumVotes := q\<rparr>)
             (dynamicQuorumVotes (pr_againstVotes pr) (pr_totalSupply pr) (pr_minQuorumVotesBPS pr)
                (pr_maxQuorumVotesBPS pr) (pr_quorumCoefficient pr))
      else Some pr)"

definition activate :: "proposal \<Rightarrow> proposal" where
  "activate pr = (if pr_status pr = PENDING then pr\<lparr>pr_status := ACTIVE\<rparr> else pr)"

definition handleVoteCast :: "event_meta \<Rightarrow> vote_cast_params \<Rightarrow> store \<Rightarrow> store option" where
  "handleVoteCast m p s =
     (let (proposal, s1) = getOrCreateProposal (show_nat (vc_proposalId p)) s;
          voteId = vc_voter p @ ''-'' @ show_nat (vc_proposalId p);
          vote = getOrCreateVote voteId s1;
          s2 = note_missing_delegate (vc_voter p) (VoteCast_DelegateNotFound (vc_voter p) (em_txHash m)) s1;
          (voter, s3) = getOrCreateDelegate (vc_voter p) s2
      in Option.bind proposal (\<lambda>pr.
        let s4 = save_vote voteId
              \<lparr>vt_support = (vc_support p = 1), vt_supportDetailed = vc_support p, vt_votesRaw = vc_votes p,
               vt_votes = vc_votes p,
               vt_reason = (if vc_reason p \<noteq> [] then Some (vc_reason p) else Option.bind vote vt_reason),
               vt_voter = dl_id voter, vt_alps = dl_alpsRepresented voter, vt_proposal = pr_id pr,
               vt_blockNumber = em_blockNumber m\<rparr> s3;
            (dqParams, s5) = getOrCreateDynamicQuorumParams None s4
        in map_option (\<lambda>pr'. save_proposal (activate pr') s5)
             (update_quorum dqParams (count_vote (vc_support p) (vc_votes p) pr))))"

definition handleMinQuorumVotesBPSSet :: "event_meta \<Rightarrow> i32 \<Rightarrow> store \<Rightarrow> store" where
  "handleMinQuorumVotesBPSSet m v s =
     (let (params, s1) = getOrCreateDynamicQuorumParams (Some (em_blockNumber m)) s
      in save_dqParams (params\<lparr>dq_minQuorumVotesBPS := v\<rparr>) s1)"

definition handleMaxQuorumVotesBPSSet :: "event_meta \<Rightarrow> i32 \<Rightarrow> store \<Rightarrow> store" where
  "handleMaxQuorumVotesBPSSet m v s =
     (let (params, s1) = getOrCreateDynamicQuorumParams (Some (em_blockNumber m)) s
      in save_dqParams (params\<lparr>dq_maxQuorumVotesBPS := v\<rparr>) s1)"

definition handleQuorumCoefficientSet :: "event_meta \<Rightarrow> int \<Rightarrow> store \<Rightarrow> store" where
  "handleQuorumCoefficientSet m v s =
     (let (params, s1) = getOrCreateDynamicQuorumParams (Some (em_blockNumber m)) s
      in save_dqParams (params\<lparr>dq_quorumCoefficient := v\<rparr>) s1)"

datatype dao_event =
    ProposalCreated event_meta proposal_created_params
  | ProposalCanceled nat
  | ProposalVetoed nat
  | ProposalQueued proposal_queued_params
  | ProposalExecuted nat
  | VoteCast event_meta vote_cast_params
  | MinQuorumVotesBPSSet event_meta i32
  | MaxQuorumVotesBPSSet event_meta i32
  | QuorumCoefficientSet event_meta int

fun handle_dao :: "dao_event \<Rightarrow> store \<Rightarrow> store option" where
  "handle_dao (ProposalCreated m p) s = handleProposalCreatedWithRequirements m p s"
| "handle_dao (ProposalCanceled i) s = handleProposalCanceled i s"
| "handle_dao (ProposalVetoed i) s = handleProposalVetoed i s"
| "handle_dao (ProposalQueued p) s = handleProposalQueued p s"
| "handle_dao (ProposalExecuted i) s = handleProposalExecuted i s"
| "handle_dao (VoteCast m p) s = handleVoteCast m p s"
| "handle_dao (MinQuorumVotesBPSSet m v) s = Some (handleMinQuorumVotesBPSSet m v s)"
| "handle_dao (MaxQuorumVotesBPSSet m v) s = Some (handleMaxQuorumVotesBPSSet m v s)"
| "handle_dao (QuorumCoefficientSet m v) s = Some (handleQuorumCoefficientSet m v s)"

text \<open>The subgraph stops at the first handler that aborts.\<close>

fun run_dao :: "dao_event list \<Rightarrow> store \<Rightarrow> store option" where
  "run_dao [] s = Some s"
| "run_dao (e # es) s = Option.bind (handle_dao e s) (run_dao es)"

section \<open>The dynamic quorum\<close>

text \<open>\<open>AlpsDAOLogicV2.dynamicQuorumVotes\<close> of the contract, on naturals.\<close>

definition solidity_quorum :: "nat \<Rightarrow> nat \<Rightarrow> nat \<Rightarrow> nat \<Rightarrow> nat \<Rightarrow> nat" where
  "solidity_quorum against minted minBPS maxBPS coefficient =
     (let againstBPS = 10000 * against div minted;
          adjustment = coefficient * againstBPS div 1000000;
          quorumBPS = min maxBPS (minBPS + adjustment)
      in minted * quorumBPS div 10000)"

lemma sdiv_nonneg: "0 \<le> a \<Longrightarrow> 0 < b \<Longrightarrow> a sdiv b = a div (b :: int)"
  by (cases "a = 0") (auto simp: signed_divide_int_def)

lemma sint_i32:
  assumes "n < 2 ^ 31"
  shows "sint (word_of_nat n :: i32) = int n"
  using assms by (simp add: signed_of_nat signed_take_bit_int_eq_self)

lemma dynamic_quorum_eq:
  assumes "0 < minted" "against \<le> minted" "coefficient < 2 ^ 32" "minBPS < 65536" "maxBPS < 65536"
  shows "dynamicQuorumVotes (int against) (int minted) (word_of_nat minBPS) (word_of_nat maxBPS) (int coefficient)
    = Some (int (solidity_quorum against minted minBPS maxBPS coefficient))"
proof -
  define bps where "bps = 10000 * against div minted"
  define adj where "adj = coefficient * bps div 1000000"
  have "bps \<le> 10000"
    using assms(1,2) unfolding bps_def by (metis div_le_mono div_mult_self_is_m mult_le_mono2)
  then have "coefficient * bps \<le> 2 ^ 32 * 10000"
    using assms(3) by (intro mult_le_mono) auto
  then have "adj \<le> (2 ^ 32 * 10000) div 1000000"
    unfolding adj_def by (rule div_le_mono)
  then have small: "adj + minBPS < 2 ^ 31" using assms(4) by simp
  have sint_bps: "sint (word_of_nat minBPS :: i32) = int minBPS" "sint (word_of_nat maxBPS :: i32) = int maxBPS"
    using assms(4,5) by (simp_all add: sint_i32)
  have s1: "bigint_div (int against * BIGINT_10K) (int minted) = Some (int bps)"
    using assms(1) by (simp add: bigint_div_def BIGINT_10K_def sdiv_nonneg bps_def zdiv_int mult.commute)
  have s2: "bigint_div (int coefficient * int bps) 1000000 = Some (int adj)"
    by (simp add: bigint_div_def sdiv_nonneg adj_def zdiv_int)
  have s3: "bigint_toI32 (int adj + bigint_fromI32 (word_of_nat minBPS)) = Some (word_of_nat (adj + minBPS))"
    using small by (simp add: bigint_toI32_def bigint_fromI32_def sint_bps)
  have sint_adj: "sint (word_of_nat (adj + minBPS) :: i32) = int (adj + minBPS)"
    by (rule sint_i32 [OF small])
  have s4: "sint (if sint (word_of_nat maxBPS :: i32) \<le> sint (word_of_nat (adj + minBPS) :: i32)
      then word_of_nat maxBPS else word_of_nat (adj + minBPS) :: i32) = int (min maxBPS (minBPS + adj))"
    by (simp only: sint_adj sint_bps of_nat_le_iff split: if_split)
       (simp add: sint_adj [unfolded of_nat_add] sint_bps min_def)
  show ?thesis
    unfolding dynamicQuorumVotes_def bigint_fromI32_def s1 s2 s3 [unfolded bigint_fromI32_def] Option.bind.simps Let_def s4
    by (simp add: bigint_div_def sdiv_nonneg solidity_quorum_def bps_def [symmetric] adj_def [symmetric] Let_def zdiv_int)
qed

lemma solidity_quorum_bounds:
  assumes "minBPS \<le> maxBPS"
  shows "minted * minBPS div 10000 \<le> solidity_quorum against minted minBPS maxBPS coefficient"
    "solidity_quorum against minted minBPS maxBPS coefficient \<le> minted * maxBPS div 10000"
  using assms by (auto simp: solidity_quorum_def Let_def intro!: div_le_mono mult_le_mono)

lemma solidity_quorum_mono:
  assumes "a \<le> b"
  shows "solidity_quorum a minted minBPS maxBPS coefficient \<le> solidity_quorum b minted minBPS maxBPS coefficient"
proof -
  have "coefficient * (10000 * a div minted) div 1000000 \<le> coefficient * (10000 * b div minted) div 1000000"
    using assms by (intro div_le_mono mult_le_mono) auto
  then show ?thesis by (auto simp: solidity_quorum_def Let_def intro!: div_le_mono mult_le_mono)
qed

section \<open>What one event does to one proposal\<close>

definition proposals_keyed :: "store \<Rightarrow> bool" where
  "proposals_keyed s \<longleftrightarrow> (\<forall>k pr. st_proposals s k = Some pr \<longrightarrow> pr_id pr = k)"

lemma proposal_tables [simp]:
  "st_proposals (save_proposal pr s) = (st_proposals s)(pr_id pr \<mapsto> pr)"
  "st_proposals (save_governance g s) = st_proposals s"
  "st_proposals (save_vote k v s) = st_proposals s"
  "st_proposals (save_dqParams q s) = st_proposals s"
  "st_proposals (save_delegate d s) = st_proposals s"
  "st_proposals (log_error l s) = st_proposals s"
  "st_votes (save_vote k v s) = (st_votes s)(k \<mapsto> v)"
  "st_votes (save_proposal pr s) = st_votes s"
  "st_votes (save_dqParams q s) = st_votes s"
  by (simp_all add: save_defs)

lemma proposal_loads [simp]:
  "st_proposals (snd (getOrCreateProposal k s)) = st_proposals s"
  "fst (getOrCreateProposal k s) = st_proposals s k"
  "st_proposals (snd (getOrCreateDelegate d s)) = st_proposals s"
  "st_proposals (note_missing_delegate d msg s) = st_proposals s"
  "st_proposals (snd (getOrCreateDynamicQuorumParams b s)) = st_proposals s"
  by (auto simp: getOrCreateProposal_def getOrCreateDelegate_def getOrCreateDelegateWithNullOption_def Let_def
      note_missing_delegate_def getOrCreateDynamicQuorumParams_def case_prod_unfold save_dqParams_def split: option.splits)

lemmas handler_defs = handleProposalCanceled_def handleProposalVetoed_def handleProposalQueued_def
  handleProposalExecuted_def handleVoteCast_def handleProposalCreatedWithRequirements_def
  handleMinQuorumVotesBPSSet_def handleMaxQuorumVotesBPSSet_def handleQuorumCoefficientSet_def

lemma update_quorum_fields:
  assumes "update_quorum q pr = Some pr'"
  shows "pr_id pr' = pr_id pr" "pr_forVotes pr' = pr_forVotes pr" "pr_againstVotes pr' = pr_againstVotes pr"
    "pr_abstainVotes pr' = pr_abstainVotes pr" "pr_status pr' = pr_status pr" "pr_totalSupply pr' = pr_totalSupply pr"
    "pr_createdBlock pr' = pr_createdBlock pr"
  using assms by (auto simp: update_quorum_def split: if_splits)

lemma count_vote_fields [simp]:
  "pr_id (count_vote sp v pr) = pr_id pr" "pr_status (count_vote sp v pr) = pr_status pr"
  "pr_totalSupply (count_vote sp v pr) = pr_totalSupply pr" "pr_createdBlock (count_vote sp v pr) = pr_createdBlock pr"
  "pr_minQuorumVotesBPS (count_vote sp v pr) = pr_minQuorumVotesBPS pr"
  "pr_maxQuorumVotesBPS (count_vote sp v pr) = pr_maxQuorumVotesBPS pr"
  "pr_quorumCoefficient (count_vote sp v pr) = pr_quorumCoefficient pr"
  "pr_forVotes (count_vote sp v pr) = pr_forVotes pr + (if sp = 1 then v else 0)"
  "pr_againstVotes (count_vote sp v pr) = pr_againstVotes pr + (if sp = 0 then v else 0)"
  "pr_abstainVotes (count_vote sp v pr) = pr_abstainVotes pr + (if sp = 2 then v else 0)"
  by (auto simp: count_vote_def)

lemma activate_fields [simp]:
  "pr_id (activate pr) = pr_id pr" "pr_forVotes (activate pr) = pr_forVotes pr"
  "pr_againstVotes (activate pr) = pr_againstVotes pr" "pr_abstainVotes (activate pr) = pr_abstainVotes pr"
  "pr_totalSupply (activate pr) = pr_totalSupply pr" "pr_createdBlock (activate pr) = pr_createdBlock pr"
  "pr_quorumVotes (activate pr) = pr_quorumVotes pr"
  "pr_status (activate pr) = (if pr_status pr = PENDING then ACTIVE else pr_status pr)"
  by (simp_all add: activate_def)

fun subject :: "dao_event \<Rightarrow> nat option" where
  "subject (ProposalCanceled i) = Some i"
| "subject (ProposalVetoed i) = Some i"
| "subject (ProposalQueued p) = Some (pq_id p)"
| "subject (ProposalExecuted i) = Some i"
| "subject (VoteCast m p) = Some (vc_proposalId p)"
| "subject _ = None"

definition creates :: "nat \<Rightarrow> dao_event \<Rightarrow> bool" where
  "creates i e = (case e of ProposalCreated m p \<Rightarrow> pc_id p = i | _ \<Rightarrow> False)"

text \<open>The votes of one support value an event adds to a proposal.\<close>

definition votes_in :: "nat \<Rightarrow> i32 \<Rightarrow> dao_event \<Rightarrow> int" where
  "votes_in i sp e = (case e of VoteCast m p \<Rightarrow>
     if vc_proposalId p = i \<and> vc_support p = sp then vc_votes p else 0 | _ \<Rightarrow> 0)"

definition status_after :: "nat \<Rightarrow> dao_event \<Rightarrow> proposal_status \<Rightarrow> proposal_status" where
  "status_after i e st =
     (if subject e = Some i
      then (case e of ProposalCanceled _ \<Rightarrow> CANCELLED | ProposalVetoed _ \<Rightarrow> VETOED | ProposalQueued _ \<Rightarrow> QUEUED
            | ProposalExecuted _ \<Rightarrow> EXECUTED | _ \<Rightarrow> if st = PENDING then ACTIVE else st)
      else st)"

text \<open>What an event leaves of a proposal it does not create.\<close>

definition follows :: "nat \<Rightarrow> dao_event \<Rightarrow> proposal \<Rightarrow> proposal \<Rightarrow> bool" where
  "follows i e pr pr' \<longleftrightarrow> pr_id pr' = pr_id pr
     \<and> pr_forVotes pr' = pr_forVotes pr + votes_in i 1 e
     \<and> pr_againstVotes pr' = pr_againstVotes pr + votes_in i 0 e
     \<and> pr_abstainVotes pr' = pr_abstainVotes pr + votes_in i 2 e
     \<and> pr_status pr' = status_after i e (pr_status pr)
     \<and> pr_totalSupply pr' = pr_totalSupply pr \<and> pr_createdBlock pr' = pr_createdBlock pr"

lemma handle_dao_keyed: "proposals_keyed s \<Longrightarrow> handle_dao e s = Some s' \<Longrightarrow> proposals_keyed s'"
  by (cases e) (auto simp: proposals_keyed_def handler_defs Let_def case_prod_unfold update_quorum_fields
      split: bind_splits if_splits)

lemma handle_dao_subject:
  assumes "proposals_keyed s" "handle_dao e s = Some s'" "subject e = Some i"
  shows "\<exists>pr pr'. st_proposals s (show_nat i) = Some pr \<and> st_proposals s' = (st_proposals s)(show_nat i \<mapsto> pr')
    \<and> follows i e pr pr'"
proof -
  have "\<exists>pr. st_proposals s (show_nat i) = Some pr"
    using assms(2,3) by (cases e) (auto simp: handler_defs Let_def case_prod_unfold split: bind_splits)
  then obtain pr where pr: "st_proposals s (show_nat i) = Some pr" ..
  with assms(1) have id: "pr_id pr = show_nat i" by (simp add: proposals_keyed_def)
  show ?thesis
    using assms(2,3) pr id
    by (cases e) (auto simp: follows_def handler_defs Let_def case_prod_unfold update_quorum_fields votes_in_def
        status_after_def)
qed

lemma handle_dao_other:
  assumes "handle_dao e s = Some s'" "subject e = None" "\<not> creates i e"
  shows "st_proposals s' (show_nat i) = st_proposals s (show_nat i)"
  using assms by (cases e) (auto simp: handler_defs Let_def case_prod_unfold creates_def)

lemma handle_dao_follows:
  assumes "proposals_keyed s" "handle_dao e s = Some s'" "st_proposals s (show_nat i) = Some pr" "\<not> creates i e"
  shows "\<exists>pr'. st_proposals s' (show_nat i) = Some pr' \<and> follows i e pr pr'"
proof (cases "subject e")
  case None
  then have "follows i e pr pr" by (cases e) (simp_all add: follows_def votes_in_def status_after_def)
  with handle_dao_other [OF assms(2) None assms(4)] assms(3) show ?thesis by simp
next
  case (Some j)
  from handle_dao_subject [OF assms(1,2) Some] obtain q q' where
    q: "st_proposals s (show_nat j) = Some q" "st_proposals s' = (st_proposals s)(show_nat j \<mapsto> q')" "follows j e q q'"
    by blast
  show ?thesis
  proof (cases "j = i")
    case True
    with q assms(3) show ?thesis by simp
  next
    case False
    with Some have "follows i e pr pr" by (cases e) (simp_all add: follows_def votes_in_def status_after_def)
    with False q assms(3) show ?thesis by simp
  qed
qed

text \<open>The exact failures: an event for a proposal that does not exist, or a quorum that cannot be computed.\<close>

definition quorum_fails :: "dao_event \<Rightarrow> store \<Rightarrow> bool" where
  "quorum_fails e s = (case e of
      VoteCast m p \<Rightarrow> (case st_proposals s (show_nat (vc_proposalId p)) of
          None \<Rightarrow> False
        | Some pr \<Rightarrow> update_quorum (fst (getOrCreateDynamicQuorumParams None s)) (count_vote (vc_support p) (vc_votes p) pr) = None)
    | _ \<Rightarrow> False)"

lemma dq_unaffected [simp]:
  "st_dqParams (save_governance g s) = st_dqParams s" "st_dqParams (save_vote k v s) = st_dqParams s"
  "st_dqParams (save_delegate dl s) = st_dqParams s" "st_dqParams (log_error l s) = st_dqParams s"
  "st_dqParams (snd (getOrCreateProposal k s)) = st_dqParams s"
  "st_dqParams (snd (getOrCreateDelegate d s)) = st_dqParams s"
  "st_dqParams (note_missing_delegate d msg s) = st_dqParams s"
  by (auto simp: save_defs getOrCreateProposal_def getOrCreateDelegate_def getOrCreateDelegateWithNullOption_def Let_def
      note_missing_delegate_def split: option.splits)

lemma dq_load: "fst (getOrCreateDynamicQuorumParams b s) = (case st_dqParams s of
      None \<Rightarrow> \<lparr>dq_minQuorumVotesBPS = 0, dq_maxQuorumVotesBPS = 0, dq_quorumCoefficient = 0, dq_dynamicQuorumStartBlock = b\<rparr>
    | Some q \<Rightarrow> if dq_dynamicQuorumStartBlock q = None then q\<lparr>dq_dynamicQuorumStartBlock := b\<rparr> else q)"
  by (cases b) (auto simp: getOrCreateDynamicQuorumParams_def Let_def split: option.splits)

lemma handle_dao_None:
  "handle_dao e s = None \<longleftrightarrow> (\<exists>i. subject e = Some i \<and> st_proposals s (show_nat i) = None) \<or> quorum_fails e s"
  by (cases e) (auto simp: handler_defs Let_def case_prod_unfold quorum_fails_def dq_load split: option.splits bind_splits)

section \<open>Histories\<close>

definition tally :: "nat \<Rightarrow> i32 \<Rightarrow> dao_event list \<Rightarrow> int" where
  "tally i sp es = (\<Sum>e\<leftarrow>es. votes_in i sp e)"

lemma run_follows:
  assumes "proposals_keyed s" "run_dao es s = Some s'" "st_proposals s (show_nat i) = Some pr"
    and "\<forall>e\<in>set es. \<not> creates i e"
  shows "\<exists>pr'. st_proposals s' (show_nat i) = Some pr'
    \<and> pr_forVotes pr' = pr_forVotes pr + tally i 1 es
    \<and> pr_againstVotes pr' = pr_againstVotes pr + tally i 0 es
    \<and> pr_abstainVotes pr' = pr_abstainVotes pr + tally i 2 es
    \<and> pr_status pr' = fold (status_after i) es (pr_status pr)
    \<and> pr_totalSupply pr' = pr_totalSupply pr \<and> pr_createdBlock pr' = pr_createdBlock pr"
  using assms
proof (induction es arbitrary: s pr)
  case Nil
  then show ?case by (simp add: tally_def)
next
  case (Cons e es)
  obtain s1 where s1: "handle_dao e s = Some s1" "run_dao es s1 = Some s'"
    using Cons.prems(2) by (auto split: bind_splits)
  obtain pr1 where pr1: "st_proposals s1 (show_nat i) = Some pr1" "follows i e pr pr1"
    using handle_dao_follows [OF Cons.prems(1) s1(1) Cons.prems(3)] Cons.prems(4) by auto
  from Cons.IH [OF handle_dao_keyed [OF Cons.prems(1) s1(1)] s1(2) pr1(1)] Cons.prems(4) pr1(2)
  show ?case by (auto simp: follows_def tally_def)
qed

text \<open>The last decision about a proposal fixes its status; votes only open a pending one.\<close>

fun decision :: "nat \<Rightarrow> dao_event \<Rightarrow> proposal_status option" where
  "decision i (ProposalCanceled j) = (if j = i then Some CANCELLED else None)"
| "decision i (ProposalVetoed j) = (if j = i then Some VETOED else None)"
| "decision i (ProposalQueued p) = (if pq_id p = i then Some QUEUED else None)"
| "decision i (ProposalExecuted j) = (if j = i then Some EXECUTED else None)"
| "decision i _ = None"

definition decisions :: "nat \<Rightarrow> dao_event list \<Rightarrow> proposal_status list" where
  "decisions i es = List.map_filter (decision i) es"

definition voted_on :: "nat \<Rightarrow> dao_event \<Rightarrow> bool" where
  "voted_on i e = (case e of VoteCast m p \<Rightarrow> vc_proposalId p = i | _ \<Rightarrow> False)"

lemma status_after_cases:
  "status_after i e st = (case decision i e of Some d \<Rightarrow> d
     | None \<Rightarrow> if voted_on i e \<and> st = PENDING then ACTIVE else st)"
  by (cases e) (auto simp: status_after_def voted_on_def)

lemma decision_not_pending: "decision i e \<noteq> Some PENDING"
  by (cases e) auto

lemma decisions_snoc:
  "decisions i [] = []"
  "decisions i (es @ [e]) = decisions i es @ (case decision i e of None \<Rightarrow> [] | Some x \<Rightarrow> [x])"
  by (simp_all add: decisions_def map_filter_def split: option.splits)

lemma decisions_not_pending: "x \<in> set (decisions i es) \<Longrightarrow> x \<noteq> PENDING"
proof (induction es rule: rev_induct)
  case (snoc e es)
  then show ?case using decision_not_pending [of i e] by (auto simp: decisions_snoc split: option.splits)
qed (simp add: decisions_snoc)

lemma status_run:
  "fold (status_after i) es st =
     (if decisions i es \<noteq> [] then last (decisions i es)
      else if st = PENDING \<and> (\<exists>e\<in>set es. voted_on i e) then ACTIVE else st)"
proof (induction es rule: rev_induct)
  case (snoc e es)
  have "decisions i es \<noteq> [] \<Longrightarrow> last (decisions i es) \<noteq> PENDING"
    using decisions_not_pending [of "last (decisions i es)" i es] by auto
  with snoc show ?case by (cases "decision i e") (auto simp: status_after_cases decisions_snoc)
qed (simp add: decisions_snoc)

section \<open>Properties\<close>

text \<open>
  C9. The subgraph's \<open>i32\<close>/\<open>BigInt\<close> computation of the dynamic quorum equals the contract's, never aborts
  for the values the contract can hold, stays between the minimum and the maximum quorum, and only
  grows with the votes against.
\<close>

theorem dynamic_quorum_matches_contract:
  assumes "0 < minted" "against \<le> minted" "coefficient < 2 ^ 32" "minBPS \<le> maxBPS" "maxBPS < 65536"
  shows "\<exists>q. dynamicQuorumVotes (int against) (int minted) (word_of_nat minBPS) (word_of_nat maxBPS) (int coefficient) = Some q
    \<and> q = int (solidity_quorum against minted minBPS maxBPS coefficient)
    \<and> int (minted * minBPS div 10000) \<le> q \<and> q \<le> int (minted * maxBPS div 10000)
    \<and> (\<forall>against2 q2. against2 \<le> against \<and>
         dynamicQuorumVotes (int against2) (int minted) (word_of_nat minBPS) (word_of_nat maxBPS) (int coefficient) = Some q2
         \<longrightarrow> q2 \<le> q)"
proof -
  have eq: "dynamicQuorumVotes (int a) (int minted) (word_of_nat minBPS) (word_of_nat maxBPS) (int coefficient)
      = Some (int (solidity_quorum a minted minBPS maxBPS coefficient))" if "a \<le> against" for a
    using dynamic_quorum_eq [of minted a coefficient minBPS maxBPS] assms that by simp
  show ?thesis
    using eq solidity_quorum_bounds [OF assms(4)] solidity_quorum_mono [of _ against] by auto
qed

theorem dynamic_quorum_matches_contract_witness:
  "\<exists>q. dynamicQuorumVotes 20 (int 200) (word_of_nat 1000) (word_of_nat 4000) (int 1000000) = Some q
    \<and> q = int (solidity_quorum 20 200 1000 4000 1000000)"
  using dynamic_quorum_matches_contract [of 200 20 1000000 1000 4000] by auto

definition sample_proposal :: proposal_created_params where
  "sample_proposal = \<lparr>pc_id = 1, pc_proposer = ''0xa1'', pc_targets = [''0xb2''], pc_values = [0], pc_signatures = [[]],
     pc_calldatas = [''0x''], pc_startBlock = 200, pc_endBlock = 300, pc_proposalThreshold = 1, pc_quorumVotes = 2,
     pc_description = ''# A''\<rparr>"

definition sample_votes :: "dao_event list" where
  "sample_votes =
     [VoteCast sample_meta \<lparr>vc_voter = ''0xa1'', vc_proposalId = 1, vc_support = 1, vc_votes = 3, vc_reason = []\<rparr>,
      VoteCast sample_meta \<lparr>vc_voter = ''0xb2'', vc_proposalId = 1, vc_support = 0, vc_votes = 1, vc_reason = ''no''\<rparr>,
      ProposalQueued \<lparr>pq_id = 1, pq_eta = 5\<rparr>]"

text \<open>
  C12. After a proposal was created and any further events were indexed without an abort, its stored
  tallies are the sums of the votes cast on it with each support value, and its status is the last
  decision (canceled, vetoed, queued, executed); with no decision it is active if the voting had
  started at creation or somebody voted, pending otherwise.
\<close>

theorem proposal_history:
  assumes "proposals_keyed s" "run_dao (ProposalCreated m p # es) s = Some s'" "\<forall>e\<in>set es. \<not> creates (pc_id p) e"
  shows "\<exists>pr. st_proposals s' (show_nat (pc_id p)) = Some pr
    \<and> pr_forVotes pr = tally (pc_id p) 1 es \<and> pr_againstVotes pr = tally (pc_id p) 0 es
    \<and> pr_abstainVotes pr = tally (pc_id p) 2 es
    \<and> pr_status pr = (if decisions (pc_id p) es \<noteq> [] then last (decisions (pc_id p) es)
        else if em_blockNumber m \<ge> pc_startBlock p \<or> (\<exists>e\<in>set es. voted_on (pc_id p) e) then ACTIVE else PENDING)
    \<and> pr_createdBlock pr = em_blockNumber m"
proof -
  obtain s1 where s1: "handle_dao (ProposalCreated m p) s = Some s1" "run_dao es s1 = Some s'"
    using assms(2) by (auto split: bind_splits)
  then obtain pr where pr: "st_proposals s1 (show_nat (pc_id p)) = Some pr" "pr_forVotes pr = 0" "pr_againstVotes pr = 0"
    "pr_abstainVotes pr = 0" "pr_status pr = (if em_blockNumber m \<ge> pc_startBlock p then ACTIVE else PENDING)"
    "pr_createdBlock pr = em_blockNumber m"
    by (auto simp: handler_defs Let_def case_prod_unfold)
  from run_follows [OF handle_dao_keyed [OF assms(1) s1(1)] s1(2) pr(1) assms(3)] pr
  show ?thesis by (auto simp: status_run)
qed

lemma sample_votes_run: "\<exists>s'. run_dao (ProposalCreated sample_meta sample_proposal # sample_votes) empty_store = Some s'"
proof -
  have "\<not> Option.is_none (run_dao (ProposalCreated sample_meta sample_proposal # sample_votes) empty_store)"
    by code_simp
  then show ?thesis by (auto simp: Option.is_none_def)
qed

theorem proposal_history_witness:
  "\<exists>s' pr. run_dao (ProposalCreated sample_meta sample_proposal # sample_votes) empty_store = Some s'
     \<and> st_proposals s' (show_nat 1) = Some pr \<and> pr_forVotes pr = 3 \<and> pr_againstVotes pr = 1 \<and> pr_status pr = QUEUED"
proof -
  obtain s' where run: "run_dao (ProposalCreated sample_meta sample_proposal # sample_votes) empty_store = Some s'"
    using sample_votes_run by blast
  have keyed: "proposals_keyed empty_store" by (simp add: proposals_keyed_def empty_store_def)
  have fresh: "\<forall>e\<in>set sample_votes. \<not> creates (pc_id sample_proposal) e" by (simp add: sample_votes_def creates_def)
  show ?thesis
    using proposal_history [OF keyed run fresh] run
    by (auto simp: sample_proposal_def sample_votes_def tally_def votes_in_def decisions_def map_filter_def)
qed

text \<open>
  An event for a proposal the subgraph has not seen created always aborts indexing; besides it, only
  a vote whose dynamic quorum cannot be computed (no token in existence at creation, or a value that
  does not fit 32 bits) does. Every other event is handled.
\<close>

theorem dao_handlers_abort_iff:
  "handle_dao e s = None \<longleftrightarrow>
     (\<exists>i. subject e = Some i \<and> st_proposals s (show_nat i) = None)
     \<or> (\<exists>m p pr. e = VoteCast m p \<and> st_proposals s (show_nat (vc_proposalId p)) = Some pr
         \<and> usingDynamicQuorum (fst (getOrCreateDynamicQuorumParams None s)) pr
         \<and> dynamicQuorumVotes (pr_againstVotes pr + (if vc_support p = 0 then vc_votes p else 0)) (pr_totalSupply pr)
             (pr_minQuorumVotesBPS pr) (pr_maxQuorumVotesBPS pr) (pr_quorumCoefficient pr) = None)"
proof -
  have "quorum_fails e s \<longleftrightarrow>
     (\<exists>m p pr. e = VoteCast m p \<and> st_proposals s (show_nat (vc_proposalId p)) = Some pr
         \<and> usingDynamicQuorum (fst (getOrCreateDynamicQuorumParams None s)) pr
         \<and> dynamicQuorumVotes (pr_againstVotes pr + (if vc_support p = 0 then vc_votes p else 0)) (pr_totalSupply pr)
             (pr_minQuorumVotesBPS pr) (pr_maxQuorumVotesBPS pr) (pr_quorumCoefficient pr) = None)"
    by (cases e) (auto simp: quorum_fails_def update_quorum_def usingDynamicQuorum_def split: option.splits)
  then show ?thesis by (simp add: handle_dao_None)
qed

text \<open>
  When a vote on a proposal created after the dynamic quorum started is indexed, the stored quorum
  is the dynamic quorum of the votes against including this vote, and the stored vote holds the
  voter's represented tokens.
\<close>

theorem vote_updates_quorum:
  assumes "st_proposals s (show_nat (vc_proposalId p)) = Some pr" "pr_id pr = show_nat (vc_proposalId p)"
    and "handleVoteCast m p s = Some s'" "usingDynamicQuorum (fst (getOrCreateDynamicQuorumParams None s)) pr"
  shows "\<exists>pr' v. st_proposals s' (show_nat (vc_proposalId p)) = Some pr'
    \<and> dynamicQuorumVotes (pr_againstVotes pr') (pr_totalSupply pr') (pr_minQuorumVotesBPS pr)
        (pr_maxQuorumVotesBPS pr) (pr_quorumCoefficient pr) = Some (pr_quorumVotes pr')
    \<and> st_votes s' (vc_voter p @ ''-'' @ show_nat (vc_proposalId p)) = Some v
    \<and> vt_votes v = vc_votes p \<and> vt_supportDetailed v = vc_support p
    \<and> vt_alps v = dl_alpsRepresented (delegate_at (st_delegates s) (vc_voter p))"
proof -
  have dels: "st_delegates (note_missing_delegate d msg (snd (getOrCreateProposal k s))) = st_delegates s" for d msg k
    by (auto simp: note_missing_delegate_def getOrCreateProposal_def Let_def split: option.splits)
  have votes: "st_votes (snd (getOrCreateDynamicQuorumParams b t)) = st_votes t" for b t
    by (auto simp: getOrCreateDynamicQuorumParams_def Let_def split: option.splits)
  have using_c: "usingDynamicQuorum q (count_vote sp v pr) = usingDynamicQuorum q pr" for q sp v
    by (simp add: usingDynamicQuorum_def split: option.splits)
  define q where "q = fst (getOrCreateDynamicQuorumParams None s)"
  have dq: "fst (getOrCreateDynamicQuorumParams None t) = q"
    if "st_dqParams t = st_dqParams s" for t using that by (simp add: q_def dq_load)
  from assms(1-3) assms(4) [folded q_def] show ?thesis
    by (auto simp: handleVoteCast_def Let_def case_prod_unfold update_quorum_def using_c dq votes delegate_at_load dels)
qed

definition sample_stored :: proposal where
  "sample_stored = \<lparr>pr_id = show_nat 1, pr_proposer = ''0xa1'', pr_targets = [''0xb2''], pr_values = [0],
     pr_signatures = [[]], pr_calldatas = [''0x''], pr_createdTimestamp = 0, pr_createdBlock = 150,
     pr_createdTransactionHash = ''0xabc'', pr_startBlock = 200, pr_endBlock = 300, pr_proposalThreshold = 1,
     pr_quorumVotes = 0, pr_forVotes = 0, pr_againstVotes = 0, pr_abstainVotes = 0, pr_description = ''# A'',
     pr_status = ACTIVE, pr_executionETA = None, pr_totalSupply = 20, pr_minQuorumVotesBPS = word_of_nat 1000,
     pr_maxQuorumVotesBPS = word_of_nat 4000, pr_quorumCoefficient = 1000000\<rparr>"

definition sample_dynamic :: store where
  "sample_dynamic = save_dqParams \<lparr>dq_minQuorumVotesBPS = word_of_nat 1000, dq_maxQuorumVotesBPS = word_of_nat 4000,
     dq_quorumCoefficient = 1000000, dq_dynamicQuorumStartBlock = Some 100\<rparr> (save_proposal sample_stored empty_store)"

definition sample_vote :: vote_cast_params where
  "sample_vote = \<lparr>vc_voter = ''0xa1'', vc_proposalId = 1, vc_support = 0, vc_votes = 4, vc_reason = []\<rparr>"

lemma sample_dynamic_ok:
  "st_proposals sample_dynamic (show_nat 1) = Some sample_stored" "pr_id sample_stored = show_nat 1"
  "usingDynamicQuorum (fst (getOrCreateDynamicQuorumParams None sample_dynamic)) sample_stored"
  by (simp_all add: sample_dynamic_def sample_stored_def dq_load save_dqParams_def usingDynamicQuorum_def)

lemma sample_vote_ok: "\<exists>s'. handleVoteCast sample_meta sample_vote sample_dynamic = Some s'"
proof -
  have "dynamicQuorumVotes 4 20 (word_of_nat 1000) (word_of_nat 4000) 1000000 \<noteq> None"
    using dynamic_quorum_eq [of 20 4 1000000 1000 4000] by simp
  then have "handle_dao (VoteCast sample_meta sample_vote) sample_dynamic \<noteq> None"
    using sample_dynamic_ok(1)
    unfolding handle_dao_None quorum_fails_def
    by (auto simp: sample_vote_def update_quorum_def sample_stored_def count_vote_def)
  then show ?thesis by simp
qed

theorem vote_updates_quorum_witness:
  "\<exists>s' pr'. handleVoteCast sample_meta sample_vote sample_dynamic = Some s' \<and> st_proposals s' (show_nat 1) = Some pr'
     \<and> dynamicQuorumVotes (pr_againstVotes pr') (pr_totalSupply pr') (word_of_nat 1000) (word_of_nat 4000) 1000000
         = Some (pr_quorumVotes pr')"
proof -
  obtain s' where s': "handleVoteCast sample_meta sample_vote sample_dynamic = Some s'" using sample_vote_ok by blast
  have i: "vc_proposalId sample_vote = 1" by (simp add: sample_vote_def)
  show ?thesis
    using vote_updates_quorum [of sample_dynamic sample_vote, unfolded i, OF sample_dynamic_ok(1,2) s' sample_dynamic_ok(3)] s'
    by (auto simp: sample_stored_def)
qed

section \<open>Queued proposals\<close>

definition queued_delta :: "dao_event \<Rightarrow> int" where
  "queued_delta e = (case e of ProposalQueued _ \<Rightarrow> 1 | ProposalExecuted _ \<Rightarrow> - 1 | _ \<Rightarrow> 0)"

lemma governance_other [simp]:
  "getGovernanceEntity (save_proposal pr s) = getGovernanceEntity s"
  "getGovernanceEntity (save_vote k v s) = getGovernanceEntity s"
  "getGovernanceEntity (save_dqParams q s) = getGovernanceEntity s"
  "getGovernanceEntity (note_missing_delegate d msg s) = getGovernanceEntity s"
  "getGovernanceEntity (snd (getOrCreateDynamicQuorumParams b s)) = getGovernanceEntity s"
  by (auto simp: getGovernanceEntity_def save_defs note_missing_delegate_def getOrCreateDynamicQuorumParams_def Let_def
      split: option.splits)

lemma governance_proposal: "getGovernanceEntity (snd (getOrCreateProposal k s)) =
   (getGovernanceEntity s)\<lparr>gv_proposals := gv_proposals (getGovernanceEntity s) + (if st_proposals s k = None then 1 else 0)\<rparr>"
  by (auto simp: getOrCreateProposal_def Let_def split: option.splits)

lemma queued_step:
  "handle_dao e s = Some s' \<Longrightarrow>
     gv_proposalsQueued (getGovernanceEntity s') = gv_proposalsQueued (getGovernanceEntity s) + queued_delta e"
  by (cases e) (auto simp: handler_defs Let_def case_prod_unfold queued_delta_def getOrCreateDelegate_governance
      governance_proposal split: bind_splits)

text \<open>
  \<open>proposalsQueued\<close> is the number of queueings minus the number of executions; a queued proposal that
  is then canceled or vetoed stays counted.
\<close>

theorem proposals_queued_count:
  assumes "run_dao es s = Some s'"
  shows "gv_proposalsQueued (getGovernanceEntity s') = gv_proposalsQueued (getGovernanceEntity s)
      + int (length (filter (\<lambda>e. case e of ProposalQueued _ \<Rightarrow> True | _ \<Rightarrow> False) es))
      - int (length (filter (\<lambda>e. case e of ProposalExecuted _ \<Rightarrow> True | _ \<Rightarrow> False) es))"
  using assms
proof (induction es arbitrary: s)
  case (Cons e es)
  then obtain s1 where s1: "handle_dao e s = Some s1" "run_dao es s1 = Some s'" by (auto split: bind_splits)
  from Cons.IH [OF s1(2)] queued_step [OF s1(1)] show ?case
    by (cases e) (simp_all add: queued_delta_def)
qed simp

theorem proposals_queued_count_witness:
  "\<exists>s'. run_dao (ProposalCreated sample_meta sample_proposal # sample_votes) empty_store = Some s'
     \<and> gv_proposalsQueued (getGovernanceEntity s') = 1"
proof -
  obtain s' where run: "run_dao (ProposalCreated sample_meta sample_proposal # sample_votes) empty_store = Some s'"
    using sample_votes_run by blast
  show ?thesis
    using proposals_queued_count [OF run] run
    by (simp add: sample_votes_def getGovernanceEntity_def empty_store_def)
qed

end
