(* ===== verification/Bots_Cache.thy ===== *)
theory Bots_Cache
  imports Prelude
begin

text \<open>
  The data, the \<open>redis\<close> cache and the message texts of the bots (\<open>nouns-bots/src/types.ts\<close>, \<open>cache.ts\<close>,
  \<open>utils.ts\<close>, \<open>utils/proposals.ts\<close>). A world holds the cache, the counters and what the handlers sent
  out. An \<open>async\<close> function is a step on the world that resolves (\<open>True\<close>) or rejects (\<open>False\<close>); it keeps
  what it did before rejecting. Non-ASCII characters of the texts are their UTF-8 bytes.
\<close>

section \<open>Data (types.ts)\<close>

record bot_bid =
  bb_id :: string
  bb_amount :: string
  bb_bidder :: string

record auction_bids =
  ab_id :: nat
  ab_endTime :: int
  ab_bids :: "bot_bid list"

datatype bot_status = BOT_PENDING | BOT_ACTIVE | BOT_CANCELLED | BOT_VETOED | BOT_QUEUED | BOT_EXECUTED

datatype vote_direction = AGAINST | FOR | ABSTAIN

text \<open>What the subgraph answers: numbers are strings (\<open>executionETA\<close> may be \<open>null\<close>).\<close>

record raw_vote =
  rv_id :: string
  rv_voter :: string
  rv_votes :: string
  rv_supportDetailed :: vote_direction
  rv_reason :: "string option"

record raw_proposal =
  rp_id :: string
  rp_proposer :: string
  rp_description :: string
  rp_status :: bot_status
  rp_quorumVotes :: string
  rp_proposalThreshold :: string
  rp_startBlock :: string
  rp_endBlock :: string
  rp_executionETA :: "string option"
  rp_votes :: "raw_vote list"

record bot_vote =
  bv_id :: string
  bv_voter :: string
  bv_votes :: jsnum
  bv_supportDetailed :: vote_direction
  bv_reason :: "string option"

record bot_proposal =
  bp_id :: jsnum
  bp_proposer :: string
  bp_description :: string
  bp_status :: bot_status
  bp_quorumVotes :: jsnum
  bp_proposalThreshold :: jsnum
  bp_startBlock :: jsnum
  bp_endBlock :: jsnum
  bp_executionETA :: jsnum
  bp_votes :: "bot_vote list"

section \<open>Proposals (utils/proposals.ts)\<close>

definition SECONDS_IN_DAY :: int where
  "SECONDS_IN_DAY = 60 * 60 * 24"

definition parseVote :: "raw_vote \<Rightarrow> bot_vote" where
  "parseVote v = \<lparr>bv_id = rv_id v, bv_voter = rv_voter v, bv_votes = js_Number (rv_votes v),
     bv_supportDetailed = rv_supportDetailed v, bv_reason = rv_reason v\<rparr>"

definition parseProposal :: "raw_proposal \<Rightarrow> bot_proposal" where
  "parseProposal p = \<lparr>bp_id = js_Number (rp_id p), bp_proposer = rp_proposer p, bp_description = rp_description p,
     bp_status = rp_status p, bp_quorumVotes = js_Number (rp_quorumVotes p),
     bp_proposalThreshold = js_Number (rp_proposalThreshold p), bp_startBlock = js_Number (rp_startBlock p),
     bp_endBlock = js_Number (rp_endBlock p),
     bp_executionETA = (case rp_executionETA p of None \<Rightarrow> Some 0 | Some s \<Rightarrow> js_Number s),
     bp_votes = map parseVote (rp_votes p)\<rparr>"

definition parseProposalSubgraphResponse :: "raw_proposal list \<Rightarrow> bot_proposal list" where
  "parseProposalSubgraphResponse ps = map parseProposal ps"

definition extractNewVotes :: "bot_proposal \<Rightarrow> bot_proposal \<Rightarrow> bot_vote list" where
  "extractNewVotes proposalBefore proposalAfter =
     (let previousStateVoteIds = map bv_id (bp_votes proposalBefore)
      in filter (\<lambda>vote. bv_id vote \<notin> set previousStateVoteIds \<and> num_pos (bv_votes vote)) (bp_votes proposalAfter))"

definition extractProposalTitle :: "bot_proposal \<Rightarrow> string" where
  "extractProposalTitle proposal =
     (let line = hd (js_split (CHR 0x0A) (bp_description proposal))
      in case line of c # cs \<Rightarrow> if c = CHR ''#'' then dropWhile is_space cs else line | [] \<Rightarrow> [])"

definition isAtRiskOfExpiry :: "int \<Rightarrow> bot_proposal \<Rightarrow> bool" where
  "isAtRiskOfExpiry currentTimestamp proposal =
     (if bp_status proposal \<noteq> BOT_QUEUED then False
      else (let expiresAt = num_add (bp_executionETA proposal) (Some (SECONDS_IN_DAY * 14));
                secondsUntilExpiry = num_sub expiresAt (Some currentTimestamp)
            in num_pos secondsUntilExpiry \<and> num_le secondsUntilExpiry (Some (SECONDS_IN_DAY * 2))))"

section \<open>Worlds and promises\<close>

text \<open>A cached proposal is kept as the value its JSON text stands for.\<close>

datatype redis_value = RString string | RProposal bot_proposal

record 'x bot_world =
  bw_redis :: "string \<rightharpoonup> redis_value"
  bw_counters :: "string list"
  bw_out :: 'x

type_synonym 'x promise = "'x bot_world \<Rightarrow> 'x bot_world \<times> bool"

definition then_do :: "'x promise \<Rightarrow> 'x promise \<Rightarrow> 'x promise" where
  "then_do p q w = (case p w of (w', ok) \<Rightarrow> if ok then q w' else (w', False))"

definition resolved :: "'x promise" where
  "resolved w = (w, True)"

text \<open>\<open>Promise.all\<close>: every promise runs; it resolves when all did.\<close>

fun await_all :: "'x promise list \<Rightarrow> 'x promise" where
  "await_all [] w = (w, True)"
| "await_all (p # ps) w = (case p w of (w1, ok1) \<Rightarrow> (case await_all ps w1 of (w2, ok2) \<Rightarrow> (w2, ok1 \<and> ok2)))"

section \<open>The cache (cache.ts)\<close>

definition redis_get :: "'x bot_world \<Rightarrow> string \<Rightarrow> redis_value option" where
  "redis_get w k = bw_redis w k"

definition redis_set :: "string \<Rightarrow> redis_value \<Rightarrow> 'x bot_world \<Rightarrow> 'x bot_world" where
  "redis_set k v w = w\<lparr>bw_redis := (bw_redis w)(k \<mapsto> v)\<rparr>"

interpretation redis: keyed_store redis_get redis_set
  by unfold_locales (simp_all add: redis_get_def redis_set_def)

lemmas redis_get_set [store_simps] = redis.get_put

definition auctionCacheKey :: string where "auctionCacheKey = ''NOUNS_AUCTION_CACHE''"
definition bidCacheKey :: string where "bidCacheKey = ''NOUNS_BID_CACHE''"
definition replyTweetIdKey :: string where "replyTweetIdKey = ''NOUNS_REPLY_TWEET_ID''"
definition auctionEndingSoonCacheKey :: string where "auctionEndingSoonCacheKey = ''NOUNS_AUCTION_ENDING_SOON_CACHE''"
definition proposalCacheKeyPrefix :: string where "proposalCacheKeyPrefix = ''NOUNS_PROPOSAL_''"
definition proposalExpiryWarningSentCacheKeyPrefix :: string where
  "proposalExpiryWarningSentCacheKeyPrefix = ''NOUNS_PROPOSAL_EXPIRY_WARNING_SENT_''"

definition redis_string :: "'x bot_world \<Rightarrow> string \<Rightarrow> string option" where
  "redis_string w k = (case redis_get w k of Some (RString s) \<Rightarrow> Some s | _ \<Rightarrow> None)"

definition updateAuctionCache :: "nat \<Rightarrow> 'x bot_world \<Rightarrow> 'x bot_world" where
  "updateAuctionCache i w = redis_set auctionCacheKey (RString (show_nat i)) w"

definition getBidCache :: "'x bot_world \<Rightarrow> string" where
  "getBidCache w = (case redis_string w bidCacheKey of None \<Rightarrow> [] | Some s \<Rightarrow> s)"

definition updateBidCache :: "string \<Rightarrow> 'x bot_world \<Rightarrow> 'x bot_world" where
  "updateBidCache i w = redis_set bidCacheKey (RString i) w"

definition getAuctionReplyTweetId :: "'x bot_world \<Rightarrow> string option" where
  "getAuctionReplyTweetId w = redis_string w replyTweetIdKey"

definition updateAuctionReplyTweetId :: "string \<Rightarrow> 'x bot_world \<Rightarrow> 'x bot_world" where
  "updateAuctionReplyTweetId i w = redis_set replyTweetIdKey (RString i) w"

definition cached_number :: "'x bot_world \<Rightarrow> string \<Rightarrow> jsnum" where
  "cached_number w k = (case redis_string w k of None \<Rightarrow> Some 0 | Some s \<Rightarrow> if s \<noteq> [] then js_Number s else Some 0)"

definition getAuctionEndingSoonCache :: "'x bot_world \<Rightarrow> jsnum" where
  "getAuctionEndingSoonCache w = cached_number w auctionEndingSoonCacheKey"

definition updateAuctionEndingSoonCache :: "nat \<Rightarrow> 'x bot_world \<Rightarrow> 'x bot_world" where
  "updateAuctionEndingSoonCache i w = redis_set auctionEndingSoonCacheKey (RString (show_nat i)) w"

definition getAuctionCache :: "'x bot_world \<Rightarrow> jsnum" where
  "getAuctionCache w = cached_number w auctionCacheKey"

definition proposalCacheKey :: "jsnum \<Rightarrow> string" where
  "proposalCacheKey i = proposalCacheKeyPrefix @ show_num i"

definition proposalExpiryWarningSentCacheKey :: "jsnum \<Rightarrow> string" where
  "proposalExpiryWarningSentCacheKey i = proposalExpiryWarningSentCacheKeyPrefix @ show_num i"

definition updateProposalCache :: "bot_proposal \<Rightarrow> 'x bot_world \<Rightarrow> 'x bot_world" where
  "updateProposalCache p w = redis_set (proposalCacheKey (bp_id p)) (RProposal p) w"

definition getProposalCache :: "jsnum \<Rightarrow> 'x bot_world \<Rightarrow> bot_proposal option" where
  "getProposalCache i w = (case redis_get w (proposalCacheKey i) of Some (RProposal p) \<Rightarrow> Some p | _ \<Rightarrow> None)"

definition setProposalExpiryWarningSent :: "jsnum \<Rightarrow> 'x bot_world \<Rightarrow> 'x bot_world" where
  "setProposalExpiryWarningSent i w = redis_set (proposalExpiryWarningSentCacheKey i) (RString ''1'') w"

definition hasWarnedOfExpiry :: "jsnum \<Rightarrow> 'x bot_world \<Rightarrow> bool" where
  "hasWarnedOfExpiry i w = (redis_get w (proposalExpiryWarningSentCacheKey i) \<noteq> None)"

section \<open>Texts (utils.ts)\<close>

definition nl :: string where "nl = [CHR 0x0A]"

definition shortAddress :: "string \<Rightarrow> string" where
  "shortAddress address =
     js_substr address 0 4 @ ''...'' @ js_substr_from address (int (length address) - 4)"

fun voteDirectionToText :: "vote_direction \<Rightarrow> string" where
  "voteDirectionToText FOR = ''for''"
| "voteDirectionToText AGAINST = ''against''"
| "voteDirectionToText ABSTAIN = ''to abstain on''"

text \<open>\<open>ens\<close> is the provider's reverse lookup; an empty or missing name falls back to the short address.\<close>

definition resolveEnsOrFormatAddress :: "(string \<Rightarrow> string option) \<Rightarrow> string \<Rightarrow> string" where
  "resolveEnsOrFormatAddress ens address =
     (case ens address of Some name \<Rightarrow> if name \<noteq> [] then name else shortAddress address | None \<Rightarrow> shortAddress address)"

definition fullwidth_asterisk :: string where "fullwidth_asterisk = [CHR 0xEF, CHR 0xBC, CHR 0x8A]"
definition greek_xi :: string where "greek_xi = [CHR 0xCE, CHR 0x9E]"

definition formatAuctionStartedTweetText :: "nat \<Rightarrow> string" where
  "formatAuctionStartedTweetText auctionId =
     fullwidth_asterisk @ ''Bleep Bloop Blop'' @ fullwidth_asterisk @ nl @ ''        '' @ nl
     @ '' An auction has started for Noun #'' @ show_nat auctionId @ nl @ '' Learn more at https://nouns.wtf''"

definition formatBidMessageText :: "(string \<Rightarrow> string option) \<Rightarrow> (string \<Rightarrow> string) \<Rightarrow> nat \<Rightarrow> bot_bid \<Rightarrow> string" where
  "formatBidMessageText ens formatEther i bid =
     ''Noun '' @ show_nat i @ '' has received a bid of '' @ greek_xi @ formatEther (bb_amount bid) @ '' from ''
     @ resolveEnsOrFormatAddress ens (bb_bidder bid)"

definition getAuctionEndingSoonTweetText :: string where
  "getAuctionEndingSoonTweetText = ''This auction is ending soon! Bid now at https://nouns.wtf''"

definition formatNewGovernanceProposalText :: "bot_proposal \<Rightarrow> string" where
  "formatNewGovernanceProposalText p =
     ''A new NounsDAO proposal (#'' @ show_num (bp_id p) @ '') has been created: '' @ extractProposalTitle p"

fun status_lower :: "bot_status \<Rightarrow> string" where
  "status_lower BOT_PENDING = ''pending''"
| "status_lower BOT_ACTIVE = ''active''"
| "status_lower BOT_CANCELLED = ''cancelled''"
| "status_lower BOT_VETOED = ''vetoed''"
| "status_lower BOT_QUEUED = ''queued''"
| "status_lower BOT_EXECUTED = ''executed''"

definition formatUpdatedGovernanceProposalStatusText :: "bot_proposal \<Rightarrow> string" where
  "formatUpdatedGovernanceProposalStatusText p =
     ''Nouns DAO proposal #'' @ show_num (bp_id p) @ '' ('' @ extractProposalTitle p
     @ '') has changed to status: '' @ status_lower (bp_status p)"

definition formatProposalAtRiskOfExpiryText :: "bot_proposal \<Rightarrow> string" where
  "formatProposalAtRiskOfExpiryText p =
     ''Nouns DAO proposal #'' @ show_num (bp_id p) @ '' ('' @ extractProposalTitle p
     @ '') expires in less than two days. Please execute it immediately!''"

definition formatNewGovernanceVoteText :: "(string \<Rightarrow> string option) \<Rightarrow> bot_proposal \<Rightarrow> bot_vote \<Rightarrow> string" where
  "formatNewGovernanceVoteText ens p v =
     resolveEnsOrFormatAddress ens (bv_voter v) @ '' has voted '' @ voteDirectionToText (bv_supportDetailed v)
     @ '' Proposal #'' @ show_num (bp_id p) @ '' ('' @ extractProposalTitle p @ '')''
     @ (case bv_reason v of None \<Rightarrow> [] | Some r \<Rightarrow> if r \<noteq> [] then nl @ nl @ ''Reason: '' @ r else [])"

definition buildCounterName :: "string \<Rightarrow> string" where
  "buildCounterName counterName = ''bots_'' @ counterName"

end
