(* ===== verification/Bots_Ticks.thy ===== *)
theory Bots_Ticks
  imports Bots_Cache "HOL-Library.Sublist"
begin

text \<open>
  The handlers (\<open>nouns-bots/src/handlers\<close>) and the polling loop (\<open>nouns-bots/src/index.ts\<close>). The
  Twitter, Discord, counter and provider services are arguments: each call may fail, in which case the
  promise rejects and the rest of the tick is skipped. The locale \<open>lifecycle\<close> states what the loop
  needs of a list of handlers; it is interpreted for the Twitter and the Discord handler.
\<close>

section \<open>Handlers\<close>

record 'x lifecycle_handler =
  lh_newAuction :: "nat \<Rightarrow> 'x promise"
  lh_newBid :: "nat \<Rightarrow> bot_bid \<Rightarrow> 'x promise"
  lh_endingSoon :: "(nat \<Rightarrow> 'x promise) option"
  lh_newProposal :: "(bot_proposal \<Rightarrow> 'x promise) option"
  lh_updatedStatus :: "(bot_proposal \<Rightarrow> 'x promise) option"
  lh_atRisk :: "(bot_proposal \<Rightarrow> 'x promise) option"
  lh_vote :: "(bot_proposal \<Rightarrow> bot_vote \<Rightarrow> 'x promise) option"

datatype tweet =
    Tweet string string string \<comment> \<open>text, media id, tweet id\<close>
  | Reply string string string \<comment> \<open>text, id replied to, tweet id\<close>

record discord_message =
  dm_title :: string
  dm_url :: string
  dm_description :: string
  dm_field :: "(string \<times> string) option"
  dm_image :: "string option"

record outbox =
  ob_tweets :: "tweet list"
  ob_discord :: "(nat \<times> discord_message) list" \<comment> \<open>webhook client and message\<close>

text \<open>The answers of the services during one tick; \<open>None\<close> and \<open>False\<close> are errors.\<close>

record services =
  sv_ens :: "string \<Rightarrow> string option"
  sv_formatEther :: "string \<Rightarrow> string"
  sv_png :: "string \<Rightarrow> string option option" \<comment> \<open>\<open>getNounPngBuffer\<close>: rejected, or a buffer or \<open>undefined\<close>\<close>
  sv_upload :: "string \<Rightarrow> string option"
  sv_tweet :: "string \<Rightarrow> string option"
  sv_discord :: "nat \<Rightarrow> bool"
  sv_counter :: "string \<Rightarrow> bool"

definition send_tweet :: "tweet \<Rightarrow> string \<Rightarrow> outbox promise" where
  "send_tweet t tid w =
     (updateAuctionReplyTweetId tid (w\<lparr>bw_out := (bw_out w)\<lparr>ob_tweets := ob_tweets (bw_out w) @ [t]\<rparr>\<rparr>), True)"

definition twitter_handleNewAuction :: "services \<Rightarrow> nat \<Rightarrow> outbox promise" where
  "twitter_handleNewAuction sv auctionId w =
     (case sv_png sv (show_nat auctionId) of
        None \<Rightarrow> (w, False)
      | Some None \<Rightarrow> (w, True)
      | Some (Some png) \<Rightarrow>
          (case sv_upload sv png of
             None \<Rightarrow> (w, False)
           | Some mediaId \<Rightarrow>
               (let text = formatAuctionStartedTweetText auctionId
                in case sv_tweet sv text of
                     None \<Rightarrow> (w, False)
                   | Some tid \<Rightarrow> send_tweet (Tweet text mediaId tid) tid w)))"

definition twitter_reply :: "services \<Rightarrow> string \<Rightarrow> outbox promise" where
  "twitter_reply sv text w =
     (case getAuctionReplyTweetId w of
        None \<Rightarrow> (w, True)
      | Some replyTo \<Rightarrow>
          if replyTo = [] then (w, True)
          else (case sv_tweet sv text of
                  None \<Rightarrow> (w, False)
                | Some tid \<Rightarrow> send_tweet (Reply text replyTo tid) tid w))"

definition twitter_handleNewBid :: "services \<Rightarrow> nat \<Rightarrow> bot_bid \<Rightarrow> outbox promise" where
  "twitter_handleNewBid sv auctionId bid =
     twitter_reply sv (formatBidMessageText (sv_ens sv) (sv_formatEther sv) auctionId bid)"

definition twitter_handleAuctionEndingSoon :: "services \<Rightarrow> nat \<Rightarrow> outbox promise" where
  "twitter_handleAuctionEndingSoon sv auctionId = twitter_reply sv getAuctionEndingSoonTweetText"

definition TwitterAuctionLifecycleHandler :: "services \<Rightarrow> outbox lifecycle_handler" where
  "TwitterAuctionLifecycleHandler sv =
     \<lparr>lh_newAuction = twitter_handleNewAuction sv, lh_newBid = twitter_handleNewBid sv,
      lh_endingSoon = Some (twitter_handleAuctionEndingSoon sv), lh_newProposal = None, lh_updatedStatus = None,
      lh_atRisk = None, lh_vote = None\<rparr>"

definition discord_send :: "services \<Rightarrow> nat list \<Rightarrow> discord_message \<Rightarrow> outbox promise" where
  "discord_send sv discordClients message =
     await_all (map (\<lambda>c w. if sv_discord sv c
       then (w\<lparr>bw_out := (bw_out w)\<lparr>ob_discord := ob_discord (bw_out w) @ [(c, message)]\<rparr>\<rparr>, True)
       else (w, False)) discordClients)"

definition auction_message :: "nat \<Rightarrow> discord_message" where
  "auction_message auctionId =
     (let attachmentName = ''Auction-'' @ show_nat auctionId @ ''.png''
      in \<lparr>dm_title = ''New Auction Discovered'', dm_url = ''https://nouns.wtf'',
          dm_description = ''An auction has started for Noun #'' @ show_nat auctionId,
          dm_field = Some (''Noun ID'', show_nat auctionId), dm_image = Some (''attachment://'' @ attachmentName)\<rparr>)"

definition discord_handleNewAuction :: "services \<Rightarrow> nat list \<Rightarrow> nat \<Rightarrow> outbox promise" where
  "discord_handleNewAuction sv discordClients auctionId w =
     (case sv_png sv (show_nat auctionId) of
        None \<Rightarrow> (w, False)
      | Some None \<Rightarrow> (w, True)
      | Some (Some png) \<Rightarrow> discord_send sv discordClients (auction_message auctionId) w)"

definition bid_message :: "services \<Rightarrow> nat \<Rightarrow> bot_bid \<Rightarrow> discord_message" where
  "bid_message sv auctionId bid =
     \<lparr>dm_title = ''New Bid Placed'', dm_url = ''https://nouns.wtf'',
      dm_description = formatBidMessageText (sv_ens sv) (sv_formatEther sv) auctionId bid, dm_field = None, dm_image = None\<rparr>"

definition proposal_message :: "string \<Rightarrow> string \<Rightarrow> bot_proposal \<Rightarrow> discord_message" where
  "proposal_message title text p =
     \<lparr>dm_title = title, dm_url = ''https://nouns.wtf/vote/'' @ show_num (bp_id p), dm_description = text,
      dm_field = None, dm_image = None\<rparr>"

definition discord_handleNewBid :: "services \<Rightarrow> nat list \<Rightarrow> nat \<Rightarrow> bot_bid \<Rightarrow> outbox promise" where
  "discord_handleNewBid sv cs auctionId bid = discord_send sv cs (bid_message sv auctionId bid)"

definition discord_handleNewProposal :: "services \<Rightarrow> nat list \<Rightarrow> bot_proposal \<Rightarrow> outbox promise" where
  "discord_handleNewProposal sv cs p =
     discord_send sv cs (proposal_message ''New Governance Proposal'' (formatNewGovernanceProposalText p) p)"

definition discord_handleUpdatedProposalStatus :: "services \<Rightarrow> nat list \<Rightarrow> bot_proposal \<Rightarrow> outbox promise" where
  "discord_handleUpdatedProposalStatus sv cs p =
     discord_send sv cs (proposal_message ''Proposal Status Update'' (formatUpdatedGovernanceProposalStatusText p) p)"

definition discord_handleProposalAtRiskOfExpiry :: "services \<Rightarrow> nat list \<Rightarrow> bot_proposal \<Rightarrow> outbox promise" where
  "discord_handleProposalAtRiskOfExpiry sv cs p =
     discord_send sv cs (proposal_message ''Proposal At-Risk of Expiry'' (formatProposalAtRiskOfExpiryText p) p)"

definition discord_handleGovernanceVote :: "services \<Rightarrow> nat list \<Rightarrow> bot_proposal \<Rightarrow> bot_vote \<Rightarrow> outbox promise" where
  "discord_handleGovernanceVote sv cs p v =
     discord_send sv cs (proposal_message ''New Proposal Vote'' (formatNewGovernanceVoteText (sv_ens sv) p v) p)"

definition DiscordAuctionLifecycleHandler :: "services \<Rightarrow> nat list \<Rightarrow> outbox lifecycle_handler" where
  "DiscordAuctionLifecycleHandler sv discordClients =
     \<lparr>lh_newAuction = discord_handleNewAuction sv discordClients, lh_newBid = discord_handleNewBid sv discordClients,
      lh_endingSoon = None, lh_newProposal = Some (discord_handleNewProposal sv discordClients),
      lh_updatedStatus = Some (discord_handleUpdatedProposalStatus sv discordClients),
      lh_atRisk = Some (discord_handleProposalAtRiskOfExpiry sv discordClients),
      lh_vote = Some (discord_handleGovernanceVote sv discordClients)\<rparr>"

text \<open>The handlers the configuration enables; the two webhooks are clients 0 and 1.\<close>

definition auctionLifecycleHandlers :: "bool \<Rightarrow> bool \<Rightarrow> services \<Rightarrow> outbox lifecycle_handler list" where
  "auctionLifecycleHandlers twitterEnabled discordEnabled sv =
     (if twitterEnabled then [TwitterAuctionLifecycleHandler sv] else [])
     @ (if discordEnabled then [DiscordAuctionLifecycleHandler sv [0, 1]] else [])"

section \<open>The loop (index.ts)\<close>

definition optional_call :: "('a \<Rightarrow> 'x promise) option \<Rightarrow> 'a \<Rightarrow> 'x promise" where
  "optional_call f a = (case f of None \<Rightarrow> resolved | Some g \<Rightarrow> g a)"

definition incrementCounter :: "(string \<Rightarrow> bool) \<Rightarrow> string \<Rightarrow> 'x promise" where
  "incrementCounter ok name w = (if ok name then (w\<lparr>bw_counters := bw_counters w @ [name]\<rparr>, True) else (w, False))"

definition effect :: "('x bot_world \<Rightarrow> 'x bot_world) \<Rightarrow> 'x promise" where
  "effect f w = (f w, True)"

definition setupAuction :: "auction_bids option \<Rightarrow> 'x promise" where
  "setupAuction latest w = (case latest of None \<Rightarrow> (w, False) | Some a \<Rightarrow> (updateAuctionCache (ab_id a) w, True))"

definition new_auction_phase :: "'x lifecycle_handler list \<Rightarrow> (string \<Rightarrow> bool) \<Rightarrow> nat \<Rightarrow> 'x promise" where
  "new_auction_phase hs counter lastAuctionId =
     then_do (incrementCounter counter (buildCounterName ''auctions_discovered''))
       (then_do (effect (updateAuctionCache lastAuctionId))
         (then_do (await_all (map (\<lambda>h. lh_newAuction h lastAuctionId) hs))
           (incrementCounter counter (buildCounterName ''auction_cache_updates''))))"

definition new_bid_phase :: "'x lifecycle_handler list \<Rightarrow> nat \<Rightarrow> bot_bid \<Rightarrow> 'x promise" where
  "new_bid_phase hs lastAuctionId bid =
     then_do (effect (updateBidCache (bb_id bid))) (await_all (map (\<lambda>h. lh_newBid h lastAuctionId bid) hs))"

definition ending_soon_phase :: "'x lifecycle_handler list \<Rightarrow> nat \<Rightarrow> 'x promise" where
  "ending_soon_phase hs lastAuctionId =
     then_do (effect (updateAuctionEndingSoonCache lastAuctionId))
       (await_all (map (\<lambda>h. optional_call (lh_endingSoon h) lastAuctionId) hs))"

text \<open>\<open>latest\<close> is the subgraph's answer, \<open>None\<close> when the request fails or there is no auction.\<close>

definition processAuctionTick ::
  "'x lifecycle_handler list \<Rightarrow> (string \<Rightarrow> bool) \<Rightarrow> auction_bids option \<Rightarrow> int \<Rightarrow> 'x promise" where
  "processAuctionTick hs counter latest currentTimestamp w =
     (let cachedAuctionId = getAuctionCache w;
          cachedBidId = getBidCache w;
          cachedAuctionEndingSoon = getAuctionEndingSoonCache w
      in case latest of
           None \<Rightarrow> (w, False)
         | Some lastAuctionBids \<Rightarrow>
             (let lastAuctionId = ab_id lastAuctionBids;
                  secondsUntilAuctionEnds = ab_endTime lastAuctionBids - currentTimestamp
              in then_do (if num_lt cachedAuctionId (Some (int lastAuctionId))
                          then new_auction_phase hs counter lastAuctionId else resolved)
                (then_do (incrementCounter counter (buildCounterName ''auction_process_last_auction''))
                (then_do (case ab_bids lastAuctionBids of
                            [] \<Rightarrow> resolved
                          | bid # _ \<Rightarrow> if cachedBidId \<noteq> bb_id bid then new_bid_phase hs lastAuctionId bid else resolved)
                (if secondsUntilAuctionEnds < 20 * 60 \<and> num_lt cachedAuctionEndingSoon (Some (int lastAuctionId))
                 then ending_soon_phase hs lastAuctionId else resolved))) w))"

definition setupGovernance :: "bot_proposal list option \<Rightarrow> 'x promise" where
  "setupGovernance proposals w =
     (case proposals of None \<Rightarrow> (w, False) | Some ps \<Rightarrow> (fold updateProposalCache ps w, True))"

text \<open>
  One proposal of a governance tick. The callbacks of \<open>R.map\<close> are not awaited: those of the votes run
  whether or not an earlier one rejects, and a rejection of theirs does not stop the callback of the
  proposal.
\<close>

definition announce_votes :: "'x lifecycle_handler list \<Rightarrow> bot_proposal \<Rightarrow> bot_vote list \<Rightarrow> 'x bot_world \<Rightarrow> 'x bot_world" where
  "announce_votes hs proposal newVotes w =
     fold (\<lambda>v w. fst (await_all (map (\<lambda>h. case lh_vote h of None \<Rightarrow> resolved | Some f \<Rightarrow> f proposal v) hs) w)) newVotes w"

definition process_proposal :: "'x lifecycle_handler list \<Rightarrow> int \<Rightarrow> bot_proposal \<Rightarrow> 'x promise" where
  "process_proposal hs now proposal w =
     (case getProposalCache (bp_id proposal) w of
        None \<Rightarrow>
          then_do (await_all (map (\<lambda>h. optional_call (lh_newProposal h) proposal) hs))
            (effect (updateProposalCache proposal)) w
      | Some cachedProposal \<Rightarrow>
          then_do (if bp_status cachedProposal \<noteq> bp_status proposal
                   then await_all (map (\<lambda>h. optional_call (lh_updatedStatus h) proposal) hs) else resolved)
          (then_do (effect (announce_votes hs proposal (extractNewVotes cachedProposal proposal)))
          (then_do (\<lambda>w. if isAtRiskOfExpiry now proposal \<and> \<not> hasWarnedOfExpiry (bp_id proposal) w
                   then then_do (await_all (map (\<lambda>h. optional_call (lh_atRisk h) proposal) hs))
                          (effect (setProposalExpiryWarningSent (bp_id proposal))) w
                   else resolved w)
            (effect (updateProposalCache proposal)))) w)"

definition processGovernanceTick :: "'x lifecycle_handler list \<Rightarrow> int \<Rightarrow> bot_proposal list option \<Rightarrow> 'x bot_world \<Rightarrow> 'x bot_world" where
  "processGovernanceTick hs now proposals w =
     (case proposals of None \<Rightarrow> w | Some ps \<Rightarrow> fold (\<lambda>p w. fst (process_proposal hs now p w)) ps w)"

section \<open>What the loop needs of its handlers\<close>

text \<open>All keys but the reply tweet's keep their value.\<close>

definition keeps :: "'x bot_world \<Rightarrow> 'x bot_world \<Rightarrow> bool" where
  "keeps w w' \<longleftrightarrow> (\<forall>k. k \<noteq> replyTweetIdKey \<longrightarrow> redis_get w' k = redis_get w k)"

definition grows :: "('x \<Rightarrow> 'a list) \<Rightarrow> 'a \<Rightarrow> 'x bot_world \<Rightarrow> 'x bot_world \<Rightarrow> bool" where
  "grows proj a w w' \<longleftrightarrow> proj (bw_out w') = proj (bw_out w) \<or> proj (bw_out w') = proj (bw_out w) @ [a]"

definition same :: "('x \<Rightarrow> 'a list) \<Rightarrow> 'x bot_world \<Rightarrow> 'x bot_world \<Rightarrow> bool" where
  "same proj w w' \<longleftrightarrow> proj (bw_out w') = proj (bw_out w)"

text \<open>
  The contract of a family of handler lists and two channels on which they announce: a new auction is
  announced at most once per call on the first channel, an auction about to end at most once per call
  on the second, nothing else appears there, and the cache keys of the loop are left alone.
\<close>

locale lifecycle =
  fixes H :: "'x lifecycle_handler list set"
    and started :: "'x \<Rightarrow> 'a list" and start_mark :: "nat \<Rightarrow> 'a"
    and ending :: "'x \<Rightarrow> 'b list" and end_mark :: "nat \<Rightarrow> 'b"
  assumes new_auction: "hs \<in> H \<Longrightarrow> w' = fst (await_all (map (\<lambda>h. lh_newAuction h i) hs) w) \<Longrightarrow>
      keeps w w' \<and> grows started (start_mark i) w w' \<and> same ending w w'"
    and new_bid: "hs \<in> H \<Longrightarrow> w' = fst (await_all (map (\<lambda>h. lh_newBid h i b) hs) w) \<Longrightarrow>
      keeps w w' \<and> same started w w' \<and> same ending w w'"
    and ending_soon: "hs \<in> H \<Longrightarrow> w' = fst (await_all (map (\<lambda>h. optional_call (lh_endingSoon h) i) hs) w) \<Longrightarrow>
      keeps w w' \<and> same started w w' \<and> grows ending (end_mark i) w w'"

text \<open>What was announced on a channel is an increasing sequence of auction ids, none above the cached id.\<close>

definition announced :: "nat set \<Rightarrow> ('x \<Rightarrow> 'a list) \<Rightarrow> (nat \<Rightarrow> 'a) \<Rightarrow> string \<Rightarrow> 'x bot_world \<Rightarrow> bool" where
  "announced S proj mk key w \<longleftrightarrow> (\<exists>ids c. proj (bw_out w) = map mk ids \<and> sorted_wrt (<) ids \<and> set ids \<subseteq> S
     \<and> cached_number w key = Some (int c) \<and> (\<forall>i\<in>set ids. i \<le> c))"

lemma announced_keep:
  "announced S proj mk key w \<Longrightarrow> same proj w w' \<Longrightarrow> redis_get w' key = redis_get w key \<Longrightarrow> announced S proj mk key w'"
  by (simp add: announced_def same_def cached_number_def redis_string_def)

lemma cached_number_set:
  "cached_number (redis_set k (RString (show_nat i)) w) k' = (if k' = k then Some (int i) else cached_number w k')"
  by (simp add: cached_number_def redis_string_def redis_get_set js_Number_show_nat)

lemma announced_grow:
  assumes "announced S proj mk key w" "i \<in> S" "num_lt (cached_number w key) (Some (int i))"
    and "grows proj (mk i) w w'" "cached_number w' key = Some (int i)"
  shows "announced S proj mk key w'"
proof -
  obtain ids c where ids: "proj (bw_out w) = map mk ids" "sorted_wrt (<) ids" "set ids \<subseteq> S" "cached_number w key = Some (int c)"
    "\<forall>j\<in>set ids. j \<le> c" using assms(1) by (auto simp: announced_def)
  then have "c < i" using assms(3) by (simp add: num_lt_def)
  with ids assms(2) have "sorted_wrt (<) (ids @ [i])" "\<forall>j\<in>set (ids @ [i]). j \<le> i" "set (ids @ [i]) \<subseteq> S" by (auto simp: sorted_wrt_append)
  with ids assms(4,5) \<open>c < i\<close> show ?thesis
    unfolding announced_def grows_def
    by (elim disjE) (intro exI [of _ ids] exI [of _ i], fastforce, intro exI [of _ "ids @ [i]"] exI [of _ i], simp)
qed

lemmas key_defs = auctionCacheKey_def bidCacheKey_def replyTweetIdKey_def auctionEndingSoonCacheKey_def

lemma loop_keys [simp]:
  "auctionCacheKey \<noteq> replyTweetIdKey" "auctionEndingSoonCacheKey \<noteq> replyTweetIdKey" "bidCacheKey \<noteq> replyTweetIdKey"
  "auctionCacheKey \<noteq> auctionEndingSoonCacheKey" "auctionEndingSoonCacheKey \<noteq> auctionCacheKey"
  "auctionCacheKey \<noteq> bidCacheKey" "auctionEndingSoonCacheKey \<noteq> bidCacheKey"
  by (simp_all add: key_defs)

lemma then_do_fst: "fst (then_do p q w) = (if snd (p w) then fst (q (fst (p w))) else fst (p w))"
  by (simp add: then_do_def split: prod.splits)

lemma then_do_rule: "P (fst (p w)) \<Longrightarrow> (\<And>w. P w \<Longrightarrow> P (fst (q w))) \<Longrightarrow> P (fst (then_do p q w))"
  by (simp add: then_do_fst)

lemma counter_world [simp]:
  "bw_out (fst (incrementCounter ok name w)) = bw_out w" "redis_get (fst (incrementCounter ok name w)) = redis_get w"
  by (simp_all add: incrementCounter_def redis_get_def fun_eq_iff)

lemma effect_world [simp]: "effect f w = (f w, True)"
  by (simp add: effect_def)

lemma redis_set_out [simp]: "bw_out (redis_set k v w) = bw_out w"
  by (simp add: redis_set_def)

context lifecycle begin

definition loop_inv :: "nat set \<Rightarrow> 'x bot_world \<Rightarrow> bool" where
  "loop_inv S w \<longleftrightarrow> announced S started start_mark auctionCacheKey w \<and> announced S ending end_mark auctionEndingSoonCacheKey w"

lemma loop_inv_counter: "loop_inv S w \<Longrightarrow> loop_inv S (fst (incrementCounter ok name w))"
  by (auto simp: loop_inv_def same_def intro: announced_keep)

lemma new_auction_inv:
  assumes "loop_inv S w" "hs \<in> H" "i \<in> S" "num_lt (getAuctionCache w) (Some (int i))" "getAuctionEndingSoonCache w = e"
  shows "loop_inv S (fst (new_auction_phase hs counter i w)) \<and> getAuctionEndingSoonCache (fst (new_auction_phase hs counter i w)) = e"
proof -
  define w1 where "w1 = fst (incrementCounter counter (buildCounterName ''auctions_discovered'') w)"
  define w2 where "w2 = updateAuctionCache i w1"
  define w3 where "w3 = fst (await_all (map (\<lambda>h. lh_newAuction h i) hs) w2)"
  note h = new_auction [OF assms(2) w3_def]
  have e: "getAuctionEndingSoonCache w3 = e" "getAuctionEndingSoonCache w1 = e"
    using assms(5) h by (simp_all add: getAuctionEndingSoonCache_def cached_number_def redis_string_def keeps_def w2_def w1_def
        updateAuctionCache_def redis_get_set)
  have i1: "loop_inv S w1" using assms(1) unfolding w1_def by (rule loop_inv_counter)
  have c: "cached_number w3 auctionCacheKey = Some (int i)"
    using h cached_number_set [of auctionCacheKey i w1 auctionCacheKey]
    by (simp add: keeps_def cached_number_def redis_string_def w2_def updateAuctionCache_def)
  have lt: "num_lt (cached_number w1 auctionCacheKey) (Some (int i))"
    using assms(4) by (simp add: w1_def getAuctionCache_def cached_number_def redis_string_def)
  have "announced S started start_mark auctionCacheKey w3"
    using i1 h by (intro announced_grow [OF _ assms(3) lt _ c]) (simp_all add: loop_inv_def grows_def w2_def updateAuctionCache_def)
  moreover have "announced S ending end_mark auctionEndingSoonCacheKey w3"
    by (rule announced_keep [of _ _ _ _ w1])
      (use i1 h in \<open>auto simp: loop_inv_def same_def keeps_def w2_def updateAuctionCache_def redis_get_set\<close>)
  ultimately have i3: "loop_inv S w3" by (simp add: loop_inv_def)
  let ?c = "incrementCounter counter (buildCounterName ''auction_cache_updates'')"
  have e4: "getAuctionEndingSoonCache (fst (?c w3)) = e"
    using e(1) by (simp add: getAuctionEndingSoonCache_def cached_number_def redis_string_def)
  show ?thesis
    using i1 i3 e e4 loop_inv_counter [OF i3]
    by (simp add: new_auction_phase_def then_do_fst w1_def [symmetric] w2_def [symmetric] w3_def [symmetric])
qed

lemma new_bid_inv:
  assumes "loop_inv S w" "hs \<in> H" "getAuctionEndingSoonCache w = e"
  shows "loop_inv S (fst (new_bid_phase hs i b w)) \<and> getAuctionEndingSoonCache (fst (new_bid_phase hs i b w)) = e"
proof -
  let ?w = "fst (await_all (map (\<lambda>h. lh_newBid h i b) hs) (updateBidCache (bb_id b) w))"
  note h = new_bid [OF assms(2) refl, where i = i and b = b and w = "updateBidCache (bb_id b) w"]
  have k: "redis_get ?w auctionCacheKey = redis_get w auctionCacheKey"
    "redis_get ?w auctionEndingSoonCacheKey = redis_get w auctionEndingSoonCacheKey"
    using h by (simp_all add: keeps_def updateBidCache_def redis_get_set)
  have o: "same started w ?w" "same ending w ?w" using h by (simp_all add: same_def updateBidCache_def)
  show ?thesis
    using assms(1,3) k announced_keep [OF _ o(1) k(1)] announced_keep [OF _ o(2) k(2)]
    by (simp add: new_bid_phase_def then_do_fst loop_inv_def getAuctionEndingSoonCache_def cached_number_def redis_string_def)
qed

lemma ending_soon_inv:
  assumes "loop_inv S w" "hs \<in> H" "i \<in> S" "num_lt (getAuctionEndingSoonCache w) (Some (int i))"
  shows "loop_inv S (fst (ending_soon_phase hs i w))"
proof -
  define w2 where "w2 = updateAuctionEndingSoonCache i w"
  define w3 where "w3 = fst (await_all (map (\<lambda>h. optional_call (lh_endingSoon h) i) hs) w2)"
  note h = ending_soon [OF assms(2) w3_def]
  have c: "cached_number w3 auctionEndingSoonCacheKey = Some (int i)"
    using h cached_number_set [of auctionEndingSoonCacheKey i w auctionEndingSoonCacheKey]
    by (simp add: keeps_def cached_number_def redis_string_def w2_def updateAuctionEndingSoonCache_def)
  have lt: "num_lt (cached_number w auctionEndingSoonCacheKey) (Some (int i))"
    using assms(4) by (simp add: getAuctionEndingSoonCache_def)
  have "announced S ending end_mark auctionEndingSoonCacheKey w3"
    using assms(1) h by (intro announced_grow [OF _ assms(3) lt _ c])
      (simp_all add: loop_inv_def grows_def w2_def updateAuctionEndingSoonCache_def)
  moreover have "announced S started start_mark auctionCacheKey w3"
    by (rule announced_keep [of _ _ _ _ w])
      (use assms(1) h in \<open>auto simp: loop_inv_def same_def keeps_def w2_def updateAuctionEndingSoonCache_def redis_get_set\<close>)
  ultimately show ?thesis
    by (simp add: ending_soon_phase_def then_do_fst loop_inv_def w2_def [symmetric] w3_def [symmetric])
qed

lemma tick_inv:
  assumes "loop_inv S w" "hs \<in> H" "\<And>a. latest = Some a \<Longrightarrow> ab_id a \<in> S"
  shows "loop_inv S (fst (processAuctionTick hs counter latest now w))"
proof (cases latest)
  case None
  with assms show ?thesis by (simp add: processAuctionTick_def)
next
  case (Some a)
  define e where "e = getAuctionEndingSoonCache w"
  define P where "P = (\<lambda>w. loop_inv S w \<and> getAuctionEndingSoonCache w = e)"
  have counters: "P w \<Longrightarrow> P (fst (incrementCounter counter name w))" for w name
    using loop_inv_counter by (auto simp: P_def getAuctionEndingSoonCache_def cached_number_def redis_string_def)
  have start: "P w" using assms(1) by (simp add: P_def e_def)
  have phase1: "P (fst ((if num_lt (getAuctionCache w) (Some (int (ab_id a))) then new_auction_phase hs counter (ab_id a) else resolved) w))"
    using start new_auction_inv [OF assms(1,2) assms(3) [OF Some], of e counter] by (auto simp: P_def resolved_def)
  have phase2: "P w' \<Longrightarrow> P (fst ((case ab_bids a of [] \<Rightarrow> resolved
      | bid # _ \<Rightarrow> if getBidCache w \<noteq> bb_id bid then new_bid_phase hs (ab_id a) bid else resolved) w'))" for w'
    using new_bid_inv [OF _ assms(2)] by (auto simp: P_def resolved_def split: list.splits)
  have phase3: "P w' \<Longrightarrow> loop_inv S (fst ((if ab_endTime a - now < 20 * 60 \<and> num_lt e (Some (int (ab_id a)))
      then ending_soon_phase hs (ab_id a) else resolved) w'))" for w'
    using ending_soon_inv [OF _ assms(2) assms(3) [OF Some]] by (auto simp: P_def resolved_def)
  have inv: "P w' \<Longrightarrow> loop_inv S w'" for w' by (simp add: P_def)
  show ?thesis
    unfolding processAuctionTick_def Some Let_def option.case e_def [symmetric]
    using phase1 phase2 phase3 counters inv by (simp add: then_do_fst)
qed

sublocale ticks: reducer "\<lambda>(hs, counter, latest, now) w. fst (processAuctionTick hs counter latest now w)"
  "\<lambda>(hs, counter, latest, now). hs \<in> H \<and> (\<forall>a. latest = Some a \<longrightarrow> ab_id a \<in> S)" "loop_inv S" for S
  by unfold_locales (auto intro: tick_inv)

end

section \<open>The real handlers meet the contract\<close>

definition started_tweets :: "outbox \<Rightarrow> string list" where
  "started_tweets ob = concat (map (\<lambda>t. case t of Tweet text _ _ \<Rightarrow> [text] | Reply _ _ _ \<Rightarrow> []) (ob_tweets ob))"

definition ending_tweets :: "outbox \<Rightarrow> string list" where
  "ending_tweets ob = concat (map (\<lambda>t. case t of Tweet _ _ _ \<Rightarrow> []
     | Reply text _ _ \<Rightarrow> if text = getAuctionEndingSoonTweetText then [text] else []) (ob_tweets ob))"

definition started_messages :: "nat \<Rightarrow> outbox \<Rightarrow> discord_message list" where
  "started_messages c ob = map snd (filter (\<lambda>(c', m). c' = c \<and> dm_title m = ''New Auction Discovered'') (ob_discord ob))"

lemma keeps_refl [simp]: "keeps w w"
  by (simp add: keeps_def)

lemma keeps_trans: "keeps a b \<Longrightarrow> keeps b c \<Longrightarrow> keeps a c"
  by (simp add: keeps_def)

lemma send_tweet_effect:
  "keeps w (fst (send_tweet t tid w))" "ob_discord (bw_out (fst (send_tweet t tid w))) = ob_discord (bw_out w)"
  "ob_tweets (bw_out (fst (send_tweet t tid w))) = ob_tweets (bw_out w) @ [t]"
  by (simp_all add: send_tweet_def keeps_def updateAuctionReplyTweetId_def redis_get_set) (simp add: redis_get_def)

lemma twitter_reply_effect:
  "keeps w (fst (twitter_reply sv text w)) \<and> ob_discord (bw_out (fst (twitter_reply sv text w))) = ob_discord (bw_out w)
     \<and> (\<exists>ts. ob_tweets (bw_out (fst (twitter_reply sv text w))) = ob_tweets (bw_out w) @ ts
          \<and> (ts = [] \<or> (\<exists>a b. ts = [Reply text a b])))"
  by (auto simp: twitter_reply_def send_tweet_effect split: option.splits)

lemma twitter_new_auction_effect:
  "keeps w (fst (twitter_handleNewAuction sv i w))
     \<and> ob_discord (bw_out (fst (twitter_handleNewAuction sv i w))) = ob_discord (bw_out w)
     \<and> (\<exists>ts. ob_tweets (bw_out (fst (twitter_handleNewAuction sv i w))) = ob_tweets (bw_out w) @ ts
          \<and> (ts = [] \<or> (\<exists>a b. ts = [Tweet (formatAuctionStartedTweetText i) a b])))"
  by (auto simp: twitter_handleNewAuction_def send_tweet_effect Let_def split: option.splits)

lemma discord_send_effect:
  "keeps w (fst (discord_send sv cs m w)) \<and> ob_tweets (bw_out (fst (discord_send sv cs m w))) = ob_tweets (bw_out w)
     \<and> (\<exists>sent. ob_discord (bw_out (fst (discord_send sv cs m w))) = ob_discord (bw_out w) @ map (\<lambda>c. (c, m)) sent
          \<and> subseq sent cs)"
proof (induction cs arbitrary: w)
  case Nil
  show ?case by (intro conjI exI [of _ "[]"]) (simp_all add: discord_send_def)
next
  case (Cons c cs)
  define w1 where "w1 = (if sv_discord sv c then w\<lparr>bw_out := (bw_out w)\<lparr>ob_discord := ob_discord (bw_out w) @ [(c, m)]\<rparr>\<rparr> else w)"
  have step: "fst (discord_send sv (c # cs) m w) = fst (discord_send sv cs m w1)"
    by (simp add: discord_send_def w1_def split: prod.splits)
  obtain sent where sent: "ob_discord (bw_out (fst (discord_send sv cs m w1))) = ob_discord (bw_out w1) @ map (\<lambda>c. (c, m)) sent"
    "subseq sent cs" using Cons by blast
  have "keeps w w1" "ob_tweets (bw_out w1) = ob_tweets (bw_out w)" by (simp_all add: w1_def keeps_def redis_get_def)
  moreover have "\<exists>sent. ob_discord (bw_out (fst (discord_send sv cs m w1))) = ob_discord (bw_out w) @ map (\<lambda>c. (c, m)) sent
      \<and> subseq sent (c # cs)"
    using sent by (cases "sv_discord sv c")
      (auto simp: w1_def intro: exI [of _ "c # sent"] exI [of _ sent])
  ultimately show ?case using Cons [of w1] keeps_trans by (auto simp: step)
qed

lemma subseq_filter_one:
  assumes "subseq sent cs" "distinct cs"
  shows "filter (\<lambda>c'. c' = c) sent = [] \<or> filter (\<lambda>c'. c' = c) sent = [c]"
proof -
  have "distinct sent" using assms
  proof (induction sent cs rule: list_emb.induct)
    case (list_emb_Cons2 x y xs ys)
    have "set xs \<subseteq> set ys"
    proof
      fix z
      assume "z \<in> set xs"
      from list_emb_set [OF list_emb_Cons2(2) this] show "z \<in> set ys" by auto
    qed
    with list_emb_Cons2 show ?case by auto
  qed auto
  then have "distinct (filter (\<lambda>c'. c' = c) sent)" by simp
  moreover have "set (filter (\<lambda>c'. c' = c) sent) \<subseteq> {c}" by auto
  ultimately show ?thesis
    by (cases "filter (\<lambda>c'. c' = c) sent"; cases "tl (filter (\<lambda>c'. c' = c) sent)") auto
qed

lemma discord_messages:
  assumes "distinct cs" "w' = fst (discord_send sv cs m w)"
  shows "started_messages c (bw_out w') = started_messages c (bw_out w)
    \<or> (started_messages c (bw_out w') = started_messages c (bw_out w) @ [m] \<and> dm_title m = ''New Auction Discovered'')"
proof -
  obtain sent where sent: "ob_discord (bw_out w') = ob_discord (bw_out w) @ map (\<lambda>c. (c, m)) sent" "subseq sent cs"
    using discord_send_effect [of w sv cs m] assms(2) by blast
  have "map snd (filter (\<lambda>(c', m'). c' = c \<and> dm_title m' = ''New Auction Discovered'') (map (\<lambda>c. (c, m)) sent))
      = (if dm_title m = ''New Auction Discovered'' then map (\<lambda>_. m) (filter (\<lambda>c'. c' = c) sent) else [])"
    by (induction sent) auto
  with sent subseq_filter_one [OF sent(2) assms(1), of c] show ?thesis
    by (auto simp: started_messages_def)
qed

lemma await_two: "fst (await_all [p, q] w) = fst (q (fst (p w)))"
  by (simp split: prod.splits)

lemma await_one: "fst (await_all [p] w) = fst (p w)"
  by (simp split: prod.splits)

definition configured :: "outbox lifecycle_handler list set" where
  "configured = {auctionLifecycleHandlers t d sv | t d sv. True}"

lemma tweets_append:
  "ob_tweets ob' = ob_tweets ob @ ts \<Longrightarrow> started_tweets ob' = started_tweets ob
     @ concat (map (\<lambda>t. case t of Tweet text _ _ \<Rightarrow> [text] | Reply _ _ _ \<Rightarrow> []) ts)"
  "ob_tweets ob' = ob_tweets ob @ ts \<Longrightarrow> ending_tweets ob' = ending_tweets ob
     @ concat (map (\<lambda>t. case t of Tweet _ _ _ \<Rightarrow> []
         | Reply text _ _ \<Rightarrow> if text = getAuctionEndingSoonTweetText then [text] else []) ts)"
  by (simp_all add: started_tweets_def ending_tweets_def)

lemma tweets_same:
  "ob_tweets ob' = ob_tweets ob \<Longrightarrow> started_tweets ob' = started_tweets ob \<and> ending_tweets ob' = ending_tweets ob"
  by (simp add: started_tweets_def ending_tweets_def)

lemma bid_text_differs: "formatBidMessageText ens fe i b \<noteq> getAuctionEndingSoonTweetText"
  by (simp add: formatBidMessageText_def getAuctionEndingSoonTweetText_def)

lemma discord_tweets:
  "w' = fst (discord_send sv cs m w) \<Longrightarrow> started_tweets (bw_out w') = started_tweets (bw_out w)
     \<and> ending_tweets (bw_out w') = ending_tweets (bw_out w) \<and> keeps w w'"
  using discord_send_effect [of w sv cs m] by (simp add: started_tweets_def ending_tweets_def)

lemma discord_auction_effect:
  assumes "w' = fst (discord_handleNewAuction sv cs i w)" "distinct cs"
  shows "started_tweets (bw_out w') = started_tweets (bw_out w) \<and> ending_tweets (bw_out w') = ending_tweets (bw_out w)
    \<and> keeps w w' \<and> grows (started_messages c) (auction_message i) w w'"
proof -
  consider "w' = w" | "w' = fst (discord_send sv cs (auction_message i) w)"
    using assms(1) by (auto simp: discord_handleNewAuction_def split: option.splits)
  then show ?thesis
  proof cases
    case 2
    with discord_tweets [OF 2] discord_messages [OF assms(2) 2, of c] show ?thesis by (auto simp: grows_def)
  qed (simp add: grows_def)
qed

lemma twitter_auction_effect:
  assumes "w' = fst (twitter_handleNewAuction sv i w)"
  shows "grows started_tweets (formatAuctionStartedTweetText i) w w' \<and> same ending_tweets w w'
    \<and> same (started_messages c) w w' \<and> keeps w w'"
proof -
  obtain ts where ts: "ob_tweets (bw_out w') = ob_tweets (bw_out w) @ ts"
    "ts = [] \<or> (\<exists>a b. ts = [Tweet (formatAuctionStartedTweetText i) a b])" "keeps w w'"
    "ob_discord (bw_out w') = ob_discord (bw_out w)"
    using twitter_new_auction_effect [of w sv i] unfolding assms by blast
  from tweets_append [OF ts(1)] ts(2-4) show ?thesis
    by (auto simp: grows_def same_def started_messages_def)
qed

lemma twitter_reply_channels:
  assumes "w' = fst (twitter_reply sv msg w)"
  shows "same started_tweets w w' \<and> same (started_messages c) w w' \<and> keeps w w'
    \<and> (if msg = getAuctionEndingSoonTweetText then grows ending_tweets msg w w' else same ending_tweets w w')"
proof -
  obtain ts where ts: "ob_tweets (bw_out w') = ob_tweets (bw_out w) @ ts"
    "ts = [] \<or> (\<exists>a b. ts = [Reply msg a b])" "keeps w w'" "ob_discord (bw_out w') = ob_discord (bw_out w)"
    using twitter_reply_effect [of w sv msg] unfolding assms by blast
  from tweets_append [OF ts(1)] ts(2-4) show ?thesis
    by (auto simp: grows_def same_def started_messages_def)
qed

lemma grows_same: "same proj a b \<Longrightarrow> grows proj x b c \<Longrightarrow> grows proj x a c" "grows proj x a b \<Longrightarrow> same proj b c \<Longrightarrow> grows proj x a c"
  "same proj a b \<Longrightarrow> same proj b c \<Longrightarrow> same proj a c" "same proj a b \<Longrightarrow> grows proj x a b" "same proj a a"
  by (simp_all add: same_def grows_def)

text \<open>Running the configured handlers one after the other.\<close>

definition first_stage :: "bool \<Rightarrow> 'x promise \<Rightarrow> 'x bot_world \<Rightarrow> 'x bot_world" where
  "first_stage b p w = (if b then fst (p w) else w)"

lemma await_configured:
  "fst (await_all (map f (auctionLifecycleHandlers t d sv)) w)
     = first_stage d (f (DiscordAuctionLifecycleHandler sv [0, 1])) (first_stage t (f (TwitterAuctionLifecycleHandler sv)) w)"
  by (cases t; cases d) (simp_all add: auctionLifecycleHandlers_def first_stage_def split: prod.splits)

lemma handler_fields [simp]:
  "lh_newAuction (TwitterAuctionLifecycleHandler sv) = twitter_handleNewAuction sv"
  "lh_newBid (TwitterAuctionLifecycleHandler sv) = twitter_handleNewBid sv"
  "lh_endingSoon (TwitterAuctionLifecycleHandler sv) = Some (twitter_handleAuctionEndingSoon sv)"
  "lh_newAuction (DiscordAuctionLifecycleHandler sv cs) = discord_handleNewAuction sv cs"
  "lh_newBid (DiscordAuctionLifecycleHandler sv cs) = discord_handleNewBid sv cs"
  "lh_endingSoon (DiscordAuctionLifecycleHandler sv cs) = None"
  by (simp_all add: TwitterAuctionLifecycleHandler_def DiscordAuctionLifecycleHandler_def)

lemma configured_new_auction:
  assumes "hs \<in> configured" "w' = fst (await_all (map (\<lambda>h. lh_newAuction h i) hs) w)"
  shows "keeps w w' \<and> grows started_tweets (formatAuctionStartedTweetText i) w w' \<and> same ending_tweets w w'
    \<and> grows (started_messages c) (auction_message i) w w'"
proof -
  obtain t d sv where hs: "hs = auctionLifecycleHandlers t d sv" using assms(1) by (auto simp: configured_def)
  define w1 where "w1 = first_stage t (twitter_handleNewAuction sv i) w"
  have w': "w' = first_stage d (discord_handleNewAuction sv [0, 1] i) w1"
    unfolding assms(2) hs await_configured by (simp add: w1_def)
  have s1: "grows started_tweets (formatAuctionStartedTweetText i) w w1 \<and> same ending_tweets w w1
    \<and> same (started_messages c) w w1 \<and> keeps w w1"
    using twitter_auction_effect [of w1 sv i w c] by (cases t) (simp_all add: w1_def first_stage_def grows_def same_def)
  have s2: "same started_tweets w1 w' \<and> same ending_tweets w1 w' \<and> keeps w1 w'
    \<and> grows (started_messages c) (auction_message i) w1 w'"
    using discord_auction_effect [of w' sv "[0, 1]" i w1 c] by (cases d) (simp_all add: w' first_stage_def grows_def same_def)
  from s1 s2 show ?thesis by (blast intro: grows_same keeps_trans)
qed

lemma configured_new_bid:
  assumes "hs \<in> configured" "w' = fst (await_all (map (\<lambda>h. lh_newBid h i b) hs) w)"
  shows "keeps w w' \<and> same started_tweets w w' \<and> same ending_tweets w w' \<and> same (started_messages c) w w'"
proof -
  obtain t d sv where hs: "hs = auctionLifecycleHandlers t d sv" using assms(1) by (auto simp: configured_def)
  define w1 where "w1 = first_stage t (twitter_handleNewBid sv i b) w"
  have w': "w' = first_stage d (discord_handleNewBid sv [0, 1] i b) w1"
    unfolding assms(2) hs await_configured by (simp add: w1_def)
  have s1: "same started_tweets w w1 \<and> same ending_tweets w w1 \<and> same (started_messages c) w w1 \<and> keeps w w1"
    using twitter_reply_channels [OF refl, where c = c and sv = sv and w = w and msg = "formatBidMessageText (sv_ens sv) (sv_formatEther sv) i b"]
    by (cases t) (simp_all add: w1_def first_stage_def same_def twitter_handleNewBid_def bid_text_differs)
  have s2: "same started_tweets w1 w' \<and> same ending_tweets w1 w' \<and> keeps w1 w' \<and> same (started_messages c) w1 w'"
  proof (cases d)
    case True
    then have d: "w' = fst (discord_send sv [0, 1] (bid_message sv i b) w1)"
      by (simp add: w' first_stage_def discord_handleNewBid_def)
    have "dm_title (bid_message sv i b) \<noteq> ''New Auction Discovered''" by (simp add: bid_message_def)
    with discord_tweets [OF d] discord_messages [OF _ d, of c] show ?thesis by (auto simp: same_def)
  qed (simp add: w' first_stage_def same_def)
  from s1 s2 show ?thesis by (blast intro: grows_same keeps_trans)
qed

lemma configured_ending_soon:
  assumes "hs \<in> configured" "w' = fst (await_all (map (\<lambda>h. optional_call (lh_endingSoon h) i) hs) w)"
  shows "keeps w w' \<and> same started_tweets w w' \<and> grows ending_tweets getAuctionEndingSoonTweetText w w'
    \<and> same (started_messages c) w w'"
proof -
  obtain t d sv where hs: "hs = auctionLifecycleHandlers t d sv" using assms(1) by (auto simp: configured_def)
  have w': "w' = first_stage t (twitter_handleAuctionEndingSoon sv i) w"
    unfolding assms(2) hs await_configured by (simp add: optional_call_def first_stage_def resolved_def)
  show ?thesis
    using twitter_reply_channels [OF refl, where c = c and sv = sv and w = w and msg = getAuctionEndingSoonTweetText]
    by (cases t) (simp_all add: w' first_stage_def same_def grows_def twitter_handleAuctionEndingSoon_def)
qed

interpretation twitter: lifecycle configured started_tweets formatAuctionStartedTweetText ending_tweets
  "\<lambda>_. getAuctionEndingSoonTweetText"
  by unfold_locales (auto dest: configured_new_auction configured_new_bid configured_ending_soon)

interpretation discord: lifecycle configured "started_messages c" auction_message ending_tweets
  "\<lambda>_. getAuctionEndingSoonTweetText" for c
  by unfold_locales (auto dest: configured_new_auction configured_new_bid configured_ending_soon)

section \<open>Properties\<close>

text \<open>A run of the loop: what the services and the subgraph answered at each tick, and the time.\<close>

record auction_tick =
  at_twitter :: bool
  at_discord :: bool
  at_services :: services
  at_latest :: "auction_bids option"
  at_now :: int

definition run_ticks :: "auction_tick list \<Rightarrow> outbox bot_world \<Rightarrow> outbox bot_world" where
  "run_ticks ts w = fold (\<lambda>t w. fst (processAuctionTick
     (auctionLifecycleHandlers (at_twitter t) (at_discord t) (at_services t)) (sv_counter (at_services t))
     (at_latest t) (at_now t) w)) ts w"

definition empty_outbox :: outbox where
  "empty_outbox = \<lparr>ob_tweets = [], ob_discord = []\<rparr>"

definition fresh_world :: "outbox bot_world" where
  "fresh_world = \<lparr>bw_redis = Map.empty, bw_counters = [], bw_out = empty_outbox\<rparr>"

definition seen_ids :: "auction_tick list \<Rightarrow> nat set" where
  "seen_ids ts = {ab_id a | a t. t \<in> set ts \<and> at_latest t = Some a}"


section \<open>Governance ticks\<close>

lemma discord_send_ok: "\<forall>c. sv_discord sv c \<Longrightarrow> snd (discord_send sv cs m w)"
proof (induction cs arbitrary: w)
  case (Cons c cs)
  then have "snd (discord_send sv cs m (w\<lparr>bw_out := (bw_out w)\<lparr>ob_discord := ob_discord (bw_out w) @ [(c, m)]\<rparr>\<rparr>))" by blast
  with Cons.prems show ?case by (simp add: discord_send_def split: prod.splits)
qed (simp add: discord_send_def)

text \<open>A promise that, with all webhooks up, resolves and leaves the cached proposals alone.\<close>

definition harmless :: "outbox promise \<Rightarrow> bool" where
  "harmless p \<longleftrightarrow> (\<forall>w. snd (p w) \<and> keeps w (fst (p w)))"

lemma harmless_send: "\<forall>c. sv_discord sv c \<Longrightarrow> harmless (discord_send sv cs m)"
  using discord_send_effect discord_send_ok by (auto simp: harmless_def)

lemma harmless_resolved [simp]: "harmless resolved"
  by (simp add: harmless_def resolved_def)

lemma harmless_await: "\<forall>p\<in>set ps. harmless p \<Longrightarrow> harmless (await_all ps)"
proof (induction ps)
  case (Cons p ps)
  then have p: "harmless p" and ps: "harmless (await_all ps)" by auto
  have "snd (await_all (p # ps) w) \<and> keeps w (fst (await_all (p # ps) w))" for w
  proof -
    have "snd (p w)" "keeps w (fst (p w))" "snd (await_all ps (fst (p w)))" "keeps (fst (p w)) (fst (await_all ps (fst (p w))))"
      using p ps by (simp_all add: harmless_def)
    then show ?thesis using keeps_trans by (auto split: prod.splits)
  qed
  then show ?case by (simp add: harmless_def)
qed (simp add: harmless_def)

lemma harmless_handlers:
  assumes "hs = auctionLifecycleHandlers t d sv" "\<forall>c. sv_discord sv c"
  shows "harmless (await_all (map (\<lambda>h. optional_call (lh_newProposal h) p) hs))"
    "harmless (await_all (map (\<lambda>h. optional_call (lh_updatedStatus h) p) hs))"
    "harmless (await_all (map (\<lambda>h. optional_call (lh_atRisk h) p) hs))"
    "harmless (await_all (map (\<lambda>h. case lh_vote h of None \<Rightarrow> resolved | Some f \<Rightarrow> f p v) hs))"
  using harmless_send [OF assms(2)]
  by (intro harmless_await; auto simp: assms(1) auctionLifecycleHandlers_def TwitterAuctionLifecycleHandler_def
      DiscordAuctionLifecycleHandler_def optional_call_def discord_handleNewProposal_def
      discord_handleUpdatedProposalStatus_def discord_handleProposalAtRiskOfExpiry_def discord_handleGovernanceVote_def)+

lemma proposal_keys [simp]:
  "proposalCacheKey i \<noteq> replyTweetIdKey" "proposalExpiryWarningSentCacheKey i \<noteq> replyTweetIdKey"
  by (simp_all add: proposalCacheKey_def proposalExpiryWarningSentCacheKey_def proposalCacheKeyPrefix_def
      proposalExpiryWarningSentCacheKeyPrefix_def replyTweetIdKey_def)

lemma show_num_first: "show_num i \<noteq> [] \<and> hd (show_num i) \<noteq> CHR ''E''"
proof (cases i)
  case (Some k)
  have "hd (show_nat n) \<noteq> CHR ''E''" for n
  proof -
    have "hd (show_nat n) \<in> set (show_nat n)" by simp
    then obtain d where "d < 10" "hd (show_nat n) = digit_char d" using set_show_nat by blast
    then show ?thesis using lt16_cases [of d] by (auto simp: digit_char_def)
  qed
  then show ?thesis using Some by (simp add: show_num_def show_int_def)
qed (simp add: show_num_def)

lemma warning_key_differs: "proposalCacheKey i \<noteq> proposalExpiryWarningSentCacheKey j"
proof
  assume "proposalCacheKey i = proposalExpiryWarningSentCacheKey j"
  then have "show_num i = ''EXPIRY_WARNING_SENT_'' @ show_num j"
    by (simp add: proposalCacheKey_def proposalExpiryWarningSentCacheKey_def proposalCacheKeyPrefix_def
        proposalExpiryWarningSentCacheKeyPrefix_def)
  with show_num_first [of i] show False by simp
qed

text \<open>With all webhooks up a proposal's callback runs to its end, and caches just this proposal.\<close>

lemma process_proposal_caches:
  assumes "hs = auctionLifecycleHandlers t d sv" "\<forall>c. sv_discord sv c"
  shows "redis_get (fst (process_proposal hs now p w)) (proposalCacheKey (bp_id p)) = Some (RProposal p)
    \<and> (\<forall>q. proposalCacheKey q \<noteq> proposalCacheKey (bp_id p) \<longrightarrow>
         redis_get (fst (process_proposal hs now p w)) (proposalCacheKey q) = redis_get w (proposalCacheKey q))"
proof -
  note hl = harmless_handlers [OF assms, where p = p]
  define K where "K = (\<lambda>w' :: outbox bot_world. \<forall>q. redis_get w' (proposalCacheKey q) = redis_get w (proposalCacheKey q))"
  have step: "K (fst (pr w')) \<and> snd (pr w')" if "harmless pr" "K w'" for pr w'
    using that by (simp add: K_def harmless_def keeps_def)
  have votes: "K (announce_votes hs p vs w')" if "K w'" for vs w'
    using that step [OF hl(4)] unfolding announce_votes_def by (induction vs arbitrary: w') auto
  have warned: "K (setProposalExpiryWarningSent i w')" if "K w'" for i w'
    using that warning_key_differs by (simp add: K_def setProposalExpiryWarningSent_def redis_get_set)
  have start: "K w" by (simp add: K_def)
  have fin: "redis_get (updateProposalCache p w') (proposalCacheKey (bp_id p)) = Some (RProposal p)
    \<and> (\<forall>q. proposalCacheKey q \<noteq> proposalCacheKey (bp_id p) \<longrightarrow>
         redis_get (updateProposalCache p w') (proposalCacheKey q) = redis_get w (proposalCacheKey q))" if "K w'" for w'
    using that by (simp add: K_def updateProposalCache_def redis_get_set)
  have "\<exists>w'. K w' \<and> fst (process_proposal hs now p w) = updateProposalCache p w'"
  proof (cases "getProposalCache (bp_id p) w")
    case None
    with step [OF hl(1) start] show ?thesis
      by (auto simp: process_proposal_def then_do_fst)
  next
    case (Some c)
    define w1 where "w1 = fst ((if bp_status c \<noteq> bp_status p
        then await_all (map (\<lambda>h. optional_call (lh_updatedStatus h) p) hs) else resolved) w)"
    have k1: "K w1 \<and> snd ((if bp_status c \<noteq> bp_status p
        then await_all (map (\<lambda>h. optional_call (lh_updatedStatus h) p) hs) else resolved) w)"
      using step [OF hl(2) start] start by (simp add: w1_def resolved_def)
    define w2 where "w2 = announce_votes hs p (extractNewVotes c p) w1"
    have k2: "K w2" using votes k1 by (simp add: w2_def)
    define at_risk where "at_risk = (\<lambda>w :: outbox bot_world. if isAtRiskOfExpiry now p \<and> \<not> hasWarnedOfExpiry (bp_id p) w
        then then_do (await_all (map (\<lambda>h. optional_call (lh_atRisk h) p) hs)) (effect (setProposalExpiryWarningSent (bp_id p))) w
        else resolved w)"
    have k3: "K (fst (at_risk w2)) \<and> snd (at_risk w2)"
      using step [OF hl(3) k2] k2 warned
      by (auto simp: at_risk_def then_do_def resolved_def split: prod.splits)
    have "fst (process_proposal hs now p w) = updateProposalCache p (fst (at_risk w2))"
      unfolding process_proposal_def Some option.case at_risk_def [symmetric]
      using k1 k3 by (simp add: then_do_fst w1_def [symmetric] w2_def [symmetric])
    with k3 show ?thesis by blast
  qed
  with fin show ?thesis by auto
qed

lemma process_proposal_quiet:
  assumes "redis_get w (proposalCacheKey (bp_id p)) = Some (RProposal p)"
    and "\<not> isAtRiskOfExpiry now p \<or> hasWarnedOfExpiry (bp_id p) w"
  shows "fst (process_proposal hs now p w) = w"
proof -
  have c: "getProposalCache (bp_id p) w = Some p" using assms(1) by (simp add: getProposalCache_def)
  have v: "extractNewVotes p p = []" by (auto simp: extractNewVotes_def filter_empty_conv)
  have u: "updateProposalCache p w = w"
    using assms(1) by (simp add: updateProposalCache_def redis_set_def redis_get_def map_upd_triv)
  have none: "announce_votes hs p [] w = w" by (simp add: announce_votes_def)
  show ?thesis
    by (simp only: process_proposal_def c option.case v then_do_fst) (use assms(2) in \<open>auto simp: resolved_def u none\<close>)
qed

lemma governance_tick_caches:
  assumes "hs = auctionLifecycleHandlers t d sv" "\<forall>c. sv_discord sv c"
    and "distinct (map (\<lambda>p. proposalCacheKey (bp_id p)) ps)"
  shows "\<forall>p\<in>set ps. redis_get (processGovernanceTick hs now (Some ps) w) (proposalCacheKey (bp_id p)) = Some (RProposal p)"
  using assms(3)
proof (induction ps rule: rev_induct)
  case (snoc q ps)
  note c = process_proposal_caches [OF assms(1,2), of now q "processGovernanceTick hs now (Some ps) w"]
  have "processGovernanceTick hs now (Some (ps @ [q])) w = fst (process_proposal hs now q (processGovernanceTick hs now (Some ps) w))"
    by (simp add: processGovernanceTick_def)
  moreover have "proposalCacheKey (bp_id p) \<noteq> proposalCacheKey (bp_id q)" if "p \<in> set ps" for p
    using snoc.prems that by (auto simp: image_iff)
  ultimately show ?case using snoc c by auto
qed simp

text \<open>
  With the webhooks up, a governance tick that sees the same proposals again sends nothing, changes
  nothing in the cache, and so never repeats an announcement: every proposal, status and vote it
  announced was cached. (Only an expiry warning that became due may still be sent.)
\<close>

theorem governance_tick_announces_once:
  assumes "\<forall>c. sv_discord sv c" "distinct (map (\<lambda>p. proposalCacheKey (bp_id p)) ps)"
    and "\<forall>p\<in>set ps. \<not> isAtRiskOfExpiry now2 p
      \<or> hasWarnedOfExpiry (bp_id p) (processGovernanceTick (auctionLifecycleHandlers t d sv) now (Some ps) w)"
  shows "processGovernanceTick hs2 now2 (Some ps) (processGovernanceTick (auctionLifecycleHandlers t d sv) now (Some ps) w)
    = processGovernanceTick (auctionLifecycleHandlers t d sv) now (Some ps) w"
proof -
  let ?w = "processGovernanceTick (auctionLifecycleHandlers t d sv) now (Some ps) w"
  have "\<forall>p\<in>set ps. fst (process_proposal hs2 now2 p ?w) = ?w"
    using governance_tick_caches [OF refl assms(1,2)] assms(3) by (auto intro: process_proposal_quiet)
  then have "fold (\<lambda>p w. fst (process_proposal hs2 now2 p w)) qs ?w = ?w" if "set qs \<subseteq> set ps" for qs
    using that by (induction qs) auto
  then show ?thesis by (simp add: processGovernanceTick_def)
qed

definition sample_services :: services where
  "sample_services = \<lparr>sv_ens = (\<lambda>_. None), sv_formatEther = (\<lambda>s. s), sv_png = (\<lambda>_. Some (Some ''png'')),
     sv_upload = (\<lambda>_. Some ''m''), sv_tweet = (\<lambda>_. Some ''t''), sv_discord = (\<lambda>_. True), sv_counter = (\<lambda>_. True)\<rparr>"

definition sample_bot_proposal :: bot_proposal where
  "sample_bot_proposal = parseProposal \<lparr>rp_id = ''1'', rp_proposer = ''0xa1'', rp_description = ''# T'', rp_status = BOT_ACTIVE,
     rp_quorumVotes = ''2'', rp_proposalThreshold = ''1'', rp_startBlock = ''5'', rp_endBlock = ''9'', rp_executionETA = None,
     rp_votes = []\<rparr>"

theorem governance_tick_announces_once_witness:
  "processGovernanceTick [] 0 (Some [sample_bot_proposal])
     (processGovernanceTick (auctionLifecycleHandlers True True sample_services) 0 (Some [sample_bot_proposal]) fresh_world)
   = processGovernanceTick (auctionLifecycleHandlers True True sample_services) 0 (Some [sample_bot_proposal]) fresh_world"
  by (rule governance_tick_announces_once)
     (simp_all add: sample_services_def isAtRiskOfExpiry_def sample_bot_proposal_def parseProposal_def)

end
