(* ===== verification/Web_Hooks.thy ===== *)
theory Web_Hooks
  imports Prelude
begin

text \<open>
  The web application's hooks on the chain and the browser (\<open>src/hooks\<close>, \<open>utils/ensLookup.ts\<close>, the
  cache keys of \<open>config.ts\<close>): readers that keep a piece of state, the life of a transaction, the
  treasury, the wallet, and the cache of reverse names in \<open>localStorage\<close>.  A response of the
  provider or of a contract is an argument; \<open>None\<close> is a rejected promise.
\<close>

section \<open>Readers\<close>

text \<open>
  The pattern of every contract reader: with its guard false the state is cleared, a response
  replaces it, a rejected call is swallowed and keeps it.
\<close>

definition fetched :: "bool \<Rightarrow> 'a option \<Rightarrow> 'a option \<Rightarrow> 'a option" where
  "fetched ready response old = (if \<not> ready then None else case response of None \<Rightarrow> old | Some v \<Rightarrow> Some v)"

definition useBlockNumber :: "nat option \<Rightarrow> nat option \<Rightarrow> nat option" where
  "useBlockNumber response old = (case response of None \<Rightarrow> old | Some n \<Rightarrow> Some n)"

text \<open>\<open>!blockNumber\<close> holds for block 0 too; a block whose timestamp is 0 gives \<open>undefined\<close>.\<close>

definition useBlockTimestamp :: "nat option \<Rightarrow> (nat \<Rightarrow> nat option) \<Rightarrow> nat option \<Rightarrow> nat option" where
  "useBlockTimestamp block getBlock old =
     (case block of
        None \<Rightarrow> old
      | Some b \<Rightarrow>
          if b = 0 then old
          else (case getBlock b of None \<Rightarrow> old | Some t \<Rightarrow> if t = 0 then None else Some t))"

section \<open>The treasury\<close>

definition useLidoBalance :: "bool \<Rightarrow> bool \<Rightarrow> int option \<Rightarrow> int option \<Rightarrow> int option" where
  "useLidoBalance token executor response old =
     (if \<not> token \<or> \<not> executor then old else case response of None \<Rightarrow> old | Some v \<Rightarrow> Some v)"

definition useTreasuryBalance :: "int option \<Rightarrow> int option \<Rightarrow> int option" where
  "useTreasuryBalance ethBalance lidoBalanceAsETH =
     (case (ethBalance, lidoBalanceAsETH) of (Some e, Some l) \<Rightarrow> Some (e + l) | _ \<Rightarrow> None)"

text \<open>\<open>BigNumber.div\<close> truncates: the rate is cut to whole dollars before it is multiplied.\<close>

definition useTreasuryUSDValue :: "nat option \<Rightarrow> nat option \<Rightarrow> nat option \<Rightarrow> nat option" where
  "useTreasuryUSDValue rate decimals ethBalance =
     (case (rate, decimals, ethBalance) of
        (Some r, Some d, Some e) \<Rightarrow> Some (e * (r div 10 ^ d))
      | _ \<Rightarrow> None)"

text \<open>
  The treasury's dollar value never exceeds its value at the oracle's rate, and falls short of
  it by less than one dollar per unit of the balance, because the rate is cut to whole dollars.
\<close>

theorem treasury_value_bounds:
  assumes "useTreasuryUSDValue (Some r) (Some d) (Some e) = Some v" and "0 < e"
  shows "v * 10 ^ d \<le> e * r \<and> e * r < (v + e) * 10 ^ d"
proof -
  let ?p = "(10::nat) ^ d"
  have v: "v = e * (r div ?p)" using assms(1) by (simp add: useTreasuryUSDValue_def)
  have "r div ?p * ?p \<le> r" by (rule div_times_less_eq_dividend)
  moreover have "r < (r div ?p + 1) * ?p"
    using dividend_less_times_div [of ?p r] by (simp add: algebra_simps)
  ultimately have "e * (r div ?p * ?p) \<le> e * r" "e * r < e * ((r div ?p + 1) * ?p)"
    using assms(2) by simp_all
  then show ?thesis unfolding v by (simp add: algebra_simps)
qed

lemma treasury_value_bounds_witness:
  "useTreasuryUSDValue (Some 199999) (Some 2) (Some 5) = Some 9995 \<and> 9995 * 10 ^ 2 \<le> 5 * (199999::nat)"
proof -
  have v: "useTreasuryUSDValue (Some 199999) (Some 2) (Some 5) = Some 9995"
    by (simp add: useTreasuryUSDValue_def)
  from treasury_value_bounds [OF v] v show ?thesis by simp
qed

section \<open>The wallet\<close>

record wallet =
  w_account :: "string option"
  w_chainId :: nat
  w_provider :: string

text \<open>
  \<open>activate\<close>: the connector may give nothing, an empty account or no provider; the chain is
  asked of the provider in place \<^emph>\<open>before\<close> the switch.  A rejection anywhere is swallowed.
\<close>

definition wallet_activate ::
  "(string option \<times> string option) option \<Rightarrow> (string \<Rightarrow> nat option) \<Rightarrow> wallet \<Rightarrow> wallet" where
  "wallet_activate result getNetwork w =
     (case result of
        Some (Some account, Some provider) \<Rightarrow>
          if account = [] then w
          else (case getNetwork (w_provider w) of
                  None \<Rightarrow> w
                | Some chain \<Rightarrow> \<lparr>w_account = Some account, w_chainId = chain, w_provider = provider\<rparr>)
      | _ \<Rightarrow> w)"

definition wallet_deactivate :: "nat \<Rightarrow> string \<Rightarrow> wallet \<Rightarrow> wallet" where
  "wallet_deactivate CHAIN_ID publicProvider w =
     \<lparr>w_account = None, w_chainId = CHAIN_ID, w_provider = publicProvider\<rparr>"

text \<open>\<open>App\<close> warns when the wallet is on another chain.\<close>

definition network_alert :: "nat \<Rightarrow> wallet \<Rightarrow> bool" where
  "network_alert CHAIN_ID w \<longleftrightarrow> CHAIN_ID \<noteq> w_chainId w"

text \<open>
  The warning about the wrong network never appears on the first connection: the chain that
  \<open>activate\<close> records is that of the public provider it was using, not that of the wallet's
  provider; so when the public provider is on the application's chain, connecting any wallet, on
  whatever chain, shows no alert, and so does disconnecting it.
\<close>

theorem wallet_alert_misses_wrong_chain:
  fixes CHAIN_ID :: nat and publicProvider :: string and w :: wallet
  assumes "getNetwork publicProvider = Some CHAIN_ID"
  defines "w0 \<equiv> wallet_deactivate CHAIN_ID publicProvider w"
  shows "\<not> network_alert CHAIN_ID w0 \<and> \<not> network_alert CHAIN_ID (wallet_activate result getNetwork w0)"
  using assms(1)
  by (auto simp: w0_def network_alert_def wallet_activate_def wallet_deactivate_def split: option.splits)

definition demo_network :: "string \<Rightarrow> nat option" where
  "demo_network p = (if p = ''public'' then Some 1 else Some 5)"

definition demo_wallet :: wallet where
  "demo_wallet = \<lparr>w_account = None, w_chainId = 1, w_provider = ''public''\<rparr>"

lemma wallet_alert_misses_wrong_chain_witness:
  "\<not> network_alert 1 (wallet_activate (Some (Some ''0xA1'', Some ''metamask'')) demo_network
        (wallet_deactivate 1 ''public'' demo_wallet))
   \<and> w_provider (wallet_activate (Some (Some ''0xA1'', Some ''metamask'')) demo_network
        (wallet_deactivate 1 ''public'' demo_wallet)) = ''metamask''
   \<and> demo_network ''metamask'' = Some 5"
  using wallet_alert_misses_wrong_chain [of demo_network "''public''" 1 demo_wallet "Some (Some ''0xA1'', Some ''metamask'')"]
  by (simp add: demo_network_def wallet_activate_def wallet_deactivate_def)

section \<open>The life of a transaction\<close>

datatype transaction_state = TNone | PendingSignature | Mining | Success | Fail | TException

record receipt =
  rc_status :: nat
  rc_hash :: string

record transaction =
  tx_hash :: string
  tx_chainId :: nat

record tx_error =
  te_replaced :: bool  \<comment> \<open>\<open>code === TRANSACTION_REPLACED\<close>\<close>
  te_replacement :: "transaction option"
  te_reason :: "string option"
  te_cancelled :: "bool option"
  te_receipt :: "receipt option"
  te_error_message :: "string option"
  te_data_message :: "string option"
  te_message :: "string option"

record transaction_status =
  ts_status :: transaction_state
  ts_transaction :: "transaction option"
  ts_receipt :: "receipt option"
  ts_chainId :: "nat option"
  ts_errorMessage :: "string option"

definition tx_reset :: transaction_status where
  "tx_reset = \<lparr>ts_status = TNone, ts_transaction = None, ts_receipt = None, ts_chainId = None, ts_errorMessage = None\<rparr>"

definition isDroppedAndReplaced :: "tx_error \<Rightarrow> bool" where
  "isDroppedAndReplaced e \<longleftrightarrow>
     te_replaced e \<and> te_replacement e \<noteq> None \<and> (te_reason e = Some ''repriced'' \<or> te_cancelled e = Some False)"

fun first_some :: "'a option list \<Rightarrow> 'a option" where
  "first_some [] = None"
| "first_some (None # xs) = first_some xs"
| "first_some (Some x # xs) = Some x"

definition error_message :: "tx_error \<Rightarrow> string option" where
  "error_message e = first_some [te_error_message e, te_reason e, te_data_message e, te_message e]"

text \<open>The last state set in \<open>catch\<close>; \<open>None\<close> when reading \<open>e.receipt.status\<close> throws there.\<close>

definition tx_caught :: "tx_error \<Rightarrow> transaction option \<Rightarrow> transaction_status \<Rightarrow> transaction_status option" where
  "tx_caught e tx s =
     (case tx of
        None \<Rightarrow> Some (s\<lparr>ts_status := TException, ts_errorMessage := error_message e\<rparr>)
      | Some _ \<Rightarrow>
          if isDroppedAndReplaced e then
            (case te_receipt e of
               None \<Rightarrow> None
             | Some r \<Rightarrow>
                 Some (s\<lparr>ts_status := (if rc_status r = 0 then Fail else Success),
                         ts_transaction := te_replacement e, ts_receipt := Some r,
                         ts_errorMessage := error_message e\<rparr>))
          else Some (s\<lparr>ts_status := Fail, ts_receipt := te_receipt e, ts_errorMessage := error_message e\<rparr>))"

text \<open>Every state \<open>transact\<close> sets, in order.\<close>

definition transact ::
  "(tx_error + transaction) \<Rightarrow> (transaction \<Rightarrow> tx_error + receipt) \<Rightarrow> transaction_status \<Rightarrow> transaction_status list" where
  "transact request wait s =
     (let s1 = s\<lparr>ts_status := PendingSignature\<rparr>
      in case request of
           Inl e \<Rightarrow> s1 # (case tx_caught e None s1 of None \<Rightarrow> [] | Some s2 \<Rightarrow> [s2])
         | Inr tx \<Rightarrow>
             (let s2 = s1\<lparr>ts_status := Mining, ts_transaction := Some tx, ts_chainId := Some (tx_chainId tx)\<rparr>
              in case wait tx of
                   Inr r \<Rightarrow> [s1, s2, s2\<lparr>ts_status := Success, ts_receipt := Some r\<rparr>]
                 | Inl e \<Rightarrow> s1 # s2 # (case tx_caught e (Some tx) s2 of None \<Rightarrow> [] | Some s3 \<Rightarrow> [s3])))"

inductive tx_step :: "transaction_state \<Rightarrow> transaction_state \<Rightarrow> bool" where
  sign: "x \<noteq> Mining \<Longrightarrow> tx_step x PendingSignature"
| refused: "tx_step PendingSignature TException"
| sent: "tx_step PendingSignature Mining"
| mined: "tx_step Mining Success"
| reverted: "tx_step Mining Fail"

code_pred tx_step .

inductive_simps tx_step_simps [simp]: "tx_step x y"

fun tx_path :: "transaction_state list \<Rightarrow> bool" where
  "tx_path (x # y # zs) = (tx_step x y \<and> tx_path (y # zs))"
| "tx_path _ = True"

definition tx_final :: "transaction_state \<Rightarrow> bool" where
  "tx_final x \<longleftrightarrow> x \<in> {Success, Fail, TException}"

text \<open>
  C36. A transaction's status follows its state machine: started from any status but mining, the
  states it goes through are signing, then refused, or mining and then success or failure; it
  ends in a final state, with the receipt of the mined transaction on success, except that it
  hangs in mining when the transaction was replaced and the error carries no receipt.
\<close>

theorem transaction_lifecycle:
  fixes s :: transaction_status and request :: "tx_error + transaction"
    and wait :: "transaction \<Rightarrow> tx_error + receipt"
  assumes "ts_status s \<noteq> Mining"
  defines "h \<equiv> transact request wait s"
  shows "tx_path (map ts_status (s # h))
       \<and> (tx_final (ts_status (last h)) \<or>
          (ts_status (last h) = Mining \<and>
           (\<exists>tx e. request = Inr tx \<and> wait tx = Inl e \<and> isDroppedAndReplaced e \<and> te_receipt e = None)))
       \<and> (ts_status (last h) = Success \<longrightarrow>
          (\<exists>tx r. request = Inr tx \<and> ts_receipt (last h) = Some r \<and>
             (wait tx = Inr r \<or> (\<exists>e. wait tx = Inl e \<and> te_receipt e = Some r \<and> rc_status r \<noteq> 0))))"
proof (cases request)
  case (Inl e)
  then show ?thesis using assms(1)
    by (simp add: h_def transact_def tx_caught_def Let_def tx_final_def)
next
  case (Inr tx)
  show ?thesis
  proof (cases "wait tx")
    case w: (Inl e)
    then show ?thesis using assms(1) Inr
      by (cases "te_receipt e") (auto simp: h_def transact_def tx_caught_def Let_def tx_final_def)
  next
    case (Inr r)
    then show ?thesis using assms(1) \<open>request = Inr tx\<close>
      by (simp add: h_def transact_def Let_def tx_final_def)
  qed
qed

lemma transaction_lifecycle_witness:
  "tx_path (map ts_status (tx_reset # transact (Inr \<lparr>tx_hash = ''0x1'', tx_chainId = 1\<rparr>)
      (\<lambda>_. Inr \<lparr>rc_status = 1, rc_hash = ''0x1''\<rparr>) tx_reset))"
proof -
  have "ts_status tx_reset \<noteq> Mining" by (simp add: tx_reset_def)
  from conjunct1 [OF transaction_lifecycle [OF this]] show ?thesis .
qed

section \<open>Cached reverse names\<close>

definition to_lower :: "char \<Rightarrow> char" where
  "to_lower c = (let n = of_char c :: nat in if 65 \<le> n \<and> n \<le> 90 then char_of (n + 32) else c)"

definition cacheKey :: "string \<Rightarrow> string \<Rightarrow> string list \<Rightarrow> string" where
  "cacheKey name version parts = map to_lower (js_join ''-'' (name # version # parts))"

definition ensCacheKey :: "nat \<Rightarrow> string \<Rightarrow> string" where
  "ensCacheKey CHAIN_ID address = cacheKey ''ens'' ''v1'' [show_nat CHAIN_ID, address]"

text \<open>An entry: the name and the expiry, in milliseconds here (the code stores seconds with a
  fraction, which \<open>parseInt\<close> cuts off when it reads them).\<close>

record ens_entry =
  ens_name :: string
  ens_expires :: nat

type_synonym ens_storage = "(string, ens_entry) jsmap"

definition ens_fresh :: "nat \<Rightarrow> ens_entry \<Rightarrow> bool" where
  "ens_fresh now e \<longleftrightarrow> (ens_expires e div 1000) * 1000 > now"

text \<open>The effect: read the cache, drop a stale entry; the flag says that a lookup is started.\<close>

definition ens_effect ::
  "nat \<Rightarrow> nat \<Rightarrow> string \<Rightarrow> ens_storage \<times> string option \<Rightarrow> (ens_storage \<times> string option) \<times> bool" where
  "ens_effect chain now address st =
     (case st of (store, ens) \<Rightarrow>
        if address = [] then ((store, ens), False)
        else
          let key = ensCacheKey chain address;
              (store1, ens1) =
                (case jm_get store key of
                   None \<Rightarrow> (store, ens)
                 | Some e \<Rightarrow> if ens_fresh now e then (store, Some (ens_name e)) else (jm_delete key store, ens))
          in ((store1, ens1), \<not> jm_has store1 key))"

text \<open>The lookup comes back: \<open>mounted\<close> is false once the effect has been cleaned up.\<close>

definition ens_resolved ::
  "nat \<Rightarrow> nat \<Rightarrow> string \<Rightarrow> bool \<Rightarrow> string option \<Rightarrow> ens_storage \<times> string option \<Rightarrow> ens_storage \<times> string option" where
  "ens_resolved chain now address mounted name st =
     (case name of
        None \<Rightarrow> st
      | Some n \<Rightarrow>
          if n = [] then st
          else if mounted
          then (jm_set (ensCacheKey chain address) \<lparr>ens_name = n, ens_expires = now + 30 * 60 * 1000\<rparr> (fst st), Some n)
          else st)"

text \<open>\<open>lookupNNSOrENS\<close>: an empty name and every failure give \<open>null\<close>.\<close>

definition lookupNNSOrENS :: "(string \<Rightarrow> string option) \<Rightarrow> string \<Rightarrow> string option" where
  "lookupNNSOrENS resolve address =
     (case resolve address of None \<Rightarrow> None | Some n \<Rightarrow> if n = [] then None else Some n)"

definition useReverseENSLookUp ::
  "nat \<Rightarrow> nat \<Rightarrow> (string \<Rightarrow> string option) \<Rightarrow> string \<Rightarrow> ens_storage \<times> string option \<Rightarrow> ens_storage \<times> string option" where
  "useReverseENSLookUp chain now resolve address st =
     (case ens_effect chain now address st of
        (st1, lookup) \<Rightarrow>
          if lookup then ens_resolved chain now address True (lookupNNSOrENS resolve address) st1 else st1)"

text \<open>
  A mounted component shows the name that is current.  For a non-empty address, when its
  lookup completes at once: with a fresh cache entry it shows the cached name and the cache is
  unchanged; otherwise it shows what the resolver answers and caches that for thirty minutes, and
  when the resolver has no name the stale entry is gone and the name shown is the one before.
  Entries of other addresses are never touched.
\<close>

theorem reverse_name_current:
  fixes store :: ens_storage and address :: string and now chain :: nat
    and resolve :: "string \<Rightarrow> string option" and ens :: "string option"
  assumes "address \<noteq> []"
  defines "key \<equiv> ensCacheKey chain address"
  defines "r \<equiv> useReverseENSLookUp chain now resolve address (store, ens)"
  shows "(case jm_get store key of
            Some e \<Rightarrow> ens_fresh now e \<longrightarrow> r = (store, Some (ens_name e))
          | None \<Rightarrow> True)
       \<and> ((\<forall>e. jm_get store key = Some e \<longrightarrow> \<not> ens_fresh now e) \<longrightarrow>
            (case lookupNNSOrENS resolve address of
               None \<Rightarrow> snd r = ens \<and> jm_get (fst r) key = None
             | Some n \<Rightarrow> snd r = Some n \<and> jm_get (fst r) key = Some \<lparr>ens_name = n, ens_expires = now + 1800000\<rparr>))
       \<and> (\<forall>k. k \<noteq> key \<longrightarrow> jm_get (fst r) k = jm_get store k)"
proof (cases "jm_get store key")
  case None
  then show ?thesis using assms(1)
    by (auto simp: r_def useReverseENSLookUp_def ens_effect_def ens_resolved_def lookupNNSOrENS_def key_def
        jm_has_def Let_def jm_get_set split: option.splits)
next
  case (Some e)
  show ?thesis
  proof (cases "ens_fresh now e")
    case True
    with Some show ?thesis using assms(1)
      by (simp add: r_def useReverseENSLookUp_def ens_effect_def key_def jm_has_def Let_def)
  next
    case False
    with Some show ?thesis using assms(1)
      by (auto simp: r_def useReverseENSLookUp_def ens_effect_def ens_resolved_def lookupNNSOrENS_def key_def
          jm_has_def Let_def jm_get_set jm_get_delete split: option.splits)
  qed
qed

lemma reverse_name_current_witness:
  "snd (useReverseENSLookUp 1 5000 (\<lambda>a. Some ''alps.eth'') ''0xA1'' ([], None)) = Some ''alps.eth''"
proof -
  have "''0xA1'' \<noteq> []" by simp
  from reverse_name_current [OF this, of 5000 1 "\<lambda>a. Some ''alps.eth''" "[]" None] show ?thesis
    by (simp add: jm_get_def lookupNNSOrENS_def)
qed

end
