(* ===== verification/Web_Auction.thy ===== *)
theory Web_Auction
  imports Web_Hooks
begin

text \<open>
  The auctions of the web application: the slices \<open>state/slices/auction.ts\<close>, \<open>onDisplayAuction.ts\<close>,
  \<open>pastAuctions.ts\<close>, \<open>application.ts\<close> and \<open>account.ts\<close>, the chain subscriber of \<open>index.tsx\<close> that
  dispatches to them, and the readers \<open>utils/alperAlp.ts\<close>, \<open>wrappers/alpsAuction.ts\<close>,
  \<open>wrappers/onDisplayAuction.ts\<close>, \<open>utils/bidSorter.ts\<close> and \<open>utils/compareBids.ts\<close>.  A
  \<open>BigNumber\<close> and its JSON form stand for the same integer, an \<open>int\<close>.
\<close>

section \<open>Data\<close>

record web_auction =
  wa_amount :: int
  wa_bidder :: string
  wa_startTime :: int
  wa_endTime :: int
  wa_alpId :: int
  wa_settled :: bool

record bid_event =
  be_alpId :: int
  be_sender :: string
  be_value :: int
  be_extended :: bool
  be_transactionHash :: string
  be_timestamp :: int

record auction_create_event =
  ac_alpId :: int
  ac_startTime :: int
  ac_endTime :: int
  ac_settled :: bool

record auction_settled_event =
  as_alpId :: int
  as_winner :: string
  as_amount :: int

record auction_extended_event =
  ax_alpId :: int
  ax_endTime :: int

record auction_state =
  activeAuction :: "web_auction option"
  bids :: "bid_event list"

definition initial_auction_state :: auction_state where
  "initial_auction_state = \<lparr>activeAuction = None, bids = []\<rparr>"

section \<open>The auction slice\<close>

definition reduxSafeNewAuction :: "auction_create_event \<Rightarrow> web_auction" where
  "reduxSafeNewAuction e =
     \<lparr>wa_amount = 0, wa_bidder = [], wa_startTime = ac_startTime e, wa_endTime = ac_endTime e,
      wa_alpId = ac_alpId e, wa_settled = False\<rparr>"

definition reduxSafeAuction :: "web_auction \<Rightarrow> web_auction" where
  "reduxSafeAuction a =
     \<lparr>wa_amount = wa_amount a, wa_bidder = wa_bidder a, wa_startTime = wa_startTime a,
      wa_endTime = wa_endTime a, wa_alpId = wa_alpId a, wa_settled = wa_settled a\<rparr>"

definition reduxSafeBid :: "bid_event \<Rightarrow> bid_event" where
  "reduxSafeBid b =
     \<lparr>be_alpId = be_alpId b, be_sender = be_sender b, be_value = be_value b,
      be_extended = be_extended b, be_transactionHash = be_transactionHash b,
      be_timestamp = be_timestamp b\<rparr>"

text \<open>\<open>reduce\<close> without an initial value starts from the first element (it throws on an empty list,
  which \<open>appendBid\<close> never passes).\<close>

definition larger_bid :: "bid_event \<Rightarrow> bid_event \<Rightarrow> bid_event" where
  "larger_bid prev current = (if be_value prev > be_value current then prev else current)"

fun maxBid :: "bid_event list \<Rightarrow> bid_event option" where
  "maxBid [] = None"
| "maxBid (b # bs) = Some (foldl larger_bid b bs)"

definition auctionsEqual :: "web_auction \<Rightarrow> int \<Rightarrow> bool" where
  "auctionsEqual a alpId = (wa_alpId a = alpId)"

definition containsBid :: "bid_event list \<Rightarrow> bid_event \<Rightarrow> bool" where
  "containsBid bs b = (be_transactionHash b \<in> set (map be_transactionHash bs))"

definition setActiveAuction :: "auction_create_event \<Rightarrow> auction_state \<Rightarrow> auction_state" where
  "setActiveAuction e s = s\<lparr>activeAuction := Some (reduxSafeNewAuction e), bids := []\<rparr>"

definition setFullAuction :: "web_auction \<Rightarrow> auction_state \<Rightarrow> auction_state" where
  "setFullAuction a s = s\<lparr>activeAuction := Some (reduxSafeAuction a)\<rparr>"

definition appendBid :: "bid_event \<Rightarrow> auction_state \<Rightarrow> auction_state" where
  "appendBid b s =
     (case activeAuction s of
        None \<Rightarrow> s
      | Some a \<Rightarrow>
          if \<not> auctionsEqual a (be_alpId b) then s
          else if containsBid (bids s) b then s
          else
            let bs = reduxSafeBid b # bids s
            in case maxBid bs of
                 None \<Rightarrow> s
               | Some m \<Rightarrow>
                   s\<lparr>bids := bs, activeAuction := Some (a\<lparr>wa_amount := be_value m, wa_bidder := be_sender m\<rparr>)\<rparr>)"

definition setAuctionSettled :: "auction_settled_event \<Rightarrow> auction_state \<Rightarrow> auction_state" where
  "setAuctionSettled e s =
     (case activeAuction s of
        None \<Rightarrow> s
      | Some a \<Rightarrow>
          if \<not> auctionsEqual a (as_alpId e) then s
          else s\<lparr>activeAuction := Some (a\<lparr>wa_settled := True, wa_bidder := as_winner e, wa_amount := as_amount e\<rparr>)\<rparr>)"

definition setAuctionExtended :: "auction_extended_event \<Rightarrow> auction_state \<Rightarrow> auction_state" where
  "setAuctionExtended e s =
     (case activeAuction s of
        None \<Rightarrow> s
      | Some a \<Rightarrow>
          if \<not> auctionsEqual a (ax_alpId e) then s
          else s\<lparr>activeAuction := Some (a\<lparr>wa_endTime := ax_endTime e\<rparr>)\<rparr>)"

section \<open>The auction on display\<close>

record on_display_state =
  lastAuctionAlpId :: "int option"
  onDisplayAuctionAlpId :: "int option"

definition initial_on_display :: on_display_state where
  "initial_on_display = \<lparr>lastAuctionAlpId = None, onDisplayAuctionAlpId = None\<rparr>"

definition setLastAuctionAlpId :: "int \<Rightarrow> on_display_state \<Rightarrow> on_display_state" where
  "setLastAuctionAlpId n s = s\<lparr>lastAuctionAlpId := Some n\<rparr>"

definition setOnDisplayAuctionAlpId :: "int \<Rightarrow> on_display_state \<Rightarrow> on_display_state" where
  "setOnDisplayAuctionAlpId n s = s\<lparr>onDisplayAuctionAlpId := Some n\<rparr>"

text \<open>\<open>!onDisplayAuctionAlpId\<close> already covers \<open>0\<close>; the second test of the code is kept.\<close>

definition setPrevOnDisplayAuctionAlpId :: "on_display_state \<Rightarrow> on_display_state" where
  "setPrevOnDisplayAuctionAlpId s =
     (case onDisplayAuctionAlpId s of
        None \<Rightarrow> s
      | Some n \<Rightarrow> if n = 0 then s else if n = 0 then s else s\<lparr>onDisplayAuctionAlpId := Some (n - 1)\<rparr>)"

definition setNextOnDisplayAuctionAlpId :: "on_display_state \<Rightarrow> on_display_state" where
  "setNextOnDisplayAuctionAlpId s =
     (case onDisplayAuctionAlpId s of
        None \<Rightarrow> s
      | Some n \<Rightarrow>
          if lastAuctionAlpId s = Some n then s else s\<lparr>onDisplayAuctionAlpId := Some (n + 1)\<rparr>)"

section \<open>Past auctions\<close>

text \<open>The subgraph's answer: numbers are decimal strings, the bidder of an auction may be null.\<close>

record subgraph_bid =
  gb_id :: string
  gb_amount :: string
  gb_blockTimestamp :: string
  gb_bidder :: string

record subgraph_auction =
  ga_id :: string
  ga_amount :: string
  ga_bidder :: "string option"
  ga_startTime :: string
  ga_endTime :: string
  ga_bids :: "subgraph_bid list"

text \<open>\<open>BigNumber.from\<close> on a string is the argument \<open>bn\<close>; it throws (\<open>None\<close>) on a malformed numeral.\<close>

definition past_bid :: "(string \<Rightarrow> int option) \<Rightarrow> subgraph_auction \<Rightarrow> subgraph_bid \<Rightarrow> bid_event option" where
  "past_bid bn a b =
     (case (bn (ga_id a), bn (gb_amount b), bn (gb_blockTimestamp b)) of
        (Some i, Some v, Some t) \<Rightarrow>
          Some \<lparr>be_alpId = i, be_sender = gb_bidder b, be_value = v, be_extended = False,
                be_transactionHash = gb_id b, be_timestamp = t\<rparr>
      | _ \<Rightarrow> None)"

definition past_auction :: "(string \<Rightarrow> int option) \<Rightarrow> subgraph_auction \<Rightarrow> auction_state option" where
  "past_auction bn a =
     (case (bn (ga_amount a), bn (ga_startTime a), bn (ga_endTime a), bn (ga_id a),
            those (map (past_bid bn a) (ga_bids a))) of
        (Some m, Some st, Some en, Some i, Some bs) \<Rightarrow>
          Some \<lparr>activeAuction =
                  Some \<lparr>wa_amount = m, wa_bidder = (case ga_bidder a of None \<Rightarrow> [] | Some x \<Rightarrow> x),
                        wa_startTime = st, wa_endTime = en, wa_alpId = i, wa_settled = False\<rparr>,
                bids = bs\<rparr>
      | _ \<Rightarrow> None)"

definition reduxSafePastAuctions ::
  "(string \<Rightarrow> int option) \<Rightarrow> subgraph_auction list \<Rightarrow> auction_state list option" where
  "reduxSafePastAuctions bn auctions = those (map (past_auction bn) auctions)"

text \<open>A reducer that throws leaves the state as it was.\<close>

definition addPastAuctions ::
  "(string \<Rightarrow> int option) \<Rightarrow> subgraph_auction list \<Rightarrow> auction_state list \<Rightarrow> auction_state list" where
  "addPastAuctions bn auctions s =
     (case reduxSafePastAuctions bn auctions of None \<Rightarrow> s | Some xs \<Rightarrow> xs)"

section \<open>Application and account\<close>

record alert_modal =
  am_show :: bool
  am_title :: "string option"
  am_message :: "string option"

record application_state =
  stateBackgroundColor :: string
  isCoolBackground :: bool
  alertModal :: alert_modal

definition setStateBackgroundColor :: "string \<Rightarrow> application_state \<Rightarrow> application_state" where
  "setStateBackgroundColor c s =
     s\<lparr>stateBackgroundColor := c,
       isCoolBackground :=
         (if c = ''#63a0f9'' then True
          else if c = ''#018146'' then False
          else if c = ''#000000'' then False
          else if c = ''#76858b'' then False
          else if c = ''#f8d689'' then True
          else if c = ''#d5d7e1'' then True
          else if c = ''#e1d7d5'' then True
          else True)\<rparr>"

definition setAlertModal :: "alert_modal \<Rightarrow> application_state \<Rightarrow> application_state" where
  "setAlertModal m s = s\<lparr>alertModal := m\<rparr>"

text \<open>An undefined and a null payload both clear the account.\<close>

definition setActiveAccount :: "string option \<Rightarrow> string option \<Rightarrow> string option" where
  "setActiveAccount payload s = payload"

section \<open>The chain subscriber\<close>

record app_state =
  ap_auction :: auction_state
  ap_onDisplay :: on_display_state
  ap_path :: string

datatype chain_event =
    AuctionBid bid_event
  | AuctionCreated int int int
  | AuctionExtended int int
  | AuctionSettled int string int

definition alpPath :: "int \<Rightarrow> string" where
  "alpPath i = ''/alp/'' @ show_int i"

definition processBidFilter :: "bid_event \<Rightarrow> app_state \<Rightarrow> app_state" where
  "processBidFilter b s = s\<lparr>ap_auction := appendBid (reduxSafeBid b) (ap_auction s)\<rparr>"

definition processAuctionCreated :: "int \<Rightarrow> int \<Rightarrow> int \<Rightarrow> app_state \<Rightarrow> app_state" where
  "processAuctionCreated alpId st en s =
     (let a = reduxSafeNewAuction \<lparr>ac_alpId = alpId, ac_startTime = st, ac_endTime = en, ac_settled = False\<rparr>;
          s1 = s\<lparr>ap_auction := setActiveAuction
                   \<lparr>ac_alpId = wa_alpId a, ac_startTime = wa_startTime a, ac_endTime = wa_endTime a,
                    ac_settled = wa_settled a\<rparr> (ap_auction s)\<rparr>;
          s2 = s1\<lparr>ap_path := alpPath alpId\<rparr>;
          s3 = s2\<lparr>ap_onDisplay := setOnDisplayAuctionAlpId alpId (ap_onDisplay s2)\<rparr>
      in s3\<lparr>ap_onDisplay := setLastAuctionAlpId alpId (ap_onDisplay s3)\<rparr>)"

definition processAuctionExtended :: "int \<Rightarrow> int \<Rightarrow> app_state \<Rightarrow> app_state" where
  "processAuctionExtended alpId en s =
     s\<lparr>ap_auction := setAuctionExtended \<lparr>ax_alpId = alpId, ax_endTime = en\<rparr> (ap_auction s)\<rparr>"

definition processAuctionSettled :: "int \<Rightarrow> string \<Rightarrow> int \<Rightarrow> app_state \<Rightarrow> app_state" where
  "processAuctionSettled alpId winner amount s =
     s\<lparr>ap_auction := setAuctionSettled \<lparr>as_alpId = alpId, as_winner = winner, as_amount = amount\<rparr> (ap_auction s)\<rparr>"

fun handle_event :: "chain_event \<Rightarrow> app_state \<Rightarrow> app_state" where
  "handle_event (AuctionBid b) = processBidFilter b"
| "handle_event (AuctionCreated i st en) = processAuctionCreated i st en"
| "handle_event (AuctionExtended i en) = processAuctionExtended i en"
| "handle_event (AuctionSettled i w v) = processAuctionSettled i w v"

text \<open>\<open>loadState\<close>: the current auction, then the bids of the last day (\<open>None\<close>: an event without
  decoded arguments, at which the function returns before it subscribes).\<close>

fun process_previous :: "bid_event option list \<Rightarrow> app_state \<Rightarrow> app_state \<times> bool" where
  "process_previous [] s = (s, True)"
| "process_previous (None # es) s = (s, False)"
| "process_previous (Some b # es) s = process_previous es (processBidFilter b s)"

definition loadState ::
  "web_auction \<Rightarrow> bid_event option list \<Rightarrow> chain_event list \<Rightarrow> app_state \<Rightarrow> app_state" where
  "loadState currentAuction previousBids evs s =
     (let s1 = s\<lparr>ap_auction := setFullAuction (reduxSafeAuction currentAuction) (ap_auction s)\<rparr>;
          s2 = s1\<lparr>ap_onDisplay := setLastAuctionAlpId (wa_alpId currentAuction) (ap_onDisplay s1)\<rparr>;
          (s3, subscribed) = process_previous previousBids s2
      in if subscribed then fold handle_event evs s3 else s3)"

section \<open>Readers\<close>

definition isAlperAlp :: "int \<Rightarrow> bool" where
  "isAlperAlp alpId \<longleftrightarrow> alpId mod 10 = 0 \<or> alpId = 0 \<or> alpId mod 5 = 0"

definition isAlpsCouncil :: "int \<Rightarrow> bool" where
  "isAlpsCouncil nounId \<longleftrightarrow> nounId mod 5 = 0"

definition emptyAlperAuction :: "int \<Rightarrow> web_auction" where
  "emptyAlperAuction n =
     \<lparr>wa_amount = 0, wa_bidder = [], wa_startTime = 0, wa_endTime = 0, wa_alpId = n, wa_settled = False\<rparr>"

text \<open>\<open>BigNumber.from(undefined)\<close> throws (outer \<open>None\<close>) on an entry without an auction.\<close>

fun findAuction :: "int \<Rightarrow> auction_state list \<Rightarrow> web_auction option option" where
  "findAuction i [] = Some None"
| "findAuction i (x # xs) =
     (case activeAuction x of
        None \<Rightarrow> None
      | Some a \<Rightarrow> if wa_alpId a = i then Some (Some a) else findAuction i xs)"

definition generateEmptyAlperAuction :: "int \<Rightarrow> auction_state list \<Rightarrow> web_auction option" where
  "generateEmptyAlperAuction alpId past =
     (let alper = emptyAlperAuction alpId
      in case findAuction (alpId + 1) past of
           None \<Rightarrow> None
         | Some None \<Rightarrow> Some alper
         | Some (Some nxt) \<Rightarrow> Some (alper\<lparr>wa_startTime := wa_startTime nxt\<rparr>))"

definition deserializeAuction :: "web_auction \<Rightarrow> web_auction" where
  "deserializeAuction a =
     \<lparr>wa_amount = wa_amount a, wa_bidder = wa_bidder a, wa_startTime = wa_startTime a,
      wa_endTime = wa_endTime a, wa_alpId = wa_alpId a, wa_settled = False\<rparr>"

definition deserializeBid :: "bid_event \<Rightarrow> bid_event" where
  "deserializeBid b =
     \<lparr>be_alpId = be_alpId b, be_sender = be_sender b, be_value = be_value b,
      be_extended = be_extended b, be_transactionHash = be_transactionHash b,
      be_timestamp = be_timestamp b\<rparr>"

text \<open>The stable sort with comparator \<open>b.timestamp - a.timestamp\<close>.\<close>

definition deserializeBids :: "bid_event list \<Rightarrow> bid_event list" where
  "deserializeBids bs = sort_key (\<lambda>b. - be_timestamp b) (map deserializeBid bs)"

definition has_auction :: "int \<Rightarrow> auction_state \<Rightarrow> bool" where
  "has_auction i s = (case activeAuction s of None \<Rightarrow> False | Some a \<Rightarrow> wa_alpId a = i)"

text \<open>Outer \<open>None\<close>: the hook throws.\<close>

definition useOnDisplayAuction ::
  "auction_state \<Rightarrow> on_display_state \<Rightarrow> auction_state list \<Rightarrow> web_auction option option" where
  "useOnDisplayAuction cur od past =
     (case (onDisplayAuctionAlpId od, activeAuction cur) of
        (Some d, Some currentAuction) \<Rightarrow>
          if d = wa_alpId currentAuction then Some (Some (deserializeAuction currentAuction))
          else if isAlperAlp d then
            (case generateEmptyAlperAuction d past of
               None \<Rightarrow> None
             | Some a \<Rightarrow> Some (Some (deserializeAuction a)))
          else
            Some (map_option deserializeAuction
                    (Option.bind (List.find (has_auction d) past) activeAuction))
      | _ \<Rightarrow> Some None)"

definition useAuctionBids ::
  "int \<Rightarrow> auction_state \<Rightarrow> on_display_state \<Rightarrow> auction_state list \<Rightarrow> bid_event list option" where
  "useAuctionBids alpId cur od past =
     (if lastAuctionAlpId od = Some alpId then Some (deserializeBids (bids cur))
      else map_option (\<lambda>a. deserializeBids (bids a)) (List.find (has_auction alpId) past))"

definition nextAlpIdForQuery :: "int \<Rightarrow> int" where
  "nextAlpIdForQuery alpId = (if isAlperAlp (alpId + 1) then alpId + 1 + 1 else alpId + 1)"

definition useAlpCanVoteTimestamp :: "int \<Rightarrow> auction_state list \<Rightarrow> int" where
  "useAlpCanVoteTimestamp alpId past =
     (case Option.bind (List.find (has_auction (nextAlpIdForQuery alpId)) past) activeAuction of
        None \<Rightarrow> 0
      | Some a \<Rightarrow> wa_startTime a)"

text \<open>
  The contract readers: with no contract the state is cleared, a rejected call keeps the old
  state.  \<open>useAuctionMinBidIncPercentage\<close> gives nothing for an increment of zero.
\<close>

definition useAuction :: "bool \<Rightarrow> web_auction option \<Rightarrow> web_auction option \<Rightarrow> web_auction option" where
  "useAuction contract response old = fetched contract response old"

definition useAuctionMinBidIncPercentage :: "bool \<Rightarrow> int option \<Rightarrow> int option \<Rightarrow> int option" where
  "useAuctionMinBidIncPercentage contract response old =
     (case fetched contract response old of None \<Rightarrow> None | Some n \<Rightarrow> if n = 0 then None else Some n)"

section \<open>Chronological order of bids\<close>

record i_bid =
  ib_blockTimestamp :: int
  ib_txIndex :: int

definition compareBidsChronologically :: "i_bid \<Rightarrow> i_bid \<Rightarrow> int" where
  "compareBidsChronologically a b =
     (ib_blockTimestamp b * 1000000 + ib_txIndex b) - (ib_blockTimestamp a * 1000000 + ib_txIndex a)"

record scored_bid =
  sb_blockNumber :: int
  sb_txIndex :: int

definition generateBidScore :: "scored_bid \<Rightarrow> int" where
  "generateBidScore b = sb_blockNumber b * 1000000 + sb_txIndex b"

definition compareBids :: "scored_bid \<Rightarrow> scored_bid \<Rightarrow> int" where
  "compareBids a b = generateBidScore a - generateBidScore b"

text \<open>The order they implement: later block first by time, then by position in the block.\<close>

datatype chain_position = At int int

instantiation chain_position :: linorder
begin

fun less_eq_chain_position :: "chain_position \<Rightarrow> chain_position \<Rightarrow> bool" where
  "less_eq_chain_position (At b i) (At c j) = (b < c \<or> (b = c \<and> i \<le> j))"

definition less_chain_position :: "chain_position \<Rightarrow> chain_position \<Rightarrow> bool" where
  "less_chain_position p q \<longleftrightarrow> p \<le> q \<and> \<not> q \<le> p"

instance
proof
  fix p q r :: chain_position
  show "p < q \<longleftrightarrow> p \<le> q \<and> \<not> q \<le> p" by (rule less_chain_position_def)
  show "p \<le> p" by (cases p) simp
  show "p \<le> q \<Longrightarrow> q \<le> r \<Longrightarrow> p \<le> r" by (cases p; cases q; cases r) auto
  show "p \<le> q \<Longrightarrow> q \<le> p \<Longrightarrow> p = q" by (cases p; cases q) auto
  show "p \<le> q \<or> q \<le> p" by (cases p; cases q) auto
qed

end

definition bid_position :: "i_bid \<Rightarrow> chain_position" where
  "bid_position b = At (ib_blockTimestamp b) (ib_txIndex b)"

definition score_position :: "scored_bid \<Rightarrow> chain_position" where
  "score_position b = At (sb_blockNumber b) (sb_txIndex b)"

lemma score_order:
  fixes b c i j :: int
  assumes "0 \<le> i" "i < 1000000" "0 \<le> j" "j < 1000000"
  shows "b * 1000000 + i < c * 1000000 + j \<longleftrightarrow> At b i < At c j"
    and "b * 1000000 + i = c * 1000000 + j \<longleftrightarrow> At b i = At c j"
  using assms by (cases b c rule: linorder_cases; simp add: less_chain_position_def; linarith)+

definition chrono_sign :: "chain_position \<Rightarrow> chain_position \<Rightarrow> int" where
  "chrono_sign p q = (if p < q then -1 else if p = q then 0 else 1)"

lemma score_sign:
  fixes b c i j :: int
  assumes "0 \<le> i" "i < 1000000" "0 \<le> j" "j < 1000000"
  shows "sgn ((b * 1000000 + i) - (c * 1000000 + j)) = chrono_sign (At b i) (At c j)"
  using score_order [OF assms, of b c] by (simp only: sgn_if chrono_sign_def diff_gt_0_iff_gt) auto

text \<open>
  Both bid comparators order bids by their place in the chain as long as a block has fewer
  than a million transactions: \<open>compareBidsChronologically\<close> puts the later bid first,
  \<open>compareBids\<close> the earlier one, and only bids at the same place compare equal.
\<close>

theorem bid_comparators_chronological:
  assumes "0 \<le> ib_txIndex a" "ib_txIndex a < 1000000" "0 \<le> ib_txIndex b" "ib_txIndex b < 1000000"
      and "0 \<le> sb_txIndex c" "sb_txIndex c < 1000000" "0 \<le> sb_txIndex d" "sb_txIndex d < 1000000"
  shows "sgn (compareBidsChronologically a b) = chrono_sign (bid_position b) (bid_position a)
       \<and> sgn (compareBids c d) = chrono_sign (score_position c) (score_position d)"
  unfolding compareBidsChronologically_def compareBids_def generateBidScore_def bid_position_def score_position_def
  by (intro conjI score_sign assms)

lemma bid_comparators_chronological_witness:
  "sgn (compareBidsChronologically \<lparr>ib_blockTimestamp = 8, ib_txIndex = 3\<rparr> \<lparr>ib_blockTimestamp = 8, ib_txIndex = 9\<rparr>) = 1
   \<and> sgn (compareBids \<lparr>sb_blockNumber = 4, sb_txIndex = 999999\<rparr> \<lparr>sb_blockNumber = 5, sb_txIndex = 0\<rparr>) = -1"
  using bid_comparators_chronological [of "\<lparr>ib_blockTimestamp = 8, ib_txIndex = 3\<rparr>" "\<lparr>ib_blockTimestamp = 8, ib_txIndex = 9\<rparr>"
      "\<lparr>sb_blockNumber = 4, sb_txIndex = 999999\<rparr>" "\<lparr>sb_blockNumber = 5, sb_txIndex = 0\<rparr>"]
  by (simp add: bid_position_def score_position_def chrono_sign_def less_chain_position_def)

section \<open>Which bid wins\<close>

lemma reduxSafeBid_id [simp]: "reduxSafeBid b = b"
  by (simp add: reduxSafeBid_def)

lemma foldl_larger:
  "foldl larger_bid b bs \<in> set (b # bs) \<and> (\<forall>c\<in>set (b # bs). be_value c \<le> be_value (foldl larger_bid b bs))"
proof (induction bs arbitrary: b)
  case (Cons x xs)
  show ?case using Cons.IH [of "larger_bid b x"]
    by (auto simp: larger_bid_def split: if_splits intro: order_trans less_imp_le)
qed simp

lemma maxBid_max:
  assumes "maxBid bs = Some m"
  shows "m \<in> set bs \<and> (\<forall>c\<in>set bs. be_value c \<le> be_value m)"
  using assms foldl_larger by (cases bs) auto

text \<open>What the slice shows after a set \<open>M\<close> of bids on one auction.\<close>

definition shows_bids :: "int \<Rightarrow> bid_event set \<Rightarrow> auction_state \<Rightarrow> bool" where
  "shows_bids i M s \<longleftrightarrow>
     (\<exists>a. activeAuction s = Some a \<and> wa_alpId a = i \<and> set (bids s) = M \<and>
        distinct (map be_transactionHash (bids s)) \<and>
        (if M = {} then wa_amount a = 0 \<and> wa_bidder a = []
         else \<exists>m\<in>M. wa_amount a = be_value m \<and> wa_bidder a = be_sender m \<and> (\<forall>c\<in>M. be_value c \<le> be_value m)))"

definition one_hash :: "bid_event set \<Rightarrow> bool" where
  "one_hash B \<longleftrightarrow> (\<forall>b\<in>B. \<forall>c\<in>B. be_transactionHash b = be_transactionHash c \<longrightarrow> b = c)"

lemma shows_bids_append:
  assumes "shows_bids i M s" "one_hash (insert b M)"
  shows "shows_bids i (if be_alpId b = i then insert b M else M) (appendBid b s)"
proof -
  obtain a where a: "activeAuction s = Some a" "wa_alpId a = i" "set (bids s) = M"
    "distinct (map be_transactionHash (bids s))" using assms(1) by (auto simp: shows_bids_def)
  show ?thesis
  proof (cases "be_alpId b = i \<and> b \<notin> M")
    case False
    then have "appendBid b s = s"
      using a by (auto simp: appendBid_def auctionsEqual_def containsBid_def)
    with False assms(1) show ?thesis by (auto simp: insert_absorb)
  next
    case True
    then have new: "be_transactionHash b \<notin> set (map be_transactionHash (bids s))"
      using assms(2) a(3) by (auto simp: one_hash_def)
    obtain m where m: "maxBid (b # bids s) = Some m" by simp
    have s': "appendBid b s =
        s\<lparr>bids := b # bids s, activeAuction := Some (a\<lparr>wa_amount := be_value m, wa_bidder := be_sender m\<rparr>)\<rparr>"
      using True a new m by (simp add: appendBid_def auctionsEqual_def containsBid_def Let_def)
    have "m \<in> insert b M" "\<forall>c\<in>insert b M. be_value c \<le> be_value m"
      using maxBid_max [OF m] a(3) by simp_all
    then show ?thesis
      unfolding s' shows_bids_def using True a new by (auto intro: bexI [of _ m])
  qed
qed

lemma shows_bids_fold:
  "shows_bids i M s \<Longrightarrow> one_hash (set bs \<union> M) \<Longrightarrow>
     shows_bids i ({b\<in>set bs. be_alpId b = i} \<union> M) (fold appendBid bs s)"
proof (induction bs arbitrary: M s)
  case (Cons b bs)
  let ?M = "if be_alpId b = i then insert b M else M"
  have "one_hash (insert b M)" "one_hash (set bs \<union> ?M)"
    using Cons.prems(2) by (auto simp: one_hash_def)
  then have "shows_bids i ({b\<in>set bs. be_alpId b = i} \<union> ?M) (fold appendBid bs (appendBid b s))"
    using Cons.prems(1) by (intro Cons.IH shows_bids_append)
  moreover have "{c\<in>set (b # bs). be_alpId c = i} \<union> M = {c\<in>set bs. be_alpId c = i} \<union> ?M" by auto
  ultimately show ?case by simp
qed simp

lemma shows_bids_start: "shows_bids (ac_alpId e) {} (setActiveAuction e s)"
  by (simp add: shows_bids_def setActiveAuction_def reduxSafeNewAuction_def)

lemma shows_bids_winner:
  assumes "shows_bids i M s" "activeAuction s = Some a" "M \<noteq> {}"
  shows "\<exists>m\<in>M. wa_amount a = be_value m \<and> wa_bidder a = be_sender m \<and> (\<forall>c\<in>M. be_value c \<le> be_value m)"
  using assms unfolding shows_bids_def by (elim exE conjE) (simp split: if_splits)

lemma appendBid_active:
  "activeAuction s = Some a \<Longrightarrow>
     \<exists>v w. activeAuction (appendBid b s) = Some (a\<lparr>wa_amount := v, wa_bidder := w\<rparr>)"
  using exI [of "\<lambda>v. \<exists>w. a = a\<lparr>wa_amount := v, wa_bidder := w\<rparr>" "wa_amount a"]
    exI [of "\<lambda>w. a = a\<lparr>wa_amount := wa_amount a, wa_bidder := w\<rparr>" "wa_bidder a"]
  by (auto simp: appendBid_def Let_def)

lemma appendBid_frame:
  "activeAuction (fold appendBid bs s) = Some a' \<Longrightarrow> activeAuction s = Some a \<Longrightarrow>
     a' = a\<lparr>wa_amount := wa_amount a', wa_bidder := wa_bidder a'\<rparr>"
proof (induction bs arbitrary: s a)
  case (Cons b bs)
  obtain v w where a1: "activeAuction (appendBid b s) = Some (a\<lparr>wa_amount := v, wa_bidder := w\<rparr>)"
    using appendBid_active [OF Cons.prems(2)] by blast
  show ?case
    using Cons.IH [OF _ a1] Cons.prems(1) by simp
qed simp


definition demo_bid :: "int \<Rightarrow> string \<Rightarrow> int \<Rightarrow> string \<Rightarrow> bid_event" where
  "demo_bid i who v h = \<lparr>be_alpId = i, be_sender = who, be_value = v, be_extended = False,
                         be_transactionHash = h, be_timestamp = v\<rparr>"

definition demo_created :: auction_create_event where
  "demo_created = \<lparr>ac_alpId = 7, ac_startTime = 100, ac_endTime = 200, ac_settled = False\<rparr>"


section \<open>Moving between auctions\<close>

datatype display_move = MovePrev | MoveNext

fun move_display :: "display_move \<Rightarrow> on_display_state \<Rightarrow> on_display_state" where
  "move_display MovePrev = setPrevOnDisplayAuctionAlpId"
| "move_display MoveNext = setNextOnDisplayAuctionAlpId"

definition display_in_range :: "int \<Rightarrow> on_display_state \<Rightarrow> bool" where
  "display_in_range l s \<longleftrightarrow>
     lastAuctionAlpId s = Some l \<and>
     (case onDisplayAuctionAlpId s of None \<Rightarrow> False | Some d \<Rightarrow> 0 \<le> d \<and> d \<le> l)"

interpretation display: reducer move_display "\<lambda>_. True" "display_in_range l" for l
proof unfold_locales
  fix a s assume "display_in_range l s"
  then show "display_in_range l (move_display a s)"
    by (cases a) (auto simp: display_in_range_def setPrevOnDisplayAuctionAlpId_def
        setNextOnDisplayAuctionAlpId_def split: option.splits)
qed

lemma next_power:
  "display_in_range l s \<Longrightarrow> onDisplayAuctionAlpId s = Some d \<Longrightarrow>
     onDisplayAuctionAlpId ((setNextOnDisplayAuctionAlpId ^^ n) s) = Some (min l (d + int n))
     \<and> display_in_range l ((setNextOnDisplayAuctionAlpId ^^ n) s)"
  by (induction n)
     (auto simp: display_in_range_def setNextOnDisplayAuctionAlpId_def min_def split: option.splits)

lemma prev_power:
  "display_in_range l s \<Longrightarrow> onDisplayAuctionAlpId s = Some d \<Longrightarrow>
     onDisplayAuctionAlpId ((setPrevOnDisplayAuctionAlpId ^^ n) s) = Some (max 0 (d - int n))"
  by (induction n)
     (auto simp: display_in_range_def setPrevOnDisplayAuctionAlpId_def max_def split: option.splits)

text \<open>
  The navigation buttons never leave the auctions that exist: from an auction between 0 and
  the last one, any sequence of moves stays between them; \<open>n\<close> moves forward end \<open>n\<close> later or at
  the last auction, \<open>n\<close> moves back \<open>n\<close> earlier or at 0.
\<close>

theorem navigation_in_range:
  assumes "lastAuctionAlpId s = Some l" and "onDisplayAuctionAlpId s = Some d" and "0 \<le> d" and "d \<le> l"
  shows "display_in_range l (fold move_display ms s)
       \<and> onDisplayAuctionAlpId ((setNextOnDisplayAuctionAlpId ^^ n) s) = Some (min l (d + int n))
       \<and> onDisplayAuctionAlpId ((setPrevOnDisplayAuctionAlpId ^^ n) s) = Some (max 0 (d - int n))"
proof -
  have "display_in_range l s" using assms by (simp add: display_in_range_def)
  with assms(2) show ?thesis using next_power prev_power display.run_inv [of l s ms] by simp
qed

lemma navigation_in_range_witness:
  "onDisplayAuctionAlpId ((setNextOnDisplayAuctionAlpId ^^ 5) \<lparr>lastAuctionAlpId = Some 9, onDisplayAuctionAlpId = Some 6\<rparr>)
     = Some 9"
  using navigation_in_range [of "\<lparr>lastAuctionAlpId = Some 9, onDisplayAuctionAlpId = Some 6\<rparr>" 9 6 "[]" 5] by simp

section \<open>The auction shown\<close>

lemma find_auction_total:
  "\<forall>x\<in>set past. activeAuction x \<noteq> None \<Longrightarrow>
     findAuction i past = Some (Option.bind (List.find (has_auction i) past) activeAuction)"
  by (induction past) (auto simp: has_auction_def)

lemma find_has_auction:
  "List.find (has_auction i) past = Some x \<Longrightarrow> \<exists>a. activeAuction x = Some a \<and> wa_alpId a = i"
  by (auto simp: find_Some_iff has_auction_def split: option.splits)

lemma alper_multiple_of_five: "isAlperAlp i \<longleftrightarrow> i mod 5 = 0"
proof -
  have "i mod 10 = 0 \<Longrightarrow> i mod 5 = 0" by presburger
  then show ?thesis by (auto simp: isAlperAlp_def)
qed

text \<open>
  The page shows the auction it was asked for.  When the past auctions all carry an auction,
  \<open>useOnDisplayAuction\<close> never throws; what it returns is for the requested token and not settled:
  the current auction for the current token, for any other multiple of five an empty auction
  that starts when the next token's auction does, and otherwise the token's past auction; it
  returns nothing only for a token that is none of these.
\<close>

theorem display_shows_requested:
  assumes "onDisplayAuctionAlpId od = Some d" and "activeAuction cur = Some c"
      and "\<forall>x\<in>set past. activeAuction x \<noteq> None"
  shows "\<exists>r. useOnDisplayAuction cur od past = Some r \<and>
     (case r of
        None \<Rightarrow> d \<noteq> wa_alpId c \<and> d mod 5 \<noteq> 0 \<and> List.find (has_auction d) past = None
      | Some a \<Rightarrow> wa_alpId a = d \<and> \<not> wa_settled a \<and>
          (d \<noteq> wa_alpId c \<longrightarrow> d mod 5 = 0 \<longrightarrow>
             wa_amount a = 0 \<and>
             wa_startTime a = (case Option.bind (List.find (has_auction (d + 1)) past) activeAuction of
                                 None \<Rightarrow> 0 | Some n \<Rightarrow> wa_startTime n)))"
proof -
  consider "d = wa_alpId c" | "d \<noteq> wa_alpId c" "d mod 5 = 0" | "d \<noteq> wa_alpId c" "d mod 5 \<noteq> 0" by blast
  then show ?thesis
  proof cases
    case 1
    then show ?thesis using assms by (simp add: useOnDisplayAuction_def deserializeAuction_def)
  next
    case 2
    then show ?thesis using assms find_auction_total [OF assms(3), of "d + 1"]
      by (auto simp: useOnDisplayAuction_def deserializeAuction_def alper_multiple_of_five
          generateEmptyAlperAuction_def emptyAlperAuction_def split: option.splits)
  next
    case 3
    then show ?thesis using assms find_has_auction [of d past]
      by (cases "List.find (has_auction d) past")
         (auto simp: useOnDisplayAuction_def deserializeAuction_def alper_multiple_of_five)
  qed
qed

definition demo_past :: "auction_state list" where
  "demo_past = [\<lparr>activeAuction = Some \<lparr>wa_amount = 3, wa_bidder = ''ann'', wa_startTime = 60, wa_endTime = 90,
                   wa_alpId = 6, wa_settled = False\<rparr>, bids = []\<rparr>]"

lemma display_shows_requested_witness:
  "\<exists>a. useOnDisplayAuction (setActiveAuction demo_created initial_auction_state)
          \<lparr>lastAuctionAlpId = Some 7, onDisplayAuctionAlpId = Some 5\<rparr> demo_past = Some (Some a)
        \<and> wa_alpId a = 5 \<and> wa_startTime a = 60"
proof -
  let ?cur = "setActiveAuction demo_created initial_auction_state"
  have "onDisplayAuctionAlpId \<lparr>lastAuctionAlpId = Some 7, onDisplayAuctionAlpId = Some 5\<rparr> = Some 5"
    "activeAuction ?cur = Some (reduxSafeNewAuction demo_created)"
    "\<forall>x\<in>set demo_past. activeAuction x \<noteq> None"
    by (simp_all add: setActiveAuction_def demo_past_def)
  from display_shows_requested [OF this] show ?thesis
    by (auto simp: demo_past_def has_auction_def reduxSafeNewAuction_def demo_created_def split: option.splits)
qed

text \<open>
  The time from which a token can vote is read from the right auction: the token whose
  auction is looked up is the first one after \<open>alpId\<close> that is not a multiple of five (those are
  minted without an auction), and the result is the start of the first past auction for it, or 0.
\<close>

theorem can_vote_after_next_auction:
  "alpId < nextAlpIdForQuery alpId \<and> nextAlpIdForQuery alpId mod 5 \<noteq> 0
   \<and> (\<forall>n. alpId < n \<longrightarrow> n < nextAlpIdForQuery alpId \<longrightarrow> n mod 5 = 0)
   \<and> useAlpCanVoteTimestamp alpId (past @ x # rest) =
       (if \<exists>y\<in>set past. has_auction (nextAlpIdForQuery alpId) y then useAlpCanVoteTimestamp alpId past
        else if has_auction (nextAlpIdForQuery alpId) x then wa_startTime (the (activeAuction x))
        else useAlpCanVoteTimestamp alpId rest)"
proof -
  have a: "\<not> (alpId + 1) mod 5 \<noteq> 0 \<Longrightarrow> (alpId + 1 + 1) mod 5 \<noteq> 0" by presburger
  have find: "List.find P (past @ x # rest) =
      (if \<exists>y\<in>set past. P y then List.find P past else if P x then Some x else List.find P rest)"
    for P :: "auction_state \<Rightarrow> bool"
    by (induction past) auto
  have "alpId < nextAlpIdForQuery alpId" "nextAlpIdForQuery alpId mod 5 \<noteq> 0"
    using a by (auto simp: nextAlpIdForQuery_def alper_multiple_of_five)
  moreover have "\<forall>n. alpId < n \<longrightarrow> n < nextAlpIdForQuery alpId \<longrightarrow> n mod 5 = 0"
  proof (intro allI impI)
    fix n assume "alpId < n" "n < nextAlpIdForQuery alpId"
    then have "n = alpId + 1" "isAlperAlp (alpId + 1)" by (auto simp: nextAlpIdForQuery_def split: if_splits)
    then show "n mod 5 = 0" by (simp add: alper_multiple_of_five)
  qed
  ultimately show ?thesis
    by (auto simp: useAlpCanVoteTimestamp_def find has_auction_def split: option.splits)
qed

lemma can_vote_after_next_auction_witness:
  "nextAlpIdForQuery 4 = 6 \<and> (5::int) mod 5 = 0 \<and> useAlpCanVoteTimestamp 4 demo_past = 60"
  using can_vote_after_next_auction [of 4 "[]" "hd demo_past" "[]"]
  by (simp add: nextAlpIdForQuery_def alper_multiple_of_five demo_past_def has_auction_def)

section \<open>The subscriber keeps the slices together\<close>

definition app_consistent :: "app_state \<Rightarrow> bool" where
  "app_consistent s \<longleftrightarrow>
     (\<exists>a. activeAuction (ap_auction s) = Some a \<and>
        lastAuctionAlpId (ap_onDisplay s) = Some (wa_alpId a) \<and>
        (\<forall>b\<in>set (bids (ap_auction s)). be_alpId b = wa_alpId a) \<and>
        distinct (map be_transactionHash (bids (ap_auction s))))"

lemma appendBid_consistent:
  assumes "app_consistent s"
  shows "app_consistent (s\<lparr>ap_auction := appendBid b (ap_auction s)\<rparr>)"
proof -
  obtain a where a: "activeAuction (ap_auction s) = Some a" "lastAuctionAlpId (ap_onDisplay s) = Some (wa_alpId a)"
      "\<forall>b\<in>set (bids (ap_auction s)). be_alpId b = wa_alpId a" "distinct (map be_transactionHash (bids (ap_auction s)))"
    using assms by (auto simp: app_consistent_def)
  then show ?thesis
    by (auto simp: app_consistent_def appendBid_def auctionsEqual_def containsBid_def Let_def)
qed

interpretation subscriber: reducer handle_event "\<lambda>_. True" app_consistent
proof unfold_locales
  fix e :: chain_event and s :: app_state
  assume s: "app_consistent s"
  show "app_consistent (handle_event e s)"
  proof (cases e)
    case (AuctionBid b)
    then show ?thesis using appendBid_consistent [OF s] by (simp add: processBidFilter_def)
  next
    case (AuctionCreated i st en)
    then show ?thesis
      by (simp add: app_consistent_def processAuctionCreated_def setActiveAuction_def reduxSafeNewAuction_def
          setOnDisplayAuctionAlpId_def setLastAuctionAlpId_def Let_def)
  next
    case (AuctionExtended i en)
    then show ?thesis using s
      by (auto simp: app_consistent_def processAuctionExtended_def setAuctionExtended_def split: option.splits)
  next
    case (AuctionSettled i w v)
    then show ?thesis using s
      by (auto simp: app_consistent_def processAuctionSettled_def setAuctionSettled_def split: option.splits)
  qed
qed

lemma previous_consistent:
  "app_consistent s \<Longrightarrow> app_consistent (fst (process_previous es s))"
  by (induction es s rule: process_previous.induct) (auto simp: processBidFilter_def intro: appendBid_consistent)

lemma previous_stops: "None \<in> set es \<Longrightarrow> \<not> snd (process_previous es s)"
  by (induction es s rule: process_previous.induct) auto


definition demo_app :: app_state where
  "demo_app = \<lparr>ap_auction = initial_auction_state, ap_onDisplay = initial_on_display, ap_path = ''/''\<rparr>"


end
