(* ===== verification/Web_Logs.thy ===== *)
theory Web_Logs
  imports Prelude
begin

text \<open>
  The event log cache of the web application: \<open>utils/logParsing.ts\<close> (filters and their keys),
  \<open>state/slices/logs.ts\<close> (the slice of the store), \<open>state/updaters/logs.ts\<close> (which filters are
  fetched and over which block ranges) and \<open>hooks/useLogs.ts\<close> (what a component sees).  Block
  numbers are \<open>nat\<close>; the state is a JavaScript object, an association list in insertion order.
  The JSON-RPC provider is the argument \<open>getLogs\<close>; \<open>None\<close> is a rejected promise.
\<close>

section \<open>Filters and keys\<close>

datatype topic = TNull | TOne string | TMany "string list"

record event_filter =
  f_address :: "string option"
  f_topics :: "topic list option"
  f_fromBlock :: "nat option"

record log =
  l_topics :: "string list"
  l_transactionHash :: string
  l_data :: string

definition NUL :: char where "NUL = CHR 0x00"

definition topic_key :: "topic \<Rightarrow> string" where
  "topic_key t =
     (case t of
        TNull \<Rightarrow> [NUL]
      | TOne s \<Rightarrow> if s = [] then [NUL] else s
      | TMany ss \<Rightarrow> js_join '';'' ss)"

definition filterToKey :: "event_filter \<Rightarrow> string" where
  "filterToKey f =
     (case f_address f of None \<Rightarrow> [] | Some a \<Rightarrow> a) @ '':'' @
     (case f_topics f of None \<Rightarrow> [] | Some ts \<Rightarrow> js_join ''-'' (map topic_key ts))"

definition key_topic :: "string \<Rightarrow> topic" where
  "key_topic p =
     (let parts = js_split (CHR '';'') p
      in case parts of [x] \<Rightarrow> TOne x | _ \<Rightarrow> TMany parts)"

text \<open>A key without a colon has no second piece: \<open>pcs[1].split\<close> throws, here \<open>None\<close>.\<close>

definition keyToFilter :: "string \<Rightarrow> event_filter option" where
  "keyToFilter key =
     (case js_split (CHR '':'') key of
        address # topics # _ \<Rightarrow>
          Some \<lparr>f_address = (if length address = 0 then None else Some address),
                f_topics = Some (map key_topic (js_split (CHR ''-'') topics)),
                f_fromBlock = None\<rparr>
      | _ \<Rightarrow> None)"

section \<open>The slice\<close>

datatype results = Fetched nat "log list" | FetchError nat

fun results_block :: "results \<Rightarrow> nat" where
  "results_block (Fetched b _) = b"
| "results_block (FetchError b) = b"

record fetch_state =
  listeners :: int
  fetchingBlockNumber :: "nat option"
  results :: "results option"

type_synonym logs_state = "(string, fetch_state) jsmap"

definition addListener :: "event_filter \<Rightarrow> logs_state \<Rightarrow> logs_state" where
  "addListener f s =
     (let key = filterToKey f
      in case jm_get s key of
           None \<Rightarrow> jm_set key \<lparr>listeners = 1, fetchingBlockNumber = None, results = None\<rparr> s
         | Some st \<Rightarrow> jm_set key (st\<lparr>listeners := listeners st + 1\<rparr>) s)"

fun fetchingLogs :: "event_filter list \<Rightarrow> nat \<Rightarrow> logs_state \<Rightarrow> logs_state" where
  "fetchingLogs [] b s = s"
| "fetchingLogs (f # fs) b s =
     (let key = filterToKey f
      in fetchingLogs fs b
           (case jm_get s key of
              None \<Rightarrow> s
            | Some st \<Rightarrow> jm_set key (st\<lparr>fetchingBlockNumber := Some b\<rparr>) s))"

definition newer_results :: "fetch_state \<Rightarrow> nat \<Rightarrow> bool" where
  "newer_results st b = (case results st of None \<Rightarrow> False | Some r \<Rightarrow> results_block r > b)"

definition fetchedLogs :: "event_filter \<Rightarrow> nat \<Rightarrow> log list \<Rightarrow> logs_state \<Rightarrow> logs_state" where
  "fetchedLogs f b ls s =
     (let key = filterToKey f
      in case jm_get s key of
           None \<Rightarrow> s
         | Some st \<Rightarrow>
             if newer_results st b then s
             else jm_set key (st\<lparr>results := Some (Fetched b ls)\<rparr>) s)"

definition fetchedLogsError :: "nat \<Rightarrow> event_filter \<Rightarrow> logs_state \<Rightarrow> logs_state" where
  "fetchedLogsError b f s =
     (let key = filterToKey f
      in case jm_get s key of
           None \<Rightarrow> s
         | Some st \<Rightarrow>
             if newer_results st b then s
             else jm_set key (st\<lparr>results := Some (FetchError b)\<rparr>) s)"

definition removeListener :: "event_filter \<Rightarrow> logs_state \<Rightarrow> logs_state" where
  "removeListener f s =
     (let key = filterToKey f
      in case jm_get s key of
           None \<Rightarrow> s
         | Some st \<Rightarrow> jm_set key (st\<lparr>listeners := listeners st - 1\<rparr>) s)"

datatype logs_action =
    AddListener event_filter
  | FetchingLogs "event_filter list" nat
  | FetchedLogs event_filter nat "log list"
  | FetchedLogsError event_filter nat
  | RemoveListener event_filter

fun logs_step :: "logs_action \<Rightarrow> logs_state \<Rightarrow> logs_state" where
  "logs_step (AddListener f) = addListener f"
| "logs_step (FetchingLogs fs b) = fetchingLogs fs b"
| "logs_step (FetchedLogs f b ls) = fetchedLogs f b ls"
| "logs_step (FetchedLogsError f b) = fetchedLogsError b f"
| "logs_step (RemoveListener f) = removeListener f"

section \<open>The updater\<close>

definition MAX_BLOCKS_PER_CALL :: nat where "MAX_BLOCKS_PER_CALL = 1000000"

definition needs_fetch :: "nat \<Rightarrow> fetch_state \<Rightarrow> bool" where
  "needs_fetch b st =
     (if listeners st = 0 then False
      else if (case fetchingBlockNumber st of None \<Rightarrow> False | Some n \<Rightarrow> n \<ge> b) then False
      else if (case results st of None \<Rightarrow> False | Some r \<Rightarrow> results_block r \<ge> b) then False
      else True)"

definition filtersNeedFetch :: "nat option \<Rightarrow> logs_state \<Rightarrow> event_filter option list" where
  "filtersNeedFetch block s =
     (case block of
        None \<Rightarrow> []
      | Some b \<Rightarrow>
          map keyToFilter
            (filter (\<lambda>k. case jm_get s k of None \<Rightarrow> False | Some st \<Rightarrow> needs_fetch b st) (jm_keys s)))"

function block_ranges :: "nat \<Rightarrow> nat \<Rightarrow> (nat \<times> nat) list" where
  "block_ranges fromBlock b =
     (if fromBlock \<le> b
      then (fromBlock, min (fromBlock + MAX_BLOCKS_PER_CALL) b)
             # block_ranges (fromBlock + MAX_BLOCKS_PER_CALL) b
      else [])"
  by pat_completeness auto
termination
  by (relation "measure (\<lambda>(f, b). Suc b - f)") (auto simp: MAX_BLOCKS_PER_CALL_def)

declare block_ranges.simps [simp del]

definition fetch_filter ::
  "(event_filter \<Rightarrow> nat \<times> nat \<Rightarrow> log list option) \<Rightarrow> nat \<Rightarrow> event_filter \<Rightarrow> logs_action" where
  "fetch_filter getLogs b f =
     (let fromBlock = (case f_fromBlock f of None \<Rightarrow> 0 | Some n \<Rightarrow> n)
      in case those (map (getLogs f) (block_ranges fromBlock b)) of
           Some logs \<Rightarrow> FetchedLogs f b (concat logs)
         | None \<Rightarrow> FetchedLogsError f b)"

text \<open>The actions of one run of the effect, in the order in which the fetches were started.\<close>

definition updater_actions ::
  "(event_filter \<Rightarrow> nat \<times> nat \<Rightarrow> log list option) \<Rightarrow> nat option \<Rightarrow> logs_state \<Rightarrow> logs_action list" where
  "updater_actions getLogs block s =
     (case block of
        None \<Rightarrow> []
      | Some b \<Rightarrow>
          (case those (filtersNeedFetch (Some b) s) of
             None \<Rightarrow> []
           | Some fs \<Rightarrow>
               if fs = [] then [] else FetchingLogs fs b # map (fetch_filter getLogs b) fs))"

section \<open>The hook\<close>

datatype logs_status = LINVALID | LLOADING | LSYNCING | LERROR | LSYNCED

record use_logs_result =
  ul_logs :: "log list option"
  ul_state :: logs_status

definition useLogs :: "event_filter option \<Rightarrow> nat option \<Rightarrow> logs_state \<Rightarrow> use_logs_result" where
  "useLogs f block s =
     (case (f, block) of
        (Some f, Some b) \<Rightarrow>
          if filterToKey f = [] \<or> b = 0 then \<lparr>ul_logs = None, ul_state = LINVALID\<rparr>
          else (case Option.bind (jm_get s (filterToKey f)) results of
                  None \<Rightarrow> \<lparr>ul_logs = None, ul_state = LLOADING\<rparr>
                | Some (FetchError _) \<Rightarrow> \<lparr>ul_logs = None, ul_state = LERROR\<rparr>
                | Some (Fetched n ls) \<Rightarrow>
                    \<lparr>ul_logs = Some ls, ul_state = (if n \<ge> b then LSYNCED else LSYNCING)\<rparr>)
      | _ \<Rightarrow> \<lparr>ul_logs = None, ul_state = LINVALID\<rparr>)"

text \<open>A component that mounts with a filter registers it and releases it when it unmounts.\<close>

definition useLogs_mount :: "event_filter option \<Rightarrow> logs_action list" where
  "useLogs_mount f = (case f of None \<Rightarrow> [] | Some f \<Rightarrow> [AddListener f])"

definition useLogs_unmount :: "event_filter option \<Rightarrow> logs_action list" where
  "useLogs_unmount f = (case f of None \<Rightarrow> [] | Some f \<Rightarrow> [RemoveListener f])"

section \<open>Keys are faithful\<close>

definition key_part :: "string \<Rightarrow> bool" where
  "key_part s \<longleftrightarrow> s \<noteq> [] \<and> CHR '':'' \<notin> set s \<and> CHR ''-'' \<notin> set s \<and> CHR '';'' \<notin> set s"

fun plain_topic :: "topic \<Rightarrow> bool" where
  "plain_topic TNull = False"
| "plain_topic (TOne s) = key_part s"
| "plain_topic (TMany ss) = (2 \<le> length ss \<and> list_all key_part ss)"

definition plain_filter :: "event_filter \<Rightarrow> bool" where
  "plain_filter f \<longleftrightarrow>
     (case f_address f of None \<Rightarrow> True | Some a \<Rightarrow> a \<noteq> [] \<and> CHR '':'' \<notin> set a) \<and>
     (case f_topics f of None \<Rightarrow> False | Some ts \<Rightarrow> ts \<noteq> [] \<and> list_all plain_topic ts)"

lemma topic_key_chars: "plain_topic t \<Longrightarrow> CHR '':'' \<notin> set (topic_key t) \<and> CHR ''-'' \<notin> set (topic_key t)"
proof (cases t)
  case (TMany ss)
  assume "plain_topic t"
  with TMany have "\<forall>x\<in>set ss. key_part x" by (simp add: list_all_iff)
  then show ?thesis
    using set_js_join [of "'';''" ss] TMany by (auto simp: topic_key_def key_part_def)
qed (auto simp: topic_key_def key_part_def)

lemma key_topic_of: "plain_topic t \<Longrightarrow> key_topic (topic_key t) = t"
proof (cases t)
  case (TOne s)
  assume "plain_topic t"
  with TOne show ?thesis by (simp add: topic_key_def key_topic_def key_part_def js_split_no_sep)
next
  case (TMany ss)
  assume p: "plain_topic t"
  with TMany obtain x y zs where ss: "ss = x # y # zs" by (cases ss; cases "tl ss") auto
  have "js_split (CHR '';'') (js_join '';'' ss) = ss"
    using p TMany ss by (intro js_split_join) (auto simp: list_all_iff key_part_def)
  with TMany ss show ?thesis by (simp add: topic_key_def key_topic_def)
qed simp

lemma keyToFilter_key:
  assumes "plain_filter f"
  shows "keyToFilter (filterToKey f) = Some (f\<lparr>f_fromBlock := None\<rparr>)"
proof -
  from assms obtain ts where ts: "f_topics f = Some ts" "ts \<noteq> []" "list_all plain_topic ts"
    by (auto simp: plain_filter_def split: option.splits)
  let ?a = "case f_address f of None \<Rightarrow> [] | Some a \<Rightarrow> a" and ?k = "js_join ''-'' (map topic_key ts)"
  have a: "CHR '':'' \<notin> set ?a" "(if length ?a = 0 then None else Some ?a) = f_address f"
    using assms by (auto simp: plain_filter_def split: option.splits)
  have chars: "\<forall>t\<in>set ts. CHR '':'' \<notin> set (topic_key t) \<and> CHR ''-'' \<notin> set (topic_key t)"
    using ts(3) topic_key_chars by (auto simp: list_all_iff)
  then have colon: "CHR '':'' \<notin> set ?k" using set_js_join [of "''-''" "map topic_key ts"] by auto
  have key: "filterToKey f = ?a @ CHR '':'' # ?k" using ts(1) by (simp add: filterToKey_def)
  have sp: "js_split (CHR ''-'') ?k = map topic_key ts"
    using ts(2) chars by (intro js_split_join) auto
  have "map key_topic (map topic_key ts) = ts"
    using ts(3) key_topic_of by (auto simp: list_all_iff intro!: map_idI)
  with a sp ts(1) show ?thesis
    unfolding keyToFilter_def key js_split_append_sep [OF a(1)] js_split_no_sep [OF colon]
    by (simp del: length_0_conv)
qed

lemma filterToKey_fromBlock [simp]: "filterToKey (f\<lparr>f_fromBlock := b\<rparr>) = filterToKey f"
  by (simp add: filterToKey_def)

text \<open>
  A filter key determines its filter: for a filter whose address and topics are non-empty and
  free of the separators, \<open>keyToFilter (filterToKey f)\<close> gives the filter back, with its
  \<open>fromBlock\<close> dropped; so two such filters that share a key are equal up to \<open>fromBlock\<close>.
\<close>

theorem filter_key_roundtrip:
  assumes "plain_filter f" and "plain_filter g"
  shows "keyToFilter (filterToKey f) = Some (f\<lparr>f_fromBlock := None\<rparr>)
       \<and> (filterToKey f = filterToKey g \<longleftrightarrow> f\<lparr>f_fromBlock := None\<rparr> = g\<lparr>f_fromBlock := None\<rparr>)"
  using keyToFilter_key [OF assms(1)] keyToFilter_key [OF assms(2)]
  by (metis option.inject filterToKey_fromBlock)

definition demo_filter :: event_filter where
  "demo_filter = \<lparr>f_address = Some ''0xA1'', f_topics = Some [TOne ''0xT0'', TMany [''0xT1'', ''0xT2'']],
                  f_fromBlock = Some 7\<rparr>"

lemma demo_filter_plain: "plain_filter demo_filter"
  by (simp add: demo_filter_def plain_filter_def key_part_def)

lemma filter_key_roundtrip_witness:
  "keyToFilter (filterToKey demo_filter) = Some (demo_filter\<lparr>f_fromBlock := None\<rparr>)
   \<and> filterToKey demo_filter = ''0xA1:0xT0-0xT1;0xT2''"
  using conjunct1 [OF filter_key_roundtrip [OF demo_filter_plain demo_filter_plain]]
  by (simp add: demo_filter_def filterToKey_def topic_key_def)

section \<open>Block ranges\<close>

definition in_range :: "nat \<Rightarrow> nat \<times> nat \<Rightarrow> bool" where
  "in_range x r \<longleftrightarrow> fst r \<le> x \<and> x \<le> snd r"

definition times_fetched :: "nat \<Rightarrow> nat \<Rightarrow> nat \<Rightarrow> nat" where
  "times_fetched fromBlock b x = length (filter (in_range x) (block_ranges fromBlock b))"

lemma times_fetched_rec:
  "times_fetched fromBlock b x =
     (if fromBlock \<le> b
      then (if fromBlock \<le> x \<and> x \<le> fromBlock + MAX_BLOCKS_PER_CALL \<and> x \<le> b then 1 else 0)
             + times_fetched (fromBlock + MAX_BLOCKS_PER_CALL) b x
      else 0)"
  by (subst times_fetched_def, subst block_ranges.simps) (auto simp: in_range_def times_fetched_def)

lemma times_fetched_before: "x < fromBlock \<Longrightarrow> times_fetched fromBlock b x = 0"
proof (induction fromBlock b rule: block_ranges.induct)
  case (1 fromBlock b)
  then show ?case by (subst times_fetched_rec) auto
qed

lemma times_fetched_at_start: "times_fetched fromBlock b fromBlock = (if fromBlock \<le> b then 1 else 0)"
  using times_fetched_before [of fromBlock "fromBlock + MAX_BLOCKS_PER_CALL" b]
  by (subst times_fetched_rec) (simp add: MAX_BLOCKS_PER_CALL_def)

text \<open>
  C39. The updater asks for every block between \<open>fromBlock\<close> and the current block, and for no
  other.  Because a range includes both of its ends, a block at a positive multiple of the range
  size after \<open>fromBlock\<close> is asked for twice (its logs appear twice in the result), every other
  block once.
\<close>

theorem block_ranges_cover:
  "times_fetched fromBlock b x =
     (if fromBlock \<le> x \<and> x \<le> b
      then (if x \<noteq> fromBlock \<and> (x - fromBlock) mod MAX_BLOCKS_PER_CALL = 0 then 2 else 1)
      else 0)"
proof (induction fromBlock b rule: block_ranges.induct)
  case (1 f b)
  let ?M = MAX_BLOCKS_PER_CALL
  have M: "0 < ?M" by (simp add: MAX_BLOCKS_PER_CALL_def)
  consider "b < f" | "f \<le> b" "x < f" | "f \<le> b" "f \<le> x" "x < f + ?M"
    | "f \<le> b" "x = f + ?M" | "f \<le> b" "f + ?M < x" by linarith
  then show ?case
  proof cases
    case 1 then show ?thesis by (subst times_fetched_rec) simp
  next
    case 2 then show ?thesis by (simp add: times_fetched_before)
  next
    case 3
    then have "x \<noteq> f \<Longrightarrow> (x - f) mod ?M \<noteq> 0" by simp
    with 3 show ?thesis by (subst times_fetched_rec) (auto simp: times_fetched_before)
  next
    case 4
    with M show ?thesis by (subst times_fetched_rec) (simp add: times_fetched_at_start)
  next
    case 5
    then have "(x - f) mod ?M = (x - (f + ?M)) mod ?M"
      by (simp add: le_mod_geq)
    with 5 "1.IH" M show ?thesis by (subst times_fetched_rec) auto
  qed
qed

section \<open>The slice, operation by operation\<close>

lemma newer_results_simps [simp]:
  "newer_results (st\<lparr>listeners := n\<rparr>) b = newer_results st b"
  "newer_results (st\<lparr>fetchingBlockNumber := n'\<rparr>) b = newer_results st b"
  by (simp_all add: newer_results_def)

definition put_result :: "results \<Rightarrow> fetch_state \<Rightarrow> fetch_state" where
  "put_result r st = (if newer_results st (results_block r) then st else st\<lparr>results := Some r\<rparr>)"

lemma listeners_put_result [simp]: "listeners (put_result r st) = listeners st"
  by (simp add: put_result_def)

lemma get_addListener:
  "jm_get (addListener f s) k =
     (if k = filterToKey f
      then Some (case jm_get s k of
                   None \<Rightarrow> \<lparr>listeners = 1, fetchingBlockNumber = None, results = None\<rparr>
                 | Some st \<Rightarrow> st\<lparr>listeners := listeners st + 1\<rparr>)
      else jm_get s k)"
  by (auto simp: addListener_def jm_get_set Let_def split: option.split)

lemma get_fetchingLogs:
  "jm_get (fetchingLogs fs b s) k =
     (if k \<in> filterToKey ` set fs then map_option (\<lambda>st. st\<lparr>fetchingBlockNumber := Some b\<rparr>) (jm_get s k)
      else jm_get s k)"
  by (induction fs b s rule: fetchingLogs.induct) (auto simp: jm_get_set Let_def split: option.split)

lemma get_fetchedLogs:
  "jm_get (fetchedLogs f b ls s) k =
     (if k = filterToKey f then map_option (put_result (Fetched b ls)) (jm_get s k) else jm_get s k)"
  by (auto simp: fetchedLogs_def put_result_def jm_get_set Let_def split: option.split)

lemma get_fetchedLogsError:
  "jm_get (fetchedLogsError b f s) k =
     (if k = filterToKey f then map_option (put_result (FetchError b)) (jm_get s k) else jm_get s k)"
  by (auto simp: fetchedLogsError_def put_result_def jm_get_set Let_def split: option.split)

lemma get_removeListener:
  "jm_get (removeListener f s) k =
     (if k = filterToKey f then map_option (\<lambda>st. st\<lparr>listeners := listeners st - 1\<rparr>) (jm_get s k)
      else jm_get s k)"
  by (auto simp: removeListener_def jm_get_set Let_def split: option.split)

lemmas get_logs_step = get_addListener get_fetchingLogs get_fetchedLogs get_fetchedLogsError get_removeListener

subsection \<open>Results never go back\<close>

definition at_least :: "string \<Rightarrow> nat \<Rightarrow> logs_state \<Rightarrow> bool" where
  "at_least k b s \<longleftrightarrow>
     (case jm_get s k of
        None \<Rightarrow> False
      | Some st \<Rightarrow> (case results st of None \<Rightarrow> False | Some r \<Rightarrow> results_block r \<ge> b))"

interpretation logs_progress: reducer logs_step "\<lambda>_. True" "at_least k b" for k b
proof unfold_locales
  fix a :: logs_action and s :: logs_state
  assume "at_least k b s"
  then obtain st r where "jm_get s k = Some st" "results st = Some r" "results_block r \<ge> b"
    by (auto simp: at_least_def split: option.splits)
  then show "at_least k b (logs_step a s)"
    by (cases a) (auto simp: at_least_def get_logs_step put_result_def newer_results_def)
qed

text \<open>
  C17. The cached results of a filter never go back in time: once its results are of block \<open>b\<close> or
  later, they are so after any further sequence of actions of the slice, in whatever order the
  fetches complete, and a component that looks at block \<open>b\<close> is never sent back to loading or
  syncing.
\<close>

theorem logs_never_regress:
  assumes "at_least (filterToKey f) b s" and "0 < b"
  shows "at_least (filterToKey f) b (fold logs_step as s)
       \<and> ul_state (useLogs (Some f) (Some b) (fold logs_step as s)) \<in> {LSYNCED, LERROR}"
proof -
  have "at_least (filterToKey f) b (fold logs_step as s)"
    using assms(1) by (rule logs_progress.run_inv) simp
  moreover have "filterToKey f \<noteq> []" by (simp add: filterToKey_def)
  ultimately show ?thesis using assms(2)
    by (auto simp: at_least_def useLogs_def split: option.splits results.splits)
qed

lemma logs_never_regress_witness:
  "at_least (filterToKey demo_filter) 5
     (fold logs_step [FetchedLogs demo_filter 3 [], FetchedLogsError demo_filter 2, RemoveListener demo_filter]
       (fold logs_step [AddListener demo_filter, FetchedLogs demo_filter 9 []] []))"
proof -
  have "at_least (filterToKey demo_filter) 5
          (fold logs_step [AddListener demo_filter, FetchedLogs demo_filter 9 []] [])"
    by code_simp
  from logs_never_regress [OF this, of "[FetchedLogs demo_filter 3 [], FetchedLogsError demo_filter 2,
      RemoveListener demo_filter]"] show ?thesis by simp
qed

subsection \<open>Listeners are counted\<close>

definition adds :: "string \<Rightarrow> logs_action list \<Rightarrow> nat" where
  "adds k as = length (filter (\<lambda>a. case a of AddListener f \<Rightarrow> filterToKey f = k | _ \<Rightarrow> False) as)"

definition removes :: "string \<Rightarrow> logs_action list \<Rightarrow> nat" where
  "removes k as = length (filter (\<lambda>a. case a of RemoveListener f \<Rightarrow> filterToKey f = k | _ \<Rightarrow> False) as)"

definition balanced :: "string \<Rightarrow> logs_action list \<Rightarrow> bool" where
  "balanced k as \<longleftrightarrow> (\<forall>n \<le> length as. removes k (take n as) \<le> adds k (take n as))"

lemma adds_append [simp]: "adds k (as @ bs) = adds k as + adds k bs"
  by (simp add: adds_def)

lemma removes_append [simp]: "removes k (as @ bs) = removes k as + removes k bs"
  by (simp add: removes_def)

lemma listeners_step:
  "map_option listeners (jm_get (logs_step a s) k) =
     (case a of
        AddListener f \<Rightarrow>
          if filterToKey f = k
          then Some (case map_option listeners (jm_get s k) of None \<Rightarrow> 1 | Some n \<Rightarrow> n + 1)
          else map_option listeners (jm_get s k)
      | RemoveListener f \<Rightarrow>
          map_option (\<lambda>n. if filterToKey f = k then n - 1 else n) (map_option listeners (jm_get s k))
      | _ \<Rightarrow> map_option listeners (jm_get s k))"
  by (cases a; cases "jm_get s k") (auto simp: get_logs_step)

lemma adds_single [simp]:
  "adds k [a] = (case a of AddListener f \<Rightarrow> if filterToKey f = k then 1 else 0 | _ \<Rightarrow> 0)"
  "removes k [a] = (case a of RemoveListener f \<Rightarrow> if filterToKey f = k then 1 else 0 | _ \<Rightarrow> 0)"
  by (simp_all add: adds_def removes_def split: logs_action.split)

lemma balanced_append: "balanced k (as @ bs) \<Longrightarrow> balanced k as"
  unfolding balanced_def
proof (intro allI impI)
  fix n
  assume b: "\<forall>n \<le> length (as @ bs). removes k (take n (as @ bs)) \<le> adds k (take n (as @ bs))"
    and n: "n \<le> length as"
  from b [THEN spec [of _ n]] n show "removes k (take n as) \<le> adds k (take n as)" by simp
qed

text \<open>
  The slice counts the mounted components of each filter: as long as no component releases a
  filter it has not registered, after any sequence of actions the filter's entry exists exactly
  when it was ever registered, and its \<open>listeners\<close> is the number of registrations less the number
  of releases, hence never negative.
\<close>

theorem listeners_counted:
  assumes "balanced k as"
  shows "map_option listeners (jm_get (fold logs_step as []) k) =
           (if adds k as = 0 then None else Some (int (adds k as) - int (removes k as)))
       \<and> (\<forall>st. jm_get (fold logs_step as []) k = Some st \<longrightarrow> 0 \<le> listeners st)"
proof -
  have count: "map_option listeners (jm_get (fold logs_step as []) k) =
           (if adds k as = 0 then None else Some (int (adds k as) - int (removes k as)))"
    using assms
  proof (induction as rule: rev_induct)
    case Nil
    then show ?case by (simp add: adds_def jm_get_def)
  next
    case (snoc a as)
    let ?s = "fold logs_step as []"
    note IH = snoc.IH [OF balanced_append [OF snoc.prems]]
    have le: "removes k as \<le> adds k as"
      using balanced_append [OF snoc.prems] by (auto simp: balanced_def)
    have bal: "removes k as + removes k [a] \<le> adds k as + adds k [a]"
      using snoc.prems by (auto simp: balanced_def dest: spec [of _ "Suc (length as)"])
    have run: "fold logs_step (as @ [a]) [] = logs_step a ?s" by simp
    show ?case
      unfolding run listeners_step IH adds_append removes_append
      using bal le by (cases a) auto
  qed
  have "removes k as \<le> adds k as" using assms by (auto simp: balanced_def)
  with count show ?thesis by (auto split: if_splits)
qed

lemma listeners_counted_witness:
  "map_option listeners (jm_get (fold logs_step (useLogs_mount (Some demo_filter) @ useLogs_mount (Some demo_filter)
      @ useLogs_unmount (Some demo_filter)) []) (filterToKey demo_filter)) = Some 1"
proof -
  let ?as = "[AddListener demo_filter, AddListener demo_filter, RemoveListener demo_filter]"
  have "balanced (filterToKey demo_filter) ?as"
    unfolding balanced_def by (auto simp: le_Suc_eq adds_def removes_def)
  from listeners_counted [OF this] show ?thesis
    by (simp add: useLogs_mount_def useLogs_unmount_def adds_def removes_def)
qed

section \<open>One run of the updater\<close>

fun action_result :: "logs_action \<Rightarrow> (string \<times> results) option" where
  "action_result (FetchedLogs f b ls) = Some (filterToKey f, Fetched b ls)"
| "action_result (FetchedLogsError f b) = Some (filterToKey f, FetchError b)"
| "action_result _ = None"

lemma fetch_filter_step:
  "\<exists>r. results_block r = b \<and>
     (\<forall>s k. jm_get (logs_step (fetch_filter getLogs b f) s) k =
        (if k = filterToKey f then map_option (put_result r) (jm_get s k) else jm_get s k))"
proof (cases "those (map (getLogs f) (block_ranges (case f_fromBlock f of None \<Rightarrow> 0 | Some n \<Rightarrow> n) b))")
  case None
  then show ?thesis
    by (intro exI [of _ "FetchError b"]) (simp add: fetch_filter_def Let_def get_fetchedLogsError)
next
  case (Some ls)
  then show ?thesis
    by (intro exI [of _ "Fetched b (concat ls)"]) (simp add: fetch_filter_def Let_def get_fetchedLogs)
qed

lemma fetch_all_other:
  "k \<notin> filterToKey ` set fs \<Longrightarrow>
     jm_get (fold logs_step (map (fetch_filter getLogs b) fs) s) k = jm_get s k"
proof (induction fs arbitrary: s)
  case (Cons f fs)
  obtain r where "\<forall>s k. jm_get (logs_step (fetch_filter getLogs b f) s) k =
      (if k = filterToKey f then map_option (put_result r) (jm_get s k) else jm_get s k)"
    using fetch_filter_step [of b getLogs f] by blast
  with Cons show ?case by simp
qed simp

lemma fetch_all_marks:
  "map_option fetchingBlockNumber (jm_get (fold logs_step (map (fetch_filter getLogs b) fs) s) k)
     = map_option fetchingBlockNumber (jm_get s k)"
proof (induction fs arbitrary: s)
  case (Cons f fs)
  obtain r where r: "\<forall>s k. jm_get (logs_step (fetch_filter getLogs b f) s) k =
      (if k = filterToKey f then map_option (put_result r) (jm_get s k) else jm_get s k)"
    using fetch_filter_step [of b getLogs f] by blast
  show ?case
    by (simp add: Cons.IH r option.map_comp comp_def put_result_def if_distrib cong: if_cong)
qed simp

lemma fetch_all_at_least:
  "k \<in> filterToKey ` set fs \<Longrightarrow> jm_get s k \<noteq> None \<Longrightarrow>
     at_least k b (fold logs_step (map (fetch_filter getLogs b) fs) s)"
proof (induction fs arbitrary: s)
  case (Cons f fs)
  obtain r where b: "results_block r = b" and r: "\<forall>s k. jm_get (logs_step (fetch_filter getLogs b f) s) k =
      (if k = filterToKey f then map_option (put_result r) (jm_get s k) else jm_get s k)"
    using fetch_filter_step [of b getLogs f] by blast
  show ?case
  proof (cases "k = filterToKey f")
    case True
    obtain st where st: "jm_get s k = Some st" using Cons.prems by auto
    have "at_least k b (logs_step (fetch_filter getLogs b f) s)"
      using st b True
      by (auto simp: at_least_def r put_result_def newer_results_def split: option.splits)
    then show ?thesis
      using logs_progress.run_inv [of k b _ "map (fetch_filter getLogs b) fs"] by simp
  next
    case False
    with Cons.prems have "k \<in> filterToKey ` set fs" "jm_get (logs_step (fetch_filter getLogs b f) s) k \<noteq> None"
      by (auto simp: r)
    with Cons.IH show ?thesis by simp
  qed
qed simp

definition needed_keys :: "nat \<Rightarrow> logs_state \<Rightarrow> string list" where
  "needed_keys b s = filter (\<lambda>k. case jm_get s k of None \<Rightarrow> False | Some st \<Rightarrow> needs_fetch b st) (jm_keys s)"

lemma those_map_the: "\<forall>x\<in>set xs. f x = Some (g x) \<Longrightarrow> those (map f xs) = Some (map g xs)"
  by (induction xs) auto

lemma jm_get_in_keys: "jm_get s k = Some v \<Longrightarrow> k \<in> set (jm_keys s)"
  using jm_has_keys [of s k] by (simp add: jm_has_def)

text \<open>
  C32. One run of the updater settles the cache: when every registered key comes from a plain
  filter, after the run's fetches have completed (each with logs or with an error) every filter
  that needed fetching has results of the current block or later, and no filter needs fetching
  any more, so the effect does not fire again for this block.
\<close>

theorem updater_settles:
  fixes s :: logs_state and b :: nat and getLogs :: "event_filter \<Rightarrow> nat \<times> nat \<Rightarrow> log list option"
  assumes keys: "\<forall>k\<in>set (jm_keys s). \<exists>f. plain_filter f \<and> k = filterToKey f"
  defines "s' \<equiv> fold logs_step (updater_actions getLogs (Some b) s) s"
  shows "(\<forall>k\<in>set (needed_keys b s). at_least k b s') \<and> filtersNeedFetch (Some b) s' = []"
proof (cases "needed_keys b s = []")
  case True
  then have "filtersNeedFetch (Some b) s = []" by (simp add: filtersNeedFetch_def needed_keys_def)
  then have "updater_actions getLogs (Some b) s = []" by (simp add: updater_actions_def)
  with True \<open>filtersNeedFetch (Some b) s = []\<close> show ?thesis by (simp add: s'_def)
next
  case False
  define fs where "fs = map (\<lambda>k. the (keyToFilter k)) (needed_keys b s)"
  have key: "keyToFilter k = Some (the (keyToFilter k)) \<and> filterToKey (the (keyToFilter k)) = k"
    if "k \<in> set (jm_keys s)" for k
    using keys that keyToFilter_key by fastforce
  have sub: "set (needed_keys b s) \<subseteq> set (jm_keys s)" by (auto simp: needed_keys_def)
  have "those (filtersNeedFetch (Some b) s) = Some fs"
    unfolding fs_def using key sub
    by (auto simp: filtersNeedFetch_def needed_keys_def intro!: those_map_the)
  moreover have ne: "fs \<noteq> []" using False by (simp add: fs_def)
  ultimately have s': "s' = fold logs_step (map (fetch_filter getLogs b) fs) (fetchingLogs fs b s)"
    by (simp add: s'_def updater_actions_def)
  have img: "filterToKey ` set fs = set (needed_keys b s)"
    unfolding fs_def using key sub by force
  have fetched: "at_least k b s'" if "k \<in> set (needed_keys b s)" for k
  proof -
    have "jm_get s k \<noteq> None" using that by (auto simp: needed_keys_def split: option.splits)
    then show ?thesis
      unfolding s' using that img by (intro fetch_all_at_least) (auto simp: get_fetchingLogs)
  qed
  have settled: "\<not> needs_fetch b st'" if st': "jm_get s' k = Some st'" for k st'
  proof (cases "k \<in> set (needed_keys b s)")
    case True
    with fetched [OF True] st' show ?thesis
      by (auto simp: at_least_def needs_fetch_def split: option.splits)
  next
    case False
    then have "jm_get s' k = jm_get s k"
      unfolding s' using img by (simp add: fetch_all_other get_fetchingLogs)
    with st' have "jm_get s k = Some st'" by simp
    with False jm_get_in_keys show ?thesis by (fastforce simp: needed_keys_def)
  qed
  then have "filtersNeedFetch (Some b) s' = []"
    by (auto simp: filtersNeedFetch_def filter_empty_conv split: option.splits)
  with fetched show ?thesis by blast
qed

lemma updater_settles_witness:
  "at_least (filterToKey demo_filter) 12
     (fold logs_step (updater_actions (\<lambda>_ _. Some []) (Some 12) (addListener demo_filter [])) (addListener demo_filter []))"
proof -
  have "\<forall>k\<in>set (jm_keys (addListener demo_filter [])). \<exists>f. plain_filter f \<and> k = filterToKey f"
    using demo_filter_plain by (auto simp: addListener_def jm_keys_def jm_set_def jm_get_def)
  moreover have "filterToKey demo_filter \<in> set (needed_keys 12 (addListener demo_filter []))"
    by (simp add: needed_keys_def addListener_def jm_keys_def jm_set_def jm_get_def needs_fetch_def)
  ultimately show ?thesis using updater_settles [of "addListener demo_filter []" 12 "\<lambda>_ _. Some []"] by blast
qed

subsection \<open>A filter that is never fetched\<close>

definition no_filter :: event_filter where
  "no_filter = \<lparr>f_address = None, f_topics = None, f_fromBlock = None\<rparr>"

lemma key_topic_nonempty: "topic_key (key_topic p) \<noteq> []"
proof (cases "js_split (CHR '';'') p")
  case (Cons x xs)
  then show ?thesis
    by (cases xs) (auto simp: key_topic_def topic_key_def Let_def split: list.splits)
qed simp

lemma keyToFilter_has_topics:
  assumes "keyToFilter k = Some f"
  shows "filterToKey f \<noteq> '':''"
proof -
  obtain t where t: "f_topics f = Some (map key_topic (js_split (CHR ''-'') t))"
    using assms by (auto simp: keyToFilter_def split: list.splits)
  have "js_join ''-'' (map topic_key (map key_topic (js_split (CHR ''-'') t))) \<noteq> []"
  proof (cases "js_split (CHR ''-'') t")
    case (Cons x xs)
    then show ?thesis by (cases xs) (auto simp: key_topic_nonempty)
  qed simp
  with t show ?thesis by (auto simp: filterToKey_def append_eq_Cons_conv split: option.splits)
qed

text \<open>
  The filter a component passes while the contract is not connected (\<open>{}\<close>, key \<open>":"\<close>) is never
  fetched: whatever the store holds, a run of the updater leaves its entry as it was, because the
  key is converted to a filter whose own key is \<open>":\0"\<close>; so the component's view does not change.
\<close>

theorem empty_filter_never_loads:
  "jm_get (fold logs_step (updater_actions getLogs block s) s) (filterToKey no_filter) = jm_get s (filterToKey no_filter)
   \<and> useLogs (Some no_filter) block (fold logs_step (updater_actions getLogs block s) s) = useLogs (Some no_filter) block s"
proof -
  have key: "filterToKey no_filter = '':''" by (simp add: filterToKey_def no_filter_def)
  have "jm_get (fold logs_step (updater_actions getLogs block s) s) '':'' = jm_get s '':''"
  proof (cases block)
    case None
    then show ?thesis by (simp add: updater_actions_def)
  next
    case (Some b)
    show ?thesis
    proof (cases "those (filtersNeedFetch (Some b) s)")
      case None
      with Some show ?thesis by (simp add: updater_actions_def)
    next
      case fs: (Some fs)
      have "set fs \<subseteq> {f. \<exists>k. keyToFilter k = Some f}"
      proof
        fix f assume "f \<in> set fs"
        have "map Some fs = filtersNeedFetch (Some b) s" using fs by (simp add: those_eq_Some)
        with \<open>f \<in> set fs\<close> have "Some f \<in> set (filtersNeedFetch (Some b) s)" by (metis image_eqI list.set_map)
        then obtain k where "Some f = keyToFilter k" by (auto simp: filtersNeedFetch_def)
        then show "f \<in> {f. \<exists>k. keyToFilter k = Some f}" by (auto intro: exI [of _ k])
      qed
      then have "\<forall>f\<in>set fs. filterToKey f \<noteq> '':''" using keyToFilter_has_topics by blast
      then have "'':'' \<notin> filterToKey ` set fs" by (metis imageE)
      with Some fs show ?thesis by (simp add: updater_actions_def fetch_all_other get_fetchingLogs)
    qed
  qed
  then show ?thesis by (auto simp: useLogs_def key split: option.split)
qed

end
