(* ===== verification/Web_Dao.thy ===== *)
theory Web_Dao
  imports Web_Logs Web_Hooks
begin

text \<open>
  The web application's view of the DAO, \<open>wrappers/alpsDao.ts\<close>: titles, transaction details, the
  state of a proposal, the two sources of proposals (subgraph, and chain as the fallback), and the
  calls that write.  The libraries \<open>ethers\<close> and \<open>bignumber.js\<close> are the argument \<open>L\<close>; contract calls
  are arguments, \<open>None\<close> when they reject.  A function that throws gives \<open>None\<close>.
\<close>

section \<open>Data\<close>

datatype dao_vote = AGAINST | FOR | ABSTAIN

datatype proposal_state =
  UNDETERMINED | PENDING | ACTIVE | CANCELLED | DEFEATED | SUCCEEDED | QUEUED | EXPIRED | EXECUTED | VETOED

definition state_of_key :: "string \<Rightarrow> proposal_state option" where
  "state_of_key k = map_of
     [(''UNDETERMINED'', UNDETERMINED), (''PENDING'', PENDING), (''ACTIVE'', ACTIVE),
      (''CANCELLED'', CANCELLED), (''DEFEATED'', DEFEATED), (''SUCCEEDED'', SUCCEEDED),
      (''QUEUED'', QUEUED), (''EXPIRED'', EXPIRED), (''EXECUTED'', EXECUTED), (''VETOED'', VETOED)] k"

record proposal_call_result =
  pc_id :: nat
  pc_abstainVotes :: nat
  pc_againstVotes :: nat
  pc_forVotes :: nat
  pc_startBlock :: nat
  pc_endBlock :: nat
  pc_eta :: nat
  pc_proposalThreshold :: nat
  pc_proposer :: string
  pc_quorumVotes :: nat

record proposal_detail =
  pd_target :: string
  pd_value :: "string option"
  pd_functionSig :: string
  pd_callData :: string

record web_proposal =
  wp_id :: "string option"
  wp_title :: string
  wp_description :: string
  wp_status :: "proposal_state option"
  wp_forCount :: jsnum
  wp_againstCount :: jsnum
  wp_abstainCount :: jsnum
  wp_createdBlock :: jsnum
  wp_startBlock :: jsnum
  wp_endBlock :: jsnum
  wp_eta :: "jsnum option"
  wp_proposer :: "string option"
  wp_proposalThreshold :: jsnum
  wp_quorumVotes :: jsnum
  wp_details :: "proposal_detail list option"
  wp_transactionHash :: "string option"

text \<open>The subgraph's entity has \<open>values\<close>; on a decoded log \<open>values\<close> is the array method and the
  values are the element at index 3.\<close>

record transaction_details =
  td_targets :: "string list"
  td_values :: "string list option"
  td_result3 :: "string list option"
  td_signatures :: "string list"
  td_calldatas :: "string list"

record subgraph_proposal = transaction_details +
  sp_id :: string
  sp_description :: "string option"
  sp_status :: string
  sp_forVotes :: string
  sp_againstVotes :: string
  sp_abstainVotes :: string
  sp_createdBlock :: string
  sp_createdTransactionHash :: string
  sp_startBlock :: string
  sp_endBlock :: string
  sp_executionETA :: "string option"
  sp_proposer :: string
  sp_proposalThreshold :: string
  sp_quorumVotes :: string

record proposal_data =
  da_data :: "web_proposal option list"  \<comment> \<open>\<open>None\<close> is a hole of a sparse array\<close>
  da_error :: bool
  da_loading :: bool

record libs =
  lib_bignumber :: "string \<Rightarrow> jsnum"
  lib_from :: "string \<Rightarrow> int option"
  lib_formatEther :: "int \<Rightarrow> string"
  lib_decode :: "string list \<Rightarrow> string \<Rightarrow> string list option"
  lib_parseLog :: "log \<Rightarrow> (string option \<times> transaction_details) option"

section \<open>Titles\<close>

definition NL :: char where "NL = CHR 0x0A"

text \<open>\<open>/^\s*#{1,6}\s+([^\n]+)/\<close>: when only white space follows the marks, \<open>\s+\<close> gives characters
  back until one that is not a line break is left for the group.\<close>

definition extractHashTitle :: "string \<Rightarrow> string option" where
  "extractHashTitle body =
     (let s = dropWhile is_space body;
          k = length (takeWhile (\<lambda>c. c = CHR ''#'') s);
          r = drop k s;
          sp = takeWhile is_space r;
          rest = dropWhile is_space r
      in if k < 1 \<or> 6 < k \<or> sp = [] then None
         else if rest \<noteq> [] then Some (takeWhile (\<lambda>c. c \<noteq> NL) rest)
         else (case rev (filter (\<lambda>c. c \<noteq> NL) (tl sp)) of [] \<Rightarrow> None | c # _ \<Rightarrow> Some [c]))"

text \<open>\<open>/^\s*([^\n]+)\n(={3,25}|-{3,25})/\<close>: the leading white space is tried from its full length down.\<close>

definition underlined :: "string \<Rightarrow> string option" where
  "underlined r =
     (let line = takeWhile (\<lambda>c. c \<noteq> NL) r; rest = drop (length line) r
      in if line \<noteq> [] \<and> take 1 rest = [NL] \<and> (take 3 (drop 1 rest) = ''==='' \<or> take 3 (drop 1 rest) = ''---'')
         then Some line else None)"

fun equal_title_from :: "string \<Rightarrow> nat \<Rightarrow> string option" where
  "equal_title_from body 0 = underlined body"
| "equal_title_from body (Suc n) =
     (case underlined (drop (Suc n) body) of Some t \<Rightarrow> Some t | None \<Rightarrow> equal_title_from body n)"

definition extractEqualTitle :: "string \<Rightarrow> string option" where
  "extractEqualTitle body = equal_title_from body (length (takeWhile is_space body))"

definition extractTitle :: "string option \<Rightarrow> string option" where
  "extractTitle body =
     (case body of
        None \<Rightarrow> None
      | Some b \<Rightarrow>
          if b = [] then None
          else (case extractHashTitle b of Some t \<Rightarrow> Some t | None \<Rightarrow> extractEqualTitle b))"

fun remove_pairs :: "char \<Rightarrow> string \<Rightarrow> string" where
  "remove_pairs c (x # y # zs) = (if x = c \<and> y = c then remove_pairs c zs else x # remove_pairs c (y # zs))"
| "remove_pairs c xs = xs"

definition removeBold :: "string option \<Rightarrow> string option" where
  "removeBold = map_option (remove_pairs (CHR ''*''))"

definition removeItalics :: "string option \<Rightarrow> string option" where
  "removeItalics = map_option (remove_pairs (CHR ''_''))"

definition removeMarkdownStyle :: "string option \<Rightarrow> string option" where
  "removeMarkdownStyle t = removeBold (removeItalics t)"

definition proposal_title :: "string option \<Rightarrow> string" where
  "proposal_title description =
     (case removeMarkdownStyle (extractTitle description) of None \<Rightarrow> ''Untitled'' | Some t \<Rightarrow> t)"

text \<open>A backslash followed by \<open>n\<close> becomes a line break; then one quote at either end is dropped.\<close>

fun replace_newlines :: "string \<Rightarrow> string" where
  "replace_newlines (x # y # zs) =
     (if x = CHR 0x5C \<and> y = CHR ''n'' then NL # replace_newlines zs else x # replace_newlines (y # zs))"
| "replace_newlines xs = xs"

definition is_quote :: "char \<Rightarrow> bool" where
  "is_quote c \<longleftrightarrow> c = CHR 0x27 \<or> c = CHR 0x22"

definition strip_quotes :: "string \<Rightarrow> string" where
  "strip_quotes s =
     (let t = (case s of c # cs \<Rightarrow> if is_quote c then cs else s | [] \<Rightarrow> [])
      in if t \<noteq> [] \<and> is_quote (last t) then butlast t else t)"

definition clean_description :: "string \<Rightarrow> string" where
  "clean_description d = strip_quotes (replace_newlines d)"

section \<open>Readers\<close>

definition useCurrentQuorum :: "bool \<Rightarrow> bool \<Rightarrow> int option \<Rightarrow> int option \<Rightarrow> int option" where
  "useCurrentQuorum contract skip response old = fetched (\<not> skip \<and> contract) response old"

record dq_params_result =
  dp_minQuorumVotesBPS :: nat
  dp_maxQuorumVotesBPS :: nat
  dp_quorumCoefficient :: nat

definition useDynamicQuorumProps ::
  "bool \<Rightarrow> dq_params_result option \<Rightarrow> dq_params_result option \<Rightarrow> dq_params_result option" where
  "useDynamicQuorumProps contract response old = fetched contract response old"

record vote_receipt =
  vr_hasVoted :: bool
  vr_support :: int

definition no_receipt :: vote_receipt where
  "no_receipt = \<lparr>vr_hasVoted = False, vr_support = -1\<rparr>"

definition useVoteReceipt ::
  "bool \<Rightarrow> string option \<Rightarrow> string option \<Rightarrow> vote_receipt option \<Rightarrow> vote_receipt \<Rightarrow> vote_receipt" where
  "useVoteReceipt contract proposalId account response old =
     (if proposalId = None \<or> proposalId = Some [] \<or> account = None \<or> account = Some [] \<or> \<not> contract then no_receipt
      else case response of None \<Rightarrow> old | Some r \<Rightarrow> r)"

definition useHasVotedOnProposal :: "vote_receipt \<Rightarrow> bool" where
  "useHasVotedOnProposal receipt = vr_hasVoted receipt"

definition useProposalVote :: "vote_receipt \<Rightarrow> string" where
  "useProposalVote receipt =
     (let voteStatus = vr_support receipt
      in if voteStatus = 0 then ''Against''
         else if voteStatus = 1 then ''For''
         else if voteStatus = 2 then ''Abstain''
         else [])"

definition useProposalCount :: "bool \<Rightarrow> nat option \<Rightarrow> nat option \<Rightarrow> nat option" where
  "useProposalCount contract response old = fetched contract response old"

definition useProposalThreshold :: "bool \<Rightarrow> nat option \<Rightarrow> nat option \<Rightarrow> nat option" where
  "useProposalThreshold contract response old = fetched contract response old"

definition useVotingDelay :: "bool \<Rightarrow> nat option \<Rightarrow> nat option \<Rightarrow> nat option" where
  "useVotingDelay contract response old = fetched contract response old"

definition countToIndices :: "nat option \<Rightarrow> nat list" where
  "countToIndices count = (case count of None \<Rightarrow> [] | Some n \<Rightarrow> map (\<lambda>i. i + 1) [0..<n])"

section \<open>Transaction details\<close>

definition nth_opt :: "'a list \<Rightarrow> nat \<Rightarrow> 'a option" where
  "nth_opt xs i = (if i < length xs then Some (xs ! i) else None)"

definition detail_value :: "transaction_details \<Rightarrow> nat \<Rightarrow> string" where
  "detail_value d i =
     (case Option.bind (td_values d) (\<lambda>vs. nth_opt vs i) of
        Some v \<Rightarrow> v
      | None \<Rightarrow> (case Option.bind (td_result3 d) (\<lambda>vs. nth_opt vs i) of Some v \<Rightarrow> v | None \<Rightarrow> ''0''))"

text \<open>\<open>signature.substring(0, length - 1).split('(')\<close>: the name and, when there is one, the next piece.\<close>

definition split_signature :: "string \<Rightarrow> string \<times> string option" where
  "split_signature sig =
     (case js_split (CHR ''('') (js_substring sig 0 (int (length sig) - 1)) of
        [] \<Rightarrow> ([], None)
      | [name] \<Rightarrow> (name, None)
      | name # types # _ \<Rightarrow> (name, Some types))"

definition format_detail :: "libs \<Rightarrow> transaction_details \<Rightarrow> nat \<Rightarrow> string \<Rightarrow> proposal_detail option" where
  "format_detail L d i target =
     (case (nth_opt (td_signatures d) i, lib_from L (detail_value d i)) of
        (Some sig, Some value) \<Rightarrow>
          (case split_signature sig of (name, types) \<Rightarrow>
             if name = [] \<or> types = None \<or> types = Some [] then
               Some \<lparr>pd_target = target, pd_value = None,
                     pd_functionSig = (if name = [] then ''transfer'' else name),
                     pd_callData = (if types \<noteq> None \<and> types \<noteq> Some [] then the types
                                    else lib_formatEther L value @ '' ETH'')\<rparr>
             else
               (case Option.bind (nth_opt (td_calldatas d) i) (lib_decode L (js_split (CHR '','') (the types))) of
                  None \<Rightarrow> None
                | Some decoded \<Rightarrow>
                    Some \<lparr>pd_target = target,
                          pd_value = Some (if value > 0 then ''{ value: '' @ lib_formatEther L value @ '' ETH }'' else []),
                          pd_functionSig = name,
                          pd_callData = js_join '','' decoded\<rparr>))
      | _ \<Rightarrow> None)"

definition formatProposalTransactionDetails :: "libs \<Rightarrow> transaction_details \<Rightarrow> proposal_detail list option" where
  "formatProposalTransactionDetails L d =
     those (map (\<lambda>(i, target). format_detail L d i target) (enumerate 0 (td_targets d)))"

section \<open>The state of a proposal\<close>

definition GRACE_PERIOD :: int where "GRACE_PERIOD = 14 * 60 * 60 * 24"

definition getProposalState ::
  "libs \<Rightarrow> nat option \<Rightarrow> int option \<Rightarrow> 'z subgraph_proposal_scheme \<Rightarrow> proposal_state option" where
  "getProposalState L blockNumber blockTimestamp p =
     (let status = state_of_key (sp_status p);
          noBlock = (blockNumber = None \<or> blockNumber = Some 0);
          block = map_option int blockNumber
      in if status = Some PENDING then
           (if noBlock then Some UNDETERMINED
            else if num_le block (parseInt None (sp_startBlock p)) then Some PENDING
            else Some ACTIVE)
         else if status = Some ACTIVE then
           (if noBlock then Some UNDETERMINED
            else if num_lt (parseInt None (sp_endBlock p)) block then
              (let forVotes = lib_bignumber L (sp_forVotes p)
               in if num_le forVotes (lib_bignumber L (sp_againstVotes p)) \<or> num_lt forVotes (lib_bignumber L (sp_quorumVotes p))
                  then Some DEFEATED
                  else if sp_executionETA p = None \<or> sp_executionETA p = Some [] then Some SUCCEEDED
                  else status)
            else status)
         else if status = Some QUEUED then
           (if blockTimestamp = None \<or> sp_executionETA p = None \<or> sp_executionETA p = Some [] then Some UNDETERMINED
            else if num_le (map_option (\<lambda>x. (x + GRACE_PERIOD) * 1000) (parseInt None (the (sp_executionETA p)))) blockTimestamp
            then Some EXPIRED
            else status)
         else status)"

section \<open>Proposals from the subgraph\<close>

definition subgraph_web_proposal ::
  "libs \<Rightarrow> nat option \<Rightarrow> nat option \<Rightarrow> subgraph_proposal \<Rightarrow> web_proposal option" where
  "subgraph_web_proposal L blockNumber timestamp p =
     (let description = map_option clean_description (sp_description p);
          now = Some (1000 * int (case timestamp of None \<Rightarrow> 0 | Some t \<Rightarrow> t))
      in map_option (\<lambda>details.
           \<lparr>wp_id = Some (sp_id p),
            wp_title = proposal_title description,
            wp_description = (case description of None \<Rightarrow> ''No description.'' | Some d \<Rightarrow> d),
            wp_status = getProposalState L blockNumber now p,
            wp_forCount = parseInt None (sp_forVotes p),
            wp_againstCount = parseInt None (sp_againstVotes p),
            wp_abstainCount = parseInt None (sp_abstainVotes p),
            wp_createdBlock = parseInt None (sp_createdBlock p),
            wp_startBlock = parseInt None (sp_startBlock p),
            wp_endBlock = parseInt None (sp_endBlock p),
            wp_eta = (case sp_executionETA p of
                        None \<Rightarrow> None
                      | Some e \<Rightarrow> if e = [] then None else Some (map_option (\<lambda>x. x * 1000) (js_Number e))),
            wp_proposer = Some (sp_proposer p),
            wp_proposalThreshold = parseInt None (sp_proposalThreshold p),
            wp_quorumVotes = parseInt None (sp_quorumVotes p),
            wp_details = Some details,
            wp_transactionHash = Some (sp_createdTransactionHash p)\<rparr>)
         (formatProposalTransactionDetails L (transaction_details.truncate p)))"

definition useAllProposalsViaSubgraph ::
  "libs \<Rightarrow> nat option \<Rightarrow> nat option \<Rightarrow> bool \<Rightarrow> bool \<Rightarrow> subgraph_proposal list option \<Rightarrow> proposal_data option" where
  "useAllProposalsViaSubgraph L blockNumber timestamp loading error data =
     (case data of
        None \<Rightarrow> Some \<lparr>da_data = [], da_error = error, da_loading = loading\<rparr>
      | Some ps \<Rightarrow>
          map_option (\<lambda>ws. \<lparr>da_data = map Some ws, da_error = error, da_loading = loading\<rparr>)
            (those (map (subgraph_web_proposal L blockNumber timestamp) ps)))"

section \<open>Proposals from the chain\<close>

text \<open>The filter is that of the contract's event, or empty without a contract; a positive
  \<open>fromBlock\<close> is kept in it.\<close>

definition proposal_created_filter :: "event_filter option \<Rightarrow> nat option \<Rightarrow> event_filter" where
  "proposal_created_filter contract fromBlock =
     (case contract of None \<Rightarrow> no_filter | Some f \<Rightarrow> f)\<lparr>f_fromBlock := fromBlock\<rparr>"

record formatted_log =
  fl_description :: "string option"
  fl_transactionHash :: string
  fl_details :: "proposal_detail list"

definition format_log :: "libs \<Rightarrow> log \<Rightarrow> formatted_log option" where
  "format_log L l =
     (case lib_parseLog L l of
        None \<Rightarrow> None
      | Some (description, parsed) \<Rightarrow>
          map_option (\<lambda>details. \<lparr>fl_description = description, fl_transactionHash = l_transactionHash l,
                                 fl_details = details\<rparr>)
            (formatProposalTransactionDetails L parsed))"

text \<open>Outer \<open>None\<close>: a log does not decode.  Inner \<open>None\<close>: no logs yet.\<close>

definition useFormattedProposalCreatedLogs ::
  "libs \<Rightarrow> event_filter option \<Rightarrow> bool \<Rightarrow> nat option \<Rightarrow> nat option \<Rightarrow> logs_state \<Rightarrow> formatted_log list option option" where
  "useFormattedProposalCreatedLogs L contract skip fromBlock block store =
     (case ul_logs (useLogs (if \<not> skip then Some (proposal_created_filter contract fromBlock) else None) block store) of
        None \<Rightarrow> Some None
      | Some ls \<Rightarrow> map_option Some (those (map (format_log L) ls)))"

text \<open>\<open>xs[i] = v\<close> on a JavaScript array: the array grows, with holes (\<open>None\<close>) in between.\<close>

definition js_array_set :: "nat \<Rightarrow> 'a \<Rightarrow> 'a option list \<Rightarrow> 'a option list" where
  "js_array_set i v xs = (xs @ replicate (Suc i - length xs) None)[i := Some v]"

fun fetch_chain ::
  "(nat \<Rightarrow> proposal_call_result option) \<Rightarrow> (nat \<Rightarrow> proposal_state option) \<Rightarrow> nat list \<Rightarrow>
   proposal_call_result option list \<Rightarrow> proposal_state option list \<Rightarrow>
   (proposal_call_result option list \<times> proposal_state option list) option" where
  "fetch_chain proposal state [] ps ss = Some (ps, ss)"
| "fetch_chain proposal state (i # is) ps ss =
     (case (proposal i, state i) of
        (Some p, Some s) \<Rightarrow> fetch_chain proposal state is (js_array_set i p ps) (js_array_set i s ss)
      | _ \<Rightarrow> None)"

definition chain_web_proposal ::
  "nat option \<Rightarrow> formatted_log list \<Rightarrow> proposal_state option list \<Rightarrow> nat \<Rightarrow> proposal_call_result \<Rightarrow> web_proposal" where
  "chain_web_proposal votingDelay logs states i p =
     (let entry = nth_opt logs i;
          description = map_option replace_newlines (Option.bind entry fl_description)
      in \<lparr>wp_id = Some (show_nat (pc_id p)),
          wp_title = proposal_title description,
          wp_description = (case description of None \<Rightarrow> ''No description.'' | Some d \<Rightarrow> d),
          wp_status = Some (case Option.bind (nth_opt states i) (\<lambda>s. s) of None \<Rightarrow> UNDETERMINED | Some s \<Rightarrow> s),
          wp_forCount = Some (int (pc_forVotes p)),
          wp_againstCount = Some (int (pc_againstVotes p)),
          wp_abstainCount = Some (int (pc_abstainVotes p)),
          wp_createdBlock = Some (int (pc_startBlock p) - int (case votingDelay of None \<Rightarrow> 0 | Some d \<Rightarrow> d)),
          wp_startBlock = Some (int (pc_startBlock p)),
          wp_endBlock = Some (int (pc_endBlock p)),
          wp_eta = Some (Some (1000 * int (pc_eta p))),
          wp_proposer = Some (pc_proposer p),
          wp_proposalThreshold = Some (int (pc_proposalThreshold p)),
          wp_quorumVotes = Some (int (pc_quorumVotes p)),
          wp_details = map_option fl_details entry,
          wp_transactionHash = map_option fl_transactionHash entry\<rparr>)"

text \<open>\<open>map\<close> skips the holes of a sparse array and keeps them in the result.\<close>

definition useAllProposalsViaChain ::
  "proposal_call_result option list \<Rightarrow> proposal_state option list \<Rightarrow> nat option \<Rightarrow> formatted_log list option \<Rightarrow> proposal_data" where
  "useAllProposalsViaChain proposals proposalStates votingDelay formattedLogs =
     (let logs = (case formattedLogs of None \<Rightarrow> [] | Some ls \<Rightarrow> ls)
      in if proposals = [] \<or> logs = [] then \<lparr>da_data = [], da_error = False, da_loading = True\<rparr>
         else \<lparr>da_data = map (\<lambda>(i, p). map_option (chain_web_proposal votingDelay logs proposalStates i) p)
                           (enumerate 0 proposals),
               da_error = False, da_loading = False\<rparr>)"

definition useAllProposals :: "proposal_data \<Rightarrow> proposal_data \<Rightarrow> proposal_data" where
  "useAllProposals subgraph onchain = (if da_error subgraph then onchain else subgraph)"

text \<open>\<open>find\<close> visits holes as \<open>undefined\<close>, and reading \<open>p.id\<close> of it throws (outer \<open>None\<close>).\<close>

fun find_proposal :: "string \<Rightarrow> web_proposal option list \<Rightarrow> web_proposal option option" where
  "find_proposal k [] = Some None"
| "find_proposal k (None # ps) = None"
| "find_proposal k (Some p # ps) = (if wp_id p = Some k then Some (Some p) else find_proposal k ps)"

definition useProposal :: "nat \<Rightarrow> proposal_data \<Rightarrow> web_proposal option option" where
  "useProposal i d = find_proposal (show_nat i) (da_data d)"

section \<open>Writes\<close>

datatype dao_call =
    CastVote string dao_vote
  | CastVoteWithReason string dao_vote string
  | Propose "string list" "int list" "string list" "string list" string
  | QueueProposal string
  | ExecuteProposal string

text \<open>The call sent by the returned function; nothing without a contract.\<close>

definition castVote :: "bool \<Rightarrow> string \<Rightarrow> dao_vote \<Rightarrow> dao_call option" where
  "castVote contract proposalId v = (if \<not> contract then None else Some (CastVote proposalId v))"

definition castVoteWithReason :: "bool \<Rightarrow> string \<Rightarrow> dao_vote \<Rightarrow> string \<Rightarrow> dao_call option" where
  "castVoteWithReason contract proposalId v reason =
     (if \<not> contract then None else Some (CastVoteWithReason proposalId v reason))"

definition propose ::
  "bool \<Rightarrow> string list \<Rightarrow> int list \<Rightarrow> string list \<Rightarrow> string list \<Rightarrow> string \<Rightarrow> dao_call option" where
  "propose contract targets vals signatures calldatas description =
     (if \<not> contract then None else Some (Propose targets vals signatures calldatas description))"

definition queueProposal :: "bool \<Rightarrow> string \<Rightarrow> dao_call option" where
  "queueProposal contract proposalId = (if \<not> contract then None else Some (QueueProposal proposalId))"

definition executeProposal :: "bool \<Rightarrow> string \<Rightarrow> dao_call option" where
  "executeProposal contract proposalId = (if \<not> contract then None else Some (ExecuteProposal proposalId))"

section \<open>The state shown and the state of the contract\<close>

text \<open>
  The contract's proposal and its \<open>state\<close> (\<open>AlpsDAOLogicV2.sol\<close>), and what the subgraph has stored
  for it: its status is the last event, \<open>ACTIVE\<close> once a vote was cast.
\<close>

record contract_proposal =
  op_startBlock :: nat
  op_endBlock :: nat
  op_forVotes :: nat
  op_againstVotes :: nat
  op_quorumVotes :: nat
  op_eta :: nat
  op_canceled :: bool
  op_vetoed :: bool
  op_executed :: bool

definition contract_state :: "nat \<Rightarrow> nat \<Rightarrow> contract_proposal \<Rightarrow> proposal_state" where
  "contract_state block now p =
     (if op_vetoed p then VETOED
      else if op_canceled p then CANCELLED
      else if block \<le> op_startBlock p then PENDING
      else if block \<le> op_endBlock p then ACTIVE
      else if op_forVotes p \<le> op_againstVotes p \<or> op_forVotes p < op_quorumVotes p then DEFEATED
      else if op_eta p = 0 then SUCCEEDED
      else if op_executed p then EXECUTED
      else if op_eta p + 1209600 \<le> now then EXPIRED
      else QUEUED)"

definition indexed_status :: "bool \<Rightarrow> contract_proposal \<Rightarrow> string" where
  "indexed_status voted p =
     (if op_vetoed p then ''VETOED'' else if op_canceled p then ''CANCELLED''
      else if op_executed p then ''EXECUTED'' else if op_eta p \<noteq> 0 then ''QUEUED''
      else if voted then ''ACTIVE'' else ''PENDING'')"

definition indexes :: "bool \<Rightarrow> contract_proposal \<Rightarrow> subgraph_proposal \<Rightarrow> bool" where
  "indexes voted p e \<longleftrightarrow>
     sp_status e = indexed_status voted p \<and>
     sp_startBlock e = show_nat (op_startBlock p) \<and> sp_endBlock e = show_nat (op_endBlock p) \<and>
     sp_forVotes e = show_nat (op_forVotes p) \<and> sp_againstVotes e = show_nat (op_againstVotes p) \<and>
     sp_quorumVotes e = show_nat (op_quorumVotes p) \<and>
     sp_executionETA e = (if op_eta p = 0 then None else Some (show_nat (op_eta p)))"

text \<open>What the contract guarantees of a proposal at a block.\<close>

definition proposal_possible :: "nat \<Rightarrow> bool \<Rightarrow> contract_proposal \<Rightarrow> bool" where
  "proposal_possible block voted p \<longleftrightarrow>
     (voted \<longrightarrow> op_startBlock p < block) \<and>
     (\<not> voted \<longrightarrow> op_forVotes p = 0) \<and>
     (op_executed p \<longrightarrow> op_eta p \<noteq> 0) \<and>
     op_startBlock p \<le> op_endBlock p \<and>
     (op_eta p \<noteq> 0 \<longrightarrow> op_endBlock p < block \<and> op_againstVotes p < op_forVotes p \<and> op_quorumVotes p \<le> op_forVotes p)"

lemma state_of_key_indexed:
  "state_of_key ''VETOED'' = Some VETOED" "state_of_key ''CANCELLED'' = Some CANCELLED"
  "state_of_key ''EXECUTED'' = Some EXECUTED" "state_of_key ''QUEUED'' = Some QUEUED"
  "state_of_key ''ACTIVE'' = Some ACTIVE" "state_of_key ''PENDING'' = Some PENDING"
  by code_simp+

lemma parseInt_None_show_nat: "parseInt None (show_nat n) = Some (int n)"
proof -
  let ?ds = "digits_of 10 n"
  have lt: "\<forall>d\<in>set ?ds. d < 10" using digits_of_bound [of 10 n] by simp
  then have lt16: "\<forall>d\<in>set ?ds. d < 16" by auto
  have s: "show_nat n = map digit_char ?ds" by (simp add: show_nat_def show_base_def)
  have hex: "drop_0x (show_nat n) = show_nat n" using drop_0x_digits [OF lt16] by (simp add: s)
  obtain d es where ds: "?ds = d # es" by (cases ?ds) auto
  have "\<not> is_space (digit_char d)" "digit_char d \<noteq> CHR ''-''" "digit_char d \<noteq> CHR ''+''"
    using lt16 digit_char_not_special by (auto simp: ds)
  then have "dropWhile is_space (show_nat n) = show_nat n" "take 1 (show_nat n) \<noteq> ''-''" "take 1 (show_nat n) \<noteq> ''+''"
    by (auto simp: s ds)
  with hex read_digits_chars [of 10 ?ds] lt show ?thesis
    by (simp add: parseInt_def Let_def s digits_val_of)
qed


definition demo_libs :: libs where
  "demo_libs = \<lparr>lib_bignumber = js_Number, lib_from = js_Number, lib_formatEther = show_int,
                lib_decode = (\<lambda>types data. if data = [] then None else Some [data]),
                lib_parseLog = (\<lambda>l. Some (Some (l_data l), \<lparr>td_targets = [''0xT''], td_values = None, td_result3 = Some [''5''],
                  td_signatures = [''mint(uint256)''], td_calldatas = [''0x07'']\<rparr>))\<rparr>"

definition demo_contract_proposal :: contract_proposal where
  "demo_contract_proposal = \<lparr>op_startBlock = 10, op_endBlock = 20, op_forVotes = 0, op_againstVotes = 0,
     op_quorumVotes = 2, op_eta = 0, op_canceled = False, op_vetoed = False, op_executed = False\<rparr>"

definition demo_entity :: subgraph_proposal where
  "demo_entity = \<lparr>td_targets = [], td_values = Some [], td_result3 = None, td_signatures = [], td_calldatas = [],
     sp_id = ''1'', sp_description = Some ''# Title'', sp_status = ''PENDING'', sp_forVotes = show_nat 0,
     sp_againstVotes = show_nat 0, sp_abstainVotes = show_nat 0, sp_createdBlock = show_nat 5,
     sp_createdTransactionHash = ''0x1'', sp_startBlock = show_nat 10, sp_endBlock = show_nat 20,
     sp_executionETA = None, sp_proposer = ''0xA1'', sp_proposalThreshold = show_nat 1, sp_quorumVotes = show_nat 2\<rparr>"


section \<open>The fallback to the chain\<close>

lemma js_array_set_next:
  "js_array_set (length xs) v xs = xs @ [Some v]"
  by (simp add: js_array_set_def)

lemma fetch_chain_from:
  assumes "\<forall>i. k \<le> i \<and> i < n \<longrightarrow> proposal i = Some (p i) \<and> state i = Some (s i)"
    and "length ps = k" "length ss = k" "k \<le> n"
  shows "fetch_chain proposal state [k..<n] ps ss = Some (ps @ map (\<lambda>i. Some (p i)) [k..<n], ss @ map (\<lambda>i. Some (s i)) [k..<n])"
  using assms
proof (induction "n - k" arbitrary: k ps ss)
  case (Suc m)
  then have "k < n" by simp
  then have up: "[k..<n] = k # [Suc k..<n]" by (simp add: upt_conv_Cons)
  from Suc have "fetch_chain proposal state [Suc k..<n] (ps @ [Some (p k)]) (ss @ [Some (s k)]) =
      Some ((ps @ [Some (p k)]) @ map (\<lambda>i. Some (p i)) [Suc k..<n], (ss @ [Some (s k)]) @ map (\<lambda>i. Some (s i)) [Suc k..<n])"
    by (intro Suc.hyps) auto
  with Suc.prems \<open>k < n\<close> js_array_set_next [of ps "p k"] js_array_set_next [of ss "s k"]
  show ?case by (simp add: up)
qed simp

lemma countToIndices_range: "countToIndices (Some n) = [1..<Suc n]"
  by (simp add: countToIndices_def map_Suc_upt)

lemma fetch_chain_all:
  assumes "\<forall>i. 1 \<le> i \<and> i \<le> n \<longrightarrow> proposal i = Some (p i) \<and> state i = Some (s i)" and "0 < n"
  shows "fetch_chain proposal state (countToIndices (Some n)) [] [] =
           Some (None # map (\<lambda>i. Some (p i)) [1..<Suc n], None # map (\<lambda>i. Some (s i)) [1..<Suc n])"
proof -
  have one: "js_array_set 1 v [] = [None, Some v]" for v :: "'c" by (simp add: js_array_set_def)
  have "[1..<Suc n] = 1 # [2..<Suc n]" using assms(2) by (simp add: upt_conv_Cons numeral_2_eq_2)
  then show ?thesis
    using assms fetch_chain_from [of 2 "Suc n" proposal p state s "[None, Some (p 1)]" "[None, Some (s 1)]"]
    by (simp add: countToIndices_range one del: upt_Suc One_nat_def)
qed

text \<open>
  The fallback to the chain shows each proposal with another proposal's text.  When the
  contract answers for the proposals 1 to \<open>n\<close> and the logs of their creation are loaded, the list
  starts with a hole, the entry of proposal \<open>i\<close> has its own number and votes but the description,
  details and transaction of log \<open>i\<close>, which counts from 0, so of proposal \<open>i + 1\<close> (the last one
  has none); and looking up any proposal by its number throws at the hole.
\<close>

theorem chain_fallback_shifted:
  assumes "\<forall>i. 1 \<le> i \<and> i \<le> n \<longrightarrow> proposal i = Some (p i) \<and> state i = Some (s i)" and "0 < n" and "logs \<noteq> []"
  shows "\<exists>ps ss. fetch_chain proposal state (countToIndices (Some n)) [] [] = Some (ps, ss) \<and>
     (let d = useAllProposalsViaChain ps ss delay (Some logs)
      in length (da_data d) = Suc n \<and> da_data d ! 0 = None \<and>
         (\<forall>i. 1 \<le> i \<and> i \<le> n \<longrightarrow>
            (\<exists>w. da_data d ! i = Some w \<and> wp_id w = Some (show_nat (pc_id (p i)))
               \<and> wp_forCount w = Some (int (pc_forVotes (p i))) \<and> wp_status w = Some (s i)
               \<and> wp_details w = (if i < length logs then Some (fl_details (logs ! i)) else None)
               \<and> wp_transactionHash w = (if i < length logs then Some (fl_transactionHash (logs ! i)) else None))) \<and>
         (\<forall>k. useProposal k d = None))"
proof -
  let ?ps = "None # map (\<lambda>i. Some (p i)) [1..<Suc n]" and ?ss = "None # map (\<lambda>i. Some (s i)) [1..<Suc n]"
  let ?d = "useAllProposalsViaChain ?ps ?ss delay (Some logs)"
  have data: "da_data ?d = map (\<lambda>(i, p). map_option (chain_web_proposal delay logs ?ss i) p) (enumerate 0 ?ps)"
    using assms(3) by (simp add: useAllProposalsViaChain_def)
  have entry: "da_data ?d ! i = Some (chain_web_proposal delay logs ?ss i (p i))" if "1 \<le> i" "i \<le> n" for i
    using that unfolding data
    by (subst nth_map) (auto simp: nth_enumerate_eq nth_Cons' nth_append simp del: upt_Suc)
  have state: "nth_opt ?ss i = Some (Some (s i))" if "1 \<le> i" "i \<le> n" for i
    using that by (auto simp: nth_opt_def nth_Cons' simp del: upt_Suc)
  have hole: "da_data ?d = None # tl (da_data ?d)"
    unfolding data by (simp add: enumerate_eq_zip upt_conv_Cons del: upt_Suc)
  then have "useProposal k ?d = None" for k
    unfolding useProposal_def by (metis find_proposal.simps(2))
  moreover have "length (da_data ?d) = Suc n" unfolding data by simp
  moreover have "da_data ?d ! 0 = None" using hole by (metis nth_Cons_0)
  moreover have "\<exists>w. da_data ?d ! i = Some w \<and> wp_id w = Some (show_nat (pc_id (p i)))
               \<and> wp_forCount w = Some (int (pc_forVotes (p i))) \<and> wp_status w = Some (s i)
               \<and> wp_details w = (if i < length logs then Some (fl_details (logs ! i)) else None)
               \<and> wp_transactionHash w = (if i < length logs then Some (fl_transactionHash (logs ! i)) else None)"
    if "1 \<le> i" "i \<le> n" for i
    unfolding entry [OF that] using state [OF that]
    by (auto simp: chain_web_proposal_def Let_def nth_opt_def simp del: upt_Suc)
  ultimately show ?thesis
    unfolding Let_def using fetch_chain_all [OF assms(1,2)] by blast
qed

definition demo_call_result :: "nat \<Rightarrow> proposal_call_result" where
  "demo_call_result i = \<lparr>pc_id = i, pc_abstainVotes = 0, pc_againstVotes = 0, pc_forVotes = i, pc_startBlock = 10,
     pc_endBlock = 20, pc_eta = 0, pc_proposalThreshold = 1, pc_proposer = ''0xA1'', pc_quorumVotes = 2\<rparr>"

definition demo_logs :: "formatted_log list" where
  "demo_logs = [\<lparr>fl_description = Some ''# One'', fl_transactionHash = ''0x01'', fl_details = []\<rparr>,
                \<lparr>fl_description = Some ''# Two'', fl_transactionHash = ''0x02'', fl_details = []\<rparr>]"

lemma chain_fallback_shifted_witness:
  "\<exists>ps ss w. fetch_chain (\<lambda>i. Some (demo_call_result i)) (\<lambda>i. Some ACTIVE) (countToIndices (Some 2)) [] [] = Some (ps, ss)
     \<and> da_data (useAllProposalsViaChain ps ss None (Some demo_logs)) ! 1 = Some w
     \<and> wp_id w = Some (show_nat 1) \<and> wp_transactionHash w = Some ''0x02''
     \<and> useProposal 1 (useAllProposalsViaChain ps ss None (Some demo_logs)) = None"
proof -
  have pre: "\<forall>i. 1 \<le> i \<and> i \<le> 2 \<longrightarrow> Some (demo_call_result i) = Some (demo_call_result i) \<and> Some ACTIVE = Some ((\<lambda>_. ACTIVE) i)"
    "0 < (2::nat)" "demo_logs \<noteq> []" by (simp_all add: demo_logs_def)
  obtain ps ss where f: "fetch_chain (\<lambda>i. Some (demo_call_result i)) (\<lambda>i. Some ACTIVE) (countToIndices (Some 2)) [] [] = Some (ps, ss)"
    and d: "\<forall>i. 1 \<le> i \<and> i \<le> 2 \<longrightarrow> (\<exists>w. da_data (useAllProposalsViaChain ps ss None (Some demo_logs)) ! i = Some w
        \<and> wp_id w = Some (show_nat (pc_id (demo_call_result i)))
        \<and> wp_transactionHash w = (if i < length demo_logs then Some (fl_transactionHash (demo_logs ! i)) else None))"
    and u: "\<forall>k. useProposal k (useAllProposalsViaChain ps ss None (Some demo_logs)) = None"
    using chain_fallback_shifted [OF pre, of None] unfolding Let_def by metis
  from d [THEN spec [of _ 1]] f u show ?thesis
    by (auto simp: demo_logs_def demo_call_result_def)
qed

section \<open>Titles and details\<close>

lemma takeWhile_marks: "r = [] \<or> hd r \<noteq> c \<Longrightarrow> takeWhile (\<lambda>x. x = c) (replicate k c @ r) = replicate k c"
  by (induction k) (cases r; simp)+

lemma hash_title:
  assumes "1 \<le> k" "k \<le> 6" and "t \<noteq> []" "\<not> is_space (hd t)" "NL \<notin> set t"
  shows "extractHashTitle (replicate k (CHR ''#'') @ '' '' @ t @ NL # rest) = Some t"
proof -
  obtain c cs where t: "t = c # cs" using assms(3) by (cases t) auto
  let ?r = "'' '' @ t @ NL # rest"
  have "dropWhile is_space (replicate k (CHR ''#'') @ ?r) = replicate k (CHR ''#'') @ ?r"
    using assms(1) by (cases k) (simp_all add: is_space_def)
  moreover have "takeWhile (\<lambda>x. x = CHR ''#'') (replicate k (CHR ''#'') @ ?r) = replicate k (CHR ''#'')"
    by (rule takeWhile_marks) simp
  moreover have "takeWhile is_space ?r = '' ''" "dropWhile is_space ?r = t @ NL # rest"
    using assms(4) t by (simp_all add: is_space_def)
  moreover have "takeWhile (\<lambda>c. c \<noteq> NL) (t @ NL # rest) = t"
    using assms(5) by (subst takeWhile_append2) auto
  ultimately show ?thesis using assms(1,2) t unfolding extractHashTitle_def Let_def by simp
qed

text \<open>
  A proposal's title is its first markdown heading.  A description that starts with one to six
  \<open>#\<close>, a space and a line of text that begins with no white space is titled by that line; one
  whose first line is underlined by \<open>===\<close> or \<open>---\<close>, and has no \<open>#\<close> heading, is titled by that line;
  in both cases with the marks for bold and italics taken out of it.
\<close>

theorem title_is_first_heading:
  assumes "1 \<le> k" "k \<le> 6" and "t \<noteq> []" "\<not> is_space (hd t)" "NL \<notin> set t"
      and "u \<in> {''==='', ''---''}"
  shows "proposal_title (Some (replicate k (CHR ''#'') @ '' '' @ t @ NL # rest)) =
           remove_pairs (CHR ''*'') (remove_pairs (CHR ''_'') t)
       \<and> (hd t \<noteq> CHR ''#'' \<longrightarrow>
           proposal_title (Some (t @ NL # u @ rest)) = remove_pairs (CHR ''*'') (remove_pairs (CHR ''_'') t))"
proof -
  obtain c cs where t: "t = c # cs" using assms(3) by (cases t) auto
  have hash: "extractHashTitle (replicate k (CHR ''#'') @ '' '' @ t @ NL # rest) = Some t"
    using assms(1-5) by (rule hash_title)
  have equal: "extractHashTitle (t @ NL # u @ rest) = None \<and> extractEqualTitle (t @ NL # u @ rest) = Some t"
    if "hd t \<noteq> CHR ''#''"
  proof -
    have "takeWhile (\<lambda>c. c \<noteq> NL) (t @ NL # u @ rest) = t"
      using assms(5) by (subst takeWhile_append2) auto
    with assms(3,6) have "underlined (t @ NL # u @ rest) = Some t" by (auto simp: underlined_def)
    with that assms(4) t show ?thesis by (simp add: extractHashTitle_def extractEqualTitle_def)
  qed
  show ?thesis
    using hash equal assms(1) t
    by (auto simp: proposal_title_def extractTitle_def removeMarkdownStyle_def removeBold_def removeItalics_def)
qed

lemma title_is_first_heading_witness:
  "proposal_title (Some (''## **Fund** the alps'' @ NL # ''body'')) = ''Fund the alps''"
proof -
  have c: "1 \<le> (2::nat)" "2 \<le> (6::nat)" "''**Fund** the alps'' \<noteq> []" "\<not> is_space (hd ''**Fund** the alps'')"
    "NL \<notin> set ''**Fund** the alps''" "''==='' \<in> {''==='', ''---''}"
    by (simp_all add: is_space_def NL_def)
  from conjunct1 [OF title_is_first_heading [OF c, of "''body''"]] show ?thesis by (simp add: numeral_2_eq_2)
qed

definition plain_name :: "string \<Rightarrow> bool" where
  "plain_name n \<longleftrightarrow> n \<noteq> [] \<and> CHR ''('' \<notin> set n"

definition shows_transaction :: "libs \<Rightarrow> transaction_details \<Rightarrow> nat \<Rightarrow> proposal_detail \<Rightarrow> bool" where
  "shows_transaction L d i pd \<longleftrightarrow>
     (let sig = td_signatures d ! i; value = the (lib_from L (detail_value d i)) in
      pd_target pd = td_targets d ! i \<and>
      (sig = [] \<longrightarrow> pd_functionSig pd = ''transfer'' \<and> pd_callData pd = lib_formatEther L value @ '' ETH'') \<and>
      (\<forall>name. plain_name name \<longrightarrow> sig = name @ ''()'' \<longrightarrow>
         pd_functionSig pd = name \<and> pd_callData pd = lib_formatEther L value @ '' ETH'') \<and>
      (\<forall>name types. plain_name name \<longrightarrow> plain_name types \<longrightarrow> sig = name @ ''('' @ types @ '')'' \<longrightarrow>
         pd_functionSig pd = name \<and>
         pd_callData pd = js_join '','' (the (lib_decode L (js_split (CHR '','') types) (td_calldatas d ! i))) \<and>
         pd_value pd = Some (if value > 0 then ''{ value: '' @ lib_formatEther L value @ '' ETH }'' else [])))"

lemma js_substring_butlast: "js_substring s 0 (int (length s) - 1) = butlast s"
  by (simp add: js_substring_def clamp_index_def butlast_conv_take nat_diff_distrib' min_def Let_def)

lemma split_signature_empty: "split_signature [] = ([], None)"
  using js_substring_butlast [of "[]"] by (simp add: split_signature_def)

lemma split_signature_args:
  assumes "plain_name name" "CHR ''('' \<notin> set types"
  shows "split_signature (name @ ''('' @ types @ '')'') = (name, Some types)"
proof -
  have b: "butlast (name @ ''('' @ types @ '')'') = name @ CHR ''('' # types" by (simp add: butlast_append)
  show ?thesis
    using assms unfolding split_signature_def js_substring_butlast b
    by (simp add: js_split_append_sep js_split_no_sep plain_name_def)
qed

lemma format_detail_shows:
  assumes "format_detail L d i (td_targets d ! i) = Some pd"
  shows "i < length (td_signatures d) \<and> lib_from L (detail_value d i) \<noteq> None \<and> shows_transaction L d i pd"
proof -
  have i: "i < length (td_signatures d)"
    using assms by (auto simp: format_detail_def nth_opt_def split: option.splits if_splits)
  then obtain w where v: "lib_from L (detail_value d i) = Some w"
    using assms by (auto simp: format_detail_def nth_opt_def split: option.splits)
  let ?sig = "td_signatures d ! i"
  note fmt = assms [unfolded format_detail_def nth_opt_def v, simplified i if_True option.case prod.case]
  have target: "pd_target pd = td_targets d ! i"
    using fmt i by (auto split: prod.splits option.splits if_splits)
  have none: "pd_functionSig pd = ''transfer'' \<and> pd_callData pd = lib_formatEther L w @ '' ETH''" if "?sig = []"
    using fmt i that by (auto simp: split_signature_empty)
  have no_args: "pd_functionSig pd = name \<and> pd_callData pd = lib_formatEther L w @ '' ETH''"
    if "plain_name name" "?sig = name @ ''()''" for name
    using fmt i that split_signature_args [of name "[]"] by (auto simp: plain_name_def)
  have args: "pd_functionSig pd = name \<and>
         pd_callData pd = js_join '','' (the (lib_decode L (js_split (CHR '','') types) (td_calldatas d ! i))) \<and>
         pd_value pd = Some (if w > 0 then ''{ value: '' @ lib_formatEther L w @ '' ETH }'' else [])"
    if "plain_name name" "plain_name types" "?sig = name @ ''('' @ types @ '')''" for name types
    using fmt i that split_signature_args [of name types]
    by (auto simp: plain_name_def bind_eq_Some_conv nth_opt_def split: option.splits if_splits)
  show ?thesis
    unfolding shows_transaction_def Let_def v option.sel using i target none no_args args by blast
qed

text \<open>
  The details of a proposal list its transactions one for one, in order.  Whenever they can be
  formatted, every target has an entry at its position: a transaction without a signature reads
  "transfer" with the amount of ETH, one with the signature \<open>name()\<close> its name and (although it is
  a call) an amount of ETH, one with \<open>name(types)\<close> its name, the decoded arguments and the value
  when there is one; and every target had a signature and a valid value.
\<close>

theorem details_in_order:
  assumes "formatProposalTransactionDetails L d = Some ds"
  shows "length ds = length (td_targets d)
       \<and> (\<forall>i < length ds. i < length (td_signatures d) \<and> lib_from L (detail_value d i) \<noteq> None
            \<and> shows_transaction L d i (ds ! i))"
proof -
  have m: "map (\<lambda>(i, target). format_detail L d i target) (enumerate 0 (td_targets d)) = map Some ds"
    using assms by (simp add: formatProposalTransactionDetails_def those_eq_Some)
  from arg_cong [OF m, of length] have len: "length ds = length (td_targets d)" by simp
  moreover have "format_detail L d i (td_targets d ! i) = Some (ds ! i)" if "i < length ds" for i
    using arg_cong [OF m, of "\<lambda>xs. xs ! i"] that len by (simp add: nth_enumerate_eq)
  ultimately show ?thesis using format_detail_shows by blast
qed

definition demo_details :: transaction_details where
  "demo_details = \<lparr>td_targets = [''0xT1'', ''0xT2''], td_values = Some [''3'', ''0''], td_result3 = None,
     td_signatures = [[], ''mint(uint256)''], td_calldatas = [[], ''0x07'']\<rparr>"

lemma details_in_order_witness:
  "\<exists>ds. formatProposalTransactionDetails demo_libs demo_details = Some ds \<and> length ds = 2
      \<and> shows_transaction demo_libs demo_details 0 (ds ! 0) \<and> shows_transaction demo_libs demo_details 1 (ds ! 1)"
proof -
  have "\<not> Option.is_none (formatProposalTransactionDetails demo_libs demo_details)" by code_simp
  then obtain ds where ds: "formatProposalTransactionDetails demo_libs demo_details = Some ds"
    by (auto simp: Option.is_none_def)
  from details_in_order [OF ds] ds show ?thesis by (auto simp: demo_details_def)
qed

end
