(* ===== verification/Deploy.thy ===== *)
theory Deploy
  imports Prelude
begin

text \<open>
  The deployment tasks of \<open>packages/nouns-contracts/tasks\<close>: \<open>deploy\<close>, \<open>deploy-short-times\<close> (and its
  DAO v1 variant), \<open>deploy-local\<close>, \<open>deploy-descriptor-v2\<close>, and what \<open>deploy-and-configure\<close> does with
  the result.  Contracts refer to each other by address, some before they exist: such an address is
  computed from the deployer's transaction count and a fixed offset.  The chain is its count and
  the contracts created; \<open>getContractAddress\<close> of \<open>ethers\<close> and the failures of the network are
  fields of the environment.
\<close>

section \<open>Contracts and arguments\<close>

datatype contract_name =
    NFTDescriptorV2 | SVGRenderer | AlpsAttribute | AlpsDescriptorV2 | Inflator | AlpsArt | AlpsSeeder
  | AlpsToken | AlpsAuctionHouse | AlpsAuctionHouseProxyAdmin | AlpsAuctionHouseProxy | AlpsDAOExecutor
  | AlpsDAOLogicV1 | AlpsDAOProxy | AlpsDAOLogicV2 | AlpsDAOProxyV2
  | AlpsDAOExecutorTest | AlpsDAOLogicV1Harness | AlpsDAOLogicV2Harness | WETH | Multicall2

text \<open>A constructor argument: a constant, or a function read when the contract's turn comes.\<close>

datatype arg =
    Text string
  | Num int
  | AddressOf contract_name
  | Initialize "arg list"
  | QuorumParams int int string

datatype arg_value = VText string | VNum int | VCalldata "arg_value list" | VQuorumParams int int string

record deployed_contract =
  dc_name :: contract_name
  dc_address :: string
  dc_constructorArguments :: "arg_value list"
  dc_libraries :: "(contract_name \<times> string) list"

type_synonym deployment = "contract_name \<rightharpoonup> deployed_contract"

record contract_deployment =
  cd_name :: contract_name
  cd_factory :: contract_name
  cd_args :: "arg list"
  cd_libraries :: "contract_name list"
  cd_waitForConfirmation :: bool
  cd_expected :: "string option"  \<comment> \<open>the address \<open>validateDeployment\<close> expects\<close>

record chain =
  ch_nonce :: nat
  ch_created :: "(contract_name \<times> string) list"

record deploy_env =
  de_deployer :: string
  de_getContractAddress :: "string \<Rightarrow> nat \<Rightarrow> string"
  de_fails :: "contract_name \<Rightarrow> bool"  \<comment> \<open>a factory, estimate or transaction that rejects\<close>

datatype deploy_error =
    NoWethContract
  | NotDeployed
  | TransactionFailed contract_name
  | UnexpectedAddress contract_name string string

text \<open>\<open>deployment.X.address\<close> throws (\<open>None\<close>) when \<open>X\<close> has not been deployed.\<close>

definition address_of :: "deployment \<Rightarrow> contract_name \<Rightarrow> string option" where
  "address_of d c = map_option dc_address (d c)"

fun eval_arg :: "deployment \<Rightarrow> arg \<Rightarrow> arg_value option" where
  "eval_arg d (Text s) = Some (VText s)"
| "eval_arg d (Num n) = Some (VNum n)"
| "eval_arg d (AddressOf c) = map_option VText (address_of d c)"
| "eval_arg d (Initialize as) = map_option VCalldata (those (map (eval_arg d) as))"
| "eval_arg d (QuorumParams a b q) = Some (VQuorumParams a b q)"

definition eval_args :: "deployment \<Rightarrow> arg list \<Rightarrow> arg_value list option" where
  "eval_args d as = those (map (eval_arg d) as)"

definition eval_libraries :: "deployment \<Rightarrow> contract_name list \<Rightarrow> (contract_name \<times> string) list option" where
  "eval_libraries d cs = those (map (\<lambda>c. map_option (Pair c) (address_of d c)) cs)"

section \<open>Deploying\<close>

text \<open>A creation takes the next transaction count, which determines its address.\<close>

definition send_creation :: "deploy_env \<Rightarrow> contract_name \<Rightarrow> chain \<Rightarrow> string \<times> chain" where
  "send_creation env factory ch =
     (let address = de_getContractAddress env (de_deployer env) (ch_nonce ch)
      in (address, \<lparr>ch_nonce = ch_nonce ch + 1, ch_created = ch_created ch @ [(factory, address)]\<rparr>))"

definition lowercase :: "string \<Rightarrow> string" where
  "lowercase = map (\<lambda>c. let n = of_char c :: nat in if 65 \<le> n \<and> n \<le> 90 then char_of (n + 32) else c)"

text \<open>The prompt declares the property \<open>confirm\<close>; the code then reads \<open>operation\<close> of the result.\<close>

definition confirm_prompt :: "string \<Rightarrow> (string, string) jsmap" where
  "confirm_prompt typed = [(''confirm'', typed)]"

text \<open>The loop of \<open>deploy\<close>.  \<open>Inr None\<close> is the early return of \<open>EXIT\<close>.\<close>

fun deploy_loop ::
  "deploy_env \<Rightarrow> bool \<Rightarrow> (contract_name \<Rightarrow> string) \<Rightarrow> contract_deployment list \<Rightarrow> chain \<Rightarrow> deployment \<Rightarrow>
   (deploy_error + deployment option) \<times> chain" where
  "deploy_loop env auto typed [] ch d = (Inr (Some d), ch)"
| "deploy_loop env auto typed (c # cs) ch d =
     (let name = cd_name c; result = confirm_prompt (typed name) in
      case (eval_libraries d (cd_libraries c), eval_args d (cd_args c)) of
        (Some libs, Some vs) \<Rightarrow>
          if de_fails env name then (Inl (TransactionFailed name), ch)
          else if \<not> auto \<and> jm_get result ''operation'' = Some ''SKIP'' then deploy_loop env auto typed cs ch d
          else if \<not> auto \<and> jm_get result ''operation'' = Some ''EXIT'' then (Inr None, ch)
          else
            (case send_creation env (cd_factory c) ch of (address, ch') \<Rightarrow>
               let d' = d(name \<mapsto> \<lparr>dc_name = cd_factory c, dc_address = address,
                                    dc_constructorArguments = vs, dc_libraries = libs\<rparr>)
               in case cd_expected c of
                    None \<Rightarrow> deploy_loop env auto typed cs ch' d'
                  | Some e \<Rightarrow>
                      if lowercase e \<noteq> lowercase address
                      then (Inl (UnexpectedAddress name (lowercase e) (lowercase address)), ch')
                      else deploy_loop env auto typed cs ch' d')
      | _ \<Rightarrow> (Inl NotDeployed, ch))"

definition plain :: "contract_name \<Rightarrow> arg list \<Rightarrow> contract_deployment" where
  "plain n as = \<lparr>cd_name = n, cd_factory = n, cd_args = as, cd_libraries = [], cd_waitForConfirmation = False,
                 cd_expected = None\<rparr>"

record deploy_args =
  ar_autoDeploy :: bool
  ar_weth :: "string option"
  ar_dao :: "string option"  \<comment> \<open>\<open>noundersdao\<close> in \<open>deploy\<close>, \<open>alpersdao\<close> in the other tasks\<close>
  ar_auctionTimeBuffer :: int
  ar_auctionReservePrice :: string
  ar_auctionMinIncrementBidPercentage :: int
  ar_auctionDuration :: int
  ar_timelockDelay :: int
  ar_votingPeriod :: int
  ar_votingDelay :: int
  ar_proposalThresholdBps :: int
  ar_quorumVotesBps :: int
  ar_minQuorumVotesBPS :: int
  ar_maxQuorumVotesBPS :: int
  ar_quorumCoefficient :: string

definition proxyRegistries :: "nat \<rightharpoonup> string" where
  "proxyRegistries = [1 \<mapsto> ''0xa5409ec958c83c3f309868babaca7c86dcb077c1'',
                      4 \<mapsto> ''0xf57b2c51ded3a29e6891aba85459d600256cf317'']"

definition wethContracts :: "nat \<rightharpoonup> string" where
  "wethContracts = [1 \<mapsto> ''0xC02aaA39b223FE8D0A0e5C4F27eAD9083C756Cc2'',
                    3 \<mapsto> ''0xc778417e063141139fce010982780140aa0cd5ab'',
                    4 \<mapsto> ''0xc778417e063141139fce010982780140aa0cd5ab'',
                    42 \<mapsto> ''0xd0a1e359811322d97991e03f863a0c30c2cf029c'',
                    5 \<mapsto> ''0xB4FBF271143F4FBf7B91A5ded31805e42b2208d6'']"

definition proxy_registry :: "nat \<Rightarrow> string" where
  "proxy_registry chainId = (case proxyRegistries chainId of None \<Rightarrow> the (proxyRegistries 4) | Some r \<Rightarrow> r)"

definition or_default :: "string option \<Rightarrow> string \<Rightarrow> string" where
  "or_default given d = (case given of None \<Rightarrow> d | Some s \<Rightarrow> if s = [] then d else s)"

definition detect_weth :: "string option \<Rightarrow> nat \<Rightarrow> string option" where
  "detect_weth weth chainId = (case weth of Some w \<Rightarrow> if w = [] then wethContracts chainId else Some w
                                          | None \<Rightarrow> wethContracts chainId)"

definition initialize_args :: "arg \<Rightarrow> deploy_args \<Rightarrow> arg" where
  "initialize_args weth a =
     Initialize [AddressOf AlpsToken, weth, Num (ar_auctionTimeBuffer a), Text (ar_auctionReservePrice a),
                 Num (ar_auctionMinIncrementBidPercentage a), Num (ar_auctionDuration a)]"

text \<open>The record \<open>contracts\<close>, up to the token: the same in the three tasks but for the second argument
  of \<open>AlpsArt\<close>.\<close>

definition art_contracts :: "string \<Rightarrow> contract_name \<Rightarrow> contract_deployment list" where
  "art_contracts expectedArt second =
     [plain NFTDescriptorV2 [],
      plain SVGRenderer [],
      plain AlpsAttribute [],
      (plain AlpsDescriptorV2 [Text expectedArt, AddressOf SVGRenderer, AddressOf AlpsAttribute])
        \<lparr>cd_libraries := [NFTDescriptorV2]\<rparr>,
      plain Inflator [],
      plain AlpsArt [AddressOf AlpsDescriptorV2, AddressOf second],
      plain AlpsSeeder []]"

definition token_contracts ::
  "string \<Rightarrow> string \<Rightarrow> string \<Rightarrow> string \<Rightarrow> deploy_args \<Rightarrow> contract_deployment list" where
  "token_contracts dao expectedProxy registry weth a =
     [plain AlpsToken [Text dao, Text expectedProxy, AddressOf AlpsDescriptorV2, AddressOf AlpsSeeder, Text registry],
      (plain AlpsAuctionHouse [])\<lparr>cd_waitForConfirmation := True\<rparr>,
      plain AlpsAuctionHouseProxyAdmin [],
      (plain AlpsAuctionHouseProxy [AddressOf AlpsAuctionHouse, AddressOf AlpsAuctionHouseProxyAdmin,
                                    initialize_args (Text weth) a])
        \<lparr>cd_waitForConfirmation := True, cd_expected := Some expectedProxy\<rparr>]"

definition dao_contracts ::
  "contract_name \<Rightarrow> contract_name \<Rightarrow> (contract_name \<Rightarrow> contract_name) \<Rightarrow> string \<Rightarrow> string \<Rightarrow> arg \<Rightarrow> deploy_args \<Rightarrow>
   contract_deployment list" where
  "dao_contracts logic proxy nameForFactory dao expectedDAO quorum a =
     [(plain AlpsDAOExecutor [Text expectedDAO, Num (ar_timelockDelay a)])
        \<lparr>cd_factory := nameForFactory AlpsDAOExecutor\<rparr>,
      (plain logic [])\<lparr>cd_factory := nameForFactory logic, cd_waitForConfirmation := True\<rparr>,
      (plain proxy [AddressOf AlpsDAOExecutor, AddressOf AlpsToken, Text dao, AddressOf AlpsDAOExecutor,
                    AddressOf logic, Num (ar_votingPeriod a), Num (ar_votingDelay a),
                    Num (ar_proposalThresholdBps a), quorum])
        \<lparr>cd_waitForConfirmation := True, cd_expected := Some expectedDAO\<rparr>]"

text \<open>The offsets from the transaction count: art, auction house proxy, DAO proxy.\<close>

definition deploy_offsets :: "nat \<times> nat \<times> nat" where
  "deploy_offsets = (5, 10, 13)"

definition short_times_offsets :: "nat \<times> nat \<times> nat" where
  "short_times_offsets = (4, 9, 12)"

definition run_deploy ::
  "deploy_env \<Rightarrow> nat \<times> nat \<times> nat \<Rightarrow> contract_name \<Rightarrow> contract_name \<Rightarrow> contract_name \<Rightarrow>
   (contract_name \<Rightarrow> contract_name) \<Rightarrow> (deploy_args \<Rightarrow> arg) \<Rightarrow> nat \<Rightarrow> deploy_args \<Rightarrow> (contract_name \<Rightarrow> string) \<Rightarrow>
   chain \<Rightarrow> (deploy_error + deployment option) \<times> chain" where
  "run_deploy env offsets second logic proxy nameForFactory quorum chainId a typed ch =
     (let dao = or_default (ar_dao a) (de_deployer env) in
      case detect_weth (ar_weth a) chainId of
        None \<Rightarrow> (Inl NoWethContract, ch)
      | Some weth \<Rightarrow>
          (case offsets of (artOffset, houseOffset, daoOffset) \<Rightarrow>
             let nonce = ch_nonce ch;
                 expected = (\<lambda>k. de_getContractAddress env (de_deployer env) (nonce + k));
                 contracts = art_contracts (expected artOffset) second
                   @ token_contracts dao (expected houseOffset) (proxy_registry chainId) weth a
                   @ dao_contracts logic proxy nameForFactory dao (expected daoOffset) (quorum a) a
             in deploy_loop env (ar_autoDeploy a) typed contracts ch Map.empty))"

definition deploy ::
  "deploy_env \<Rightarrow> nat \<Rightarrow> deploy_args \<Rightarrow> (contract_name \<Rightarrow> string) \<Rightarrow> chain \<Rightarrow> (deploy_error + deployment option) \<times> chain" where
  "deploy env = run_deploy env deploy_offsets Inflator AlpsDAOLogicV1 AlpsDAOProxy (\<lambda>n. n) (\<lambda>a. Num (ar_quorumVotesBps a))"

definition nameForFactoryV2 :: "contract_name \<Rightarrow> contract_name" where
  "nameForFactoryV2 n =
     (case n of AlpsDAOExecutor \<Rightarrow> AlpsDAOExecutorTest | AlpsDAOLogicV2 \<Rightarrow> AlpsDAOLogicV2Harness | _ \<Rightarrow> n)"

definition deploy_short_times ::
  "deploy_env \<Rightarrow> nat \<Rightarrow> deploy_args \<Rightarrow> (contract_name \<Rightarrow> string) \<Rightarrow> chain \<Rightarrow> (deploy_error + deployment option) \<times> chain" where
  "deploy_short_times env =
     run_deploy env short_times_offsets AlpsAttribute AlpsDAOLogicV2 AlpsDAOProxyV2 nameForFactoryV2
       (\<lambda>a. QuorumParams (ar_minQuorumVotesBPS a) (ar_maxQuorumVotesBPS a) (ar_quorumCoefficient a))"

definition nameForFactoryV1 :: "contract_name \<Rightarrow> contract_name" where
  "nameForFactoryV1 n =
     (case n of AlpsDAOExecutor \<Rightarrow> AlpsDAOExecutorTest | AlpsDAOLogicV1 \<Rightarrow> AlpsDAOLogicV1Harness | _ \<Rightarrow> n)"

definition deploy_short_times_daov1 ::
  "deploy_env \<Rightarrow> nat \<Rightarrow> deploy_args \<Rightarrow> (contract_name \<Rightarrow> string) \<Rightarrow> chain \<Rightarrow> (deploy_error + deployment option) \<times> chain" where
  "deploy_short_times_daov1 env =
     run_deploy env short_times_offsets Inflator AlpsDAOLogicV1 AlpsDAOProxy nameForFactoryV1
       (\<lambda>a. Num (ar_quorumVotesBps a))"

section \<open>The local deployment\<close>

text \<open>\<open>deploy-local\<close> has its own loop, without prompts and without validation; its chain check comes
  first (\<open>Inr None\<close>).  Its contracts start with \<open>WETH\<close>.  An address read before its contract exists is
  \<open>undefined\<close>, which the contract factory rejects.\<close>

fun local_loop ::
  "deploy_env \<Rightarrow> contract_deployment list \<Rightarrow> chain \<Rightarrow> deployment \<Rightarrow> (deploy_error + deployment option) \<times> chain" where
  "local_loop env [] ch d = (Inr (Some d), ch)"
| "local_loop env (c # cs) ch d =
     (case (eval_libraries d (cd_libraries c), eval_args d (cd_args c)) of
        (Some libs, Some vs) \<Rightarrow>
          if de_fails env (cd_name c) then (Inl (TransactionFailed (cd_name c)), ch)
          else
            (case send_creation env (cd_factory c) ch of (address, ch') \<Rightarrow>
               local_loop env cs ch'
                 (d(cd_name c \<mapsto> \<lparr>dc_name = cd_name c, dc_address = address,
                                   dc_constructorArguments = vs, dc_libraries = libs\<rparr>)))
      | _ \<Rightarrow> (Inl NotDeployed, ch))"

definition local_contracts :: "deploy_env \<Rightarrow> (nat \<Rightarrow> string) \<Rightarrow> deploy_args \<Rightarrow> contract_deployment list" where
  "local_contracts env expected a =
     (let dao = or_default (ar_dao a) (de_deployer env) in
      [plain WETH []]
      @ art_contracts (expected 5) Inflator
      @ [plain AlpsToken [Text dao, Text (expected 10), AddressOf AlpsDescriptorV2, AddressOf AlpsSeeder,
                          Text ''0xa5409ec958c83c3f309868babaca7c86dcb077c1''],
         (plain AlpsAuctionHouse [])\<lparr>cd_waitForConfirmation := True\<rparr>,
         plain AlpsAuctionHouseProxyAdmin [],
         plain AlpsAuctionHouseProxy [AddressOf AlpsAuctionHouse, AddressOf AlpsAuctionHouseProxyAdmin,
                                      initialize_args (AddressOf WETH) a],
         plain AlpsDAOExecutor [Text (expected 13), Num (ar_timelockDelay a)],
         (plain AlpsDAOLogicV2 [])\<lparr>cd_waitForConfirmation := True\<rparr>,
         (plain AlpsDAOProxyV2 [AddressOf AlpsDAOExecutor, AddressOf AlpsToken, Text dao, AddressOf AlpsDAOExecutor,
            AddressOf AlpsDAOLogicV2, Num (ar_votingPeriod a), Num (ar_votingDelay a), Num (ar_proposalThresholdBps a),
            QuorumParams (ar_minQuorumVotesBPS a) (ar_maxQuorumVotesBPS a) (ar_quorumCoefficient a)])
           \<lparr>cd_waitForConfirmation := True\<rparr>,
         plain Multicall2 []])"

definition deploy_local :: "deploy_env \<Rightarrow> nat \<Rightarrow> deploy_args \<Rightarrow> chain \<Rightarrow> (deploy_error + deployment option) \<times> chain" where
  "deploy_local env chainId a ch =
     (if chainId \<noteq> 31337 then (Inr None, ch)
      else local_loop env
             (local_contracts env (\<lambda>k. de_getContractAddress env (de_deployer env) (ch_nonce ch + k)) a) ch Map.empty)"

text \<open>\<open>deploy-descriptor-v2\<close> deploys the art contracts one by one, with the fixed offset 4, and records
  the descriptor's constructor arguments without the third.\<close>

definition descriptor_v2_contracts :: "string \<Rightarrow> contract_deployment list" where
  "descriptor_v2_contracts expectedArt =
     [plain NFTDescriptorV2 [],
      plain SVGRenderer [],
      plain AlpsAttribute [],
      (plain AlpsDescriptorV2 [Text expectedArt, AddressOf SVGRenderer, AddressOf AlpsAttribute])
        \<lparr>cd_libraries := [NFTDescriptorV2]\<rparr>,
      plain Inflator [],
      plain AlpsArt [AddressOf AlpsDescriptorV2, AddressOf Inflator]]"

definition forget_attribute :: "deployed_contract \<Rightarrow> deployed_contract" where
  "forget_attribute x = x\<lparr>dc_constructorArguments := take 2 (dc_constructorArguments x)\<rparr>"

definition deploy_descriptor_v2 :: "deploy_env \<Rightarrow> chain \<Rightarrow> (deploy_error + deployment option) \<times> chain" where
  "deploy_descriptor_v2 env ch =
     (case local_loop env
             (descriptor_v2_contracts (de_getContractAddress env (de_deployer env) (ch_nonce ch + 4))) ch Map.empty of
        (Inr (Some d), ch') \<Rightarrow>
          (Inr (Some (d(AlpsDescriptorV2 := map_option forget_attribute (d AlpsDescriptorV2)))), ch')
      | r \<Rightarrow> r)"

section \<open>What a deployment must satisfy\<close>

definition argument :: "deployment \<Rightarrow> contract_name \<Rightarrow> nat \<Rightarrow> arg_value option" where
  "argument d c i =
     (case d c of
        None \<Rightarrow> None
      | Some x \<Rightarrow> if i < length (dc_constructorArguments x) then Some (dc_constructorArguments x ! i) else None)"

definition points_to :: "deployment \<Rightarrow> contract_name \<Rightarrow> nat \<Rightarrow> contract_name \<Rightarrow> bool" where
  "points_to d c i target \<longleftrightarrow> d target \<noteq> None \<and> argument d c i = map_option VText (address_of d target)"

text \<open>Every constructor that takes the address of another contract was given that contract's address.\<close>

definition art_wired :: "deployment \<Rightarrow> bool" where
  "art_wired d \<longleftrightarrow>
     points_to d AlpsDescriptorV2 0 AlpsArt \<and> points_to d AlpsDescriptorV2 1 SVGRenderer \<and>
     points_to d AlpsDescriptorV2 2 AlpsAttribute \<and> points_to d AlpsArt 0 AlpsDescriptorV2 \<and>
     points_to d AlpsArt 1 Inflator"

definition token_wired :: "deployment \<Rightarrow> bool" where
  "token_wired d \<longleftrightarrow>
     points_to d AlpsToken 1 AlpsAuctionHouseProxy \<and> points_to d AlpsToken 2 AlpsDescriptorV2 \<and>
     points_to d AlpsToken 3 AlpsSeeder \<and> points_to d AlpsAuctionHouseProxy 0 AlpsAuctionHouse \<and>
     points_to d AlpsAuctionHouseProxy 1 AlpsAuctionHouseProxyAdmin"

definition dao_wired :: "deployment \<Rightarrow> contract_name \<Rightarrow> contract_name \<Rightarrow> bool" where
  "dao_wired d logic proxy \<longleftrightarrow>
     points_to d AlpsDAOExecutor 0 proxy \<and> points_to d proxy 0 AlpsDAOExecutor \<and>
     points_to d proxy 1 AlpsToken \<and> points_to d proxy 3 AlpsDAOExecutor \<and> points_to d proxy 4 logic"

lemma confirm_not_operation [simp]: "jm_get (confirm_prompt s) ''operation'' = None"
  by (simp add: confirm_prompt_def jm_get_def)

lemmas contract_defs = plain_def art_contracts_def token_contracts_def dao_contracts_def initialize_args_def

lemmas loop_defs = eval_args_def eval_libraries_def address_of_def send_creation_def

text \<open>
  C18. \<open>deploy\<close> wires the contracts together.  When the network accepts every transaction and WETH
  is known, the task succeeds with fourteen transactions, whatever was typed at the prompts, and
  every constructor has the address of the contract it was meant to have: in particular the three
  addresses predicted from the transaction count (of the art for the descriptor, of the auction
  house proxy for the token, of the DAO proxy for the executor) are those of the contracts
  deployed later.
\<close>

theorem deploy_wires_contracts:
  assumes "\<forall>c. \<not> de_fails env c" and "detect_weth (ar_weth a) chainId = Some weth"
  shows "\<exists>d. fst (deploy env chainId a typed ch) = Inr (Some d) \<and> art_wired d \<and> token_wired d
           \<and> dao_wired d AlpsDAOLogicV1 AlpsDAOProxy
           \<and> ch_nonce (snd (deploy env chainId a typed ch)) = ch_nonce ch + 14"
  using assms
  by (simp add: deploy_def run_deploy_def deploy_offsets_def contract_defs loop_defs Let_def
      art_wired_def token_wired_def dao_wired_def points_to_def argument_def numeral_eq_Suc)

lemma deploy_addresses:
  fixes env :: deploy_env and ch :: chain
  assumes "\<forall>c. \<not> de_fails env c" and "detect_weth (ar_weth a) chainId = Some weth"
  defines "at \<equiv> \<lambda>k. Some (de_getContractAddress env (de_deployer env) (ch_nonce ch + k))"
  shows "\<exists>d. fst (deploy env chainId a typed ch) = Inr (Some d)
           \<and> address_of d NFTDescriptorV2 = at 0 \<and> address_of d AlpsDescriptorV2 = at 3 \<and> address_of d AlpsToken = at 7
           \<and> address_of d AlpsAuctionHouseProxyAdmin = at 9 \<and> address_of d AlpsAuctionHouseProxy = at 10
           \<and> address_of d AlpsDAOExecutor = at 11"
  using assms(1,2)
  by (simp add: at_def deploy_def run_deploy_def deploy_offsets_def contract_defs loop_defs Let_def numeral_eq_Suc)

definition demo_env :: deploy_env where
  "demo_env = \<lparr>de_deployer = ''0xd0'', de_getContractAddress = (\<lambda>who n. who @ ''/'' @ show_nat n), de_fails = (\<lambda>_. False)\<rparr>"

definition demo_args :: deploy_args where
  "demo_args = \<lparr>ar_autoDeploy = False, ar_weth = None, ar_dao = None, ar_auctionTimeBuffer = 180,
     ar_auctionReservePrice = ''80000000000000000'', ar_auctionMinIncrementBidPercentage = 2, ar_auctionDuration = 10800,
     ar_timelockDelay = 172800, ar_votingPeriod = 28800, ar_votingDelay = 21600, ar_proposalThresholdBps = 100,
     ar_quorumVotesBps = 1000, ar_minQuorumVotesBPS = 1000, ar_maxQuorumVotesBPS = 4000, ar_quorumCoefficient = ''1''\<rparr>"

definition demo_chain :: chain where
  "demo_chain = \<lparr>ch_nonce = 7, ch_created = []\<rparr>"

lemma demo_weth: "detect_weth (ar_weth demo_args) 4 = Some ''0xc778417e063141139fce010982780140aa0cd5ab''"
  by (simp add: demo_args_def detect_weth_def wethContracts_def)

lemma deploy_wires_contracts_witness:
  "\<exists>d. fst (deploy demo_env 4 demo_args (\<lambda>_. ''SKIP'') demo_chain) = Inr (Some d) \<and> token_wired d
     \<and> ch_nonce (snd (deploy demo_env 4 demo_args (\<lambda>_. ''SKIP'') demo_chain)) = 21"
proof -
  have "\<forall>c. \<not> de_fails demo_env c" by (simp add: demo_env_def)
  from deploy_wires_contracts [OF this demo_weth, of "\<lambda>_. ''SKIP''" demo_chain] show ?thesis
    by (auto simp: demo_chain_def)
qed

text \<open>
  The short-times deployments never complete.  Their offsets predate the attribute contract:
  when addresses of different transaction counts differ, \<open>deploy-short-times\<close> and its DAO v1 variant
  throw at the auction house proxy, whose address is not the predicted one, after eleven contracts
  have been created, with or without prompts.
\<close>

theorem short_times_always_throws:
  assumes "\<forall>c. \<not> de_fails env c" and "detect_weth (ar_weth a) chainId = Some weth"
    and "\<forall>m n. lowercase (de_getContractAddress env (de_deployer env) m) =
                lowercase (de_getContractAddress env (de_deployer env) n) \<longrightarrow> m = n"
  shows "\<exists>e e'. e \<noteq> e'
           \<and> fst (deploy_short_times env chainId a typed ch) = Inl (UnexpectedAddress AlpsAuctionHouseProxy e e')
           \<and> ch_nonce (snd (deploy_short_times env chainId a typed ch)) = ch_nonce ch + 11
           \<and> fst (deploy_short_times_daov1 env chainId a typed ch) = Inl (UnexpectedAddress AlpsAuctionHouseProxy e e')
           \<and> ch_nonce (snd (deploy_short_times_daov1 env chainId a typed ch)) = ch_nonce ch + 11"
proof -
  have ne: "lowercase (de_getContractAddress env (de_deployer env) (ch_nonce ch + 9)) \<noteq>
        lowercase (de_getContractAddress env (de_deployer env) (ch_nonce ch + 10))"
    using assms(3) by (metis add_left_cancel numeral_eq_iff semiring_norm(84,85,86,89,90))
  then show ?thesis
    using assms(1,2)
    by (simp add: deploy_short_times_def deploy_short_times_daov1_def run_deploy_def short_times_offsets_def
        contract_defs loop_defs Let_def numeral_eq_Suc)
qed

lemma demo_addresses_distinct:
  "\<forall>m n. lowercase (de_getContractAddress demo_env (de_deployer demo_env) m) =
         lowercase (de_getContractAddress demo_env (de_deployer demo_env) n) \<longrightarrow> m = n"
proof -
  have digit: "lowercase [digit_char k] = [digit_char k]" if "k < 10" for k
    using that lt16_cases [of k] by (auto simp: lowercase_def digit_char_def)
  have "lowercase (show_nat n) = show_nat n" for n
  proof -
    have "\<forall>c\<in>set (show_nat n). lowercase [c] = [c]" using set_show_nat digit by blast
    then show ?thesis by (simp add: lowercase_def list.map_ident_strong)
  qed
  then show ?thesis by (simp add: demo_env_def lowercase_def)
qed

lemma short_times_always_throws_witness:
  "\<exists>e e'. e \<noteq> e' \<and> fst (deploy_short_times demo_env 4 demo_args (\<lambda>_. ''DEPLOY'') demo_chain)
      = Inl (UnexpectedAddress AlpsAuctionHouseProxy e e')"
proof -
  have "\<forall>c. \<not> de_fails demo_env c" by (simp add: demo_env_def)
  from short_times_always_throws [OF this demo_weth demo_addresses_distinct, of "\<lambda>_. ''DEPLOY''" demo_chain]
  show ?thesis by blast
qed

text \<open>
  Two deployments complete with wrong addresses, and nothing checks them.  \<open>deploy-local\<close> creates
  \<open>WETH\<close> first, so every later contract is one transaction further than its offset says: the
  descriptor takes the inflator for its art, the token's minter is the proxy admin and the
  executor's admin is the DAO logic.  \<open>deploy-descriptor-v2\<close> predicts the art one transaction early,
  so its descriptor takes the inflator for its art too, and what it later verifies lacks the third
  constructor argument.  The references that are not predictions are right.
\<close>

theorem local_deployment_miswired:
  assumes "\<forall>c. \<not> de_fails env c"
    and "\<forall>m n. de_getContractAddress env (de_deployer env) m = de_getContractAddress env (de_deployer env) n \<longrightarrow> m = n"
  shows "\<exists>d d'. fst (deploy_local env 31337 a ch) = Inr (Some d) \<and> fst (deploy_descriptor_v2 env ch) = Inr (Some d')
           \<and> \<not> points_to d AlpsDescriptorV2 0 AlpsArt \<and> points_to d AlpsDescriptorV2 0 Inflator
           \<and> \<not> points_to d AlpsToken 1 AlpsAuctionHouseProxy \<and> points_to d AlpsToken 1 AlpsAuctionHouseProxyAdmin
           \<and> \<not> points_to d AlpsDAOExecutor 0 AlpsDAOProxyV2 \<and> points_to d AlpsDAOExecutor 0 AlpsDAOLogicV2
           \<and> points_to d AlpsDescriptorV2 1 SVGRenderer \<and> points_to d AlpsArt 0 AlpsDescriptorV2
           \<and> points_to d AlpsToken 2 AlpsDescriptorV2 \<and> points_to d AlpsAuctionHouseProxy 0 AlpsAuctionHouse
           \<and> points_to d AlpsDAOProxyV2 0 AlpsDAOExecutor \<and> points_to d AlpsDAOProxyV2 1 AlpsToken
           \<and> \<not> points_to d' AlpsDescriptorV2 0 AlpsArt \<and> points_to d' AlpsDescriptorV2 0 Inflator
           \<and> points_to d' AlpsArt 0 AlpsDescriptorV2 \<and> argument d' AlpsDescriptorV2 2 = None"
proof -
  let ?a = "\<lambda>k. de_getContractAddress env (de_deployer env) k"
  have ne: "?a (n + k) \<noteq> ?a (Suc (n + k))" for n k using assms(2) by (metis n_not_Suc_n)
  have far: "?a (ch_nonce ch + 4) \<noteq> ?a (Suc (ch_nonce ch + 4))" "?a (ch_nonce ch + 5) \<noteq> ?a (Suc (ch_nonce ch + 5))"
    "?a (ch_nonce ch + 10) \<noteq> ?a (Suc (ch_nonce ch + 10))"
    "?a (ch_nonce ch + 13) \<noteq> ?a (Suc (ch_nonce ch + 13))" by (rule ne)+
  have run: "deploy_local env 31337 a ch = local_loop env (local_contracts env (\<lambda>k. ?a (ch_nonce ch + k)) a) ch Map.empty"
    by (simp add: deploy_local_def)
  have local: "\<exists>d. fst (deploy_local env 31337 a ch) = Inr (Some d)
           \<and> \<not> points_to d AlpsDescriptorV2 0 AlpsArt \<and> points_to d AlpsDescriptorV2 0 Inflator
           \<and> \<not> points_to d AlpsToken 1 AlpsAuctionHouseProxy \<and> points_to d AlpsToken 1 AlpsAuctionHouseProxyAdmin
           \<and> \<not> points_to d AlpsDAOExecutor 0 AlpsDAOProxyV2 \<and> points_to d AlpsDAOExecutor 0 AlpsDAOLogicV2
           \<and> points_to d AlpsDescriptorV2 1 SVGRenderer \<and> points_to d AlpsArt 0 AlpsDescriptorV2
           \<and> points_to d AlpsToken 2 AlpsDescriptorV2 \<and> points_to d AlpsAuctionHouseProxy 0 AlpsAuctionHouse
           \<and> points_to d AlpsDAOProxyV2 0 AlpsDAOExecutor \<and> points_to d AlpsDAOProxyV2 1 AlpsToken"
    unfolding run using assms(1) far
    by (simp add: local_contracts_def contract_defs loop_defs Let_def points_to_def argument_def numeral_eq_Suc)
  have "\<exists>d'. fst (deploy_descriptor_v2 env ch) = Inr (Some d')
           \<and> \<not> points_to d' AlpsDescriptorV2 0 AlpsArt \<and> points_to d' AlpsDescriptorV2 0 Inflator
           \<and> points_to d' AlpsArt 0 AlpsDescriptorV2 \<and> argument d' AlpsDescriptorV2 2 = None"
    unfolding deploy_descriptor_v2_def using assms(1) far
    by (simp add: descriptor_v2_contracts_def forget_attribute_def contract_defs loop_defs Let_def
        points_to_def argument_def numeral_eq_Suc)
  with local show ?thesis by blast
qed

theorem local_deployment_miswired_witness:
  "\<exists>d. fst (deploy_local demo_env 31337 demo_args demo_chain) = Inr (Some d)
     \<and> \<not> points_to d AlpsToken 1 AlpsAuctionHouseProxy"
proof -
  have 1: "\<forall>c. \<not> de_fails demo_env c" by (simp add: demo_env_def)
  have 2: "\<forall>m n. de_getContractAddress demo_env (de_deployer demo_env) m
              = de_getContractAddress demo_env (de_deployer demo_env) n \<longrightarrow> m = n"
    using demo_addresses_distinct by metis
  from local_deployment_miswired [OF 1 2, of demo_args demo_chain] show ?thesis by blast
qed

end
