(* ===== verification/Configure.thy ===== *)
theory Configure
  imports Deploy
begin

text \<open>
  What follows a deployment (\<open>packages/nouns-contracts/tasks\<close>): filling the descriptor with art,
  directly (\<open>populate-descriptor\<close>) or through a proposal (\<open>populate-descriptor-via-proposal\<close>), the
  trait names, the address book (\<open>update-configs\<close>), and \<open>deploy-and-configure\<close>, which runs these and
  hands the contracts over to the executor.  ABI encoding and deflate are arguments.
\<close>

section \<open>Art\<close>

record descriptor_page =
  encodedCompressed :: string
  originalLength :: nat
  itemCount :: nat

text \<open>\<open>encode\<close>: the ABI encoder on \<open>bytes[]\<close>, with its \<open>0x\<close>; \<open>deflate\<close>: raw deflate from hex to hex.\<close>

definition dataToDescriptorInput :: "(string list \<Rightarrow> string) \<Rightarrow> (string \<Rightarrow> string) \<Rightarrow> string list \<Rightarrow> descriptor_page" where
  "dataToDescriptorInput encode deflate data =
     (let abiEncoded = encode data
      in \<lparr>encodedCompressed = ''0x'' @ deflate (drop 2 abiEncoded),
          originalLength = length (drop 2 abiEncoded) div 2,
          itemCount = length data\<rparr>)"

datatype descriptor_call =
    AddManyBackgrounds "string list"
  | SetPalette nat string
  | AddBodies descriptor_page
  | AddHeads descriptor_page
  | AddGlasses descriptor_page
  | AddAccessories descriptor_page

record art_images =
  ai_bodies :: "string list"
  ai_accessories :: "string list"
  ai_heads :: "string list"
  ai_glasses :: "string list"

definition palette_bytes :: "string list \<Rightarrow> string" where
  "palette_bytes colors = ''0x000000'' @ concat colors"

definition populate_calls ::
  "(string list \<Rightarrow> descriptor_page) \<Rightarrow> string list \<Rightarrow> string list \<Rightarrow> art_images \<Rightarrow> descriptor_call list" where
  "populate_calls page bgcolors palette im =
     (let bodiesPage = page (ai_bodies im); headsPage = page (ai_heads im);
          glassesPage = page (ai_glasses im); accessoriesPage = page (ai_accessories im)
      in [AddManyBackgrounds bgcolors, SetPalette 0 (palette_bytes palette),
          AddBodies bodiesPage, AddHeads headsPage, AddGlasses glassesPage, AddAccessories accessoriesPage])"

text \<open>A task reads the parameters it declares; another argument of the caller is not one of them.\<close>

definition task_param :: "(string, string) jsmap \<Rightarrow> string \<Rightarrow> string \<Rightarrow> string" where
  "task_param given name dflt = (case jm_get given name of None \<Rightarrow> dflt | Some v \<Rightarrow> v)"

definition default_descriptor :: string where
  "default_descriptor = ''0x65Fe56A0cEE574375D1161C4ead1eF46470022BB''"

definition populate_target :: "(string, string) jsmap \<Rightarrow> string" where
  "populate_target given = task_param given ''nounsDescriptor'' default_descriptor"

section \<open>Art through a proposal\<close>

text \<open>Missing sections of the input are skipped.\<close>

record proposal_images =
  pi_bodies :: "string list option"
  pi_heads :: "string list option"
  pi_glasses :: "string list option"
  pi_accessories :: "string list option"

record proposal_art =
  pa_bgcolors :: "string list option"
  pa_palettes :: "(nat \<times> string list) list option"
  pa_images :: "proposal_images option"

record proposal_arrays =
  pr_targets :: "string list"
  pr_values :: "nat list"
  pr_signatures :: "string list"
  pr_calldatas :: "descriptor_call list"  \<comment> \<open>the call whose encoding is pushed\<close>

definition no_actions :: proposal_arrays where
  "no_actions = \<lparr>pr_targets = [], pr_values = [], pr_signatures = [], pr_calldatas = []\<rparr>"

definition push_action :: "string \<Rightarrow> string \<Rightarrow> descriptor_call \<Rightarrow> proposal_arrays \<Rightarrow> proposal_arrays" where
  "push_action target sig c p =
     \<lparr>pr_targets = pr_targets p @ [target], pr_values = pr_values p @ [0],
      pr_signatures = pr_signatures p @ [sig], pr_calldatas = pr_calldatas p @ [c]\<rparr>"

definition push_palettes :: "string \<Rightarrow> (nat \<times> string list) list \<Rightarrow> proposal_arrays \<Rightarrow> proposal_arrays" where
  "push_palettes target ps =
     fold (\<lambda>(i, colors). push_action target ''setPalette(uint8,bytes)'' (SetPalette i (palette_bytes colors))) ps"

definition push_page ::
  "(string list \<Rightarrow> descriptor_page) \<Rightarrow> string \<Rightarrow> string \<Rightarrow> (descriptor_page \<Rightarrow> descriptor_call) \<Rightarrow> string list option \<Rightarrow>
   proposal_arrays \<Rightarrow> proposal_arrays" where
  "push_page page target sig c xs p = (case xs of None \<Rightarrow> p | Some data \<Rightarrow> push_action target sig (c (page data)) p)"

definition push_images ::
  "(string list \<Rightarrow> descriptor_page) \<Rightarrow> string \<Rightarrow> proposal_images \<Rightarrow> proposal_arrays \<Rightarrow> proposal_arrays" where
  "push_images page target im p =
     (let p1 = push_page page target ''addBodies(bytes,uint80,uint16)'' AddBodies (pi_bodies im) p;
          p2 = push_page page target ''addHeads(bytes,uint80,uint16)'' AddHeads (pi_heads im) p1;
          p3 = push_page page target ''addGlasses(bytes,uint80,uint16)'' AddGlasses (pi_glasses im) p2
      in push_page page target ''addAccessories(bytes,uint80,uint16)'' AddAccessories (pi_accessories im) p3)"

definition populate_via_proposal ::
  "(string list \<Rightarrow> descriptor_page) \<Rightarrow> string \<Rightarrow> proposal_art \<Rightarrow> proposal_arrays" where
  "populate_via_proposal page target art =
     (let p1 = (case pa_bgcolors art of None \<Rightarrow> no_actions
                | Some bg \<Rightarrow> push_action target ''addManyBackgrounds(string[])'' (AddManyBackgrounds bg) no_actions);
          p2 = (case pa_palettes art of None \<Rightarrow> p1 | Some ps \<Rightarrow> push_palettes target ps p1)
      in case pa_images art of None \<Rightarrow> p2 | Some im \<Rightarrow> push_images page target im p2)"

text \<open>What a well-formed action is: the descriptor, no value, the signature of the encoded call.\<close>

fun call_signature :: "descriptor_call \<Rightarrow> string" where
  "call_signature (AddManyBackgrounds _) = ''addManyBackgrounds(string[])''"
| "call_signature (SetPalette _ _) = ''setPalette(uint8,bytes)''"
| "call_signature (AddBodies _) = ''addBodies(bytes,uint80,uint16)''"
| "call_signature (AddHeads _) = ''addHeads(bytes,uint80,uint16)''"
| "call_signature (AddGlasses _) = ''addGlasses(bytes,uint80,uint16)''"
| "call_signature (AddAccessories _) = ''addAccessories(bytes,uint80,uint16)''"

definition actions_of :: "string \<Rightarrow> descriptor_call list \<Rightarrow> proposal_arrays" where
  "actions_of target cs =
     \<lparr>pr_targets = replicate (length cs) target, pr_values = replicate (length cs) 0,
      pr_signatures = map call_signature cs, pr_calldatas = cs\<rparr>"

definition art_calls :: "(string list \<Rightarrow> descriptor_page) \<Rightarrow> proposal_art \<Rightarrow> descriptor_call list" where
  "art_calls page art =
     (case pa_bgcolors art of None \<Rightarrow> [] | Some bg \<Rightarrow> [AddManyBackgrounds bg]) @
     (case pa_palettes art of None \<Rightarrow> [] | Some ps \<Rightarrow> map (\<lambda>(i, c). SetPalette i (palette_bytes c)) ps) @
     (case pa_images art of None \<Rightarrow> []
      | Some im \<Rightarrow>
          map (\<lambda>d. AddBodies (page d)) (case pi_bodies im of None \<Rightarrow> [] | Some d \<Rightarrow> [d]) @
          map (\<lambda>d. AddHeads (page d)) (case pi_heads im of None \<Rightarrow> [] | Some d \<Rightarrow> [d]) @
          map (\<lambda>d. AddGlasses (page d)) (case pi_glasses im of None \<Rightarrow> [] | Some d \<Rightarrow> [d]) @
          map (\<lambda>d. AddAccessories (page d)) (case pi_accessories im of None \<Rightarrow> [] | Some d \<Rightarrow> [d]))"

lemma push_actions_of:
  "call_signature c = sig \<Longrightarrow> push_action target sig c (actions_of target cs) = actions_of target (cs @ [c])"
  by (simp add: push_action_def actions_of_def replicate_append_same)

lemma push_palettes_of:
  "push_palettes target ps (actions_of target cs) =
     actions_of target (cs @ map (\<lambda>(i, c). SetPalette i (palette_bytes c)) ps)"
  unfolding push_palettes_def
  by (induction ps arbitrary: cs) (auto simp: push_actions_of)

lemma push_page_of:
  "(\<And>x. call_signature (c x) = sig) \<Longrightarrow>
     push_page page target sig c xs (actions_of target cs) =
       actions_of target (cs @ map (\<lambda>d. c (page d)) (case xs of None \<Rightarrow> [] | Some d \<Rightarrow> [d]))"
  by (simp add: push_page_def push_actions_of split: option.split)

lemma no_actions_of: "no_actions = actions_of target []"
  by (simp add: no_actions_def actions_of_def)

lemma push_images_of:
  "push_images page target im (actions_of target cs) =
     actions_of target (cs @
          map (\<lambda>d. AddBodies (page d)) (case pi_bodies im of None \<Rightarrow> [] | Some d \<Rightarrow> [d]) @
          map (\<lambda>d. AddHeads (page d)) (case pi_heads im of None \<Rightarrow> [] | Some d \<Rightarrow> [d]) @
          map (\<lambda>d. AddGlasses (page d)) (case pi_glasses im of None \<Rightarrow> [] | Some d \<Rightarrow> [d]) @
          map (\<lambda>d. AddAccessories (page d)) (case pi_accessories im of None \<Rightarrow> [] | Some d \<Rightarrow> [d]))"
  by (simp add: push_images_def push_page_of Let_def)


section \<open>Trait names\<close>

definition capitalizeFirstLetter :: "string \<Rightarrow> string" where
  "capitalizeFirstLetter s = (case s of [] \<Rightarrow> [] | c # cs \<Rightarrow> to_upper c # cs)"

text \<open>\<open>indexOf\<close> gives -1 without a hyphen, so the whole name is kept.\<close>

definition after_hyphen :: "string \<Rightarrow> string" where
  "after_hyphen s = (if CHR ''-'' \<in> set s then tl (dropWhile (\<lambda>c. c \<noteq> CHR ''-'') s) else s)"

definition parseTraitName :: "string \<Rightarrow> string" where
  "parseTraitName fileName = js_join '' '' (map capitalizeFirstLetter (js_split (CHR ''-'') (after_hyphen fileName)))"

datatype attribute_call =
    AddManyBackgroundNames "string list"
  | AddManyBodyNames "string list"
  | AddManyAccessoryNames "string list"
  | AddManyHeadNames "string list"
  | AddManyGlassesNames "string list"

text \<open>\<open>populate-attribute\<close>: the images are given by their file names.\<close>

definition populate_attribute :: "art_images \<Rightarrow> attribute_call list" where
  "populate_attribute im =
     (let bodyAttributes = map parseTraitName (ai_bodies im);
          accessoryAttributes = map parseTraitName (ai_accessories im);
          headAttributes = map parseTraitName (ai_heads im);
          glassesAttributes = map parseTraitName (ai_glasses im)
      in [AddManyBackgroundNames [''Bluebird Sky'', ''Evergreen'', ''Night'', ''Slate'', ''Yellow Snow'', ''Cool'', ''Warm''],
          AddManyBodyNames bodyAttributes, AddManyAccessoryNames accessoryAttributes,
          AddManyHeadNames headAttributes, AddManyGlassesNames glassesAttributes])"

section \<open>The address book\<close>

text \<open>The entry of the chain, and the three contracts of the subgraph's configuration; \<open>None\<close> when a
  contract is missing.\<close>

definition book_entry :: "deployment \<Rightarrow> string \<times> contract_name \<Rightarrow> (string \<times> string) option" where
  "book_entry d e = map_option (Pair (fst e)) (address_of d (snd e))"

definition address_book :: "contract_name \<Rightarrow> contract_name \<Rightarrow> deployment \<Rightarrow> (string \<times> string) list option" where
  "address_book logic proxy d = those (map (book_entry d)
     [(''alpsToken'', AlpsToken), (''alpsSeeder'', AlpsSeeder), (''alpsDescriptor'', AlpsDescriptorV2),
      (''nftDescriptor'', NFTDescriptorV2), (''alpsAuctionHouse'', AlpsAuctionHouse),
      (''alpsAuctionHouseProxy'', AlpsAuctionHouseProxy), (''alpsAuctionHouseProxyAdmin'', AlpsAuctionHouseProxyAdmin),
      (''alpsDaoExecutor'', AlpsDAOExecutor), (''alpsDAOProxy'', proxy), (''alpsDAOLogicV1'', logic)])"

text \<open>The entry of the chain is replaced in the file of addresses; the others stay.  (The names of the
  first descriptor, a fallback of \<open>update-configs\<close>, are not created by these tasks.)\<close>

type_synonym addresses_file = "nat \<rightharpoonup> (string \<times> string) list"

definition update_configs :: "nat \<Rightarrow> deployment \<Rightarrow> addresses_file \<Rightarrow> addresses_file option" where
  "update_configs chainId d addresses =
     map_option (\<lambda>e. addresses(chainId \<mapsto> e)) (address_book AlpsDAOLogicV1 AlpsDAOProxy d)"

definition update_configs_daov2 :: "nat \<Rightarrow> deployment \<Rightarrow> addresses_file \<Rightarrow> addresses_file option" where
  "update_configs_daov2 chainId d addresses =
     map_option (\<lambda>e. addresses(chainId \<mapsto> e)) (address_book AlpsDAOLogicV2 AlpsDAOProxyV2 d)"

definition subgraph_config :: "contract_name \<Rightarrow> deployment \<Rightarrow> (string \<times> string) list option" where
  "subgraph_config proxy d = those (map (book_entry d)
     [(''alpsToken'', AlpsToken), (''alpsAuctionHouse'', AlpsAuctionHouseProxy), (''alpsDAO'', proxy)])"

section \<open>Deploying and configuring\<close>

datatype config_op =
    VerifyEtherscan
  | PopulateDescriptor "(string, string) jsmap"
  | TransferOwnership string string
  | Unpause string
  | UpdateConfigs

text \<open>The steps after \<open>deploy\<close>, in order; \<open>None\<close> when a contract they need is missing.\<close>

definition configure_ops :: "bool \<Rightarrow> bool \<Rightarrow> deployment \<Rightarrow> config_op list option" where
  "configure_ops startAuction updateConfigs d =
     (case (address_of d NFTDescriptorV2, address_of d AlpsDescriptorV2, address_of d AlpsDAOExecutor,
            address_of d AlpsToken, address_of d AlpsAuctionHouseProxyAdmin, address_of d AlpsAuctionHouseProxy) of
        (Some nft, Some descriptor, Some executor, Some token, Some admin, Some house) \<Rightarrow>
          Some ([VerifyEtherscan,
                 PopulateDescriptor [(''nftDescriptor'', nft), (''alpsDescriptor'', descriptor)],
                 TransferOwnership descriptor executor,
                 TransferOwnership token executor,
                 TransferOwnership admin executor]
                @ (if startAuction then [Unpause house, TransferOwnership house executor] else [])
                @ (if updateConfigs then [UpdateConfigs] else []))
      | _ \<Rightarrow> None)"

text \<open>\<open>deploy-and-configure\<close> passes its own arguments to \<open>deploy\<close>; the address of the DAO is declared
  \<open>alpersdao\<close> here and read as \<open>noundersdao\<close> there, so it does not arrive.\<close>

definition deploy_and_configure ::
  "deploy_env \<Rightarrow> nat \<Rightarrow> deploy_args \<Rightarrow> (contract_name \<Rightarrow> string) \<Rightarrow> bool \<Rightarrow> bool \<Rightarrow> chain \<Rightarrow>
   deploy_error + (deployment \<times> config_op list)" where
  "deploy_and_configure env chainId a typed startAuction updateConfigs ch =
     (case fst (deploy env chainId (a\<lparr>ar_dao := None\<rparr>) typed ch) of
        Inl e \<Rightarrow> Inl e
      | Inr None \<Rightarrow> Inl NotDeployed
      | Inr (Some d) \<Rightarrow>
          (case configure_ops startAuction updateConfigs d of None \<Rightarrow> Inl NotDeployed | Some ops \<Rightarrow> Inr (d, ops)))"

definition deploy_and_configure_short_times ::
  "deploy_env \<Rightarrow> nat \<Rightarrow> deploy_args \<Rightarrow> (contract_name \<Rightarrow> string) \<Rightarrow> bool \<Rightarrow> bool \<Rightarrow> chain \<Rightarrow>
   deploy_error + (deployment \<times> config_op list)" where
  "deploy_and_configure_short_times env chainId a typed startAuction updateConfigs ch =
     (case fst (deploy_short_times env chainId a typed ch) of
        Inl e \<Rightarrow> Inl e
      | Inr None \<Rightarrow> Inl NotDeployed
      | Inr (Some d) \<Rightarrow>
          (case configure_ops startAuction updateConfigs d of None \<Rightarrow> Inl NotDeployed | Some ops \<Rightarrow> Inr (d, ops)))"

text \<open>\<open>run-local\<close> configures the local deployment: no verification, the auction always started first.\<close>

definition run_local :: "deploy_env \<Rightarrow> nat \<Rightarrow> deploy_args \<Rightarrow> chain \<Rightarrow> deploy_error + (deployment \<times> config_op list)" where
  "run_local env chainId a ch =
     (case fst (deploy_local env chainId a ch) of
        Inl e \<Rightarrow> Inl e
      | Inr None \<Rightarrow> Inl NotDeployed
      | Inr (Some d) \<Rightarrow>
          (case (address_of d NFTDescriptorV2, address_of d AlpsDescriptorV2, address_of d AlpsDAOExecutor,
                 address_of d AlpsToken, address_of d AlpsAuctionHouseProxyAdmin, address_of d AlpsAuctionHouseProxy) of
             (Some nft, Some descriptor, Some executor, Some token, Some admin, Some house) \<Rightarrow>
               Inr (d, [PopulateDescriptor [(''nftDescriptor'', nft), (''alpsDescriptor'', descriptor)],
                        Unpause house,
                        TransferOwnership descriptor executor,
                        TransferOwnership token executor,
                        TransferOwnership admin executor,
                        TransferOwnership house executor])
           | _ \<Rightarrow> Inl NotDeployed))"

text \<open>\<open>deploy-descriptor-v2\<close>, once deployed, fills the default descriptor and hands its own to the executor.\<close>

definition descriptor_v2_ops :: "string \<Rightarrow> string \<Rightarrow> deployment \<Rightarrow> config_op list option" where
  "descriptor_v2_ops networkName daoExecutor d =
     (case (address_of d NFTDescriptorV2, address_of d AlpsDescriptorV2) of
        (Some nft, Some descriptor) \<Rightarrow>
          Some ([PopulateDescriptor [(''nftDescriptor'', nft), (''alpsDescriptor'', descriptor)],
                 TransferOwnership descriptor daoExecutor]
                @ (if networkName \<noteq> ''localhost'' then [VerifyEtherscan] else []))
      | _ \<Rightarrow> None)"

section \<open>Who owns what afterwards\<close>

text \<open>
  An account of the contracts' side: who owns each contract and which have been filled with art.
  Only the owner may transfer or fill; a transaction to an address without a contract succeeds
  and does nothing.
\<close>

record ownership =
  ow_owner :: "string \<rightharpoonup> string"
  ow_filled :: "string list"

fun run_op :: "string \<Rightarrow> config_op \<Rightarrow> ownership \<Rightarrow> ownership option" where
  "run_op me (TransferOwnership c to) w =
     (case ow_owner w c of None \<Rightarrow> Some w | Some ow \<Rightarrow> if ow = me then Some (w\<lparr>ow_owner := (ow_owner w)(c \<mapsto> to)\<rparr>) else None)"
| "run_op me (PopulateDescriptor given) w =
     (let c = populate_target given
      in case ow_owner w c of None \<Rightarrow> Some w | Some ow \<Rightarrow> if ow = me then Some (w\<lparr>ow_filled := ow_filled w @ [c]\<rparr>) else None)"
| "run_op me (Unpause c) w = (case ow_owner w c of None \<Rightarrow> Some w | Some ow \<Rightarrow> if ow = me then Some w else None)"
| "run_op me VerifyEtherscan w = Some w"
| "run_op me UpdateConfigs w = Some w"

fun run_ops :: "string \<Rightarrow> config_op list \<Rightarrow> ownership \<Rightarrow> ownership option" where
  "run_ops me [] w = Some w"
| "run_ops me (p # ps) w = (case run_op me p w of None \<Rightarrow> None | Some w' \<Rightarrow> run_ops me ps w')"

definition handed_over :: "contract_name list" where
  "handed_over = [AlpsDescriptorV2, AlpsToken, AlpsAuctionHouseProxyAdmin]"

lemma populate_target_ignored: "populate_target [(''nftDescriptor'', a), (''alpsDescriptor'', b)] = default_descriptor"
  by (simp add: populate_target_def task_param_def jm_get_def)

lemma configure_ops_run:
  assumes "configure_ops start update d = Some ops"
    and "address_of d AlpsDescriptorV2 = Some descriptor" "address_of d AlpsToken = Some token"
    and "address_of d AlpsAuctionHouseProxyAdmin = Some admin" "address_of d AlpsAuctionHouseProxy = Some house"
    and "distinct [descriptor, token, admin, house]"
    and "\<forall>c\<in>{descriptor, token, admin, house}. ow_owner w c = Some me" "ow_owner w default_descriptor = None"
  shows "\<exists>executor w'. address_of d AlpsDAOExecutor = Some executor \<and> run_ops me ops w = Some w' \<and>
           ow_owner w' descriptor = Some executor \<and> ow_owner w' token = Some executor \<and> ow_owner w' admin = Some executor \<and>
           ow_owner w' house = Some (if start then executor else me) \<and> ow_filled w' = ow_filled w"
proof -
  obtain nft executor where e: "address_of d NFTDescriptorV2 = Some nft" "address_of d AlpsDAOExecutor = Some executor"
    using assms(1) by (auto simp: configure_ops_def split: option.splits)
  from assms(1) have ops: "ops = [VerifyEtherscan,
                 PopulateDescriptor [(''nftDescriptor'', nft), (''alpsDescriptor'', descriptor)],
                 TransferOwnership descriptor executor,
                 TransferOwnership token executor,
                 TransferOwnership admin executor]
                @ (if start then [Unpause house, TransferOwnership house executor] else [])
                @ (if update then [UpdateConfigs] else [])"
    using assms(2-5) e unfolding configure_ops_def by simp
  show ?thesis
    unfolding ops using e assms(6-8) by (auto simp: populate_target_ignored Let_def)
qed

text \<open>
  \<open>deploy-and-configure\<close> hands the descriptor, the token and the proxy admin over to the executor,
  and the auction house exactly when the first auction is started; otherwise the deployer keeps
  it.  But it fills no descriptor: \<open>populate-descriptor\<close> reads \<open>nounsDescriptor\<close>, the caller passes
  \<open>alpsDescriptor\<close>, so the art goes to a fixed address; and the DAO address the operator gave is not
  used, the token's founder is the deployer.
\<close>

theorem configure_hands_over:
  assumes "deploy_and_configure env chainId a typed start update ch = Inr (d, ops)"
    and "address_of d AlpsDescriptorV2 = Some descriptor" "address_of d AlpsToken = Some token"
    and "address_of d AlpsAuctionHouseProxyAdmin = Some admin" "address_of d AlpsAuctionHouseProxy = Some house"
    and "distinct [descriptor, token, admin, house]"
    and "\<forall>c\<in>{descriptor, token, admin, house}. ow_owner w c = Some (de_deployer env)"
    and "ow_owner w default_descriptor = None"
  shows "(\<exists>executor w'. address_of d AlpsDAOExecutor = Some executor \<and> run_ops (de_deployer env) ops w = Some w' \<and>
           ow_owner w' descriptor = Some executor \<and> ow_owner w' token = Some executor \<and> ow_owner w' admin = Some executor \<and>
           ow_owner w' house = Some (if start then executor else de_deployer env) \<and> ow_filled w' = ow_filled w)
       \<and> deploy_and_configure env chainId (a\<lparr>ar_dao := anyone\<rparr>) typed start update ch = Inr (d, ops)"
proof (rule conjI)
  have "configure_ops start update d = Some ops"
    using assms(1) by (auto simp: deploy_and_configure_def split: sum.splits option.splits)
  from configure_ops_run [OF this assms(2-8)]
  show "\<exists>executor w'. address_of d AlpsDAOExecutor = Some executor \<and> run_ops (de_deployer env) ops w = Some w' \<and>
           ow_owner w' descriptor = Some executor \<and> ow_owner w' token = Some executor \<and> ow_owner w' admin = Some executor \<and>
           ow_owner w' house = Some (if start then executor else de_deployer env) \<and> ow_filled w' = ow_filled w" .
  have "(a\<lparr>ar_dao := anyone\<rparr>)\<lparr>ar_dao := None\<rparr> = a\<lparr>ar_dao := None\<rparr>" by simp
  with assms(1) show "deploy_and_configure env chainId (a\<lparr>ar_dao := anyone\<rparr>) typed start update ch = Inr (d, ops)"
    unfolding deploy_and_configure_def by simp
qed

definition demo_ownership :: ownership where
  "demo_ownership = \<lparr>ow_owner = (\<lambda>c. if c = default_descriptor then None else Some ''0xd0''), ow_filled = []\<rparr>"

lemma configure_hands_over_witness:
  "\<exists>d ops executor w'. deploy_and_configure demo_env 4 demo_args (\<lambda>_. ''DEPLOY'') True False demo_chain = Inr (d, ops)
      \<and> run_ops ''0xd0'' ops demo_ownership = Some w' \<and> ow_filled w' = [] \<and> address_of d AlpsDAOExecutor = Some executor
      \<and> ow_owner w' ''0xd0/17'' = Some executor"
proof -
  have ok: "\<forall>c. \<not> de_fails demo_env c" "detect_weth (ar_weth (demo_args\<lparr>ar_dao := None\<rparr>)) 4 = Some ''0xc778417e063141139fce010982780140aa0cd5ab''"
    using demo_weth by (simp_all add: demo_env_def)
  have addr: "de_getContractAddress demo_env (de_deployer demo_env) (ch_nonce demo_chain + k) = ''0xd0/'' @ show_nat (7 + k)" for k
    by (simp add: demo_env_def demo_chain_def)
  obtain d where d: "fst (deploy demo_env 4 (demo_args\<lparr>ar_dao := None\<rparr>) (\<lambda>_. ''DEPLOY'') demo_chain) = Inr (Some d)"
    and n: "address_of d NFTDescriptorV2 = Some (''0xd0/'' @ show_nat 7)" "address_of d AlpsDAOExecutor = Some (''0xd0/'' @ show_nat 18)"
    and a: "address_of d AlpsDescriptorV2 = Some (''0xd0/'' @ show_nat 10)" "address_of d AlpsToken = Some (''0xd0/'' @ show_nat 14)"
      "address_of d AlpsAuctionHouseProxyAdmin = Some (''0xd0/'' @ show_nat 16)"
      "address_of d AlpsAuctionHouseProxy = Some (''0xd0/'' @ show_nat 17)"
    using deploy_addresses [OF ok, of "\<lambda>_. ''DEPLOY''" demo_chain] unfolding addr by auto
  obtain ops where 1: "deploy_and_configure demo_env 4 demo_args (\<lambda>_. ''DEPLOY'') True False demo_chain = Inr (d, ops)"
    using d a n by (simp add: deploy_and_configure_def configure_ops_def)
  have 2: "distinct [''0xd0/'' @ show_nat 10, ''0xd0/'' @ show_nat 14, ''0xd0/'' @ show_nat 16, ''0xd0/'' @ show_nat 17]" by simp
  have 3: "\<forall>c\<in>{''0xd0/'' @ show_nat 10, ''0xd0/'' @ show_nat 14, ''0xd0/'' @ show_nat 16, ''0xd0/'' @ show_nat 17}.
      ow_owner demo_ownership c = Some (de_deployer demo_env)"
    by (simp add: demo_ownership_def demo_env_def default_descriptor_def)
  have 4: "ow_owner demo_ownership default_descriptor = None" by (simp add: demo_ownership_def)
  have five: "''0xd0/'' @ show_nat 17 = ''0xd0/17''" by code_simp
  from conjunct1 [OF configure_hands_over [OF 1 a 2 3 4]] 1 show ?thesis
    unfolding five by (auto simp: demo_env_def demo_ownership_def)
qed

end
