(* ===== verification/Assets_Seed.thy ===== *)
theory Assets_Seed
  imports Prelude "HOL-Library.Word"
begin

text \<open>
  The seed of a token, \<open>packages/nouns-assets/src/utils.ts\<close>, and the contract it emulates,
  \<open>AlpsSeeder.sol\<close>.  \<open>BigNumber\<close> of \<open>ethers\<close> is an argument: its printer to hexadecimal and its
  parser, with the documented laws (an even number of digits after \<open>0x\<close>, at least two; parsing of
  hexadecimal digits; an error on anything else after \<open>0x\<close>).  The hash is an argument too.
\<close>

section \<open>Data\<close>

record alp_seed =
  sd_background :: nat
  sd_body :: nat
  sd_accessory :: nat
  sd_head :: nat
  sd_glasses :: nat

record asset_image =
  as_filename :: string
  as_data :: string

record alp_data =
  ad_parts :: "asset_image option list"
  ad_background :: "string option"

record asset_book =
  bk_bgcolors :: "string list"
  bk_bodies :: "asset_image list"
  bk_accessories :: "asset_image list"
  bk_heads :: "asset_image list"
  bk_glasses :: "asset_image list"

record bignumber =
  bn_from :: "string \<Rightarrow> nat option"
  bn_toHexString :: "nat \<Rightarrow> string"

definition hex_digits :: "nat \<Rightarrow> string" where
  "hex_digits n = (let s = show_base 16 n in if odd (length s) then CHR ''0'' # s else s)"

definition bignumber_ok :: "bignumber \<Rightarrow> bool" where
  "bignumber_ok B \<longleftrightarrow>
     (\<forall>n. bn_toHexString B n = ''0x'' @ hex_digits n) \<and>
     (\<forall>ds. ds \<noteq> [] \<and> (\<forall>d\<in>set ds. d < 16) \<longrightarrow> bn_from B (''0x'' @ map digit_char ds) = Some (digits_val 16 ds)) \<and>
     (\<forall>s. bn_from B (''0x0x'' @ s) = None)"

section \<open>The code\<close>

text \<open>An index out of range reads \<open>undefined\<close>.\<close>

definition array_at :: "'a list \<Rightarrow> nat \<Rightarrow> 'a option" where
  "array_at xs i = (if i < length xs then Some (xs ! i) else None)"

definition getAlpData :: "asset_book \<Rightarrow> alp_seed \<Rightarrow> alp_data" where
  "getAlpData bk s =
     \<lparr>ad_parts = [array_at (bk_bodies bk) (sd_body s), array_at (bk_accessories bk) (sd_accessory s),
                  array_at (bk_heads bk) (sd_head s), array_at (bk_glasses bk) (sd_glasses s)],
      ad_background = array_at (bk_bgcolors bk) (sd_background s)\<rparr>"

text \<open>\<open>Math.random()\<close> is a number \<open>num / den\<close> below 1; the five draws are the argument.\<close>

definition random_index :: "nat \<times> nat \<Rightarrow> nat \<Rightarrow> nat" where
  "random_index r n = (fst r * n) div snd r"

definition getRandomAlpSeed :: "asset_book \<Rightarrow> (nat \<Rightarrow> nat \<times> nat) \<Rightarrow> alp_seed" where
  "getRandomAlpSeed bk draw =
     \<lparr>sd_background = random_index (draw 0) (length (bk_bgcolors bk)),
      sd_body = random_index (draw 1) (length (bk_bodies bk)),
      sd_accessory = random_index (draw 2) (length (bk_accessories bk)),
      sd_head = random_index (draw 3) (length (bk_heads bk)),
      sd_glasses = random_index (draw 4) (length (bk_glasses bk))\<rparr>"

definition shiftRightAndCast :: "bignumber \<Rightarrow> nat \<Rightarrow> nat \<Rightarrow> nat \<Rightarrow> string" where
  "shiftRightAndCast B v shiftAmount uintSize =
     (let shifted = bn_toHexString B (v div 2 ^ shiftAmount)
      in ''0x'' @ js_substring_from shifted (int (length shifted) - int (uintSize div 4)))"

text \<open>\<open>None\<close>: \<open>BigNumber.from\<close> throws, or the modulus is zero.\<close>

definition getPseudorandomPart :: "bignumber \<Rightarrow> nat \<Rightarrow> nat \<Rightarrow> nat \<Rightarrow> nat \<Rightarrow> nat option" where
  "getPseudorandomPart B pseudorandomness partCount shiftAmount uintSize =
     (case bn_from B (shiftRightAndCast B pseudorandomness shiftAmount uintSize) of
        None \<Rightarrow> None
      | Some n \<Rightarrow> if partCount = 0 then None else Some (n mod partCount))"

definition getAlpSeedFromBlockHash ::
  "bignumber \<Rightarrow> (string \<Rightarrow> nat \<Rightarrow> nat) \<Rightarrow> asset_book \<Rightarrow> nat \<Rightarrow> string \<Rightarrow> alp_seed option" where
  "getAlpSeedFromBlockHash B keccak bk alpId blockHash =
     (let p = keccak blockHash alpId;
          part = (\<lambda>count s. getPseudorandomPart B p count s 48)
      in case (part (length (bk_bgcolors bk)) 0, part (length (bk_bodies bk)) 48,
               part (length (bk_accessories bk)) 96, part (length (bk_heads bk)) 144,
               part (length (bk_glasses bk)) 192) of
           (Some bg, Some bd, Some ac, Some he, Some gl) \<Rightarrow>
             Some \<lparr>sd_background = bg, sd_body = bd, sd_accessory = ac, sd_head = he, sd_glasses = gl\<rparr>
         | _ \<Rightarrow> None)"

section \<open>The contract\<close>

text \<open>\<open>uint48(uint48(pseudorandomness >> s) % count)\<close> on a \<open>uint256\<close>; a zero count reverts.\<close>

definition seeder_part :: "256 word \<Rightarrow> nat \<Rightarrow> nat \<Rightarrow> 48 word" where
  "seeder_part p s count = ucast ((ucast (ucast (drop_bit s p) :: 48 word) :: 256 word) mod of_nat count)"

definition generateSeed :: "256 word \<Rightarrow> asset_book \<Rightarrow> alp_seed" where
  "generateSeed p bk =
     \<lparr>sd_background = unat (seeder_part p 0 (length (bk_bgcolors bk))),
      sd_body = unat (seeder_part p 48 (length (bk_bodies bk))),
      sd_accessory = unat (seeder_part p 96 (length (bk_accessories bk))),
      sd_head = unat (seeder_part p 144 (length (bk_heads bk))),
      sd_glasses = unat (seeder_part p 192 (length (bk_glasses bk)))\<rparr>"

section \<open>Hexadecimal\<close>

lemma digits_of_Suc: "2 \<le> b \<Longrightarrow> b \<le> n \<Longrightarrow> digits_of b n = digits_of b (n div b) @ [n mod b]"
  by (subst digits_of.simps) simp

lemma digits_of_small: "n < b \<Longrightarrow> digits_of b n = [n]"
  by (subst digits_of.simps) simp

lemma digits_of_long: "2 \<le> b \<Longrightarrow> b ^ k \<le> n \<Longrightarrow> k < length (digits_of b n)"
proof (induction k arbitrary: n)
  case (Suc k)
  have "b \<le> b ^ Suc k" using Suc.prems(1) by (simp add: self_le_power)
  then have "b \<le> n" using Suc.prems(2) by linarith
  moreover have "b ^ k \<le> n div b" using Suc.prems by (simp add: less_eq_div_iff_mult_less_eq mult.commute)
  ultimately show ?case using Suc.IH Suc.prems(1) by (simp add: digits_of_Suc)
qed simp

lemma digits_val_append: "digits_val b (xs @ ys) = digits_val b xs * b ^ length ys + digits_val b ys"
  by (induction ys rule: rev_induct) (simp_all add: algebra_simps flip: append_assoc, simp add: digits_val_def)

lemma digits_val_bound: "\<forall>d\<in>set ds. d < b \<Longrightarrow> digits_val b ds < b ^ length ds"
proof (induction ds rule: rev_induct)
  case (snoc d ds)
  then have "digits_val b ds + 1 \<le> b ^ length ds" "d < b" by auto
  then have "(digits_val b ds + 1) * b \<le> b ^ length ds * b" by (intro mult_right_mono) auto
  with \<open>d < b\<close> show ?case by (simp add: algebra_simps)
qed (simp add: digits_val_def)

text \<open>The last \<open>k\<close> digits of a number.\<close>

lemma digits_val_last:
  assumes "\<forall>d\<in>set ds. d < b" "k \<le> length ds"
  shows "digits_val b (drop (length ds - k) ds) = digits_val b ds mod b ^ k"
proof -
  let ?hi = "take (length ds - k) ds" and ?lo = "drop (length ds - k) ds"
  have "digits_val b (?hi @ ?lo) = digits_val b ?hi * b ^ k + digits_val b ?lo"
    using assms(2) by (subst digits_val_append) simp
  moreover have "digits_val b ?lo < b ^ length ?lo" using assms(1) by (intro digits_val_bound) (meson in_set_dropD)
  then have "digits_val b ?lo < b ^ k" using assms(2) by simp
  ultimately show ?thesis by simp
qed

definition even_digits :: "nat \<Rightarrow> nat list" where
  "even_digits n = (let ds = digits_of 16 n in if odd (length ds) then 0 # ds else ds)"

lemma hex_digits_eq: "hex_digits n = map digit_char (even_digits n)"
  by (simp add: hex_digits_def even_digits_def show_base_def Let_def digit_char_def)

lemma even_digits_props:
  "\<forall>d\<in>set (even_digits n). d < 16" "digits_val 16 (even_digits n) = n" "even (length (even_digits n))"
  using digits_of_bound [of 16 n] digits_val_of [of 16 n]
  by (auto simp: even_digits_def Let_def digits_val_def)

lemma even_digits_length: "16 ^ 10 \<le> n \<Longrightarrow> 12 \<le> length (even_digits n)"
proof -
  assume "16 ^ 10 \<le> n"
  then have "10 < length (digits_of 16 n)" by (intro digits_of_long) simp_all
  then have "10 < length (even_digits n)" by (simp add: even_digits_def Let_def)
  moreover have "even (length (even_digits n))" by (rule even_digits_props)
  ultimately show ?thesis by presburger
qed

lemma even_digits_short: "n < 16 ^ 10 \<Longrightarrow> length (even_digits n) \<le> 10"
proof -
  assume "n < 16 ^ 10"
  then have "length (digits_of 16 n) \<le> 10" by (intro digits_of_length) simp_all
  then show ?thesis unfolding even_digits_def Let_def by (cases "odd (length (digits_of 16 n))") (auto, presburger)
qed

section \<open>The slices\<close>

lemma bignumber_parses:
  "bignumber_ok B \<Longrightarrow> ds \<noteq> [] \<Longrightarrow> \<forall>d\<in>set ds. d < 16
    \<Longrightarrow> bn_from B (''0x'' @ map digit_char ds) = Some (digits_val 16 ds)"
  by (simp add: bignumber_ok_def)

lemma map_drop_hex: "js_substring_from (''0x'' @ map digit_char ds) (int k + 2) = map digit_char (drop k ds)"
  by (auto simp: js_substring_from_def clamp_index_def drop_map min_def nat_add_distrib)

text \<open>A value of at least 41 bits prints with twelve digits or more, and the last twelve are cut.\<close>

lemma shift_cast_wide:
  assumes B: "bignumber_ok B" and v: "16 ^ 10 \<le> v div 2 ^ s"
  shows "bn_from B (shiftRightAndCast B v s 48) = Some (v div 2 ^ s mod 16 ^ 12)"
proof -
  let ?ds = "even_digits (v div 2 ^ s)"
  let ?k = "length ?ds - 12"
  have len: "12 \<le> length ?ds" using v by (rule even_digits_length)
  have "shiftRightAndCast B v s 48 = ''0x'' @ js_substring_from (''0x'' @ map digit_char ?ds) (int ?k + 2)"
    using B len by (simp add: shiftRightAndCast_def bignumber_ok_def hex_digits_eq Let_def of_nat_diff)
  then have cast: "shiftRightAndCast B v s 48 = ''0x'' @ map digit_char (drop ?k ?ds)"
    by (simp only: map_drop_hex)
  have "drop ?k ?ds \<noteq> []" using len by simp
  moreover have "\<forall>d\<in>set (drop ?k ?ds). d < 16"
    using even_digits_props(1) [of "v div 2 ^ s"] by (meson in_set_dropD)
  ultimately have "bn_from B (shiftRightAndCast B v s 48) = Some (digits_val 16 (drop ?k ?ds))"
    unfolding cast using B by (intro bignumber_parses)
  also have "digits_val 16 (drop ?k ?ds) = v div 2 ^ s mod 16 ^ 12"
    using digits_val_last [of ?ds 16 12] even_digits_props(1,2) [of "v div 2 ^ s"] len by simp
  finally show ?thesis .
qed

text \<open>A shorter value keeps its own \<open>0x\<close> behind the added one, which does not parse.\<close>

lemma shift_cast_narrow:
  assumes B: "bignumber_ok B" and v: "v div 2 ^ s < 16 ^ 10"
  shows "bn_from B (shiftRightAndCast B v s 48) = None"
proof -
  have "length (even_digits (v div 2 ^ s)) \<le> 10" using v by (rule even_digits_short)
  then have "shiftRightAndCast B v s 48 = ''0x0x'' @ map digit_char (even_digits (v div 2 ^ s))"
    using B by (simp add: shiftRightAndCast_def bignumber_ok_def hex_digits_eq Let_def
        js_substring_from_def clamp_index_def)
  then show ?thesis using B by (simp only: bignumber_ok_def)
qed

lemma pseudorandom_part:
  assumes "bignumber_ok B" "0 < n"
  shows "getPseudorandomPart B v n s 48 =
    (if v div 2 ^ s < 16 ^ 10 then None else Some (v div 2 ^ s mod 16 ^ 12 mod n))"
  using assms shift_cast_wide [of B v s] shift_cast_narrow [of B v s]
  by (simp add: getPseudorandomPart_def)

lemma unat_word48: "unat (ucast (w :: 256 word) :: 48 word) = unat w mod 2 ^ 48"
  by (simp add: unsigned_ucast_eq take_bit_eq_mod)

lemma unat_word256: "unat (ucast (w :: 48 word) :: 256 word) = unat w"
  by (transfer, simp add: take_bit_take_bit)

lemma seeder_part_unat:
  assumes "0 < n" "n < 2 ^ 48"
  shows "unat (seeder_part p s n) = unat p div 2 ^ s mod 2 ^ 48 mod n"
proof -
  let ?low = "ucast (ucast (drop_bit s p) :: 48 word) :: 256 word"
  have low: "unat ?low = unat p div 2 ^ s mod 2 ^ 48"
    unfolding unat_word256 unat_word48 unat_drop_bit_eq by (simp only: drop_bit_eq_div)
  have n: "unat (of_nat n :: 256 word) = n"
    using assms(2) by (simp add: unat_of_nat take_bit_nat_eq_self)
  have "unat (?low mod of_nat n) = unat p div 2 ^ s mod 2 ^ 48 mod n"
    by (simp add: unat_mod_distrib low n)
  moreover have "unat p div 2 ^ s mod 2 ^ 48 mod n < 2 ^ 48"
    using assms by (meson mod_less_divisor order_less_trans)
  ultimately show ?thesis by (simp add: seeder_part_def unat_word48)
qed

section \<open>Seeds\<close>

definition book_counts :: "asset_book \<Rightarrow> nat list" where
  "book_counts bk = [length (bk_bgcolors bk), length (bk_bodies bk), length (bk_accessories bk),
                     length (bk_heads bk), length (bk_glasses bk)]"

lemma book_counts_ball:
  "(\<forall>n\<in>set (book_counts bk). P n) \<longleftrightarrow> P (length (bk_bgcolors bk)) \<and> P (length (bk_bodies bk)) \<and>
     P (length (bk_accessories bk)) \<and> P (length (bk_heads bk)) \<and> P (length (bk_glasses bk))"
  by (simp add: book_counts_def)

lemma emulated_part:
  assumes "bignumber_ok B" "0 < n" "n < 2 ^ 48" "2 ^ 232 \<le> unat p" "s \<le> 192"
  shows "getPseudorandomPart B (unat p) n s 48 = Some (unat (seeder_part p s n))"
proof -
  have "(2::nat) ^ (40 + s) \<le> 2 ^ 232" using assms(5) by (intro power_increasing) simp_all
  then have "2 ^ 40 * 2 ^ s \<le> unat p" using assms(4) by (simp add: power_add)
  then have "2 ^ 40 \<le> unat p div 2 ^ s" by (simp add: less_eq_div_iff_mult_less_eq)
  then have "\<not> unat p div 2 ^ s < 16 ^ 10" by simp
  then have "getPseudorandomPart B (unat p) n s 48 = Some (unat p div 2 ^ s mod 16 ^ 12 mod n)"
    using pseudorandom_part [OF assms(1,2)] by presburger
  moreover have "(16::nat) ^ 12 = 2 ^ 48" by simp
  ultimately show ?thesis unfolding seeder_part_unat [OF assms(2,3)] by presburger
qed

lemma emulation_throws:
  assumes "bignumber_ok B" "0 < n" "v < 2 ^ 232"
  shows "getPseudorandomPart B v n 192 48 = None"
proof -
  have "v < 16 ^ 10 * 2 ^ 192" using assms(3) by simp
  then have "v div 2 ^ 192 < 16 ^ 10" by (simp add: less_mult_imp_div_less)
  then show ?thesis using pseudorandom_part [OF assms(1,2)] by presburger
qed

lemma seed_throws:
  "getPseudorandomPart B (keccak h i) (length (bk_glasses bk)) 192 48 = None
    \<Longrightarrow> getAlpSeedFromBlockHash B keccak bk i h = None"
  by (simp add: getAlpSeedFromBlockHash_def Let_def split: option.split)

section \<open>Properties\<close>

text \<open>
  C11. The emulation agrees with the contract on every hash with a non-zero top 24 bits: the seed read
  from the block hash is the one \<open>AlpsSeeder.generateSeed\<close> returns, part by part, when every part list
  is non-empty.  Below \<open>2 ^ 232\<close> the twelve-digit cut meets the \<open>0x\<close> of the printed slice and the
  call throws, where the contract still returns a seed.
\<close>

theorem seed_matches_contract:
  assumes "bignumber_ok B" "\<forall>n\<in>set (book_counts bk). 0 < n \<and> n < 2 ^ 48" "keccak blockHash alpId = unat p"
  shows "getAlpSeedFromBlockHash B keccak bk alpId blockHash =
    (if unat p < 2 ^ 232 then None else Some (generateSeed p bk))"
proof (cases "unat p < 2 ^ 232")
  case True
  have "0 < length (bk_glasses bk)" using assms(2) by (simp only: book_counts_ball)
  then have "getPseudorandomPart B (unat p) (length (bk_glasses bk)) 192 48 = None"
    using assms(1) True by (intro emulation_throws)
  then have "getAlpSeedFromBlockHash B keccak bk alpId blockHash = None"
    unfolding assms(3) [symmetric] by (rule seed_throws)
  with True show ?thesis by (simp only: if_True)
next
  case False
  then have "2 ^ 232 \<le> unat p" by (simp only: not_less)
  note part = emulated_part [OF assms(1) _ _ this]
  have "getAlpSeedFromBlockHash B keccak bk alpId blockHash = Some (generateSeed p bk)"
    using assms(2) unfolding book_counts_ball getAlpSeedFromBlockHash_def assms(3) Let_def generateSeed_def
    by (simp only: part prod.case option.case)
  with False show ?thesis by (simp only: if_False)
qed

definition demo_hex :: bignumber where
  "demo_hex = \<lparr>bn_from = (\<lambda>s. if take 2 (drop 2 s) = ''0x'' then None
                              else map_option (digits_val 16) (those (map digit_value (drop 2 s)))),
               bn_toHexString = (\<lambda>n. ''0x'' @ hex_digits n)\<rparr>"

lemma those_digits: "\<forall>d\<in>set ds. d < 16 \<Longrightarrow> those (map (digit_value \<circ> digit_char) ds) = Some ds"
  by (induction ds) (simp_all add: digit_value_char)

lemma digits_no_prefix: "\<forall>d\<in>set ds. d < 16 \<Longrightarrow> take 2 (map digit_char ds) \<noteq> ''0x''"
  using digit_char_not_special by (cases ds; cases "tl ds") force+

lemma demo_hex_ok: "bignumber_ok demo_hex"
  using those_digits digits_no_prefix by (auto simp: bignumber_ok_def demo_hex_def)

definition demo_book :: asset_book where
  "demo_book = (let im = (\<lambda>s. \<lparr>as_filename = s, as_data = ''0x''\<rparr>)
     in \<lparr>bk_bgcolors = [''d5d7e1'', ''e1d7d5''], bk_bodies = [im ''b0'', im ''b1'', im ''b2''],
         bk_accessories = [im ''a0''], bk_heads = [im ''h0'', im ''h1''], bk_glasses = [im ''g0'', im ''g1'', im ''g2'']\<rparr>)"

lemma demo_book_counts: "\<forall>n\<in>set (book_counts demo_book). 0 < n \<and> n < 2 ^ 48"
  by (simp add: book_counts_def demo_book_def)

lemma demo_hash: "unat ((2::256 word) ^ 240 + 2 ^ 49 + 5) = 2 ^ 240 + 2 ^ 49 + 5"
  by simp

theorem seed_matches_contract_witness:
  "getAlpSeedFromBlockHash demo_hex (\<lambda>_ _. 2 ^ 240 + 2 ^ 49 + 5) demo_book 7 ''0xab'' =
     (if unat ((2::256 word) ^ 240 + 2 ^ 49 + 5) < 2 ^ 232 then None
      else Some (generateSeed (2 ^ 240 + 2 ^ 49 + 5) demo_book))"
  by (rule seed_matches_contract [OF demo_hex_ok demo_book_counts]) (rule demo_hash [symmetric])

definition whole_data :: "alp_data \<Rightarrow> bool" where
  "whole_data d \<longleftrightarrow> None \<notin> set (ad_parts d) \<and> ad_background d \<noteq> None"

definition made_seed :: "bignumber \<Rightarrow> asset_book \<Rightarrow> alp_seed \<Rightarrow> bool" where
  "made_seed B bk s \<longleftrightarrow>
     (\<exists>keccak alpId blockHash. getAlpSeedFromBlockHash B keccak bk alpId blockHash = Some s) \<or>
     (\<exists>draw. (\<forall>i. fst (draw i) < snd (draw i)) \<and> getRandomAlpSeed bk draw = s)"

lemma random_index_less: "0 < n \<Longrightarrow> fst r < snd r \<Longrightarrow> random_index r n < n"
  by (simp add: random_index_def less_mult_imp_div_less mult.commute)

lemma part_less: "getPseudorandomPart B v n s u = Some i \<Longrightarrow> i < n"
  by (auto simp: getPseudorandomPart_def split: option.splits if_splits)

lemma seed_in_range_whole:
  assumes "sd_background s < length (bk_bgcolors bk)" "sd_body s < length (bk_bodies bk)"
    "sd_accessory s < length (bk_accessories bk)" "sd_head s < length (bk_heads bk)"
    "sd_glasses s < length (bk_glasses bk)"
  shows "whole_data (getAlpData bk s)"
  using assms by (simp add: whole_data_def getAlpData_def array_at_def)

text \<open>
  Every seed the module makes, at random or from a hash, selects parts that exist: \<open>getAlpData\<close> of
  it has no \<open>undefined\<close> part and a background colour.
\<close>

theorem made_seeds_select_parts:
  assumes "made_seed B bk s" "\<forall>n\<in>set (book_counts bk). 0 < n"
  shows "whole_data (getAlpData bk s)"
  using assms(1) unfolding made_seed_def
proof (elim disjE exE conjE)
  fix keccak alpId blockHash
  assume "getAlpSeedFromBlockHash B keccak bk alpId blockHash = Some s"
  then show ?thesis
    by (intro seed_in_range_whole)
      (auto simp: getAlpSeedFromBlockHash_def Let_def dest: part_less split: option.splits)
next
  fix draw :: "nat \<Rightarrow> nat \<times> nat"
  assume "\<forall>i. fst (draw i) < snd (draw i)" and s: "getRandomAlpSeed bk draw = s"
  then have "\<And>i n. 0 < n \<Longrightarrow> random_index (draw i) n < n" by (simp add: random_index_less)
  then show ?thesis using assms(2) unfolding s [symmetric] book_counts_ball
    by (intro seed_in_range_whole) (simp_all add: getRandomAlpSeed_def)
qed

theorem made_seeds_select_parts_witness:
  "whole_data (getAlpData demo_book \<lparr>sd_background = 1, sd_body = 1, sd_accessory = 0, sd_head = 1, sd_glasses = 1\<rparr>)"
proof (rule made_seeds_select_parts)
  have "getRandomAlpSeed demo_book (\<lambda>_. (1, 2)) =
      \<lparr>sd_background = 1, sd_body = 1, sd_accessory = 0, sd_head = 1, sd_glasses = 1\<rparr>"
    by code_simp
  then show "made_seed demo_hex demo_book
      \<lparr>sd_background = 1, sd_body = 1, sd_accessory = 0, sd_head = 1, sd_glasses = 1\<rparr>"
    unfolding made_seed_def by (intro disjI2 exI [of _ "\<lambda>_. (1, 2)"]) simp
qed (use demo_book_counts in blast)

end
