(* ===== verification/Web_Activity.thy ===== *)
theory Web_Activity
  imports Web_Auction Web_Dao "HOL-Library.Multiset"
begin

text \<open>
  The activity of one alp: \<open>src/wrappers/alpActivity.ts\<close>, and the feed that shows it,
  \<open>components/ProfileActivityFeed\<close>.  Three queries of the subgraph are arguments, with their
  loading, error and data; an exception is \<open>None\<close>.
\<close>

section \<open>Events\<close>

datatype event_payload =
    PROPOSAL_VOTE web_proposal "string option" "int option"  \<comment> \<open>proposal, voter, supportDetailed\<close>
  | DELEGATION string string string  \<comment> \<open>previous delegate, new delegate, transaction hash\<close>
  | TRANSFER string string string  \<comment> \<open>from, to, transaction hash\<close>
  | AUCTION_WIN int string string  \<comment> \<open>alp, winner, transaction hash\<close>

record profile_event =
  pe_blockNumber :: jsnum
  pe_payload :: event_payload

record fetcher_response =
  fr_data :: "profile_event list option"
  fr_error :: bool
  fr_loading :: bool

record 'd query =
  q_loading :: bool
  q_error :: bool
  q_data :: 'd

record vote_history =
  vh_blockNumber :: string
  vh_proposalId :: string
  vh_supportDetailed :: int
  vh_voter :: string

record history_event =
  he_id :: string
  he_blockNumber :: string
  he_previous :: string  \<comment> \<open>\<open>previousHolder.id\<close> or \<open>previousDelegate.id\<close>\<close>
  he_new :: string

definition is_loading :: fetcher_response where
  "is_loading = \<lparr>fr_data = None, fr_error = False, fr_loading = True\<rparr>"

definition has_failed :: fetcher_response where
  "has_failed = \<lparr>fr_data = None, fr_error = True, fr_loading = False\<rparr>"

definition loaded :: "profile_event list \<Rightarrow> fetcher_response" where
  "loaded es = \<lparr>fr_data = Some es, fr_error = False, fr_loading = False\<rparr>"

section \<open>Votes\<close>

text \<open>The last vote on a proposal wins.\<close>

definition alp_votes :: "vote_history list \<Rightarrow> (string, vote_history) jsmap" where
  "alp_votes vs = fold (\<lambda>h. jm_set (vh_proposalId h) h) vs []"

text \<open>The timestamps are read at the index of the proposal; a missing one, or one that is not a number,
  throws.\<close>

definition keep_proposal :: "int \<Rightarrow> string list \<Rightarrow> nat \<times> web_proposal \<Rightarrow> bool option" where
  "keep_proposal alpCanVoteTimestamp createdTimestamps ip =
     (let (i, p) = ip in
      if wp_id p = None \<or> wp_id p = Some [] then Some False
      else if \<not> i < length createdTimestamps then None
      else case parseInt None (createdTimestamps ! i) of
             None \<Rightarrow> None
           | Some created \<Rightarrow>
               if alpCanVoteTimestamp > created then Some False
               else if wp_status p = Some CANCELLED \<and>
                       num_eq (num_add (num_add (wp_forCount p) (wp_abstainCount p)) (wp_againstCount p)) (Some 0)
               then Some False
               else Some True)"

definition vote_event :: "(string, vote_history) jsmap \<Rightarrow> web_proposal \<Rightarrow> profile_event" where
  "vote_event votes p =
     (case jm_get votes (case wp_id p of None \<Rightarrow> ''undefined'' | Some i \<Rightarrow> i) of
        Some v \<Rightarrow> \<lparr>pe_blockNumber = parseInt None (vh_blockNumber v),
                   pe_payload = PROPOSAL_VOTE p (Some (vh_voter v)) (Some (vh_supportDetailed v))\<rparr>
      | None \<Rightarrow> \<lparr>pe_blockNumber = wp_endBlock p, pe_payload = PROPOSAL_VOTE p None None\<rparr>)"

definition filter_proposals :: "int \<Rightarrow> string list \<Rightarrow> web_proposal list \<Rightarrow> web_proposal list option" where
  "filter_proposals alpCanVoteTimestamp createdTimestamps ps =
     map_option (\<lambda>keep. map snd (filter fst (zip keep ps)))
       (those (map (keep_proposal alpCanVoteTimestamp createdTimestamps) (enumerate 0 ps)))"

text \<open>The data of the vote query is the votes of the alp, \<open>None\<close> when there is no such alp.\<close>

definition useAlpProposalVoteEvents ::
  "vote_history list option query \<Rightarrow> string list query \<Rightarrow> int \<Rightarrow> web_proposal list option \<Rightarrow> fetcher_response option" where
  "useAlpProposalVoteEvents q qt alpCanVoteTimestamp proposals =
     (if q_loading q \<or> proposals = None \<or> proposals = Some [] \<or> q_loading qt then Some is_loading
      else if q_error q \<or> q_error qt then Some has_failed
      else case (q_data q, proposals) of
             (Some vs, Some ps) \<Rightarrow>
               map_option (\<lambda>filtered. loaded (map (vote_event (alp_votes vs)) filtered))
                 (filter_proposals alpCanVoteTimestamp (q_data qt) ps)
           | _ \<Rightarrow> None)"

section \<open>Transfers and delegations\<close>

text \<open>\<open>id.substring(0, id.indexOf('_'))\<close>: without an underscore the index is -1 and the result empty.\<close>

definition before_underscore :: "string \<Rightarrow> string" where
  "before_underscore i = (if CHR ''_'' \<in> set i then takeWhile (\<lambda>c. c \<noteq> CHR ''_'') i else [])"

definition transfer_event_of :: "history_event \<Rightarrow> profile_event" where
  "transfer_event_of e =
     \<lparr>pe_blockNumber = parseInt None (he_blockNumber e),
      pe_payload = TRANSFER (he_previous e) (he_new e) (before_underscore (he_id e))\<rparr>"

definition delegation_event_of :: "history_event \<Rightarrow> profile_event" where
  "delegation_event_of e =
     \<lparr>pe_blockNumber = parseInt None (he_blockNumber e),
      pe_payload = DELEGATION (he_previous e) (he_new e) (before_underscore (he_id e))\<rparr>"

definition useAlpTransferEvents :: "history_event list query \<Rightarrow> fetcher_response" where
  "useAlpTransferEvents q =
     (if q_loading q then is_loading else if q_error q then has_failed
      else loaded (map transfer_event_of (q_data q)))"

definition useDelegationEvents :: "history_event list query \<Rightarrow> fetcher_response" where
  "useDelegationEvents q =
     (if q_loading q then is_loading else if q_error q then has_failed
      else loaded (map delegation_event_of (q_data q)))"

section \<open>All events\<close>

text \<open>
  \<open>sort\<close> is stable.  A comparator that answers \<open>NaN\<close> is not consistent, and then the language leaves
  the order to the implementation, which is an argument.
\<close>

definition sort_by_block :: "(profile_event list \<Rightarrow> profile_event list) \<Rightarrow> profile_event list \<Rightarrow> profile_event list" where
  "sort_by_block impl es =
     (if \<forall>e\<in>set es. pe_blockNumber e \<noteq> None then sort_key (\<lambda>e. the (pe_blockNumber e)) es else impl es)"

text \<open>\<open>slice(0, e)\<close>; a negative end counts from the end of the array.\<close>

definition js_slice0 :: "'a list \<Rightarrow> int \<Rightarrow> 'a list" where
  "js_slice0 xs e = take (if e < 0 then nat (int (length xs) + e) else nat e) xs"

text \<open>\<open>None\<close>: the element is missing and the block in \<open>try\<close> throws (the events given are transfers).\<close>

definition win_event :: "int \<Rightarrow> profile_event list \<Rightarrow> profile_event option" where
  "win_event alpId sorted_transfers =
     (let i = (if alpId mod 10 = 0 then 0 else 1)
      in if i < length sorted_transfers
         then (case pe_payload (sorted_transfers ! i) of
                 TRANSFER _ to hash \<Rightarrow> Some \<lparr>pe_blockNumber = pe_blockNumber (sorted_transfers ! i),
                                             pe_payload = AUCTION_WIN alpId to hash\<rparr>
               | _ \<Rightarrow> None)
         else None)"

definition useAlpActivity ::
  "(profile_event list \<Rightarrow> profile_event list) \<Rightarrow> int \<Rightarrow> fetcher_response \<Rightarrow> fetcher_response \<Rightarrow> fetcher_response \<Rightarrow>
   fetcher_response" where
  "useAlpActivity impl alpId votes transfers delegations =
     (if fr_loading delegations \<or> fr_loading transfers \<or> fr_loading votes then is_loading
      else if fr_error votes \<or> fr_error transfers \<or> fr_error delegations then has_failed
      else case (fr_data transfers, fr_data votes, fr_data delegations) of
             (Some ts, Some vs, Some ds) \<Rightarrow>
               (let events = rev (sort_by_block impl (vs @ ts @ ds));
                    postProcessed = js_slice0 events (int (length events) - (if alpId mod 10 = 0 then 2 else 4))
                in loaded (case win_event alpId (sort_by_block impl ts) of
                             None \<Rightarrow> postProcessed
                           | Some w \<Rightarrow> postProcessed @ [w]))
           | _ \<Rightarrow> is_loading)"

section \<open>The feed\<close>

datatype feed =
    Spinner
  | FetchFailed
  | NoActivity
  | Feed "profile_event list" "profile_event list" bool  \<comment> \<open>above the fold, below it, with a toggle\<close>

definition MAX_EVENTS_SHOW_ABOVE_FOLD :: nat where
  "MAX_EVENTS_SHOW_ABOVE_FOLD = 5"

definition profileActivityFeed :: "fetcher_response \<Rightarrow> feed" where
  "profileActivityFeed r =
     (if fr_loading r \<or> fr_data r = None then Spinner
      else if fr_error r then FetchFailed
      else case fr_data r of
             None \<Rightarrow> Spinner
           | Some [] \<Rightarrow> NoActivity
           | Some es \<Rightarrow> Feed (take MAX_EVENTS_SHOW_ABOVE_FOLD es) (drop MAX_EVENTS_SHOW_ABOVE_FOLD es)
                          (MAX_EVENTS_SHOW_ABOVE_FOLD < length es))"

section \<open>Sorting\<close>

definition numbered :: "profile_event list \<Rightarrow> bool" where
  "numbered es \<longleftrightarrow> (\<forall>e\<in>set es. pe_blockNumber e \<noteq> None)"

abbreviation block :: "profile_event \<Rightarrow> int" where
  "block e \<equiv> the (pe_blockNumber e)"

lemma sort_numbered: "numbered es \<Longrightarrow> sort_by_block impl es = sort_key block es"
  by (simp add: sort_by_block_def numbered_def)

lemma numbered_append [simp]: "numbered (xs @ ys) \<longleftrightarrow> numbered xs \<and> numbered ys"
  by (auto simp: numbered_def)

lemma descending_rev_sort: "sorted_wrt (\<lambda>a b. block b \<le> block a) (rev (sort_key block es))"
  by (simp add: sorted_wrt_rev) (metis sorted_map sorted_sort_key)

lemma js_slice0_of_nat: "js_slice0 xs (int n) = take n xs"
  by (simp add: js_slice0_def)

lemma sort_key_below:
  assumes "\<And>x y. x \<in> set low \<Longrightarrow> y \<in> set high \<Longrightarrow> f x < f y"
  shows "sort_key f (high @ low) = sort_key f low @ sort_key f high"
proof (rule properties_for_sort_key)
  show "mset (sort_key f low @ sort_key f high) = mset (high @ low)" by simp
  show "sorted (map f (sort_key f low @ sort_key f high))"
    using assms by (auto simp: sorted_append less_imp_le)
  fix k
  assume "k \<in> set (sort_key f low @ sort_key f high)"
  then consider "filter (\<lambda>x. f k = f x) high = []" | "filter (\<lambda>x. f k = f x) low = []"
    using assms by (force simp: filter_empty_conv)
  then show "filter (\<lambda>x. f k = f x) (sort_key f low @ sort_key f high) = filter (\<lambda>x. f k = f x) (high @ low)"
    using sort_key_stable [of f "f k"] by cases (simp_all add: eq_commute)
qed

definition oldest_count :: "int \<Rightarrow> nat" where
  "oldest_count alpId = (if alpId mod 10 = 0 then 2 else 4)"

definition activity_win :: "int \<Rightarrow> profile_event list \<Rightarrow> profile_event list" where
  "activity_win alpId ts = (case win_event alpId (sort_key block ts) of None \<Rightarrow> [] | Some w \<Rightarrow> [w])"

lemma activity_data:
  assumes "numbered (vs @ ts @ ds)"
  shows "useAlpActivity impl alpId (loaded vs) (loaded ts) (loaded ds) =
    loaded (js_slice0 (rev (sort_key block (vs @ ts @ ds))) (int (length (vs @ ts @ ds)) - int (oldest_count alpId))
      @ activity_win alpId ts)"
proof -
  have "numbered ts" using assms by simp
  note sorts = sort_numbered [OF assms, of impl] sort_numbered [OF this, of impl]
  show ?thesis
    by (simp add: useAlpActivity_def loaded_def sorts Let_def oldest_count_def activity_win_def split: option.split)
qed

text \<open>
  The activity shows the newest events first and hides the oldest.  With at least as many
  events as it hides (two for an alp of the founders, four for any other), the events split into
  those shown, in descending order of their block, and the hidden ones, none of which is newer than
  a shown one; after them stands the win, read off the first (or second) transfer in block order,
  if there is one.
\<close>

theorem activity_newest_first:
  assumes "numbered (vs @ ts @ ds)" "oldest_count alpId \<le> length (vs @ ts @ ds)"
  shows "\<exists>shown hidden. fr_data (useAlpActivity impl alpId (loaded vs) (loaded ts) (loaded ds))
             = Some (shown @ activity_win alpId ts)
           \<and> mset shown + mset hidden = mset vs + mset ts + mset ds
           \<and> length hidden = oldest_count alpId
           \<and> sorted_wrt (\<lambda>a b. block b \<le> block a) shown
           \<and> (\<forall>a\<in>set shown. \<forall>b\<in>set hidden. block b \<le> block a)"
proof -
  let ?es = "rev (sort_key block (vs @ ts @ ds))" and ?n = "length (vs @ ts @ ds) - oldest_count alpId"
  have slice: "js_slice0 ?es (int (length (vs @ ts @ ds)) - int (oldest_count alpId)) = take ?n ?es"
    using assms(2) by (simp only: of_nat_diff [symmetric] js_slice0_of_nat)
  have parts: "sorted_wrt (\<lambda>a b. block b \<le> block a) (take ?n ?es @ drop ?n ?es)"
    using descending_rev_sort by simp
  have "mset (take ?n ?es) + mset (drop ?n ?es) = mset vs + mset ts + mset ds"
    by (metis append_take_drop_id mset_append mset_rev mset_sort add.assoc)
  moreover have "length (drop ?n ?es) = oldest_count alpId" using assms(2) by simp
  moreover have "fr_data (useAlpActivity impl alpId (loaded vs) (loaded ts) (loaded ds))
      = Some (take ?n ?es @ activity_win alpId ts)"
    unfolding activity_data [OF assms(1)] slice by (simp add: loaded_def)
  ultimately show ?thesis using parts unfolding sorted_wrt_append by blast
qed

definition demo_transfer :: "int \<Rightarrow> string \<Rightarrow> string \<Rightarrow> string \<Rightarrow> profile_event" where
  "demo_transfer b from to hash = \<lparr>pe_blockNumber = Some b, pe_payload = TRANSFER from to hash\<rparr>"

definition demo_delegation :: "int \<Rightarrow> string \<Rightarrow> string \<Rightarrow> string \<Rightarrow> profile_event" where
  "demo_delegation b from to hash = \<lparr>pe_blockNumber = Some b, pe_payload = DELEGATION from to hash\<rparr>"

definition demo_transfers :: "profile_event list" where
  "demo_transfers = [demo_transfer 30 ''0xaa'' ''0xbb'' ''t3'', demo_transfer 10 ''0x00'' ''0xhouse'' ''t1'',
                     demo_transfer 20 ''0xhouse'' ''0xaa'' ''t2'']"

definition demo_delegations :: "profile_event list" where
  "demo_delegations = [demo_delegation 10 ''0x00'' ''0xhouse'' ''t1'', demo_delegation 20 ''0xhouse'' ''0xaa'' ''t2'']"

lemmas demo_events = demo_transfers_def demo_delegations_def demo_transfer_def demo_delegation_def

theorem activity_newest_first_witness:
  "\<exists>shown hidden. fr_data (useAlpActivity id 7 (loaded []) (loaded demo_transfers) (loaded demo_delegations))
       = Some (shown @ activity_win 7 demo_transfers)
     \<and> mset shown + mset hidden = mset demo_transfers + mset demo_delegations \<and> length shown = 1
     \<and> activity_win 7 demo_transfers = [\<lparr>pe_blockNumber = Some 20, pe_payload = AUCTION_WIN 7 ''0xaa'' ''t2''\<rparr>]"
proof -
  have n: "numbered ([] @ demo_transfers @ demo_delegations)"
    by (simp add: numbered_def demo_events)
  have "oldest_count 7 \<le> length ([] @ demo_transfers @ demo_delegations)"
    by (simp add: oldest_count_def demo_events)
  from activity_newest_first [OF n this, of id] obtain shown hidden where
    *: "fr_data (useAlpActivity id 7 (loaded []) (loaded demo_transfers) (loaded demo_delegations))
          = Some (shown @ activity_win 7 demo_transfers)"
       "mset shown + mset hidden = mset demo_transfers + mset demo_delegations" "length hidden = oldest_count 7"
    by auto
  have "size (mset shown + mset hidden) = 5" unfolding *(2) by (simp add: demo_events)
  then have "length shown = 1" using *(3) by (simp add: oldest_count_def)
  moreover have "activity_win 7 demo_transfers = [\<lparr>pe_blockNumber = Some 20, pe_payload = AUCTION_WIN 7 ''0xaa'' ''t2''\<rparr>]"
    by (simp add: activity_win_def win_event_def demo_events)
  ultimately show ?thesis using *(1,2) by blast
qed

text \<open>
  An alp of the council (a multiple of five, not of ten) is minted to the council without an
  auction, but its feed treats it as auctioned: when it has been sold once, the sale and its
  delegation are hidden with the mint, and the sale is shown as a won auction.
\<close>

theorem council_sale_shown_as_win:
  assumes "alpId mod 10 = 5" "numbered (vs @ [m, s] @ [d1, d2])"
    and "pe_payload m = TRANSFER zero council h1" "pe_payload s = TRANSFER council buyer h2"
    and "block m < block s" "\<forall>v\<in>set vs. \<forall>e\<in>{m, s, d1, d2}. block e < block v"
  shows "fr_data (useAlpActivity impl alpId (loaded vs) (loaded [m, s]) (loaded [d1, d2])) =
    Some (rev (sort_key block vs) @ [\<lparr>pe_blockNumber = pe_blockNumber s, pe_payload = AUCTION_WIN alpId buyer h2\<rparr>])"
proof -
  let ?old = "[m, s] @ [d1, d2]"
  have es: "sort_key block (vs @ [m, s] @ [d1, d2]) = sort_key block ?old @ sort_key block vs"
    using assms(6) by (intro sort_key_below) auto
  have four: "length (vs @ [m, s] @ [d1, d2]) = length (rev (sort_key block vs)) + 4" by simp
  have "fr_data (useAlpActivity impl alpId (loaded vs) (loaded [m, s]) (loaded [d1, d2])) =
      Some (take (length (rev (sort_key block vs))) (rev (sort_key block vs) @ rev (sort_key block ?old))
        @ activity_win alpId [m, s])"
    unfolding activity_data [OF assms(2)] es four using assms(1)
    by (simp add: loaded_def oldest_count_def js_slice0_def)
  moreover have "sort_key block [m, s] = [m, s]" using assms(5) by simp
  then have "activity_win alpId [m, s] = [\<lparr>pe_blockNumber = pe_blockNumber s, pe_payload = AUCTION_WIN alpId buyer h2\<rparr>]"
    using assms(1,4) by (simp add: activity_win_def win_event_def)
  ultimately show ?thesis by simp
qed

definition demo_council :: "profile_event \<times> profile_event \<times> profile_event \<times> profile_event \<times> profile_event" where
  "demo_council = (demo_transfer 10 ''0x00'' ''0xcouncil'' ''t1'', demo_transfer 20 ''0xcouncil'' ''0xaa'' ''t2'',
     demo_delegation 10 ''0x00'' ''0xcouncil'' ''t1'', demo_delegation 20 ''0xcouncil'' ''0xaa'' ''t2'',
     demo_delegation 30 ''0xaa'' ''0xbb'' ''t3'')"

theorem council_sale_shown_as_win_witness:
  "case demo_council of (m, s, d1, d2, d3) \<Rightarrow>
     fr_data (useAlpActivity id 15 (loaded [d3]) (loaded [m, s]) (loaded [d1, d2])) =
       Some (rev (sort_key block [d3]) @ [\<lparr>pe_blockNumber = Some 20, pe_payload = AUCTION_WIN 15 ''0xaa'' ''t2''\<rparr>])"
proof -
  let ?m = "demo_transfer 10 ''0x00'' ''0xcouncil'' ''t1''" and ?s = "demo_transfer 20 ''0xcouncil'' ''0xaa'' ''t2''"
  let ?d1 = "demo_delegation 10 ''0x00'' ''0xcouncil'' ''t1''" and ?d2 = "demo_delegation 20 ''0xcouncil'' ''0xaa'' ''t2''"
  let ?d3 = "demo_delegation 30 ''0xaa'' ''0xbb'' ''t3''"
  have "numbered ([?d3] @ [?m, ?s] @ [?d1, ?d2])" by (simp add: numbered_def demo_events)
  moreover have "\<forall>v\<in>set [?d3]. \<forall>e\<in>{?m, ?s, ?d1, ?d2}. block e < block v" by (simp add: demo_events)
  ultimately have "fr_data (useAlpActivity id 15 (loaded [?d3]) (loaded [?m, ?s]) (loaded [?d1, ?d2])) =
      Some (rev (sort_key block [?d3]) @ [\<lparr>pe_blockNumber = pe_blockNumber ?s, pe_payload = AUCTION_WIN 15 ''0xaa'' ''t2''\<rparr>])"
    by (intro council_sale_shown_as_win) (simp_all add: demo_events)
  then show ?thesis by (simp add: demo_council_def demo_transfer_def)
qed

text \<open>
  A failed query is never reported: the feed tests for missing data before it tests for an
  error, and an error carries no data, so the spinner turns for ever.  It stops exactly when the
  three queries and the proposals have loaded without an error.
\<close>

theorem failed_query_spins:
  assumes "useAlpProposalVoteEvents qv qt canVote ps = Some votes"
  shows "(profileActivityFeed (useAlpActivity impl alpId votes (useAlpTransferEvents qf) (useDelegationEvents qd)) = Spinner
            \<longleftrightarrow> q_loading qv \<or> q_loading qt \<or> q_loading qf \<or> q_loading qd \<or> ps = None \<or> ps = Some []
              \<or> q_error qv \<or> q_error qt \<or> q_error qf \<or> q_error qd)
         \<and> profileActivityFeed (useAlpActivity impl alpId votes (useAlpTransferEvents qf) (useDelegationEvents qd))
             \<noteq> FetchFailed"
  using assms by (auto simp: useAlpProposalVoteEvents_def useAlpTransferEvents_def useDelegationEvents_def useAlpActivity_def
      profileActivityFeed_def is_loading_def has_failed_def loaded_def Let_def split: if_splits option.splits list.splits)

theorem failed_query_spins_witness:
  "profileActivityFeed (useAlpActivity id 7 has_failed
     (useAlpTransferEvents \<lparr>q_loading = False, q_error = False, q_data = []\<rparr>)
     (useDelegationEvents \<lparr>q_loading = False, q_error = False, q_data = []\<rparr>)) = Spinner"
proof -
  have "useAlpProposalVoteEvents \<lparr>q_loading = False, q_error = True, q_data = None\<rparr>
      \<lparr>q_loading = False, q_error = False, q_data = []\<rparr> 0 (Some [undefined]) = Some has_failed"
    by (simp add: useAlpProposalVoteEvents_def)
  from failed_query_spins [OF this, of id 7 "\<lparr>q_loading = False, q_error = False, q_data = []\<rparr>"
      "\<lparr>q_loading = False, q_error = False, q_data = []\<rparr>"]
  show ?thesis by simp
qed

end
