(* ===== verification/Web_Token.thy ===== *)
theory Web_Token
  imports Web_Hooks
begin

text \<open>
  The token as the web application reads it, \<open>src/wrappers/alpToken.ts\<close>: images, seeds with their
  cache in \<open>localStorage\<close>, votes, delegates and balances.  An answer of the contract is an argument,
  \<open>None\<close> a rejected call.  The cache is kept as the object it is the JSON text of.
\<close>

section \<open>Images\<close>

record alp_token =
  at_name :: string
  at_description :: string
  at_image :: string

text \<open>\<open>split(sep).pop()\<close>: what follows the last separator, or the whole string.\<close>

fun after_last :: "string \<Rightarrow> string \<Rightarrow> string option" where
  "after_last sep [] = None"
| "after_last sep (c # cs) =
     (case after_last sep cs of
        Some r \<Rightarrow> Some r
      | None \<Rightarrow> if take (length sep) (c # cs) = sep then Some (drop (length sep) (c # cs)) else None)"

definition split_pop :: "string \<Rightarrow> string \<Rightarrow> string" where
  "split_pop sep s = (case after_last sep s of None \<Rightarrow> s | Some r \<Rightarrow> r)"

text \<open>\<open>parse\<close> is \<open>JSON.parse\<close> after \<open>atob\<close>, \<open>None\<close> if either throws.  The result is \<open>None\<close> when the hook
  throws, \<open>Some None\<close> when it gives nothing.\<close>

definition useAlpToken ::
  "(string \<Rightarrow> alp_token option) \<Rightarrow> bool \<Rightarrow> string option \<Rightarrow> string option \<Rightarrow> alp_token option option" where
  "useAlpToken parse ready dataURI old =
     (case fetched ready dataURI old of
        None \<Rightarrow> Some None
      | Some alp \<Rightarrow> if alp = [] then Some None else map_option Some (parse (split_pop '';base64,'' alp)))"

section \<open>Seeds\<close>

text \<open>An object with the seed's keys; a seed of the contract or of the cache.\<close>

type_synonym seed_object = "(string, jsnum) jsmap"

definition expectedKeys :: "string list" where
  "expectedKeys = [''background'', ''body'', ''accessory'', ''head'', ''glasses'']"

definition isSeedValid :: "seed_object option \<Rightarrow> bool" where
  "isSeedValid seed =
     (let s = (case seed of None \<Rightarrow> [] | Some s \<Rightarrow> s);
          hasExpectedKeys = list_all (\<lambda>k. jm_has s k) expectedKeys;
          hasValidValues = list_ex (\<lambda>v. v \<noteq> Some 0) (map snd s)
      in hasExpectedKeys \<and> hasValidValues)"

record seed_entity =
  se_id :: string
  se_background :: string
  se_body :: string
  se_accessory :: string
  se_head :: string
  se_glasses :: string

type_synonym seed_cache = "(string, seed_object) jsmap"

definition seed_to_object :: "seed_entity \<Rightarrow> seed_object" where
  "seed_to_object s =
     [(''background'', js_Number (se_background s)), (''body'', js_Number (se_body s)),
      (''accessory'', js_Number (se_accessory s)), (''head'', js_Number (se_head s)),
      (''glasses'', js_Number (se_glasses s))]"

definition seedArrayToObject :: "seed_entity list \<Rightarrow> seed_cache" where
  "seedArrayToObject seeds = fold (\<lambda>s. jm_set (se_id s) (seed_to_object s)) seeds []"

text \<open>\<open>useAlpSeeds\<close> gives the cache; without one, the subgraph's seeds fill it for the next render.\<close>

definition useAlpSeeds :: "seed_entity list option \<Rightarrow> seed_cache option \<Rightarrow> seed_cache option \<times> seed_cache option" where
  "useAlpSeeds data storage =
     (case storage of
        Some cached \<Rightarrow> (Some cached, storage)
      | None \<Rightarrow> (None, case data of None \<Rightarrow> None
                       | Some seeds \<Rightarrow> if seeds = [] then None else Some (seedArrayToObject seeds)))"

text \<open>The object written to the cache holds the five keys of the response.\<close>

definition cached_seed :: "seed_object \<Rightarrow> seed_object" where
  "cached_seed r = map (\<lambda>k. (k, case jm_get r k of None \<Rightarrow> None | Some v \<Rightarrow> v))
                     [''accessory'', ''background'', ''body'', ''glasses'', ''head'']"

text \<open>One render of \<open>useAlpSeed\<close>: its result and the storage it leaves.\<close>

definition useAlpSeed ::
  "nat option \<Rightarrow> seed_object option \<Rightarrow> seed_cache option \<Rightarrow> seed_object option \<times> seed_cache option" where
  "useAlpSeed alpId response storage =
     (case (alpId, response) of
        (Some i, Some r) \<Rightarrow>
          (Some r, case storage of
                     Some cached \<Rightarrow> if isSeedValid (Some r) then Some (jm_set (show_nat i) (cached_seed r) cached) else storage
                   | None \<Rightarrow> storage)
      | _ \<Rightarrow> (Option.bind storage (\<lambda>c. jm_get c (case alpId of None \<Rightarrow> [] | Some i \<Rightarrow> show_nat i)), storage))"

text \<open>
  A component that shows a seed: the alp asked for, the response it holds, the storage.  A new alp
  renders at once, with the response still that of the alp before; a response renders again; a
  rejected call changes nothing.
\<close>

record seed_view =
  sv_alpId :: "nat option"
  sv_response :: "seed_object option"
  sv_storage :: "seed_cache option"

datatype seed_event =
    ShowAlp "nat option"
  | SeedAnswer "seed_object option"  \<comment> \<open>the effect's call returned, or rejected\<close>
  | ClearSeed  \<comment> \<open>the effect ran without an alp or without a contract\<close>

definition render_seed :: "seed_view \<Rightarrow> seed_view" where
  "render_seed v = v\<lparr>sv_storage := snd (useAlpSeed (sv_alpId v) (sv_response v) (sv_storage v))\<rparr>"

fun seed_step :: "seed_event \<Rightarrow> seed_view \<Rightarrow> seed_view" where
  "seed_step (ShowAlp i) v = render_seed (v\<lparr>sv_alpId := i\<rparr>)"
| "seed_step (SeedAnswer (Some r)) v = render_seed (v\<lparr>sv_response := Some r\<rparr>)"
| "seed_step (SeedAnswer None) v = v"
| "seed_step ClearSeed v = render_seed (v\<lparr>sv_response := None\<rparr>)"

definition shown_seed :: "seed_view \<Rightarrow> seed_object option" where
  "shown_seed v = fst (useAlpSeed (sv_alpId v) (sv_response v) (sv_storage v))"

section \<open>Votes, delegates, balances\<close>

definition ZERO_ACCOUNT :: string where
  "ZERO_ACCOUNT = ''0x0000000000000000000000000000000000000000''"

definition given_address :: "string option \<Rightarrow> bool" where
  "given_address a \<longleftrightarrow> a \<noteq> None \<and> a \<noteq> Some []"

definition useAccountVotes :: "bool \<Rightarrow> string option \<Rightarrow> (string \<Rightarrow> nat option) \<Rightarrow> nat option \<Rightarrow> nat option" where
  "useAccountVotes contract account getCurrentVotes old =
     fetched (given_address account \<and> contract) (getCurrentVotes (the account)) old"

definition useUserVotes :: "bool \<Rightarrow> string option \<Rightarrow> (string \<Rightarrow> nat option) \<Rightarrow> nat option \<Rightarrow> nat option" where
  "useUserVotes contract account getCurrentVotes old =
     useAccountVotes contract (case account of None \<Rightarrow> Some ZERO_ACCOUNT | Some a \<Rightarrow> Some a) getCurrentVotes old"

definition useUserDelegatee :: "bool \<Rightarrow> string option \<Rightarrow> (string \<Rightarrow> string option) \<Rightarrow> string option \<Rightarrow> string option" where
  "useUserDelegatee contract account delegates old =
     fetched (given_address account \<and> contract) (delegates (the account)) old"

definition useUserVotesAsOfBlock ::
  "bool \<Rightarrow> string option \<Rightarrow> nat option \<Rightarrow> (string \<Rightarrow> nat \<Rightarrow> nat option) \<Rightarrow> nat option \<Rightarrow> nat option" where
  "useUserVotesAsOfBlock contract account b getPriorVotes old =
     fetched (given_address account \<and> b \<noteq> None \<and> b \<noteq> Some 0 \<and> contract) (getPriorVotes (the account) (the b)) old"

text \<open>\<open>delegateVotes\<close> sends nothing without a contract.\<close>

definition useDelegateVotes :: "bool \<Rightarrow> (string \<Rightarrow> 'tx) \<Rightarrow> string \<Rightarrow> 'tx option" where
  "useDelegateVotes contract delegate delegatee = (if \<not> contract then None else Some (delegate delegatee))"

definition useAlpTokenBalance :: "bool \<Rightarrow> string option \<Rightarrow> (string \<Rightarrow> nat option) \<Rightarrow> nat option \<Rightarrow> nat option" where
  "useAlpTokenBalance contract address balanceOf old =
     fetched (given_address address \<and> contract) (balanceOf (the address)) old"

definition useUserAlpTokenBalance :: "bool \<Rightarrow> string option \<Rightarrow> (string \<Rightarrow> nat option) \<Rightarrow> nat option \<Rightarrow> nat option" where
  "useUserAlpTokenBalance contract account balanceOf old = useAlpTokenBalance contract account balanceOf old"

section \<open>What the cache holds\<close>

definition cache_entry :: "seed_view \<Rightarrow> nat \<Rightarrow> seed_object option" where
  "cache_entry v i = Option.bind (sv_storage v) (\<lambda>c. jm_get c (show_nat i))"

lemma map_of_tabulate: "map_of (map (\<lambda>k. (k, f k)) ks) k = (if k \<in> set ks then Some (f k) else None)"
  by (induction ks) auto

lemma cached_seed_get:
  "k \<in> set expectedKeys \<Longrightarrow> jm_get (cached_seed r) k = Some (case jm_get r k of None \<Rightarrow> None | Some v \<Rightarrow> v)"
  unfolding jm_get_def cached_seed_def expectedKeys_def map_of_tabulate by auto

lemma valid_has_keys: "isSeedValid (Some r) \<Longrightarrow> k \<in> set expectedKeys \<Longrightarrow> \<exists>v. jm_get r k = Some v"
  by (auto simp: isSeedValid_def list_all_iff jm_has_def)

text \<open>What a valid response caches agrees with it on the five keys.\<close>

definition same_seed :: "seed_object \<Rightarrow> seed_object \<Rightarrow> bool" where
  "same_seed r s \<longleftrightarrow> (\<forall>k\<in>set expectedKeys. jm_get r k = jm_get s k)"

lemma cached_seed_same: "isSeedValid (Some r) \<Longrightarrow> same_seed (cached_seed r) r"
  unfolding same_seed_def using valid_has_keys by (fastforce simp: cached_seed_get)

lemma render_props [simp]:
  "sv_alpId (render_seed v) = sv_alpId v" "sv_response (render_seed v) = sv_response v"
  by (simp_all add: render_seed_def)

lemma render_entry:
  "cache_entry (render_seed v) j =
     (if sv_alpId v = Some j \<and> sv_storage v \<noteq> None \<and> sv_response v \<noteq> None \<and> isSeedValid (sv_response v)
      then map_option cached_seed (sv_response v) else cache_entry v j)"
  by (auto simp: cache_entry_def render_seed_def useAlpSeed_def store_simps split: option.split)

lemma cache_entry_update [simp]:
  "cache_entry (v\<lparr>sv_response := r\<rparr>) j = cache_entry v j" "cache_entry (v\<lparr>sv_alpId := i\<rparr>) j = cache_entry v j"
  by (simp_all add: cache_entry_def)

lemma render_storage_none [simp]: "sv_storage (render_seed v) = None \<longleftrightarrow> sv_storage v = None"
  by (auto simp: render_seed_def useAlpSeed_def split: option.splits)

lemma shown_response [simp]: "shown_seed (v\<lparr>sv_alpId := Some i, sv_response := Some r, sv_storage := c\<rparr>) = Some r"
  by (simp add: shown_seed_def useAlpSeed_def)

lemma shown_answer: "sv_alpId v = Some i \<Longrightarrow> sv_response v = Some r \<Longrightarrow> shown_seed v = Some r"
  by (simp add: shown_seed_def useAlpSeed_def)

text \<open>Looking at an alp until its answer has come.\<close>

definition browse :: "(nat \<Rightarrow> seed_object) \<Rightarrow> nat \<Rightarrow> seed_view \<Rightarrow> seed_view" where
  "browse chain i v = seed_step (SeedAnswer (Some (chain i))) (seed_step (ShowAlp (Some i)) v)"

definition cache_ok :: "(nat \<Rightarrow> seed_object) \<Rightarrow> seed_view \<Rightarrow> bool" where
  "cache_ok chain v \<longleftrightarrow> (\<forall>i s. cache_entry v i = Some s \<longrightarrow> same_seed s (chain i))"

lemma browse_entry:
  assumes "isSeedValid (Some (chain i))"
  shows "cache_entry (browse chain i v) j =
    (if j = i \<and> sv_storage v \<noteq> None then Some (cached_seed (chain i)) else cache_entry v j)"
  using assms by (auto simp: browse_def render_entry)

lemma browse_ok: "isSeedValid (Some (chain i)) \<Longrightarrow> cache_ok chain v \<Longrightarrow> cache_ok chain (browse chain i v)"
  by (auto simp: cache_ok_def browse_entry cached_seed_same)

lemma browses_ok:
  "\<forall>i. isSeedValid (Some (chain i)) \<Longrightarrow> cache_ok chain v \<Longrightarrow> cache_ok chain (fold (browse chain) is v)"
  by (induction "is" arbitrary: v) (simp_all add: browse_ok)

lemma browses_storage: "sv_storage (fold (browse chain) is v) = None \<longleftrightarrow> sv_storage v = None"
  by (induction "is" arbitrary: v) (simp_all add: browse_def)

lemma shown_cached: "sv_alpId v = Some i \<Longrightarrow> sv_response v = None \<Longrightarrow> shown_seed v = cache_entry v i"
  by (simp add: shown_seed_def useAlpSeed_def cache_entry_def)

text \<open>
  The cache of seeds stays right as long as every alp shown is answered before the next: whatever
  alps are visited, in any order, the entries keep agreeing with the contract on the five keys, and
  the seed shown is the contract's for the alp shown.  But the new alp is rendered with the response
  of the old one: if its own call is rejected, the seed of the alp before is written under its
  number, and a later visit without the contract shows it from the cache.
\<close>

theorem seed_cache_right_if_answered:
  assumes "\<forall>i. isSeedValid (Some (chain i))" "cache_ok chain v"
  shows "cache_ok chain (fold (browse chain) (is @ [a]) v)
       \<and> shown_seed (fold (browse chain) (is @ [a]) v) = Some (chain a)
       \<and> (sv_storage v \<noteq> None \<longrightarrow> a \<noteq> b \<longrightarrow>
           (let v' = fold seed_step [ShowAlp (Some b), SeedAnswer None] (fold (browse chain) (is @ [a]) v)
            in shown_seed v' = Some (chain a) \<and> cache_entry v' b = Some (cached_seed (chain a))
               \<and> shown_seed (seed_step ClearSeed v') = Some (cached_seed (chain a))))"
proof (intro conjI impI)
  let ?w = "fold (browse chain) (is @ [a]) v"
  show "cache_ok chain ?w" using assms by (rule browses_ok)
  have held: "sv_alpId ?w = Some a" "sv_response ?w = Some (chain a)" by (simp_all add: browse_def)
  then show "shown_seed ?w = Some (chain a)" by (rule shown_answer)
  assume "sv_storage v \<noteq> None" "a \<noteq> b"
  then have "sv_storage ?w \<noteq> None" unfolding browses_storage by simp
  then have entry: "cache_entry (seed_step (ShowAlp (Some b)) ?w) b = Some (cached_seed (chain a))"
    using assms(1) held by (simp add: render_entry)
  then show "let v' = fold seed_step [ShowAlp (Some b), SeedAnswer None] ?w
      in shown_seed v' = Some (chain a) \<and> cache_entry v' b = Some (cached_seed (chain a))
         \<and> shown_seed (seed_step ClearSeed v') = Some (cached_seed (chain a))"
    using held by (simp add: Let_def shown_answer shown_cached render_entry)
qed

definition demo_seed :: "nat \<Rightarrow> seed_object" where
  "demo_seed i = [(''accessory'', Some (int i)), (''background'', Some 1), (''body'', Some 2), (''glasses'', Some 3), (''head'', Some 4)]"

definition demo_view :: seed_view where
  "demo_view = \<lparr>sv_alpId = None, sv_response = None, sv_storage = Some []\<rparr>"

theorem seed_cache_right_if_answered_witness:
  "cache_ok demo_seed (fold (browse demo_seed) ([3, 8] @ [4]) demo_view)
   \<and> shown_seed (fold (browse demo_seed) ([3, 8] @ [4]) demo_view) = Some (demo_seed 4)
   \<and> shown_seed (seed_step ClearSeed (fold seed_step [ShowAlp (Some 9), SeedAnswer None]
        (fold (browse demo_seed) ([3, 8] @ [4]) demo_view))) = Some (cached_seed (demo_seed 4))
   \<and> demo_seed 9 \<noteq> demo_seed 4"
proof -
  have valid: "\<forall>i. isSeedValid (Some (demo_seed i))"
    by (simp add: isSeedValid_def demo_seed_def expectedKeys_def jm_has_def jm_get_def)
  have ok: "cache_ok demo_seed demo_view"
    by (simp add: cache_ok_def cache_entry_def demo_view_def jm_get_def)
  have storage: "sv_storage demo_view \<noteq> None" "(4::nat) \<noteq> 9" by (simp_all add: demo_view_def)
  have "demo_seed 9 \<noteq> demo_seed 4" by (simp add: demo_seed_def)
  with seed_cache_right_if_answered [OF valid ok, of "[3, 8]" 4 9] storage show ?thesis
    unfolding Let_def by blast
qed

end
