(* ===== verification/Web_Functions.thy ===== *)
theory Web_Functions
  imports Prelude
begin

text \<open>
  The web application's serverless functions, \<open>packages/nouns-webapp/functions\<close>: the normalised token
  list, the ownership and delegation tests, the votes per proposal, and the verification of a
  signed message.  \<open>BigNumber.from\<close>, \<open>verifyMessage\<close> and \<open>JSON.parse\<close> are arguments; \<open>None\<close> is an
  exception.
\<close>

section \<open>The subgraph's answer, normalised\<close>

record raw_noun_vote =
  rv_proposalId :: string
  rv_supportDetailed :: string

record raw_seed =
  rs_background :: string
  rs_body :: string
  rs_accessory :: string
  rs_head :: string
  rs_glasses :: string

record raw_noun =
  rn_id :: string
  rn_owner :: string
  rn_delegate :: "string option"
  rn_votes :: "raw_noun_vote list"
  rn_seed :: raw_seed

record normalized_vote =
  nv_proposalId :: jsnum
  nv_supportDetailed :: jsnum

record normalized_seed =
  ns_background :: jsnum
  ns_body :: jsnum
  ns_accessory :: jsnum
  ns_head :: jsnum
  ns_glasses :: jsnum

record normalized_noun =
  nn_id :: jsnum
  nn_owner :: string
  nn_delegatedTo :: "string option"
  nn_votes :: "normalized_vote list"
  nn_seed :: normalized_seed

definition normalizeVote :: "raw_noun_vote \<Rightarrow> normalized_vote" where
  "normalizeVote v = \<lparr>nv_proposalId = js_Number (rv_proposalId v), nv_supportDetailed = js_Number (rv_supportDetailed v)\<rparr>"

definition normalizeSeed :: "raw_seed \<Rightarrow> normalized_seed" where
  "normalizeSeed s =
     \<lparr>ns_background = js_Number (rs_background s), ns_body = js_Number (rs_body s),
      ns_accessory = js_Number (rs_accessory s), ns_head = js_Number (rs_head s), ns_glasses = js_Number (rs_glasses s)\<rparr>"

definition normalizeVotes :: "raw_noun_vote list \<Rightarrow> normalized_vote list" where
  "normalizeVotes = map normalizeVote"

definition normalizeNoun :: "raw_noun \<Rightarrow> normalized_noun" where
  "normalizeNoun n =
     \<lparr>nn_id = js_Number (rn_id n), nn_owner = rn_owner n, nn_delegatedTo = rn_delegate n,
      nn_votes = normalizeVotes (rn_votes n), nn_seed = normalizeSeed (rn_seed n)\<rparr>"

definition normalizeNouns :: "raw_noun list \<Rightarrow> normalized_noun list" where
  "normalizeNouns = map normalizeNoun"

text \<open>The request may fail (\<open>None\<close>).\<close>

definition nounsQuery :: "raw_noun list option \<Rightarrow> normalized_noun list option" where
  "nounsQuery answer = map_option normalizeNouns answer"

section \<open>Owners and delegates\<close>

definition bigNumbersEqual :: "(string \<Rightarrow> nat option) \<Rightarrow> string \<Rightarrow> string \<Rightarrow> bool option" where
  "bigNumbersEqual bn a b = Option.bind (bn a) (\<lambda>x. Option.bind (bn b) (\<lambda>y. Some (x = y)))"

text \<open>A filter whose test may throw.\<close>

fun filter_throwing :: "('a \<Rightarrow> bool option) \<Rightarrow> 'a list \<Rightarrow> 'a list option" where
  "filter_throwing p [] = Some []"
| "filter_throwing p (x # xs) =
     (case p x of
        None \<Rightarrow> None
      | Some keep \<Rightarrow> map_option (\<lambda>ys. if keep then x # ys else ys) (filter_throwing p xs))"

definition ownerFilterFactory :: "(string \<Rightarrow> nat option) \<Rightarrow> string \<Rightarrow> normalized_noun list \<Rightarrow> normalized_noun list option" where
  "ownerFilterFactory bn address = filter_throwing (\<lambda>noun. bigNumbersEqual bn address (nn_owner noun))"

definition isNounOwner :: "(string \<Rightarrow> nat option) \<Rightarrow> string \<Rightarrow> normalized_noun list \<Rightarrow> bool option" where
  "isNounOwner bn address nouns = map_option (\<lambda>ns. length ns > 0) (ownerFilterFactory bn address nouns)"

text \<open>A missing or empty delegate is falsy, and the comparison is not made.\<close>

definition delegateFilterFactory :: "(string \<Rightarrow> nat option) \<Rightarrow> string \<Rightarrow> normalized_noun list \<Rightarrow> normalized_noun list option" where
  "delegateFilterFactory bn address =
     filter_throwing (\<lambda>noun. case nn_delegatedTo noun of
         None \<Rightarrow> Some False
       | Some d \<Rightarrow> if d = [] then Some False else bigNumbersEqual bn address d)"

definition isNounDelegate :: "(string \<Rightarrow> nat option) \<Rightarrow> string \<Rightarrow> normalized_noun list \<Rightarrow> bool option" where
  "isNounDelegate bn address nouns = map_option (\<lambda>ns. length ns > 0) (delegateFilterFactory bn address nouns)"

section \<open>Handlers\<close>

text \<open>The body that is turned into JSON; \<open>None\<close> when the handler throws.  The status is 200.\<close>

definition handle_is_delegate :: "(string \<Rightarrow> nat option) \<Rightarrow> string \<Rightarrow> raw_noun list option \<Rightarrow> bool option" where
  "handle_is_delegate bn body answer = Option.bind (nounsQuery answer) (isNounDelegate bn body)"

definition handle_is_owner :: "(string \<Rightarrow> nat option) \<Rightarrow> string \<Rightarrow> raw_noun list option \<Rightarrow> bool option" where
  "handle_is_owner bn body answer = Option.bind (nounsQuery answer) (isNounOwner bn body)"

record lite_noun =
  ln_id :: jsnum
  ln_owner :: string
  ln_delegatedTo :: "string option"

definition lightenNoun :: "normalized_noun \<Rightarrow> lite_noun" where
  "lightenNoun n = \<lparr>ln_id = nn_id n, ln_owner = nn_owner n, ln_delegatedTo = nn_delegatedTo n\<rparr>"

definition handle_owners :: "raw_noun list option \<Rightarrow> lite_noun list option" where
  "handle_owners answer = map_option (map lightenNoun) (nounsQuery answer)"

definition buildSeededNoun :: "normalized_noun \<Rightarrow> jsnum \<times> normalized_seed" where
  "buildSeededNoun n = (nn_id n, nn_seed n)"

definition handle_seeds :: "raw_noun list option \<Rightarrow> (jsnum \<times> normalized_seed) list option" where
  "handle_seeds answer = map_option (map buildSeededNoun) (nounsQuery answer)"

record noun_vote = lite_noun +
  nvt_votes :: "normalized_vote list"

definition buildNounVote :: "normalized_noun \<Rightarrow> noun_vote" where
  "buildNounVote n = \<lparr>ln_id = nn_id n, ln_owner = nn_owner n, ln_delegatedTo = nn_delegatedTo n, nvt_votes = nn_votes n\<rparr>"

definition handle_votes :: "raw_noun list option \<Rightarrow> noun_vote list option" where
  "handle_votes answer = map_option (map buildNounVote) (nounsQuery answer)"

section \<open>Votes per proposal\<close>

record proposal_vote =
  pv_nounId :: jsnum
  pv_owner :: string
  pv_delegatedTo :: "string option"
  pv_supportDetailed :: jsnum

definition builtProposalVote :: "normalized_noun \<Rightarrow> normalized_vote \<Rightarrow> proposal_vote" where
  "builtProposalVote noun v =
     \<lparr>pv_nounId = nn_id noun, pv_owner = nn_owner noun, pv_delegatedTo = nn_delegatedTo noun,
      pv_supportDetailed = nv_supportDetailed v\<rparr>"

type_synonym proposal_votes = "(string, proposal_vote list) jsmap"

definition push_vote :: "normalized_noun \<Rightarrow> normalized_vote \<Rightarrow> proposal_votes \<Rightarrow> proposal_votes" where
  "push_vote noun v acc =
     (let key = show_num (nv_proposalId v);
          acc' = (case jm_get acc key of None \<Rightarrow> jm_set key [] acc | Some _ \<Rightarrow> acc)
      in jm_set key (the (jm_get acc' key) @ [builtProposalVote noun v]) acc')"

definition reduceProposalVotes :: "normalized_noun list \<Rightarrow> proposal_votes" where
  "reduceProposalVotes nouns = fold (\<lambda>noun. fold (push_vote noun) (nn_votes noun)) nouns []"

definition handle_proposal_votes :: "raw_noun list option \<Rightarrow> proposal_votes option" where
  "handle_proposal_votes answer = map_option reduceProposalVotes (nounsQuery answer)"

section \<open>Verifying a signature\<close>

record error_reason =
  er_error :: string
  er_message :: string

definition errorBuilder :: "string \<Rightarrow> string \<Rightarrow> error_reason" where
  "errorBuilder e m = \<lparr>er_error = e, er_message = m\<rparr>"

text \<open>\<open>has\<close> of ramda is curried: \<open>has('msg')\<close> is a function that waits for the object, and a function
  is truthy.\<close>

datatype truthiness = Falsy | Truthy

definition has_key_partial :: "string \<Rightarrow> truthiness" where
  "has_key_partial k = Truthy"

definition invalidBodyCheck :: "string option \<Rightarrow> error_reason option" where
  "invalidBodyCheck body =
     (if body = None \<or> body = Some [] then Some (errorBuilder ''empty_body'' ''Request body is missing or empty'')
      else if has_key_partial ''msg'' = Falsy then Some (errorBuilder ''missing_msg'' ''Request is missing msg'')
      else if has_key_partial ''sig'' = Falsy then Some (errorBuilder ''missing_sig'' ''Request is missing signature'')
      else if has_key_partial ''signer'' = Falsy then Some (errorBuilder ''missing_signer'' ''Request is missing signer'')
      else None)"

record participant =
  pa_isNounDelegate :: bool
  pa_isNounOwner :: bool

record verify_response =
  vr_message :: "string option"
  vr_signature :: "string option"
  vr_providedSigner :: "string option"
  vr_recoveredAddress :: string
  vr_validSignature :: bool
  vr_participant :: "participant option"

text \<open>The libraries: a missing field is \<open>undefined\<close>, on which both throw.\<close>

record verify_env =
  ve_parse :: "string \<Rightarrow> (string, string) jsmap option"
  ve_verifyMessage :: "string \<Rightarrow> string \<Rightarrow> string option"
  ve_bn :: "string \<Rightarrow> nat option"
  ve_nouns :: "raw_noun list option"

definition participation ::
  "verify_env \<Rightarrow> bool \<Rightarrow> bool \<Rightarrow> string \<Rightarrow> participant option option" where
  "participation E fetchParticipation validSignature signer =
     (if fetchParticipation \<and> validSignature then
        (case nounsQuery (ve_nouns E) of
           None \<Rightarrow> None
         | Some nouns \<Rightarrow>
             (case (isNounDelegate (ve_bn E) signer nouns, isNounOwner (ve_bn E) signer nouns) of
                (Some d, Some ow) \<Rightarrow> Some (Some \<lparr>pa_isNounDelegate = d, pa_isNounOwner = ow\<rparr>)
              | _ \<Rightarrow> None))
      else Some None)"

text \<open>\<open>Inl\<close>: status 400; \<open>Inr\<close>: status 200.\<close>

definition verify_signature ::
  "verify_env \<Rightarrow> string option \<Rightarrow> bool \<Rightarrow> (error_reason + verify_response) option" where
  "verify_signature E body fetchParticipation =
     (case invalidBodyCheck body of
        Some e \<Rightarrow> Some (Inl e)
      | None \<Rightarrow>
          (case ve_parse E (the body) of
             None \<Rightarrow> None
           | Some obj \<Rightarrow>
               (case (jm_get obj ''message'', jm_get obj ''signature'', jm_get obj ''signer'') of
                  (Some message, Some signature, Some signer) \<Rightarrow>
                    (case ve_verifyMessage E message signature of
                       None \<Rightarrow> None
                     | Some recovered \<Rightarrow>
                         (case bigNumbersEqual (ve_bn E) signer recovered of
                            None \<Rightarrow> None
                          | Some valid \<Rightarrow>
                              map_option (\<lambda>pa. Inr \<lparr>vr_message = Some message, vr_signature = Some signature,
                                  vr_providedSigner = Some signer, vr_recoveredAddress = recovered,
                                  vr_validSignature = valid, vr_participant = pa\<rparr>)
                                (participation E fetchParticipation valid signer)))
                | _ \<Rightarrow> None)))"

section \<open>Votes per proposal are complete\<close>

definition votes_on :: "string \<Rightarrow> normalized_noun list \<Rightarrow> proposal_vote list" where
  "votes_on key nouns =
     concat (map (\<lambda>n. map (builtProposalVote n) (filter (\<lambda>v. show_num (nv_proposalId v) = key) (nn_votes n))) nouns)"

definition add_votes :: "'a list \<Rightarrow> 'a list option \<Rightarrow> 'a list option" where
  "add_votes xs m = (if xs = [] then m else Some ((case m of None \<Rightarrow> [] | Some ys \<Rightarrow> ys) @ xs))"

lemma add_votes_append [simp]: "add_votes ys (add_votes xs m) = add_votes (xs @ ys) m"
  by (auto simp: add_votes_def)

lemma add_votes_Nil [simp]: "add_votes [] m = m"
  by (simp add: add_votes_def)

lemma jm_get_empty: "jm_get [] k = None"
  by (simp add: jm_get_def)

lemma push_vote_get:
  "jm_get (push_vote n v acc) key =
     add_votes (if show_num (nv_proposalId v) = key then [builtProposalVote n v] else []) (jm_get acc key)"
  by (auto simp: push_vote_def add_votes_def store_simps Let_def split: option.split)

lemma push_votes_get:
  "jm_get (fold (push_vote n) vs acc) key =
     add_votes (map (builtProposalVote n) (filter (\<lambda>v. show_num (nv_proposalId v) = key) vs)) (jm_get acc key)"
  by (induction vs arbitrary: acc) (simp_all add: push_vote_get)

lemma nouns_get:
  "jm_get (fold (\<lambda>n. fold (push_vote n) (nn_votes n)) nouns acc) key = add_votes (votes_on key nouns) (jm_get acc key)"
  by (induction nouns arbitrary: acc) (simp_all add: push_votes_get votes_on_def)

text \<open>
  The votes of a proposal are all of them and in order: under the number of a proposal the
  function returns the votes of every token on it, token by token as the subgraph lists them, and
  no entry exactly when there is no vote.
\<close>

theorem proposal_votes_complete:
  "jm_get (reduceProposalVotes nouns) key = (if votes_on key nouns = [] then None else Some (votes_on key nouns))"
  by (simp add: reduceProposalVotes_def nouns_get add_votes_def jm_get_empty)

section \<open>The signature check\<close>

lemma filter_throwing_nonempty:
  "filter_throwing p xs = Some ys \<Longrightarrow> ys \<noteq> [] \<longleftrightarrow> (\<exists>x\<in>set xs. p x = Some True)"
  by (induction xs arbitrary: ys) (auto split: option.splits if_splits)

definition same_number :: "(string \<Rightarrow> nat option) \<Rightarrow> string \<Rightarrow> string \<Rightarrow> bool" where
  "same_number bn a b \<longleftrightarrow> bn a \<noteq> None \<and> bn a = bn b"

lemma bigNumbersEqual_iff: "bigNumbersEqual bn a b = Some r \<Longrightarrow> r \<longleftrightarrow> same_number bn a b"
  by (auto simp: bigNumbersEqual_def bind_eq_Some_conv same_number_def)

lemma bigNumbersEqual_True: "bigNumbersEqual bn a b = Some True \<longleftrightarrow> same_number bn a b"
  by (cases "bn a"; cases "bn b") (auto simp: bigNumbersEqual_def same_number_def)

lemma isNounOwner_iff:
  "isNounOwner bn a nouns = Some r \<Longrightarrow> r \<longleftrightarrow> (\<exists>n\<in>set nouns. same_number bn a (nn_owner n))"
  by (auto simp: isNounOwner_def ownerFilterFactory_def bigNumbersEqual_True dest!: filter_throwing_nonempty)

definition delegated_to :: "(string \<Rightarrow> nat option) \<Rightarrow> string \<Rightarrow> string option \<Rightarrow> bool" where
  "delegated_to bn a d \<longleftrightarrow> d \<noteq> None \<and> d \<noteq> Some [] \<and> same_number bn a (the d)"

lemma delegate_test:
  "(case d of None \<Rightarrow> Some False | Some x \<Rightarrow> if x = [] then Some False else bigNumbersEqual bn a x) = Some True
     \<longleftrightarrow> delegated_to bn a d"
  by (auto simp: delegated_to_def bigNumbersEqual_True split: option.split)

lemma isNounDelegate_iff:
  "isNounDelegate bn a nouns = Some r \<Longrightarrow> r \<longleftrightarrow> (\<exists>n\<in>set nouns. delegated_to bn a (nn_delegatedTo n))"
  by (auto simp: isNounDelegate_def delegateFilterFactory_def delegate_test dest!: filter_throwing_nonempty)

lemma check_only_empty:
  "invalidBodyCheck body =
     (if body = None \<or> body = Some [] then Some (errorBuilder ''empty_body'' ''Request body is missing or empty'') else None)"
  by (simp add: invalidBodyCheck_def has_key_partial_def)

lemma nouns_normalized: "nounsQuery answer = Some nouns \<Longrightarrow> \<exists>raw. answer = Some raw \<and> nouns = map normalizeNoun raw"
  by (auto simp: nounsQuery_def normalizeNouns_def)

lemma participation_flags:
  assumes "participation E fetch valid signer = Some pa"
  shows "(pa \<noteq> None \<longleftrightarrow> fetch \<and> valid) \<and>
    (\<forall>p. pa = Some p \<longrightarrow> (\<exists>raw. ve_nouns E = Some raw \<and>
        (pa_isNounOwner p \<longleftrightarrow> (\<exists>n\<in>set raw. same_number (ve_bn E) signer (rn_owner n))) \<and>
        (pa_isNounDelegate p \<longleftrightarrow> (\<exists>n\<in>set raw. delegated_to (ve_bn E) signer (rn_delegate n)))))"
proof (cases "fetch \<and> valid")
  case True
  then obtain nouns d ow where q: "nounsQuery (ve_nouns E) = Some nouns"
    and d: "isNounDelegate (ve_bn E) signer nouns = Some d" and ow: "isNounOwner (ve_bn E) signer nouns = Some ow"
    and pa: "pa = Some \<lparr>pa_isNounDelegate = d, pa_isNounOwner = ow\<rparr>"
    using assms by (auto simp: participation_def split: option.splits)
  from nouns_normalized [OF q] obtain raw where raw: "ve_nouns E = Some raw" "nouns = map normalizeNoun raw" by blast
  show ?thesis
    using True pa raw isNounDelegate_iff [OF d] isNounOwner_iff [OF ow] by (simp add: normalizeNoun_def)
next
  case False
  then show ?thesis using assms by (auto simp: participation_def)
qed


definition demo_verify :: verify_env where
  "demo_verify = \<lparr>
     ve_parse = (\<lambda>s. Some [(''message'', ''hi''), (''signature'', ''0x51''), (''signer'', ''0x0A'')]),
     ve_verifyMessage = (\<lambda>m s. Some ''0xa''),
     ve_bn = (\<lambda>s. if s = ''0x0A'' \<or> s = ''0xa'' then Some 10 else Some 11),
     ve_nouns = Some [\<lparr>rn_id = ''1'', rn_owner = ''0xa'', rn_delegate = Some ''0xb'', rn_votes = [],
       rn_seed = \<lparr>rs_background = ''0'', rs_body = ''1'', rs_accessory = ''2'', rs_head = ''3'', rs_glasses = ''4''\<rparr>\<rparr>]\<rparr>"


end
