(* ===== verification/Api.thy ===== *)
theory Api
  imports Prelude
begin

text \<open>
  The metadata service, \<open>packages/nouns-api/src\<close>: its two routes, the cache of metadata, and the
  HTTP server's connections.  The token contract, the image library, the blob storage and the
  validator of numbers are fields of the environment; the cache holds the object whose JSON text is
  stored.
\<close>

section \<open>Metadata\<close>

record token_metadata =
  tm_name :: string
  tm_description :: string
  tm_image :: string

record api_env =
  ae_isInt :: "string \<Rightarrow> bool"  \<comment> \<open>\<open>isInt({ min: 0, max: 1000 })\<close>\<close>
  ae_dataURI :: "string \<Rightarrow> string option"
  ae_json :: "string \<Rightarrow> token_metadata option"  \<comment> \<open>\<open>JSON.parse\<close> of the base64 text\<close>
  ae_png :: "string \<Rightarrow> string option"  \<comment> \<open>\<open>sharp\<close> on the base64 text\<close>
  ae_storeBlob :: "string \<Rightarrow> string option"

record api_state =
  as_redis :: "(string, token_metadata) jsmap"
  as_uploads :: "string list"  \<comment> \<open>the images sent to the blob storage, in order\<close>

definition getMetadataKey :: "string \<Rightarrow> string" where
  "getMetadataKey tokenId = ''metadata_'' @ tokenId"

text \<open>The outcome of \<open>getTokenMetadata\<close>: it throws, gives nothing, or gives the metadata.\<close>

datatype 'a outcome = Throws | Nothing | Gives 'a

definition getTokenMetadata :: "api_env \<Rightarrow> string \<Rightarrow> api_state \<Rightarrow> token_metadata outcome \<times> api_state" where
  "getTokenMetadata E tokenId s =
     (let key = getMetadataKey tokenId in
      case jm_get (as_redis s) key of
        Some cached \<Rightarrow> (Gives cached, s)
      | None \<Rightarrow>
          (case ae_dataURI E tokenId of
             None \<Rightarrow> (Nothing, s)
           | Some dataURI \<Rightarrow>
               (case ae_json E (js_substring_from dataURI 29) of
                  None \<Rightarrow> (Throws, s)
                | Some data \<Rightarrow>
                    (case ae_png E (js_substring_from (tm_image data) 26) of
                       None \<Rightarrow> (Throws, s)
                     | Some png \<Rightarrow>
                         (let s' = s\<lparr>as_uploads := as_uploads s @ [png]\<rparr> in
                          case ae_storeBlob E png of
                            None \<Rightarrow> (Throws, s')
                          | Some imageCID \<Rightarrow>
                              (let metadata = \<lparr>tm_name = tm_name data, tm_description = tm_description data,
                                               tm_image = ''ipfs://'' @ imageCID\<rparr>
                               in (Gives metadata, s'\<lparr>as_redis := jm_set key metadata (as_redis s')\<rparr>)))))))"

section \<open>Routes\<close>

datatype api_response =
    Root
  | BadRequest  \<comment> \<open>status 400\<close>
  | FetchFailed  \<comment> \<open>status 500\<close>
  | Metadata token_metadata
  | NoResponse  \<comment> \<open>the handler threw\<close>

datatype api_request = GetRoot | GetMetadata string

fun handle_request :: "api_env \<Rightarrow> api_request \<Rightarrow> api_state \<Rightarrow> api_response \<times> api_state" where
  "handle_request E GetRoot s = (Root, s)"
| "handle_request E (GetMetadata tokenId) s =
     (if \<not> ae_isInt E tokenId then (BadRequest, s)
      else case getTokenMetadata E tokenId s of
             (Throws, s') \<Rightarrow> (NoResponse, s')
           | (Nothing, s') \<Rightarrow> (FetchFailed, s')
           | (Gives m, s') \<Rightarrow> (Metadata m, s'))"

fun serve :: "api_env \<Rightarrow> api_request list \<Rightarrow> api_state \<Rightarrow> api_response list \<times> api_state" where
  "serve E [] s = ([], s)"
| "serve E (r # rs) s =
     (let (x, s1) = handle_request E r s; (xs, s2) = serve E rs s1 in (x # xs, s2))"

section \<open>The server\<close>

text \<open>The sockets open, those asked to end, those destroyed, and the exit code.\<close>

record http_server =
  hs_connections :: "nat list"
  hs_ended :: "nat list"
  hs_destroyed :: "nat list"
  hs_exit :: "nat option"

datatype server_event =
    Connection nat
  | Closed nat
  | Shutdown  \<comment> \<open>SIGTERM or SIGINT\<close>
  | DestroyTimer  \<comment> \<open>5 s after\<close>
  | ServerClosed
  | ExitTimer  \<comment> \<open>10 s after\<close>

definition process_exit :: "nat \<Rightarrow> http_server \<Rightarrow> http_server" where
  "process_exit code s = (case hs_exit s of None \<Rightarrow> s\<lparr>hs_exit := Some code\<rparr> | Some _ \<Rightarrow> s)"

fun server_step :: "server_event \<Rightarrow> http_server \<Rightarrow> http_server" where
  "server_step (Connection c) s = s\<lparr>hs_connections := hs_connections s @ [c]\<rparr>"
| "server_step (Closed c) s = s\<lparr>hs_connections := filter (\<lambda>curr. curr \<noteq> c) (hs_connections s)\<rparr>"
| "server_step Shutdown s = s\<lparr>hs_ended := hs_ended s @ hs_connections s\<rparr>"
| "server_step DestroyTimer s = s\<lparr>hs_destroyed := hs_destroyed s @ hs_connections s\<rparr>"
| "server_step ServerClosed s = process_exit 0 s"
| "server_step ExitTimer s = process_exit 1 s"

lemma open_connections:
  "set (hs_connections (fold server_step es s)) \<subseteq> set (hs_connections s) \<union> {c. Connection c \<in> set es}"
proof (induction es arbitrary: s)
  case (Cons e es)
  then show ?case by (cases e) (fastforce simp: process_exit_def split: option.splits)+
qed simp

lemma first_exit_wins: "hs_exit s = Some code \<Longrightarrow> hs_exit (fold server_step es s) = Some code"
proof (induction es arbitrary: s)
  case (Cons e es)
  then show ?case by (cases e) (auto simp: process_exit_def)
qed simp

section \<open>The cache\<close>

text \<open>What a token's metadata is, apart from the cache.\<close>

definition fresh_metadata :: "api_env \<Rightarrow> string \<Rightarrow> token_metadata option" where
  "fresh_metadata E t =
     Option.bind (ae_dataURI E t) (\<lambda>u.
     Option.bind (ae_json E (js_substring_from u 29)) (\<lambda>data.
     Option.bind (ae_png E (js_substring_from (tm_image data) 26)) (\<lambda>png.
     Option.bind (ae_storeBlob E png) (\<lambda>cid.
     Some \<lparr>tm_name = tm_name data, tm_description = tm_description data, tm_image = ''ipfs://'' @ cid\<rparr>))))"

definition cached :: "api_state \<Rightarrow> string \<Rightarrow> token_metadata option" where
  "cached s t = jm_get (as_redis s) (getMetadataKey t)"

definition cache_sound :: "api_env \<Rightarrow> api_state \<Rightarrow> bool" where
  "cache_sound E s \<longleftrightarrow> (\<forall>t m. cached s t = Some m \<longrightarrow> ae_isInt E t \<and> fresh_metadata E t = Some m)"

definition expected_response :: "api_env \<Rightarrow> api_request \<Rightarrow> api_response" where
  "expected_response E r =
     (case r of GetRoot \<Rightarrow> Root
      | GetMetadata t \<Rightarrow>
          if \<not> ae_isInt E t then BadRequest
          else if ae_dataURI E t = None then FetchFailed
          else case fresh_metadata E t of None \<Rightarrow> NoResponse | Some m \<Rightarrow> Metadata m)"

lemma getMetadataKey_inj [simp]: "getMetadataKey s = getMetadataKey t \<longleftrightarrow> s = t"
  by (simp add: getMetadataKey_def)

lemma cached_uploads [simp]: "cached (s\<lparr>as_uploads := u\<rparr>) t = cached s t"
  by (simp add: cached_def)

lemma cached_set [simp]:
  "cached (s\<lparr>as_redis := jm_set (getMetadataKey t) m (as_redis s)\<rparr>) t' = (if t' = t then Some m else cached s t')"
  by (simp add: cached_def store_simps)

lemma metadata_cached: "cached s t = Some m \<Longrightarrow> getTokenMetadata E t s = (Gives m, s)"
  by (simp add: getTokenMetadata_def cached_def)

text \<open>A miss answers as the services do, and keeps the cache as it was or adds the answer.\<close>

lemma metadata_missing:
  assumes "cached s t = None"
  shows "(fst (getTokenMetadata E t s) =
            (if ae_dataURI E t = None then Nothing else case fresh_metadata E t of None \<Rightarrow> Throws | Some m \<Rightarrow> Gives m))
       \<and> cached (snd (getTokenMetadata E t s)) t' = (if t' = t then fresh_metadata E t else cached s t')"
  using assms
  by (auto simp: getTokenMetadata_def cached_def fresh_metadata_def Let_def store_simps split: option.splits)

lemma request_step:
  assumes "cache_sound E s"
  shows "fst (handle_request E r s) = expected_response E r \<and> cache_sound E (snd (handle_request E r s))"
proof (cases r)
  case GetRoot
  then show ?thesis using assms by (simp add: expected_response_def)
next
  case (GetMetadata t)
  show ?thesis
  proof (cases "ae_isInt E t")
    case False
    then show ?thesis using assms GetMetadata by (simp add: expected_response_def)
  next
    case True
    show ?thesis
    proof (cases "cached s t")
      case (Some m)
      then have fresh: "fresh_metadata E t = Some m" using assms by (simp add: cache_sound_def)
      then have "ae_dataURI E t \<noteq> None" by (auto simp: fresh_metadata_def bind_eq_Some_conv)
      with fresh Some show ?thesis using assms True GetMetadata by (simp add: metadata_cached expected_response_def)
    next
      case None
      obtain x s' where x: "getTokenMetadata E t s = (x, s')" by fastforce
      note step = metadata_missing [OF None, of E, unfolded x fst_conv snd_conv]
      have "cache_sound E s'" using step assms True by (auto simp: cache_sound_def split: if_splits)
      moreover have "fst (handle_request E r s) = expected_response E r"
        using step True GetMetadata x by (auto simp: expected_response_def split: option.splits)
      moreover have "snd (handle_request E r s) = s'" using GetMetadata True x by (cases x) auto
      ultimately show ?thesis by simp
    qed
  qed
qed

lemma serve_sound:
  "cache_sound E s \<Longrightarrow> fst (serve E rs s) = map (expected_response E) rs \<and> cache_sound E (snd (serve E rs s))"
proof (induction rs arbitrary: s)
  case (Cons r rs)
  then show ?case using request_step [of E s r] by (simp add: Let_def split: prod.split) fastforce
qed simp

text \<open>A cached token stays cached, and asking for it again changes nothing.\<close>

definition settled :: "api_env \<Rightarrow> api_state \<Rightarrow> api_request \<Rightarrow> bool" where
  "settled E s r \<longleftrightarrow> (case r of GetRoot \<Rightarrow> True | GetMetadata t \<Rightarrow> \<not> ae_isInt E t \<or> cached s t \<noteq> None)"

lemma settled_unchanged: "settled E s r \<Longrightarrow> snd (handle_request E r s) = s"
  by (cases r) (auto simp: settled_def metadata_cached)

lemma settled_kept: "settled E s r \<Longrightarrow> settled E (snd (handle_request E q s)) r"
proof (cases q)
  case (GetMetadata t)
  assume r: "settled E s r"
  show ?thesis
  proof (cases "\<not> ae_isInt E t \<or> cached s t \<noteq> None")
    case False
    obtain x s' where x: "getTokenMetadata E t s = (x, s')" by fastforce
    have "cached s' t' = (if t' = t then fresh_metadata E t else cached s t')" for t'
      using metadata_missing [of s t E t'] x False by simp
    moreover have "snd (handle_request E q s) = s'" using GetMetadata False x by (cases x) auto
    ultimately show ?thesis using r False by (auto simp: settled_def split: api_request.splits)
  qed (use r GetMetadata in \<open>auto simp: metadata_cached\<close>)
qed simp

lemma settled_after:
  assumes "case r of GetRoot \<Rightarrow> True | GetMetadata t \<Rightarrow> ae_isInt E t \<longrightarrow> fresh_metadata E t \<noteq> None"
  shows "settled E (snd (handle_request E r s)) r"
proof (cases r)
  case (GetMetadata t)
  show ?thesis
  proof (cases "\<not> ae_isInt E t \<or> cached s t \<noteq> None")
    case True
    then show ?thesis using GetMetadata by (auto simp: settled_def metadata_cached)
  next
    case False
    obtain x s' where x: "getTokenMetadata E t s = (x, s')" by fastforce
    have "cached s' t = fresh_metadata E t" using metadata_missing [of s t E t] x False by simp
    moreover have "snd (handle_request E r s) = s'" using GetMetadata False x by (cases x) auto
    ultimately show ?thesis using assms GetMetadata False by (simp add: settled_def)
  qed
qed (simp add: settled_def)

lemma settled_serve: "settled E s r \<Longrightarrow> settled E (snd (serve E rs s)) r"
  by (induction rs arbitrary: s) (simp_all add: Let_def settled_kept split: prod.split, metis settled_kept snd_conv)

definition answerable :: "api_env \<Rightarrow> api_request \<Rightarrow> bool" where
  "answerable E r \<longleftrightarrow> (case r of GetRoot \<Rightarrow> True | GetMetadata t \<Rightarrow> ae_isInt E t \<longrightarrow> fresh_metadata E t \<noteq> None)"

lemma serve_settles: "\<forall>r\<in>set rs. answerable E r \<Longrightarrow> \<forall>r\<in>set rs. settled E (snd (serve E rs s)) r"
proof (induction rs arbitrary: s)
  case (Cons r rs)
  obtain x s1 where 1: "handle_request E r s = (x, s1)" by fastforce
  have "settled E s1 r" using settled_after [of E r s] Cons.prems 1 by (simp add: answerable_def)
  then have "settled E (snd (serve E rs s1)) r" by (rule settled_serve)
  moreover have "\<forall>q\<in>set rs. settled E (snd (serve E rs s1)) q" using Cons by simp
  ultimately show ?case using 1 by (simp add: Let_def split: prod.split) auto
qed simp

lemma settled_serve_unchanged: "\<forall>r\<in>set rs. settled E s r \<Longrightarrow> snd (serve E rs s) = s"
proof (induction rs)
  case (Cons r rs)
  obtain x where "handle_request E r s = (x, s)" using settled_unchanged [of E s r] Cons.prems by (metis list.set_intros(1) prod.collapse)
  then show ?case using Cons by (simp add: Let_def split: prod.split) auto
qed simp

text \<open>
  The cache of metadata is transparent: from a cache that agrees with the services, every
  sequence of requests is answered as the services would answer each of them (400 for a number the
  validator refuses, 500 when the contract's call fails, no answer when a later step throws), and
  the cache keeps agreeing.  When the services answer, a second round of the same requests changes
  nothing: no image is uploaded twice.
\<close>

theorem api_cache_transparent:
  assumes "cache_sound E s"
  shows "fst (serve E rs s) = map (expected_response E) rs \<and> cache_sound E (snd (serve E rs s))
       \<and> ((\<forall>r\<in>set rs. answerable E r) \<longrightarrow> snd (serve E rs (snd (serve E rs s))) = snd (serve E rs s))"
  using serve_sound [OF assms] serve_settles [of rs E s] settled_serve_unchanged by blast

definition demo_api :: api_env where
  "demo_api = \<lparr>ae_isInt = (\<lambda>t. t \<noteq> [] \<and> list_all (is_digit 10) t), ae_dataURI = (\<lambda>t. if t = ''9'' then None else Some (replicate 29 CHR ''x'' @ t)),
     ae_json = (\<lambda>s. Some \<lparr>tm_name = ''Alp '' @ s, tm_description = ''an alp'', tm_image = replicate 26 CHR ''y'' @ s\<rparr>),
     ae_png = (\<lambda>s. Some (''png'' @ s)), ae_storeBlob = (\<lambda>p. Some (''cid'' @ p))\<rparr>"

definition demo_api_state :: api_state where
  "demo_api_state = \<lparr>as_redis = [], as_uploads = []\<rparr>"

theorem api_cache_transparent_witness:
  "fst (serve demo_api [GetMetadata ''7'', GetMetadata ''x'', GetMetadata ''9'', GetMetadata ''7''] demo_api_state) =
     map (expected_response demo_api) [GetMetadata ''7'', GetMetadata ''x'', GetMetadata ''9'', GetMetadata ''7'']
   \<and> expected_response demo_api (GetMetadata ''x'') = BadRequest
   \<and> expected_response demo_api (GetMetadata ''9'') = FetchFailed
   \<and> snd (serve demo_api [GetMetadata ''7'', GetMetadata ''7''] (snd (serve demo_api [GetMetadata ''7'', GetMetadata ''7''] demo_api_state)))
      = snd (serve demo_api [GetMetadata ''7'', GetMetadata ''7''] demo_api_state)"
proof -
  have sound: "cache_sound demo_api demo_api_state"
    by (simp add: cache_sound_def cached_def demo_api_state_def jm_get_def)
  have "\<forall>r\<in>set [GetMetadata ''7'', GetMetadata ''7'']. answerable demo_api r"
    by (simp add: answerable_def fresh_metadata_def demo_api_def)
  moreover have "expected_response demo_api (GetMetadata ''x'') = BadRequest"
      "expected_response demo_api (GetMetadata ''9'') = FetchFailed" by code_simp+
  ultimately show ?thesis
    using api_cache_transparent [OF sound, of "[GetMetadata ''7'', GetMetadata ''x'', GetMetadata ''9'', GetMetadata ''7'']"]
      api_cache_transparent [OF sound, of "[GetMetadata ''7'', GetMetadata ''7'']"] by blast
qed

end
