(* ===== verification/Web_Bid.thy ===== *)
theory Web_Bid
  imports Web_Hooks
begin

text \<open>
  The bid form and the clocks of an auction: \<open>components/Bid\<close>, \<open>components/AuctionTimer\<close>,
  \<open>components/SettleManuallyBtn\<close> and the clock of \<open>components/AuctionActivity\<close>, with the checks of
  \<open>AlpsAuctionHouse.createBid\<close>.  Amounts are in wei.  \<open>parseEther\<close> is an argument; \<open>bignumber.js\<close> is
  exact on these values.
\<close>

section \<open>Amounts\<close>

text \<open>\<open>times(p / 100 + 1)\<close>, rounded up to a whole number of wei.\<close>

definition computeMinimumNextBid :: "nat \<Rightarrow> nat option \<Rightarrow> nat" where
  "computeMinimumNextBid currentBid minBidIncPercentage =
     (case minBidIncPercentage of None \<Rightarrow> 0 | Some p \<Rightarrow> (currentBid * (100 + p) + 99) div 100)"

definition pad4 :: "nat \<Rightarrow> string" where
  "pad4 n = [digit_char (n div 1000 mod 10), digit_char (n div 100 mod 10), digit_char (n div 10 mod 10), digit_char (n mod 10)]"

text \<open>A number of ten-thousandths with four decimals.\<close>

definition toFixed4 :: "nat \<Rightarrow> string" where
  "toFixed4 u = show_nat (u div 10000) @ ''.'' @ pad4 (u mod 10000)"

text \<open>\<open>toString\<close> of \<open>bignumber.js\<close> turns to exponential notation at \<open>10 ^ 21\<close>, which \<open>EthersBN.from\<close>
  refuses: \<open>None\<close>.\<close>

definition minBidEth :: "nat \<Rightarrow> string option" where
  "minBidEth minBid =
     (if minBid = 0 then Some ''0.08''
      else if 10 ^ 21 \<le> minBid then None
      else Some (toFixed4 ((minBid + (10 ^ 14 - 1)) div 10 ^ 14)))"

text \<open>The amount in the input, 0 when it is empty; \<open>None\<close> when \<open>parseEther\<close> throws.\<close>

definition currentBid :: "(string \<Rightarrow> nat option) \<Rightarrow> string \<Rightarrow> nat option" where
  "currentBid parseEther value = (if value = [] then Some 0 else parseEther value)"

definition bidInputHandler :: "string \<Rightarrow> string \<Rightarrow> string" where
  "bidInputHandler input old =
     (if CHR ''.'' \<in> set input \<and> length (js_split CHR ''.'' input ! 1) > 11 then old else input)"

section \<open>Placing a bid\<close>

datatype bid_result =
    BidIgnored
  | BidThrows
  | BidTooLow string  \<comment> \<open>the modal is shown and the input set to the minimum\<close>
  | BidSent nat nat  \<comment> \<open>value, gas limit\<close>

text \<open>\<open>estimate\<close>: the gas estimate of the contract's call, \<open>None\<close> when it rejects.\<close>

definition placeBidHandler ::
  "(string \<Rightarrow> nat option) \<Rightarrow> (nat \<Rightarrow> nat option) \<Rightarrow> bool \<Rightarrow> nat \<Rightarrow> nat option \<Rightarrow> string \<Rightarrow> bid_result" where
  "placeBidHandler parseEther estimate contract amount minBidIncPercentage value =
     (if value = [] \<or> \<not> contract then BidIgnored
      else let minBid = computeMinimumNextBid amount minBidIncPercentage in
        case currentBid parseEther value of
          None \<Rightarrow> BidThrows
        | Some bid \<Rightarrow>
            if bid < minBid then (case minBidEth minBid of None \<Rightarrow> BidThrows | Some s \<Rightarrow> BidTooLow s)
            else (case estimate bid of None \<Rightarrow> BidThrows | Some gas \<Rightarrow> BidSent bid (gas + 10000)))"

text \<open>The two amounts that \<open>createBid\<close> requires.\<close>

definition contract_takes_bid :: "nat \<Rightarrow> nat \<Rightarrow> nat \<Rightarrow> nat \<Rightarrow> bool" where
  "contract_takes_bid reservePrice amount minBidIncrementPercentage value \<longleftrightarrow>
     reservePrice \<le> value \<and> amount + (amount * minBidIncrementPercentage) div 100 \<le> value"

section \<open>The button\<close>

datatype bid_label = PlaceBidLabel | BidLabel | SettleLabel | SettleAuctionLabel | NoLabel

datatype bid_modal = NoModal | SuccessModal | SettledModal | FailedModal "string option" | ErrorModal "string option"

record bid_view =
  bv_status :: transaction_state  \<comment> \<open>of the bid's transaction\<close>
  bv_message :: "string option"
  bv_settle :: transaction_state
  bv_settleMessage :: "string option"
  bv_ended :: bool
  bv_account :: "string option"
  bv_amount :: nat
  bv_bidder :: string
  bv_value :: string  \<comment> \<open>of the input element\<close>
  bv_loading :: bool
  bv_label :: bid_label
  bv_modal :: bid_modal

text \<open>The bid shows up in the auction while its transaction is mining.\<close>

definition success_effect :: "(string \<Rightarrow> nat option) \<Rightarrow> bid_view \<Rightarrow> bid_view" where
  "success_effect parseEther v =
     (if bv_account v = None \<or> bv_account v = Some [] then v
      else if bv_status v = Mining \<and> Some (bv_bidder v) = bv_account v \<and>
              currentBid parseEther (bv_value v) = Some (bv_amount v)
      then v\<lparr>bv_status := Success, bv_modal := SuccessModal, bv_loading := False, bv_label := PlaceBidLabel, bv_value := []\<rparr>
      else v)"

definition place_effect :: "bid_view \<Rightarrow> bid_view" where
  "place_effect v =
     (if bv_ended v then v
      else case bv_status v of
             TNone \<Rightarrow> v\<lparr>bv_loading := False, bv_label := PlaceBidLabel\<rparr>
           | Mining \<Rightarrow> v\<lparr>bv_loading := True, bv_label := NoLabel\<rparr>
           | Fail \<Rightarrow> v\<lparr>bv_modal := FailedModal (bv_message v), bv_loading := False, bv_label := BidLabel\<rparr>
           | TException \<Rightarrow> v\<lparr>bv_modal := ErrorModal (bv_message v), bv_loading := False, bv_label := BidLabel\<rparr>
           | _ \<Rightarrow> v)"

definition settle_effect :: "bid_view \<Rightarrow> bid_view" where
  "settle_effect v =
     (if \<not> bv_ended v then v
      else case bv_settle v of
             TNone \<Rightarrow> v\<lparr>bv_loading := False, bv_label := SettleAuctionLabel\<rparr>
           | Mining \<Rightarrow> v\<lparr>bv_loading := True, bv_label := NoLabel\<rparr>
           | Success \<Rightarrow> v\<lparr>bv_modal := SettledModal, bv_loading := False, bv_label := SettleAuctionLabel\<rparr>
           | Fail \<Rightarrow> v\<lparr>bv_modal := FailedModal (bv_settleMessage v), bv_loading := False, bv_label := SettleAuctionLabel\<rparr>
           | TException \<Rightarrow> v\<lparr>bv_modal := ErrorModal (bv_settleMessage v), bv_loading := False, bv_label := SettleAuctionLabel\<rparr>
           | _ \<Rightarrow> v)"

text \<open>The effects run when what they depend on has changed, in the order they are written.\<close>

datatype bid_page_event =
    BidStatus transaction_state "string option"
  | SettleStatus transaction_state "string option"
  | AuctionShown nat string  \<comment> \<open>amount and bidder of the auction on display\<close>
  | AuctionEnds bool
  | Typed string

fun bid_step :: "(string \<Rightarrow> nat option) \<Rightarrow> bid_page_event \<Rightarrow> bid_view \<Rightarrow> bid_view" where
  "bid_step P (BidStatus st msg) v = place_effect (success_effect P (v\<lparr>bv_status := st, bv_message := msg\<rparr>))"
| "bid_step P (SettleStatus st msg) v = settle_effect (v\<lparr>bv_settle := st, bv_settleMessage := msg\<rparr>)"
| "bid_step P (AuctionShown a b) v = success_effect P (v\<lparr>bv_amount := a, bv_bidder := b\<rparr>)"
| "bid_step P (AuctionEnds e) v = settle_effect (place_effect (v\<lparr>bv_ended := e\<rparr>))"
| "bid_step P (Typed s) v = v\<lparr>bv_value := bidInputHandler s (bv_value v)\<rparr>"

definition bid_disabled :: "bid_view \<Rightarrow> bool" where
  "bid_disabled v \<longleftrightarrow> bv_status v = Mining \<or> bv_settle v = Mining \<or> bv_account v = None \<or> bv_account v = Some []"

section \<open>Clocks\<close>

text \<open>\<open>AuctionActivity\<close>: ended, or the next look in so many milliseconds.\<close>

definition auction_clock :: "int \<Rightarrow> int \<Rightarrow> bool \<times> nat" where
  "auction_clock endTime now =
     (let timeLeft = endTime - now in if timeLeft \<le> 0 then (True, 0) else (False, if timeLeft > 300 then 30000 else 1000))"

text \<open>\<open>AuctionTimer\<close>: the seconds left, and the hours, minutes and seconds of that duration.\<close>

definition auction_timer :: "int \<Rightarrow> int \<Rightarrow> int" where
  "auction_timer endTime now = (let timeLeft = endTime - now in if timeLeft \<le> 0 then 0 else timeLeft)"

definition duration_parts :: "int \<Rightarrow> int \<times> int \<times> int" where
  "duration_parts t = (t div 3600 mod 24, t div 60 mod 60, t mod 60)"

definition MINS_TO_ENABLE_MANUAL_SETTLEMENT :: int where
  "MINS_TO_ENABLE_MANUAL_SETTLEMENT = 2"

definition settle_clock :: "nat \<Rightarrow> int \<Rightarrow> int \<Rightarrow> bool \<times> int" where
  "settle_clock chainId endTime now =
     (if chainId \<noteq> 1 then (True, 0)
      else let timeLeft = MINS_TO_ENABLE_MANUAL_SETTLEMENT * 60 - (now - endTime)
           in if timeLeft \<le> 0 then (True, 0) else (False, timeLeft))"

definition settle_minutes :: "int \<Rightarrow> int" where
  "settle_minutes t = (let mins = t div 60 mod 60 in if mins \<noteq> 0 then mins + 1 else 1)"

lemma timer_short:
  assumes "0 \<le> t" "t < 86400"
  shows "case duration_parts t of (h, m, s) \<Rightarrow> h * 3600 + m * 60 + s = t"
proof -
  have "t div 3600 = t div 60 div 60" using assms(1) by (simp add: zdiv_zmult2_eq [symmetric])
  moreover have "t div 3600 mod 24 = t div 3600" using assms by (intro mod_pos_pos_trivial) auto
  moreover have "t = t div 60 * 60 + t mod 60" "t div 60 = t div 60 div 60 * 60 + t div 60 mod 60" by simp_all
  ultimately show ?thesis unfolding duration_parts_def prod.case by linarith
qed

lemma settle_open_iff: "fst (settle_clock 1 endTime now) \<longleftrightarrow> endTime + 120 \<le> now"
  by (auto simp: settle_clock_def MINS_TO_ENABLE_MANUAL_SETTLEMENT_def Let_def)

section \<open>The form and the contract\<close>

text \<open>\<open>parseEther\<close> on what the form suggests: a decimal with four places, a multiple of \<open>10 ^ 14\<close> wei.\<close>

definition parses_fixed :: "(string \<Rightarrow> nat option) \<Rightarrow> bool" where
  "parses_fixed P \<longleftrightarrow> P ''0.08'' = Some (8 * 10 ^ 16) \<and> (\<forall>u. P (toFixed4 u) = Some (u * 10 ^ 14))"

lemma ceil_div: "0 < (k::nat) \<Longrightarrow> m \<le> (m + (k - 1)) div k * k \<and> (m + (k - 1)) div k * k < m + k"
proof -
  assume k: "0 < k"
  have "(m + (k - 1)) div k * k \<le> m + (k - 1)" by simp
  moreover have "m + (k - 1) < (m + (k - 1)) div k * k + k" using k by (metis dividend_less_div_times add.commute mult.commute)
  ultimately show ?thesis using k by linarith
qed

lemma next_bid_bounds:
  "amount + amount * p div 100 \<le> computeMinimumNextBid amount (Some p)
   \<and> computeMinimumNextBid amount (Some p) \<le> amount + amount * p div 100 + 1"
proof -
  have "amount * (100 + p) = amount * p + amount * 100" by (simp add: algebra_simps)
  then have "amount * (100 + p) div 100 = amount + amount * p div 100" by simp
  moreover have "computeMinimumNextBid amount (Some p) = (amount * (100 + p) + 99) div 100"
    by (simp add: computeMinimumNextBid_def)
  moreover have "n div 100 \<le> (n + 99) div 100 \<and> (n + 99) div 100 \<le> n div 100 + 1" for n :: nat
    using div_le_mono [of n "n + 99" 100] div_le_mono [of "n + 99" "n + 100" 100] by simp
  ultimately show ?thesis by metis
qed

lemma suggestion_covers:
  assumes "parses_fixed P" "minBidEth m = Some s"
  shows "\<exists>w. P s = Some w \<and> m \<le> w \<and> (0 < m \<longrightarrow> w < m + 10 ^ 14)"
proof (cases "m = 0")
  case True
  then show ?thesis using assms by (auto simp: minBidEth_def parses_fixed_def)
next
  case False
  then have "s = toFixed4 ((m + (10 ^ 14 - 1)) div 10 ^ 14)"
    using assms(2) unfolding minBidEth_def by (simp split: if_splits)
  then have "P s = Some ((m + (10 ^ 14 - 1)) div 10 ^ 14 * 10 ^ 14)"
    using assms(1) by (simp only: parses_fixed_def)
  moreover have "0 < (10::nat) ^ 14" by simp
  note ceil_div [OF this, of m]
  ultimately show ?thesis by blast
qed


text \<open>A reader of decimals that satisfies the law.\<close>

definition decimal_wei :: "string \<Rightarrow> nat option" where
  "decimal_wei s =
     (case js_split CHR ''.'' s of
        [a, b] \<Rightarrow> (case (read_digits 10 a, read_digits 10 b) of
                    (Some x, Some y) \<Rightarrow> Some ((x * 10 ^ length b + y) * 10 ^ (18 - length b))
                  | _ \<Rightarrow> None)
      | [a] \<Rightarrow> map_option (\<lambda>x. x * 10 ^ 18) (read_digits 10 a)
      | _ \<Rightarrow> None)"

lemma pad4_value:
  assumes "r < 10000"
  shows "read_digits 10 (pad4 r) = Some r"
proof -
  let ?ds = "[r div 1000 mod 10, r div 100 mod 10, r div 10 mod 10, r mod 10]"
  have "read_digits 10 (map digit_char ?ds) = Some (digits_val 10 ?ds)"
    by (rule read_digits_chars) simp_all
  moreover have "digits_val 10 ?ds = r"
  proof -
    have top: "r div 1000 mod 10 = r div 10 div 10 div 10" using assms by (simp add: div_mult2_eq [symmetric])
    have "r div 100 mod 10 = r div 10 div 10 mod 10" by (simp add: div_mult2_eq [symmetric])
    then have "digits_val 10 ?ds = ((r div 10 div 10 div 10 * 10 + r div 10 div 10 mod 10) * 10 + r div 10 mod 10) * 10 + r mod 10"
      unfolding top by (simp add: digits_val_def)
    also have "\<dots> = r" by (simp only: div_mult_mod_eq)
    finally show ?thesis .
  qed
  ultimately show ?thesis by (simp add: pad4_def)
qed

lemma digit_not_dot: "d < 10 \<Longrightarrow> digit_char d \<noteq> CHR ''.''"
  using lt16_cases [of d] by (auto simp: digit_char_def)

lemma dot_not_digit: "CHR ''.'' \<notin> set (show_nat n)"
  using set_show_nat digit_not_dot by metis

lemma read_show_nat: "read_digits 10 (show_nat n) = Some n"
  using read_digits_chars [of 10 "digits_of 10 n"] digits_of_bound [of 10 n]
  by (simp add: show_nat_def show_base_def digits_val_of)

lemma decimal_wei_fixed: "decimal_wei (toFixed4 u) = Some (u * 10 ^ 14)"
proof -
  have dot: "CHR ''.'' \<notin> set (pad4 (u mod 10000))"
    using digit_not_dot by (auto simp: pad4_def dest: sym)
  have "js_split CHR ''.'' (toFixed4 u) = [show_nat (u div 10000), pad4 (u mod 10000)]"
    unfolding toFixed4_def using js_split_append_sep [OF dot_not_digit] js_split_no_sep [OF dot] by simp
  moreover have "length (pad4 (u mod 10000)) = 4" by (simp add: pad4_def)
  moreover have "u div 10000 * 10 ^ 4 + u mod 10000 = u" by simp
  ultimately show ?thesis by (simp add: decimal_wei_def read_show_nat pad4_value)
qed

lemma decimal_wei_ok: "parses_fixed decimal_wei"
proof -
  have "js_split CHR ''.'' ''0.08'' = [''0'', ''08'']" "read_digits 10 ''0'' = Some 0" "read_digits 10 ''08'' = Some 8"
    by code_simp+
  then have "decimal_wei ''0.08'' = Some (8 * 10 ^ 16)" by (simp add: decimal_wei_def)
  then show ?thesis using decimal_wei_fixed by (simp only: parses_fixed_def) blast
qed


section \<open>The life of the button\<close>

text \<open>Status changes that come while the bid's own transaction is what the view follows.\<close>

definition waiting :: "bid_view \<Rightarrow> bool" where
  "waiting v \<longleftrightarrow> \<not> bv_ended v \<and> bv_loading v \<and> bv_status v = Success"

lemma waiting_stays:
  assumes "waiting v" "(\<exists>a b. e = AuctionShown a b) \<or> (\<exists>s. e = Typed s) \<or> e = AuctionEnds False"
  shows "waiting (bid_step P e v)"
  using assms by (auto simp: waiting_def success_effect_def place_effect_def settle_effect_def split: if_splits)

lemma waiting_run:
  "waiting v \<Longrightarrow> \<forall>e\<in>set es. (\<exists>a b. e = AuctionShown a b) \<or> (\<exists>s. e = Typed s) \<or> e = AuctionEnds False
    \<Longrightarrow> waiting (fold (bid_step P) es v)"
  by (induction es arbitrary: v) (simp_all add: waiting_stays)

text \<open>
  The bid's button is released only if the bid is seen in the auction before its transaction is
  reported mined.  When the auction shows the user's amount and address while the transaction is
  mining, the modal reports success, the button is ready again and stays so when the receipt
  arrives.  When the receipt arrives first, no effect handles it: no success is reported and the
  button keeps spinning, whatever auctions are shown and whatever is typed until the auction ends.
\<close>

theorem bid_button_released:
  assumes "\<not> bv_ended v" "bv_account v = Some me" "me \<noteq> []" "P (bv_value v) = Some amount" "bv_value v \<noteq> []"
    "bv_bidder v \<noteq> me"
    "\<forall>e\<in>set es. (\<exists>a b. e = AuctionShown a b) \<or> (\<exists>s. e = Typed s) \<or> e = AuctionEnds False"
  shows "(let seen = bid_step P (BidStatus Success msg) (bid_step P (AuctionShown amount me) (bid_step P (BidStatus Mining None) v))
          in \<not> bv_loading seen \<and> bv_modal seen = SuccessModal \<and> bv_value seen = [])
       \<and> (let mined = bid_step P (BidStatus Success msg) (bid_step P (BidStatus Mining None) v);
              later = fold (bid_step P) es (bid_step P (AuctionShown amount me) mined)
          in bv_modal mined = bv_modal v \<and> bv_loading later)"
proof (rule conjI)
  show "let seen = bid_step P (BidStatus Success msg) (bid_step P (AuctionShown amount me) (bid_step P (BidStatus Mining None) v))
        in \<not> bv_loading seen \<and> bv_modal seen = SuccessModal \<and> bv_value seen = []"
    using assms(1-6) by (simp add: success_effect_def place_effect_def currentBid_def Let_def)
  let ?mined = "bid_step P (BidStatus Success msg) (bid_step P (BidStatus Mining None) v)"
  have "waiting ?mined" using assms(1-6) by (simp add: waiting_def success_effect_def place_effect_def)
  then have "waiting (bid_step P (AuctionShown amount me) ?mined)" by (rule waiting_stays) blast
  then have "waiting (fold (bid_step P) es (bid_step P (AuctionShown amount me) ?mined))"
    using assms(7) by (rule waiting_run)
  then show "let mined = ?mined; later = fold (bid_step P) es (bid_step P (AuctionShown amount me) mined)
        in bv_modal mined = bv_modal v \<and> bv_loading later"
    using assms(1-6) by (simp add: waiting_def success_effect_def place_effect_def)
qed

definition demo_bid_view :: bid_view where
  "demo_bid_view = \<lparr>bv_status = TNone, bv_message = None, bv_settle = TNone, bv_settleMessage = None, bv_ended = False,
     bv_account = Some ''0xme'', bv_amount = 5, bv_bidder = ''0xyou'', bv_value = ''0.0001'', bv_loading = False,
     bv_label = PlaceBidLabel, bv_modal = NoModal\<rparr>"

theorem bid_button_released_witness:
  "bv_loading (fold (bid_step decimal_wei) [AuctionShown 7 ''0xyou'', Typed ''1'']
     (bid_step decimal_wei (AuctionShown (10 ^ 14) ''0xme'')
       (bid_step decimal_wei (BidStatus Success None) (bid_step decimal_wei (BidStatus Mining None) demo_bid_view))))"
proof -
  have "toFixed4 1 = ''0.0001''"
    by (simp add: toFixed4_def pad4_def show_nat_def show_base_def digits_of.simps digit_char_def)
  then have p: "decimal_wei (bv_value demo_bid_view) = Some (10 ^ 14)"
    using decimal_wei_fixed [of 1] by (simp add: demo_bid_view_def)
  have v: "\<not> bv_ended demo_bid_view" "bv_account demo_bid_view = Some ''0xme''" "''0xme'' \<noteq> []"
    "bv_value demo_bid_view \<noteq> []" "bv_bidder demo_bid_view \<noteq> ''0xme''" by (simp_all add: demo_bid_view_def)
  have "\<forall>e\<in>set [AuctionShown 7 ''0xyou'', Typed ''1'']. (\<exists>a b. e = AuctionShown a b) \<or> (\<exists>s. e = Typed s) \<or> e = AuctionEnds False"
    by simp
  from bid_button_released [where P = decimal_wei, OF v(1-3) p v(4,5) this, of None] show ?thesis unfolding Let_def by blast
qed

end
