(* ===== verification/Web_Propose.thy ===== *)
theory Web_Propose
  imports Web_Dao
begin

text \<open>
  Writing a proposal: \<open>pages/CreateProposal\<close>, \<open>components/CreateProposalButton\<close> and the form that adds a
  transaction, \<open>components/ProposalTransactionFormModal\<close>, as a state machine.  The libraries
  (\<open>isAddress\<close>, \<open>bignumber.js\<close>, \<open>parseEther\<close>, the ABI encoder) are fields of an environment; \<open>None\<close> is
  an exception.
\<close>

section \<open>The page\<close>

record proposal_transaction =
  pt_address :: string
  pt_value :: string
  pt_signature :: string
  pt_calldata :: string

definition prefix_0x :: "string \<Rightarrow> string" where
  "prefix_0x s = (if take 2 s = ''0x'' then s else ''0x'' @ s)"

definition handleAddProposalAction :: "proposal_transaction \<Rightarrow> proposal_transaction list \<Rightarrow> proposal_transaction list" where
  "handleAddProposalAction t ts =
     ts @ [t\<lparr>pt_address := prefix_0x (pt_address t), pt_calldata := prefix_0x (pt_calldata t)\<rparr>]"

definition handleRemoveProposalAction :: "nat \<Rightarrow> proposal_transaction list \<Rightarrow> proposal_transaction list" where
  "handleRemoveProposalAction index ts = map snd (filter (\<lambda>(i, _). i \<noteq> index) (enumerate 0 ts))"

definition isFormInvalid :: "proposal_transaction list \<Rightarrow> string \<Rightarrow> string \<Rightarrow> bool" where
  "isFormInvalid ts title body \<longleftrightarrow> ts = [] \<or> title = [] \<or> body = []"

definition hasEnoughVote :: "nat option \<Rightarrow> nat option \<Rightarrow> bool" where
  "hasEnoughVote availableVotes proposalThreshold =
     (case (availableVotes, proposalThreshold) of (Some v, Some t) \<Rightarrow> v \<noteq> 0 \<and> v > t | _ \<Rightarrow> False)"

definition proposal_description :: "string \<Rightarrow> string \<Rightarrow> string" where
  "proposal_description title body = ''# '' @ title @ [NL, NL] @ body"

text \<open>\<open>from\<close>: \<open>BigNumber.from\<close>.  The outer \<open>None\<close> is an exception, the inner one no call.\<close>

definition handleCreateProposal ::
  "(string \<Rightarrow> int option) \<Rightarrow> bool \<Rightarrow> proposal_transaction list \<Rightarrow> string \<Rightarrow> string \<Rightarrow> dao_call option option" where
  "handleCreateProposal from contract ts title body =
     (if ts = [] then Some None
      else map_option (\<lambda>vals. propose contract (map pt_address ts) vals (map pt_signature ts) (map pt_calldata ts)
                                 (proposal_description title body))
             (those (map (\<lambda>t. from (pt_value t)) ts)))"

definition hasActiveOrPendingProposal :: "web_proposal option \<Rightarrow> string option \<Rightarrow> bool" where
  "hasActiveOrPendingProposal latest account =
     (case latest of None \<Rightarrow> False
      | Some p \<Rightarrow> (wp_status p = Some ACTIVE \<or> wp_status p = Some PENDING) \<and> wp_proposer p = account)"

datatype button_text = AlreadyProposed | VotesNeeded nat | NotEnoughVotes | CreateProposalText

definition create_button_text :: "nat option \<Rightarrow> bool \<Rightarrow> bool \<Rightarrow> button_text" where
  "create_button_text proposalThreshold activeOrPending enough =
     (if activeOrPending then AlreadyProposed
      else if \<not> enough then
        (case proposalThreshold of None \<Rightarrow> NotEnoughVotes | Some t \<Rightarrow> if t = 0 then NotEnoughVotes else VotesNeeded (t + 1))
      else CreateProposalText)"

definition create_disabled :: "bool \<Rightarrow> bool \<Rightarrow> bool \<Rightarrow> bool" where
  "create_disabled formInvalid activeOrPending enough \<longleftrightarrow> formInvalid \<or> activeOrPending \<or> \<not> enough"

section \<open>The form\<close>

text \<open>An interface: the names of its functions with the number of their inputs.\<close>

type_synonym abi = "(string \<times> nat) list"

record form_env =
  fe_isAddress :: "string \<Rightarrow> bool"
  fe_isNaN :: "string \<Rightarrow> bool"  \<comment> \<open>\<open>new BigNumber(v).isNaN()\<close>\<close>
  fe_parseEther :: "string \<Rightarrow> string option"
  fe_encode :: "abi \<Rightarrow> string \<Rightarrow> string option list \<Rightarrow> string option"  \<comment> \<open>\<open>_encodeParams\<close> of that function's inputs\<close>
  fe_source :: "string \<Rightarrow> (bool \<times> string \<times> abi option) option"
    \<comment> \<open>what the explorer knows of an address: proxy, implementation, parsed ABI\<close>

record tx_form =
  tf_address :: string
  tf_abi :: "abi option"
  tf_value :: string
  tf_func :: string
  tf_args :: "string option list"
  tf_abiValid :: "bool option"
  tf_abiFile :: "string option"
  tf_step :: nat

definition cleared_form :: tx_form where
  "cleared_form = \<lparr>tf_address = [], tf_abi = None, tf_value = [], tf_func = [], tf_args = [],
                   tf_abiValid = None, tf_abiFile = None, tf_step = 0\<rparr>"

definition initial_form :: tx_form where
  "initial_form = cleared_form\<lparr>tf_abiFile := Some []\<rparr>"

definition valueValidator :: "form_env \<Rightarrow> string \<Rightarrow> bool" where
  "valueValidator E v \<longleftrightarrow> v = [] \<or> \<not> fe_isNaN E v"

text \<open>An encoding is a non-empty string, which is truthy; a missing interface gives \<open>undefined\<close>.\<close>

definition argumentsValidator :: "form_env \<Rightarrow> tx_form \<Rightarrow> bool" where
  "argumentsValidator E f \<longleftrightarrow>
     (if tf_func f = [] then True
      else case tf_abi f of None \<Rightarrow> False | Some abi \<Rightarrow> fe_encode E abi (tf_func f) (tf_args f) \<noteq> None)"

definition step_validator :: "form_env \<Rightarrow> tx_form \<Rightarrow> bool" where
  "step_validator E f =
     (if tf_step f = 0 then fe_isAddress E (tf_address f)
      else if tf_step f = 1 then valueValidator E (tf_value f)
      else if tf_step f = 3 then argumentsValidator E f
      else True)"

definition setArgument :: "nat \<Rightarrow> string \<Rightarrow> tx_form \<Rightarrow> tx_form" where
  "setArgument index v f = f\<lparr>tf_args := js_array_set index v (tf_args f)\<rparr>"

text \<open>\<open>getABI\<close> follows one proxy to its implementation.\<close>

definition getABI :: "form_env \<Rightarrow> string \<Rightarrow> abi option" where
  "getABI E address =
     (case fe_source E address of
        None \<Rightarrow> None
      | Some (proxy, implementation, abi) \<Rightarrow>
          if proxy \<and> fe_isAddress E implementation
          then (case fe_source E implementation of None \<Rightarrow> None | Some (_, _, abi') \<Rightarrow> abi')
          else abi)"

definition populateABIIfExists :: "form_env \<Rightarrow> string \<Rightarrow> tx_form \<Rightarrow> tx_form" where
  "populateABIIfExists E address f =
     (case getABI E address of
        Some abi \<Rightarrow> f\<lparr>tf_abi := Some abi, tf_abiValid := Some True, tf_abiFile := Some ''etherscan-abi-download.json''\<rparr>
      | None \<Rightarrow> f\<lparr>tf_abiValid := None, tf_abiFile := None\<rparr>)"

definition validateAndSetABI :: "abi option \<Rightarrow> string \<Rightarrow> tx_form \<Rightarrow> tx_form" where
  "validateAndSetABI parsed filename f =
     (case parsed of
        Some abi \<Rightarrow> f\<lparr>tf_abi := Some abi, tf_abiValid := Some True, tf_abiFile := Some filename\<rparr>
      | None \<Rightarrow> f\<lparr>tf_abiValid := Some False, tf_abiFile := None\<rparr>)"

text \<open>The transaction handed to the page; \<open>None\<close> when a library throws.\<close>

definition form_transaction :: "form_env \<Rightarrow> tx_form \<Rightarrow> proposal_transaction option" where
  "form_transaction E f =
     Option.bind (if tf_value f = [] then Some ''0'' else fe_parseEther E (tf_value f)) (\<lambda>v.
     Option.bind (if tf_func f = [] then Some ''0x''
                  else case tf_abi f of None \<Rightarrow> Some ''0x'' | Some abi \<Rightarrow> fe_encode E abi (tf_func f) (tf_args f)) (\<lambda>c.
     Some \<lparr>pt_address = tf_address f, pt_value = v, pt_signature = tf_func f, pt_calldata = c\<rparr>))"

text \<open>
  What can happen: an input of the step on display is edited, a function is chosen from the list
  (whose first entry is its own placeholder text), an interface arrives from a file or, at any
  time, from the explorer, the two buttons, closing.  A step is left forwards only if its
  validator passes.
\<close>

definition placeholder :: string where
  "placeholder = ''Select Contract Function''"

datatype form_event =
    EditAddress string
  | EditValue string
  | ChooseFunction string
  | EditArgument nat string
  | AbiFile "abi option" string
  | AbiFetched string
  | Back
  | Next
  | Close

definition enabled :: "form_event \<Rightarrow> tx_form \<Rightarrow> bool" where
  "enabled e f =
     (case e of
        EditAddress _ \<Rightarrow> tf_step f = 0
      | EditValue _ \<Rightarrow> tf_step f = 1
      | ChooseFunction s \<Rightarrow> tf_step f = 2 \<and>
          (s = placeholder \<or> (\<exists>abi. tf_abi f = Some abi \<and> s \<in> fst ` set abi))
      | EditArgument i _ \<Rightarrow> tf_step f = 3
      | AbiFile _ _ \<Rightarrow> tf_step f = 2
      | Back \<Rightarrow> 0 < tf_step f
      | _ \<Rightarrow> True)"

text \<open>The new form, and the transaction added if one is.\<close>

fun form_step :: "form_env \<Rightarrow> form_event \<Rightarrow> tx_form \<Rightarrow> tx_form \<times> proposal_transaction option" where
  "form_step E (EditAddress s) f = (f\<lparr>tf_address := s\<rparr>, None)"
| "form_step E (EditValue s) f = (f\<lparr>tf_value := s\<rparr>, None)"
| "form_step E (ChooseFunction s) f = (f\<lparr>tf_func := s\<rparr>, None)"
| "form_step E (EditArgument i s) f = (setArgument i s f, None)"
| "form_step E (AbiFile parsed filename) f = (validateAndSetABI parsed filename f, None)"
| "form_step E (AbiFetched address) f = (populateABIIfExists E address f, None)"
| "form_step E Back f = (f\<lparr>tf_step := tf_step f - 1\<rparr>, None)"
| "form_step E Next f =
     (if tf_step f \<noteq> 4 then (if step_validator E f then f\<lparr>tf_step := tf_step f + 1\<rparr> else f, None)
      else case form_transaction E f of None \<Rightarrow> (f, None) | Some t \<Rightarrow> (cleared_form, Some t))"
| "form_step E Close f = (cleared_form, None)"

inductive form_reach :: "form_env \<Rightarrow> tx_form \<Rightarrow> bool" for E where
  start: "form_reach E initial_form"
| step: "form_reach E f \<Longrightarrow> enabled e f \<Longrightarrow> form_reach E (fst (form_step E e f))"

section \<open>What is added\<close>

definition form_ok :: "form_env \<Rightarrow> tx_form \<Rightarrow> bool" where
  "form_ok E f \<longleftrightarrow> tf_step f \<le> 4 \<and> (1 \<le> tf_step f \<longrightarrow> fe_isAddress E (tf_address f)) \<and>
     (2 \<le> tf_step f \<longrightarrow> valueValidator E (tf_value f))"

lemma cleared_ok: "form_ok E cleared_form"
  by (simp add: form_ok_def cleared_form_def)

lemma form_step_ok: "form_ok E f \<Longrightarrow> enabled e f \<Longrightarrow> form_ok E (fst (form_step E e f))"
  by (cases e) (auto simp: form_ok_def enabled_def setArgument_def validateAndSetABI_def populateABIIfExists_def
      step_validator_def cleared_form_def le_Suc_eq split: option.splits)

lemma form_reach_ok: "form_reach E f \<Longrightarrow> form_ok E f"
proof (induction rule: form_reach.induct)
  case start
  then show ?case by (simp add: initial_form_def cleared_form_def form_ok_def)
qed (rule form_step_ok)

text \<open>
  A transaction the form adds has been checked: in every reachable state of the form, whatever
  interfaces arrived in between and however often the user went back, the added transaction's
  target is an address, its value is 0 for an empty field and otherwise the parsed amount of a
  number, it has calldata \<open>0x\<close> when no function was chosen, and the form is empty again at its first
  step.
\<close>

theorem added_transaction_checked:
  assumes "form_reach E f" "form_step E Next f = (f', Some t)"
  shows "fe_isAddress E (pt_address t) \<and> f' = cleared_form
       \<and> (if tf_value f = [] then pt_value t = ''0''
          else \<not> fe_isNaN E (tf_value f) \<and> fe_parseEther E (tf_value f) = Some (pt_value t))
       \<and> pt_signature t = tf_func f \<and> (tf_func f = [] \<longrightarrow> pt_calldata t = ''0x'')"
proof -
  have four: "tf_step f = 4" and t: "form_transaction E f = Some t" and "f' = cleared_form"
    using assms(2) by (auto split: if_splits option.splits)
  moreover have "form_ok E f" using assms(1) by (rule form_reach_ok)
  with four have "fe_isAddress E (tf_address f)" "valueValidator E (tf_value f)" by (simp_all add: form_ok_def)
  ultimately show ?thesis by (auto simp: form_transaction_def valueValidator_def bind_eq_Some_conv split: if_splits)
qed

definition demo_form_env :: form_env where
  "demo_form_env = \<lparr>fe_isAddress = (\<lambda>s. take 2 s = ''0x''), fe_isNaN = (\<lambda>s. s = ''abc''),
     fe_parseEther = (\<lambda>s. if s = ''Infinity'' then None else Some (s @ ''000'')),
     fe_encode = (\<lambda>a fn xs. if fn \<in> set (map fst a) then Some ''0xc0de'' else None),
     fe_source = (\<lambda>a. Some (False, [], Some [(''pay(uint256)'', 1)]))\<rparr>"

fun form_run :: "form_env \<Rightarrow> form_event list \<Rightarrow> tx_form \<Rightarrow> tx_form" where
  "form_run E [] f = f"
| "form_run E (e # es) f = form_run E es (fst (form_step E e f))"

fun run_enabled :: "form_env \<Rightarrow> form_event list \<Rightarrow> tx_form \<Rightarrow> bool" where
  "run_enabled E [] f = True"
| "run_enabled E (e # es) f = (enabled e f \<and> run_enabled E es (fst (form_step E e f)))"

lemma form_run_reach: "form_reach E f \<Longrightarrow> run_enabled E es f \<Longrightarrow> form_reach E (form_run E es f)"
  by (induction es arbitrary: f) (auto intro: form_reach.step)

definition demo_form_events :: "form_event list" where
  "demo_form_events = [EditAddress ''0xaa'', Next, AbiFetched ''0xaa'', EditValue ''2'', Next, ChooseFunction ''pay(uint256)'',
     Next, EditArgument 0 ''7'', Next]"

theorem added_transaction_checked_witness:
  "\<exists>t. form_step demo_form_env Next (form_run demo_form_env demo_form_events initial_form) = (cleared_form, Some t)
     \<and> pt_address t = ''0xaa'' \<and> pt_value t = ''2000'' \<and> pt_calldata t = ''0xc0de''"
proof -
  let ?f = "form_run demo_form_env demo_form_events initial_form"
  have "run_enabled demo_form_env demo_form_events initial_form"
    by (simp add: demo_form_events_def enabled_def initial_form_def cleared_form_def demo_form_env_def step_validator_def
        populateABIIfExists_def getABI_def valueValidator_def)
  then have "form_reach demo_form_env ?f" by (rule form_run_reach [OF form_reach.start])
  moreover have step: "form_step demo_form_env Next ?f = (cleared_form,
      Some \<lparr>pt_address = ''0xaa'', pt_value = ''2000'', pt_signature = ''pay(uint256)'', pt_calldata = ''0xc0de''\<rparr>)"
    by (simp add: demo_form_events_def initial_form_def cleared_form_def demo_form_env_def step_validator_def
        populateABIIfExists_def getABI_def valueValidator_def argumentsValidator_def setArgument_def js_array_set_def
        form_transaction_def)
  ultimately show ?thesis using added_transaction_checked [OF _ step] step by auto
qed

section \<open>From the form to the list of proposals\<close>

definition page_transactions :: "proposal_transaction list \<Rightarrow> bool" where
  "page_transactions ts \<longleftrightarrow> (\<forall>t\<in>set ts. take 2 (pt_address t) = ''0x'' \<and> take 2 (pt_calldata t) = ''0x'')"

datatype page_event = AddTransaction proposal_transaction | RemoveTransaction nat

fun page_step :: "page_event \<Rightarrow> proposal_transaction list \<Rightarrow> proposal_transaction list" where
  "page_step (AddTransaction t) ts = handleAddProposalAction t ts"
| "page_step (RemoveTransaction i) ts = handleRemoveProposalAction i ts"

lemma prefix_0x_prefix: "take 2 (prefix_0x s) = ''0x''"
  by (simp add: prefix_0x_def)

lemma page_step_ok: "page_transactions ts \<Longrightarrow> page_transactions (page_step e ts)"
proof (cases e)
  case (RemoveTransaction i)
  assume "page_transactions ts"
  moreover have "set (handleRemoveProposalAction i ts) \<subseteq> set ts"
    by (auto simp: handleRemoveProposalAction_def in_set_enumerate_eq)
  ultimately show ?thesis using RemoveTransaction by (auto simp: page_transactions_def)
qed (auto simp: page_transactions_def handleAddProposalAction_def prefix_0x_prefix)

lemma page_run_ok: "page_transactions (fold page_step es [])"
proof -
  have "page_transactions ts \<Longrightarrow> page_transactions (fold page_step es ts)" for ts
    by (induction es arbitrary: ts) (simp_all add: page_step_ok)
  moreover have "page_transactions []" by (simp add: page_transactions_def)
  ultimately show ?thesis by blast
qed

text \<open>The description is the title's heading and something after it, also once it has been cleaned.\<close>

lemma replace_newlines_prefix:
  "CHR 0x5C \<notin> set xs \<Longrightarrow> replace_newlines (xs @ y # ys) = xs @ replace_newlines (y # ys)"
proof (induction xs)
  case (Cons x xs)
  then show ?case by (cases xs) auto
qed simp

lemma replace_newlines_nonempty: "replace_newlines (y # ys) \<noteq> []"
  by (cases ys) auto

lemma cleaned_heading:
  assumes "CHR 0x5C \<notin> set title" "body \<noteq> []"
  shows "\<exists>rest. clean_description (proposal_description title body) = replicate 1 (CHR ''#'') @ '' '' @ title @ NL # rest"
proof -
  let ?head = "''# '' @ title @ [NL, NL]"
  obtain c cs where body: "body = c # cs" using assms(2) by (cases body) auto
  have "CHR 0x5C \<notin> set ?head" using assms(1) by (simp add: NL_def)
  then have r: "replace_newlines (proposal_description title body) = ?head @ replace_newlines body"
    using replace_newlines_prefix [of ?head c cs] body by (simp add: proposal_description_def)
  obtain d ds where d: "replace_newlines body = ds @ [d]"
    using replace_newlines_nonempty [of c cs] body by (metis rev_exhaust)
  have "clean_description (proposal_description title body) = ?head @ (if is_quote d then ds else ds @ [d])"
    unfolding clean_description_def r d strip_quotes_def by (simp add: is_quote_def butlast_append)
  then show ?thesis by (auto simp: replicate_Suc)
qed

text \<open>
  A proposal is proposed as it was written and read back under its title.  After any additions and
  removals the four arrays of the call describe the page's transactions, entry by entry, with every
  target and every calldata starting with \<open>0x\<close>; and the list of proposals, which reads the title from
  the description, shows the title that was typed when it is one line that begins with no white
  space and has no backslash and no doubled \<open>*\<close> or \<open>_\<close>.
\<close>

theorem created_proposal_reads_back:
  assumes "handleCreateProposal from contract (fold page_step es []) title body
             = Some (Some (Propose targets vals signatures calldatas description))"
    and "title \<noteq> []" "\<not> is_space (hd title)" "NL \<notin> set title" "CHR 0x5C \<notin> set title" "body \<noteq> []"
    and "remove_pairs (CHR ''*'') (remove_pairs (CHR ''_'') title) = title"
  shows "length vals = length targets \<and> length signatures = length targets \<and> length calldatas = length targets
       \<and> targets \<noteq> [] \<and> (\<forall>x\<in>set targets \<union> set calldatas. take 2 x = ''0x'')
       \<and> (\<forall>i<length targets. from (pt_value (fold page_step es [] ! i)) = Some (vals ! i))
       \<and> proposal_title (Some (clean_description description)) = title"
proof -
  let ?ts = "fold page_step es []"
  have call: "?ts \<noteq> []" "those (map (\<lambda>t. from (pt_value t)) ?ts) = Some vals" "targets = map pt_address ?ts"
    "signatures = map pt_signature ?ts" "calldatas = map pt_calldata ?ts" "description = proposal_description title body"
    using assms(1) by (auto simp: handleCreateProposal_def propose_def split: if_splits)
  have vals: "map (\<lambda>t. from (pt_value t)) ?ts = map Some vals" using call(2) by (simp only: those_eq_Some)
  then have len: "length vals = length ?ts" by (metis length_map)
  have "from (pt_value (?ts ! i)) = Some (vals ! i)" if "i < length ?ts" for i
    using arg_cong [OF vals, of "\<lambda>xs. xs ! i"] that len by simp
  moreover have "\<forall>x\<in>set targets \<union> set calldatas. take 2 x = ''0x''"
    using page_run_ok [of es] call(3,5) by (auto simp: page_transactions_def)
  moreover obtain rest where "clean_description description = replicate 1 (CHR ''#'') @ '' '' @ title @ NL # rest"
    using cleaned_heading [OF assms(5,6)] call(6) by blast
  then have "extractHashTitle (clean_description description) = Some title" "clean_description description \<noteq> []"
    using hash_title [of 1 title rest] assms(2-4) by auto
  then have "proposal_title (Some (clean_description description)) = title"
    using assms(7) by (simp add: proposal_title_def extractTitle_def removeMarkdownStyle_def removeBold_def removeItalics_def)
  ultimately show ?thesis using call len by simp
qed

definition demo_page_events :: "page_event list" where
  "demo_page_events = [AddTransaction \<lparr>pt_address = ''aa'', pt_value = ''5'', pt_signature = [], pt_calldata = ''0x''\<rparr>,
     AddTransaction \<lparr>pt_address = ''0xbb'', pt_value = ''0'', pt_signature = ''pay()'', pt_calldata = ''c0de''\<rparr>,
     RemoveTransaction 0]"

theorem created_proposal_reads_back_witness:
  "handleCreateProposal js_Number True (fold page_step demo_page_events []) ''Fund it'' ''Why not''
     = Some (Some (Propose [''0xbb''] [0] [''pay()''] [''0xc0de''] (proposal_description ''Fund it'' ''Why not'')))
   \<and> proposal_title (Some (clean_description (proposal_description ''Fund it'' ''Why not''))) = ''Fund it''"
proof -
  have n: "js_Number ''0'' = Some 0" by code_simp
  have call: "handleCreateProposal js_Number True (fold page_step demo_page_events []) ''Fund it'' ''Why not''
     = Some (Some (Propose [''0xbb''] [0] [''pay()''] [''0xc0de''] (proposal_description ''Fund it'' ''Why not'')))"
    by (simp add: demo_page_events_def handleCreateProposal_def handleAddProposalAction_def handleRemoveProposalAction_def
        prefix_0x_def propose_def n)
  have t: "''Fund it'' \<noteq> []" "\<not> is_space (hd ''Fund it'')" "NL \<notin> set ''Fund it''" "CHR 0x5C \<notin> set ''Fund it''"
    "''Why not'' \<noteq> []" "remove_pairs (CHR ''*'') (remove_pairs (CHR ''_'') ''Fund it'') = ''Fund it''"
    by (simp_all add: is_space_def NL_def)
  from created_proposal_reads_back [OF call t] call show ?thesis by blast
qed

end
