(* ===== verification/Web_Vote.thy ===== *)
theory Web_Vote
  imports Complex_Main Web_Auction Web_Dao Web_Token "HOL-Library.Multiset"
begin

text \<open>
  Voting on a proposal: \<open>pages/Vote\<close>, \<open>components/VoteModal\<close>, \<open>ProposalHeader\<close>, \<open>VoteCard\<close>,
  \<open>Proposals\<close>, \<open>ProposalStatus\<close> and \<open>utils/getAlpsVotes.ts\<close>.  Times are milliseconds; a date is
  absent (\<open>undefined\<close>), invalid, or a number.  Percentages are the exact quotients that the
  floating point numbers approximate.  The answers of queries and contracts are arguments.
\<close>

section \<open>The voting window of the page\<close>

definition AVERAGE_BLOCK_TIME_IN_SECS :: int where "AVERAGE_BLOCK_TIME_IN_SECS = 12"

type_synonym js_date = "jsnum option"

definition block_date :: "int \<Rightarrow> nat option \<Rightarrow> jsnum \<Rightarrow> js_date" where
  "block_date timestamp currentBlock b =
     (case currentBlock of
        None \<Rightarrow> None
      | Some cur \<Rightarrow>
          if timestamp = 0 \<or> cur = 0 then None
          else Some (map_option (\<lambda>x. timestamp + 1000 * (AVERAGE_BLOCK_TIME_IN_SECS * (x - int cur))) b))"

definition isBefore :: "js_date \<Rightarrow> int \<Rightarrow> bool" where
  "isBefore d now = (case d of Some (Some x) \<Rightarrow> x < now | _ \<Rightarrow> False)"

definition isAfter :: "js_date \<Rightarrow> int \<Rightarrow> bool" where
  "isAfter d now = (case d of Some (Some x) \<Rightarrow> now < x | _ \<Rightarrow> False)"

definition proposal_start :: "int \<Rightarrow> nat option \<Rightarrow> web_proposal \<Rightarrow> js_date" where
  "proposal_start timestamp currentBlock p = block_date timestamp currentBlock (wp_startBlock p)"

definition proposal_end :: "int \<Rightarrow> nat option \<Rightarrow> web_proposal \<Rightarrow> js_date" where
  "proposal_end timestamp currentBlock p = block_date timestamp currentBlock (wp_endBlock p)"

definition isActiveForVoting :: "int \<Rightarrow> int \<Rightarrow> nat option \<Rightarrow> web_proposal \<Rightarrow> bool" where
  "isActiveForVoting timestamp now currentBlock p \<longleftrightarrow>
     isBefore (proposal_start timestamp currentBlock p) now \<and> isAfter (proposal_end timestamp currentBlock p) now"

datatype time_copy = Ends | Ended | Starts

definition startOrEndTimeCopy :: "int \<Rightarrow> int \<Rightarrow> nat option \<Rightarrow> web_proposal \<Rightarrow> time_copy" where
  "startOrEndTimeCopy timestamp now currentBlock p =
     (if isActiveForVoting timestamp now currentBlock p then Ends
      else if isBefore (proposal_end timestamp currentBlock p) now then Ended
      else Starts)"

definition startOrEndTimeTime :: "int \<Rightarrow> int \<Rightarrow> nat option \<Rightarrow> web_proposal \<Rightarrow> js_date" where
  "startOrEndTimeTime timestamp now currentBlock p =
     (if \<not> isBefore (proposal_start timestamp currentBlock p) now then proposal_start timestamp currentBlock p
      else proposal_end timestamp currentBlock p)"

section \<open>Counts and cards\<close>

definition totalVotes :: "web_proposal \<Rightarrow> jsnum" where
  "totalVotes p = num_add (num_add (wp_forCount p) (wp_againstCount p)) (wp_abstainCount p)"

text \<open>The total is falsy when it is zero or \<open>NaN\<close>.\<close>

definition percentage :: "web_proposal \<Rightarrow> jsnum \<Rightarrow> rat" where
  "percentage p counted =
     (case (totalVotes p, counted) of
        (Some t, Some c) \<Rightarrow> if t = 0 then 0 else of_int (c * 100) / of_int t
      | _ \<Rightarrow> 0)"

record voter =
  vo_id :: string
  vo_supportDetailed :: nat

record delegate_snapshot =
  dg_id :: string
  dg_alpsRepresented :: "string list option"

record vote_row =
  vw_delegate :: string
  vw_supportDetailed :: nat
  vw_alpsRepresented :: "string list"

definition delegateToAlpIds :: "delegate_snapshot list \<Rightarrow> (string, string list) jsmap" where
  "delegateToAlpIds delegates =
     foldl (\<lambda>acc curr. jm_set (dg_id curr) (case dg_alpsRepresented curr of None \<Rightarrow> [] | Some ids \<Rightarrow> ids) acc) [] delegates"

definition vote_rows :: "voter list option \<Rightarrow> delegate_snapshot list option \<Rightarrow> vote_row list option" where
  "vote_rows voters delegates =
     map_option (map (\<lambda>v.
        \<lparr>vw_delegate = vo_id v, vw_supportDetailed = vo_supportDetailed v,
         vw_alpsRepresented =
           (case delegates of
              None \<Rightarrow> []
            | Some ds \<Rightarrow> (case jm_get (delegateToAlpIds ds) (vo_id v) of None \<Rightarrow> [] | Some ids \<Rightarrow> ids))\<rparr>)) voters"

definition getAlpVotes :: "vote_row list \<Rightarrow> nat \<Rightarrow> string list" where
  "getAlpVotes votes supportDetailed =
     concat (map vw_alpsRepresented (filter (\<lambda>v. vw_supportDetailed v = supportDetailed) votes))"

datatype vote_card_variant = CardFor | CardAgainst | CardAbstain

definition card_count :: "web_proposal \<Rightarrow> vote_card_variant \<Rightarrow> jsnum" where
  "card_count p variant =
     (case variant of CardFor \<Rightarrow> wp_forCount p | CardAgainst \<Rightarrow> wp_againstCount p | CardAbstain \<Rightarrow> wp_abstainCount p)"

definition card_support :: "vote_card_variant \<Rightarrow> nat" where
  "card_support variant = (case variant of CardFor \<Rightarrow> 1 | CardAgainst \<Rightarrow> 0 | CardAbstain \<Rightarrow> 2)"

definition filteredDelegateGroupedVoteData :: "vote_card_variant \<Rightarrow> vote_row list option \<Rightarrow> vote_row list" where
  "filteredDelegateGroupedVoteData variant rows =
     (case rows of None \<Rightarrow> [] | Some vs \<Rightarrow> filter (\<lambda>v. vw_supportDetailed v = card_support variant) vs)"

text \<open>The number on a card: delegates in the delegate view, votes otherwise.\<close>

definition card_number :: "bool \<Rightarrow> web_proposal \<Rightarrow> vote_card_variant \<Rightarrow> vote_row list option \<Rightarrow> jsnum" where
  "card_number delegateView p variant rows =
     (if delegateView then Some (int (length (filteredDelegateGroupedVoteData variant rows)))
      else card_count p variant)"

text \<open>The card's effect: the delegates whose names it looks up, and what an answered lookup stores.\<close>

definition prefetch_targets :: "nat \<Rightarrow> bool \<Rightarrow> vote_row list option \<Rightarrow> ens_storage \<Rightarrow> string list" where
  "prefetch_targets chain ensCached rows store =
     (case rows of
        None \<Rightarrow> []
      | Some vs \<Rightarrow>
          if ensCached then []
          else filter (\<lambda>d. \<not> jm_has store (ensCacheKey chain d)) (map vw_delegate vs))"

definition prefetch_resolved :: "nat \<Rightarrow> nat \<Rightarrow> string \<Rightarrow> string option \<Rightarrow> ens_storage \<Rightarrow> ens_storage" where
  "prefetch_resolved chain now d name store =
     (case name of
        None \<Rightarrow> store
      | Some n \<Rightarrow>
          if n = [] then store
          else jm_set (ensCacheKey chain d) \<lparr>ens_name = n, ens_expires = now + 30 * 60 * 1000\<rparr> store)"

text \<open>All lookups of one effect, each answered at its own time.\<close>

definition prefetch ::
  "nat \<Rightarrow> (string \<Rightarrow> nat) \<Rightarrow> (string \<Rightarrow> string option) \<Rightarrow> vote_row list option \<Rightarrow> ens_storage \<Rightarrow> ens_storage" where
  "prefetch chain answered resolve rows store =
     fold (\<lambda>d. prefetch_resolved chain (answered d) d (lookupNNSOrENS resolve d))
       (prefetch_targets chain False rows store) store"

section \<open>The page\<close>

datatype page_view = PageSpinner | FailedToFetch | PageShown

definition vote_page_view ::
  "web_proposal option \<Rightarrow> bool \<Rightarrow> bool \<Rightarrow> vote_row list option \<Rightarrow> bool \<Rightarrow> bool \<Rightarrow> 'dq option \<Rightarrow> page_view" where
  "vote_page_view p loading error data loadingDQInfo dqError dqInfo =
     (if p = None \<or> loading \<or> data = None \<or> loadingDQInfo \<or> dqInfo = None then PageSpinner
      else if error \<or> dqError then FailedToFetch
      else PageShown)"

definition hasSucceeded :: "web_proposal option \<Rightarrow> bool" where
  "hasSucceeded p = (case p of None \<Rightarrow> False | Some q \<Rightarrow> wp_status q = Some SUCCEEDED)"

definition MAX_SAFE_INTEGER :: int where "MAX_SAFE_INTEGER = 2 ^ 53 - 1"

definition isAwaitingStateChange :: "int \<Rightarrow> web_proposal option \<Rightarrow> bool" where
  "isAwaitingStateChange now p =
     (if hasSucceeded p then True
      else case p of
             None \<Rightarrow> False
           | Some q \<Rightarrow>
               if wp_status q = Some QUEUED
               then num_le (case wp_eta q of None \<Rightarrow> Some MAX_SAFE_INTEGER | Some eta \<Rightarrow> eta) (Some now)
               else False)"

definition moveStateAction :: "bool \<Rightarrow> web_proposal option \<Rightarrow> dao_call option" where
  "moveStateAction contract p =
     (let i = Option.bind p wp_id
      in if i = None \<or> i = Some [] then None
         else if hasSucceeded p then queueProposal contract (the i)
         else executeProposal contract (the i))"

text \<open>The switch over a transaction's status: what \<open>setPending\<close> is called with and the alert shown.\<close>

definition onTransactionStateChange ::
  "transaction_state \<Rightarrow> string option \<Rightarrow> string \<Rightarrow> (string option \<Rightarrow> string option) \<Rightarrow> bool option \<times> alert_modal option" where
  "onTransactionStateChange status errorMessage successMessage getErrorMessage =
     (let again = ''Please try again.'';
          or_again = (\<lambda>m. case m of None \<Rightarrow> again | Some x \<Rightarrow> if x = [] then again else x)
      in case status of
           TNone \<Rightarrow> (Some False, None)
         | PendingSignature \<Rightarrow> (None, None)
         | Mining \<Rightarrow> (Some True, None)
         | Success \<Rightarrow>
             (Some False, Some \<lparr>am_show = True, am_title = Some ''Success'',
                am_message = Some (if successMessage = [] then ''Transaction Successful!'' else successMessage)\<rparr>)
         | Fail \<Rightarrow>
             (Some False, Some \<lparr>am_show = True, am_title = Some ''Transaction Failed'', am_message = Some (or_again errorMessage)\<rparr>)
         | TException \<Rightarrow>
             (Some False, Some \<lparr>am_show = True, am_title = Some ''Error'', am_message = Some (or_again (getErrorMessage errorMessage))\<rparr>))"

definition move_button_disabled :: "bool \<Rightarrow> bool \<Rightarrow> bool" where
  "move_button_disabled isQueuePending isExecutePending \<longleftrightarrow> isQueuePending \<or> isExecutePending"

section \<open>The header\<close>

definition disableVoteButton :: "bool \<Rightarrow> nat \<Rightarrow> bool \<Rightarrow> bool" where
  "disableVoteButton isWalletConnected availableVotes hasVoted \<longleftrightarrow>
     \<not> isWalletConnected \<or> availableVotes = 0 \<or> hasVoted"

definition getTranslatedVoteCopyFromString :: "string \<Rightarrow> string" where
  "getTranslatedVoteCopyFromString proposalVote =
     (if proposalVote = ''For'' then ''You voted For this proposal''
      else if proposalVote = ''Against'' then ''You voted Against this proposal''
      else ''You Abstained from this proposal'')"

datatype header_alert = VotedAs string | EligibleBefore nat

definition header_alerts :: "bool \<Rightarrow> vote_receipt \<Rightarrow> nat \<Rightarrow> nat option \<Rightarrow> header_alert list" where
  "header_alerts active receipt availableVotes creation =
     (if active \<and> useHasVotedOnProposal receipt
      then [VotedAs (getTranslatedVoteCopyFromString (useProposalVote receipt))] else []) @
     (case creation of
        None \<Rightarrow> []
      | Some t \<Rightarrow> if active \<and> t \<noteq> 0 \<and> availableVotes \<noteq> 0 \<and> \<not> useHasVotedOnProposal receipt then [EligibleBefore t] else [])"

section \<open>The voting form\<close>

text \<open>The component's state; the calls are those its hooks sent.\<close>

record vote_modal =
  vm_show :: bool
  vm_vote :: "dao_vote option"
  vm_reason :: string
  vm_isLoading :: bool
  vm_isVoteSucessful :: bool
  vm_isVoteFailed :: bool
  vm_failureCopy :: string
  vm_errorMessage :: string
  vm_calls :: "dao_call list"

definition new_vote_modal :: vote_modal where
  "new_vote_modal =
     \<lparr>vm_show = False, vm_vote = None, vm_reason = [], vm_isLoading = False, vm_isVoteSucessful = False,
      vm_isVoteFailed = False, vm_failureCopy = [], vm_errorMessage = [], vm_calls = []\<rparr>"

definition occurs_in :: "string \<Rightarrow> string \<Rightarrow> bool" where
  "occurs_in w s = list_ex (\<lambda>i. take (length w) (drop i s) = w) [0..<Suc (length s)]"

definition getVoteErrorMessage :: "string option \<Rightarrow> string option" where
  "getVoteErrorMessage error =
     (case error of
        None \<Rightarrow> None
      | Some e \<Rightarrow> if occurs_in ''voter already voted'' e then Some ''User Already Voted'' else Some e)"

definition or_try_again :: "string option \<Rightarrow> string" where
  "or_try_again m = (case m of None \<Rightarrow> ''Please try again.'' | Some x \<Rightarrow> if x = [] then ''Please try again.'' else x)"

definition handleVoteStateChange :: "transaction_state \<Rightarrow> string option \<Rightarrow> vote_modal \<Rightarrow> vote_modal" where
  "handleVoteStateChange status errorMessage m =
     (case status of
        TNone \<Rightarrow> m\<lparr>vm_isLoading := False\<rparr>
      | PendingSignature \<Rightarrow> m
      | Mining \<Rightarrow> m\<lparr>vm_isLoading := True\<rparr>
      | Success \<Rightarrow> m\<lparr>vm_isLoading := False, vm_isVoteSucessful := True\<rparr>
      | Fail \<Rightarrow>
          m\<lparr>vm_failureCopy := ''Transaction Failed'', vm_errorMessage := or_try_again errorMessage,
            vm_isLoading := False, vm_isVoteFailed := True\<rparr>
      | TException \<Rightarrow>
          m\<lparr>vm_failureCopy := ''Error'', vm_errorMessage := or_try_again (getVoteErrorMessage errorMessage),
            vm_isLoading := False, vm_isVoteFailed := True\<rparr>)"

datatype modal_event =
    OpenModal
  | ChooseVote dao_vote
  | TypeReason string
  | SubmitVote bool  \<comment> \<open>whether the contract is loaded\<close>
  | VoteStatus transaction_state "string option"  \<comment> \<open>of either hook\<close>
  | HideModal  \<comment> \<open>the parent, or the timer after a success\<close>
  | DismissModal

text \<open>The buttons exist while the modal is open, and neither a success nor a failure is shown.\<close>

definition vote_buttons :: "vote_modal \<Rightarrow> bool" where
  "vote_buttons m \<longleftrightarrow> vm_show m \<and> \<not> vm_isVoteFailed m \<and> \<not> vm_isVoteSucessful m"

definition vote_sent :: "bool \<Rightarrow> string \<Rightarrow> dao_vote \<Rightarrow> string \<Rightarrow> dao_call list" where
  "vote_sent contract proposalId v reason =
     (case (if trim reason = [] then castVote contract proposalId v
            else castVoteWithReason contract proposalId v reason) of
        None \<Rightarrow> []
      | Some c \<Rightarrow> [c])"

definition submit_vote :: "string option \<Rightarrow> bool \<Rightarrow> vote_modal \<Rightarrow> vote_modal" where
  "submit_vote proposalId contract m =
     (case (vm_vote m, proposalId) of
        (Some v, Some i) \<Rightarrow>
          if i = [] \<or> vm_isLoading m then m
          else m\<lparr>vm_isLoading := True, vm_calls := vm_calls m @ vote_sent contract i v (vm_reason m)\<rparr>
      | _ \<Rightarrow> m)"

definition resetNonSuccessStateAndHideModal :: "vote_modal \<Rightarrow> vote_modal" where
  "resetNonSuccessStateAndHideModal m =
     m\<lparr>vm_isLoading := False, vm_isVoteFailed := False, vm_errorMessage := [], vm_failureCopy := [], vm_show := False\<rparr>"

fun modal_step :: "string option \<Rightarrow> modal_event \<Rightarrow> vote_modal \<Rightarrow> vote_modal" where
  "modal_step i OpenModal m = m\<lparr>vm_show := True\<rparr>"
| "modal_step i (ChooseVote v) m = (if vote_buttons m then m\<lparr>vm_vote := Some v\<rparr> else m)"
| "modal_step i (TypeReason r) m = (if vote_buttons m then m\<lparr>vm_reason := r\<rparr> else m)"
| "modal_step i (SubmitVote contract) m = (if vote_buttons m then submit_vote i contract m else m)"
| "modal_step i (VoteStatus status err) m = handleVoteStateChange status err m"
| "modal_step i HideModal m = m\<lparr>vm_show := False, vm_isVoteFailed := False\<rparr>"
| "modal_step i DismissModal m = (if vm_show m then resetNonSuccessStateAndHideModal m else m)"

section \<open>The list of proposals\<close>

datatype countdown = EndsAt jsnum | ExpiresAt jsnum | StartsAt jsnum

text \<open>\<open>dayjs(undefined)\<close> is the present.\<close>

definition getCountdownCopy :: "int \<Rightarrow> int \<Rightarrow> nat option \<Rightarrow> web_proposal \<Rightarrow> countdown" where
  "getCountdownCopy timestamp now currentBlock p =
     (let startDate = proposal_start timestamp currentBlock p;
          endDate = proposal_end timestamp currentBlock p;
          expiresDate = map_option (\<lambda>x. x + 14 * 24 * 60 * 60 * 1000)
                          (case wp_eta p of None \<Rightarrow> Some timestamp | Some eta \<Rightarrow> eta)
      in if isBefore startDate now \<and> isAfter endDate now then EndsAt (the endDate)
         else if isBefore endDate now then ExpiresAt expiresDate
         else StartsAt (case startDate of None \<Rightarrow> Some now | Some d \<Rightarrow> d))"

text \<open>\<open>threshold\<close> of the list: the votes needed, one more than the contract's threshold.\<close>

definition votes_needed :: "nat option \<Rightarrow> nat" where
  "votes_needed proposalThreshold = (case proposalThreshold of None \<Rightarrow> 0 | Some t \<Rightarrow> t) + 1"

datatype js_account = NullAccount | UndefinedAccount | Account string

text \<open>The account of the wallet's context: a string or \<open>undefined\<close>.\<close>

definition context_account :: "wallet \<Rightarrow> js_account" where
  "context_account w = (case w_account w of None \<Rightarrow> UndefinedAccount | Some a \<Rightarrow> Account a)"

definition hasEnoughVotesToPropose :: "js_account \<Rightarrow> nat \<Rightarrow> nat option \<Rightarrow> bool" where
  "hasEnoughVotesToPropose account connectedAccountAlpVotes proposalThreshold \<longleftrightarrow>
     account \<noteq> UndefinedAccount \<and> connectedAccountAlpVotes \<ge> votes_needed proposalThreshold"

datatype null_state = RequiresVotes nat | NoVotes | ConnectWallet

definition nullStateCopy :: "js_account \<Rightarrow> nat \<Rightarrow> nat option \<Rightarrow> null_state" where
  "nullStateCopy account connectedAccountAlpVotes proposalThreshold =
     (if account \<noteq> NullAccount then
        (if connectedAccountAlpVotes > 0 then RequiresVotes (votes_needed proposalThreshold) else NoVotes)
      else ConnectWallet)"

lemma connect_wallet_never_shown: "nullStateCopy (context_account w) n t \<noteq> ConnectWallet"
  by (simp add: nullStateCopy_def context_account_def split: option.splits)

definition isPropInStateToHaveCountDown :: "web_proposal \<Rightarrow> bool" where
  "isPropInStateToHaveCountDown p \<longleftrightarrow>
     wp_status p = Some PENDING \<or> wp_status p = Some ACTIVE \<or> wp_status p = Some QUEUED"

text \<open>The rows, newest first: the link's id, the title, the countdown and the status.\<close>

definition proposal_rows :: "int \<Rightarrow> int \<Rightarrow> nat option \<Rightarrow> web_proposal option list \<Rightarrow>
    (string option \<times> string \<times> countdown option \<times> proposal_state option) list" where
  "proposal_rows timestamp now currentBlock ps =
     [(wp_id p, wp_title p,
       (if isPropInStateToHaveCountDown p
        then Some (getCountdownCopy timestamp now (Some (case currentBlock of None \<Rightarrow> 0 | Some b \<Rightarrow> b)) p) else None),
       wp_status p). Some p \<leftarrow> rev ps]"

datatype status_class = ClassPrimary | ClassSuccess | ClassDanger | ClassSecondary

definition statusVariant :: "proposal_state option \<Rightarrow> status_class" where
  "statusVariant status =
     (if status = Some PENDING \<or> status = Some ACTIVE then ClassPrimary
      else if status = Some SUCCEEDED \<or> status = Some EXECUTED then ClassSuccess
      else if status = Some DEFEATED \<or> status = Some VETOED then ClassDanger
      else ClassSecondary)"

definition statusText :: "proposal_state option \<Rightarrow> string" where
  "statusText status =
     (case status of
        Some PENDING \<Rightarrow> ''Pending'' | Some ACTIVE \<Rightarrow> ''Active'' | Some SUCCEEDED \<Rightarrow> ''Succeeded''
      | Some EXECUTED \<Rightarrow> ''Executed'' | Some DEFEATED \<Rightarrow> ''Defeated'' | Some QUEUED \<Rightarrow> ''Queued''
      | Some CANCELLED \<Rightarrow> ''Canceled'' | Some VETOED \<Rightarrow> ''Vetoed'' | Some EXPIRED \<Rightarrow> ''Expired''
      | _ \<Rightarrow> ''Undetermined'')"

section \<open>The contract's window\<close>

text \<open>\<open>castVoteInternal\<close> of \<open>AlpsDAOLogicV2.sol\<close>, in the block that takes the vote.\<close>

definition contract_takes_vote :: "nat \<Rightarrow> nat \<Rightarrow> contract_proposal \<Rightarrow> bool \<Rightarrow> nat \<Rightarrow> bool" where
  "contract_takes_vote block now p hasVoted support \<longleftrightarrow>
     contract_state block now p = ACTIVE \<and> support \<le> 2 \<and> \<not> hasVoted"

lemma contract_active_iff:
  "contract_state block now p = ACTIVE \<longleftrightarrow>
     \<not> op_vetoed p \<and> \<not> op_canceled p \<and> op_startBlock p < block \<and> block \<le> op_endBlock p"
  by (auto simp: contract_state_def)

lemma blocks_before:
  fixes t n d :: int
  assumes "t \<le> n" "n < t + 12000"
  shows "t + 12000 * d < n \<longleftrightarrow> d < 0 \<or> d = 0 \<and> t < n"
proof -
  consider "d \<le> -1" | "d = 0" | "d \<ge> 1" by linarith
  then show ?thesis using assms by cases auto
qed

lemma blocks_after:
  fixes t n d :: int
  assumes "t \<le> n" "n < t + 12000"
  shows "n < t + 12000 * d \<longleftrightarrow> d > 0"
proof -
  consider "d \<le> -1" | "d = 0" | "d \<ge> 1" by linarith
  then show ?thesis using assms by cases auto
qed

lemma active_window:
  assumes "timestamp \<le> now" "now < timestamp + 12000" "timestamp > 0" "cur > 0"
    and "wp_startBlock w = Some (int (op_startBlock p))" "wp_endBlock w = Some (int (op_endBlock p))"
  shows "isActiveForVoting timestamp now (Some cur) w \<longleftrightarrow>
     (op_startBlock p < cur \<or> op_startBlock p = cur \<and> timestamp < now) \<and> cur < op_endBlock p"
proof -
  have "isActiveForVoting timestamp now (Some cur) w \<longleftrightarrow>
     timestamp + 12000 * (int (op_startBlock p) - int cur) < now \<and>
     now < timestamp + 12000 * (int (op_endBlock p) - int cur)"
    using assms by (simp add: isActiveForVoting_def proposal_start_def proposal_end_def block_date_def
        isBefore_def isAfter_def AVERAGE_BLOCK_TIME_IN_SECS_def)
  also have "\<dots> \<longleftrightarrow> (op_startBlock p < cur \<or> op_startBlock p = cur \<and> timestamp < now) \<and> cur < op_endBlock p"
    unfolding blocks_before [OF assms(1,2)] blocks_after [OF assms(1,2)] by auto
  finally show ?thesis .
qed

definition demo_web_proposal :: web_proposal where
  "demo_web_proposal =
     \<lparr>wp_id = Some ''1'', wp_title = ''t'', wp_description = ''d'', wp_status = Some ACTIVE, wp_forCount = Some 3,
      wp_againstCount = Some 1, wp_abstainCount = Some 0, wp_createdBlock = Some 5, wp_startBlock = Some 10,
      wp_endBlock = Some 20, wp_eta = None, wp_proposer = Some ''0x1'', wp_proposalThreshold = Some 1,
      wp_quorumVotes = Some 2, wp_details = None, wp_transactionHash = None\<rparr>"

definition demo_open_proposal :: contract_proposal where
  "demo_open_proposal =
     \<lparr>op_startBlock = 10, op_endBlock = 20, op_forVotes = 3, op_againstVotes = 1, op_quorumVotes = 2,
      op_eta = 0, op_canceled = False, op_vetoed = False, op_executed = False\<rparr>"

text \<open>
  C21. The vote button and the contract.  The page derives the window from the last block it saw
  and twelve seconds a block.  When it is rendered within twelve seconds of reading the clock,
  an offered vote is one that the contract takes in the next block, unless the proposal has been
  cancelled or vetoed, which the button does not look at; and every vote the contract takes in the
  next block is offered, except that at the start block itself the button appears only once the
  clock has advanced since it was read.  The heading above the dates says that voting ends exactly
  while the button is there.
\<close>

theorem vote_window_matches_contract:
  assumes "timestamp \<le> now" "now < timestamp + 12000" "timestamp > 0" "cur > 0" "support \<le> 2"
    and "wp_startBlock w = Some (int (op_startBlock p))" "wp_endBlock w = Some (int (op_endBlock p))"
  defines "offered \<equiv> isActiveForVoting timestamp now (Some cur) w"
  shows "(offered \<longrightarrow> contract_takes_vote (Suc cur) t p False support \<or> op_canceled p \<or> op_vetoed p)
       \<and> (contract_takes_vote (Suc cur) t p False support \<longrightarrow> offered \<or> (cur = op_startBlock p \<and> timestamp = now))
       \<and> (startOrEndTimeCopy timestamp now (Some cur) w = Ends \<longleftrightarrow> offered)"
proof (intro conjI)
  note window = active_window [OF assms(1-4,6,7)]
  show "offered \<longrightarrow> contract_takes_vote (Suc cur) t p False support \<or> op_canceled p \<or> op_vetoed p"
    using assms(5) by (auto simp: offered_def window contract_takes_vote_def contract_active_iff)
  show "contract_takes_vote (Suc cur) t p False support \<longrightarrow> offered \<or> (cur = op_startBlock p \<and> timestamp = now)"
    using assms(1) by (auto simp: offered_def window contract_takes_vote_def contract_active_iff)
  show "startOrEndTimeCopy timestamp now (Some cur) w = Ends \<longleftrightarrow> offered"
    by (simp add: offered_def startOrEndTimeCopy_def)
qed

lemma vote_window_matches_contract_witness:
  "contract_takes_vote 16 0 demo_open_proposal False 1"
proof -
  have "isActiveForVoting 1000 1000 (Some 15) demo_web_proposal"
    by (simp add: isActiveForVoting_def proposal_start_def proposal_end_def block_date_def isBefore_def isAfter_def
        AVERAGE_BLOCK_TIME_IN_SECS_def demo_web_proposal_def)
  then show ?thesis
    using vote_window_matches_contract [of 1000 1000 15 1 demo_web_proposal demo_open_proposal 0]
    by (simp add: demo_web_proposal_def demo_open_proposal_def)
qed

section \<open>The cards\<close>

lemma getAlpVotes_Cons:
  "getAlpVotes (r # rows) s = (if vw_supportDetailed r = s then vw_alpsRepresented r else []) @ getAlpVotes rows s"
  by (simp add: getAlpVotes_def)

lemma getAlpVotes_Nil [simp]: "getAlpVotes [] s = []"
  by (simp add: getAlpVotes_def)

text \<open>Three kinds of vote: the cards share out what the rows represent.\<close>

lemma cards_partition:
  "\<forall>r\<in>set rows. vw_supportDetailed r \<le> 2 \<Longrightarrow>
   mset (getAlpVotes rows 1) + mset (getAlpVotes rows 0) + mset (getAlpVotes rows 2) =
   mset (concat (map vw_alpsRepresented rows))"
proof (induction rows)
  case (Cons r rows)
  then have "vw_supportDetailed r = 0 \<or> vw_supportDetailed r = 1 \<or> vw_supportDetailed r = 2" by auto
  with Cons show ?case by (auto simp: getAlpVotes_Cons ac_simps)
qed simp

text \<open>The snapshot's table: the last entry of a delegate.\<close>

lemma delegateToAlpIds_snoc:
  "jm_get (delegateToAlpIds (ds @ [d])) k =
     (if k = dg_id d then Some (case dg_alpsRepresented d of None \<Rightarrow> [] | Some ids \<Rightarrow> ids)
      else jm_get (delegateToAlpIds ds) k)"
  by (simp add: delegateToAlpIds_def jm_get_set)

lemma delegateToAlpIds_distinct:
  "distinct (map dg_id ds) \<Longrightarrow> d \<in> set ds \<Longrightarrow>
   jm_get (delegateToAlpIds ds) (dg_id d) = Some (case dg_alpsRepresented d of None \<Rightarrow> [] | Some ids \<Rightarrow> ids)"
proof (induction ds rule: rev_induct)
  case (snoc x ds)
  then show ?case by (cases "d = x") (auto simp: delegateToAlpIds_snoc rev_image_eqI)
qed simp

lemma delegateToAlpIds_absent: "k \<notin> set (map dg_id ds) \<Longrightarrow> jm_get (delegateToAlpIds ds) k = None"
  by (induction ds rule: rev_induct) (auto simp: delegateToAlpIds_snoc, simp add: delegateToAlpIds_def jm_get_def)

lemma totalVotes_Some:
  "totalVotes p = Some t \<longleftrightarrow>
     (\<exists>a b c. wp_forCount p = Some a \<and> wp_againstCount p = Some b \<and> wp_abstainCount p = Some c \<and> t = a + b + c)"
  by (auto simp: totalVotes_def num_add_def split: option.splits)

lemma percentages_sum:
  assumes "totalVotes p = Some t" "t \<noteq> 0"
  shows "percentage p (wp_forCount p) + percentage p (wp_againstCount p) + percentage p (wp_abstainCount p) = 100"
proof -
  obtain a b c where n: "wp_forCount p = Some a" "wp_againstCount p = Some b" "wp_abstainCount p = Some c" "t = a + b + c"
    using assms(1) totalVotes_Some by blast
  then have "percentage p (wp_forCount p) + percentage p (wp_againstCount p) + percentage p (wp_abstainCount p) =
      (of_int (a * 100) + of_int (b * 100) + of_int (c * 100)) / of_int t"
    using assms by (simp add: percentage_def add_divide_distrib)
  also have "\<dots> = of_int (t * 100) / of_int t" using n(4) by (simp add: algebra_simps)
  also have "\<dots> = 100" using assms(2) by simp
  finally show ?thesis .
qed

lemma map_vote_rows:
  assumes "distinct (map dg_id ds)" "\<forall>v\<in>set vs. \<exists>d\<in>set ds. dg_id d = vo_id v \<and> dg_alpsRepresented d = Some (held (vo_id v))"
  shows "vote_rows (Some vs) (Some ds) =
     Some (map (\<lambda>v. \<lparr>vw_delegate = vo_id v, vw_supportDetailed = vo_supportDetailed v, vw_alpsRepresented = held (vo_id v)\<rparr>) vs)"
proof -
  have "jm_get (delegateToAlpIds ds) (vo_id v) = Some (held (vo_id v))" if "v \<in> set vs" for v
  proof -
    obtain d where "d \<in> set ds" "dg_id d = vo_id v" "dg_alpsRepresented d = Some (held (vo_id v))"
      using assms(2) \<open>v \<in> set vs\<close> by blast
    then show ?thesis using delegateToAlpIds_distinct [OF assms(1), of d] by simp
  qed
  then show ?thesis by (simp add: vote_rows_def)
qed

definition demo_voters :: "voter list" where
  "demo_voters = [\<lparr>vo_id = ''a'', vo_supportDetailed = 1\<rparr>, \<lparr>vo_id = ''b'', vo_supportDetailed = 0\<rparr>]"

definition demo_snapshot :: "delegate_snapshot list" where
  "demo_snapshot = [\<lparr>dg_id = ''b'', dg_alpsRepresented = Some [''7'']\<rparr>, \<lparr>dg_id = ''a'', dg_alpsRepresented = Some [''1'', ''2'']\<rparr>]"

definition demo_held :: "string \<Rightarrow> string list" where
  "demo_held i = (if i = ''a'' then [''1'', ''2''] else [''7''])"

text \<open>
  The vote cards.  Let the snapshot query answer with one entry for every voter, naming the alps
  the voter represented when the proposal was created.  If every vote is for, against or an
  abstention, the three cards together show exactly the alps of all voters, each as often as it is
  represented; a card shows an alp only if a voter with that support represented it; and the three
  bars fill 100 percent as soon as there is a vote.
\<close>

theorem vote_cards_partition:
  assumes "distinct (map dg_id ds)"
    and "\<forall>v\<in>set vs. \<exists>d\<in>set ds. dg_id d = vo_id v \<and> dg_alpsRepresented d = Some (held (vo_id v))"
    and "\<forall>v\<in>set vs. vo_supportDetailed v \<le> 2"
    and "totalVotes p = Some t" "t \<noteq> 0"
  shows "\<exists>rows. vote_rows (Some vs) (Some ds) = Some rows
       \<and> mset (getAlpVotes rows (card_support CardFor)) + mset (getAlpVotes rows (card_support CardAgainst))
           + mset (getAlpVotes rows (card_support CardAbstain)) = mset (concat (map (\<lambda>v. held (vo_id v)) vs))
       \<and> (\<forall>variant. set (getAlpVotes rows (card_support variant)) =
            (\<Union>v\<in>{v \<in> set vs. vo_supportDetailed v = card_support variant}. set (held (vo_id v))))
       \<and> percentage p (card_count p CardFor) + percentage p (card_count p CardAgainst)
           + percentage p (card_count p CardAbstain) = 100"
proof (intro exI conjI)
  let ?rows = "map (\<lambda>v. \<lparr>vw_delegate = vo_id v, vw_supportDetailed = vo_supportDetailed v, vw_alpsRepresented = held (vo_id v)\<rparr>) vs"
  show "vote_rows (Some vs) (Some ds) = Some ?rows" by (rule map_vote_rows [OF assms(1,2)])
  have "\<forall>r\<in>set ?rows. vw_supportDetailed r \<le> 2" using assms(3) by auto
  from cards_partition [OF this]
  show "mset (getAlpVotes ?rows (card_support CardFor)) + mset (getAlpVotes ?rows (card_support CardAgainst))
           + mset (getAlpVotes ?rows (card_support CardAbstain)) = mset (concat (map (\<lambda>v. held (vo_id v)) vs))"
    by (simp add: card_support_def comp_def)
  show "\<forall>variant. set (getAlpVotes ?rows (card_support variant)) =
            (\<Union>v\<in>{v \<in> set vs. vo_supportDetailed v = card_support variant}. set (held (vo_id v)))"
    by (auto simp: getAlpVotes_def)
  show "percentage p (card_count p CardFor) + percentage p (card_count p CardAgainst)
           + percentage p (card_count p CardAbstain) = 100"
    using percentages_sum [OF assms(4,5)] by (simp add: card_count_def)
qed

lemma vote_cards_partition_witness:
  "\<exists>rows. vote_rows (Some demo_voters) (Some demo_snapshot) = Some rows
     \<and> set (getAlpVotes rows 1) = {''1'', ''2''}"
proof -
  have "\<forall>v\<in>set demo_voters. \<exists>d\<in>set demo_snapshot. dg_id d = vo_id v \<and> dg_alpsRepresented d = Some (demo_held (vo_id v))"
    by (simp add: demo_voters_def demo_snapshot_def demo_held_def)
  moreover have "distinct (map dg_id demo_snapshot)" by (simp add: demo_snapshot_def)
  moreover have "\<forall>v\<in>set demo_voters. vo_supportDetailed v \<le> 2" by (simp add: demo_voters_def)
  moreover have "totalVotes demo_web_proposal = Some 4"
    by (simp add: totalVotes_def demo_web_proposal_def num_add_def)
  moreover have "(4 :: int) \<noteq> 0" by simp
  ultimately obtain rows where r: "vote_rows (Some demo_voters) (Some demo_snapshot) = Some rows"
    "\<forall>variant. set (getAlpVotes rows (card_support variant)) =
            (\<Union>v\<in>{v \<in> set demo_voters. vo_supportDetailed v = card_support variant}. set (demo_held (vo_id v)))"
    using vote_cards_partition [of demo_snapshot demo_voters demo_held demo_web_proposal 4] by blast
  have "{v \<in> set demo_voters. vo_supportDetailed v = card_support CardFor} = {\<lparr>vo_id = ''a'', vo_supportDetailed = 1\<rparr>}"
    by (auto simp: demo_voters_def card_support_def)
  with r(2) [rule_format, of CardFor] have "set (getAlpVotes rows (card_support CardFor)) = {''1'', ''2''}"
    by (simp add: demo_held_def)
  then show ?thesis using r(1) by (auto simp: card_support_def)
qed

section \<open>The form sends one vote at a time\<close>

definition vote_run :: "string option \<Rightarrow> modal_event list \<Rightarrow> vote_modal \<Rightarrow> vote_modal" where
  "vote_run i es m = foldl (\<lambda>m e. modal_step i e m) m es"

lemma vote_run_simps [simp]:
  "vote_run i [] m = m" "vote_run i (e # es) m = vote_run i es (modal_step i e m)"
  "vote_run i (xs @ ys) m = vote_run i ys (vote_run i xs m)"
  by (simp_all add: vote_run_def)

text \<open>What lets the button go: a status other than signing and mining, or dismissing the form.\<close>

fun releases_button :: "modal_event \<Rightarrow> bool" where
  "releases_button (VoteStatus s _) = (s \<noteq> PendingSignature \<and> s \<noteq> Mining)"
| "releases_button DismissModal = True"
| "releases_button _ = False"

lemmas modal_unfold = handleVoteStateChange_def submit_vote_def resetNonSuccessStateAndHideModal_def

text \<open>A step sends at most one call, from a button that is not waiting, and then waits.\<close>

lemma modal_step_calls:
  "vm_calls (modal_step i e m) = vm_calls m \<or>
   (\<not> vm_isLoading m \<and> vote_buttons m \<and> vm_isLoading (modal_step i e m) \<and>
    (\<exists>v j c. vm_vote m = Some v \<and> i = Some j \<and> j \<noteq> [] \<and> vote_sent True j v (vm_reason m) = [c] \<and>
             vm_calls (modal_step i e m) = vm_calls m @ [c]))"
proof (cases e)
  case (SubmitVote contract)
  then show ?thesis
    by (cases contract)
      (auto simp: submit_vote_def vote_sent_def castVote_def castVoteWithReason_def split: option.splits)
qed (auto simp: modal_unfold split: transaction_state.splits)

lemma modal_step_loading:
  "vm_isLoading m \<Longrightarrow> \<not> releases_button e \<Longrightarrow> vm_isLoading (modal_step i e m)"
  by (cases e) (auto simp: modal_unfold split: transaction_state.splits option.splits)

lemma modal_step_successful: "vm_isVoteSucessful m \<Longrightarrow> vm_isVoteSucessful (modal_step i e m)"
  by (cases e) (auto simp: modal_unfold split: transaction_state.splits option.splits)

lemma no_call_after_success:
  "vm_isVoteSucessful m \<Longrightarrow> vm_calls (vote_run i es m) = vm_calls m"
proof (induction es arbitrary: m)
  case (Cons e es)
  then show ?case using modal_step_calls [of i e m] modal_step_successful [of m i e]
    by (simp add: vote_buttons_def)
qed simp

text \<open>While the button waits, the calls are paid for by releases; otherwise one is free.\<close>

definition credit :: "vote_modal \<Rightarrow> nat" where
  "credit m = (if vm_isLoading m then 0 else 1)"

lemma modal_step_credit:
  "length (vm_calls (modal_step i e m)) + credit (modal_step i e m) \<le>
   length (vm_calls m) + credit m + (if releases_button e then 1 else 0)"
  using modal_step_calls [of i e m] modal_step_loading [of m e i] by (auto simp: credit_def)

lemma calls_bounded:
  "length (vm_calls (vote_run i es m)) + credit (vote_run i es m) \<le>
   length (vm_calls m) + credit m + length (filter releases_button es)"
proof (induction es arbitrary: m)
  case (Cons e es)
  show ?case using Cons.IH [of "modal_step i e m"] modal_step_credit [of i e m]
    by (auto split: if_splits)
qed simp

lemma calls_well_formed:
  "(\<And>c. c \<in> set (vm_calls m) \<Longrightarrow> P c) \<Longrightarrow>
   (\<And>v r c. i \<noteq> None \<Longrightarrow> vote_sent True (the i) v r = [c] \<Longrightarrow> P c) \<Longrightarrow>
   c \<in> set (vm_calls (vote_run i es m)) \<Longrightarrow> P c"
proof (induction es arbitrary: m)
  case (Cons e es)
  show ?case
  proof (rule Cons.IH)
    show "P d" if "d \<in> set (vm_calls (modal_step i e m))" for d
      using modal_step_calls [of i e m] that Cons.prems(1,2) by auto
  qed (use Cons.prems in simp_all)
qed simp

text \<open>
  The voting form sends one vote at a time.  Whatever the user and the wallet do, in any order,
  the form has sent at most one more vote than the times its button was let go again, by a
  transaction that ended or by dismissing the form; once a vote has succeeded it sends nothing more,
  however often it is opened again; and every call is for this proposal, with the reason exactly
  when more than white space was written.
\<close>

theorem vote_modal_one_at_a_time:
  fixes proposalId :: string and es :: "modal_event list"
  defines "m \<equiv> vote_run (Some proposalId) es new_vote_modal"
  shows "length (vm_calls m) \<le> Suc (length (filter releases_button es))
       \<and> (vm_isVoteSucessful m \<longrightarrow> vm_calls (vote_run (Some proposalId) fs m) = vm_calls m)
       \<and> (\<forall>c\<in>set (vm_calls m). (\<exists>v. c = CastVote proposalId v)
            \<or> (\<exists>v r. c = CastVoteWithReason proposalId v r \<and> trim r \<noteq> []))"
proof (intro conjI ballI)
  show "length (vm_calls m) \<le> Suc (length (filter releases_button es))"
    using calls_bounded [of "Some proposalId" es new_vote_modal] by (simp add: m_def new_vote_modal_def credit_def)
  show "vm_isVoteSucessful m \<longrightarrow> vm_calls (vote_run (Some proposalId) fs m) = vm_calls m"
    using no_call_after_success by blast
  fix c assume "c \<in> set (vm_calls m)"
  then show "(\<exists>v. c = CastVote proposalId v) \<or> (\<exists>v r. c = CastVoteWithReason proposalId v r \<and> trim r \<noteq> [])"
    unfolding m_def
    by (rule calls_well_formed [where m = new_vote_modal, rotated 2])
      (auto simp: new_vote_modal_def vote_sent_def castVote_def castVoteWithReason_def split: if_splits)
qed

lemma vote_modal_one_at_a_time_witness:
  "vm_calls (vote_run (Some ''7'') [OpenModal, ChooseVote FOR, SubmitVote True, SubmitVote True, VoteStatus Success None, SubmitVote True]
     new_vote_modal) = [CastVote ''7'' FOR]"
proof -
  let ?es = "[OpenModal, ChooseVote FOR, SubmitVote True, SubmitVote True, VoteStatus Success None]"
  have "vm_isVoteSucessful (vote_run (Some ''7'') ?es new_vote_modal)
      \<and> vm_calls (vote_run (Some ''7'') ?es new_vote_modal) = [CastVote ''7'' FOR]"
    by (simp add: new_vote_modal_def vote_buttons_def submit_vote_def vote_sent_def castVote_def trim_def
        handleVoteStateChange_def)
  then show ?thesis
    using vote_modal_one_at_a_time [where proposalId = "''7''" and es = ?es and fs = "[SubmitVote True]"] by simp
qed

text \<open>Before the contracts are loaded the form waits for a status that never comes; and dismissing
  it while a vote is being mined lets a second one be sent.\<close>

lemma submit_without_contract_waits:
  "vm_isLoading (vote_run (Some ''7'') [OpenModal, ChooseVote FOR, SubmitVote False] new_vote_modal) \<and>
   vm_calls (vote_run (Some ''7'') [OpenModal, ChooseVote FOR, SubmitVote False] new_vote_modal) = []"
  by (simp add: new_vote_modal_def vote_buttons_def submit_vote_def vote_sent_def castVote_def trim_def)

lemma dismissed_form_votes_again:
  "length (vm_calls (vote_run (Some ''7'') [OpenModal, ChooseVote FOR, SubmitVote True, VoteStatus Mining None,
      DismissModal, OpenModal, SubmitVote True] new_vote_modal)) = 2"
  by (simp add: new_vote_modal_def vote_buttons_def submit_vote_def vote_sent_def castVote_def trim_def
      handleVoteStateChange_def resetNonSuccessStateAndHideModal_def)

text \<open>A query that fails leaves its data undefined, so the page spins and never says so.\<close>

lemma failure_never_shown:
  "(error \<Longrightarrow> data = None) \<Longrightarrow> (dqError \<Longrightarrow> dqInfo = None) \<Longrightarrow>
   vote_page_view p loading error data loadingDQInfo dqError dqInfo \<noteq> FailedToFetch"
  by (auto simp: vote_page_view_def)

section \<open>The prefetched names\<close>

lemma prefetch_resolved_get:
  "jm_get (prefetch_resolved chain now d name store) k =
     (case name of None \<Rightarrow> jm_get store k
      | Some n \<Rightarrow> if n \<noteq> [] \<and> k = ensCacheKey chain d
                   then Some \<lparr>ens_name = n, ens_expires = now + 30 * 60 * 1000\<rparr> else jm_get store k)"
  by (simp add: prefetch_resolved_def jm_get_set split: option.splits)

lemma fold_prefetch_other:
  "(\<And>d. d \<in> set ds \<Longrightarrow> ensCacheKey chain d \<noteq> k) \<Longrightarrow>
   jm_get (fold (\<lambda>d. prefetch_resolved chain (answered d) d (f d)) ds store) k = jm_get store k"
  by (induction ds arbitrary: store) (auto simp: prefetch_resolved_get split: option.splits)

lemma fold_prefetch_hit:
  "(\<And>e. e \<in> set ds \<Longrightarrow> ensCacheKey chain e = ensCacheKey chain d \<Longrightarrow> e = d) \<Longrightarrow> d \<in> set ds \<Longrightarrow>
   f d = Some n \<Longrightarrow> n \<noteq> [] \<Longrightarrow>
   jm_get (fold (\<lambda>d. prefetch_resolved chain (answered d) d (f d)) ds store) (ensCacheKey chain d) =
     Some \<lparr>ens_name = n, ens_expires = answered d + 30 * 60 * 1000\<rparr>"
proof (induction ds rule: rev_induct)
  case (snoc x ds)
  show ?case
  proof (cases "x = d")
    case True
    then show ?thesis using snoc.prems by (simp add: prefetch_resolved_get)
  next
    case False
    then have "ensCacheKey chain d \<noteq> ensCacheKey chain x" using snoc.prems(1) [of x] by auto
    then show ?thesis using snoc False by (auto simp: prefetch_resolved_get split: option.splits)
  qed
qed simp

lemma ens_fresh_entry:
  "now + 1000 \<le> t \<Longrightarrow> ens_fresh now \<lparr>ens_name = n, ens_expires = t\<rparr>"
  using div_mult_mod_eq [of t 1000] mod_less_divisor [of 1000 t] by (simp add: ens_fresh_def)

text \<open>
  The names fetched ahead.  A card asks for the names of all delegates who have none stored.  If a
  delegate's lookup was answered with a name less than half an hour (and a second) ago, and the keys
  of the delegates differ, then the hover card of that delegate shows the name from the store at
  once, without a lookup of its own; names that were stored before are left as they are.
\<close>

theorem prefetch_feeds_hover:
  assumes "d \<in> set (map vw_delegate rows)" "\<not> jm_has store (ensCacheKey chain d)"
    and "\<And>e. e \<in> set (map vw_delegate rows) \<Longrightarrow> ensCacheKey chain e = ensCacheKey chain d \<Longrightarrow> e = d"
    and "resolve d = Some n" "n \<noteq> []" "d \<noteq> []"
    and "now + 1000 \<le> answered d + 30 * 60 * 1000"
  defines "store' \<equiv> prefetch chain answered resolve (Some rows) store"
  shows "ens_effect chain now d (store', ens) = ((store', Some n), False)
       \<and> (jm_has store k \<longrightarrow> jm_get store' k = jm_get store k)"
proof -
  let ?ds = "filter (\<lambda>d. \<not> jm_has store (ensCacheKey chain d)) (map vw_delegate rows)"
  have s: "store' = fold (\<lambda>d. prefetch_resolved chain (answered d) d (lookupNNSOrENS resolve d)) ?ds store"
    by (simp add: store'_def prefetch_def prefetch_targets_def)
  have "d \<in> set ?ds" using assms(1,2) by auto
  then have hit: "jm_get store' (ensCacheKey chain d) = Some \<lparr>ens_name = n, ens_expires = answered d + 30 * 60 * 1000\<rparr>"
    unfolding s using assms(3-5) by (intro fold_prefetch_hit) (auto simp: lookupNNSOrENS_def)
  have "jm_get store' k = jm_get store k" if "jm_has store k"
    unfolding s using that by (intro fold_prefetch_other) auto
  moreover have "ens_effect chain now d (store', ens) = ((store', Some n), False)"
    using hit assms(6) ens_fresh_entry [OF assms(7), of n] by (simp add: ens_effect_def jm_has_def)
  ultimately show ?thesis by blast
qed

lemma prefetch_feeds_hover_witness:
  "ens_effect 1 5000 ''0xa'' (prefetch 1 (\<lambda>_. 1000) (\<lambda>_. Some ''a.eth'')
     (Some [\<lparr>vw_delegate = ''0xa'', vw_supportDetailed = 1, vw_alpsRepresented = []\<rparr>]) [], None) =
   ((prefetch 1 (\<lambda>_. 1000) (\<lambda>_. Some ''a.eth'')
     (Some [\<lparr>vw_delegate = ''0xa'', vw_supportDetailed = 1, vw_alpsRepresented = []\<rparr>]) [], Some ''a.eth''), False)"
  using prefetch_feeds_hover [of "''0xa''" "[\<lparr>vw_delegate = ''0xa'', vw_supportDetailed = 1, vw_alpsRepresented = []\<rparr>]"
      "[]" 1 "\<lambda>_. Some ''a.eth''" "''a.eth''" 5000 "\<lambda>_. 1000" None]
  by (simp add: jm_has_def jm_get_def)

end
