(* ===== verification/Web_Tables.thy ===== *)
theory Web_Tables
  imports Web_Vote
begin

text \<open>
  The tables under the vote cards: \<open>utils/pseudoRandomPredictableShuffle.ts\<close>, \<open>AlpImageVoteTable\<close>,
  \<open>DelegateGroupedAlpImageVoteTable\<close>, \<open>VoteCardPager\<close>, the stacks of circles, and the rows of an alp's
  profile, \<open>AlpProfileVoteRow\<close>.  \<open>Math.sin\<close> is an argument; arithmetic on its results is exact.
\<close>

section \<open>The shuffle\<close>

definition rand_of :: "(int \<Rightarrow> rat) \<Rightarrow> int \<Rightarrow> rat" where
  "rand_of sine seed = (let r = sine seed * 10000 in r - of_int \<lfloor>r\<rfloor>)"

definition shuffle_index :: "(int \<Rightarrow> rat) \<Rightarrow> int \<Rightarrow> nat \<Rightarrow> nat" where
  "shuffle_index sine seed len = nat \<lfloor>of_nat len * rand_of sine seed\<rfloor>"

lemma rand_of_bounds: "0 \<le> rand_of sine seed" "rand_of sine seed < 1"
  unfolding rand_of_def Let_def by linarith+

lemma shuffle_index_less: "0 < len \<Longrightarrow> shuffle_index sine seed len < len"
proof -
  assume "0 < len"
  then have "of_nat len * rand_of sine seed < of_nat len" "0 \<le> of_nat len * rand_of sine seed"
    using rand_of_bounds [of sine seed] by (auto simp: mult_less_cancel_left2)
  then have "\<lfloor>of_nat len * rand_of sine seed\<rfloor> < int len" "0 \<le> \<lfloor>of_nat len * rand_of sine seed\<rfloor>"
    by (simp_all add: floor_less_iff)
  then show ?thesis by (simp add: shuffle_index_def nat_less_iff)
qed

function shuffle_loop :: "(int \<Rightarrow> rat) \<Rightarrow> int \<Rightarrow> 'a list \<Rightarrow> 'a list" where
  "shuffle_loop sine seed input =
     (if input = [] then []
      else let seed1 = (if seed = 0 then seed + 1 else seed);
               index = shuffle_index sine seed1 (length input)
           in input ! index # shuffle_loop sine (seed1 + 1) (take index input @ drop (Suc index) input))"
  by auto
termination
proof (relation "measure (\<lambda>(_, _, input). length input)", simp, unfold in_measure case_prod_conv)
  fix sine :: "int \<Rightarrow> rat" and seed :: int and input :: "'a list" and s i
  assume "input \<noteq> []" and "i = shuffle_index sine s (length input)"
  then have "i < length input" using shuffle_index_less [of "length input" sine s] by simp
  then show "length (take i input @ drop (Suc i) input) < length input" by simp
qed

declare shuffle_loop.simps [simp del]

definition pseudoRandomPredictableShuffle :: "(int \<Rightarrow> rat) \<Rightarrow> 'a list \<Rightarrow> int \<Rightarrow> 'a list" where
  "pseudoRandomPredictableShuffle sine input seed = shuffle_loop sine seed input"

lemma mset_remove_nth:
  "i < length xs \<Longrightarrow> add_mset (xs ! i) (mset (take i xs @ drop (Suc i) xs)) = mset xs"
  by (metis id_take_nth_drop mset.simps(2) mset_append union_mset_add_mset_right)

lemma mset_shuffle_loop: "mset (shuffle_loop sine seed input) = mset input"
proof (induction sine seed input rule: shuffle_loop.induct)
  case (1 sine seed input)
  show ?case
  proof (cases "input = []")
    case False
    define s where "s = (if seed = 0 then seed + 1 else seed)"
    define i where "i = shuffle_index sine s (length input)"
    have i: "i < length input" using False by (simp add: i_def shuffle_index_less)
    have "mset (shuffle_loop sine (s + 1) (take i input @ drop (Suc i) input)) = mset (take i input @ drop (Suc i) input)"
      using 1 [OF False s_def i_def] by simp
    then show ?thesis using False mset_remove_nth [OF i]
      by (simp add: shuffle_loop.simps [of sine seed input] s_def [symmetric] i_def [symmetric] Let_def)
  qed (simp add: shuffle_loop.simps)
qed

section \<open>The tables and the pager\<close>

definition NOUNS_PER_VOTE_CARD_DESKTOP :: nat where "NOUNS_PER_VOTE_CARD_DESKTOP = 15"

definition DELEGATES_PER_VOTE_CARD_DESKTOP :: nat where "DELEGATES_PER_VOTE_CARD_DESKTOP = 12"

text \<open>A page's items, padded; \<open>None\<close> is a grey circle.\<close>

definition padded_page :: "nat \<Rightarrow> 'a list \<Rightarrow> nat \<Rightarrow> 'a option list" where
  "padded_page per shuffled page = map Some (take per (drop (page * per) shuffled)) @ replicate per None"

definition table_content :: "nat \<Rightarrow> nat \<Rightarrow> 'a list \<Rightarrow> nat \<Rightarrow> 'a option list list" where
  "table_content rowLength per shuffled page =
     map (\<lambda>i. map (\<lambda>j. padded_page per shuffled page ! (i * rowLength + j)) [0..<rowLength]) [0..<3]"

definition alp_table :: "(int \<Rightarrow> rat) \<Rightarrow> nat \<Rightarrow> string list \<Rightarrow> int \<Rightarrow> nat \<Rightarrow> string option list list" where
  "alp_table sine innerWidth alpIds propId page =
     table_content (if innerWidth > 1200 then 5 else 4) NOUNS_PER_VOTE_CARD_DESKTOP
       (pseudoRandomPredictableShuffle sine alpIds propId) page"

definition delegate_table :: "(int \<Rightarrow> rat) \<Rightarrow> vote_row list \<Rightarrow> int \<Rightarrow> nat \<Rightarrow> vote_row option list list" where
  "delegate_table sine rows propId page =
     table_content 4 DELEGATES_PER_VOTE_CARD_DESKTOP (pseudoRandomPredictableShuffle sine rows propId) page"

definition numPages :: "nat \<Rightarrow> nat \<Rightarrow> nat" where
  "numPages per len = len div per + 1"

definition isRightArrowDisabled :: "nat \<Rightarrow> nat \<Rightarrow> nat \<Rightarrow> bool" where
  "isRightArrowDisabled per len page \<longleftrightarrow> (page + 1) * per > len"

datatype pager_click = LeftArrow | RightArrow

text \<open>The pager disables both arrows on a single page.\<close>

fun pager_step :: "nat \<Rightarrow> nat \<Rightarrow> nat \<Rightarrow> pager_click \<Rightarrow> nat" where
  "pager_step per len page LeftArrow = (if page = 0 \<or> numPages per len = 1 then page else page - 1)"
| "pager_step per len page RightArrow =
     (if isRightArrowDisabled per len page \<or> numPages per len = 1 then page else page + 1)"

text \<open>Where the circles of the stacks lie: the first six beside, the first three on top of one another.\<close>

definition HorizontalStackedAlps :: "string list \<Rightarrow> (string \<times> nat) list" where
  "HorizontalStackedAlps alpIds = rev (map (\<lambda>(i, a). (a, 25 * i)) (enumerate 0 (take 6 alpIds)))"

definition MAX_NOUNS_PER_STACK :: nat where "MAX_NOUNS_PER_STACK = 3"

text \<open>Centre and corner of each circle.\<close>

definition TightStackedCircleAlps :: "'a list \<Rightarrow> ('a \<times> (nat \<times> nat) \<times> (nat \<times> nat)) list" where
  "TightStackedCircleAlps alpIds =
     rev (map (\<lambda>(i, a). (a, (28 + i * 3, 55 - 21 - i * 3), (8 + i * 3, 14 - i * 3)))
       (enumerate 0 (take MAX_NOUNS_PER_STACK alpIds)))"

section \<open>The rows of a profile\<close>

datatype vote_icon = PendingIcon | AbsentIcon | YesIcon | AbstainIcon | NoIcon

definition selectIconForAlpVoteActivityRow :: "proposal_state option \<Rightarrow> nat option \<Rightarrow> vote_icon" where
  "selectIconForAlpVoteActivityRow status supportDetailed =
     (case supportDetailed of
        None \<Rightarrow> if status = Some PENDING \<or> status = Some ACTIVE then PendingIcon else AbsentIcon
      | Some v \<Rightarrow> if v \<noteq> 0 then (if v = 1 then YesIcon else AbstainIcon) else NoIcon)"

definition selectVotingInfoText :: "proposal_state option \<Rightarrow> nat option \<Rightarrow> string" where
  "selectVotingInfoText status supportDetailed =
     (case supportDetailed of
        None \<Rightarrow> if status = Some PENDING \<or> status = Some ACTIVE then ''Waiting for'' else ''Absent for''
      | Some v \<Rightarrow> if v \<noteq> 0 then (if v = 1 then ''Voted for'' else ''Abstained on'') else ''Voted against'')"

definition selectProposalStatus :: "proposal_state option \<Rightarrow> string" where
  "selectProposalStatus status =
     (if status = Some SUCCEEDED \<or> status = Some EXECUTED \<or> status = Some QUEUED then ''success''
      else if status = Some DEFEATED \<or> status = Some VETOED then ''failure''
      else ''pending'')"

definition selectProposalText :: "proposal_state option \<Rightarrow> string" where
  "selectProposalText status =
     (case status of
        Some PENDING \<Rightarrow> ''Pending'' | Some ACTIVE \<Rightarrow> ''Active'' | Some SUCCEEDED \<Rightarrow> ''Succeeded''
      | Some EXECUTED \<Rightarrow> ''Executed'' | Some DEFEATED \<Rightarrow> ''Defeated'' | Some QUEUED \<Rightarrow> ''Queued''
      | Some CANCELLED \<Rightarrow> ''Canceled'' | Some VETOED \<Rightarrow> ''Vetoed'' | Some EXPIRED \<Rightarrow> ''Expired''
      | _ \<Rightarrow> ''Undetermined'')"

section \<open>What the pages show\<close>

definition page_items :: "'a option list list \<Rightarrow> 'a list" where
  "page_items rows = List.map_filter id (concat rows)"

definition all_pages :: "nat \<Rightarrow> nat \<Rightarrow> 'a list \<Rightarrow> 'a list" where
  "all_pages rowLength per xs =
     concat (map (\<lambda>page. page_items (table_content rowLength per xs page)) [0..<numPages per (length xs)])"

lemma table_cells:
  assumes "3 * rowLength \<le> per"
  shows "concat (table_content rowLength per xs page) = take (3 * rowLength) (padded_page per xs page)"
proof -
  have len: "3 * rowLength \<le> length (padded_page per xs page)" using assms by (simp add: padded_page_def)
  have row: "map (\<lambda>j. ys ! (k + j)) [0..<n] = take n (drop k ys)" if "k + n \<le> length ys" for k n and ys :: "'a option list"
    using that by (intro nth_equalityI) auto
  have fits: "i * rowLength + rowLength \<le> length (padded_page per xs page)" if "i < 3" for i
  proof -
    have "Suc i * rowLength \<le> 3 * rowLength" using that by (intro mult_le_mono1) simp
    with len have "Suc i * rowLength \<le> length (padded_page per xs page)" by (rule order.trans [rotated])
    then show ?thesis by (simp add: add.commute)
  qed
  have "concat (table_content rowLength per xs page) =
      concat (map (\<lambda>i. take rowLength (drop (i * rowLength) (padded_page per xs page))) [0..<3])"
    unfolding table_content_def by (intro arg_cong [where f = concat] map_cong refl row fits) simp
  also have "\<dots> = take (rowLength + (rowLength + rowLength)) (padded_page per xs page)"
    unfolding take_add by (simp add: upt_rec numeral_3_eq_3)
  also have "rowLength + (rowLength + rowLength) = 3 * rowLength" by simp
  finally show ?thesis .
qed

lemma page_items_padded:
  "3 * rowLength \<le> per \<Longrightarrow>
   page_items (table_content rowLength per xs page) = take (min (3 * rowLength) per) (take per (drop (page * per) xs))"
  by (simp add: page_items_def table_cells padded_page_def take_map map_filter_def comp_def)

lemma pages_cover:
  "0 < per \<Longrightarrow> concat (map (\<lambda>page. take per (drop (page * per) xs)) [0..<n]) = take (n * per) xs"
proof (induction n)
  case (Suc n)
  have "take (Suc n * per) xs = take (n * per + per) xs" by (simp add: add.commute)
  also have "\<dots> = take (n * per) xs @ take per (drop (n * per) xs)" by (rule take_add)
  finally show ?case using Suc by simp
qed simp

lemma all_pages_full:
  assumes "0 < per" "3 * rowLength = per"
  shows "all_pages rowLength per xs = xs"
proof -
  have "all_pages rowLength per xs = concat (map (\<lambda>page. take per (drop (page * per) xs)) [0..<numPages per (length xs)])"
    unfolding all_pages_def using assms by (simp add: page_items_padded)
  also have "\<dots> = take (numPages per (length xs) * per) xs" by (rule pages_cover [OF assms(1)])
  also have "\<dots> = xs"
    using assms(1) dividend_less_div_times [of per "length xs"] by (simp add: numPages_def add.commute)
  finally show ?thesis .
qed

text \<open>On narrow screens a page has twelve cells for fifteen alps.\<close>

lemma page_items_narrow:
  "page_items (table_content 4 15 xs page) = take 12 (drop (page * 15) xs)"
  by (simp add: page_items_padded)

lemma narrow_page_lacks:
  assumes "page < length xs div 15" "k \<in> {12, 13, 14}"
  shows "page * 15 + k < length xs"
    and "distinct xs \<Longrightarrow> xs ! (page * 15 + k) \<notin> set (all_pages 4 15 xs)"
proof -
  have "Suc page * 15 \<le> length xs div 15 * 15" using assms(1) by (intro mult_le_mono1) simp
  also have "\<dots> \<le> length xs" by (rule div_times_less_eq_dividend)
  finally show b: "page * 15 + k < length xs" using assms(2) by auto
  assume d: "distinct xs"
  show "xs ! (page * 15 + k) \<notin> set (all_pages 4 15 xs)"
  proof
    assume "xs ! (page * 15 + k) \<in> set (all_pages 4 15 xs)"
    then obtain q where "xs ! (page * 15 + k) \<in> set (take 12 (drop (q * 15) xs))"
      unfolding all_pages_def page_items_narrow by auto
    then obtain j where j: "j < 12" "q * 15 + j < length xs" "xs ! (page * 15 + k) = xs ! (q * 15 + j)"
      by (auto simp: in_set_conv_nth)
    then have "page * 15 + k = q * 15 + j" using d b by (simp add: nth_eq_iff_index_eq)
    then have "(page * 15 + k) mod 15 = (q * 15 + j) mod 15" by simp
    then show False using assms(2) j(1) by auto
  qed
qed

text \<open>
  The alp table of a vote card.  On a wide screen the pages together show every alp exactly as
  often as the card has it, in the shuffled order, and so do the pages of the delegate view on every
  screen; on a screen of 1200 pixels or less a page keeps only twelve of its fifteen alps, so that
  the last alp of every full page, one of the card's, is shown on no page at all.
\<close>

theorem vote_tables_show_alps:
  fixes alpIds :: "string list" and propId :: int and sine :: "int \<Rightarrow> rat"
  defines "xs \<equiv> pseudoRandomPredictableShuffle sine alpIds propId"
  shows "mset xs = mset alpIds
       \<and> (innerWidth > 1200 \<longrightarrow>
           concat (map (\<lambda>page. page_items (alp_table sine innerWidth alpIds propId page))
             [0..<numPages NOUNS_PER_VOTE_CARD_DESKTOP (length alpIds)]) = xs)
       \<and> mset (concat (map (\<lambda>page. page_items (delegate_table sine rows propId page))
             [0..<numPages DELEGATES_PER_VOTE_CARD_DESKTOP (length rows)])) = mset rows
       \<and> (innerWidth \<le> 1200 \<and> distinct alpIds \<and> full < length alpIds div 15 \<longrightarrow>
           xs ! (full * 15 + 14) \<in> set alpIds
           \<and> xs ! (full * 15 + 14) \<notin> (\<Union>page<numPages NOUNS_PER_VOTE_CARD_DESKTOP (length alpIds).
               set (page_items (alp_table sine innerWidth alpIds propId page))))"
proof (intro conjI impI)
  show m: "mset xs = mset alpIds" by (simp add: xs_def pseudoRandomPredictableShuffle_def mset_shuffle_loop)
  then have len: "length alpIds = length xs" by (metis size_mset)
  show "concat (map (\<lambda>page. page_items (alp_table sine innerWidth alpIds propId page))
             [0..<numPages NOUNS_PER_VOTE_CARD_DESKTOP (length alpIds)]) = xs" if "innerWidth > 1200"
    using that all_pages_full [of 15 5 xs]
    by (simp add: alp_table_def NOUNS_PER_VOTE_CARD_DESKTOP_def all_pages_def len xs_def [symmetric])
  let ?rs = "pseudoRandomPredictableShuffle sine rows propId"
  have r: "mset ?rs = mset rows" by (simp add: pseudoRandomPredictableShuffle_def mset_shuffle_loop)
  then have "length rows = length ?rs" by (metis size_mset)
  then show "mset (concat (map (\<lambda>page. page_items (delegate_table sine rows propId page))
             [0..<numPages DELEGATES_PER_VOTE_CARD_DESKTOP (length rows)])) = mset rows"
    using all_pages_full [of 12 4 ?rs] r
    by (simp add: delegate_table_def DELEGATES_PER_VOTE_CARD_DESKTOP_def all_pages_def)
  assume n: "innerWidth \<le> 1200 \<and> distinct alpIds \<and> full < length alpIds div 15"
  then have d: "distinct xs" "full < length xs div 15" using m len by (metis mset_eq_imp_distinct_iff, simp)
  have "xs ! (full * 15 + 14) \<in> set xs" using narrow_page_lacks(1) [OF d(2), of 14] by simp
  then show "xs ! (full * 15 + 14) \<in> set alpIds" using m by (metis set_mset_mset)
  show "xs ! (full * 15 + 14) \<notin> (\<Union>page<numPages NOUNS_PER_VOTE_CARD_DESKTOP (length alpIds).
               set (page_items (alp_table sine innerWidth alpIds propId page)))"
    using narrow_page_lacks(2) [OF d(2) _ d(1), of 14] n
    by (auto simp: alp_table_def NOUNS_PER_VOTE_CARD_DESKTOP_def all_pages_def len xs_def [symmetric] lessThan_atLeast0)
qed

lemma vote_tables_show_alps_witness:
  "concat (map (\<lambda>page. page_items (alp_table (\<lambda>_. 0) 1300 [''1'', ''2''] 5 page)) [0..<numPages NOUNS_PER_VOTE_CARD_DESKTOP 2]) =
   pseudoRandomPredictableShuffle (\<lambda>_. 0) [''1'', ''2''] 5"
  using vote_tables_show_alps [of "\<lambda>_. 0" "[''1'', ''2'']" 5 1300 "[]" 0]
  by (simp add: numeral_2_eq_2)

section \<open>The pager\<close>

lemma pager_step_range:
  assumes "0 < per" "page < numPages per len"
  shows "pager_step per len page c < numPages per len"
proof (cases c)
  case RightArrow
  have "page + 1 \<le> len div per" if "\<not> isRightArrowDisabled per len page"
    using that less_eq_div_iff_mult_less_eq [OF assms(1), of "page + 1" len] by (simp add: isRightArrowDisabled_def)
  then show ?thesis using assms(2) RightArrow by (auto simp: numPages_def)
qed (use assms in \<open>auto simp: numPages_def\<close>)

lemma pager_reaches: "0 < per \<Longrightarrow> page < numPages per len \<Longrightarrow> foldl (pager_step per len) 0 (replicate page RightArrow) = page"
proof (induction page)
  case (Suc page)
  have "Suc page * per \<le> len div per * per" using Suc.prems by (intro mult_le_mono1) (simp add: numPages_def)
  also have "\<dots> \<le> len" by (rule div_times_less_eq_dividend)
  finally have "Suc page * per \<le> len" .
  moreover have "numPages per len \<noteq> 1" using Suc.prems by (simp add: numPages_def)
  moreover have "foldl (pager_step per len) 0 (replicate page RightArrow) = page" using Suc by simp
  moreover have "replicate (Suc page) RightArrow = replicate page RightArrow @ [RightArrow]"
    by (simp add: replicate_append_same)
  ultimately show ?case by (simp add: isRightArrowDisabled_def)
qed simp

text \<open>
  The pager.  Whatever arrows are clicked, the page of a table stays below the number of pages
  shown as dots, and every one of those pages can be reached by its arrow.
\<close>

theorem pager_in_range:
  fixes len :: nat and clicks :: "pager_click list" and page :: nat
  assumes "per = NOUNS_PER_VOTE_CARD_DESKTOP \<or> per = DELEGATES_PER_VOTE_CARD_DESKTOP"
  shows "foldl (pager_step per len) 0 clicks < numPages per len
       \<and> (page < numPages per len \<longrightarrow> foldl (pager_step per len) 0 (replicate page RightArrow) = page)"
proof -
  have per: "0 < per" using assms by (auto simp: NOUNS_PER_VOTE_CARD_DESKTOP_def DELEGATES_PER_VOTE_CARD_DESKTOP_def)
  have "foldl (pager_step per len) p clicks < numPages per len" if "p < numPages per len" for p
    using that by (induction clicks arbitrary: p) (simp_all add: pager_step_range [OF per])
  then show ?thesis using pager_reaches [OF per] by (simp add: numPages_def)
qed

lemma pager_in_range_witness:
  "foldl (pager_step NOUNS_PER_VOTE_CARD_DESKTOP 31) 0 [RightArrow, RightArrow, RightArrow, LeftArrow] < 3"
  using pager_in_range [of NOUNS_PER_VOTE_CARD_DESKTOP 31 "[RightArrow, RightArrow, RightArrow, LeftArrow]" 0]
  by (simp add: numPages_def NOUNS_PER_VOTE_CARD_DESKTOP_def)

end
