(* ===== verification/Web_Quorum.thy ===== *)
theory Web_Quorum
  imports Web_Vote Subgraph_Dao
begin

text \<open>
  The explanation of the dynamic quorum, \<open>components/DynamicQuorumInfoModal\<close>: the numbers shown, the
  point plotted, and their relation to the contract's \<open>dynamicQuorumVotes\<close>.  JavaScript's numbers
  are exact fractions, with the infinities and \<open>NaN\<close> that division by zero gives.
\<close>

section \<open>Numbers\<close>

datatype js_number = Num rat | PosInf | NegInf | NaN

fun js_neg :: "js_number \<Rightarrow> js_number" where
  "js_neg (Num a) = Num (- a)"
| "js_neg PosInf = NegInf"
| "js_neg NegInf = PosInf"
| "js_neg NaN = NaN"

definition js_infinity :: "rat \<Rightarrow> js_number" where
  "js_infinity a = (if a > 0 then PosInf else if a < 0 then NegInf else NaN)"

text \<open>\<open>0\<close> is the positive zero: no operation of the modal gives the negative one.\<close>

fun js_div :: "js_number \<Rightarrow> js_number \<Rightarrow> js_number" where
  "js_div (Num a) (Num b) = (if b = 0 then js_infinity a else Num (a / b))"
| "js_div (Num a) PosInf = Num 0"
| "js_div (Num a) NegInf = Num 0"
| "js_div PosInf (Num b) = (if b < 0 then NegInf else PosInf)"
| "js_div NegInf (Num b) = (if b < 0 then PosInf else NegInf)"
| "js_div _ _ = NaN"

fun js_scale :: "rat \<Rightarrow> js_number \<Rightarrow> js_number" where
  "js_scale c (Num a) = Num (c * a)"
| "js_scale c PosInf = js_infinity c"
| "js_scale c NegInf = js_neg (js_infinity c)"
| "js_scale c NaN = NaN"

fun js_shift :: "rat \<Rightarrow> js_number \<Rightarrow> js_number" where
  "js_shift c (Num a) = Num (c + a)"
| "js_shift c x = x"

fun js_floor :: "js_number \<Rightarrow> js_number" where
  "js_floor (Num a) = Num (of_int \<lfloor>a\<rfloor>)"
| "js_floor x = x"

fun js_less :: "js_number \<Rightarrow> js_number \<Rightarrow> bool" where
  "js_less (Num a) (Num b) \<longleftrightarrow> a < b"
| "js_less (Num a) PosInf \<longleftrightarrow> True"
| "js_less NegInf (Num b) \<longleftrightarrow> True"
| "js_less NegInf PosInf \<longleftrightarrow> True"
| "js_less _ _ \<longleftrightarrow> False"

definition js_le :: "js_number \<Rightarrow> js_number \<Rightarrow> bool" where
  "js_le a b \<longleftrightarrow> js_less a b \<or> (a = b \<and> a \<noteq> NaN)"

definition js_max :: "js_number \<Rightarrow> js_number \<Rightarrow> js_number" where
  "js_max a b = (if a = NaN \<or> b = NaN then NaN else if js_less a b then b else a)"

definition js_min :: "js_number \<Rightarrow> js_number \<Rightarrow> js_number" where
  "js_min a b = (if a = NaN \<or> b = NaN then NaN else if js_less b a then b else a)"

section \<open>The overlay\<close>

record quorum_props =
  qp_againstVotesBps :: js_number
  qp_againstVotesAbs :: nat
  qp_minQuorumBps :: nat
  qp_maxQuorumBps :: nat
  qp_quorumCoefficent :: rat
  qp_totalAlpSupply :: nat

definition linearToConstantCrossoverBPS :: "quorum_props \<Rightarrow> js_number" where
  "linearToConstantCrossoverBPS q =
     js_div (Num (of_nat (qp_maxQuorumBps q) - of_nat (qp_minQuorumBps q))) (Num (qp_quorumCoefficent q))"

definition dqmFunction :: "quorum_props \<Rightarrow> js_number \<Rightarrow> js_number" where
  "dqmFunction q bps =
     js_min (js_shift (of_nat (qp_minQuorumBps q)) (js_scale (qp_quorumCoefficent q) bps)) (Num (of_nat (qp_maxQuorumBps q)))"

definition plotSpaceFunction :: "js_number \<Rightarrow> js_number" where
  "plotSpaceFunction x = js_shift 288 (js_scale (- (54468085106 / 100000000000)) x)"

definition crossover_alps :: "quorum_props \<Rightarrow> js_number" where
  "crossover_alps q = js_floor (js_scale (of_nat (qp_totalAlpSupply q) / 10000) (linearToConstantCrossoverBPS q))"

definition calcPlotFrac :: "quorum_props \<Rightarrow> js_number" where
  "calcPlotFrac q =
     (if js_le (crossover_alps q) (Num 0) then Num 0
      else js_scale 470 (js_div (Num (of_nat (qp_againstVotesAbs q))) (crossover_alps q)))"

definition plot_x :: "quorum_props \<Rightarrow> js_number" where
  "plot_x q =
     (if js_less (qp_againstVotesBps q) (linearToConstantCrossoverBPS q) then calcPlotFrac q
      else js_shift 470 (js_scale (1 / 2 * 950 * (1 / 10000)) (qp_againstVotesBps q)))"

definition plot_y :: "quorum_props \<Rightarrow> js_number" where
  "plot_y q = js_max (plotSpaceFunction (plot_x q)) (Num 32)"

text \<open>The three quorums, in alps.\<close>

definition quorum_of_bps :: "quorum_props \<Rightarrow> js_number \<Rightarrow> js_number" where
  "quorum_of_bps q bps = js_floor (js_scale (of_nat (qp_totalAlpSupply q) / 10000) bps)"

definition min_quorum_shown :: "quorum_props \<Rightarrow> js_number" where
  "min_quorum_shown q = quorum_of_bps q (Num (of_nat (qp_minQuorumBps q)))"

definition max_quorum_shown :: "quorum_props \<Rightarrow> js_number" where
  "max_quorum_shown q = quorum_of_bps q (Num (of_nat (qp_maxQuorumBps q)))"

definition current_quorum_shown :: "quorum_props \<Rightarrow> js_number" where
  "current_quorum_shown q =
     quorum_of_bps q (js_min (Num (of_nat (qp_maxQuorumBps q))) (dqmFunction q (qp_againstVotesBps q)))"

text \<open>Where the label of the current quorum stands, and when the percentages are shown.\<close>

definition current_label_x :: "quorum_props \<Rightarrow> js_number" where
  "current_label_x q = js_shift (if js_less (Num 4000) (qp_againstVotesBps q) then - 390 else 10) (plot_x q)"

definition current_label_y :: "quorum_props \<Rightarrow> js_number" where
  "current_label_y q =
     js_shift (if js_less (js_scale (9 / 10) (linearToConstantCrossoverBPS q)) (qp_againstVotesBps q) then 20 else - 10)
       (plot_y q)"

fun js_abs_gt_100 :: "js_number \<Rightarrow> bool" where
  "js_abs_gt_100 (Num a) \<longleftrightarrow> \<bar>a\<bar> > 100"
| "js_abs_gt_100 NaN \<longleftrightarrow> False"
| "js_abs_gt_100 _ \<longleftrightarrow> True"

definition shows_crossover_label :: "quorum_props \<Rightarrow> bool" where
  "shows_crossover_label q \<longleftrightarrow> js_abs_gt_100 (js_shift (- 470) (plot_x q))"

definition min_label_x :: "quorum_props \<Rightarrow> rat" where
  "min_label_x q = (if js_abs_gt_100 (js_shift (- 10 - 288) (plot_y q)) then 20 else 550)"

definition shows_quorum_percentage :: "quorum_props \<Rightarrow> bool" where
  "shows_quorum_percentage q \<longleftrightarrow>
     js_le (Num 400) (qp_againstVotesBps q) \<and> qp_againstVotesAbs q \<ge> qp_maxQuorumBps q"

definition shows_against_percentage :: "quorum_props \<Rightarrow> (js_number \<times> js_number) option" where
  "shows_against_percentage q =
     (if qp_againstVotesAbs q > 0
      then Some (js_shift (if js_less (plot_x q) (Num 712) then 10 else - 110) (plot_x q),
                 js_floor (js_scale (1 / 100) (qp_againstVotesBps q)))
      else None)"

definition shows_origin_label :: "quorum_props \<Rightarrow> bool" where
  "shows_origin_label q \<longleftrightarrow> js_le (Num (1 / 10 * of_nat (qp_maxQuorumBps q))) (qp_againstVotesBps q)"

section \<open>The modal\<close>

datatype quorum_modal = QuorumFailed | QuorumLoading | QuorumOverlay quorum_props

text \<open>
  \<open>supplies\<close>: the total supplies of the proposals that the query found.  The outer \<open>None\<close> is an
  exception: the answer has no first proposal.
\<close>

definition DynamicQuorumInfoModal ::
  "bool \<Rightarrow> bool \<Rightarrow> nat list \<Rightarrow> dq_params_result option \<Rightarrow> nat \<Rightarrow> quorum_modal option" where
  "DynamicQuorumInfoModal error loading supplies dynamicQuorumProps againstVotesAbsolute =
     (if error then Some QuorumFailed
      else if loading then Some QuorumLoading
      else case supplies of
             [] \<Rightarrow> None
           | supply # _ \<Rightarrow>
               Some (QuorumOverlay
                 \<lparr>qp_againstVotesBps =
                    js_floor (js_scale 10000 (js_div (Num (of_nat againstVotesAbsolute)) (Num (of_nat supply)))),
                  qp_againstVotesAbs = againstVotesAbsolute,
                  qp_minQuorumBps = (case dynamicQuorumProps of None \<Rightarrow> 0 | Some d \<Rightarrow> dp_minQuorumVotesBPS d),
                  qp_maxQuorumBps = (case dynamicQuorumProps of None \<Rightarrow> 0 | Some d \<Rightarrow> dp_maxQuorumVotesBPS d),
                  qp_quorumCoefficent =
                    (case dynamicQuorumProps of
                       None \<Rightarrow> 0
                     | Some d \<Rightarrow> if dp_quorumCoefficient d \<noteq> 0 then of_nat (dp_quorumCoefficient d) / 1000000 else 0),
                  qp_totalAlpSupply = supply\<rparr>))"

section \<open>The current quorum\<close>

lemma floor_of_nat_div: "\<lfloor>of_nat a / of_nat b :: rat\<rfloor> = int (a div b)"
  using floor_divide_of_nat_eq [of a b] by simp

lemma overlay_against_bps:
  assumes "0 < supply"
  shows "js_floor (js_scale 10000 (js_div (Num (of_nat against)) (Num (of_nat supply)))) =
    Num (of_nat (10000 * against div supply))"
proof -
  have "10000 * (of_nat against / of_nat supply) = (of_nat (10000 * against) / of_nat supply :: rat)"
    by simp
  then have "\<lfloor>10000 * (of_nat against / of_nat supply) :: rat\<rfloor> = int (10000 * against div supply)"
    by (simp only: floor_of_nat_div)
  then show ?thesis using assms by simp
qed

text \<open>A quorum with the fraction of the coefficient kept, and with it cut off as the contract does.\<close>

lemma quorum_fraction:
  fixes k lo hi :: nat
  defines "exact \<equiv> min (of_nat hi) (of_nat lo + of_nat k / 1000000) :: rat"
    and "cutoff \<equiv> min hi (lo + k div 1000000)"
  shows "of_nat cutoff \<le> exact" "exact < of_nat cutoff + 1" "1000000 dvd k \<Longrightarrow> exact = of_nat cutoff"
proof -
  have f: "of_nat (k div 1000000) \<le> (of_nat k / 1000000 :: rat)" "(of_nat k / 1000000 :: rat) < of_nat (k div 1000000) + 1"
    using floor_of_nat_div [of k 1000000] by (simp_all add: floor_eq_iff)
  have c: "(of_nat cutoff :: rat) = min (of_nat hi) (of_nat lo + of_nat (k div 1000000))"
    by (simp add: cutoff_def of_nat_min)
  show "of_nat cutoff \<le> exact" "exact < of_nat cutoff + 1" using f by (auto simp: c exact_def min_def)
  show "exact = of_nat cutoff" if "1000000 dvd k"
    using that by (auto simp: c exact_def real_of_nat_div elim!: dvdE)
qed

text \<open>The overlay that the modal shows for parameters, a supply and against votes.\<close>

definition overlay_of :: "dq_params_result \<Rightarrow> nat \<Rightarrow> nat \<Rightarrow> quorum_props" where
  "overlay_of d supply against =
     \<lparr>qp_againstVotesBps = Num (of_nat (10000 * against div supply)), qp_againstVotesAbs = against,
      qp_minQuorumBps = dp_minQuorumVotesBPS d, qp_maxQuorumBps = dp_maxQuorumVotesBPS d,
      qp_quorumCoefficent = of_nat (dp_quorumCoefficient d) / 1000000, qp_totalAlpSupply = supply\<rparr>"

lemma modal_overlay:
  "0 < supply \<Longrightarrow>
   DynamicQuorumInfoModal False False (supply # rest) (Some d) against = Some (QuorumOverlay (overlay_of d supply against))"
  by (simp add: DynamicQuorumInfoModal_def overlay_of_def overlay_against_bps del: js_div.simps js_scale.simps js_floor.simps)

lemma current_quorum_overlay:
  "current_quorum_shown (overlay_of d supply against) =
     Num (of_int \<lfloor>of_nat supply / 10000 *
        (min (of_nat (dp_maxQuorumVotesBPS d))
          (of_nat (dp_minQuorumVotesBPS d) + of_nat (dp_quorumCoefficient d * (10000 * against div supply)) / 1000000) :: rat)\<rfloor>)"
proof -
  have "dqmFunction (overlay_of d supply against) (Num (of_nat (10000 * against div supply))) =
      Num (min (of_nat (dp_maxQuorumVotesBPS d))
          (of_nat (dp_minQuorumVotesBPS d) + of_nat (dp_quorumCoefficient d * (10000 * against div supply)) / 1000000))"
    by (auto simp: dqmFunction_def overlay_of_def js_min_def min_def)
  then show ?thesis
    by (simp add: current_quorum_shown_def quorum_of_bps_def js_min_def overlay_of_def)
qed

lemma floor_scaled_le_Suc:
  fixes a e c :: rat
  assumes "0 \<le> a" "a \<le> 1" "c \<le> e" "e < c + 1"
  shows "\<lfloor>a * e\<rfloor> \<le> \<lfloor>a * c\<rfloor> + 1"
proof -
  have "a * (e - c) \<le> 1 * (e - c)" using assms by (intro mult_right_mono) simp_all
  then have "a * e < a * c + 1" using assms(4) by (simp add: right_diff_distrib)
  then show ?thesis by linarith
qed



section \<open>The plotted point\<close>

lemma against_below_crossover:
  fixes r :: rat and minted against :: nat
  assumes "0 < minted" "minted \<le> 10000" "of_nat (10000 * against div minted) < r"
  shows "int against \<le> \<lfloor>of_nat minted / 10000 * r\<rfloor> + 1"
proof -
  let ?b = "10000 * against div minted"
  have "10000 * against < (?b + 1) * minted"
    using dividend_less_div_times [OF assms(1), of "10000 * against"] by simp
  then have "(of_nat (10000 * against) :: rat) < of_nat ((?b + 1) * minted)" by (simp only: of_nat_less_iff)
  then have "(10000 :: rat) * of_nat against < (of_nat ?b + 1) * of_nat minted" by (simp add: algebra_simps)
  also have "\<dots> \<le> (r + 1) * of_nat minted" using assms(3) by (intro mult_right_mono) simp_all
  also have "\<dots> \<le> r * of_nat minted + 10000" using assms(2) by (simp add: distrib_right)
  finally have "of_nat against - 1 < of_nat minted / 10000 * r" by (simp add: field_simps)
  then have "int against - 1 \<le> \<lfloor>of_nat minted / 10000 * r\<rfloor>" by (simp add: le_floor_iff)
  then show ?thesis by simp
qed

lemma plot_x_bounds:
  assumes "0 < minted" "minted \<le> 10000" "against \<le> minted"
    and "dp_minQuorumVotesBPS d \<le> dp_maxQuorumVotesBPS d" "0 < dp_quorumCoefficient d"
  shows "\<exists>x. plot_x (overlay_of d minted against) = Num x \<and> 0 \<le> x \<and> x \<le> 945"
proof -
  let ?q = "overlay_of d minted against" and ?b = "10000 * against div minted"
  define r :: rat where "r = (of_nat (dp_maxQuorumVotesBPS d) - of_nat (dp_minQuorumVotesBPS d)) / (of_nat (dp_quorumCoefficient d) / 1000000)"
  define f where "f = \<lfloor>of_nat minted / 10000 * r\<rfloor>"
  have cross: "linearToConstantCrossoverBPS ?q = Num r"
    using assms(5) by (simp add: linearToConstantCrossoverBPS_def overlay_of_def r_def)
  then have alps: "crossover_alps ?q = Num (of_int f)"
    by (simp add: crossover_alps_def f_def) (simp add: overlay_of_def)
  have bps: "qp_againstVotesBps ?q = Num (of_nat ?b)" "qp_againstVotesAbs ?q = against" by (simp_all add: overlay_of_def)
  show ?thesis
  proof (cases "of_nat ?b < r")
    case True
    then have x: "plot_x ?q = calcPlotFrac ?q" by (simp add: plot_x_def cross bps)
    show ?thesis
    proof (cases "f \<le> 0")
      case True
      then show ?thesis by (simp add: x calcPlotFrac_def alps js_le_def)
    next
      case False
      then have "int against \<le> 2 * f"
        using against_below_crossover [OF assms(1,2) \<open>of_nat ?b < r\<close>, folded f_def] by linarith
      then have "(of_int (int against) :: rat) \<le> of_int (2 * f)" by (simp only: of_int_le_iff)
      then have "(of_nat against :: rat) \<le> 2 * of_int f" by simp
      then have "(of_nat against / of_int f :: rat) \<le> 2" using False by (simp add: divide_le_eq)
      moreover have "calcPlotFrac ?q = Num (470 * (of_nat against / of_int f))"
        using False by (simp add: calcPlotFrac_def alps bps js_le_def)
      moreover have "(0 :: rat) \<le> of_nat against / of_int f" using False by simp
      ultimately show ?thesis unfolding x by (intro exI [of _ "470 * (of_nat against / of_int f)"]) linarith
    qed
  next
    case False
    have "10000 * against div minted \<le> 10000 * minted div minted" using assms(3) by (intro div_le_mono) simp
    then have "?b \<le> 10000" using assms(1) by simp
    then have "(of_nat ?b :: rat) \<le> of_nat 10000" by (simp only: of_nat_le_iff)
    then show ?thesis using False by (simp add: plot_x_def cross bps)
  qed
qed

text \<open>
  The point of the plot.  With at most ten thousand alps, no more against votes than alps, and
  sensible parameters, the point that marks the current quorum lies inside the plot, which is 950
  wide, and between the lines of the maximal and the minimal quorum; without against votes, while
  the crossover is a positive share, it sits at the left end of the lower line.
\<close>

theorem quorum_point_inside_plot:
  assumes "0 < minted" "minted \<le> 10000" "against \<le> minted"
    and "dp_minQuorumVotesBPS d < dp_maxQuorumVotesBPS d" "0 < dp_quorumCoefficient d"
  shows "\<exists>x y. plot_x (overlay_of d minted against) = Num x \<and> plot_y (overlay_of d minted against) = Num y
       \<and> 0 \<le> x \<and> x \<le> 945 \<and> 32 \<le> y \<and> y \<le> 288 \<and> (against = 0 \<longrightarrow> x = 0 \<and> y = 288)"
proof -
  obtain x where x: "plot_x (overlay_of d minted against) = Num x" "0 \<le> x" "x \<le> 945"
    using plot_x_bounds [of minted against d] assms by auto
  have zero: "x = 0" if "against = 0"
  proof -
    have "linearToConstantCrossoverBPS (overlay_of d minted 0) =
        Num ((of_nat (dp_maxQuorumVotesBPS d) - of_nat (dp_minQuorumVotesBPS d)) / (of_nat (dp_quorumCoefficient d) / 1000000))"
      using assms(5) by (simp add: linearToConstantCrossoverBPS_def overlay_of_def)
    then have "plot_x (overlay_of d minted 0) = Num 0"
      using assms(4,5) by (simp add: plot_x_def calcPlotFrac_def crossover_alps_def overlay_of_def js_le_def)
    then show ?thesis using x(1) that by simp
  qed
  have "plot_y (overlay_of d minted against) = Num (max (288 - 54468085106 / 100000000000 * x) 32)"
    by (auto simp: plot_y_def plotSpaceFunction_def x js_max_def max_def)
  then show ?thesis using x zero
    by (intro exI [of _ x] exI [of _ "max (288 - 54468085106 / 100000000000 * x) 32"]) (auto simp: max_def)
qed

lemma quorum_point_inside_plot_witness:
  "\<exists>x y. plot_x (overlay_of \<lparr>dp_minQuorumVotesBPS = 1000, dp_maxQuorumVotesBPS = 4000, dp_quorumCoefficient = 1000000\<rparr> 200 0) = Num x
     \<and> plot_y (overlay_of \<lparr>dp_minQuorumVotesBPS = 1000, dp_maxQuorumVotesBPS = 4000, dp_quorumCoefficient = 1000000\<rparr> 200 0) = Num y
     \<and> x = 0 \<and> y = 288"
  using quorum_point_inside_plot [of 200 0 "\<lparr>dp_minQuorumVotesBPS = 1000, dp_maxQuorumVotesBPS = 4000, dp_quorumCoefficient = 1000000\<rparr>"]
  by auto

end
