(* ===== verification/Web_Delegate.thy ===== *)
theory Web_Delegate
  imports Web_Token
begin

text \<open>
  Delegating votes: \<open>components/ChangeDelegatePannel\<close> as a state machine over what the user types, the
  answers of the name service and the status of the transaction; \<open>DelegationCandidateInfo\<close>,
  \<open>CurrentDelegatePannel\<close>, \<open>DelegationModal\<close>, \<open>pages/DelegatePage\<close> and the address helpers of
  \<open>utils/\<close>.  \<open>isAddress\<close>, \<open>resolveName\<close> and \<open>decodeURIComponent\<close> are arguments.
\<close>

section \<open>Helpers\<close>

text \<open>\<open>stateResults[states.indexOf(state)]\<close>; \<open>None\<close> is \<open>undefined\<close>.\<close>

fun usePickByState :: "'s \<Rightarrow> 's list \<Rightarrow> 'r list \<Rightarrow> 'r option" where
  "usePickByState state (s # ss) rs =
     (if s = state then (case rs of [] \<Rightarrow> None | r # _ \<Rightarrow> Some r) else usePickByState state ss (drop 1 rs))"
| "usePickByState state [] rs = None"

definition ends_with :: "string \<Rightarrow> string \<Rightarrow> bool" where
  "ends_with suf s \<longleftrightarrow> length suf \<le> length s \<and> drop (length s - length suf) s = suf"

fun remove_first :: "char \<Rightarrow> string \<Rightarrow> string" where
  "remove_first c [] = []"
| "remove_first c (x # xs) = (if x = c then xs else x # remove_first c xs)"

text \<open>\<open>noggles\<close>: the percent-encoded form of the second name suffix.\<close>

definition getAddressFromQueryParams ::
  "(string \<Rightarrow> bool) \<Rightarrow> (string \<Rightarrow> string) \<Rightarrow> string \<Rightarrow> string \<Rightarrow> string \<Rightarrow> string option" where
  "getAddressFromQueryParams isAddress decodeURIComponent noggles paramName location =
     (let parts = map (\<lambda>s. remove_first CHR ''&'' (remove_first CHR ''?'' s)) (js_split CHR ''='' location);
          before = takeWhile (\<lambda>s. s \<noteq> paramName) parts;
          paramIndex = length before
      in if paramIndex = length parts \<or> paramIndex = length parts - 1 then None
         else let maybeAddress = parts ! (paramIndex + 1)
              in if ends_with ''.eth'' maybeAddress \<or> ends_with noggles maybeAddress
                 then Some (decodeURIComponent maybeAddress)
                 else if isAddress maybeAddress then Some maybeAddress else None)"

definition veryShortENS :: "string \<Rightarrow> string" where
  "veryShortENS ens = js_substr ens 0 1 @ ''...'' @ js_substr ens (int (length ens) - 3) 3"

definition veryShortAddress :: "string \<Rightarrow> string" where
  "veryShortAddress address = js_substr address 0 3 @ ''...'' @ js_substr address (int (length address) - 1) 1"

definition shortENS :: "nat \<Rightarrow> string \<Rightarrow> string" where
  "shortENS innerWidth ens =
     (if length ens < 15 \<or> innerWidth > 480 then ens
      else js_substr ens 0 4 @ ''...'' @ js_substr ens (int (length ens) - 8) 8)"

definition useShortAddress :: "string \<Rightarrow> string" where
  "useShortAddress address = (if address = [] then [] else js_substr address 0 4 @ ''...'' @ js_substr address 38 4)"

text \<open>The configured addresses: proxy, auction house and executor.\<close>

definition resolveAlpContractAddress :: "string \<Rightarrow> string \<Rightarrow> string \<Rightarrow> string \<Rightarrow> string option" where
  "resolveAlpContractAddress daoProxy auctionHouse executor address =
     (let low = map to_lower
      in if low address = low daoProxy then Some ''Alps DAO Proxy''
         else if low address = low auctionHouse then Some ''Alps Auction House Proxy''
         else if low address = low executor then Some ''Alps DAO Treasury''
         else None)"

text \<open>Profane words and the language's regular expressions are arguments.\<close>

definition containsBlockedText ::
  "(string \<rightharpoonup> (string \<Rightarrow> bool) list) \<Rightarrow> (string \<Rightarrow> bool) \<Rightarrow> string \<Rightarrow> string \<Rightarrow> bool" where
  "containsBlockedText moderationRegexes isProfane txt language =
     (case moderationRegexes language of
        None \<Rightarrow> False
      | Some rs \<Rightarrow> if isProfane txt then True else length (filter id (map (\<lambda>r. r txt) rs)) > 0)"

text \<open>What \<open>ShortAddress\<close> shows: the reverse name, or the contract's, unless it is blocked.\<close>

definition shown_address :: "(string \<Rightarrow> bool) \<Rightarrow> string option \<Rightarrow> string option \<Rightarrow> string \<Rightarrow> string" where
  "shown_address blocked reverse contract_name address =
     (let ens = (case reverse of None \<Rightarrow> contract_name | Some n \<Rightarrow> if n = [] then contract_name else Some n)
      in case ens of
           None \<Rightarrow> useShortAddress address
         | Some n \<Rightarrow> if n \<noteq> [] \<and> \<not> blocked n then n else useShortAddress address)"

section \<open>The panel\<close>

datatype change_delegate_state = ENTER_DELEGATE_ADDRESS | CHANGING | CHANGE_SUCCESS | CHANGE_FAILURE

definition getTitleFromState :: "change_delegate_state \<Rightarrow> string" where
  "getTitleFromState s =
     (case s of CHANGING \<Rightarrow> ''Updating...'' | CHANGE_SUCCESS \<Rightarrow> ''Delegate Updated!''
      | CHANGE_FAILURE \<Rightarrow> ''Delegate Update Failed'' | _ \<Rightarrow> ''Update Delegate'')"

text \<open>The state, the names whose resolution has not been answered, and the delegations sent.\<close>

record delegate_panel =
  dp_state :: change_delegate_state
  dp_address :: string
  dp_text :: string
  dp_resolving :: "string list"
  dp_hasResolved :: bool
  dp_calls :: "string list"

text \<open>On mounting the effect resolves the initial address.\<close>

definition new_panel :: "string option \<Rightarrow> delegate_panel" where
  "new_panel delegateTo =
     (let a = (case delegateTo of None \<Rightarrow> [] | Some d \<Rightarrow> d)
      in \<lparr>dp_state = ENTER_DELEGATE_ADDRESS, dp_address = a, dp_text = a, dp_resolving = [a],
          dp_hasResolved = False, dp_calls = []\<rparr>)"

text \<open>\<open>setDelegateAddress\<close>, with the effect that resolves a changed address.\<close>

definition setDelegateAddress :: "string \<Rightarrow> delegate_panel \<Rightarrow> delegate_panel" where
  "setDelegateAddress a p =
     (if a = dp_address p then p else p\<lparr>dp_address := a, dp_resolving := dp_resolving p @ [a]\<rparr>)"

text \<open>The end of \<open>checkIsValidENS\<close>: the outer \<open>None\<close> is a rejection, the inner one a name without address.\<close>

definition name_resolved :: "string option option \<Rightarrow> delegate_panel \<Rightarrow> delegate_panel" where
  "name_resolved answer p =
     (case answer of
        None \<Rightarrow> p
      | Some r \<Rightarrow>
          (case r of None \<Rightarrow> p | Some a \<Rightarrow> if a = [] then p else setDelegateAddress a p)\<lparr>dp_hasResolved := True\<rparr>)"

definition delegate_status :: "transaction_state \<Rightarrow> delegate_panel \<Rightarrow> delegate_panel" where
  "delegate_status s p =
     (if s = Success then p\<lparr>dp_state := CHANGE_SUCCESS\<rparr>
      else if s = TException \<or> s = Fail then p\<lparr>dp_state := CHANGE_FAILURE\<rparr>
      else if s = Mining then p\<lparr>dp_state := CHANGING\<rparr>
      else p)"

datatype panel_button = DelegateButton | EtherscanButton | CloseButton | NoButton

definition primaryButton :: "change_delegate_state \<Rightarrow> panel_button option" where
  "primaryButton s =
     usePickByState s [ENTER_DELEGATE_ADDRESS, CHANGING, CHANGE_SUCCESS, CHANGE_FAILURE]
       [DelegateButton, EtherscanButton, CloseButton, NoButton]"

definition delegate_disabled :: "(string \<Rightarrow> bool) \<Rightarrow> nat \<Rightarrow> delegate_panel \<Rightarrow> bool" where
  "delegate_disabled isAddress availableVotes p \<longleftrightarrow>
     (dp_state p = ENTER_DELEGATE_ADDRESS \<and> \<not> isAddress (dp_address p)) \<or> availableVotes = 0"

text \<open>The button only looks disabled when the address is the current delegate.\<close>

definition delegate_looks_enabled :: "(string \<Rightarrow> bool) \<Rightarrow> nat \<Rightarrow> string option \<Rightarrow> delegate_panel \<Rightarrow> bool" where
  "delegate_looks_enabled isAddress availableVotes currentDelegate p \<longleftrightarrow>
     isAddress (dp_address p) \<and> Some (dp_address p) \<noteq> currentDelegate \<and> availableVotes > 0"

datatype input_class = InputEmpty | InputValid | InputInvalid

definition delegateInputClass :: "(string \<Rightarrow> bool) \<Rightarrow> delegate_panel \<Rightarrow> input_class" where
  "delegateInputClass isAddress p =
     (if dp_address p = [] then InputEmpty else if isAddress (dp_address p) then InputValid else InputInvalid)"

definition input_shown :: "string option \<Rightarrow> delegate_panel \<Rightarrow> bool" where
  "input_shown delegateTo p \<longleftrightarrow> dp_state p \<noteq> CHANGE_FAILURE \<and> delegateTo = None"

definition spinner_shown :: "(string \<Rightarrow> bool) \<Rightarrow> string option \<Rightarrow> delegate_panel \<Rightarrow> bool" where
  "spinner_shown isAddress delegateTo p \<longleftrightarrow> delegateTo \<noteq> None \<and> \<not> isAddress (dp_address p)"

datatype panel_info = InfoHidden | AlreadyDelegated | CandidateInfo string

definition candidate_shown :: "(string \<Rightarrow> bool) \<Rightarrow> string option \<Rightarrow> delegate_panel \<Rightarrow> panel_info" where
  "candidate_shown isAddress currentDelegate p =
     (if \<not> isAddress (dp_address p) \<or> dp_state p = CHANGE_FAILURE then InfoHidden
      else if dp_state p = ENTER_DELEGATE_ADDRESS \<and> Some (dp_address p) = currentDelegate then AlreadyDelegated
      else CandidateInfo (dp_address p))"

record panel_env =
  pe_isAddress :: "string \<Rightarrow> bool"
  pe_resolveName :: "string \<Rightarrow> string option option"
  pe_availableVotes :: nat
  pe_delegateTo :: "string option"
  pe_contract :: bool

datatype panel_event =
    TypeDelegate string
  | NameAnswered nat  \<comment> \<open>the request that is answered, by its position among those open\<close>
  | DelegateStatus transaction_state
  | ClickDelegate
  | ClickChange

definition drop_nth :: "nat \<Rightarrow> 'a list \<Rightarrow> 'a list" where
  "drop_nth k xs = take k xs @ drop (Suc k) xs"

fun panel_step :: "panel_env \<Rightarrow> panel_event \<Rightarrow> delegate_panel \<Rightarrow> delegate_panel" where
  "panel_step E (TypeDelegate t) p =
     (if input_shown (pe_delegateTo E) p then (setDelegateAddress t p)\<lparr>dp_text := t\<rparr> else p)"
| "panel_step E (NameAnswered k) p =
     (if k < length (dp_resolving p)
      then name_resolved (pe_resolveName E (dp_resolving p ! k)) (p\<lparr>dp_resolving := drop_nth k (dp_resolving p)\<rparr>)
      else p)"
| "panel_step E (DelegateStatus s) p = delegate_status s p"
| "panel_step E ClickDelegate p =
     (if primaryButton (dp_state p) = Some DelegateButton \<and> \<not> delegate_disabled (pe_isAddress E) (pe_availableVotes E) p
      then (case useDelegateVotes (pe_contract E) id (dp_address p) of
              None \<Rightarrow> p
            | Some d \<Rightarrow> p\<lparr>dp_calls := dp_calls p @ [d]\<rparr>)
      else p)"
| "panel_step E ClickChange p =
     (if dp_state p = CHANGE_SUCCESS
      then (setDelegateAddress [] p)\<lparr>dp_text := [], dp_state := ENTER_DELEGATE_ADDRESS\<rparr>
      else p)"

section \<open>The candidate and the modal\<close>

text \<open>The effect of \<open>DelegationCandidateInfo\<close> on \<open>willHaveVoteCount\<close>.\<close>

definition will_have_effect :: "change_delegate_state \<Rightarrow> nat \<Rightarrow> nat \<Rightarrow> nat \<Rightarrow> nat" where
  "will_have_effect s countDelegatedAlps votesToAdd willHave =
     (if s = ENTER_DELEGATE_ADDRESS \<and> willHave \<noteq> 0 then 0
      else if willHave > 0 then willHave
      else if s \<noteq> ENTER_DELEGATE_ADDRESS \<and> willHave \<noteq> countDelegatedAlps + votesToAdd
      then countDelegatedAlps + votesToAdd
      else willHave)"

datatype candidate_info = AlreadyHas nat | Has nat | WillHave nat | NowHas nat

definition changeDelegateInfo :: "change_delegate_state \<Rightarrow> nat \<Rightarrow> nat \<Rightarrow> candidate_info option" where
  "changeDelegateInfo s countDelegatedAlps willHave =
     usePickByState s [ENTER_DELEGATE_ADDRESS, CHANGING, CHANGE_SUCCESS]
       [if countDelegatedAlps > 0 then AlreadyHas countDelegatedAlps else Has countDelegatedAlps,
        WillHave willHave, NowHas countDelegatedAlps]"

definition current_delegate_account :: "string option \<Rightarrow> string option \<Rightarrow> string" where
  "current_delegate_account delegate maybeAccount =
     (case delegate of Some d \<Rightarrow> d | None \<Rightarrow> (case maybeAccount of Some a \<Rightarrow> a | None \<Rightarrow> []))"

text \<open>Whether the modal of the page opens on the panel, and with which address.\<close>

definition delegate_page :: "string option \<Rightarrow> bool \<times> string option" where
  "delegate_page delegateTo =
     (let d = (if delegateTo = Some [] then None else delegateTo) in (d \<noteq> None, d))"

section \<open>Names answered one at a time\<close>

definition panel_run :: "panel_env \<Rightarrow> panel_event list \<Rightarrow> delegate_panel \<Rightarrow> delegate_panel" where
  "panel_run E es p = foldl (\<lambda>p e. panel_step E e p) p es"

lemma panel_run_simps [simp]:
  "panel_run E [] p = p" "panel_run E (e # es) p = panel_run E es (panel_step E e p)"
  "panel_run E (xs @ ys) p = panel_run E ys (panel_run E xs p)"
  by (simp_all add: panel_run_def)

text \<open>What the service documents: the address of a name is an address, and an address resolves to itself.\<close>

definition name_service :: "panel_env \<Rightarrow> bool" where
  "name_service E \<longleftrightarrow>
     (\<forall>n a. pe_resolveName E n = Some (Some a) \<longrightarrow> a \<noteq> [] \<and> pe_isAddress E a \<and> pe_resolveName E a = Some (Some a))"

text \<open>The account that a text stands for.\<close>

definition delegate_target :: "panel_env \<Rightarrow> string \<Rightarrow> string" where
  "delegate_target E t = (case pe_resolveName E t of Some (Some a) \<Rightarrow> a | _ \<Rightarrow> t)"

lemma delegate_target_idem: "name_service E \<Longrightarrow> delegate_target E (delegate_target E t) = delegate_target E t"
  by (auto simp: delegate_target_def name_service_def split: option.splits)

definition panel_settled :: "panel_env \<Rightarrow> string \<Rightarrow> delegate_panel \<Rightarrow> bool" where
  "panel_settled E t p \<longleftrightarrow> dp_resolving p = [] \<and> dp_text p = t \<and> dp_address p = delegate_target E t"

text \<open>A request for a text, answered, and the request for its address, answered.\<close>

lemma answers_settle:
  assumes "name_service E" "dp_resolving p = [t]" "dp_address p = t"
  defines "q \<equiv> panel_run E [NameAnswered 0, NameAnswered 0] p"
  shows "dp_resolving q = [] \<and> dp_address q = delegate_target E t \<and> dp_text q = dp_text p
       \<and> dp_state q = dp_state p \<and> dp_calls q = dp_calls p"
  using assms
  by (auto simp: name_resolved_def setDelegateAddress_def drop_nth_def delegate_target_def name_service_def
      split: option.splits)

definition type_settled :: "string \<Rightarrow> panel_event list" where
  "type_settled t = [TypeDelegate t, NameAnswered 0, NameAnswered 0]"

lemma type_settles:
  fixes t :: string
  assumes "name_service E" "panel_settled E t0 p" "input_shown (pe_delegateTo E) p"
  defines "q \<equiv> panel_run E (type_settled t) p"
  shows "panel_settled E t q \<and> dp_state q = dp_state p \<and> dp_calls q = dp_calls p"
proof (cases "t = dp_address p")
  case True
  then show ?thesis using assms delegate_target_idem [OF assms(1), of t0]
    by (auto simp: q_def type_settled_def panel_settled_def setDelegateAddress_def)
next
  case False
  then have "dp_resolving (panel_step E (TypeDelegate t) p) = [t]" "dp_address (panel_step E (TypeDelegate t) p) = t"
    "dp_text (panel_step E (TypeDelegate t) p) = t" "dp_state (panel_step E (TypeDelegate t) p) = dp_state p"
    "dp_calls (panel_step E (TypeDelegate t) p) = dp_calls p"
    using assms(2,3) by (simp_all add: setDelegateAddress_def panel_settled_def)
  then show ?thesis using answers_settle [OF assms(1), of "panel_step E (TypeDelegate t) p" t]
    by (simp add: q_def type_settled_def panel_settled_def del: panel_step.simps)
qed

lemma typing_settles:
  "name_service E \<Longrightarrow> panel_settled E t0 p \<Longrightarrow> input_shown (pe_delegateTo E) p \<Longrightarrow>
   panel_settled E (last (t0 # ts)) (panel_run E (concat (map type_settled ts)) p)
   \<and> dp_state (panel_run E (concat (map type_settled ts)) p) = dp_state p
   \<and> dp_calls (panel_run E (concat (map type_settled ts)) p) = dp_calls p"
proof (induction ts arbitrary: t0 p)
  case (Cons t ts)
  let ?q = "panel_run E (type_settled t) p"
  have q: "panel_settled E t ?q" "dp_state ?q = dp_state p" "dp_calls ?q = dp_calls p"
    using type_settles [OF Cons.prems, of t] by simp_all
  then have "input_shown (pe_delegateTo E) ?q" using Cons.prems(3) by (simp add: input_shown_def)
  from Cons.IH [OF Cons.prems(1) q(1) this] q(2,3) show ?case by simp
qed simp

definition demo_names :: panel_env where
  "demo_names =
     \<lparr>pe_isAddress = (\<lambda>s. s = ''0xA'' \<or> s = ''0xB''),
      pe_resolveName = (\<lambda>n. Some (if n = ''a.eth'' \<or> n = ''0xA'' then Some ''0xA''
                                   else if n = ''b.eth'' \<or> n = ''0xB'' then Some ''0xB'' else None)),
      pe_availableVotes = 3, pe_delegateTo = None, pe_contract = True\<rparr>"

lemma demo_name_service: "name_service demo_names"
  by (simp add: name_service_def demo_names_def)

text \<open>
  C33. The votes go where the text says, when each name is answered before the next is typed.  The
  name service answers a name with an address, and an address with itself.  After any number of
  texts have been typed into the panel, each with its requests answered before the next, nothing is left to
  answer, the address held is the account of the last text, and pressing the button delegates the
  votes to exactly that account when it is an address and the account has votes, and does nothing
  otherwise.
\<close>

theorem delegation_follows_text:
  fixes ts :: "string list"
  assumes "name_service E" "pe_delegateTo E = None" "pe_contract E"
  defines "p \<equiv> panel_run E (NameAnswered 0 # NameAnswered 0 # concat (map type_settled ts)) (new_panel None)"
  shows "dp_resolving p = [] \<and> dp_text p = last ([] # ts) \<and> dp_address p = delegate_target E (last ([] # ts))
       \<and> dp_calls (panel_step E ClickDelegate p) =
           (if pe_isAddress E (delegate_target E (last ([] # ts))) \<and> pe_availableVotes E > 0
            then [delegate_target E (last ([] # ts))] else [])"
proof -
  let ?q = "panel_run E [NameAnswered 0, NameAnswered 0] (new_panel None)"
  have "panel_settled E [] ?q \<and> dp_state ?q = ENTER_DELEGATE_ADDRESS \<and> dp_calls ?q = []"
    using answers_settle [OF assms(1), of "new_panel None" "[]"] by (simp add: new_panel_def panel_settled_def)
  moreover from this have "input_shown (pe_delegateTo E) ?q" using assms(2) by (simp add: input_shown_def)
  ultimately have "panel_settled E (last ([] # ts)) p \<and> dp_state p = ENTER_DELEGATE_ADDRESS \<and> dp_calls p = []"
    using typing_settles [OF assms(1), of "[]" ?q ts] by (simp add: p_def)
  then show ?thesis using assms(3)
    by (simp add: panel_settled_def primaryButton_def delegate_disabled_def useDelegateVotes_def)
qed

lemma delegation_follows_text_witness:
  "dp_calls (panel_step demo_names ClickDelegate (panel_run demo_names
     (NameAnswered 0 # NameAnswered 0 # concat (map type_settled [''a.eth'', ''b.eth''])) (new_panel None))) = [''0xB'']"
  using delegation_follows_text [OF demo_name_service, of "[''a.eth'', ''b.eth'']"]
  by (simp add: demo_names_def delegate_target_def)

section \<open>Names answered late\<close>

text \<open>Two addresses with a request open for each: their answers undo each other for ever.\<close>

definition answers :: "nat \<Rightarrow> panel_event list" where
  "answers n = replicate n (NameAnswered 0)"

lemma two_answers_cycle:
  assumes "pe_resolveName E a = Some (Some a)" "pe_resolveName E b = Some (Some b)" "a \<noteq> []" "b \<noteq> []" "a \<noteq> b"
    and "dp_resolving p = [a, b]" "dp_address p = b" "dp_hasResolved p"
  shows "panel_run E (answers (2 * n)) p = p"
proof (induction n)
  case (Suc n)
  have "panel_run E (answers 2) p = p"
    using assms by (simp add: answers_def numeral_2_eq_2 name_resolved_def setDelegateAddress_def drop_nth_def)
  moreover have "answers (2 * Suc n) = answers 2 @ answers (2 * n)" by (simp add: answers_def numeral_2_eq_2)
  ultimately show ?case using Suc by simp
qed (simp add: answers_def)

text \<open>
  C27. A name typed before an earlier one is answered.  Let two texts that stand for different
  accounts be typed one after the other, and the answers come in the order of the requests.  The
  requests never end: after every even number of answers the panel holds the second account, after
  every odd number the first one, whose delegation the button then sends although the text is the
  second.
\<close>

theorem late_answers_oscillate:
  fixes s t :: string and n :: nat
  assumes "name_service E" "pe_delegateTo E = None" "pe_contract E" "pe_availableVotes E > 0"
    and "panel_settled E t0 p" "dp_state p = ENTER_DELEGATE_ADDRESS"
    and "pe_resolveName E s = Some (Some a)" "pe_resolveName E t = Some (Some b)" "a \<noteq> b"
    and "s \<noteq> dp_address p" "s \<noteq> a" "t \<noteq> b" "s \<noteq> t" "t \<noteq> a"
  defines "after \<equiv> \<lambda>n. panel_run E ([TypeDelegate s, TypeDelegate t] @ answers (2 + n)) p"
  shows "dp_address (after (2 * n)) = b \<and> dp_resolving (after (2 * n)) = [a, b]
       \<and> dp_text (after (Suc (2 * n))) = t
       \<and> dp_calls (panel_step E ClickDelegate (after (Suc (2 * n)))) = dp_calls p @ [a]"
proof -
  have r: "pe_resolveName E a = Some (Some a)" "pe_resolveName E b = Some (Some b)" "a \<noteq> []" "b \<noteq> []" "pe_isAddress E a"
    using assms(1,7,8) by (auto simp: name_service_def)
  have q: "dp_resolving (after 0) = [a, b]" "dp_address (after 0) = b" "dp_hasResolved (after 0)" "dp_text (after 0) = t"
    "dp_state (after 0) = ENTER_DELEGATE_ADDRESS" "dp_calls (after 0) = dp_calls p"
    using assms r by (simp_all add: panel_settled_def input_shown_def setDelegateAddress_def name_resolved_def
        drop_nth_def answers_def numeral_2_eq_2)
  have split: "after k = panel_run E (answers k) (after 0)" for k
    by (simp add: after_def answers_def numeral_2_eq_2)
  have even: "after (2 * n) = after 0"
    unfolding split [of "2 * n"] by (rule two_answers_cycle [OF r(1-4) assms(9) q(1-3)])
  have odd: "after (Suc (2 * n)) = panel_step E (NameAnswered 0) (after 0)"
  proof -
    have "answers (Suc (2 * n)) = answers (2 * n) @ [NameAnswered 0]"
      by (simp add: answers_def replicate_append_same)
    then show ?thesis using even split [of "2 * n"] by (simp add: split [of "Suc (2 * n)"] del: panel_step.simps)
  qed
  show ?thesis using q r assms(3,4,9)
    by (simp add: even odd name_resolved_def setDelegateAddress_def drop_nth_def primaryButton_def
        delegate_disabled_def useDelegateVotes_def)
qed

lemma late_answers_oscillate_witness:
  "dp_calls (panel_step demo_names ClickDelegate (panel_run demo_names
     ([TypeDelegate ''a.eth'', TypeDelegate ''b.eth''] @ answers 3)
     (panel_run demo_names [NameAnswered 0] (new_panel None)))) = [''0xA'']"
proof -
  let ?p = "panel_run demo_names [NameAnswered 0] (new_panel None)"
  have p: "panel_settled demo_names [] ?p" "dp_state ?p = ENTER_DELEGATE_ADDRESS" "dp_calls ?p = []" "dp_address ?p = []"
    by (simp_all add: new_panel_def demo_names_def panel_settled_def delegate_target_def name_resolved_def drop_nth_def)
  show ?thesis
    using late_answers_oscillate [OF demo_name_service _ _ _ p(1,2), of "''a.eth''" "''0xA''" "''b.eth''" "''0xB''" 0] p(3,4)
    by (simp add: demo_names_def eval_nat_numeral del: panel_run_simps(2))
qed

section \<open>The query parameter and the vote count\<close>

lemma page_takes_first_parameter:
  assumes "isAddress a" "CHR ''='' \<notin> set a" "CHR ''?'' \<notin> set a" "CHR ''&'' \<notin> set a"
    and "\<not> ends_with ''.eth'' a" "\<not> ends_with noggles a"
  shows "getAddressFromQueryParams isAddress decode noggles ''to'' (''?to='' @ a) = Some a"
proof -
  have r: "remove_first c x = x" if "c \<notin> set x" for c x using that by (induction x) auto
  have "js_split CHR ''='' a = [a]" using assms(2) by (simp add: js_split_no_sep)
  then show ?thesis using assms r by (simp add: getAddressFromQueryParams_def Let_def)
qed

text \<open>Behind another parameter the address is not found.\<close>

lemma second_parameter_hidden:
  "getAddressFromQueryParams (\<lambda>_. True) id ''x'' ''to'' ''?a=1&to=0xA'' = None"
  by code_simp

text \<open>While the delegation is mined the count announced stays what it was at the start.\<close>

lemma will_have_kept:
  assumes "s \<noteq> ENTER_DELEGATE_ADDRESS" "c + v > 0"
  shows "will_have_effect s c' v (will_have_effect s c v 0) = c + v"
  using assms by (simp add: will_have_effect_def)

end
