(* ===== verification/Web_Playground.thy ===== *)
theory Web_Playground
  imports Sdk_Collection Assets_Seed Web_Token
begin

text \<open>
  The playground (\<open>pages/Playground\<close>) and the drawing of an alp from its seed
  (\<open>components/StandaloneAlp\<close>, \<open>utils/svg2png.ts\<close>): the page composes the asset book and the SDK's
  encoder and renderer, both of which it changes when a custom trait is uploaded.  The PNG decoder,
  \<open>btoa\<close> and the browser's canvas are arguments.
\<close>

section \<open>An alp from its seed\<close>

text \<open>\<open>None\<close>: a part is \<open>undefined\<close>, so that reading its data throws, or the renderer does not return.\<close>

definition draw_alp :: "asset_book \<Rightarrow> string list \<Rightarrow> alp_seed \<Rightarrow> string option" where
  "draw_alp bk pal seed =
     (let d = getAlpData bk seed
      in case those (ad_parts d) of
           None \<Rightarrow> None
         | Some parts \<Rightarrow>
             buildSVG (map as_data parts) pal (case ad_background d of None \<Rightarrow> ''undefined'' | Some c \<Rightarrow> c))"

record alp_view =
  av_name :: string
  av_description :: string
  av_image :: string

definition getAlp :: "(string \<Rightarrow> string) \<Rightarrow> asset_book \<Rightarrow> string list \<Rightarrow> nat \<Rightarrow> alp_seed \<Rightarrow> alp_view option" where
  "getAlp btoa bk pal alpId seed =
     map_option (\<lambda>svg.
       \<lparr>av_name = ''Alp '' @ show_nat alpId,
        av_description = ''Alp '' @ show_nat alpId @ '' is a member of the Alps DAO'',
        av_image = ''data:image/svg+xml;base64,'' @ btoa svg\<rparr>) (draw_alp bk pal seed)"

text \<open>\<open>StandaloneAlpWithSeed\<close> draws nothing for a seed of zeros.\<close>

definition seedIsInvalid :: "alp_seed option \<Rightarrow> bool" where
  "seedIsInvalid seed =
     (case seed of
        None \<Rightarrow> True
      | Some s \<Rightarrow> list_all (\<lambda>v. v = 0) [sd_background s, sd_body s, sd_accessory s, sd_head s, sd_glasses s])"

text \<open>At most one decimal digit in the quotient.\<close>

definition canScale :: "nat \<Rightarrow> nat \<Rightarrow> bool" where
  "canScale current desired \<longleftrightarrow> current > 0 \<and> current dvd 10 * desired"

text \<open>The scale of the canvas; \<open>None\<close> is the exception.\<close>

definition svg2png_scale :: "nat \<Rightarrow> nat \<Rightarrow> nat \<Rightarrow> nat \<Rightarrow> ((nat \<times> nat) \<times> (nat \<times> nat)) option" where
  "svg2png_scale width height newWidth newHeight =
     (if \<not> canScale width newWidth \<or> \<not> canScale height newHeight then None
      else Some ((newWidth, width), (newHeight, height)))"

section \<open>The playground\<close>

record custom_trait =
  ct_type :: string
  ct_data :: string
  ct_filename :: string

record playground =
  pl_alpSvgs :: "string list"
  pl_modSeed :: "(string, nat) jsmap"
  pl_displayAlp :: bool
  pl_indexOfAlpToDisplay :: "nat option"
  pl_selectIndexes :: "(string, int) jsmap"
  pl_pendingTrait :: "custom_trait option"
  pl_isPendingTraitValid :: "bool option"
  pl_book :: asset_book
  pl_encoder :: encoder

definition DEFAULT_TRAIT_TYPE :: string where "DEFAULT_TRAIT_TYPE = ''heads''"

definition traitKeyToTitle :: "string \<Rightarrow> string option" where
  "traitKeyToTitle = map_of [(''heads'', ''head''), (''glasses'', ''glasses''), (''bodies'', ''body''), (''accessories'', ''accessory'')]"

definition pg_capitalizeFirstLetter :: "string \<Rightarrow> string" where
  "pg_capitalizeFirstLetter s =
     (case s of [] \<Rightarrow> [] | c # cs \<Rightarrow>
        (let n = of_char c :: nat in if 97 \<le> n \<and> n \<le> 122 then char_of (n - 32) else c) # cs)"

definition pg_parseTraitName :: "string \<Rightarrow> string" where
  "pg_parseTraitName fileName =
     js_join '' '' (map pg_capitalizeFirstLetter
       (js_split CHR ''-'' (if CHR ''-'' \<in> set fileName then drop 1 (dropWhile (\<lambda>c. c \<noteq> CHR ''-'') fileName) else fileName)))"

definition traits_of :: "asset_book \<Rightarrow> (string \<times> string list) list" where
  "traits_of bk =
     [(''background'', [''bluebird Sky'', ''evergreen'', ''night'', ''slate'', ''yellow Snow'', ''cool'', ''warm'']),
      (''body'', map as_filename (bk_bodies bk)), (''accessory'', map as_filename (bk_accessories bk)),
      (''head'', map as_filename (bk_heads bk)), (''glasses'', map as_filename (bk_glasses bk))]"

definition traitOptions :: "string list \<Rightarrow> string list" where
  "traitOptions traitNames = ''Random'' # map pg_parseTraitName traitNames"

text \<open>\<open>{ ...getRandomAlpSeed(), ...modSeed }\<close>\<close>

definition override :: "(string, nat) jsmap \<Rightarrow> string \<Rightarrow> nat \<Rightarrow> nat" where
  "override m title v = (case jm_get m title of None \<Rightarrow> v | Some w \<Rightarrow> w)"

definition modified_seed :: "(string, nat) jsmap \<Rightarrow> alp_seed \<Rightarrow> alp_seed" where
  "modified_seed m s =
     \<lparr>sd_background = override m ''background'' (sd_background s), sd_body = override m ''body'' (sd_body s),
      sd_accessory = override m ''accessory'' (sd_accessory s), sd_head = override m ''head'' (sd_head s),
      sd_glasses = override m ''glasses'' (sd_glasses s)\<rparr>"

text \<open>One alp; an exception leaves the list as it is.\<close>

definition generateAlpSvg :: "(nat \<Rightarrow> nat \<times> nat) \<Rightarrow> playground \<Rightarrow> playground" where
  "generateAlpSvg draw p =
     (case draw_alp (pl_book p) (id_palette (get_data (pl_encoder p)))
             (modified_seed (pl_modSeed p) (getRandomAlpSeed (pl_book p) draw)) of
        None \<Rightarrow> p
      | Some svg \<Rightarrow> p\<lparr>pl_alpSvgs := svg # pl_alpSvgs p\<rparr>)"

definition traitButtonHandler :: "string \<Rightarrow> int \<Rightarrow> playground \<Rightarrow> playground" where
  "traitButtonHandler title traitIndex p =
     p\<lparr>pl_modSeed := (if traitIndex < 0 then jm_delete title (pl_modSeed p)
                      else jm_set title (nat traitIndex) (pl_modSeed p))\<rparr>"

fun replace_png :: "string \<Rightarrow> string" where
  "replace_png [] = []"
| "replace_png (c # cs) = (if take 4 (c # cs) = ''.png'' then drop 4 (c # cs) else c # replace_png cs)"

text \<open>\<open>decoded\<close>: the result of \<open>PNG.sync.read\<close>, nothing when it throws.\<close>

definition validateAndSetCustomTrait :: "(string \<times> png_bytes option) option \<Rightarrow> playground \<Rightarrow> playground" where
  "validateAndSetCustomTrait file p =
     (case file of
        None \<Rightarrow> p
      | Some (name, decoded) \<Rightarrow>
          (case decoded of
             None \<Rightarrow> p\<lparr>pl_isPendingTraitValid := Some False\<rparr>
           | Some png \<Rightarrow>
               if pb_width png \<noteq> 32 \<or> pb_height png \<noteq> 32 then p\<lparr>pl_isPendingTraitValid := Some False\<rparr>
               else
                 (let filename = (if replace_png name = [] then ''custom'' else replace_png name);
                      (encoder', data) = encodeImage filename (readPngImage png) None (pl_encoder p)
                  in p\<lparr>pl_encoder := encoder',
                       pl_pendingTrait := Some \<lparr>ct_type = DEFAULT_TRAIT_TYPE, ct_data = data, ct_filename = filename\<rparr>,
                       pl_isPendingTraitValid := Some True\<rparr>)))"

text \<open>\<open>images[type].unshift\<close> on the book that every page shares.\<close>

definition unshift_image :: "string \<Rightarrow> asset_image \<Rightarrow> asset_book \<Rightarrow> asset_book" where
  "unshift_image type i bk =
     (if type = ''bodies'' then bk\<lparr>bk_bodies := i # bk_bodies bk\<rparr>
      else if type = ''accessories'' then bk\<lparr>bk_accessories := i # bk_accessories bk\<rparr>
      else if type = ''heads'' then bk\<lparr>bk_heads := i # bk_heads bk\<rparr>
      else if type = ''glasses'' then bk\<lparr>bk_glasses := i # bk_glasses bk\<rparr>
      else bk)"

definition uploadCustomTrait :: "playground \<Rightarrow> playground" where
  "uploadCustomTrait p =
     (case pl_pendingTrait p of
        None \<Rightarrow> p
      | Some t \<Rightarrow>
          (case traitKeyToTitle (ct_type t) of
             None \<Rightarrow> p
           | Some title \<Rightarrow>
               if ct_type t = [] \<or> ct_data t = [] \<or> ct_filename t = [] then p
               else (traitButtonHandler title 0 p)
                 \<lparr>pl_book := unshift_image (ct_type t) \<lparr>as_filename = ct_filename t, as_data = ct_data t\<rparr> (pl_book p),
                  pl_pendingTrait := None, pl_isPendingTraitValid := None,
                  pl_selectIndexes := jm_set title 0 (pl_selectIndexes p)\<rparr>))"

datatype playground_event =
    Generate "nat \<Rightarrow> nat \<times> nat"
  | SelectTrait string nat
  | FileLoaded "(string \<times> png_bytes option) option"
  | ErrorTimeout
  | PendingType string
  | UploadTrait
  | OpenAlp nat
  | CloseAlp

fun playground_step :: "playground_event \<Rightarrow> playground \<Rightarrow> playground" where
  "playground_step (Generate draw) p = generateAlpSvg draw p"
| "playground_step (SelectTrait title index) p =
     (traitButtonHandler title (int index - 1) p)
       \<lparr>pl_selectIndexes := jm_set title (int index - 1) (pl_selectIndexes p)\<rparr>"
| "playground_step (FileLoaded file) p = validateAndSetCustomTrait file p"
| "playground_step ErrorTimeout p = p\<lparr>pl_isPendingTraitValid := None\<rparr>"
| "playground_step (PendingType t) p =
     (if traitKeyToTitle t = None then p
      else p\<lparr>pl_pendingTrait := map_option (ct_type_update (\<lambda>_. t)) (pl_pendingTrait p)\<rparr>)"
| "playground_step UploadTrait p = uploadCustomTrait p"
| "playground_step (OpenAlp i) p = p\<lparr>pl_indexOfAlpToDisplay := Some i, pl_displayAlp := True\<rparr>"
| "playground_step CloseAlp p = p\<lparr>pl_displayAlp := False\<rparr>"

text \<open>The value of a trait's select.\<close>

definition selected_trait :: "playground \<Rightarrow> string \<times> string list \<Rightarrow> string option" where
  "selected_trait p t =
     (case jm_get (pl_selectIndexes p) (fst t) of
        None \<Rightarrow> None
      | Some i \<Rightarrow> if i < 0 then None else array_at (snd t) (nat i))"

section \<open>Uploading a trait\<close>

text \<open>The place of a folder among the parts, and the entry of a seed for it.\<close>

definition part_slot :: "string \<Rightarrow> nat" where
  "part_slot type = (if type = ''bodies'' then 0 else if type = ''accessories'' then 1 else if type = ''heads'' then 2 else 3)"

definition seed_entry :: "string \<Rightarrow> alp_seed \<Rightarrow> nat" where
  "seed_entry type s =
     (if type = ''bodies'' then sd_body s else if type = ''accessories'' then sd_accessory s
      else if type = ''heads'' then sd_head s else sd_glasses s)"

definition set_seed_entry :: "string \<Rightarrow> nat \<Rightarrow> alp_seed \<Rightarrow> alp_seed" where
  "set_seed_entry type v s =
     (if type = ''bodies'' then s\<lparr>sd_body := v\<rparr> else if type = ''accessories'' then s\<lparr>sd_accessory := v\<rparr>
      else if type = ''heads'' then s\<lparr>sd_head := v\<rparr> else s\<lparr>sd_glasses := v\<rparr>)"

lemma traitKey_cases:
  "traitKeyToTitle type = Some title \<Longrightarrow>
   type = ''heads'' \<and> title = ''head'' \<or> type = ''glasses'' \<and> title = ''glasses'' \<or>
   type = ''bodies'' \<and> title = ''body'' \<or> type = ''accessories'' \<and> title = ''accessory''"
  by (auto simp: traitKeyToTitle_def split: if_splits)

lemma array_at_Cons: "array_at (x # xs) n = (case n of 0 \<Rightarrow> Some x | Suc k \<Rightarrow> array_at xs k)"
  by (cases n) (simp_all add: array_at_def)

text \<open>The parts of a book with a new first image in one folder.\<close>

lemma parts_unshifted:
  assumes "traitKeyToTitle type = Some title"
  shows "ad_parts (getAlpData (unshift_image type i bk) s) =
     (case seed_entry type s of
        0 \<Rightarrow> (ad_parts (getAlpData bk s)) [part_slot type := Some i]
      | Suc k \<Rightarrow> ad_parts (getAlpData bk (set_seed_entry type k s)))"
    and "ad_background (getAlpData (unshift_image type i bk) s) = ad_background (getAlpData bk s)"
  using traitKey_cases [OF assms]
  by (auto simp: getAlpData_def unshift_image_def seed_entry_def set_seed_entry_def part_slot_def array_at_Cons split: nat.split)

text \<open>The random seed of the changed book differs in that folder only.\<close>

lemma modified_seed_unshifted:
  assumes "traitKeyToTitle type = Some title"
  shows "modified_seed (jm_set title 0 m) (getRandomAlpSeed (unshift_image type i bk) draw) =
     set_seed_entry type 0 (modified_seed m (getRandomAlpSeed bk draw))"
  using traitKey_cases [OF assms]
  by (elim disjE conjE)
    (simp_all add: modified_seed_def getRandomAlpSeed_def override_def unshift_image_def set_seed_entry_def jm_get_set)

lemma parts_set_entry:
  "traitKeyToTitle type = Some title \<Longrightarrow>
   (ad_parts (getAlpData bk (set_seed_entry type v s))) [part_slot type := x] = (ad_parts (getAlpData bk s)) [part_slot type := x]"
  "traitKeyToTitle type = Some title \<Longrightarrow>
   ad_background (getAlpData bk (set_seed_entry type v s)) = ad_background (getAlpData bk s)"
  using traitKey_cases [of type title]
  by (auto simp: getAlpData_def set_seed_entry_def part_slot_def)

lemma seed_entry_set: "traitKeyToTitle type = Some title \<Longrightarrow> seed_entry type (set_seed_entry type v s) = v"
  using traitKey_cases [of type title] by (auto simp: seed_entry_def set_seed_entry_def)

definition demo_playground :: playground where
  "demo_playground =
     \<lparr>pl_alpSvgs = [], pl_modSeed = [], pl_displayAlp = False, pl_indexOfAlpToDisplay = None, pl_selectIndexes = [],
      pl_pendingTrait = Some \<lparr>ct_type = ''heads'', ct_data = ''0x0000000000'', ct_filename = ''mine''\<rparr>,
      pl_isPendingTraitValid = Some True,
      pl_book = \<lparr>bk_bgcolors = [''ffffff''], bk_bodies = [], bk_accessories = [],
        bk_heads = [\<lparr>as_filename = ''head-a'', as_data = ''a''\<rparr>, \<lparr>as_filename = ''head-b'', as_data = ''b''\<rparr>], bk_glasses = []\<rparr>,
      pl_encoder = new_encoder None\<rparr>"

text \<open>
  C28. Uploading a custom trait.  When a pending trait with data and a name is uploaded, nothing is
  pending any more, the select shows the trait, and every alp generated next carries it in its place,
  with the other parts and the background that the same draws would have given before.  The upload
  also changes the book that the rest of the application draws from: an alp whose seed has entry
  \<open>k + 1\<close> in that folder is from then on drawn with part \<open>k\<close>, and one with entry 0 with the
  custom trait.
\<close>

theorem uploaded_trait_drawn:
  assumes "pl_pendingTrait p = Some t" "traitKeyToTitle (ct_type t) = Some title"
    and "ct_data t \<noteq> []" "ct_filename t \<noteq> []"
  defines "q \<equiv> playground_step UploadTrait p"
    and "custom \<equiv> \<lparr>as_filename = ct_filename t, as_data = ct_data t\<rparr>"
  shows "pl_pendingTrait q = None \<and> pl_isPendingTraitValid q = None \<and> jm_get (pl_selectIndexes q) title = Some 0
       \<and> (let before = getAlpData (pl_book p) (modified_seed (pl_modSeed p) (getRandomAlpSeed (pl_book p) draw));
              drawn = getAlpData (pl_book q) (modified_seed (pl_modSeed q) (getRandomAlpSeed (pl_book q) draw))
          in ad_parts drawn = (ad_parts before) [part_slot (ct_type t) := Some custom]
             \<and> ad_background drawn = ad_background before)
       \<and> (seed_entry (ct_type t) s = Suc k \<longrightarrow>
           ad_parts (getAlpData (pl_book q) s) = ad_parts (getAlpData (pl_book p) (set_seed_entry (ct_type t) k s)))
       \<and> (seed_entry (ct_type t) s = 0 \<longrightarrow>
           ad_parts (getAlpData (pl_book q) s) = (ad_parts (getAlpData (pl_book p) s)) [part_slot (ct_type t) := Some custom])"
proof -
  have "ct_type t \<noteq> []" using traitKey_cases [OF assms(2)] by auto
  then have q: "pl_book q = unshift_image (ct_type t) custom (pl_book p)" "pl_modSeed q = jm_set title 0 (pl_modSeed p)"
    "pl_pendingTrait q = None" "pl_isPendingTraitValid q = None" "jm_get (pl_selectIndexes q) title = Some 0"
    using assms by (simp_all add: uploadCustomTrait_def traitButtonHandler_def jm_get_set)
  note parts = parts_unshifted [OF assms(2)] parts_set_entry [OF assms(2)] seed_entry_set [OF assms(2)]
    modified_seed_unshifted [OF assms(2)]
  show ?thesis by (simp add: q parts Let_def split: nat.split)
qed

lemma uploaded_trait_drawn_witness:
  "ad_parts (getAlpData (pl_book (playground_step UploadTrait demo_playground)) \<lparr>sd_background = 0, sd_body = 0, sd_accessory = 0, sd_head = 1, sd_glasses = 0\<rparr>) ! 2
    = Some \<lparr>as_filename = ''head-a'', as_data = ''a''\<rparr>"
proof -
  let ?s = "\<lparr>sd_background = 0, sd_body = 0, sd_accessory = 0, sd_head = 1, sd_glasses = 0\<rparr>"
  have "pl_pendingTrait demo_playground = Some \<lparr>ct_type = ''heads'', ct_data = ''0x0000000000'', ct_filename = ''mine''\<rparr>"
    by (simp add: demo_playground_def)
  moreover have "traitKeyToTitle ''heads'' = Some ''head''" by (simp add: traitKeyToTitle_def)
  ultimately have "ad_parts (getAlpData (pl_book (playground_step UploadTrait demo_playground)) ?s) =
      ad_parts (getAlpData (pl_book demo_playground) (set_seed_entry ''heads'' 0 ?s))"
    using uploaded_trait_drawn [of demo_playground "\<lparr>ct_type = ''heads'', ct_data = ''0x0000000000'', ct_filename = ''mine''\<rparr>" "''head''" "\<lambda>_. (0, 1)" ?s 0]
    by (simp add: seed_entry_def)
  then show ?thesis by (simp add: demo_playground_def set_seed_entry_def getAlpData_def array_at_def)
qed

text \<open>A pending trait comes from a picture of 32 by 32 pixels, encoded with the playground's table.\<close>

definition from_picture :: "playground \<Rightarrow> bool" where
  "from_picture p \<longleftrightarrow>
     (\<forall>t. pl_pendingTrait p = Some t \<longrightarrow> ct_filename t \<noteq> [] \<and> traitKeyToTitle (ct_type t) \<noteq> None \<and>
        (\<exists>png name e. pb_width png = 32 \<and> pb_height png = 32 \<and> ct_data t = snd (encodeImage name (readPngImage png) None e)))"

lemma pending_from_picture: "from_picture p \<Longrightarrow> from_picture (playground_step e p)"
proof (cases e)
  case (FileLoaded f)
  assume "from_picture p"
  then show ?thesis using FileLoaded
    by (auto simp: validateAndSetCustomTrait_def from_picture_def Let_def DEFAULT_TRAIT_TYPE_def traitKeyToTitle_def
        split: option.splits prod.splits if_splits) (metis snd_conv)+
qed (auto simp: from_picture_def generateAlpSvg_def traitButtonHandler_def uploadCustomTrait_def Let_def
    split: option.splits)

text \<open>The default rendering scales to the size of the profile picture.\<close>

lemma profile_picture_scales: "svg2png_scale 320 320 512 512 = Some ((512, 320), (512, 320))"
  by (simp add: svg2png_scale_def canScale_def dvd_def)

end
