(* ===== verification/Web_Wallet.thy ===== *)
theory Web_Wallet
  imports Web_Hooks
begin

text \<open>
  Configuration and the wallet: \<open>config.ts\<close> and the table of addresses of \<open>nouns-sdk/src/contract\<close>,
  \<open>hooks/useContracts.ts\<close>, \<open>utils/walletConnectV2Connector.ts\<close> as a state machine over the providers
  it has created, \<open>components/WalletConnectModal\<close>, \<open>NavWallet\<close> and \<open>NetworkAlert\<close>, together with the
  wallet hook of the hooks theory.  An undefined environment variable is \<open>None\<close>.
\<close>

section \<open>Configuration\<close>

type_synonym environment = "string \<Rightarrow> string option"

text \<open>\<open>??\<close> replaces an undefined value only, \<open>||\<close> also the empty string.\<close>

definition env_or :: "environment \<Rightarrow> string \<Rightarrow> string \<Rightarrow> string" where
  "env_or env key d = (case env key of None \<Rightarrow> d | Some v \<Rightarrow> v)"

definition CHAIN_ID :: "environment \<Rightarrow> jsnum" where
  "CHAIN_ID env = parseInt None (env_or env ''REACT_APP_CHAIN_ID'' ''4'')"

text \<open>An undefined value prints as \<open>undefined\<close> in a template.\<close>

definition network_url :: "environment \<Rightarrow> string \<Rightarrow> string \<Rightarrow> string \<Rightarrow> string" where
  "network_url env network kind default_prefix =
     (let custom = env (''REACT_APP_'' @ map to_upper network @ kind);
          infura = (case env ''REACT_APP_INFURA_PROJECT_ID'' of None \<Rightarrow> ''undefined'' | Some i \<Rightarrow> i)
      in if custom = None \<or> custom = Some [] then default_prefix @ infura else the custom)"

definition createNetworkHttpUrl :: "environment \<Rightarrow> string \<Rightarrow> string" where
  "createNetworkHttpUrl env network =
     network_url env network ''_JSONRPC'' (''https://'' @ network @ ''.infura.io/v3/'')"

definition createNetworkWsUrl :: "environment \<Rightarrow> string \<Rightarrow> string" where
  "createNetworkWsUrl env network =
     network_url env network ''_WSRPC'' (''wss://'' @ network @ ''.infura.io/ws/v3/'')"

record app_config =
  cf_jsonRpcUri :: string
  cf_wsRpcUri :: string
  cf_subgraphApiUri :: string
  cf_enableHistory :: bool

text \<open>\<open>app[CHAIN_ID]\<close>, undefined for a chain that is not in the table.\<close>

definition app_of :: "environment \<Rightarrow> jsnum \<Rightarrow> app_config option" where
  "app_of env chain =
     (let history = (env ''REACT_APP_ENABLE_HISTORY'' = Some ''true'');
          key = env_or env ''REACT_APP_THEGRAPH_STUDIO_API_KEY'' []
      in if chain = Some 4 then
           Some \<lparr>cf_jsonRpcUri = createNetworkHttpUrl env ''rinkeby'', cf_wsRpcUri = createNetworkWsUrl env ''rinkeby'',
                 cf_subgraphApiUri = ''https://api.thegraph.com/subgraphs/name/alpsdao/alps-subgraph-rinkeby-v5'',
                 cf_enableHistory = history\<rparr>
         else if chain = Some 5 then
           Some \<lparr>cf_jsonRpcUri = createNetworkHttpUrl env ''goerli'', cf_wsRpcUri = createNetworkWsUrl env ''goerli'',
                 cf_subgraphApiUri = ''https://api.thegraph.com/subgraphs/name/alpsdao/alps-dao-goerli'',
                 cf_enableHistory = history\<rparr>
         else if chain = Some 1 then
           Some \<lparr>cf_jsonRpcUri = createNetworkHttpUrl env ''mainnet'', cf_wsRpcUri = createNetworkWsUrl env ''mainnet'',
                 cf_subgraphApiUri = ''https://gateway.thegraph.com/api/'' @ key
                   @ ''/subgraphs/id/BfBbbRZVbUNN7KWQ3iHbFKhrzUQeZgajnpqiUvXs9p5m'',
                 cf_enableHistory = history\<rparr>
         else if chain = Some 31337 then
           Some \<lparr>cf_jsonRpcUri = ''http://localhost:8545'', cf_wsRpcUri = ''ws://localhost:8545'',
                 cf_subgraphApiUri = ''http://localhost:8000/subgraphs/name/alpsdao/alps-subgraph'',
                 cf_enableHistory = history\<rparr>
         else None)"

text \<open>The inner \<open>None\<close> is an undefined address of the local chain, the outer one an unknown chain.\<close>

definition lido_of :: "jsnum \<Rightarrow> string option option" where
  "lido_of chain =
     (if chain = Some 4 then Some (Some ''0xF4242f9d78DB7218Ad72Ee3aE14469DBDE8731eD'')
      else if chain = Some 5 then Some (Some ''0x2DD6530F136D2B56330792D46aF959D9EA62E276'')
      else if chain = Some 1 then Some (Some ''0xae7ab96520DE3A18E5e111B5EaAb095312D7fE84'')
      else if chain = Some 31337 then Some None
      else None)"

text \<open>The SDK's table, the file \<open>addresses.json\<close>, is the argument \<open>table\<close>; a missing chain is an error.\<close>

record contract_addresses =
  ca_alpsToken :: string
  ca_alpsSeeder :: string
  ca_alpsDescriptor :: string
  ca_alpsAuctionHouseProxy :: string
  ca_alpsDaoExecutor :: string
  ca_alpsDAOProxy :: string

datatype sdk_error = UnknownChain jsnum

definition getContractAddressesForChainOrThrow ::
  "(jsnum \<Rightarrow> contract_addresses option) \<Rightarrow> jsnum \<Rightarrow> sdk_error + contract_addresses" where
  "getContractAddressesForChainOrThrow table chainId =
     (case table chainId of None \<Rightarrow> Inl (UnknownChain chainId) | Some a \<Rightarrow> Inr a)"

definition getAddresses ::
  "(jsnum \<Rightarrow> contract_addresses option) \<Rightarrow> jsnum \<Rightarrow> contract_addresses option \<times> string option" where
  "getAddresses table chain =
     ((case getContractAddressesForChainOrThrow table chain of Inl _ \<Rightarrow> None | Inr a \<Rightarrow> Some a),
      (case lido_of chain of None \<Rightarrow> None | Some l \<Rightarrow> l))"

text \<open>A contract instance: its address and what it is connected to.\<close>

definition getContractsForChainOrThrow ::
  "(jsnum \<Rightarrow> contract_addresses option) \<Rightarrow> jsnum \<Rightarrow> 's option \<Rightarrow>
     sdk_error + (string \<times> 's option) list" where
  "getContractsForChainOrThrow table chainId signerOrProvider =
     (case getContractAddressesForChainOrThrow table chainId of
        Inl err \<Rightarrow> Inl err
      | Inr a \<Rightarrow>
          Inr (map (\<lambda>x. (x, signerOrProvider))
                 [ca_alpsToken a, ca_alpsAuctionHouseProxy a, ca_alpsDescriptor a, ca_alpsSeeder a, ca_alpsDAOProxy a]))"

datatype connection = Public string | Browser string

text \<open>What a hook connects a contract to: the signer of a browser provider, otherwise the provider.\<close>

datatype runner = Signer string | Provider string

definition runner_of :: "connection \<Rightarrow> runner" where
  "runner_of p = (case p of Browser x \<Rightarrow> Signer x | Public x \<Rightarrow> Provider x)"

record web_contracts =
  wc_token :: "(string \<times> runner) option"
  wc_daoV1 :: "(string \<times> runner) option"
  wc_daoV2 :: "(string \<times> runner) option"
  wc_auctionHouse :: "(string \<times> runner) option"
  wc_lido :: "(string \<times> runner) option"

definition useContracts :: "contract_addresses \<Rightarrow> string option \<Rightarrow> connection option \<Rightarrow> web_contracts" where
  "useContracts addresses lido provider =
     (let at = (\<lambda>a. map_option (\<lambda>p. (a, runner_of p)) provider)
      in \<lparr>wc_token = at (ca_alpsToken addresses), wc_daoV1 = at (ca_alpsDAOProxy addresses),
          wc_daoV2 = at (ca_alpsDAOProxy addresses), wc_auctionHouse = at (ca_alpsAuctionHouseProxy addresses),
          wc_lido = (case lido of None \<Rightarrow> None | Some l \<Rightarrow> if l = [] then None else at l)\<rparr>)"

definition networkName :: "jsnum \<Rightarrow> string" where
  "networkName chain =
     (if chain = Some 1 then ''Ethereum Mainnet'' else if chain = Some 4 then ''the Rinkeby network''
      else ''Network '' @ (case chain of None \<Rightarrow> ''NaN'' | Some n \<Rightarrow> show_int n))"

definition metamaskNetworkName :: "jsnum \<Rightarrow> string" where
  "metamaskNetworkName chain =
     (if chain = Some 1 then ''Ethereum Mainnet'' else if chain = Some 4 then ''Rinkeby Test Network''
      else ''Network '' @ (case chain of None \<Rightarrow> ''NaN'' | Some n \<Rightarrow> show_int n))"

section \<open>The WalletConnect connector\<close>

text \<open>A provider the connector has created: whether the three listeners are attached, whether its
  session is open, and what the library reports of it.\<close>

record wc_session =
  ws_listening :: bool
  ws_open :: bool
  ws_chain :: nat
  ws_accounts :: "string list"

datatype connector_event = UpdateAccount "string option" | UpdateChain nat | Deactivate

text \<open>\<open>cn_provider\<close> is \<open>this.provider\<close>, an index into the sessions created so far.\<close>

record connector =
  cn_sessions :: "wc_session list"
  cn_provider :: "nat option"
  cn_emitted :: "connector_event list"

definition new_connector :: connector where
  "new_connector = \<lparr>cn_sessions = [], cn_provider = None, cn_emitted = []\<rparr>"

definition emit :: "connector_event \<Rightarrow> connector \<Rightarrow> connector" where
  "emit e c = c\<lparr>cn_emitted := cn_emitted c @ [e]\<rparr>"

definition first_account :: "string list \<Rightarrow> string option" where
  "first_account xs = (case xs of [] \<Rightarrow> None | x # _ \<Rightarrow> Some x)"

text \<open>\<open>enabled\<close>: the chain and the accounts of \<open>init\<close> and \<open>enable\<close>, \<open>None\<close> when one of them rejects, which
  leaves the connector as it was.  The result is the update that \<open>activate\<close> resolves to.\<close>

definition connector_activate ::
  "(nat \<times> string list) option \<Rightarrow> connector \<Rightarrow> connector \<times> (nat \<times> string option \<times> nat) option" where
  "connector_activate enabled c =
     (case enabled of
        None \<Rightarrow> (c, None)
      | Some (chain, accounts) \<Rightarrow>
          let n = length (cn_sessions c)
          in (c\<lparr>cn_sessions := cn_sessions c @
                  [\<lparr>ws_listening = True, ws_open = True, ws_chain = chain, ws_accounts = accounts\<rparr>],
                cn_provider := Some n\<rparr>,
              Some (chain, first_account accounts, n)))"

definition current_session :: "connector \<Rightarrow> wc_session option" where
  "current_session c =
     (case cn_provider c of None \<Rightarrow> None | Some i \<Rightarrow> if i < length (cn_sessions c) then Some (cn_sessions c ! i) else None)"

text \<open>The getters throw (\<open>Inl\<close>) without a provider.\<close>

datatype connector_error = ProviderUndefined

definition connector_getProvider :: "connector \<Rightarrow> connector_error + nat" where
  "connector_getProvider c = (case cn_provider c of None \<Rightarrow> Inl ProviderUndefined | Some i \<Rightarrow> Inr i)"

definition connector_getChainId :: "connector \<Rightarrow> connector_error + nat" where
  "connector_getChainId c =
     (case current_session c of None \<Rightarrow> Inl ProviderUndefined | Some s \<Rightarrow> Inr (ws_chain s))"

definition connector_getAccount :: "connector \<Rightarrow> connector_error + string option" where
  "connector_getAccount c =
     (case current_session c of None \<Rightarrow> Inl ProviderUndefined | Some s \<Rightarrow> Inr (first_account (ws_accounts s)))"

definition connector_deactivate :: "connector \<Rightarrow> connector" where
  "connector_deactivate c =
     (case cn_provider c of
        None \<Rightarrow> c
      | Some i \<Rightarrow>
          (emit Deactivate c)\<lparr>cn_sessions :=
             (cn_sessions c)[i := (cn_sessions c ! i)\<lparr>ws_listening := False, ws_open := False\<rparr>]\<rparr>)"

definition handleDisconnect :: "connector \<Rightarrow> connector_error + connector" where
  "handleDisconnect c =
     (if cn_provider c = None then Inl ProviderUndefined else Inr (connector_deactivate c))"

definition handleAccountsChanged :: "string list \<Rightarrow> connector \<Rightarrow> connector" where
  "handleAccountsChanged accounts c = emit (UpdateAccount (first_account accounts)) c"

definition handleChainChanged :: "nat \<Rightarrow> connector \<Rightarrow> connector" where
  "handleChainChanged chain c = emit (UpdateChain chain) c"

datatype connector_action =
    Activate "(nat \<times> string list) option"
  | DeactivateCall
  | AccountsOf nat "string list"
  | ChainOf nat nat
  | DisconnectOf nat

definition report :: "nat \<Rightarrow> (wc_session \<Rightarrow> wc_session) \<Rightarrow> (connector \<Rightarrow> connector) \<Rightarrow> connector \<Rightarrow> connector" where
  "report i f handler c =
     (if i < length (cn_sessions c) \<and> ws_open (cn_sessions c ! i) then
        let c' = c\<lparr>cn_sessions := (cn_sessions c)[i := f (cn_sessions c ! i)]\<rparr>
        in if ws_listening (cn_sessions c ! i) then handler c' else c'
      else c)"

text \<open>A provider reports while its session is open; the listeners hear it while they are attached.\<close>

fun connector_step :: "connector_action \<Rightarrow> connector \<Rightarrow> connector" where
  "connector_step (Activate enabled) c = fst (connector_activate enabled c)"
| "connector_step DeactivateCall c = connector_deactivate c"
| "connector_step (AccountsOf i xs) c = report i (\<lambda>s. s\<lparr>ws_accounts := xs\<rparr>) (handleAccountsChanged xs) c"
| "connector_step (ChainOf i n) c = report i (\<lambda>s. s\<lparr>ws_chain := n\<rparr>) (handleChainChanged n) c"
| "connector_step (DisconnectOf i) c =
     report i (\<lambda>s. s\<lparr>ws_open := False\<rparr>) (\<lambda>c'. case handleDisconnect c' of Inl _ \<Rightarrow> c' | Inr c'' \<Rightarrow> c'') c"

text \<open>The provider is the newest session, and whoever is not heard has been closed.\<close>

definition connector_ok :: "connector \<Rightarrow> bool" where
  "connector_ok c \<longleftrightarrow>
     cn_provider c = (if cn_sessions c = [] then None else Some (length (cn_sessions c) - 1)) \<and>
     (\<forall>s\<in>set (cn_sessions c). \<not> ws_listening s \<longrightarrow> \<not> ws_open s)"

lemma set_update_all: "\<forall>x\<in>set xs. P x \<Longrightarrow> P y \<Longrightarrow> \<forall>x\<in>set (xs[i := y]). P x"
  using set_update_subset_insert by fastforce

definition closed_ok :: "wc_session \<Rightarrow> bool" where
  "closed_ok s \<longleftrightarrow> (\<not> ws_listening s \<longrightarrow> \<not> ws_open s)"

lemma connector_ok_update:
  assumes "connector_ok c" "closed_ok s"
  shows "connector_ok (c\<lparr>cn_sessions := (cn_sessions c)[i := s]\<rparr>)"
proof -
  have "\<forall>x\<in>set (cn_sessions c). closed_ok x" using assms(1) by (simp add: connector_ok_def closed_ok_def)
  from set_update_all [where P = closed_ok, OF this assms(2), of i] assms(1) show ?thesis
    unfolding connector_ok_def closed_ok_def [symmetric] by simp
qed

lemma connector_ok_emit [simp]: "connector_ok (emit e c) = connector_ok c"
  by (simp add: connector_ok_def emit_def)

lemma emit_sessions [simp]: "cn_sessions (emit e c) = cn_sessions c" "cn_provider (emit e c) = cn_provider c"
  by (simp_all add: emit_def)

lemma deactivate_ok: "connector_ok c \<Longrightarrow> connector_ok (connector_deactivate c)"
proof (cases "cn_provider c")
  case (Some i)
  assume "connector_ok c"
  then have ok: "connector_ok (emit Deactivate c)" by simp
  have "closed_ok ((cn_sessions c ! i)\<lparr>ws_listening := False, ws_open := False\<rparr>)" by (simp add: closed_ok_def)
  from connector_ok_update [OF ok this, of i] Some show ?thesis by (simp add: connector_deactivate_def)
qed (simp add: connector_deactivate_def)

lemma report_ok:
  assumes "connector_ok c" "\<And>s. closed_ok s \<Longrightarrow> closed_ok (f s)"
      and "\<And>c'. connector_ok c' \<Longrightarrow> connector_ok (handler c')"
  shows "connector_ok (report i f handler c)"
proof (cases "i < length (cn_sessions c)")
  case True
  then have "closed_ok (cn_sessions c ! i)" using assms(1) by (simp add: connector_ok_def closed_ok_def)
  from connector_ok_update [OF assms(1) assms(2) [OF this], of i] assms show ?thesis
    by (simp add: report_def Let_def)
next
  case False
  with assms(1) show ?thesis by (simp add: report_def)
qed

interpretation connector: reducer connector_step "\<lambda>_. True" connector_ok
proof unfold_locales
  fix a c assume ok: "connector_ok c"
  have d: "connector_ok c' \<Longrightarrow> connector_ok (case handleDisconnect c' of Inl _ \<Rightarrow> c' | Inr c'' \<Rightarrow> c'')" for c'
    by (simp add: handleDisconnect_def deactivate_ok)
  show "connector_ok (connector_step a c)"
  proof (cases a)
    case (Activate e)
    with ok show ?thesis by (cases e) (auto simp: connector_activate_def connector_ok_def Let_def)
  next
    case DeactivateCall
    with ok show ?thesis by (simp add: deactivate_ok)
  next
    case (AccountsOf i xs)
    have "connector_ok (report i (\<lambda>s. s\<lparr>ws_accounts := xs\<rparr>) (handleAccountsChanged xs) c)"
      using ok by (rule report_ok) (simp_all add: handleAccountsChanged_def closed_ok_def)
    with AccountsOf show ?thesis by simp
  next
    case (ChainOf i n)
    have "connector_ok (report i (\<lambda>s. s\<lparr>ws_chain := n\<rparr>) (handleChainChanged n) c)"
      using ok by (rule report_ok) (simp_all add: handleChainChanged_def closed_ok_def)
    with ChainOf show ?thesis by simp
  next
    case (DisconnectOf i)
    have "connector_ok (report i (\<lambda>s. s\<lparr>ws_open := False\<rparr>)
        (\<lambda>c'. case handleDisconnect c' of Inl _ \<Rightarrow> c' | Inr c'' \<Rightarrow> c'') c)"
      using ok by (rule report_ok) (simp_all add: closed_ok_def d)
    with DisconnectOf show ?thesis by simp
  qed
qed

lemma new_connector_ok: "connector_ok new_connector"
  by (simp add: connector_ok_def new_connector_def)

lemma connector_reached: "connector_ok (fold connector_step acts new_connector)"
  using connector.run_inv [OF new_connector_ok] by simp

lemma current_newest:
  "connector_ok c \<Longrightarrow> current_session c = (if cn_sessions c = [] then None else Some (last (cn_sessions c)))"
  by (auto simp: connector_ok_def current_session_def last_conv_nth)


text \<open>When a connector is activated twice, the end of the first session deactivates the second.\<close>

lemma first_session_ends_second:
  "let c = fold connector_step [Activate (Some (1, [''0xA''])), Activate (Some (1, [''0xB''])), DisconnectOf 0] new_connector
   in map ws_open (cn_sessions c) = [False, False] \<and> ws_listening (cn_sessions c ! 0) \<and> cn_emitted c = [Deactivate]"
  by (simp add: connector_activate_def new_connector_def report_def handleDisconnect_def connector_deactivate_def emit_def)

section \<open>The wallet in the navigation bar\<close>

record nav_wallet =
  nw_buttonUp :: bool
  nw_showConnectModal :: bool

datatype nav_action = OpenModal | DismissModal | ToggleMenu | SwitchWallet | DisconnectWallet
  | Connected "(string option \<times> string option) option" | ProviderDisconnected

text \<open>The handlers of \<open>NavWallet\<close> with the wallet they deactivate; \<open>Connected\<close> is the answer of the
  connector that a button of the modal activates, \<open>ProviderDisconnected\<close> the event \<open>useWallet\<close>
  listens for.\<close>

definition switchWalletHandler :: "nat \<Rightarrow> string \<Rightarrow> nav_wallet \<times> wallet \<Rightarrow> nav_wallet \<times> wallet" where
  "switchWalletHandler chain public s =
     (let n1 = (fst s)\<lparr>nw_showConnectModal := False\<rparr>; n2 = n1\<lparr>nw_buttonUp := False\<rparr>;
          w = wallet_deactivate chain public (snd s);
          n3 = n2\<lparr>nw_showConnectModal := False\<rparr>
      in (n3\<lparr>nw_showConnectModal := True\<rparr>, w))"

definition disconectWalletHandler :: "nat \<Rightarrow> string \<Rightarrow> nav_wallet \<times> wallet \<Rightarrow> nav_wallet \<times> wallet" where
  "disconectWalletHandler chain public s =
     ((fst s)\<lparr>nw_showConnectModal := False, nw_buttonUp := False\<rparr>, wallet_deactivate chain public (snd s))"

text \<open>\<open>activeAccount\<close> is the wallet's account; an empty one counts as none for the button.\<close>

definition modal_shown :: "nav_wallet \<times> wallet \<Rightarrow> bool" where
  "modal_shown s \<longleftrightarrow> nw_showConnectModal (fst s) \<and> w_account (snd s) = None"

definition connected_content :: "nav_wallet \<times> wallet \<Rightarrow> bool" where
  "connected_content s \<longleftrightarrow> (case w_account (snd s) of None \<Rightarrow> False | Some a \<Rightarrow> a \<noteq> [])"

text \<open>An action is possible only where its control is shown; the answer of a connector may come at any
  time, also when the dialogue has been dismissed.\<close>

definition nav_step ::
  "nat \<Rightarrow> string \<Rightarrow> (string \<Rightarrow> nat option) \<Rightarrow> nav_action \<Rightarrow> nav_wallet \<times> wallet \<Rightarrow> nav_wallet \<times> wallet" where
  "nav_step chain public getNetwork a s =
     (case a of
        OpenModal \<Rightarrow> if connected_content s then s else ((fst s)\<lparr>nw_showConnectModal := True\<rparr>, snd s)
      | DismissModal \<Rightarrow> if modal_shown s then ((fst s)\<lparr>nw_showConnectModal := False\<rparr>, snd s) else s
      | ToggleMenu \<Rightarrow> if connected_content s then ((fst s)\<lparr>nw_buttonUp := \<not> nw_buttonUp (fst s)\<rparr>, snd s) else s
      | SwitchWallet \<Rightarrow> if connected_content s then switchWalletHandler chain public s else s
      | DisconnectWallet \<Rightarrow> if connected_content s then disconectWalletHandler chain public s else s
      | Connected result \<Rightarrow> (fst s, wallet_activate result getNetwork (snd s))
      | ProviderDisconnected \<Rightarrow> (fst s, wallet_deactivate chain public (snd s)))"


definition nav_start :: "nat \<Rightarrow> string \<Rightarrow> nav_wallet \<times> wallet" where
  "nav_start chain public =
     (\<lparr>nw_buttonUp = False, nw_showConnectModal = False\<rparr>,
      \<lparr>w_account = None, w_chainId = chain, w_provider = public\<rparr>)"

definition nav_ok :: "nav_wallet \<times> wallet \<Rightarrow> bool" where
  "nav_ok s \<longleftrightarrow> w_account (snd s) \<noteq> Some []"

interpretation nav_wallet: reducer "nav_step chain public getNetwork" "\<lambda>_. True" nav_ok
  for chain public getNetwork
proof unfold_locales
  fix a s assume "nav_ok s"
  then show "nav_ok (nav_step chain public getNetwork a s)"
    by (cases a)
       (auto simp: nav_ok_def nav_step_def connected_content_def modal_shown_def switchWalletHandler_def
         disconectWalletHandler_def wallet_deactivate_def wallet_activate_def Let_def split: option.splits)
qed

text \<open>
  The wallet's menu.  Whatever has been clicked, connected and disconnected: the account is
  never the empty string, so that exactly one of the menu and the connect button is there; switching the
  wallet from the menu forgets it and opens the dialogue, disconnecting forgets it and opens nothing,
  both leave the public provider on the application's chain.  But the dialogue through which a wallet
  is connected is not closed, only hidden: when the wallet disconnects by itself, it opens again.
\<close>

theorem wallet_menu_consistent:
  fixes acts :: "nav_action list" and chain :: nat and public :: string and getNetwork :: "string \<Rightarrow> nat option"
    and result :: "(string option \<times> string option) option"
  defines "s \<equiv> fold (nav_step chain public getNetwork) acts (nav_start chain public)"
  shows "w_account (snd s) \<noteq> Some []
       \<and> (connected_content s \<longrightarrow>
            (let t = nav_step chain public getNetwork SwitchWallet s;
                 u = nav_step chain public getNetwork DisconnectWallet s
             in modal_shown t \<and> \<not> connected_content t \<and> \<not> modal_shown u \<and> \<not> connected_content u
                \<and> snd t = snd (nav_start chain public) \<and> snd u = snd (nav_start chain public)))
       \<and> (modal_shown s \<longrightarrow>
            modal_shown (fold (nav_step chain public getNetwork) [Connected result, ProviderDisconnected] s))"
proof -
  have "nav_ok (nav_start chain public)" by (simp add: nav_ok_def nav_start_def connected_content_def)
  then have "nav_ok s" unfolding s_def using nav_wallet.run_inv by simp
  then show ?thesis
    by (auto simp: nav_ok_def nav_step_def connected_content_def modal_shown_def switchWalletHandler_def
        disconectWalletHandler_def wallet_deactivate_def nav_start_def Let_def)
qed

lemma wallet_menu_consistent_witness:
  "let s = fold (nav_step 1 ''public'' demo_network) [OpenModal] (nav_start 1 ''public'')
   in connected_content (nav_step 1 ''public'' demo_network (Connected (Some (Some ''0xA1'', Some ''metamask''))) s)
      \<and> modal_shown (fold (nav_step 1 ''public'' demo_network)
            [Connected (Some (Some ''0xA1'', Some ''metamask'')), ProviderDisconnected] s)
      \<and> \<not> modal_shown (nav_step 1 ''public'' demo_network DisconnectWallet
            (nav_step 1 ''public'' demo_network (Connected (Some (Some ''0xA1'', Some ''metamask''))) s))"
proof -
  let ?r = "Some (Some ''0xA1'', Some ''metamask'')"
  let ?s = "fold (nav_step 1 ''public'' demo_network) [OpenModal] (nav_start 1 ''public'')"
  have s: "modal_shown ?s" by (simp add: nav_step_def nav_start_def modal_shown_def connected_content_def)
  have c: "connected_content (nav_step 1 ''public'' demo_network (Connected ?r) ?s)"
    by (simp add: nav_step_def nav_start_def connected_content_def wallet_activate_def demo_network_def)
  have "modal_shown (fold (nav_step 1 ''public'' demo_network) [Connected ?r, ProviderDisconnected] ?s)"
    using wallet_menu_consistent [where acts = "[OpenModal]" and chain = 1 and public = "''public''" and getNetwork = demo_network and result = ?r] s by blast
  moreover have "\<not> modal_shown (nav_step 1 ''public'' demo_network DisconnectWallet
      (nav_step 1 ''public'' demo_network (Connected ?r) ?s))"
    using wallet_menu_consistent [where acts = "[OpenModal, Connected ?r]" and chain = 1 and public = "''public''" and getNetwork = demo_network] c
    by (simp add: Let_def)
  ultimately show ?thesis using c unfolding Let_def by (intro conjI)
qed

text \<open>The arrow of the menu survives the menu: after a disconnection by the wallet itself it still points up.\<close>

lemma arrow_survives:
  "nw_buttonUp (fst (nav_step chain public getNetwork ProviderDisconnected s)) = nw_buttonUp (fst s)"
  by (simp add: nav_step_def)

text \<open>The name the bar shows: shorter in Japanese on small screens.\<close>

definition nav_label :: "(string \<Rightarrow> string) \<Rightarrow> (string \<Rightarrow> string) \<Rightarrow> (string \<Rightarrow> string) \<Rightarrow> (string \<Rightarrow> string) \<Rightarrow>
    string \<Rightarrow> string option \<Rightarrow> string \<Rightarrow> string" where
  "nav_label veryShortENS shortENS veryShortAddress shortAddress activeLocale ens address =
     (case ens of
        None \<Rightarrow> if activeLocale = ''ja-JP'' then veryShortAddress address else shortAddress address
      | Some n \<Rightarrow>
          if n = [] then (if activeLocale = ''ja-JP'' then veryShortAddress address else shortAddress address)
          else if activeLocale = ''ja-JP'' then veryShortENS n else shortENS n)"

section \<open>Configured and unconfigured chains\<close>

text \<open>
  The application is configured for the chains of its table.  With the variable unset the chain
  is Rinkeby; the endpoints, the address of the Lido token and the name used in the warning are
  defined exactly on the supported chains 1, 4, 5 and 31337 (the Lido token not on the local one); an
  unknown chain gives no addresses instead of an error; and an endpoint set by the environment wins
  when it is not empty.
\<close>

theorem configuration_of_chains:
  "(env ''REACT_APP_CHAIN_ID'' = None \<longrightarrow> CHAIN_ID env = Some 4)
   \<and> (app_of env chain \<noteq> None \<longleftrightarrow> chain \<in> Some ` {1, 4, 5, 31337})
   \<and> (lido_of chain = None \<longleftrightarrow> app_of env chain = None)
   \<and> (table chain = None \<longrightarrow> fst (getAddresses table chain) = None)
   \<and> (table chain \<noteq> None \<longrightarrow> getContractAddressesForChainOrThrow table chain = Inr (the (fst (getAddresses table chain))))
   \<and> (\<forall>v. env ''REACT_APP_MAINNET_JSONRPC'' = Some v \<and> v \<noteq> [] \<longrightarrow>
        map_option cf_jsonRpcUri (app_of env (Some 1)) = Some v)"
proof -
  have "parseInt None ''4'' = Some 4" by code_simp
  then have a: "env ''REACT_APP_CHAIN_ID'' = None \<longrightarrow> CHAIN_ID env = Some 4" by (simp add: CHAIN_ID_def env_or_def)
  have b: "app_of env chain \<noteq> None \<longleftrightarrow> chain \<in> Some ` {1, 4, 5, 31337}"
    by (auto simp: app_of_def Let_def)
  have c: "lido_of chain = None \<longleftrightarrow> app_of env chain = None"
    by (simp add: lido_of_def app_of_def Let_def)
  have "''REACT_APP_'' @ map to_upper ''mainnet'' @ ''_JSONRPC'' = ''REACT_APP_MAINNET_JSONRPC''" by code_simp
  then have d: "\<forall>v. env ''REACT_APP_MAINNET_JSONRPC'' = Some v \<and> v \<noteq> [] \<longrightarrow>
        map_option cf_jsonRpcUri (app_of env (Some 1)) = Some v"
    by (simp only: app_of_def createNetworkHttpUrl_def network_url_def) (simp add: Let_def)
  show ?thesis using a b c d by (auto simp: getAddresses_def getContractAddressesForChainOrThrow_def split: option.splits)
qed

end
