(* ===== verification/Web_Page.thy ===== *)
theory Web_Page
  imports Web_Auction
begin

text \<open>
  The auction page: \<open>pages/Auction/index.tsx\<close>, \<open>components/Auction\<close>, \<open>components/AuctionNavigation\<close>,
  \<open>components/AlperAlpContent\<close> and the routes of \<open>App.tsx\<close> that lead to them.  The page keeps
  the alp on display in step with the address bar through an effect.  React 17 runs the effects of
  a render after it, and at the latest before the next render begins; an event that React itself
  dispatches (a click) renders once at its end, while a native listener (a key) or a message of the
  socket renders after every single update.  The state below carries the effect that waits, with
  the values its closure captured.
\<close>

section \<open>The page\<close>

text \<open>What the effect depends on: the last auction, the route's id and the auction on display.
  \<open>Number(id)\<close> of a route that is no number is \<open>NaN\<close>, the inner \<open>None\<close>; fractional ids are left out.\<close>

type_synonym page_deps = "int option \<times> jsnum option \<times> web_auction option"

type_synonym page_inputs = "web_auction option \<times> auction_state list \<times> on_display_state \<times> jsnum option"

record page_state =
  pg_auction :: auction_state
  pg_past :: "auction_state list"
  pg_display :: on_display_state
  pg_route :: "jsnum option" \<comment> \<open>\<open>initialAuctionId\<close>: the route that the page's router is on\<close>
  pg_url :: string \<comment> \<open>the address bar\<close>
  pg_rendered :: "page_inputs option"
  pg_ran :: "page_deps option"
  pg_pending :: "page_deps option"
  pg_broken :: bool \<comment> \<open>a render threw: nothing is mounted any more\<close>

definition show_alp :: "int \<Rightarrow> page_state \<Rightarrow> page_state" where
  "show_alp n s = s\<lparr>pg_display := setOnDisplayAuctionAlpId n (pg_display s)\<rparr>"

text \<open>
  The body of the effect.  \<open>dispatch(push(...))\<close> goes to the history of the store, not to the one
  of the page's own \<open>BrowserRouter\<close>: the address bar changes, the route does not.  \<open>NaN\<close> compares
  false with everything and is put on display, where \<open>BigNumber.from\<close> throws in the next render.
\<close>

fun page_effect :: "page_deps \<Rightarrow> page_state \<Rightarrow> page_state" where
  "page_effect (lastId, route, shown) s =
     (case lastId of
        None \<Rightarrow> s
      | Some l \<Rightarrow>
          if l = 0 then s
          else
            (case route of
               Some n \<Rightarrow>
                 (case n of
                    Some i \<Rightarrow>
                      if i > l \<or> i < 0 then (show_alp l s)\<lparr>pg_url := alpPath l\<rparr>
                      else if shown = None then show_alp i s
                      else s
                  | None \<Rightarrow> if shown = None then s\<lparr>pg_broken := True\<rparr> else s)
             | None \<Rightarrow> show_alp l s))"

definition page_shown :: "page_state \<Rightarrow> web_auction option option" where
  "page_shown s = useOnDisplayAuction (pg_auction s) (pg_display s) (pg_past s)"

definition inputs_of :: "page_state \<Rightarrow> page_inputs" where
  "inputs_of s = (activeAuction (pg_auction s), pg_past s, pg_display s, pg_route s)"

text \<open>\<open>onDisplayAuction\<close> is a new object in every render, so only an undefined one lets the effect
  be skipped.\<close>

definition page_render :: "page_state \<Rightarrow> page_state" where
  "page_render s =
     (if pg_broken s \<or> pg_rendered s = Some (inputs_of s) then s
      else
        (case page_shown s of
           None \<Rightarrow> s\<lparr>pg_broken := True\<rparr>
         | Some a \<Rightarrow>
             let d = (lastAuctionAlpId (pg_display s), pg_route s, a);
                 s' = s\<lparr>pg_rendered := Some (inputs_of s)\<rparr>
             in if a = None \<and> pg_ran s = Some d then s'
                else s'\<lparr>pg_ran := Some d, pg_pending := Some d\<rparr>))"

definition run_effect :: "page_state \<Rightarrow> page_state" where
  "run_effect s =
     (case pg_pending s of None \<Rightarrow> s | Some d \<Rightarrow> page_effect d (s\<lparr>pg_pending := None\<rparr>))"

definition rerender :: "page_state \<Rightarrow> page_state" where
  "rerender s = page_render (run_effect s)"

definition settle :: "page_state \<Rightarrow> page_state" where
  "settle s = run_effect (page_render (run_effect s))"

type_synonym page_update = "page_state \<Rightarrow> page_state"

definition batched :: "page_update list \<Rightarrow> page_state \<Rightarrow> page_state" where
  "batched us s = settle (rerender (fold (\<lambda>u. u) us s))"

definition unbatched :: "page_update list \<Rightarrow> page_state \<Rightarrow> page_state" where
  "unbatched us s = settle (fold (\<lambda>u t. rerender (u t)) us s)"

section \<open>Moving with the buttons and the keys\<close>

definition dispatch_display :: "(on_display_state \<Rightarrow> on_display_state) \<Rightarrow> page_update" where
  "dispatch_display f s = s\<lparr>pg_display := f (pg_display s)\<rparr>"

text \<open>A push on the page's own history is a new location even for the same path: the page renders.\<close>

definition history_push :: "int \<Rightarrow> page_update" where
  "history_push n s =
     s\<lparr>pg_route := Some (Some n), pg_url := ''/alp/'' @ show_int n, pg_rendered := None\<rparr>"

definition prevAuctionHandler :: "web_auction option \<Rightarrow> page_update list" where
  "prevAuctionHandler currentAuction =
     dispatch_display setPrevOnDisplayAuctionAlpId #
     (case currentAuction of None \<Rightarrow> [] | Some a \<Rightarrow> [history_push (wa_alpId a - 1)])"

definition nextAuctionHandler :: "web_auction option \<Rightarrow> page_update list" where
  "nextAuctionHandler currentAuction =
     dispatch_display setNextOnDisplayAuctionAlpId #
     (case currentAuction of None \<Rightarrow> [] | Some a \<Rightarrow> [history_push (wa_alpId a + 1)])"

text \<open>Which of the two contents is mounted, with \<open>isFirstAuction\<close> and \<open>isLastAuction\<close>; with no
  last auction, or auction 0, there is none.\<close>

datatype auction_content = NoContent | AlperContent bool bool | ActivityContent bool bool

definition auction_content :: "web_auction option \<Rightarrow> int option \<Rightarrow> auction_content" where
  "auction_content currentAuction lastAlpId =
     (case (currentAuction, lastAlpId) of
        (Some a, Some l) \<Rightarrow>
          if l = 0 then NoContent
          else if isAlperAlp (wa_alpId a) \<or> isAlpsCouncil (wa_alpId a)
               then AlperContent (wa_alpId a = 0) (wa_alpId a = l)
               else ActivityContent (wa_alpId a = 0) (wa_alpId a = l)
      | _ \<Rightarrow> NoContent)"

datatype arrow = ArrowLeft | ArrowRight

definition nav_handleKeyPress ::
  "web_auction option \<Rightarrow> int option \<Rightarrow> bool \<Rightarrow> bool \<Rightarrow> arrow \<Rightarrow> page_update list" where
  "nav_handleKeyPress onDisplay lastId isFirst isLast k =
     (case k of
        ArrowLeft \<Rightarrow>
          (if map_option wa_alpId onDisplay = lastId
           then (case lastId of None \<Rightarrow> [] | Some l \<Rightarrow> [history_push l]) else [])
          @ (if \<not> isFirst then prevAuctionHandler onDisplay else [])
      | ArrowRight \<Rightarrow> if \<not> isLast then nextAuctionHandler onDisplay else [])"

definition alper_handleKeyPress :: "web_auction option \<Rightarrow> arrow \<Rightarrow> page_update list" where
  "alper_handleKeyPress onDisplay k =
     (case k of ArrowLeft \<Rightarrow> prevAuctionHandler onDisplay | ArrowRight \<Rightarrow> nextAuctionHandler onDisplay)"

text \<open>
  \<open>AlperAlpContent\<close> listens beside the navigation it contains.  The navigation's listener was added
  first; when it updates anything, the render it causes has removed the other listener before the
  browser comes to it, so the second one acts exactly when the first one did nothing.
\<close>

definition page_key :: "arrow \<Rightarrow> page_state \<Rightarrow> page_state" where
  "page_key k s =
     (case page_shown s of
        None \<Rightarrow> s
      | Some c \<Rightarrow>
          let lastId = lastAuctionAlpId (pg_display s) in
          (case auction_content c lastId of
             NoContent \<Rightarrow> s
           | ActivityContent isFirst isLast \<Rightarrow> unbatched (nav_handleKeyPress c lastId isFirst isLast k) s
           | AlperContent isFirst isLast \<Rightarrow>
               let us = nav_handleKeyPress c lastId isFirst isLast k
               in unbatched (if us = [] then alper_handleKeyPress c k else us) s))"

definition nav_button :: "web_auction option \<Rightarrow> bool \<Rightarrow> bool \<Rightarrow> arrow \<Rightarrow> page_update list" where
  "nav_button c isFirst isLast k =
     (case k of
        ArrowLeft \<Rightarrow> if isFirst then [] else prevAuctionHandler c
      | ArrowRight \<Rightarrow> if isLast then [] else nextAuctionHandler c)"

definition page_click :: "arrow \<Rightarrow> page_state \<Rightarrow> page_state" where
  "page_click k s =
     (case page_shown s of
        None \<Rightarrow> s
      | Some c \<Rightarrow>
          (case auction_content c (lastAuctionAlpId (pg_display s)) of
             NoContent \<Rightarrow> s
           | AlperContent isFirst isLast \<Rightarrow> batched (nav_button c isFirst isLast k) s
           | ActivityContent isFirst isLast \<Rightarrow> batched (nav_button c isFirst isLast k) s))"

text \<open>The browser's back button, or a link that leads to another route without touching the store.\<close>

definition page_pop :: "jsnum option \<Rightarrow> string \<Rightarrow> page_state \<Rightarrow> page_state" where
  "page_pop r url s = batched [\<lambda>t. t\<lparr>pg_route := r, pg_url := url, pg_rendered := None\<rparr>] s"

datatype press_action = Click arrow | Key arrow

fun press :: "press_action \<Rightarrow> page_state \<Rightarrow> page_state" where
  "press (Click k) s = page_click k s"
| "press (Key k) s = page_key k s"

section \<open>What the chain and the subgraph bring\<close>

text \<open>The dispatches of \<open>loadState\<close> and of \<open>processAuctionCreated\<close>, in their order, each followed
  by the renders it causes.\<close>

definition page_loaded :: "web_auction \<Rightarrow> page_state \<Rightarrow> page_state" where
  "page_loaded a s =
     unbatched
       [\<lambda>t. t\<lparr>pg_auction := setFullAuction (reduxSafeAuction a) (pg_auction t)\<rparr>,
        dispatch_display (setLastAuctionAlpId (wa_alpId a))] s"

definition page_created :: "int \<Rightarrow> int \<Rightarrow> int \<Rightarrow> page_state \<Rightarrow> page_state" where
  "page_created i st en s =
     unbatched
       [\<lambda>t. t\<lparr>pg_auction := setActiveAuction
                 \<lparr>ac_alpId = i, ac_startTime = st, ac_endTime = en, ac_settled = False\<rparr> (pg_auction t)\<rparr>,
        \<lambda>t. t\<lparr>pg_url := alpPath i\<rparr>,
        dispatch_display (setOnDisplayAuctionAlpId i),
        dispatch_display (setLastAuctionAlpId i)] s"

text \<open>\<open>PastAuctions\<close> queries the auctions once; when a new auction begins it dispatches the same
  answer again.\<close>

definition past_effect :: "(string \<Rightarrow> int option) \<Rightarrow> subgraph_auction list option \<Rightarrow> page_state \<Rightarrow> page_state" where
  "past_effect bn answer s =
     (case answer of None \<Rightarrow> s | Some xs \<Rightarrow> batched [\<lambda>t. t\<lparr>pg_past := addPastAuctions bn xs (pg_past t)\<rparr>] s)"

definition page_start :: "jsnum option \<Rightarrow> string \<Rightarrow> auction_state list \<Rightarrow> page_state" where
  "page_start r url past =
     settle (page_render
       \<lparr>pg_auction = initial_auction_state, pg_past = past, pg_display = initial_on_display,
        pg_route = r, pg_url = url, pg_rendered = None, pg_ran = None, pg_pending = None,
        pg_broken = False\<rparr>)"

section \<open>Pages whose auctions are all known\<close>

definition all_known :: "int \<Rightarrow> page_state \<Rightarrow> bool" where
  "all_known l s \<longleftrightarrow>
     (\<forall>x\<in>set (pg_past s). activeAuction x \<noteq> None) \<and>
     (\<exists>c. activeAuction (pg_auction s) = Some c \<and>
        (\<forall>d. 0 \<le> d \<and> d \<le> l \<and> d \<noteq> wa_alpId c \<and> d mod 5 \<noteq> 0 \<longrightarrow>
           List.find (has_auction d) (pg_past s) \<noteq> None))"

definition live :: "int \<Rightarrow> int \<Rightarrow> page_state \<Rightarrow> bool" where
  "live l d s \<longleftrightarrow>
     \<not> pg_broken s \<and> 0 < l \<and> 0 \<le> d \<and> d \<le> l \<and> all_known l s \<and>
     pg_display s = \<lparr>lastAuctionAlpId = Some l, onDisplayAuctionAlpId = Some d\<rparr>"

definition same_page :: "page_state \<Rightarrow> page_state \<Rightarrow> bool" where
  "same_page s t \<longleftrightarrow>
     pg_auction t = pg_auction s \<and> pg_past t = pg_past s \<and> pg_display t = pg_display s \<and>
     pg_route t = pg_route s \<and> pg_url t = pg_url s \<and> pg_broken t = pg_broken s"

definition calm :: "page_state \<Rightarrow> bool" where
  "calm s \<longleftrightarrow> pg_pending s = None \<and> pg_rendered s = Some (inputs_of s)"

definition in_range :: "int \<Rightarrow> jsnum option \<Rightarrow> bool" where
  "in_range l r \<longleftrightarrow> (\<exists>i. r = Some (Some i) \<and> 0 \<le> i \<and> i \<le> l)"

text \<open>An effect that waits for a state in which the route is one of the alps changes nothing.\<close>

definition harmless :: "int \<Rightarrow> page_state \<Rightarrow> bool" where
  "harmless l s \<longleftrightarrow>
     pg_pending s = None \<or> (\<exists>k r a. k \<le> l \<and> pg_pending s = Some (Some k, r, Some a) \<and> in_range k r)"

lemma live_shown:
  assumes "live l d s"
  shows "\<exists>a. page_shown s = Some (Some a) \<and> wa_alpId a = d"
proof -
  obtain c where c: "activeAuction (pg_auction s) = Some c"
    and k: "\<forall>d. 0 \<le> d \<and> d \<le> l \<and> d \<noteq> wa_alpId c \<and> d mod 5 \<noteq> 0 \<longrightarrow> List.find (has_auction d) (pg_past s) \<noteq> None"
    using assms unfolding live_def all_known_def by blast
  have p: "\<forall>x\<in>set (pg_past s). activeAuction x \<noteq> None" and o': "onDisplayAuctionAlpId (pg_display s) = Some d"
    using assms by (auto simp: live_def all_known_def)
  obtain r where r: "page_shown s = Some r" and body: "case r of
        None \<Rightarrow> d \<noteq> wa_alpId c \<and> d mod 5 \<noteq> 0 \<and> List.find (has_auction d) (pg_past s) = None
      | Some a \<Rightarrow> wa_alpId a = d"
    using display_shows_requested [OF o' c p] by (fastforce simp: page_shown_def split: option.splits)
  have "r \<noteq> None"
    using body k assms by (cases r) (auto simp: live_def)
  with r body show ?thesis by auto
qed

lemma harmless_run:
  "harmless l s \<Longrightarrow> run_effect s = s\<lparr>pg_pending := None\<rparr>"
  by (auto simp: harmless_def run_effect_def in_range_def)

lemma render_live:
  assumes "live l d s" "pg_pending s = None"
  obtains a where "same_page s (page_render s)" "pg_rendered (page_render s) = Some (inputs_of (page_render s))"
    "pg_pending (page_render s) = None \<and> pg_rendered s = Some (inputs_of s)
     \<or> pg_pending (page_render s) = Some (Some l, pg_route s, Some a)"
proof -
  obtain a where a: "page_shown s = Some (Some a)" using live_shown [OF assms(1)] by blast
  have i: "inputs_of (s\<lparr>pg_rendered := x, pg_ran := y, pg_pending := z\<rparr>) = inputs_of s" for x y z
    by (simp add: inputs_of_def)
  show ?thesis
    using assms a i by (intro that [of a]) (auto simp: page_render_def same_page_def live_def Let_def)
qed

lemma same_page_live: "same_page s t \<Longrightarrow> live l d t = live l d s"
  by (simp add: same_page_def live_def all_known_def)

lemma same_page_refl [simp]: "same_page s s"
  by (simp add: same_page_def)

lemma same_page_clear [simp]: "same_page s (s\<lparr>pg_pending := x\<rparr>)"
  by (simp add: same_page_def)

lemma same_page_trans: "same_page s t \<Longrightarrow> same_page t u \<Longrightarrow> same_page s u"
  by (simp add: same_page_def)

lemma rerender_live:
  assumes "live l d s" "harmless l s"
  obtains a where "same_page s (rerender s)" "pg_rendered (rerender s) = Some (inputs_of (rerender s))"
    "pg_pending (rerender s) = None \<and> pg_rendered s = Some (inputs_of s)
     \<or> pg_pending (rerender s) = Some (Some l, pg_route s, Some a)"
proof -
  let ?t = "s\<lparr>pg_pending := None\<rparr>"
  have "live l d ?t" using assms(1) same_page_live [of s ?t] by simp
  then obtain a where a: "same_page ?t (page_render ?t)" "pg_rendered (page_render ?t) = Some (inputs_of (page_render ?t))"
    "pg_pending (page_render ?t) = None \<and> pg_rendered ?t = Some (inputs_of ?t)
     \<or> pg_pending (page_render ?t) = Some (Some l, pg_route ?t, Some a)"
    by (rule render_live) auto
  have r: "rerender s = page_render ?t" using harmless_run [OF assms(2)] by (simp add: rerender_def)
  show ?thesis
    using a by (intro that [of a]) (auto simp: r same_page_def inputs_of_def)
qed

section \<open>Where a page comes to rest\<close>

text \<open>At rest: nothing is left to run, and the address bar names the alp on display, either because
  the route does, or because the route names no auction and the last one is shown.\<close>

definition at_rest :: "int \<Rightarrow> int \<Rightarrow> page_state \<Rightarrow> bool" where
  "at_rest l d s \<longleftrightarrow>
     live l d s \<and> calm s \<and>
     (pg_route s = Some (Some d) \<and> pg_url s = alpPath d
      \<or> d = l \<and> pg_route s = None
      \<or> d = l \<and> (\<exists>i. pg_route s = Some (Some i) \<and> \<not> (0 \<le> i \<and> i \<le> l)) \<and> pg_url s = alpPath l)"

lemma settle_in_range:
  assumes "live l d s" "harmless l s" "in_range l (pg_route s)"
  shows "same_page s (settle s) \<and> calm (settle s)"
proof -
  obtain a where a: "same_page s (rerender s)" "pg_rendered (rerender s) = Some (inputs_of (rerender s))"
    "pg_pending (rerender s) = None \<and> pg_rendered s = Some (inputs_of s)
     \<or> pg_pending (rerender s) = Some (Some l, pg_route s, Some a)"
    using rerender_live [OF assms(1,2)] by blast
  have "harmless l (rerender s)" using a(3) assms(3) by (auto simp: harmless_def)
  then have "settle s = (rerender s)\<lparr>pg_pending := None\<rparr>"
    using harmless_run by (simp add: settle_def rerender_def)
  with a show ?thesis by (auto simp: calm_def inputs_of_def intro: same_page_trans)
qed

lemma settle_calm: "calm s \<Longrightarrow> settle s = s"
  by (simp add: calm_def settle_def run_effect_def page_render_def)

text \<open>The page falls back to the last auction from a route that names none.\<close>

lemma fallback_effect:
  fixes a :: web_auction
  assumes "live l d s" "pg_route s = None \<or> (\<exists>i. pg_route s = Some (Some i) \<and> \<not> (0 \<le> i \<and> i \<le> l))"
  defines "t \<equiv> page_effect (Some l, pg_route s, Some a) s"
  shows "live l l t \<and> pg_route t = pg_route s \<and> pg_pending t = pg_pending s \<and> pg_rendered t = pg_rendered s
       \<and> pg_ran t = pg_ran s \<and> pg_url t = (if pg_route s = None then pg_url s else alpPath l)"
  using assms(1,2) unfolding t_def
  by (auto simp: live_def all_known_def show_alp_def setOnDisplayAuctionAlpId_def not_le)

lemma fallback_stable:
  assumes "live l l s" "pg_route s = None \<or> (\<exists>i. pg_route s = Some (Some i) \<and> \<not> (0 \<le> i \<and> i \<le> l)) \<and> pg_url s = alpPath l"
  shows "page_effect (Some l, pg_route s, Some a) s = s"
  using assms by (auto simp: live_def show_alp_def setOnDisplayAuctionAlpId_def not_le)

lemma settle_fallback:
  assumes "live l d s" "pg_pending s = Some (Some l, pg_route s, Some a)"
      and "pg_route s = None \<or> (\<exists>i. pg_route s = Some (Some i) \<and> \<not> (0 \<le> i \<and> i \<le> l))"
  shows "at_rest l l (settle s) \<and> pg_route (settle s) = pg_route s
       \<and> pg_url (settle s) = (if pg_route s = None then pg_url s else alpPath l)"
proof -
  let ?s = "s\<lparr>pg_pending := None\<rparr>"
  have "live l d ?s" using assms(1) same_page_live [of s ?s] by simp
  then have t: "live l l (run_effect s)" "pg_route (run_effect s) = pg_route s" "pg_pending (run_effect s) = None"
      "pg_url (run_effect s) = (if pg_route s = None then pg_url s else alpPath l)"
    using fallback_effect [of l d ?s a] assms(2,3) by (auto simp: run_effect_def)
  obtain b where u: "same_page (run_effect s) (rerender s)" "pg_rendered (rerender s) = Some (inputs_of (rerender s))"
    "pg_pending (rerender s) = None \<or> pg_pending (rerender s) = Some (Some l, pg_route s, Some b)"
    using render_live [OF t(1,3)] t(2) unfolding rerender_def by metis
  let ?u = "(rerender s)\<lparr>pg_pending := None\<rparr>"
  have lu: "live l l ?u" "pg_route ?u = pg_route s" "pg_url ?u = (if pg_route s = None then pg_url s else alpPath l)"
    using u(1) t same_page_live [OF u(1)] same_page_live [of "rerender s" ?u] by (simp_all add: same_page_def)
  then have "page_effect (Some l, pg_route ?u, Some b) ?u = ?u"
    using fallback_stable [of l ?u b] assms(3) by auto
  then have "run_effect (rerender s) = ?u"
    using u(3) lu(2) by (auto simp: run_effect_def)
  then have s': "settle s = ?u" by (simp add: settle_def rerender_def)
  have "calm ?u" using u(2) by (simp add: calm_def inputs_of_def)
  with lu assms(3) show ?thesis unfolding s' at_rest_def by auto
qed

section \<open>The navigation is in step with the address bar\<close>

lemma live_push [simp]: "live l d (history_push n s) = live l d s"
  by (simp add: live_def all_known_def history_push_def)

lemma push_rest:
  assumes "live l d s" "harmless l s" "n = d \<or> \<not> (0 \<le> n \<and> n \<le> l)"
  shows "at_rest l (if n = d then d else l) (settle (rerender (history_push n s)))"
proof -
  let ?p = "history_push n s"
  have p: "live l d ?p" "harmless l ?p" "pg_rendered ?p = None" "pg_route ?p = Some (Some n)" "pg_url ?p = alpPath n"
    using assms(1) by (simp only: live_push) (use assms(2) in \<open>simp_all add: harmless_def history_push_def alpPath_def\<close>)
  obtain a where a: "same_page ?p (rerender ?p)" "pg_pending (rerender ?p) = Some (Some l, pg_route ?p, Some a)"
    using rerender_live [OF p(1,2)] p(3) by (metis option.distinct(1))
  have u: "live l d (rerender ?p)" "pg_route (rerender ?p) = Some (Some n)" "pg_url (rerender ?p) = alpPath n"
    using same_page_live [OF a(1)] p a(1) by (simp_all add: same_page_def)
  show ?thesis
  proof (cases "n = d")
    case True
    then have "in_range l (pg_route (rerender ?p))" "harmless l (rerender ?p)"
      using u(2) a(2) p(1,4) by (auto simp: in_range_def live_def harmless_def)
    from settle_in_range [OF u(1) this(2,1)] u True show ?thesis
      using same_page_live [of "rerender ?p" "settle (rerender ?p)"] by (simp add: at_rest_def same_page_def)
  next
    case False
    with settle_fallback [OF u(1)] a(2) u(2) p(4) assms(3) show ?thesis by simp
  qed
qed

lemma move_harmless:
  assumes "live l d s" "calm s" "live l d' (dispatch_display f s)"
      and "in_range l (pg_route s) \<or> dispatch_display f s = s"
  shows "live l d' (rerender (dispatch_display f s)) \<and> harmless l (rerender (dispatch_display f s))"
proof -
  let ?m = "dispatch_display f s"
  have h: "harmless l ?m" using assms(2) by (simp add: harmless_def calm_def dispatch_display_def)
  obtain a where a: "same_page ?m (rerender ?m)"
    "pg_pending (rerender ?m) = None \<and> pg_rendered ?m = Some (inputs_of ?m)
     \<or> pg_pending (rerender ?m) = Some (Some l, pg_route ?m, Some a)"
    using rerender_live [OF assms(3) h] by metis
  have "harmless l (rerender ?m)"
  proof (cases "?m = s")
    case True
    then have "rerender ?m = s" using assms(2) by (simp add: calm_def rerender_def run_effect_def page_render_def)
    with assms(2) show ?thesis by (simp add: harmless_def calm_def)
  next
    case False
    with a(2) assms(4) show ?thesis by (auto simp: harmless_def dispatch_display_def)
  qed
  with same_page_live [OF a(1)] assms(3) show ?thesis by simp
qed

text \<open>One handler: the display moves to \<open>d'\<close> and the address to \<open>n\<close>, in one render or in two.\<close>

lemma handler_rest:
  assumes "live l d s" "calm s" "live l d' (dispatch_display f s)" "n = d' \<or> \<not> (0 \<le> n \<and> n \<le> l)"
  shows "at_rest l (if n = d' then d' else l) (batched [dispatch_display f, history_push n] s)"
    and "in_range l (pg_route s) \<or> dispatch_display f s = s \<Longrightarrow>
           at_rest l (if n = d' then d' else l) (unbatched [dispatch_display f, history_push n] s)"
  using push_rest [of l d' "dispatch_display f s" n] push_rest [of l d' "rerender (dispatch_display f s)" n]
    move_harmless [OF assms(1,2,3)] assms
  by (simp_all add: batched_def unbatched_def harmless_def calm_def dispatch_display_def)

lemma prev_display:
  "live l d s \<Longrightarrow> live l (max 0 (d - 1)) (dispatch_display setPrevOnDisplayAuctionAlpId s)"
  by (auto simp: live_def all_known_def dispatch_display_def setPrevOnDisplayAuctionAlpId_def)

lemma next_display:
  "live l d s \<Longrightarrow> live l (min l (d + 1)) (dispatch_display setNextOnDisplayAuctionAlpId s)"
  by (auto simp: live_def all_known_def dispatch_display_def setNextOnDisplayAuctionAlpId_def)

lemma display_ends:
  "live l 0 s \<Longrightarrow> dispatch_display setPrevOnDisplayAuctionAlpId s = s"
  "live l l s \<Longrightarrow> dispatch_display setNextOnDisplayAuctionAlpId s = s"
  by (auto simp: live_def dispatch_display_def setPrevOnDisplayAuctionAlpId_def setNextOnDisplayAuctionAlpId_def)

text \<open>What a press should do.  The left key at alp 0 ends at the last auction: alp 0 has the alper
  content, whose own listener pushes \<open>/alp/-1\<close>.\<close>

fun moved :: "int \<Rightarrow> int \<Rightarrow> press_action \<Rightarrow> int" where
  "moved l d (Click ArrowLeft) = max 0 (d - 1)"
| "moved l d (Click ArrowRight) = min l (d + 1)"
| "moved l d (Key ArrowLeft) = (if d = 0 then l else d - 1)"
| "moved l d (Key ArrowRight) = min l (d + 1)"

lemma content_cases:
  assumes "live l d s"
  shows "\<exists>c. page_shown s = Some (Some c) \<and> wa_alpId c = d \<and> lastAuctionAlpId (pg_display s) = Some l \<and>
     auction_content (Some c) (Some l) =
       (if d mod 5 = 0 then AlperContent (d = 0) (d = l) else ActivityContent (d = 0) (d = l))"
proof -
  obtain c where c: "page_shown s = Some (Some c)" "wa_alpId c = d" using live_shown [OF assms] by blast
  have l: "l \<noteq> 0" "lastAuctionAlpId (pg_display s) = Some l" using assms by (simp_all add: live_def)
  have "isAlperAlp d = (d mod 5 = 0)" "isAlpsCouncil d = (d mod 5 = 0)"
    by (simp_all add: alper_multiple_of_five isAlpsCouncil_def)
  with c l show ?thesis by (simp add: auction_content_def)
qed

lemma at_rest_live: "at_rest l d s \<Longrightarrow> live l d s \<and> calm s"
  by (simp add: at_rest_def)

lemma rest_idle: "at_rest l d s \<Longrightarrow> batched [] s = s \<and> unbatched [] s = s"
  by (simp add: at_rest_def calm_def batched_def unbatched_def settle_calm rerender_def run_effect_def page_render_def)

lemma at_rest_route: "at_rest l d s \<Longrightarrow> d \<noteq> l \<Longrightarrow> in_range l (pg_route s)"
  by (auto simp: at_rest_def in_range_def live_def)

lemma click_rest:
  assumes "at_rest l d s"
  shows "at_rest l (moved l d (Click k)) (page_click k s)"
proof -
  obtain c where c: "page_shown s = Some (Some c)" "wa_alpId c = d" "lastAuctionAlpId (pg_display s) = Some l"
    and cont: "auction_content (Some c) (Some l) =
       (if d mod 5 = 0 then AlperContent (d = 0) (d = l) else ActivityContent (d = 0) (d = l))"
    using content_cases at_rest_live [OF assms] by metis
  have s': "page_click k s = batched (nav_button (Some c) (d = 0) (d = l) k) s" for k
    using c cont by (simp add: page_click_def)
  note lc = at_rest_live [OF assms, THEN conjunct1] at_rest_live [OF assms, THEN conjunct2]
  show ?thesis
  proof (cases k)
    case ArrowLeft
    show ?thesis
    proof (cases "d = 0")
      case False
      then have "max 0 (d - 1) = d - 1" using lc(1) by (simp add: live_def)
      then show ?thesis
        using handler_rest(1) [OF lc prev_display [OF lc(1)], of "d - 1"] False c(2)
        by (simp add: s' ArrowLeft nav_button_def prevAuctionHandler_def)
    qed (use assms rest_idle in \<open>simp add: s' ArrowLeft nav_button_def\<close>)
  next
    case ArrowRight
    show ?thesis
    proof (cases "d = l")
      case False
      then have "min l (d + 1) = d + 1" using lc(1) by (simp add: live_def)
      then show ?thesis
        using handler_rest(1) [OF lc next_display [OF lc(1)], of "d + 1"] False c(2)
        by (simp add: s' ArrowRight nav_button_def nextAuctionHandler_def)
    qed (use assms rest_idle in \<open>simp add: s' ArrowRight nav_button_def min_def\<close>)
  qed
qed

lemma push_live:
  assumes "live l d s" "harmless l s" "in_range l (Some (Some n))"
  shows "live l d (rerender (history_push n s)) \<and> harmless l (rerender (history_push n s))
       \<and> in_range l (pg_route (rerender (history_push n s)))"
proof -
  let ?p = "history_push n s"
  have p: "live l d ?p" using assms(1) by simp
  have h: "harmless l ?p" "pg_route ?p = Some (Some n)" "pg_rendered ?p = None"
    using assms(2) by (simp_all add: harmless_def history_push_def)
  obtain a where a: "same_page ?p (rerender ?p)" "pg_pending (rerender ?p) = Some (Some l, pg_route ?p, Some a)"
    using rerender_live [OF p h(1)] h(3) by (metis option.distinct(1))
  have "pg_route (rerender ?p) = Some (Some n)" using a(1) h(2) by (simp add: same_page_def)
  with a(2) h(2) assms(3) same_page_live [OF a(1)] p show ?thesis by (auto simp: harmless_def)
qed

lemma back_from_last:
  assumes "at_rest l l s"
  shows "at_rest l (l - 1) (unbatched (history_push l # [dispatch_display setPrevOnDisplayAuctionAlpId, history_push (l - 1)]) s)"
proof -
  note lc = at_rest_live [OF assms, THEN conjunct1] at_rest_live [OF assms, THEN conjunct2]
  have l: "0 < l" using lc(1) by (simp add: live_def)
  have h: "harmless l s" using lc(2) by (simp add: calm_def harmless_def)
  let ?s = "rerender (history_push l s)"
  have p: "live l l ?s" "harmless l ?s" "in_range l (pg_route ?s)"
    using push_live [OF lc(1) h, of l] l by (auto simp: in_range_def)
  let ?m = "dispatch_display setPrevOnDisplayAuctionAlpId ?s"
  have m: "live l (l - 1) ?m" using prev_display [OF p(1)] l by (simp add: max_def)
  have hm: "harmless l ?m" "pg_route ?m = pg_route ?s" using p(2) by (simp_all add: harmless_def dispatch_display_def)
  obtain a where a: "same_page ?m (rerender ?m)"
    "pg_pending (rerender ?m) = None \<or> pg_pending (rerender ?m) = Some (Some l, pg_route ?m, Some a)"
    using rerender_live [OF m hm(1)] by metis
  have "harmless l (rerender ?m)" using a(2) hm(2) p(3) by (auto simp: harmless_def)
  moreover have "live l (l - 1) (rerender ?m)" using m same_page_live [OF a(1)] by simp
  ultimately show ?thesis using push_rest [of l "l - 1" "rerender ?m" "l - 1"] by (simp add: unbatched_def)
qed

lemma key_rest:
  assumes "at_rest l d s"
  shows "at_rest l (moved l d (Key k)) (page_key k s)"
proof -
  note lc = at_rest_live [OF assms, THEN conjunct1] at_rest_live [OF assms, THEN conjunct2]
  obtain c where c: "page_shown s = Some (Some c)" "wa_alpId c = d" "lastAuctionAlpId (pg_display s) = Some l"
    and cont: "auction_content (Some c) (Some l) =
       (if d mod 5 = 0 then AlperContent (d = 0) (d = l) else ActivityContent (d = 0) (d = l))"
    using content_cases [OF lc(1)] by metis
  have s': "page_key k s =
      (let us = nav_handleKeyPress (Some c) (Some l) (d = 0) (d = l) k
       in unbatched (if us = [] \<and> d mod 5 = 0 then alper_handleKeyPress (Some c) k else us) s)" for k
    using c cont by (auto simp: page_key_def Let_def)
  have range: "0 \<le> d" "d \<le> l" "0 < l" using lc(1) by (simp_all add: live_def)
  show ?thesis
  proof (cases k)
    case ArrowLeft
    consider "d = 0" | "d = l" | "d \<noteq> 0" "d \<noteq> l" by blast
    then show ?thesis
    proof cases
      case 1
      then show ?thesis
        using handler_rest(2) [OF lc prev_display [OF lc(1)], of "-1"] display_ends(1) [of l s] lc(1) range c(2)
        by (simp add: s' [of ArrowLeft] ArrowLeft nav_handleKeyPress_def alper_handleKeyPress_def prevAuctionHandler_def)
    next
      case 2
      then show ?thesis
        using back_from_last [of l s] assms range c(2)
        by (simp add: s' [of ArrowLeft] ArrowLeft nav_handleKeyPress_def prevAuctionHandler_def)
    next
      case 3
      then have "max 0 (d - 1) = d - 1" using range by simp
      with 3 show ?thesis
        using handler_rest(2) [OF lc prev_display [OF lc(1)], of "d - 1"] at_rest_route [OF assms] c(2)
        by (simp add: s' [of ArrowLeft] ArrowLeft nav_handleKeyPress_def prevAuctionHandler_def)
    qed
  next
    case ArrowRight
    show ?thesis
    proof (cases "d = l")
      case True
      then have "live l (min l (l + 1)) (dispatch_display setNextOnDisplayAuctionAlpId s)"
        using next_display lc(1) by blast
      from handler_rest(2) [OF lc this, of "l + 1"] True show ?thesis
        using display_ends(2) [of l s] lc(1) range c(2) rest_idle [OF assms] assms
        by (simp add: s' [of ArrowRight] ArrowRight nav_handleKeyPress_def alper_handleKeyPress_def
            nextAuctionHandler_def Let_def min_def)
    next
      case False
      then have "min l (d + 1) = d + 1" using range by simp
      with False show ?thesis
        using handler_rest(2) [OF lc next_display [OF lc(1)], of "d + 1"] at_rest_route [OF assms] c(2)
        by (simp add: s' [of ArrowRight] ArrowRight nav_handleKeyPress_def nextAuctionHandler_def)
    qed
  qed
qed

lemma step_rest: "at_rest l d s \<Longrightarrow> at_rest l (moved l d a) (press a s)"
  using click_rest key_rest by (cases a) auto

lemma steps_rest: "at_rest l d s \<Longrightarrow> at_rest l (foldl (moved l) d acts) (fold press acts s)"
  by (induction acts arbitrary: d s) (auto intro: step_rest)

section \<open>The first load\<close>

lemma settle_fallback_shown:
  assumes "live l l s" "pg_pending s = None" "pg_rendered s \<noteq> Some (inputs_of s)"
      and "pg_route s = None \<or> (\<exists>i. pg_route s = Some (Some i) \<and> \<not> (0 \<le> i \<and> i \<le> l)) \<and> pg_url s = alpPath l"
  shows "at_rest l l (settle s) \<and> pg_route (settle s) = pg_route s \<and> pg_url (settle s) = pg_url s"
proof -
  have h: "harmless l s" using assms(2) by (simp add: harmless_def)
  obtain b where b: "same_page s (rerender s)" "pg_rendered (rerender s) = Some (inputs_of (rerender s))"
    "pg_pending (rerender s) = Some (Some l, pg_route s, Some b)"
    using rerender_live [OF assms(1) h] assms(3) by metis
  let ?u = "(rerender s)\<lparr>pg_pending := None\<rparr>"
  have u: "live l l ?u" "pg_route ?u = pg_route s" "pg_url ?u = pg_url s"
    using same_page_live [OF same_page_trans [OF b(1) same_page_clear]] assms(1) b(1) by (simp_all add: same_page_def)
  with assms(4) have "page_effect (Some l, pg_route ?u, Some b) ?u = ?u"
    using fallback_stable [of l ?u b] by auto
  then have "run_effect (rerender s) = ?u" using b(3) u(2) by (simp add: run_effect_def [of "rerender s"])
  then have s': "settle s = ?u" by (simp add: settle_def rerender_def)
  have "calm ?u" using b(2) by (simp add: calm_def inputs_of_def)
  with u assms(4) show ?thesis unfolding s' at_rest_def by auto
qed

lemma page_start_eq:
  "page_start r url past =
     \<lparr>pg_auction = initial_auction_state, pg_past = past, pg_display = initial_on_display, pg_route = r,
      pg_url = url, pg_rendered = Some (None, past, initial_on_display, r), pg_ran = Some (None, r, None),
      pg_pending = None, pg_broken = False\<rparr>"
  by (simp add: page_start_def page_render_def inputs_of_def page_shown_def useOnDisplayAuction_def
      initial_on_display_def initial_auction_state_def settle_def run_effect_def Let_def)

definition requested :: "int \<Rightarrow> jsnum option \<Rightarrow> int" where
  "requested l r =
     (case r of None \<Rightarrow> l
      | Some n \<Rightarrow> (case n of None \<Rightarrow> l | Some i \<Rightarrow> if 0 \<le> i \<and> i \<le> l then i else l))"

definition past_complete :: "int \<Rightarrow> auction_state list \<Rightarrow> bool" where
  "past_complete l past \<longleftrightarrow>
     (\<forall>x\<in>set past. activeAuction x \<noteq> None) \<and>
     (\<forall>d. 0 \<le> d \<and> d < l \<and> d mod 5 \<noteq> 0 \<longrightarrow> List.find (has_auction d) past \<noteq> None)"

text \<open>The state in which the effect of the first load is about to run.\<close>

definition before_effect :: "web_auction \<Rightarrow> jsnum option \<Rightarrow> string \<Rightarrow> auction_state list \<Rightarrow> page_state" where
  "before_effect a r url past =
     (let od = setLastAuctionAlpId (wa_alpId a) initial_on_display
      in \<lparr>pg_auction = setFullAuction (reduxSafeAuction a) initial_auction_state, pg_past = past,
          pg_display = od, pg_route = r, pg_url = url, pg_rendered = Some (Some (reduxSafeAuction a), past, od, r),
          pg_ran = Some (Some (wa_alpId a), r, None), pg_pending = Some (Some (wa_alpId a), r, None),
          pg_broken = False\<rparr>)"

lemma reduxSafeAuction_same [simp]: "reduxSafeAuction a = a"
  by (simp add: reduxSafeAuction_def)

lemma page_loaded_eq:
  "page_loaded a (page_start r url past) = settle (before_effect a r url past)"
  by (simp add: page_loaded_def page_start_eq unbatched_def dispatch_display_def rerender_def run_effect_def
      page_render_def inputs_of_def page_shown_def useOnDisplayAuction_def initial_on_display_def
      initial_auction_state_def setFullAuction_def setLastAuctionAlpId_def before_effect_def Let_def)

lemma loaded_rest:
  assumes l: "0 < wa_alpId a" and past: "past_complete (wa_alpId a) past" and r: "r \<noteq> Some None"
      and url: "\<forall>i. r = Some (Some i) \<longrightarrow> url = alpPath i"
  shows "at_rest (wa_alpId a) (requested (wa_alpId a) r) (page_loaded a (page_start r url past))"
proof -
  let ?l = "wa_alpId a" and ?b = "before_effect a r url past"
  let ?t = "run_effect ?b"
  have red: "wa_alpId (reduxSafeAuction a) = ?l" by (simp add: reduxSafeAuction_def)
  have t: "?t = page_effect (Some ?l, r, None) (?b\<lparr>pg_pending := None\<rparr>)"
    by (simp add: run_effect_def before_effect_def Let_def)
  have live: "live ?l (requested ?l r) ?t" and none: "pg_pending ?t = None" and rt: "pg_route ?t = r"
    and ren: "pg_rendered ?t \<noteq> Some (inputs_of ?t)"
    and u: "pg_url ?t = (if r = None \<or> in_range ?l r then url else alpPath ?l)"
    using l r past red unfolding t
    by (auto simp: live_def all_known_def past_complete_def before_effect_def Let_def requested_def in_range_def
        show_alp_def setOnDisplayAuctionAlpId_def setLastAuctionAlpId_def initial_on_display_def
        setFullAuction_def inputs_of_def not_le split: option.splits)
  have s': "settle ?b = settle ?t"
    using none by (simp add: settle_def run_effect_def)
  show ?thesis
  proof (cases "in_range ?l r")
    case True
    then obtain i where i: "r = Some (Some i)" "0 \<le> i" "i \<le> ?l" by (auto simp: in_range_def)
    have "harmless ?l ?t" using none by (simp add: harmless_def)
    from settle_in_range [OF live this] True rt
    have "same_page ?t (settle ?t)" "calm (settle ?t)" by simp_all
    moreover from this(1) have "live ?l (requested ?l r) (settle ?t)" using same_page_live live by blast
    ultimately show ?thesis
      using i u rt True url unfolding page_loaded_eq s' by (auto simp: at_rest_def same_page_def requested_def)
  next
    case False
    with r have d: "requested ?l r = ?l" "r = None \<or> (\<exists>i. r = Some (Some i) \<and> \<not> (0 \<le> i \<and> i \<le> ?l))"
      by (cases r; auto simp: requested_def in_range_def split: option.splits)+
    with settle_fallback_shown [of ?l ?t] live none ren rt u False show ?thesis
      unfolding page_loaded_eq s' by auto
  qed
qed

section \<open>A new auction begins\<close>

lemma rerender_showing:
  assumes "\<not> pg_broken s" "page_shown s = Some (Some a)" "run_effect s = s\<lparr>pg_pending := None\<rparr>"
  shows "same_page s (rerender s) \<and> pg_rendered (rerender s) = Some (inputs_of (rerender s)) \<and>
     (pg_pending (rerender s) = None
      \<or> pg_pending (rerender s) = Some (lastAuctionAlpId (pg_display s), pg_route s, Some a))"
proof -
  let ?t = "s\<lparr>pg_pending := None\<rparr>"
  have i: "inputs_of (s\<lparr>pg_rendered := x, pg_ran := y, pg_pending := z\<rparr>) = inputs_of s"
    "inputs_of ?t = inputs_of s" "page_shown ?t = page_shown s" for x y z
    by (simp_all add: inputs_of_def page_shown_def)
  have "rerender s = page_render ?t" using assms(3) by (simp add: rerender_def)
  then show ?thesis using assms(1,2) i by (auto simp: page_render_def same_page_def Let_def)
qed

text \<open>A route for which the page at rest has nothing to do.\<close>

definition content_route :: "int \<Rightarrow> page_state \<Rightarrow> bool" where
  "content_route l s \<longleftrightarrow>
     in_range l (pg_route s) \<or> pg_route s = None \<and> onDisplayAuctionAlpId (pg_display s) = Some l"

lemma content_run:
  assumes "content_route l s" "live l d s"
      and "pg_pending s = None \<or> pg_pending s = Some (Some l, pg_route s, Some a)"
  shows "run_effect s = s\<lparr>pg_pending := None\<rparr>"
  using assms
  by (auto simp: content_route_def run_effect_def in_range_def live_def show_alp_def setOnDisplayAuctionAlpId_def)

lemma created_chain:
  fixes st en :: int
  assumes rest: "at_rest l d s" and past: "past_complete (l + 1) (pg_past s)" and route: "content_route l s"
  defines "ev \<equiv> \<lparr>ac_alpId = l + 1, ac_startTime = st, ac_endTime = en, ac_settled = False\<rparr>"
  defines "t1 \<equiv> rerender (s\<lparr>pg_auction := setActiveAuction ev (pg_auction s)\<rparr>)"
  defines "t2 \<equiv> rerender (t1\<lparr>pg_url := alpPath (l + 1)\<rparr>)"
  shows "live l d t2 \<and> pg_pending t2 = None \<and> pg_route t2 = pg_route s \<and> pg_url t2 = alpPath (l + 1)
       \<and> pg_past t2 = pg_past s \<and> pg_auction t2 = setActiveAuction ev (pg_auction s)"
proof -
  let ?s = "s\<lparr>pg_auction := setActiveAuction ev (pg_auction s)\<rparr>"
  have s: "live l d s" "calm s" using at_rest_live [OF rest] by auto
  have s1: "live l d ?s" "content_route l ?s" "pg_pending ?s = None"
    using s past route
    by (auto simp: live_def all_known_def past_complete_def setActiveAuction_def content_route_def calm_def)
  obtain a where a: "page_shown ?s = Some (Some a)" using live_shown [OF s1(1)] by blast
  have l: "lastAuctionAlpId (pg_display ?s) = Some l" "\<not> pg_broken ?s" using s1(1) by (simp_all add: live_def)
  have t1: "same_page ?s t1" "pg_rendered t1 = Some (inputs_of t1)"
    "pg_pending t1 = None \<or> pg_pending t1 = Some (Some l, pg_route ?s, Some a)"
    using rerender_showing [OF l(2) a content_run [OF s1(2,1)]] s1(3) l(1) unfolding t1_def by auto
  let ?t = "t1\<lparr>pg_url := alpPath (l + 1)\<rparr>"
  have t: "live l d ?t" "content_route l ?t" "pg_pending ?t = None \<or> pg_pending ?t = Some (Some l, pg_route ?t, Some a)"
    using t1 s1 same_page_live [OF t1(1)]
    by (auto simp: same_page_def content_route_def live_def all_known_def)
  have "run_effect ?t = ?t\<lparr>pg_pending := None\<rparr>" by (rule content_run [OF t(2,1,3)])
  then have "t2 = ?t\<lparr>pg_pending := None\<rparr>"
    using t1(2) unfolding t2_def rerender_def by (simp add: page_render_def inputs_of_def)
  with t t1(1) show ?thesis by (simp add: same_page_def live_def all_known_def)
qed

lemma created_rest:
  fixes st en :: int
  assumes rest: "at_rest l d s" and past: "past_complete (l + 1) (pg_past s)" and route: "content_route l s"
  defines "u \<equiv> page_created (l + 1) st en s"
  shows "live (l + 1) (l + 1) u \<and> calm u \<and> pg_url u = alpPath (l + 1) \<and> pg_route u = pg_route s"
proof -
  let ?ev = "\<lparr>ac_alpId = l + 1, ac_startTime = st, ac_endTime = en, ac_settled = False\<rparr>"
  let ?t2 = "rerender (rerender (s\<lparr>pg_auction := setActiveAuction ?ev (pg_auction s)\<rparr>) \<lparr>pg_url := alpPath (l + 1)\<rparr>)"
  have t2: "live l d ?t2" "pg_pending ?t2 = None" "pg_route ?t2 = pg_route s" "pg_url ?t2 = alpPath (l + 1)"
    "pg_past ?t2 = pg_past s" "pg_auction ?t2 = setActiveAuction ?ev (pg_auction s)"
    using created_chain [OF rest past route, of st en] by blast+
  let ?m = "dispatch_display (setOnDisplayAuctionAlpId (l + 1)) ?t2"
  have m: "\<not> pg_broken ?m" "lastAuctionAlpId (pg_display ?m) = Some l" "pg_route ?m = pg_route s"
    "pg_url ?m = alpPath (l + 1)" "pg_past ?m = pg_past s" "pg_auction ?m = setActiveAuction ?ev (pg_auction s)"
    "onDisplayAuctionAlpId (pg_display ?m) = Some (l + 1)"
    using t2 by (simp_all add: live_def dispatch_display_def setOnDisplayAuctionAlpId_def)
  have run: "run_effect ?m = ?m\<lparr>pg_pending := None\<rparr>"
    using t2(2) by (simp add: run_effect_def dispatch_display_def)
  obtain a where a: "page_shown ?m = Some (Some a)"
    using m by (auto simp: page_shown_def useOnDisplayAuction_def setActiveAuction_def reduxSafeNewAuction_def)
  have t3: "same_page ?m (rerender ?m)"
    "pg_pending (rerender ?m) = None \<or> pg_pending (rerender ?m) = Some (Some l, pg_route s, Some a)"
    using rerender_showing [OF m(1) a run] m by auto
  let ?n = "dispatch_display (setLastAuctionAlpId (l + 1)) (rerender ?m)"
  have l: "0 < l" using rest by (simp add: at_rest_def live_def)
  have n: "pg_route ?n = pg_route s" "pg_url ?n = alpPath (l + 1)" "pg_pending ?n = pg_pending (rerender ?m)"
    and live: "live (l + 1) (l + 1) ?n"
    using t3(1) m past l by (auto simp: same_page_def dispatch_display_def setLastAuctionAlpId_def live_def
        all_known_def past_complete_def setActiveAuction_def reduxSafeNewAuction_def)
  have u: "u = settle (rerender ?n)"
    unfolding u_def page_created_def unbatched_def by simp
  show ?thesis
  proof (cases "in_range l (pg_route s)")
    case True
    then have h: "harmless (l + 1) ?n" "in_range (l + 1) (pg_route ?n)"
      using t3(2) n by (auto simp: harmless_def in_range_def)
    obtain b where b: "same_page ?n (rerender ?n)"
      "pg_pending (rerender ?n) = None \<or> pg_pending (rerender ?n) = Some (Some (l + 1), pg_route ?n, Some b)"
      using rerender_live [OF live h(1)] by metis
    have r: "live (l + 1) (l + 1) (rerender ?n)" "harmless (l + 1) (rerender ?n)" "in_range (l + 1) (pg_route (rerender ?n))"
      using same_page_live [OF b(1)] live b h(2) by (auto simp: harmless_def same_page_def)
    from settle_in_range [OF this] have c: "same_page (rerender ?n) u" "calm u" unfolding u by auto
    with same_page_live [OF c(1)] r(1) b(1) n show ?thesis by (simp add: same_page_def)
  next
    case False
    then have none: "pg_route s = None" using route by (simp add: content_route_def)
    let ?r = "run_effect ?n"
    obtain e where e: "live (l + 1) e ?r"
      using live t3(2) n(3) none l
      by (auto simp: run_effect_def live_def all_known_def show_alp_def setOnDisplayAuctionAlpId_def)
    have r: "pg_pending ?r = None" "pg_route ?r = None" "pg_url ?r = alpPath (l + 1)"
      "pg_rendered ?r = pg_rendered (rerender ?m)" "lastAuctionAlpId (pg_display ?r) = Some (l + 1)"
      using t3(2) n none e by (auto simp: run_effect_def show_alp_def dispatch_display_def live_def split: if_splits)
    have "pg_rendered (rerender ?m) = Some (inputs_of (rerender ?m))"
      using rerender_showing [OF m(1) a run] by blast
    moreover have "lastAuctionAlpId (pg_display (rerender ?m)) = Some l" using t3(1) m(2) by (simp add: same_page_def)
    ultimately have "pg_rendered ?r \<noteq> Some (inputs_of ?r)" using r(4,5) by (auto simp: inputs_of_def)
    then obtain b where b: "same_page ?r (rerender ?n)" "pg_pending (rerender ?n) = Some (Some (l + 1), None, Some b)"
      using render_live [OF e r(1)] r(2) unfolding rerender_def by metis
    have w: "live (l + 1) e (rerender ?n)" "pg_route (rerender ?n) = None" "pg_url (rerender ?n) = alpPath (l + 1)"
      using same_page_live [OF b(1)] e b(1) r by (simp_all add: same_page_def)
    from settle_fallback [OF w(1), of b] b(2) w(2,3) none show ?thesis
      unfolding u by (simp add: at_rest_def)
  qed
qed

section \<open>Properties of the page\<close>

text \<open>
  C19. The auction page shows what its address asks for, and its buttons and keys keep both in
  step.  Let the auctions before the current one be known and the current one be numbered
  \<open>l > 0\<close>.  Once the current auction is loaded, the page shows the alp of its route when that is
  one of \<open>0 .. l\<close>, and the last one on the home page or on a route out of range.  Whatever buttons
  and arrow keys are then pressed, no render throws, the alp shown is the one that \<open>moved\<close>
  gives (one step, clamped at both ends, and the left key leads from alp 0 to the last), and the
  address bar names it unless the page is still the home page with the last alp.
\<close>

theorem page_follows_address:
  fixes a :: web_auction and acts :: "press_action list"
  assumes "0 < wa_alpId a" and "past_complete (wa_alpId a) past" and "r \<noteq> Some None"
      and "\<forall>i. r = Some (Some i) \<longrightarrow> url = alpPath i"
  defines "s \<equiv> fold press acts (page_loaded a (page_start r url past))"
  defines "d \<equiv> foldl (moved (wa_alpId a)) (requested (wa_alpId a) r) acts"
  shows "\<not> pg_broken s \<and> (\<exists>x. page_shown s = Some (Some x) \<and> wa_alpId x = d) \<and> 0 \<le> d \<and> d \<le> wa_alpId a
       \<and> (pg_url s = alpPath d \<or> pg_route s = None \<and> d = wa_alpId a)"
proof -
  have "at_rest (wa_alpId a) d s"
    unfolding s_def d_def by (rule steps_rest [OF loaded_rest [OF assms(1-4)]])
  then show ?thesis using live_shown by (auto simp: at_rest_def live_def)
qed

definition demo_live :: web_auction where
  "demo_live = \<lparr>wa_amount = 0, wa_bidder = [], wa_startTime = 100, wa_endTime = 200, wa_alpId = 2, wa_settled = False\<rparr>"

definition demo_before :: "auction_state list" where
  "demo_before = [\<lparr>activeAuction = Some (demo_live\<lparr>wa_alpId := 1\<rparr>), bids = []\<rparr>]"

lemma page_follows_address_witness:
  "(\<exists>x. page_shown (fold press [Key ArrowLeft, Click ArrowLeft, Key ArrowLeft]
          (page_loaded demo_live (page_start None ''/'' demo_before))) = Some (Some x) \<and> wa_alpId x = 2)
   \<and> pg_url (fold press [Key ArrowLeft] (page_loaded demo_live (page_start (Some (Some 9)) ''/alp/9'' demo_before)))
       = ''/alp/1''"
proof -
  have l: "wa_alpId demo_live = 2" by (simp add: demo_live_def)
  have "0 < wa_alpId demo_live" by (simp add: l)
  moreover have "past_complete (wa_alpId demo_live) demo_before"
    by (auto simp: past_complete_def l demo_before_def has_auction_def)
  moreover have "alpPath 9 = ''/alp/9''" "alpPath 1 = ''/alp/1''"
    by (simp_all add: alpPath_def show_int_def show_nat_def show_base_def digits_of.simps digit_char_def)
  ultimately show ?thesis
    using page_follows_address [of demo_live demo_before None "''/''" "[Key ArrowLeft, Click ArrowLeft, Key ArrowLeft]"]
      page_follows_address [of demo_live demo_before "Some (Some 9)" "''/alp/9''" "[Key ArrowLeft]"]
    by (simp add: requested_def l)
qed

text \<open>
  A new auction takes the page over.  Let the page be at rest on a route that is one of the
  auctions, or on the home page, and let the subgraph's answer hold all auctions up to the current
  one.  When the next auction is created, the page shows it and the address bar names it, while the
  route of the page's own router is left behind.
\<close>

theorem new_auction_takes_page:
  fixes s :: page_state and st en :: int
  assumes "at_rest l d s" and "past_complete (l + 1) (pg_past s)" and "content_route l s"
  shows "(\<exists>x. page_shown (page_created (l + 1) st en s) = Some (Some x) \<and> wa_alpId x = l + 1)
       \<and> pg_url (page_created (l + 1) st en s) = alpPath (l + 1)
       \<and> pg_route (page_created (l + 1) st en s) = pg_route s"
  using created_rest [OF assms] live_shown by blast

lemma new_auction_takes_page_witness:
  "\<exists>x. page_shown (page_created 3 300 400 (page_loaded demo_live (page_start None ''/''
          (\<lparr>activeAuction = Some demo_live, bids = []\<rparr> # demo_before)))) = Some (Some x) \<and> wa_alpId x = 3"
proof -
  let ?past = "\<lparr>activeAuction = Some demo_live, bids = []\<rparr> # demo_before"
  let ?s = "page_loaded demo_live (page_start None ''/'' ?past)"
  have l: "wa_alpId demo_live = 2" by (simp add: demo_live_def)
  have past: "past_complete 2 ?past" "past_complete 3 ?past"
    by (auto simp: past_complete_def l demo_before_def has_auction_def)
  have r: "at_rest 2 2 ?s"
    using loaded_rest [of demo_live ?past None "''/''"] past l by (simp add: requested_def)
  have "pg_past ?s = ?past" "pg_route ?s = None"
    unfolding page_loaded_eq
    by (simp_all add: settle_def run_effect_def before_effect_def page_render_def Let_def show_alp_def l
        setOnDisplayAuctionAlpId_def split: option.splits)
  moreover have "onDisplayAuctionAlpId (pg_display ?s) = Some 2" using r by (simp add: at_rest_def live_def)
  ultimately show ?thesis
    using new_auction_takes_page [of 2 2 ?s 300 400] r past by (simp add: content_route_def)
qed

text \<open>
  The browser's back button is not followed: on a page at rest, going to the route of another
  auction changes the address bar and leaves the alp that was on display.
\<close>

theorem back_button_ignored:
  assumes "at_rest l d s" and "0 \<le> i" and "i \<le> l"
  shows "pg_display (page_pop (Some (Some i)) url s) = pg_display s \<and> pg_url (page_pop (Some (Some i)) url s) = url"
proof -
  let ?p = "s\<lparr>pg_route := Some (Some i), pg_url := url, pg_rendered := None\<rparr>"
  have p: "live l d ?p" "harmless l ?p" "in_range l (pg_route ?p)"
    using assms by (auto simp: at_rest_def live_def all_known_def harmless_def calm_def in_range_def)
  obtain b where b: "same_page ?p (rerender ?p)"
    "pg_pending (rerender ?p) = None \<or> pg_pending (rerender ?p) = Some (Some l, pg_route ?p, Some b)"
    using rerender_live [OF p(1,2)] by metis
  have "live l d (rerender ?p)" "harmless l (rerender ?p)" "in_range l (pg_route (rerender ?p))"
    using same_page_live [OF b(1)] p b by (auto simp: harmless_def same_page_def)
  from settle_in_range [OF this] have "same_page (rerender ?p) (page_pop (Some (Some i)) url s)"
    by (simp add: page_pop_def batched_def)
  with b(1) show ?thesis by (simp add: same_page_def)
qed

text \<open>
  A route whose id is no number breaks the page: once the current auction is loaded the effect
  puts \<open>NaN\<close> on display, and the next render throws.
\<close>

theorem word_route_breaks_page:
  assumes "0 < wa_alpId a"
  shows "pg_broken (page_loaded a (page_start (Some None) url past))"
  using assms unfolding page_loaded_eq
  by (simp add: settle_def run_effect_def before_effect_def Let_def page_render_def)

text \<open>
  An auction that began while the page was open is lost when it ends.  The past auctions come
  from one query that is never repeated, so such an alp (no multiple of five) is found neither
  there nor in the active auction: when it is put on display nothing is shown, and as the navigation
  belongs to what is shown, no button and no key does anything.
\<close>

theorem ended_auction_lost:
  assumes "onDisplayAuctionAlpId (pg_display s) = Some d" and "activeAuction (pg_auction s) = Some c"
      and "wa_alpId c \<noteq> d" and "d mod 5 \<noteq> 0" and "List.find (has_auction d) (pg_past s) = None"
  shows "page_shown s = Some None \<and> fold press acts s = s"
proof -
  have n: "page_shown s = Some None"
    using assms by (simp add: page_shown_def useOnDisplayAuction_def alper_multiple_of_five)
  have "press k s = s" for k
    using n by (cases k) (simp_all add: page_click_def page_key_def auction_content_def)
  then have "fold press acts s = s" by (induction acts) auto
  with n show ?thesis by simp
qed

end
