(* ===== verification/Web_Cards.thy ===== *)
theory Web_Cards
  imports Web_Page Web_Bid Web_Propose Web_Tables Web_Delegate
begin

text \<open>
  What the auction page and the hover cards show: \<open>components/AuctionActivity\<close>, \<open>AlperAlpContent\<close>,
  \<open>Winner\<close>, \<open>Holder\<close>, \<open>CurrentBid\<close>, \<open>TruncatedAmount\<close>, \<open>BidHistory\<close>, \<open>BidHistoryModal\<close>, \<open>AlpInfoCard\<close>
  and its rows, the three hover cards, \<open>ProposalContent\<close>, \<open>ProposalTransactions\<close>, and the links of
  \<open>utils/etherscan.ts\<close>.  Layout and styles are left out; a view is a value that says which parts are
  shown and with which data.
\<close>

section \<open>Links\<close>

text \<open>\<open>new URL(path, base).toString()\<close> is the argument \<open>url\<close>.\<close>

definition getBaseURL :: "jsnum \<Rightarrow> string" where
  "getBaseURL network = (if network = Some 4 then ''https://rinkeby.etherscan.io/'' else ''https://etherscan.io/'')"

definition getApiBaseURL :: "jsnum \<Rightarrow> string" where
  "getApiBaseURL network =
     (if network = Some 4 then ''https://api-rinkeby.etherscan.io/'' else ''https://api.etherscan.io/'')"

record link_env =
  le_chain :: jsnum
  le_url :: "string \<Rightarrow> string \<Rightarrow> string"
  le_params :: "(string \<times> string) list \<Rightarrow> string"
  le_api_key :: string

definition buildEtherscanTxLink :: "link_env \<Rightarrow> string \<Rightarrow> string" where
  "buildEtherscanTxLink e txHash = le_url e (''tx/'' @ txHash) (getBaseURL (le_chain e))"

definition buildEtherscanAddressLink :: "link_env \<Rightarrow> string \<Rightarrow> string" where
  "buildEtherscanAddressLink e address = le_url e (''address/'' @ address) (getBaseURL (le_chain e))"

definition buildEtherscanTokenLink :: "link_env \<Rightarrow> string \<Rightarrow> int \<Rightarrow> string" where
  "buildEtherscanTokenLink e token tokenId =
     le_url e (''token/'' @ token @ ''?a='' @ show_int tokenId) (getBaseURL (le_chain e))"

definition buildEtherscanHoldingsLink :: "link_env \<Rightarrow> string \<Rightarrow> string" where
  "buildEtherscanHoldingsLink e address = le_url e (''tokenholdings?a='' @ address) (getBaseURL (le_chain e))"

definition buildEtherscanApiQuery :: "link_env \<Rightarrow> string \<Rightarrow> string \<Rightarrow> string \<Rightarrow> string" where
  "buildEtherscanApiQuery e address modul action =
     le_url e (''api?'' @ le_params e [(''module'', modul), (''action'', action), (''address'', address),
                                        (''apikey'', le_api_key e)]) (getApiBaseURL (le_chain e))"

section \<open>The background and the alps without an auction\<close>

definition backgroundColors :: "string list" where
  "backgroundColors = [''#63a0f9'', ''#018146'', ''#000000'', ''#76858b'', ''#f8d689'', ''#d5d7e1'', ''#e1d7d5'']"

definition loadedAlpHandler :: "nat \<Rightarrow> application_state \<Rightarrow> application_state" where
  "loadedAlpHandler background s =
     setStateBackgroundColor
       (if background < length backgroundColors then backgroundColors ! background else ''#e1d7d5'') s"

datatype alper_block = NoBlock | FoundersBlock | CouncilBlock

text \<open>\<open>isAlperAlp\<close>, \<open>isAlpsCouncil\<close> and the text block of \<open>AlperAlpContent\<close>.\<close>

definition alper_flags :: "int \<Rightarrow> bool \<times> bool \<times> alper_block" where
  "alper_flags alpId =
     (if alpId mod 10 = 0 then (True, False, FoundersBlock)
      else if alpId mod 5 = 0 then (False, True, CouncilBlock)
      else (False, False, NoBlock))"

section \<open>Winners and holders\<close>

definition WINNER_ZERO_ADDRESS :: string where
  "WINNER_ZERO_ADDRESS = ''0x0000000000000000000000000000000000000000''"

definition WARMING_HUT_ADDRESS :: string where
  "WARMING_HUT_ADDRESS = ''0x3A83B519F8aE5A360466D4AF2Fa3c456f92AF1EC''"

definition WARMING_HUT_LINK :: string where
  "WARMING_HUT_LINK =
     ''https://etherscan.io/token/0xf59eb3e1957f120f7c135792830f900685536f52?a='' @ WARMING_HUT_ADDRESS @ ''#inventory''"

datatype holder_part =
    You
  | AddressLink string string  \<comment> \<open>the link and the address it shows\<close>
  | NamedLink string string  \<comment> \<open>the link and its text\<close>
  | PlainText string

definition winner_parts :: "link_env \<Rightarrow> string option \<Rightarrow> bool \<Rightarrow> bool \<Rightarrow> string \<Rightarrow> holder_part list" where
  "winner_parts e activeAccount isAlpers isCouncil winner =
     (let low = map to_lower;
          resolvedWinner = (if low winner = WINNER_ZERO_ADDRESS then WARMING_HUT_ADDRESS else winner);
          winnerLink = (if resolvedWinner = WARMING_HUT_ADDRESS then WARMING_HUT_LINK
                        else buildEtherscanAddressLink e resolvedWinner);
          isWinnerYou = (case activeAccount of None \<Rightarrow> False | Some a \<Rightarrow> low a = low winner);
          nonAlper = (if isWinnerYou then You else AddressLink winnerLink resolvedWinner);
          alper = NamedLink (buildEtherscanAddressLink e ''0x7f0fB27A2673AdC49D583AEB6e5f799E7D7dc16F'') ''Founders'';
          council = NamedLink (buildEtherscanAddressLink e ''0x6F895beCD7bf90A5C7d1766a1EcA13b1d087dE05'') ''Alpine Council''
      in (if isAlpers then alper else nonAlper) # (if isCouncil then [council] else []))"

datatype 'a fetch = Fetching | FetchFailed | Fetched 'a

text \<open>\<open>loading\<close> is tested first, then \<open>error\<close>; \<open>holder_of\<close> is \<open>data.alp.owner.id\<close> of the subgraph.\<close>

definition holder_view :: "link_env \<Rightarrow> bool \<Rightarrow> string fetch \<Rightarrow> holder_part list" where
  "holder_view e isAlpers q =
     (case q of
        Fetching \<Rightarrow> []
      | FetchFailed \<Rightarrow> [PlainText ''Failed to fetch Alp info'']
      | Fetched holder_of \<Rightarrow>
          [if isAlpers then PlainText ''founders'' else AddressLink (buildEtherscanAddressLink e holder_of) holder_of])"

text \<open>\<open>AlpInfoRowHolder\<close>: the bidder of the auction may be null.\<close>

definition info_row_holder :: "link_env \<Rightarrow> string option fetch \<Rightarrow> holder_part list" where
  "info_row_holder e q =
     (case q of
        Fetching \<Rightarrow> [PlainText ''Loading...'']
      | FetchFailed \<Rightarrow> [PlainText ''Failed to fetch Alp info'']
      | Fetched bidder \<Rightarrow>
          let winner = (case bidder of None \<Rightarrow> WARMING_HUT_ADDRESS | Some b \<Rightarrow> if b = [] then WARMING_HUT_ADDRESS else b)
          in [AddressLink (if winner = WARMING_HUT_ADDRESS then WARMING_HUT_LINK else buildEtherscanAddressLink e winner)
                winner])"

section \<open>Amounts and bids\<close>

text \<open>Ten-thousandths of an ether, rounded half up as \<open>toFixed(4)\<close> of \<open>bignumber.js\<close> does; a number of
  wei from \<open>10 ^ 21\<close> on is printed with an exponent, which \<open>formatEther\<close> refuses (\<open>None\<close>).\<close>

definition ether_units :: "nat \<Rightarrow> nat" where
  "ether_units wei = (wei + 5 * 10 ^ 13) div 10 ^ 14"

definition ether_sign :: string where "ether_sign = [CHR 0xCE, CHR 0x9E]"

definition TruncatedAmount :: "nat \<Rightarrow> string option" where
  "TruncatedAmount wei =
     (if 10 ^ 21 \<le> wei then None
      else if wei = 0 then Some ''n/a''
      else Some (ether_sign @ '' '' @ toFixed4 (ether_units wei)))"

text \<open>\<open>None\<close> for \<open>BID_N_A\<close>; the outer \<open>None\<close> is an exception.\<close>

definition CurrentBid :: "nat option \<Rightarrow> bool \<Rightarrow> (string \<times> string) option" where
  "CurrentBid bid auctionEnded =
     map_option (Pair (if auctionEnded then ''Winning bid'' else ''Current bid''))
       (case bid of None \<Rightarrow> Some ''n/a'' | Some wei \<Rightarrow> TruncatedAmount wei)"

record bid_row =
  br_sender :: string
  br_amount :: "string option"
  br_time :: int  \<comment> \<open>milliseconds\<close>
  br_link :: string

definition bidItem :: "link_env \<Rightarrow> bid_event \<Rightarrow> bid_row" where
  "bidItem e b =
     \<lparr>br_sender = be_sender b, br_amount = TruncatedAmount (nat (be_value b)), br_time = be_timestamp b * 1000,
      br_link = buildEtherscanTxLink e (be_transactionHash b)\<rparr>"

text \<open>The stable sort with comparator \<open>-1 * (bid1.timestamp - bid2.timestamp)\<close>.\<close>

definition BidHistory :: "link_env \<Rightarrow> nat \<Rightarrow> bid_event list option \<Rightarrow> bid_row list" where
  "BidHistory e most answer =
     (case answer of None \<Rightarrow> []
      | Some bs \<Rightarrow> take most (map (bidItem e) (sort_key (\<lambda>b. - be_timestamp b) bs)))"

text \<open>The name in a row of the modal, and whether the row has the trophy.\<close>

definition modal_bidder :: "nat \<Rightarrow> (string \<Rightarrow> bool) \<Rightarrow> string option \<Rightarrow> string \<Rightarrow> string" where
  "modal_bidder innerWidth blocked ens sender =
     (case ens of
        None \<Rightarrow> useShortAddress sender
      | Some n \<Rightarrow> if n \<noteq> [] \<and> \<not> blocked n then shortENS innerWidth n else useShortAddress sender)"

definition modal_row ::
  "link_env \<Rightarrow> nat \<Rightarrow> (string \<Rightarrow> bool) \<Rightarrow> (string \<Rightarrow> string option) \<Rightarrow> nat \<Rightarrow> bid_event \<Rightarrow> string \<times> bool \<times> bid_row" where
  "modal_row e innerWidth blocked ens index b =
     (modal_bidder innerWidth blocked (ens (be_sender b)) (be_sender b), index = 0, bidItem e b)"

datatype modal_body = BidsWillAppear | ModalRows "(string \<times> bool \<times> bid_row) list"

definition BidHistoryModal ::
  "link_env \<Rightarrow> nat \<Rightarrow> (string \<Rightarrow> bool) \<Rightarrow> (string \<Rightarrow> string option) \<Rightarrow> bid_event list option \<Rightarrow> modal_body" where
  "BidHistoryModal e innerWidth blocked ens answer =
     (case answer of
        None \<Rightarrow> BidsWillAppear
      | Some bs \<Rightarrow>
          if length bs > 0 then ModalRows (map (\<lambda>(i, b). modal_row e innerWidth blocked ens i b) (enumerate 0 bs))
          else BidsWillAppear)"

section \<open>Birthdays\<close>

text \<open>\<open>startTime || 0\<close>; the stored numbers are objects, which are never falsy.\<close>

definition getAlpBirthday :: "int \<Rightarrow> auction_state list \<Rightarrow> int" where
  "getAlpBirthday alpId past =
     (case Option.bind (List.find (has_auction alpId) past) activeAuction of None \<Rightarrow> 0 | Some a \<Rightarrow> wa_startTime a)"

datatype birthday_row = NoRow | Born int  \<comment> \<open>milliseconds\<close>

text \<open>\<open>!startTime\<close> on a \<open>BigNumber\<close> is false, so the error of the code is never returned.\<close>

definition AlpInfoRowBirthday :: "int \<Rightarrow> auction_state list \<Rightarrow> birthday_row" where
  "AlpInfoRowBirthday alpId past =
     (let alpIdForQuery = (if isAlperAlp alpId then alpId + 1 else alpId)
      in if past = [] then NoRow else Born (getAlpBirthday alpIdForQuery past * 1000))"

text \<open>The label of the bids button and the link of the other.\<close>

definition AlpInfoCard :: "link_env \<Rightarrow> string \<Rightarrow> int \<Rightarrow> int option \<Rightarrow> string \<times> string" where
  "AlpInfoCard e token alpId lastId =
     (if lastId = Some alpId then ''Bids'' else ''Bid history'', buildEtherscanTokenLink e token alpId)"

section \<open>The activity of an auction\<close>

datatype side_box = WinnerBox "holder_part list" | HolderBox int | TimerBox

datatype lower_box = InfoCard int | HistoryBox nat | NoBox

datatype bids_button = NoButton | OpensModal | OpensEtherscan string

record activity_view =
  av_navigation :: bool
  av_bid :: "(string \<times> string) option"
  av_side :: side_box
  av_form :: bool
  av_lower :: lower_box
  av_button :: bids_button

definition AuctionActivity ::
  "link_env \<Rightarrow> string option \<Rightarrow> string \<Rightarrow> bool \<Rightarrow> bool \<Rightarrow> bool \<Rightarrow> web_auction \<Rightarrow> activity_view" where
  "AuctionActivity e activeAccount auctionHouse displayGraphDepComps isLastAuction auctionEnded a =
     \<lparr>av_navigation = displayGraphDepComps,
      av_bid = CurrentBid (Some (nat (wa_amount a))) auctionEnded,
      av_side =
        (if auctionEnded then
           if isLastAuction then WinnerBox (winner_parts e activeAccount False False (wa_bidder a))
           else HolderBox (wa_alpId a)
         else TimerBox),
      av_form = isLastAuction,
      av_lower =
        (if \<not> isLastAuction then InfoCard (wa_alpId a) else if displayGraphDepComps then HistoryBox 3 else NoBox),
      av_button =
        (if isLastAuction \<and> wa_amount a \<noteq> 0
         then if displayGraphDepComps then OpensModal
              else OpensEtherscan (buildEtherscanAddressLink e auctionHouse)
         else NoButton)\<rparr>"

section \<open>Hover cards\<close>

fun js_remove_first :: "string \<Rightarrow> string \<Rightarrow> string" where
  "js_remove_first pat [] = []"
| "js_remove_first pat (x # xs) =
     (if take (length pat) (x # xs) = pat then drop (length pat) (x # xs) else x # js_remove_first pat xs)"

record hover_delegate =
  hd_id :: string
  hd_alps :: "string list"

datatype 'a card = EmptyCard | SpinnerCard | ErrorCard string | Card 'a

text \<open>\<open>Voted with n Alps\<close>: the circles, the address, the number and the noun.\<close>

definition DelegateHoverCard ::
  "bool \<Rightarrow> hover_delegate list option \<Rightarrow> bool \<Rightarrow> ((string \<times> nat) list \<times> string \<times> nat \<times> string) card" where
  "DelegateHoverCard loading answer error =
     (case answer of
        None \<Rightarrow> SpinnerCard
      | Some [] \<Rightarrow> SpinnerCard
      | Some (d # ds) \<Rightarrow>
          if loading then SpinnerCard
          else if error then ErrorCard ''Error fetching Vote info''
          else let n = length (hd_alps d)
               in Card (HorizontalStackedAlps (hd_alps d), hd_id d, n, if n = 1 then ''Alp'' else ''Alps''))"

definition unwrappedDelegateId :: "string \<Rightarrow> string" where
  "unwrappedDelegateId delegateId = (if delegateId \<noteq> [] then js_remove_first ''delegate-'' delegateId else [])"

definition MAX_NOUN_IDS_SHOWN :: nat where "MAX_NOUN_IDS_SHOWN = 12"

record byline_card =
  bc_circles :: "(string \<times> nat) list"
  bc_address :: string
  bc_label :: string
  bc_ids :: "(int \<times> string) list"  \<comment> \<open>an id and what follows it\<close>
  bc_more :: "nat option"

text \<open>Outer \<open>None\<close>: the render throws.  The ids are numerals (\<open>ids\<close> is what \<open>parseInt\<close> makes of them).\<close>

definition byline_ids :: "int list \<Rightarrow> (int \<times> string) list \<times> nat option" where
  "byline_ids ids =
     (let sorted_ids = sort ids; n = length sorted_ids
      in (map (\<lambda>(i, a). (a, if i \<noteq> min MAX_NOUN_IDS_SHOWN n - 1 then '', '' else []))
            (enumerate 0 (take MAX_NOUN_IDS_SHOWN sorted_ids)),
          if n > MAX_NOUN_IDS_SHOWN then Some (n - MAX_NOUN_IDS_SHOWN) else None))"

definition ByLineHoverCard ::
  "(string \<Rightarrow> int) \<Rightarrow> bool \<Rightarrow> hover_delegate list option \<Rightarrow> bool \<Rightarrow> byline_card card option" where
  "ByLineHoverCard parse loading answer error =
     (if loading \<or> answer = Some [] then Some SpinnerCard
      else if error then Some (ErrorCard ''Error fetching Vote info'')
      else case answer of
             Some (d # ds) \<Rightarrow>
               let (ids, more) = byline_ids (map parse (hd_alps d))
               in Some (Card \<lparr>bc_circles = HorizontalStackedAlps (hd_alps d), bc_address = hd_id d,
                              bc_label = (if length (hd_alps d) = 1 then ''Delegated Alp: '' else ''Delegated Alps: ''),
                              bc_ids = ids, bc_more = more\<rparr>)
           | _ \<Rightarrow> None)"

text \<open>The number of the alp, when it was born in milliseconds, who holds it.  \<open>None\<close>: \<open>BigNumber.from\<close>
  throws.\<close>

definition AlpHoverCard ::
  "(string \<Rightarrow> int option) \<Rightarrow> string option \<Rightarrow> auction_state list \<Rightarrow> bool \<Rightarrow> string option \<Rightarrow> bool \<Rightarrow>
     (string \<times> int \<times> string) card option" where
  "AlpHoverCard bn alpId past loading owner error =
     (if past = [] then Some EmptyCard
      else case (alpId, owner) of
             (Some i, Some holder) \<Rightarrow>
               if loading \<or> i = [] then Some SpinnerCard
               else (case bn i of
                       None \<Rightarrow> None
                     | Some n \<Rightarrow>
                         if error then Some (ErrorCard ''Failed to fetch'')
                         else Some (Card (i, getAlpBirthday (if isAlperAlp n then n + 1 else n) past * 1000, holder)))
           | _ \<Rightarrow> Some SpinnerCard)"

section \<open>Proposal texts\<close>

definition processProposalDescriptionText :: "string \<Rightarrow> string \<Rightarrow> string" where
  "processProposalDescriptionText descriptionText proposalTitle = js_remove_first proposalTitle descriptionText"

datatype linked = LinkedAddress string string | PlainSpan string

definition linkIfAddress :: "link_env \<Rightarrow> (string \<Rightarrow> bool) \<Rightarrow> string \<Rightarrow> linked" where
  "linkIfAddress e isAddress content =
     (if isAddress content then LinkedAddress (buildEtherscanAddressLink e content) content else PlainSpan content)"

fun linked_text :: "linked \<Rightarrow> string" where
  "linked_text (LinkedAddress url t) = t"
| "linked_text (PlainSpan t) = t"

definition transactionLink :: "link_env \<Rightarrow> string \<Rightarrow> string \<times> string" where
  "transactionLink e content = (buildEtherscanTxLink e content, js_substring content 0 7)"

record shown_transaction =
  sx_target :: linked
  sx_call :: string
  sx_value :: "string option"
  sx_lines :: "(linked \<times> string) list"

definition calldata_lines :: "link_env \<Rightarrow> (string \<Rightarrow> bool) \<Rightarrow> string \<Rightarrow> (linked \<times> string) list" where
  "calldata_lines e isAddress callData =
     (let parts = js_split CHR '','' callData
      in map (\<lambda>(i, c). (linkIfAddress e isAddress c, if length parts - 1 = i then [] else '',''))
           (enumerate 0 parts))"

text \<open>The description, when there is one, and the transactions.\<close>

definition ProposalContent ::
  "link_env \<Rightarrow> (string \<Rightarrow> bool) \<Rightarrow> web_proposal option \<Rightarrow> string option \<times> shown_transaction list" where
  "ProposalContent e isAddress proposal =
     (case proposal of
        None \<Rightarrow> (None, [])
      | Some p \<Rightarrow>
          (if wp_description p = [] then None
           else Some (processProposalDescriptionText (wp_description p) (wp_title p)),
           case wp_details p of
             None \<Rightarrow> []
           | Some ds \<Rightarrow>
               map (\<lambda>d. \<lparr>sx_target = linkIfAddress e isAddress (pd_target d), sx_call = ''.'' @ pd_functionSig d,
                         sx_value = pd_value d, sx_lines = calldata_lines e isAddress (pd_callData d)\<rparr>) ds))"

text \<open>The popover and the line of a transaction that is being written; the button removes entry \<open>i\<close>.\<close>

definition transaction_popover :: "(string \<Rightarrow> string) \<Rightarrow> proposal_transaction \<Rightarrow> (string \<times> string) list" where
  "transaction_popover formatEther t =
     [(''Address'', pt_address t),
      (''Value'', if pt_value t \<noteq> [] then formatEther (pt_value t) @ '' ETH'' else ''None''),
      (''Function'', if pt_signature t \<noteq> [] then pt_signature t else ''None''),
      (''Calldata'', if pt_calldata t = ''0x'' then ''None'' else pt_calldata t)]"

definition ProposalTransactions :: "proposal_transaction list \<Rightarrow> (string \<times> string) list" where
  "ProposalTransactions ts =
     map (\<lambda>(i, t). (''Transaction #'' @ show_nat (i + 1) @ '' - '', if pt_signature t \<noteq> [] then pt_signature t else ''transfer()''))
       (enumerate 0 ts)"

section \<open>What the cards show is right\<close>

lemma desc_sorted:
  "sorted (map (\<lambda>b. - be_timestamp b) bs) \<Longrightarrow> sort_key (\<lambda>b. - be_timestamp b) bs = bs"
  by (rule sort_key_id_if_sorted)

lemma deserialize_bid [simp]: "deserializeBid b = b"
  by (simp add: deserializeBid_def)

lemma deserializeBids_set [simp]: "set (deserializeBids bs) = set bs" "length (deserializeBids bs) = length bs"
  by (simp_all add: deserializeBids_def)

lemma deserializeBids_sorted: "sorted (map (\<lambda>b. - be_timestamp b) (deserializeBids bs))"
  unfolding deserializeBids_def by (rule sorted_sort_key)

lemma first_latest:
  assumes "sorted (map (\<lambda>b. - be_timestamp b) (x # xs))" "b \<in> set (x # xs)"
  shows "be_timestamp b \<le> be_timestamp x"
  using assms by auto

text \<open>
  The list of bids and the modal agree, and the trophy goes to the winner.  For bids on the
  auction shown that the hook returns, the list under the auction shows the first rows of the modal
  (up to its limit); the modal has a row for every bid, the latest first, and a trophy in its
  first row only; and when a later bid is always a higher one, as the auction house demands, that
  row is the highest bid.
\<close>

theorem trophy_goes_to_highest:
  assumes "useAuctionBids alpId cur od past = Some bs" and "bs \<noteq> []"
  shows "\<exists>rows. BidHistoryModal e w blocked ens (Some bs) = ModalRows rows
       \<and> map (\<lambda>(_, _, r). r) (take n rows) = BidHistory e n (Some bs)
       \<and> (\<forall>i<length rows. fst (snd (rows ! i)) = (i = 0)) \<and> length rows = length bs
       \<and> (\<forall>b\<in>set bs. be_timestamp b \<le> be_timestamp (hd bs))
       \<and> ((\<forall>b\<in>set bs. \<forall>c\<in>set bs. be_timestamp b \<le> be_timestamp c \<longrightarrow> be_value b \<le> be_value c) \<longrightarrow>
            snd (snd (hd rows)) = bidItem e (hd bs) \<and> (\<forall>b\<in>set bs. be_value b \<le> be_value (hd bs)))"
proof -
  obtain raw where raw: "bs = deserializeBids raw"
    using assms(1) by (auto simp: useAuctionBids_def split: if_splits)
  have srt: "sorted (map (\<lambda>b. - be_timestamp b) bs)" unfolding raw by (rule deserializeBids_sorted)
  obtain x xs where bs: "bs = x # xs" using assms(2) by (cases bs) auto
  let ?rows = "map (\<lambda>(i, b). modal_row e w blocked ens i b) (enumerate 0 bs)"
  have m: "BidHistoryModal e w blocked ens (Some bs) = ModalRows ?rows"
    using assms(2) by (simp add: BidHistoryModal_def)
  have "map (\<lambda>(_, _, r). r) (take n ?rows) = map (bidItem e) (map snd (take n (enumerate 0 bs)))"
    by (simp add: take_map modal_row_def case_prod_beta)
  also have "map snd (take n (enumerate 0 bs)) = take n bs"
    by (simp add: take_map [symmetric])
  finally have eq: "map (\<lambda>(_, _, r). r) (take n ?rows) = BidHistory e n (Some bs)"
    by (simp add: BidHistory_def desc_sorted [OF srt] take_map)
  have latest: "\<forall>b\<in>set bs. be_timestamp b \<le> be_timestamp (hd bs)"
    using first_latest [of x xs] srt unfolding bs by auto
  have trophy: "\<forall>i<length ?rows. fst (snd (?rows ! i)) = (i = 0)"
    by (simp add: nth_enumerate_eq modal_row_def)
  have first: "snd (snd (hd ?rows)) = bidItem e (hd bs)" by (simp add: bs modal_row_def)
  show ?thesis
    unfolding m using eq trophy latest first assms(2) by (intro exI [of _ ?rows]) auto
qed

lemma trophy_goes_to_highest_witness:
  "\<exists>rows. BidHistoryModal \<lparr>le_chain = Some 1, le_url = (\<lambda>p b. b @ p), le_params = (\<lambda>_. []), le_api_key = []\<rparr> 900
       (\<lambda>_. False) (\<lambda>_. None) (Some [demo_bid 7 ''bob'' 9 ''h2'', demo_bid 7 ''ann'' 5 ''h1'']) = ModalRows rows
     \<and> length rows = 2 \<and> br_sender (snd (snd (hd rows))) = ''bob''"
proof -
  let ?e = "\<lparr>le_chain = Some 1, le_url = (\<lambda>p b. b @ p), le_params = (\<lambda>_. []), le_api_key = []\<rparr>"
  let ?bs = "[demo_bid 7 ''bob'' 9 ''h2'', demo_bid 7 ''ann'' 5 ''h1'']"
  let ?cur = "\<lparr>activeAuction = None, bids = rev ?bs\<rparr>"
  have u: "useAuctionBids 7 ?cur \<lparr>lastAuctionAlpId = Some 7, onDisplayAuctionAlpId = None\<rparr> [] = Some ?bs"
    by (simp add: useAuctionBids_def deserializeBids_def demo_bid_def)
  have mono: "\<forall>b\<in>set ?bs. \<forall>c\<in>set ?bs. be_timestamp b \<le> be_timestamp c \<longrightarrow> be_value b \<le> be_value c"
    by (simp add: demo_bid_def)
  show ?thesis
    using trophy_goes_to_highest [OF u, where e = ?e and w = 900 and blocked = "\<lambda>_. False" and ens = "\<lambda>_. None" and n = 1]
      mono by (auto simp: bidItem_def demo_bid_def)
qed

text \<open>
  An amount is shown within half of its last digit.  Below 1000 ether, an amount that is not
  zero is shown as a decimal numeral of ether whose value differs from it by at most 50000 gwei;
  \<open>n/a\<close> is shown for zero only; and from 1000 ether on the component throws.
\<close>

theorem shown_amount_close:
  "(case TruncatedAmount wei of
      None \<Rightarrow> 10 ^ 21 \<le> wei
    | Some s \<Rightarrow> (s = ''n/a'') = (wei = 0)
        \<and> (wei = 0 \<or> (\<exists>num v. s = ether_sign @ '' '' @ num \<and> decimal_wei num = Some v
              \<and> \<bar>int v - int wei\<bar> \<le> 5 * 10 ^ 13)))"
proof -
  define u where "u = ether_units wei"
  have u: "u * 10 ^ 14 + (wei + 5 * 10 ^ 13) mod 10 ^ 14 = wei + 5 * 10 ^ 13"
    unfolding u_def ether_units_def by (rule div_mult_mod_eq)
  have m: "(wei + 5 * 10 ^ 13) mod 10 ^ 14 < 10 ^ 14" by simp
  define r where "r = (wei + 5 * 10 ^ 13) mod 10 ^ 14"
  have "int (u * 10 ^ 14) + int r = int wei + 5 * 10 ^ 13" "int r < 10 ^ 14"
    using u m unfolding r_def [symmetric] by (metis of_nat_add of_nat_numeral of_nat_power of_nat_mult, simp)
  then have "\<bar>int (u * 10 ^ 14) - int wei\<bar> \<le> 5 * 10 ^ 13" by simp
  then show ?thesis
    using decimal_wei_fixed [of u] by (auto simp: TruncatedAmount_def u_def ether_sign_def)
qed

lemma enumerate_fst: "map fst (map (\<lambda>(i, a). (a, f i a)) (enumerate k xs)) = xs"
  by (induction xs arbitrary: k) auto

text \<open>What the row of ids reads: every id followed by its separator.\<close>

definition byline_text :: "(int \<times> string) list \<Rightarrow> string" where
  "byline_text shown = concat (map (\<lambda>(a, sep). show_int a @ sep) shown)"

lemma byline_joined:
  "xs \<noteq> [] \<Longrightarrow> n = k + length xs \<Longrightarrow>
     concat (map (\<lambda>(a, sep). show_int a @ sep) (map (\<lambda>(i, a). (a, if i \<noteq> n - 1 then '', '' else [])) (enumerate k xs)))
       = js_join '', '' (map show_int xs)"
proof (induction xs arbitrary: k)
  case (Cons x xs)
  show ?case
  proof (cases xs)
    case (Cons y ys)
    then show ?thesis using Cons.IH [of "Suc k"] Cons.prems by simp
  qed (use Cons.prems in simp)
qed simp

lemma sorted_take_drop:
  fixes xs :: "int list"
  assumes "sorted xs" "a \<in> set (take n xs)" "b \<in> set (drop n xs)"
  shows "a \<le> b"
proof -
  have "sorted (take n xs @ drop n xs)" using assms(1) by simp
  with assms(2,3) show ?thesis by (simp only: sorted_append)
qed

text \<open>
  The card of a proposer lists its alps: the ids shown are the smallest ones, at most twelve,
  in increasing order and separated by commas; none that is left out is smaller than one that is
  shown; and the number after them is exactly how many are left out.
\<close>

theorem byline_lists_smallest:
  assumes "byline_ids ids = (shown, hidden)" and "ids \<noteq> []"
  shows "map fst shown = take 12 (sort ids) \<and> byline_text shown = js_join '', '' (map show_int (take 12 (sort ids)))
       \<and> (\<forall>a\<in>set (map fst shown). \<forall>b\<in>set (drop 12 (sort ids)). a \<le> b)
       \<and> length shown + (case hidden of None \<Rightarrow> 0 | Some m \<Rightarrow> m) = length ids
       \<and> (hidden = None \<longleftrightarrow> length ids \<le> 12)"
proof -
  let ?n = "min 12 (length ids)"
  have s: "shown = map (\<lambda>(i, a). (a, if i \<noteq> ?n - 1 then '', '' else [])) (enumerate 0 (take 12 (sort ids)))"
    and m: "hidden = (if length ids > 12 then Some (length ids - 12) else None)"
    using assms(1) by (auto simp: byline_ids_def MAX_NOUN_IDS_SHOWN_def Let_def)
  have f: "map fst shown = take 12 (sort ids)" unfolding s by (rule enumerate_fst)
  have ne: "take 12 (sort ids) \<noteq> []" using assms(2) by (simp add: take_eq_Nil) (metis length_0_conv length_sort)
  have t: "byline_text shown = js_join '', '' (map show_int (take 12 (sort ids)))"
    unfolding byline_text_def s by (rule byline_joined) (use ne in auto)
  have "\<forall>a\<in>set (map fst shown). \<forall>b\<in>set (drop 12 (sort ids)). a \<le> b"
    unfolding f using sorted_take_drop [OF sorted_sort] by blast
  moreover have "length shown = ?n" unfolding s by simp
  ultimately show ?thesis using f t m by auto
qed

lemma byline_lists_smallest_witness:
  "byline_text (fst (byline_ids [30, 2, 11])) = ''2, 11, 30''"
proof -
  have n: "[30, 2, 11] \<noteq> ([] :: int list)" by simp
  have "show_int 2 = ''2''" "show_int 11 = ''11''" "show_int 30 = ''30''"
    by (simp_all add: show_int_def show_nat_def show_base_def digits_of.simps digit_char_def)
  then show ?thesis
    using byline_lists_smallest [of "[30, 2, 11]" "fst (byline_ids [30, 2, 11])" "snd (byline_ids [30, 2, 11])"] n by simp
qed

lemma lines_joined:
  "xs \<noteq> [] \<Longrightarrow> n = k + length xs \<Longrightarrow>
     concat (map (\<lambda>(c, sep). linked_text c @ sep)
       (map (\<lambda>(i, c). (linkIfAddress e isAddress c, if n - 1 = i then [] else '','')) (enumerate k xs)))
     = js_join '','' xs"
proof (induction xs arbitrary: k)
  case (Cons x xs)
  have l: "linked_text (linkIfAddress e isAddress c) = c" for c by (simp add: linkIfAddress_def)
  show ?case
  proof (cases xs)
    case (Cons y ys)
    then show ?thesis using Cons.IH [of "Suc k"] Cons.prems l by simp
  qed (use Cons.prems l in simp)
qed simp

lemma remove_first_at:
  "\<forall>j < length pre. take (length pat) (drop j (pre @ pat @ post)) \<noteq> pat \<Longrightarrow> pat \<noteq> [] \<Longrightarrow>
     js_remove_first pat (pre @ pat @ post) = pre @ post"
proof (induction pre)
  case Nil
  then show ?case by (cases pat) auto
next
  case (Cons x pre)
  have "\<forall>j < length pre. take (length pat) (drop j (pre @ pat @ post)) \<noteq> pat"
    using Cons.prems(1) by (metis Suc_less_eq append_Cons drop_Suc_Cons length_Cons)
  moreover have "take (length pat) (x # (pre @ pat @ post)) \<noteq> pat"
    using Cons.prems(1) [rule_format, of 0] by simp
  ultimately show ?case using Cons.IH Cons.prems(2) by simp
qed

text \<open>
  The page of a proposal hides nothing of its transactions and repeats no title.  The lines
  shown for a calldata, addresses as links, read together as the calldata itself; and for a proposal
  described as the form writes it, \<open># title\<close>, a blank line and the body, the description shown is that
  text without the title, when the title begins with neither \<open>#\<close> nor a space.
\<close>

theorem proposal_page_shows_all:
  assumes "title \<noteq> []" and "hd title \<noteq> CHR ''#''" and "hd title \<noteq> CHR '' ''"
  shows "concat (map (\<lambda>(c, sep). linked_text c @ sep) (calldata_lines e isAddress callData)) = callData
       \<and> processProposalDescriptionText (proposal_description title body) title = ''# '' @ [NL, NL] @ body"
proof -
  have "concat (map (\<lambda>(c, sep). linked_text c @ sep) (calldata_lines e isAddress callData))
      = js_join '','' (js_split CHR '','' callData)"
    unfolding calldata_lines_def Let_def by (rule lines_joined) simp_all
  then have a: "concat (map (\<lambda>(c, sep). linked_text c @ sep) (calldata_lines e isAddress callData)) = callData"
    by (simp add: js_join_split)
  obtain t ts where t: "title = t # ts" using assms(1) by (cases title) auto
  have "\<forall>j < length ''# ''. take (length title) (drop j (''# '' @ title @ [NL, NL] @ body)) \<noteq> title"
    using assms(2,3) by (auto simp: t less_Suc_eq)
  from remove_first_at [OF this assms(1)] a show ?thesis
    by (simp add: processProposalDescriptionText_def proposal_description_def)
qed

lemma proposal_page_shows_all_witness:
  "processProposalDescriptionText (proposal_description ''Fund it'' ''Why: Fund it'') ''Fund it''
     = ''# '' @ [NL, NL] @ ''Why: Fund it''"
  using proposal_page_shows_all [of "''Fund it''"] by simp

text \<open>\<open>AuctionActivityDateHeadline\<close>: the date above an auction, in milliseconds.\<close>

definition AuctionActivityDateHeadline :: "int \<Rightarrow> int" where
  "AuctionActivityDateHeadline startTime = startTime * 1000"

text \<open>
  The date above a past auction and the birthday below it are the same.  For an alp on display that
  is not the current one the headline takes the start of the auction made by the display hook, and the
  birthday row looks the past auctions up again, both with the next alp in place of a multiple of
  five; they agree, also when the auction is not known.
\<close>

theorem headline_is_birthday:
  assumes "useOnDisplayAuction cur od past = Some (Some a)" and "activeAuction cur = Some c"
      and "wa_alpId a \<noteq> wa_alpId c" and "past \<noteq> []"
  shows "AlpInfoRowBirthday (wa_alpId a) past = Born (AuctionActivityDateHeadline (wa_startTime a))"
proof -
  obtain d where d: "onDisplayAuctionAlpId od = Some d"
    using assms(1) by (auto simp: useOnDisplayAuction_def split: option.splits)
  show ?thesis
  proof (cases "isAlperAlp d")
    case True
    then have "d \<noteq> wa_alpId c"
      using assms(1-3) d by (auto simp: useOnDisplayAuction_def deserializeAuction_def)
    with True assms(1,2) d obtain g where g: "generateEmptyAlperAuction d past = Some g" "a = deserializeAuction g"
      by (auto simp: useOnDisplayAuction_def split: option.splits)
    then obtain n where n: "findAuction (d + 1) past = Some n"
      "g = (case n of None \<Rightarrow> emptyAlperAuction d | Some x \<Rightarrow> (emptyAlperAuction d)\<lparr>wa_startTime := wa_startTime x\<rparr>)"
      by (auto simp: generateEmptyAlperAuction_def Let_def split: option.splits)
    have look: "findAuction i past = Some n \<Longrightarrow>
        n = Option.bind (List.find (has_auction i) past) activeAuction" for i
      by (induction past) (auto simp: has_auction_def split: option.splits if_splits)
    from look [OF n(1)] n(2) g(2) have "wa_startTime a = getAlpBirthday (d + 1) past" "wa_alpId a = d"
      by (auto simp: getAlpBirthday_def deserializeAuction_def emptyAlperAuction_def split: option.splits)
    with True assms(4) show ?thesis by (simp add: AlpInfoRowBirthday_def AuctionActivityDateHeadline_def)
  next
    case False
    then have dc: "d \<noteq> wa_alpId c"
      using assms(1-3) d by (auto simp: useOnDisplayAuction_def deserializeAuction_def)
    obtain x b where x: "List.find (has_auction d) past = Some x" "activeAuction x = Some b" "a = deserializeAuction b"
      using assms(1,2) d dc False by (auto simp: useOnDisplayAuction_def bind_eq_Some_conv)
    have "wa_alpId b = d" using find_has_auction [OF x(1)] x(2) by auto
    with x False assms(4) show ?thesis
      by (simp add: AlpInfoRowBirthday_def AuctionActivityDateHeadline_def getAlpBirthday_def deserializeAuction_def)
  qed
qed

lemma headline_is_birthday_witness:
  "AlpInfoRowBirthday 5 demo_past = Born (AuctionActivityDateHeadline 60)"
proof -
  let ?cur = "setActiveAuction demo_created initial_auction_state"
  let ?a = "(emptyAlperAuction 5)\<lparr>wa_startTime := 60\<rparr>"
  have u: "useOnDisplayAuction ?cur \<lparr>lastAuctionAlpId = Some 7, onDisplayAuctionAlpId = Some 5\<rparr> demo_past = Some (Some ?a)"
    by (simp add: useOnDisplayAuction_def setActiveAuction_def reduxSafeNewAuction_def demo_created_def isAlperAlp_def
        generateEmptyAlperAuction_def demo_past_def emptyAlperAuction_def deserializeAuction_def)
  have "activeAuction ?cur = Some (reduxSafeNewAuction demo_created)" by (simp add: setActiveAuction_def)
  moreover have "wa_alpId ?a \<noteq> wa_alpId (reduxSafeNewAuction demo_created)"
    by (simp add: emptyAlperAuction_def reduxSafeNewAuction_def demo_created_def)
  ultimately show ?thesis
    using headline_is_birthday [OF u] by (simp add: demo_past_def emptyAlperAuction_def)
qed

text \<open>
  The page of a council alp shows a winner nobody is: beside the council, a link to the address that
  is the empty string.
\<close>

lemma council_shows_empty_winner:
  "winner_parts e account False True [] =
     [if account = Some [] then You else AddressLink (buildEtherscanAddressLink e []) [],
      NamedLink (buildEtherscanAddressLink e ''0x6F895beCD7bf90A5C7d1766a1EcA13b1d087dE05'') ''Alpine Council'']"
  by (auto simp: winner_parts_def WINNER_ZERO_ADDRESS_def WARMING_HUT_ADDRESS_def Let_def split: option.splits)

text \<open>
  An auction without bids that began while the page was open has the empty string for bidder, so until
  it is settled its winner is an empty link; the same auction read from the contract has the zero
  address, and shows the warming hut.
\<close>

lemma no_bids_winner:
  "winner_parts e account False False (wa_bidder (reduxSafeNewAuction ev)) =
     [if account = Some [] then You else AddressLink (buildEtherscanAddressLink e []) []]"
  "\<forall>a. account = Some a \<longrightarrow> map to_lower a \<noteq> WINNER_ZERO_ADDRESS \<Longrightarrow>
     winner_parts e account False False WINNER_ZERO_ADDRESS = [AddressLink WARMING_HUT_LINK WARMING_HUT_ADDRESS]"
proof -
  show "winner_parts e account False False (wa_bidder (reduxSafeNewAuction ev)) =
     [if account = Some [] then You else AddressLink (buildEtherscanAddressLink e []) []]"
    by (auto simp: winner_parts_def WINNER_ZERO_ADDRESS_def WARMING_HUT_ADDRESS_def reduxSafeNewAuction_def Let_def
        split: option.splits)
  have "map to_lower WINNER_ZERO_ADDRESS = WINNER_ZERO_ADDRESS" unfolding WINNER_ZERO_ADDRESS_def by code_simp
  then show "\<forall>a. account = Some a \<longrightarrow> map to_lower a \<noteq> WINNER_ZERO_ADDRESS \<Longrightarrow>
     winner_parts e account False False WINNER_ZERO_ADDRESS = [AddressLink WARMING_HUT_LINK WARMING_HUT_ADDRESS]"
    by (auto simp: winner_parts_def Let_def split: option.splits)
qed

text \<open>A failed query has no data, so the cards of a delegate and of an alp keep their spinner, while
  the card of a proposer shows the error.\<close>

lemma failed_queries:
  "DelegateHoverCard loading None True = SpinnerCard"
  "past \<noteq> [] \<Longrightarrow> AlpHoverCard bn alpId past loading None True = Some SpinnerCard"
  "ByLineHoverCard parse False None True = Some (ErrorCard ''Error fetching Vote info'')"
  by (simp_all add: DelegateHoverCard_def AlpHoverCard_def ByLineHoverCard_def split: option.splits)

text \<open>An alp whose auction is not among the past ones is said to be born at the epoch.\<close>

lemma unknown_birthday:
  "past \<noteq> [] \<Longrightarrow> List.find (has_auction (if isAlperAlp i then i + 1 else i)) past = None \<Longrightarrow>
     AlpInfoRowBirthday i past = Born 0"
  by (simp add: AlpInfoRowBirthday_def getAlpBirthday_def)

text \<open>On every chain but Rinkeby the links lead to the explorer of the main network.\<close>

lemma goerli_links: "buildEtherscanTxLink (e\<lparr>le_chain := Some 5\<rparr>) h = buildEtherscanTxLink (e\<lparr>le_chain := Some 1\<rparr>) h"
  by (simp add: buildEtherscanTxLink_def getBaseURL_def)

end
