(* ===== verification/Web_Chrome.thy ===== *)
theory Web_Chrome
  imports Web_Activity Web_Wallet Web_Cards Assets_Seed
begin

text \<open>
  Around the pages: the choice of a language (\<open>hooks/useActivateLocale.ts\<close>, \<open>i18n/\<close>,
  \<open>NavLocaleSwitcher\<close>, \<open>LanguageSelectionModal\<close>), the routes of \<open>App.tsx\<close>, the colours of the
  navigation bar, and the parts of the remaining pages that choose between contents: the governance
  page, the overlay of traits, the feed of an alp's events, the collection of past alps, the editor and
  the delegation dialogue.
\<close>

section \<open>Languages\<close>

definition SUPPORTED_LOCALES :: "string list" where
  "SUPPORTED_LOCALES = [''en-US'', ''ja-JP'']"

definition DEFAULT_LOCALE :: string where
  "DEFAULT_LOCALE = ''en-US''"

definition lower :: "string \<Rightarrow> string" where
  "lower = map to_lower"

definition js_coalesce :: "'a option \<Rightarrow> 'a option \<Rightarrow> 'a option" where
  "js_coalesce a b = (case a of None \<Rightarrow> b | Some x \<Rightarrow> Some x)"

definition parseLocale :: "string option \<Rightarrow> string option" where
  "parseLocale maybeSupportedLocale =
     (case maybeSupportedLocale of
        None \<Rightarrow> None
      | Some m \<Rightarrow>
          List.find (\<lambda>locale. lower locale = lower m \<or> js_split CHR ''-'' locale ! 0 = lower m) SUPPORTED_LOCALES)"

text \<open>\<open>navigator.language\<close>; destructuring ignores what follows the region.\<close>

definition navigatorLocale :: "string option \<Rightarrow> string option" where
  "navigatorLocale nav =
     (case nav of
        None \<Rightarrow> None
      | Some n \<Rightarrow>
          if n = [] then None
          else (case js_split CHR ''-'' n of
                  language # region # _ \<Rightarrow>
                    if region \<noteq> [] then
                      js_coalesce (parseLocale (Some (language @ ''-'' @ map to_upper region))) (parseLocale (Some language))
                    else parseLocale (Some language)
                | [language] \<Rightarrow> parseLocale (Some language)
                | [] \<Rightarrow> None))"

definition initialLocale :: "string option \<Rightarrow> string option \<Rightarrow> string" where
  "initialLocale stored nav =
     (case js_coalesce (parseLocale stored) (navigatorLocale nav) of None \<Rightarrow> DEFAULT_LOCALE | Some l \<Rightarrow> l)"

text \<open>\<open>detected\<close>: \<open>fromNavigator()\<close> of the library.\<close>

definition useActiveLocale :: "string option \<Rightarrow> string option \<Rightarrow> string option \<Rightarrow> string" where
  "useActiveLocale stored nav detected =
     (case js_coalesce stored (js_coalesce (navigatorLocale nav) detected) of None \<Rightarrow> DEFAULT_LOCALE | Some l \<Rightarrow> l)"

text \<open>What the library holds: the active locale and the catalogues that were loaded.\<close>

record i18n_state =
  i18_locale :: "string option"
  i18_loaded :: "string list"

text \<open>\<open>catalogs\<close>: the files of translations; a missing one is ignored and the locale activated all the same.\<close>

definition dynamicActivate :: "string list \<Rightarrow> string \<Rightarrow> i18n_state \<Rightarrow> i18n_state" where
  "dynamicActivate catalogs locale s =
     s\<lparr>i18_loaded := (if locale \<in> set catalogs then List.insert locale (i18_loaded s) else i18_loaded s),
       i18_locale := Some locale\<rparr>"

definition setLocale :: "string list \<Rightarrow> string \<Rightarrow> string option \<times> i18n_state \<Rightarrow> string option \<times> i18n_state" where
  "setLocale catalogs locale s =
     (if fst s \<noteq> Some locale then (Some locale, dynamicActivate catalogs locale (snd s)) else s)"

text \<open>Loading the application: the module activates the initial locale; the provider activates the
  default at once when nothing is active, and after mounting the hook's locale, twice.\<close>

definition mount_provider :: "string list \<Rightarrow> string \<Rightarrow> i18n_state \<Rightarrow> i18n_state" where
  "mount_provider catalogs locale s =
     (let s1 = (if i18_locale s = None \<and> locale = DEFAULT_LOCALE
                then s\<lparr>i18_locale := Some DEFAULT_LOCALE\<rparr> else s)
      in dynamicActivate catalogs locale (dynamicActivate catalogs locale s1))"

definition load_languages :: "string list \<Rightarrow> string option \<Rightarrow> string option \<Rightarrow> string option \<Rightarrow> i18n_state" where
  "load_languages catalogs stored nav detected =
     mount_provider catalogs (useActiveLocale stored nav detected)
       (dynamicActivate catalogs (initialLocale stored nav) \<lparr>i18_locale = None, i18_loaded = []\<rparr>)"

text \<open>The labels in UTF-8.\<close>

definition LOCALE_LABEL :: "string \<Rightarrow> string option" where
  "LOCALE_LABEL locale =
     (if locale = ''en-US'' then Some ''English''
      else if locale = ''ja-JP'' then
        Some [CHR 0xE6, CHR 0x97, CHR 0xA5, CHR 0xE6, CHR 0x9C, CHR 0xAC, CHR 0xE8, CHR 0xAA, CHR 0x9E]
      else None)"

datatype row_style = TopRow | BottomRow | InteriorRow

text \<open>The rows of the dropdown: locale, label, tick, and the style by position.\<close>

definition locale_rows :: "string \<Rightarrow> (string \<times> string option \<times> bool \<times> row_style) list" where
  "locale_rows activeLocale =
     map (\<lambda>(i, l). (l, LOCALE_LABEL l, activeLocale = l,
            if i = 0 then TopRow else if i = length SUPPORTED_LOCALES - 1 then BottomRow else InteriorRow))
       (enumerate 0 SUPPORTED_LOCALES)"

section \<open>Routes and colours\<close>

datatype web_page =
    AuctionHome
  | AuctionOf jsnum
  | AlpersPage
  | CreateProposalPage
  | GovernancePage
  | VotePage string
  | PlaygroundPage
  | DelegatePage
  | NotFoundPage

text \<open>The path as its segments; a slash at the end does not count, and the case of the fixed segments
  neither.  \<open>num\<close> is \<open>Number\<close>.  The redirect matches any path that begins with it.\<close>

definition segments :: "string \<Rightarrow> string list" where
  "segments path =
     (case js_split CHR ''/'' path of
        [] \<Rightarrow> []
      | s # ss \<Rightarrow> if ss \<noteq> [] \<and> last ss = [] then butlast ss else ss)"

definition route_segments :: "(string \<Rightarrow> jsnum) \<Rightarrow> string list \<Rightarrow> web_page" where
  "route_segments num segs =
     (case segs of
        [] \<Rightarrow> AuctionHome
      | [a] \<Rightarrow>
          if lower a = ''alpers'' then AlpersPage
          else if lower a = ''create-proposal'' then CreateProposalPage
          else if lower a = ''vote'' then GovernancePage
          else if lower a = ''playground'' then PlaygroundPage
          else if lower a = ''delegate'' then DelegatePage
          else NotFoundPage
      | a # i # rest \<Rightarrow>
          if i = [] then NotFoundPage
          else if lower a = ''auction'' then AuctionOf (num i)
          else if lower a = ''alp'' \<and> rest = [] then AuctionOf (num i)
          else if lower a = ''vote'' \<and> rest = [] then VotePage i
          else NotFoundPage)"

definition app_route :: "(string \<Rightarrow> jsnum) \<Rightarrow> string \<Rightarrow> web_page" where
  "app_route num path = route_segments num (segments path)"

definition initialAuctionId :: "web_page \<Rightarrow> jsnum option option" where
  "initialAuctionId p = (case p of AuctionHome \<Rightarrow> Some None | AuctionOf n \<Rightarrow> Some (Some n) | _ \<Rightarrow> None)"

definition js_includes :: "string \<Rightarrow> string \<Rightarrow> bool" where
  "js_includes s pat = list_ex (\<lambda>k. take (length pat) (drop k s) = pat) [0..<Suc (length s)]"

definition shouldUseStateBg :: "string \<Rightarrow> bool" where
  "shouldUseStateBg pathname \<longleftrightarrow> pathname = ''/'' \<or> js_includes pathname ''/alp'' \<or> js_includes pathname ''/auction''"

definition pick_by_background :: "'a \<Rightarrow> 'a \<Rightarrow> 'a \<Rightarrow> string \<Rightarrow> bool \<Rightarrow> 'a" where
  "pick_by_background white cool warm pathname isCool =
     (if \<not> shouldUseStateBg pathname then white else if isCool then cool else warm)"

datatype button_style =
    COOL_INFO | COOL_WALLET | WARM_INFO | WARM_WALLET | WHITE_INFO | WHITE_ACTIVE | WHITE_ACTIVE_VOTE_SUBMIT
  | WHITE_WALLET | DELEGATE_BACK | DELEGATE_PRIMARY | DELEGATE_SECONDARY | DELEGATE_DISABLED

fun getNavBarButtonVariant :: "button_style option \<Rightarrow> string" where
  "getNavBarButtonVariant (Some COOL_INFO) = ''coolInfo''"
| "getNavBarButtonVariant (Some COOL_WALLET) = ''coolWallet''"
| "getNavBarButtonVariant (Some WARM_INFO) = ''warmInfo''"
| "getNavBarButtonVariant (Some WARM_WALLET) = ''warmWallet''"
| "getNavBarButtonVariant (Some WHITE_INFO) = ''whiteInfo''"
| "getNavBarButtonVariant (Some WHITE_ACTIVE) = ''whiteActive''"
| "getNavBarButtonVariant (Some WHITE_ACTIVE_VOTE_SUBMIT) = ''whiteActiveVoteSubmit''"
| "getNavBarButtonVariant (Some WHITE_WALLET) = ''whiteWallet''"
| "getNavBarButtonVariant (Some DELEGATE_BACK) = ''delegateBack''"
| "getNavBarButtonVariant (Some DELEGATE_PRIMARY) = ''delegatePrimary''"
| "getNavBarButtonVariant (Some DELEGATE_SECONDARY) = ''delegateSecondary''"
| "getNavBarButtonVariant (Some DELEGATE_DISABLED) = ''delegateDisabled''"
| "getNavBarButtonVariant None = ''info''"

text \<open>The bar's own test has a slash after the word.\<close>

definition nonWalletButtonStyle :: "string \<Rightarrow> bool \<Rightarrow> button_style" where
  "nonWalletButtonStyle pathname isCool =
     (let useStateBg = (pathname = ''/'' \<or> js_includes pathname ''/alp/'' \<or> js_includes pathname ''/auction/'')
      in if \<not> useStateBg then WHITE_INFO else if isCool then COOL_INFO else WARM_INFO)"

definition treasury_style :: "button_style \<Rightarrow> string \<times> bool" where
  "treasury_style s =
     (case s of WARM_INFO \<Rightarrow> ''warmInfo'' | COOL_INFO \<Rightarrow> ''coolInfo'' | _ \<Rightarrow> ''whiteInfo'', s = WHITE_INFO)"

text \<open>A click of a disabled button does nothing.\<close>

definition NavBarButton_click :: "bool option \<Rightarrow> ('s \<Rightarrow> 's) \<Rightarrow> 's \<Rightarrow> 's" where
  "NavBarButton_click disabled onClick =
     (let isDisabled = (case disabled of None \<Rightarrow> False | Some d \<Rightarrow> d) in if isDisabled then id else onClick)"

section \<open>Contents of pages\<close>

text \<open>The governance page: how many alps a proposal needs, and whether the noun is singular.\<close>

definition governance_minimum :: "nat option \<Rightarrow> string \<times> string" where
  "governance_minimum threshold =
     (case threshold of None \<Rightarrow> ''...'' | Some t \<Rightarrow> show_nat (t + 1),
      if threshold = Some 0 then ''Alp'' else ''Alps'')"

definition useProposalStatus :: "proposal_state option \<Rightarrow> string" where
  "useProposalStatus status =
     (case status of
        Some SUCCEEDED \<Rightarrow> ''success'' | Some EXECUTED \<Rightarrow> ''success'' | Some QUEUED \<Rightarrow> ''success''
      | Some DEFEATED \<Rightarrow> ''failure'' | Some VETOED \<Rightarrow> ''failure'' | _ \<Rightarrow> ''pending'')"

definition VoteStatusPill :: "string \<Rightarrow> string" where
  "VoteStatusPill status =
     (if status = ''success'' then ''pass'' else if status = ''failure'' then ''fail'' else ''pending'')"

definition ProposalStatusCopy :: "proposal_state option \<Rightarrow> string" where
  "ProposalStatusCopy status =
     (case status of
        Some PENDING \<Rightarrow> ''Pending'' | Some ACTIVE \<Rightarrow> ''Active'' | Some SUCCEEDED \<Rightarrow> ''Succeeded''
      | Some EXECUTED \<Rightarrow> ''Executed'' | Some DEFEATED \<Rightarrow> ''Defeated'' | Some QUEUED \<Rightarrow> ''Queued''
      | Some CANCELLED \<Rightarrow> ''Canceled'' | Some VETOED \<Rightarrow> ''Vetoed'' | Some EXPIRED \<Rightarrow> ''Expired''
      | _ \<Rightarrow> ''Undetermined'')"

text \<open>The sentence of a vote event: the voter, when it is named, and the words.\<close>

definition ProposalVoteHeadline :: "proposal_state option \<Rightarrow> nat option \<Rightarrow> string option \<Rightarrow> string option \<times> string" where
  "ProposalVoteHeadline status supportDetailed voter =
     (case supportDetailed of
        None \<Rightarrow> (None, if status = Some PENDING \<or> status = Some ACTIVE then ''Waiting for'' else ''Absent for'')
      | Some v \<Rightarrow>
          (Some (case voter of None \<Rightarrow> [] | Some a \<Rightarrow> a),
           if v = 1 then '' voted for'' else if v = 2 then '' abstained on'' else '' voted against''))"

definition getProposalVoteIcon :: "proposal_state option \<Rightarrow> nat option \<Rightarrow> vote_icon" where
  "getProposalVoteIcon status supportDetailed =
     (case supportDetailed of
        None \<Rightarrow> if status = Some PENDING \<or> status = Some ACTIVE then PendingIcon else AbsentIcon
      | Some v \<Rightarrow> if v = 1 then YesIcon else if v = 2 then AbstainIcon else NoIcon)"

definition win_event_words :: "string \<Rightarrow> string" where
  "win_event_words alpId =
     (case parseInt None alpId of
        Some n \<Rightarrow> if n mod 10 = 0 then '' sent to '' else '' won by ''
      | None \<Rightarrow> '' won by '')"

definition proposal_event_target :: "string option \<Rightarrow> string" where
  "proposal_event_target proposalId =
     (case proposalId of None \<Rightarrow> ''/vote'' | Some i \<Rightarrow> if i = [] then ''/vote'' else ''/vote/'' @ i)"

text \<open>The rows of the feeds: above the fold, below it; the wide one shows a spinner for no events.\<close>

datatype feed_rows = RowsSpinner | Rows "event_payload list"

definition DesktopProfileActivityFeed :: "profile_event list option \<Rightarrow> nat \<Rightarrow> feed_rows \<times> feed_rows" where
  "DesktopProfileActivityFeed events aboveFoldEventCount =
     (case events of
        None \<Rightarrow> (RowsSpinner, RowsSpinner)
      | Some es \<Rightarrow>
          if length es > 0 then
            (Rows (map pe_payload (take aboveFoldEventCount es)), Rows (map pe_payload (drop aboveFoldEventCount es)))
          else (RowsSpinner, RowsSpinner))"

definition MobileProfileActivityFeed :: "profile_event list \<Rightarrow> nat \<Rightarrow> event_payload list \<times> event_payload list" where
  "MobileProfileActivityFeed es aboveFoldEventCount =
     (map pe_payload (take aboveFoldEventCount es), map pe_payload (drop aboveFoldEventCount es))"

text \<open>The overlay of traits: \<open>None\<close> when a part is missing.  Its order is head, glasses, body,
  accessory; the background's name is that of the page's colour.\<close>

definition getAlpTrait :: "string \<Rightarrow> string \<times> string" where
  "getAlpTrait filename =
     (let splitData = js_split CHR ''-'' filename in (hd splitData, js_join '' '' (tl splitData)))"

definition trait_backgrounds :: "(string \<times> string) list" where
  "trait_backgrounds =
     [(''#63a0f9'', ''Bluebird Sky''), (''#018146'', ''Evergreen''), (''#000000'', ''Night''), (''#76858b'', ''Slate''),
      (''#f8d689'', ''Yellow Snow''), (''#d5d7e1'', ''Cool''), (''#e1d7d5'', ''Warm'')]"

definition AlpTraitsOverlay :: "asset_image list \<Rightarrow> string \<Rightarrow> (string list \<times> string option) option" where
  "AlpTraitsOverlay parts stateBgColor =
     (if length parts < 4 then None
      else Some (map (\<lambda>i. snd (getAlpTrait (as_filename (parts ! i)))) [2, 3, 0, 1],
                 map_of trait_backgrounds stateBgColor))"

text \<open>The last \<open>historyCount\<close> alps before the latest, \<open>None\<close> for a place that stays empty.\<close>

definition HistoryCollection :: "nat \<Rightarrow> int \<Rightarrow> int option list" where
  "HistoryCollection historyCount latestAlpId =
     (if latestAlpId = 0 then []
      else
        let startAtZero = latestAlpId - int historyCount < 0
        in map (\<lambda>i. if int i < latestAlpId
                     then Some ((if startAtZero then 0 else latestAlpId - int historyCount) + int i)
                     else None) [0..<historyCount])"

text \<open>The editor's state is the text of its preview; the dialogue of delegations opens on one of two panels.\<close>

record editor_view =
  ev_preview :: bool
  ev_title :: bool
  ev_text :: string

definition ProposalEditor :: "string \<Rightarrow> string \<Rightarrow> editor_view" where
  "ProposalEditor title proposalText =
     \<lparr>ev_preview = (proposalText \<noteq> []), ev_title = (title \<noteq> []), ev_text = proposalText\<rparr>"

definition onBodyChange :: "string \<Rightarrow> string \<times> string \<Rightarrow> string \<times> string" where
  "onBodyChange body s = (body, body)"

datatype delegation_panel = ChangePanel | CurrentPanel

definition delegation_modal_start :: "string option \<Rightarrow> delegation_panel" where
  "delegation_modal_start delegateTo = (if delegateTo \<noteq> None then ChangePanel else CurrentPanel)"

definition delegation_primary :: "delegation_panel \<Rightarrow> delegation_panel" where
  "delegation_primary p = ChangePanel"

text \<open>Whether the dialogue that offers the picture shows it, and offers the download.\<close>

definition AlpModal_view :: "nat \<Rightarrow> string option \<Rightarrow> bool \<times> bool" where
  "AlpModal_view width png =
     (let shown = (case png of None \<Rightarrow> False | Some p \<Rightarrow> p \<noteq> []) in (shown, \<not> width \<le> 991 \<and> shown))"

section \<open>Languages agree\<close>

lemma supported_cases: "l \<in> set SUPPORTED_LOCALES \<longleftrightarrow> l = ''en-US'' \<or> l = ''ja-JP''"
  by (auto simp: SUPPORTED_LOCALES_def)

lemma parse_supported: "parseLocale m = Some l \<Longrightarrow> l \<in> set SUPPORTED_LOCALES"
  by (auto simp: parseLocale_def find_Some_iff split: option.splits)

lemma parse_self: "l \<in> set SUPPORTED_LOCALES \<Longrightarrow> parseLocale (Some l) = Some l"
proof -
  have "parseLocale (Some ''en-US'') = Some ''en-US''" "parseLocale (Some ''ja-JP'') = Some ''ja-JP''" by code_simp+
  then show "l \<in> set SUPPORTED_LOCALES \<Longrightarrow> parseLocale (Some l) = Some l" by (auto simp: supported_cases)
qed

lemma navigator_supported: "navigatorLocale n = Some l \<Longrightarrow> l \<in> set SUPPORTED_LOCALES"
  using parse_supported
  by (auto simp: navigatorLocale_def js_coalesce_def split: option.splits list.splits if_splits)

text \<open>
  The application has a language it can speak, and the one that was chosen.  The initial locale
  is always one of the supported ones.  Choosing a supported locale stores and activates it, ticks its row
  of the menu and no other, and a later visit starts in it whatever the browser says: it is the
  initial locale, the hook's locale, and the one that is active in the end.
\<close>

theorem chosen_language_stays:
  assumes "l \<in> set SUPPORTED_LOCALES" and "fst s \<noteq> Some l"
  shows "initialLocale stored nav \<in> set SUPPORTED_LOCALES
       \<and> i18_locale (snd (setLocale catalogs l s)) = Some l
       \<and> initialLocale (fst (setLocale catalogs l s)) nav = l
       \<and> useActiveLocale (fst (setLocale catalogs l s)) nav detected = l
       \<and> i18_locale (load_languages catalogs (fst (setLocale catalogs l s)) nav detected) = Some l
       \<and> map fst (filter (\<lambda>(_, _, ticked, _). ticked) (locale_rows l)) = [l]"
proof -
  have i: "initialLocale stored nav \<in> set SUPPORTED_LOCALES"
    using parse_supported [of stored] navigator_supported [of nav]
    by (auto simp: initialLocale_def js_coalesce_def DEFAULT_LOCALE_def supported_cases split: option.splits)
  have s: "setLocale catalogs l s = (Some l, dynamicActivate catalogs l (snd s))"
    using assms(2) by (simp add: setLocale_def)
  have "map fst (filter (\<lambda>(_, _, ticked, _). ticked) (locale_rows l)) = [l]"
    using assms(1) by (auto simp: supported_cases locale_rows_def SUPPORTED_LOCALES_def)
  with i parse_self [OF assms(1)] show ?thesis
    by (simp add: s dynamicActivate_def initialLocale_def useActiveLocale_def js_coalesce_def load_languages_def
        mount_provider_def Let_def)
qed

lemma chosen_language_stays_witness:
  "useActiveLocale (fst (setLocale [''en-US'', ''ja-JP''] ''ja-JP'' (None, \<lparr>i18_locale = Some ''en-US'', i18_loaded = []\<rparr>)))
     (Some ''de-DE'') None = ''ja-JP''"
  using chosen_language_stays [of "''ja-JP''" "(None, \<lparr>i18_locale = Some ''en-US'', i18_loaded = []\<rparr>)"]
  by (simp add: supported_cases)

text \<open>
  A browser in another language ends in that language, although the initial locale is the default one:
  the hook asks \<open>fromNavigator\<close> before it comes to the default; and a stored value that is no supported
  locale is used as it is.
\<close>

lemma unsupported_language_active:
  "load_languages [''en-US'', ''ja-JP''] None (Some ''de-DE'') (Some ''de-DE'')
     = \<lparr>i18_locale = Some ''de-DE'', i18_loaded = [''en-US'']\<rparr>"
  "initialLocale None (Some ''de-DE'') = ''en-US''"
  "useActiveLocale (Some ''tlh'') nav detected = ''tlh''"
proof -
  have "navigatorLocale (Some ''de-DE'') = None" by code_simp
  moreover have "parseLocale None = None" by (simp add: parseLocale_def)
  ultimately show "load_languages [''en-US'', ''ja-JP''] None (Some ''de-DE'') (Some ''de-DE'')
     = \<lparr>i18_locale = Some ''de-DE'', i18_loaded = [''en-US'']\<rparr>"
    "initialLocale None (Some ''de-DE'') = ''en-US''"
    by (simp_all add: load_languages_def useActiveLocale_def initialLocale_def js_coalesce_def mount_provider_def
        dynamicActivate_def DEFAULT_LOCALE_def Let_def)
  show "useActiveLocale (Some ''tlh'') nav detected = ''tlh''" by (simp add: useActiveLocale_def js_coalesce_def)
qed

section \<open>Paths lead to their pages\<close>

lemma slash_not_digit: "CHR ''/'' \<notin> set (show_nat n)"
proof -
  have "d < 10 \<Longrightarrow> digit_char d \<noteq> CHR ''/''" for d
    using lt16_cases [of d] by (auto simp: digit_char_def)
  then show ?thesis using set_show_nat by metis
qed

text \<open>
  The address the page writes leads back to the alp.  The path of alp \<open>n\<close>, also with a slash at
  its end, and the old path of its auction are the auction page for alp \<open>n\<close>; the empty path is the
  auction page without a number; so what the page shows after a reload is the requested one.
\<close>

theorem paths_lead_back:
  "app_route js_Number (alpPath (int n)) = AuctionOf (Some (int n))
   \<and> app_route js_Number (alpPath (int n) @ ''/'') = AuctionOf (Some (int n))
   \<and> app_route js_Number (''/auction/'' @ show_nat n) = app_route js_Number (alpPath (int n))
   \<and> initialAuctionId (app_route js_Number (alpPath (int n))) = Some (Some (Some (int n)))
   \<and> initialAuctionId (app_route js_Number ''/'') = Some None"
proof -
  have p: "alpPath (int n) = ''/alp/'' @ show_nat n" by (simp add: alpPath_def show_int_def)
  have ne: "show_nat n \<noteq> []" by simp
  have split: "js_split CHR ''/'' (CHR ''/'' # w @ CHR ''/'' # show_nat n) = [[], w, show_nat n]"
    "js_split CHR ''/'' (CHR ''/'' # w @ CHR ''/'' # show_nat n @ ''/'') = [[], w, show_nat n, []]"
    if "CHR ''/'' \<notin> set w" for w
    using js_split_append_sep [OF that, of "show_nat n"] js_split_append_sep [OF that, of "show_nat n @ ''/''"]
      js_split_no_sep [OF slash_not_digit, of n] js_split_append_sep [OF slash_not_digit, of n "[]"] by simp_all
  have seg: "segments (''/alp/'' @ show_nat n) = [''alp'', show_nat n]"
    "segments ((''/alp/'' @ show_nat n) @ ''/'') = [''alp'', show_nat n]"
    "segments (''/auction/'' @ show_nat n) = [''auction'', show_nat n]"
    using split [of "''alp''"] split [of "''auction''"] ne by (simp_all add: segments_def)
  have low: "lower ''alp'' = ''alp''" "lower ''auction'' = ''auction''" by code_simp+
  have "segments ''/'' = []" by (simp add: segments_def)
  with seg low ne show ?thesis
    unfolding p by (simp add: app_route_def route_segments_def initialAuctionId_def js_Number_show_nat)
qed

text \<open>On the page of the founders the bar's two tests differ: the menu is coloured, the buttons are white.\<close>

lemma alpers_colours:
  "pick_by_background white cool warm ''/alpers'' True = cool" "nonWalletButtonStyle ''/alpers'' True = WHITE_INFO"
proof -
  have "shouldUseStateBg ''/alpers''" "\<not> js_includes ''/alpers'' ''/alp/''" "\<not> js_includes ''/alpers'' ''/auction/''"
    by code_simp+
  then show "pick_by_background white cool warm ''/alpers'' True = cool" "nonWalletButtonStyle ''/alpers'' True = WHITE_INFO"
    by (simp_all add: pick_by_background_def nonWalletButtonStyle_def Let_def)
qed

section \<open>Votes, thresholds and traits\<close>

text \<open>
  An alp's vote is told the same way everywhere.  The event feed and the rows of a profile choose the
  same icon, the same colour and text of the proposal's status, and words that agree, for every
  status and for a missing vote and the three votes; and the governance page asks for exactly the
  number of alps with which the form lets a proposal through.
\<close>

theorem votes_told_alike:
  assumes "supportDetailed \<in> {None, Some 0, Some 1, Some 2}"
  shows "getProposalVoteIcon status supportDetailed = selectIconForAlpVoteActivityRow status supportDetailed
       \<and> useProposalStatus status = selectProposalStatus status
       \<and> ProposalStatusCopy status = selectProposalText status
       \<and> map to_lower (snd (ProposalVoteHeadline status supportDetailed voter))
           = (if supportDetailed = None then [] else '' '') @ map to_lower (selectVotingInfoText status supportDetailed)
       \<and> (hasEnoughVote (Some v) (Some t) \<longleftrightarrow> t + 1 \<le> v) \<and> fst (governance_minimum (Some t)) = show_nat (t + 1)"
proof -
  have st: "useProposalStatus status = selectProposalStatus status"
    "ProposalStatusCopy status = selectProposalText status"
    by (cases status; simp add: useProposalStatus_def selectProposalStatus_def ProposalStatusCopy_def
        selectProposalText_def split: proposal_state.splits)+
  have low: "map to_lower '' voted for'' = '' '' @ map to_lower ''Voted for''"
    "map to_lower '' voted against'' = '' '' @ map to_lower ''Voted against''"
    "map to_lower '' abstained on'' = '' '' @ map to_lower ''Abstained on''" by code_simp+
  show ?thesis
    using assms st low
    by (elim insertE emptyE; simp only: option.inject;
        simp add: getProposalVoteIcon_def selectIconForAlpVoteActivityRow_def ProposalVoteHeadline_def
          selectVotingInfoText_def hasEnoughVote_def governance_minimum_def; arith?)
qed

definition trait_name :: "asset_image \<Rightarrow> string" where
  "trait_name img = snd (getAlpTrait (as_filename img))"

text \<open>
  The overlay names the traits of the alp that is shown.  For a seed whose parts exist it lists the
  names of its head, glasses, body and accessory, each the file name without its kind; and once the
  handler has set the page's colour from the seed, with the colours of the assets, the colour is
  the alp's background and its name is the one of that background.
\<close>

theorem overlay_names_traits:
  fixes app :: application_state
  assumes "ad_parts (getAlpData bk s) = map Some parts" and "sd_background s < 7"
      and "map (Cons CHR ''#'') (bk_bgcolors bk) = backgroundColors"
  defines "colour \<equiv> stateBackgroundColor (loadedAlpHandler (sd_background s) app)"
  shows "ad_background (getAlpData bk s) = Some (tl colour)
       \<and> AlpTraitsOverlay parts colour =
           Some (map trait_name [bk_heads bk ! sd_head s, bk_glasses bk ! sd_glasses s,
                                 bk_bodies bk ! sd_body s, bk_accessories bk ! sd_accessory s],
                 Some ([''Bluebird Sky'', ''Evergreen'', ''Night'', ''Slate'', ''Yellow Snow'', ''Cool'', ''Warm'']
                       ! sd_background s))"
proof -
  have seven: "length backgroundColors = 7" by (simp add: backgroundColors_def)
  then have len: "length (bk_bgcolors bk) = 7" using assms(3) by (metis length_map)
  have colour: "colour = backgroundColors ! sd_background s"
    using assms(2) seven by (simp add: colour_def loadedAlpHandler_def setStateBackgroundColor_def)
  then have "colour = CHR ''#'' # bk_bgcolors bk ! sd_background s"
    using assms(2,3) len by (metis nth_map)
  then have bg: "ad_background (getAlpData bk s) = Some (tl colour)"
    using assms(2) len by (simp add: getAlpData_def array_at_def)
  have "sd_background s \<in> {0, 1, 2, 3, 4, 5, 6}" using assms(2) by auto
  then have name: "map_of trait_backgrounds colour
      = Some ([''Bluebird Sky'', ''Evergreen'', ''Night'', ''Slate'', ''Yellow Snow'', ''Cool'', ''Warm''] ! sd_background s)"
    unfolding colour by (elim insertE emptyE) (simp_all add: trait_backgrounds_def backgroundColors_def)
  have parts: "parts = [bk_bodies bk ! sd_body s, bk_accessories bk ! sd_accessory s,
      bk_heads bk ! sd_head s, bk_glasses bk ! sd_glasses s]"
    using assms(1) by (auto simp: getAlpData_def array_at_def Cons_eq_map_conv split: if_splits)
  show ?thesis using bg name by (simp add: parts AlpTraitsOverlay_def trait_name_def)
qed

lemma overlay_names_traits_witness:
  "fst (the (AlpTraitsOverlay [\<lparr>as_filename = ''body-red'', as_data = []\<rparr>, \<lparr>as_filename = ''accessory-1n'', as_data = []\<rparr>,
      \<lparr>as_filename = ''head-big-foot'', as_data = []\<rparr>, \<lparr>as_filename = ''glasses-blue'', as_data = []\<rparr>] ''#000000''))
     = [''big foot'', ''blue'', ''red'', ''1n'']"
proof -
  let ?i = "\<lambda>f. \<lparr>as_filename = f, as_data = []\<rparr>"
  let ?bk = "\<lparr>bk_bgcolors = map tl backgroundColors, bk_bodies = [?i ''body-red''], bk_accessories = [?i ''accessory-1n''],
     bk_heads = [?i ''head-big-foot''], bk_glasses = [?i ''glasses-blue'']\<rparr>"
  let ?s = "\<lparr>sd_background = 2, sd_body = 0, sd_accessory = 0, sd_head = 0, sd_glasses = 0\<rparr>"
  let ?app = "\<lparr>stateBackgroundColor = [], isCoolBackground = True, alertModal = \<lparr>am_show = False, am_title = None, am_message = None\<rparr>\<rparr>"
  have 1: "ad_parts (getAlpData ?bk ?s) = map Some [?i ''body-red'', ?i ''accessory-1n'', ?i ''head-big-foot'', ?i ''glasses-blue'']"
    by (simp add: getAlpData_def array_at_def)
  have 2: "sd_background ?s < 7" by simp
  have 3: "map (Cons CHR ''#'') (bk_bgcolors ?bk) = backgroundColors" by (simp add: backgroundColors_def)
  have c: "stateBackgroundColor (loadedAlpHandler (sd_background ?s) ?app) = ''#000000''"
    by (simp add: loadedAlpHandler_def setStateBackgroundColor_def backgroundColors_def)
  have "trait_name (?i ''head-big-foot'') = ''big foot''" "trait_name (?i ''glasses-blue'') = ''blue''"
    "trait_name (?i ''body-red'') = ''red''" "trait_name (?i ''accessory-1n'') = ''1n''"
    by (simp_all add: trait_name_def getAlpTrait_def)
  with overlay_names_traits [OF 1 2 3, of ?app] show ?thesis unfolding c by simp
qed

text \<open>The collection shows the alps before the latest, all of them known ones, in order; with fewer than
  it has places for, the rest stays empty.\<close>

lemma history_before_latest:
  assumes "0 < latest"
  shows "length (HistoryCollection n latest) = n
       \<and> (int n \<le> latest \<longrightarrow> HistoryCollection n latest = map (\<lambda>i. Some (latest - int n + int i)) [0..<n])
       \<and> (\<forall>x\<in>set (HistoryCollection n latest). case x of None \<Rightarrow> latest < int n | Some a \<Rightarrow> 0 \<le> a \<and> a < latest)"
  using assms by (auto simp: HistoryCollection_def Let_def split: if_splits)

lemma feeds_show_all:
  "es \<noteq> [] \<Longrightarrow> DesktopProfileActivityFeed (Some es) n
     = (Rows (fst (MobileProfileActivityFeed es n)), Rows (snd (MobileProfileActivityFeed es n)))"
  "fst (MobileProfileActivityFeed es n) @ snd (MobileProfileActivityFeed es n) = map pe_payload es"
  by (simp_all add: DesktopProfileActivityFeed_def MobileProfileActivityFeed_def flip: map_append)

end
