(* ===== verification/Web_Queries.thy ===== *)
theory Web_Queries
  imports Prelude
begin

text \<open>
  The queries that the packages send to the subgraph, \<open>wrappers/subgraph.ts\<close> of the web application,
  \<open>functions/theGraph.ts\<close> and \<open>nouns-bots/src/subgraph.ts\<close>, as syntax trees, with the schema of
  \<open>nouns-subgraph\<close> they are sent to and the rules by which a Graph node accepts a query: every field
  must be declared, an entity must be opened and a scalar must not be, lists take \<open>first\<close> (100 when
  it is missing, 1000 at most), \<open>orderBy\<close>, \<open>orderDirection\<close> and \<open>where\<close>, a single entity takes its id.
\<close>

section \<open>Queries\<close>

datatype gval = GInt int | GStr string | GName string | GStrs "string list" | GObj "(string \<times> gval) list"

datatype gql = Sel (sel_name: string) (sel_args: "(string \<times> gval) list") (sel_subs: "gql list")

definition leaves :: "string list \<Rightarrow> gql list" where
  "leaves fs = map (\<lambda>f. Sel f [] []) fs"

definition opened :: "string \<Rightarrow> gql list \<Rightarrow> gql" where
  "opened f subs = Sel f [] subs"

definition seedsQuery :: "int \<Rightarrow> gql" where
  "seedsQuery most =
     Sel ''seeds'' [(''first'', GInt most)]
       (leaves [''id'', ''background'', ''body'', ''accessory'', ''head'', ''glasses''])"

definition proposalsQuery :: "int \<Rightarrow> gql" where
  "proposalsQuery most =
     Sel ''proposals'' [(''first'', GInt most), (''orderBy'', GName ''createdBlock''), (''orderDirection'', GName ''asc'')]
       (leaves [''id'', ''description'', ''status'', ''proposalThreshold'', ''quorumVotes'', ''forVotes'', ''againstVotes'',
                ''abstainVotes'', ''createdTransactionHash'', ''createdBlock'', ''startBlock'', ''endBlock'',
                ''executionETA'', ''targets'', ''values'', ''signatures'', ''calldatas'']
        @ [opened ''proposer'' (leaves [''id''])])"

definition auctionQuery :: "int \<Rightarrow> gql" where
  "auctionQuery auctionId =
     Sel ''auction'' [(''id'', GInt auctionId)]
       (leaves [''id'', ''amount'', ''settled''] @ [opened ''bidder'' (leaves [''id''])]
        @ leaves [''startTime'', ''endTime'']
        @ [opened ''alp''
             (leaves [''id'']
              @ [opened ''seed'' (leaves [''id'', ''background'', ''body'', ''accessory'', ''head'', ''glasses'']),
                 opened ''owner'' (leaves [''id''])]),
           opened ''bids'' (leaves [''id'', ''blockNumber'', ''txIndex'', ''amount''])])"

definition bidsByAuctionQuery :: "string \<Rightarrow> gql" where
  "bidsByAuctionQuery auctionId =
     Sel ''bids'' [(''where'', GObj [(''auction'', GStr auctionId)])]
       (leaves [''id'', ''amount'', ''blockNumber'', ''blockTimestamp'', ''txIndex'']
        @ [opened ''bidder'' (leaves [''id'']), opened ''alp'' (leaves [''id''])])"

definition alpQuery :: "string \<Rightarrow> gql" where
  "alpQuery i =
     Sel ''alp'' [(''id'', GStr i)]
       (leaves [''id'']
        @ [opened ''seed'' (leaves [''background'', ''body'', ''accessory'', ''head'', ''glasses'']),
           opened ''owner'' (leaves [''id''])])"

definition alpsIndex :: gql where
  "alpsIndex = opened ''alps'' (leaves [''id''] @ [opened ''owner'' (leaves [''id''])])"

definition latestAuctionsQuery :: gql where
  "latestAuctionsQuery =
     Sel ''auctions'' [(''orderBy'', GName ''startTime''), (''orderDirection'', GName ''desc''), (''first'', GInt 1000)]
       (leaves [''id'', ''amount'', ''settled''] @ [opened ''bidder'' (leaves [''id''])]
        @ leaves [''startTime'', ''endTime'']
        @ [opened ''alp'' (leaves [''id''] @ [opened ''owner'' (leaves [''id''])]),
           opened ''bids''
             (leaves [''id'', ''amount'', ''blockNumber'', ''blockTimestamp'', ''txIndex'']
              @ [opened ''bidder'' (leaves [''id''])])])"

definition latestBidsQuery :: "int \<Rightarrow> gql" where
  "latestBidsQuery most =
     Sel ''bids'' [(''first'', GInt most), (''orderBy'', GName ''blockTimestamp''), (''orderDirection'', GName ''desc'')]
       (leaves [''id''] @ [opened ''bidder'' (leaves [''id''])]
        @ leaves [''amount'', ''blockTimestamp'', ''txIndex'', ''blockNumber'']
        @ [opened ''auction'' (leaves [''id'', ''startTime'', ''endTime'', ''settled''])])"

definition alpVotingHistoryQuery :: "int \<Rightarrow> gql" where
  "alpVotingHistoryQuery alpId =
     Sel ''alp'' [(''id'', GInt alpId)]
       (leaves [''id'']
        @ [opened ''votes''
             (leaves [''blockNumber''] @ [opened ''proposal'' (leaves [''id''])]
              @ leaves [''support'', ''supportDetailed''] @ [opened ''voter'' (leaves [''id''])])])"

definition alpTransferHistoryQuery :: "int \<Rightarrow> gql" where
  "alpTransferHistoryQuery alpId =
     Sel ''transferEvents'' [(''where'', GObj [(''alp'', GStr (show_int alpId))])]
       (leaves [''id''] @ [opened ''previousHolder'' (leaves [''id'']), opened ''newHolder'' (leaves [''id''])]
        @ leaves [''blockNumber''])"

definition alpDelegationHistoryQuery :: "int \<Rightarrow> gql" where
  "alpDelegationHistoryQuery alpId =
     Sel ''delegationEvents'' [(''where'', GObj [(''alp'', GStr (show_int alpId))])]
       (leaves [''id''] @ [opened ''previousDelegate'' (leaves [''id'']), opened ''newDelegate'' (leaves [''id''])]
        @ leaves [''blockNumber''])"

definition createTimestampAllProposals :: gql where
  "createTimestampAllProposals =
     Sel ''proposals''
       [(''orderBy'', GName ''createdTimestamp''), (''orderDirection'', GName ''asc''), (''first'', GInt 1000)]
       (leaves [''id'', ''createdTimestamp''])"

definition proposalVotesQuery :: "string \<Rightarrow> gql" where
  "proposalVotesQuery proposalId =
     Sel ''votes'' [(''where'', GObj [(''proposal'', GStr proposalId), (''votesRaw_gt'', GInt 0)])]
       (leaves [''supportDetailed''] @ [opened ''voter'' (leaves [''id''])])"

definition delegateAlpsAtBlockQuery :: "string list \<Rightarrow> int \<Rightarrow> gql" where
  "delegateAlpsAtBlockQuery delegates block =
     Sel ''delegates'' [(''where'', GObj [(''id_in'', GStrs delegates)]), (''block'', GObj [(''number'', GInt block)])]
       (leaves [''id''] @ [opened ''alpsRepresented'' (leaves [''id''])])"

definition currentlyDelegatedAlps :: "string \<Rightarrow> gql" where
  "currentlyDelegatedAlps delegate =
     Sel ''delegates'' [(''where'', GObj [(''id'', GStr delegate)])]
       (leaves [''id''] @ [opened ''alpsRepresented'' (leaves [''id''])])"

text \<open>This id is printed without quotes, as a number.\<close>

definition totalAlpSupplyAtPropSnapshot :: "int \<Rightarrow> gql" where
  "totalAlpSupplyAtPropSnapshot proposalId =
     Sel ''proposals'' [(''where'', GObj [(''id'', GInt proposalId)])] (leaves [''totalSupply''])"

definition propUsingDynamicQuorum :: "string \<Rightarrow> gql" where
  "propUsingDynamicQuorum proposalId = Sel ''proposal'' [(''id'', GStr proposalId)] (leaves [''quorumCoefficient''])"

text \<open>The query of the serverless functions and the two of the bots.\<close>

definition nounsGql :: gql where
  "nounsGql =
     opened ''nouns''
       (leaves [''id''] @ [opened ''owner'' (leaves [''id''] @ [opened ''delegate'' (leaves [''id''])])]
        @ [opened ''votes'' ([opened ''proposal'' (leaves [''id''])] @ leaves [''supportDetailed'']),
           opened ''seed'' (leaves [''background'', ''body'', ''accessory'', ''head'', ''glasses''])])"

definition getLastAuctionBids_query :: gql where
  "getLastAuctionBids_query =
     Sel ''auctions'' [(''orderBy'', GName ''startTime''), (''orderDirection'', GName ''desc''), (''first'', GInt 1)]
       (leaves [''id'', ''endTime'']
        @ [Sel ''bids'' [(''orderBy'', GName ''blockNumber''), (''orderDirection'', GName ''desc''), (''first'', GInt 1)]
             (leaves [''id'', ''amount''] @ [opened ''bidder'' (leaves [''id''])])])"

definition getAllProposals_query :: gql where
  "getAllProposals_query =
     opened ''proposals''
       (leaves [''id''] @ [opened ''proposer'' (leaves [''id''])]
        @ leaves [''description'', ''status'', ''quorumVotes'', ''proposalThreshold'', ''startBlock'', ''endBlock'',
                  ''executionETA'']
        @ [opened ''votes''
             (leaves [''id''] @ [opened ''voter'' (leaves [''id''])] @ leaves [''votes'', ''supportDetailed'', ''reason''])])"

section \<open>The schema\<close>

type_synonym entity_fields = "(string \<times> string option) list"

definition scalars :: "string list \<Rightarrow> entity_fields" where
  "scalars fs = map (\<lambda>f. (f, None)) fs"

definition refs_to :: "(string \<times> string) list \<Rightarrow> entity_fields" where
  "refs_to fs = map (\<lambda>(f, t). (f, Some t)) fs"

definition schema_of_alps :: "(string \<times> entity_fields) list" where
  "schema_of_alps =
     [(''DelegationEvent'', scalars [''id'', ''blockNumber'', ''blockTimestamp'']
         @ refs_to [(''alp'', ''Alp''), (''previousDelegate'', ''Delegate''), (''newDelegate'', ''Delegate'')]),
      (''TransferEvent'', scalars [''id'', ''blockNumber'', ''blockTimestamp'']
         @ refs_to [(''alp'', ''Alp''), (''previousHolder'', ''Account''), (''newHolder'', ''Account'')]),
      (''Seed'', scalars [''id'', ''background'', ''body'', ''accessory'', ''head'', ''glasses'']),
      (''Alp'', scalars [''id''] @ refs_to [(''seed'', ''Seed''), (''owner'', ''Account''), (''votes'', ''Vote'')]),
      (''Bid'', scalars [''id'', ''amount'', ''blockNumber'', ''txIndex'', ''blockTimestamp'']
         @ refs_to [(''alp'', ''Alp''), (''bidder'', ''Account''), (''auction'', ''Auction'')]),
      (''Auction'', scalars [''id'', ''amount'', ''startTime'', ''endTime'', ''settled'']
         @ refs_to [(''alp'', ''Alp''), (''bidder'', ''Account''), (''bids'', ''Bid'')])]"

definition schema_of_governance :: "(string \<times> entity_fields) list" where
  "schema_of_governance =
     [(''Account'', scalars [''id'', ''tokenBalanceRaw'', ''tokenBalance'', ''totalTokensHeldRaw'', ''totalTokensHeld'']
         @ refs_to [(''delegate'', ''Delegate''), (''alps'', ''Alp'')]),
      (''Delegate'', scalars [''id'', ''delegatedVotesRaw'', ''delegatedVotes'', ''tokenHoldersRepresentedAmount'']
         @ refs_to [(''tokenHoldersRepresented'', ''Account''), (''alpsRepresented'', ''Alp''), (''votes'', ''Vote''),
                    (''proposals'', ''Proposal'')]),
      (''Proposal'', scalars [''id'', ''targets'', ''values'', ''signatures'', ''calldatas'', ''createdTimestamp'',
           ''createdBlock'', ''createdTransactionHash'', ''startBlock'', ''endBlock'', ''proposalThreshold'',
           ''quorumVotes'', ''forVotes'', ''againstVotes'', ''abstainVotes'', ''description'', ''status'',
           ''executionETA'', ''totalSupply'', ''minQuorumVotesBPS'', ''maxQuorumVotesBPS'', ''quorumCoefficient'']
         @ refs_to [(''proposer'', ''Delegate''), (''votes'', ''Vote'')])]"

definition schema_of_votes :: "(string \<times> entity_fields) list" where
  "schema_of_votes =
     [(''Vote'', scalars [''id'', ''support'', ''supportDetailed'', ''votesRaw'', ''votes'', ''reason'', ''blockNumber'']
         @ refs_to [(''voter'', ''Delegate''), (''alps'', ''Alp''), (''proposal'', ''Proposal'')]),
      (''Governance'', scalars [''id'', ''proposals'', ''currentTokenHolders'', ''currentDelegates'', ''totalTokenHolders'',
           ''totalDelegates'', ''delegatedVotesRaw'', ''delegatedVotes'', ''proposalsQueued'']),
      (''DynamicQuorumParams'', scalars [''id'', ''minQuorumVotesBPS'', ''maxQuorumVotesBPS'', ''quorumCoefficient'',
           ''dynamicQuorumStartBlock''])]"

definition schema :: "(string \<times> entity_fields) list" where
  "schema = schema_of_alps @ schema_of_governance @ schema_of_votes"

text \<open>A Graph node offers each entity under its name in lower case, one by id and all in the plural.\<close>

definition roots :: "(string \<times> string \<times> bool) list" where
  "roots =
     [(''delegationEvents'', ''DelegationEvent'', True), (''transferEvents'', ''TransferEvent'', True),
      (''seeds'', ''Seed'', True), (''alps'', ''Alp'', True), (''alp'', ''Alp'', False), (''bids'', ''Bid'', True),
      (''auctions'', ''Auction'', True), (''auction'', ''Auction'', False), (''accounts'', ''Account'', True),
      (''delegates'', ''Delegate'', True), (''delegate'', ''Delegate'', False), (''proposals'', ''Proposal'', True),
      (''proposal'', ''Proposal'', False), (''votes'', ''Vote'', True)]"

section \<open>Accepted queries\<close>

definition field_of :: "string \<Rightarrow> string \<Rightarrow> string option option" where
  "field_of T f = (case map_of schema T of None \<Rightarrow> None | Some fs \<Rightarrow> map_of fs f)"

text \<open>A filter names a field, or a field with a suffix.\<close>

definition filter_ok :: "string \<Rightarrow> string \<Rightarrow> bool" where
  "filter_ok T k \<longleftrightarrow>
     field_of T k \<noteq> None \<or> (\<exists>s\<in>set [''_gt'', ''_in'']. length s < length k \<and> drop (length k - length s) k = s
        \<and> field_of T (take (length k - length s) k) \<noteq> None)"

fun list_arg_ok :: "string \<Rightarrow> string \<times> gval \<Rightarrow> bool" where
  "list_arg_ok T (k, GInt n) = (k = ''first'' \<and> 0 < n \<and> n \<le> 1000)"
| "list_arg_ok T (k, GName x) =
     (k = ''orderBy'' \<and> field_of T x = Some None \<or> k = ''orderDirection'' \<and> (x = ''asc'' \<or> x = ''desc''))"
| "list_arg_ok T (k, GObj fs) =
     (k = ''where'' \<and> (\<forall>f\<in>set fs. filter_ok T (fst f)) \<or> k = ''block'' \<and> map fst fs = [''number''])"
| "list_arg_ok T _ = False"

fun id_arg_ok :: "string \<times> gval \<Rightarrow> bool" where
  "id_arg_ok (k, GInt n) = (k = ''id'')"
| "id_arg_ok (k, GStr s) = (k = ''id'')"
| "id_arg_ok _ = False"

fun conforms :: "string \<Rightarrow> gql \<Rightarrow> bool" where
  "conforms T (Sel f args subs) =
     (case field_of T f of
        None \<Rightarrow> False
      | Some None \<Rightarrow> args = [] \<and> subs = []
      | Some (Some U) \<Rightarrow> (\<forall>a\<in>set args. list_arg_ok U a) \<and> subs \<noteq> [] \<and> (\<forall>s\<in>set subs. conforms U s))"

definition query_ok :: "gql \<Rightarrow> bool" where
  "query_ok q =
     (case map_of roots (sel_name q) of
        None \<Rightarrow> False
      | Some (T, many) \<Rightarrow>
          (\<forall>a\<in>set (sel_args q). if many then list_arg_ok T a else id_arg_ok a) \<and>
          sel_subs q \<noteq> [] \<and> (\<forall>s\<in>set (sel_subs q). conforms T s))"

text \<open>How many entities the node returns at most, and its answer when the entities that match are \<open>xs\<close>,
  in the requested order.\<close>

definition first_of :: "gql \<Rightarrow> nat" where
  "first_of q = (case map_of (sel_args q) ''first'' of Some (GInt n) \<Rightarrow> nat n | _ \<Rightarrow> 100)"

definition graph_answer :: "gql \<Rightarrow> 'a list \<Rightarrow> 'a list" where
  "graph_answer q xs = take (first_of q) xs"

text \<open>Whether a path of fields is in the answer.\<close>

fun selects :: "string list \<Rightarrow> gql \<Rightarrow> bool" where
  "selects [] q = True"
| "selects (p # ps) q = (\<exists>s\<in>set (sel_subs q). sel_name s = p \<and> selects ps s)"

section \<open>The queries fit the schema and their readers\<close>

lemmas query_defs =
  leaves_def opened_def scalars_def refs_to_def schema_def schema_of_alps_def schema_of_governance_def
  schema_of_votes_def roots_def field_of_def filter_ok_def query_ok_def

definition web_queries :: "int \<Rightarrow> string \<Rightarrow> string list \<Rightarrow> gql list" where
  "web_queries n s ds =
     [seedsQuery 1000, proposalsQuery 1000, auctionQuery n, bidsByAuctionQuery s, alpQuery s, alpsIndex,
      latestAuctionsQuery, latestBidsQuery 10, alpVotingHistoryQuery n, alpTransferHistoryQuery n,
      alpDelegationHistoryQuery n, createTimestampAllProposals, proposalVotesQuery s,
      delegateAlpsAtBlockQuery ds n, currentlyDelegatedAlps s, totalAlpSupplyAtPropSnapshot n,
      propUsingDynamicQuorum s]"

lemma auction_queries_ok:
  "query_ok (seedsQuery 1000)" "query_ok (auctionQuery n)" "query_ok (bidsByAuctionQuery s)"
  "query_ok (alpQuery s)" "query_ok alpsIndex" "query_ok latestAuctionsQuery" "query_ok (latestBidsQuery 10)"
  by (simp_all add: query_defs seedsQuery_def auctionQuery_def bidsByAuctionQuery_def alpQuery_def alpsIndex_def
      latestAuctionsQuery_def latestBidsQuery_def)

lemma history_queries_ok:
  "query_ok (alpVotingHistoryQuery n)" "query_ok (alpTransferHistoryQuery n)"
  "query_ok (alpDelegationHistoryQuery n)" "query_ok createTimestampAllProposals"
  by (simp_all add: query_defs alpVotingHistoryQuery_def alpTransferHistoryQuery_def alpDelegationHistoryQuery_def
      createTimestampAllProposals_def)

lemma governance_queries_ok:
  "query_ok (proposalsQuery 1000)" "query_ok (proposalVotesQuery s)" "query_ok (delegateAlpsAtBlockQuery ds n)"
  "query_ok (currentlyDelegatedAlps s)" "query_ok (totalAlpSupplyAtPropSnapshot n)" "query_ok (propUsingDynamicQuorum s)"
  by (simp_all add: query_defs proposalsQuery_def proposalVotesQuery_def delegateAlpsAtBlockQuery_def
      currentlyDelegatedAlps_def totalAlpSupplyAtPropSnapshot_def propUsingDynamicQuorum_def)

lemma bot_queries_ok: "query_ok getLastAuctionBids_query" "query_ok getAllProposals_query"
  by (simp_all add: query_defs getLastAuctionBids_query_def getAllProposals_query_def)

lemma functions_query_rejected: "\<not> query_ok nounsGql"
  by (simp add: query_ok_def nounsGql_def opened_def roots_def)

text \<open>The fields that the readers of the answers use.\<close>

definition auction_paths :: "string list list" where
  "auction_paths =
     [[''id''], [''amount''], [''startTime''], [''endTime''], [''bidder'', ''id''], [''bids'', ''id''],
      [''bids'', ''amount''], [''bids'', ''blockTimestamp''], [''bids'', ''bidder'', ''id'']]"

definition proposal_paths :: "string list list" where
  "proposal_paths =
     [[''id''], [''description''], [''status''], [''forVotes''], [''againstVotes''], [''abstainVotes''],
      [''createdBlock''], [''createdTransactionHash''], [''startBlock''], [''endBlock''], [''executionETA''],
      [''proposer'', ''id''], [''proposalThreshold''], [''quorumVotes''], [''targets''], [''values''],
      [''signatures''], [''calldatas'']]"

definition bot_proposal_paths :: "string list list" where
  "bot_proposal_paths =
     [[''id''], [''proposer'', ''id''], [''description''], [''status''], [''quorumVotes''], [''proposalThreshold''],
      [''startBlock''], [''endBlock''], [''executionETA''], [''votes'', ''id''], [''votes'', ''voter'', ''id''],
      [''votes'', ''votes''], [''votes'', ''supportDetailed''], [''votes'', ''reason'']]"

definition readers :: "int \<Rightarrow> string \<Rightarrow> string list \<Rightarrow> (gql \<times> string list list) list" where
  "readers n s ds =
     [(latestAuctionsQuery, auction_paths),
      (proposalsQuery 1000, proposal_paths),
      (seedsQuery 1000, map (\<lambda>f. [f]) [''id'', ''background'', ''body'', ''accessory'', ''head'', ''glasses'']),
      (auctionQuery n, [[''bidder'', ''id'']]),
      (alpQuery s, [[''owner'', ''id'']]),
      (alpVotingHistoryQuery n, [[''votes'', ''blockNumber''], [''votes'', ''proposal'', ''id''], [''votes'', ''support''],
         [''votes'', ''supportDetailed''], [''votes'', ''voter'', ''id'']]),
      (alpTransferHistoryQuery n, [[''id''], [''previousHolder'', ''id''], [''newHolder'', ''id''], [''blockNumber'']]),
      (alpDelegationHistoryQuery n, [[''id''], [''previousDelegate'', ''id''], [''newDelegate'', ''id''], [''blockNumber'']]),
      (createTimestampAllProposals, [[''id''], [''createdTimestamp'']]),
      (proposalVotesQuery s, [[''supportDetailed''], [''voter'', ''id'']]),
      (delegateAlpsAtBlockQuery ds n, [[''id''], [''alpsRepresented'', ''id'']]),
      (currentlyDelegatedAlps s, [[''id''], [''alpsRepresented'', ''id'']]),
      (totalAlpSupplyAtPropSnapshot n, [[''totalSupply'']]),
      (propUsingDynamicQuorum s, [[''quorumCoefficient'']]),
      (getLastAuctionBids_query, [[''id''], [''endTime''], [''bids'', ''id''], [''bids'', ''amount''], [''bids'', ''bidder'', ''id'']]),
      (getAllProposals_query, bot_proposal_paths)]"

definition serves :: "gql \<Rightarrow> string list list \<Rightarrow> bool" where
  "serves q paths \<longleftrightarrow> (\<forall>p\<in>set paths. selects p q)"

lemma auctions_served:
  "serves latestAuctionsQuery auction_paths"
  "serves (auctionQuery n) [[''bidder'', ''id'']]" "serves (alpQuery s) [[''owner'', ''id'']]"
  "serves getLastAuctionBids_query [[''id''], [''endTime''], [''bids'', ''id''], [''bids'', ''amount''], [''bids'', ''bidder'', ''id'']]"
  by (simp_all add: serves_def auction_paths_def latestAuctionsQuery_def auctionQuery_def alpQuery_def
      getLastAuctionBids_query_def leaves_def opened_def)

lemma proposals_served:
  "serves (proposalsQuery 1000) proposal_paths" "serves getAllProposals_query bot_proposal_paths"
  "serves createTimestampAllProposals [[''id''], [''createdTimestamp'']]"
  "serves (proposalVotesQuery s) [[''supportDetailed''], [''voter'', ''id'']]"
  by (simp_all add: serves_def proposal_paths_def bot_proposal_paths_def proposalsQuery_def getAllProposals_query_def
      createTimestampAllProposals_def proposalVotesQuery_def leaves_def opened_def)

lemma alps_served:
  "serves (seedsQuery 1000) (map (\<lambda>f. [f]) [''id'', ''background'', ''body'', ''accessory'', ''head'', ''glasses''])"
  "serves (alpVotingHistoryQuery n) [[''votes'', ''blockNumber''], [''votes'', ''proposal'', ''id''], [''votes'', ''support''],
     [''votes'', ''supportDetailed''], [''votes'', ''voter'', ''id'']]"
  "serves (alpTransferHistoryQuery n) [[''id''], [''previousHolder'', ''id''], [''newHolder'', ''id''], [''blockNumber'']]"
  "serves (alpDelegationHistoryQuery n) [[''id''], [''previousDelegate'', ''id''], [''newDelegate'', ''id''], [''blockNumber'']]"
  "serves (delegateAlpsAtBlockQuery ds n) [[''id''], [''alpsRepresented'', ''id'']]"
  "serves (currentlyDelegatedAlps s) [[''id''], [''alpsRepresented'', ''id'']]"
  "serves (totalAlpSupplyAtPropSnapshot n) [[''totalSupply'']]"
  "serves (propUsingDynamicQuorum s) [[''quorumCoefficient'']]"
  by (simp_all add: serves_def seedsQuery_def alpVotingHistoryQuery_def alpTransferHistoryQuery_def
      alpDelegationHistoryQuery_def delegateAlpsAtBlockQuery_def currentlyDelegatedAlps_def
      totalAlpSupplyAtPropSnapshot_def propUsingDynamicQuorum_def leaves_def opened_def)


text \<open>
  What an answer leaves out.  A query's answer is complete exactly when no more entities match
  than it asks for; and the votes of a proposal, the proposals of the bots and the transfers of an alp
  are asked for without a number, so that their answers end after a hundred, the auctions after a
  thousand.
\<close>

theorem answers_are_cut:
  fixes xs :: "'a list"
  shows "(graph_answer q xs = xs \<longleftrightarrow> length xs \<le> first_of q)
       \<and> length (graph_answer (proposalVotesQuery s) xs) = min 100 (length xs)
       \<and> length (graph_answer getAllProposals_query xs) = min 100 (length xs)
       \<and> length (graph_answer (alpTransferHistoryQuery n) xs) = min 100 (length xs)
       \<and> length (graph_answer latestAuctionsQuery xs) = min 1000 (length xs)"
proof -
  have f: "first_of (proposalVotesQuery s) = 100" "first_of getAllProposals_query = 100"
    "first_of (alpTransferHistoryQuery n) = 100" "first_of latestAuctionsQuery = 1000"
    by (simp_all add: first_of_def proposalVotesQuery_def getAllProposals_query_def alpTransferHistoryQuery_def
        latestAuctionsQuery_def opened_def)
  with f show ?thesis by (simp add: graph_answer_def min.commute)
qed

end
