(* ===== verification/Web_Vote_Page.thy ===== *)
theory Web_Vote_Page
  imports Web_Cards Web_Quorum
begin

text \<open>
  The page of a proposal as a whole: \<open>pages/Vote\<close> with \<open>ProposalHeader\<close> and \<open>VoteModal\<close>.  The page has
  a hook for each of its two transactions; requests of one hook share its status.  An event comes
  with the answers that the page has at that moment: those of the queries, of the contracts, of the
  clock and of the wallet, which change at any time.  A frame is what the page shows.
\<close>

section \<open>A hook and its requests\<close>

text \<open>\<open>useTransaction\<close> in a page: the status, and for every request that is not settled whether it has
  been signed.  All of them set the same status.\<close>

record tx_hook =
  th_status :: transaction_state
  th_error :: "string option"
  th_live :: "bool list"

definition new_hook :: tx_hook where
  "new_hook = \<lparr>th_status = TNone, th_error = None, th_live = []\<rparr>"

definition hook_send :: "tx_hook \<Rightarrow> tx_hook" where
  "hook_send h = h\<lparr>th_status := PendingSignature, th_live := th_live h @ [False]\<rparr>"

datatype hook_event =
    Signed nat
  | Refused nat "string option"
  | Mined nat
  | Reverted nat "string option"

definition live_request :: "nat \<Rightarrow> bool \<Rightarrow> tx_hook \<Rightarrow> bool" where
  "live_request k approved h \<longleftrightarrow> k < length (th_live h) \<and> th_live h ! k = approved"

definition without_request :: "nat \<Rightarrow> 'a list \<Rightarrow> 'a list" where
  "without_request k xs = take k xs @ drop (Suc k) xs"

text \<open>The statuses that \<open>transact\<close> sets after signing, refusing, mining and reverting a request;
  \<open>None\<close> when there is no such request.\<close>

fun hook_step :: "hook_event \<Rightarrow> tx_hook \<Rightarrow> tx_hook option" where
  "hook_step (Signed k) h =
     (if live_request k False h then Some (h\<lparr>th_status := Mining, th_live := (th_live h)[k := True]\<rparr>) else None)"
| "hook_step (Refused k err) h =
     (if live_request k False h
      then Some (h\<lparr>th_status := TException, th_error := err, th_live := without_request k (th_live h)\<rparr>) else None)"
| "hook_step (Mined k) h =
     (if live_request k True h then Some (h\<lparr>th_status := Success, th_live := without_request k (th_live h)\<rparr>) else None)"
| "hook_step (Reverted k err) h =
     (if live_request k True h
      then Some (h\<lparr>th_status := Fail, th_error := err, th_live := without_request k (th_live h)\<rparr>) else None)"

section \<open>What the page is given\<close>

text \<open>\<open>vi_dq\<close>: the answer about the dynamic quorum, \<open>Some None\<close> for an answer without a proposal.\<close>

record vote_inputs =
  vi_proposal :: "web_proposal option"
  vi_timestamp :: int
  vi_now :: int
  vi_block :: "nat option"
  vi_account :: "string option"
  vi_connected :: bool  \<comment> \<open>the contracts are loaded\<close>
  vi_availableVotes :: "nat option"
  vi_currentQuorum :: "int option"
  vi_loading :: bool
  vi_error :: bool
  vi_voters :: "voter list option"
  vi_snapshot :: "delegate_snapshot list option"
  vi_loadingDQ :: bool
  vi_dqError :: bool
  vi_dq :: "string option option"
  vi_receipt :: vote_receipt
  vi_creation :: "nat option"
  vi_mobile :: bool
  vi_locale :: string

record vote_page =
  vg_modal :: vote_modal
  vg_showQuorumModal :: bool
  vg_isDelegateView :: bool
  vg_isQueuePending :: bool
  vg_isExecutePending :: bool
  vg_queue :: tx_hook
  vg_execute :: tx_hook
  vg_alerts :: "alert_modal list"  \<comment> \<open>those set, the last one first\<close>
  vg_calls :: "dao_call list"

definition new_vote_page :: vote_page where
  "new_vote_page =
     \<lparr>vg_modal = new_vote_modal, vg_showQuorumModal = False, vg_isDelegateView = False,
      vg_isQueuePending = False, vg_isExecutePending = False, vg_queue = new_hook, vg_execute = new_hook,
      vg_alerts = [], vg_calls = []\<rparr>"

definition isV2Prop :: "string option \<Rightarrow> bool option" where
  "isV2Prop dqProposal = map_option (\<lambda>coefficient. num_lt (Some 0) (js_Number coefficient)) dqProposal"

text \<open>The quorum is read from the contract unless the coefficient is the string \<open>0\<close> or unknown.\<close>

definition skips_quorum :: "string option option \<Rightarrow> bool" where
  "skips_quorum dq = (case dq of Some (Some coefficient) \<Rightarrow> coefficient = ''0'' | _ \<Rightarrow> True)"

definition vote_page_data :: "vote_inputs \<Rightarrow> vote_row list option" where
  "vote_page_data i = vote_rows (vi_voters i) (vi_snapshot i)"

section \<open>The header\<close>

datatype vote_notice = YouHaveNoVotes | ConnectToVote

record vote_button =
  vb_notice :: "vote_notice option"
  vb_disabled :: bool

definition voteButton :: "bool \<Rightarrow> nat \<Rightarrow> bool \<Rightarrow> vote_button" where
  "voteButton isWalletConnected availableVotes hasVoted =
     \<lparr>vb_notice =
        (if isWalletConnected then (if availableVotes = 0 then Some YouHaveNoVotes else None) else Some ConnectToVote),
      vb_disabled = disableVoteButton isWalletConnected availableVotes hasVoted\<rparr>"

text \<open>The line below the title: with the language's own layout, the proposer's link and the hover
  card's address, and the link to the transaction.\<close>

record by_line =
  bl_japanese :: bool
  bl_proposer :: "string \<times> string"
  bl_tip :: string
  bl_transaction :: "string \<times> string"

record header_view =
  hv_number :: jsnum
  hv_status :: "string \<times> status_class"
  hv_title :: string
  hv_topButton :: "vote_button option"
  hv_byLine :: by_line
  hv_bottomButton :: "vote_button option"
  hv_alerts :: "header_alert list"

definition or_empty :: "string option \<Rightarrow> string" where
  "or_empty s = (case s of None \<Rightarrow> [] | Some x \<Rightarrow> x)"

text \<open>\<open>parseInt(id || '0')\<close>\<close>

definition number_of_id :: "string option \<Rightarrow> jsnum" where
  "number_of_id i = parseInt None (if or_empty i = [] then ''0'' else or_empty i)"

definition proposal_by_line :: "link_env \<Rightarrow> string \<Rightarrow> web_proposal \<Rightarrow> string \<Rightarrow> by_line" where
  "proposal_by_line e locale p txHash =
     \<lparr>bl_japanese = (locale = ''ja-JP''),
      bl_proposer = (buildEtherscanAddressLink e (or_empty (wp_proposer p)), or_empty (wp_proposer p)),
      bl_tip = or_empty (wp_proposer p), bl_transaction = transactionLink e txHash\<rparr>"

text \<open>\<open>None\<close>: a proposal without a transaction hash has no \<open>substring\<close>.\<close>

definition ProposalHeader :: "link_env \<Rightarrow> vote_inputs \<Rightarrow> web_proposal \<Rightarrow> bool \<Rightarrow> header_view option" where
  "ProposalHeader e i p active =
     (let availableVotes = (case vi_availableVotes i of None \<Rightarrow> 0 | Some v \<Rightarrow> v);
          button = (if active
                    then Some (voteButton (vi_account i \<noteq> None) availableVotes (useHasVotedOnProposal (vi_receipt i)))
                    else None)
      in map_option (\<lambda>txHash.
           \<lparr>hv_number = number_of_id (wp_id p), hv_status = (statusText (wp_status p), statusVariant (wp_status p)),
            hv_title = wp_title p,
            hv_topButton = (if \<not> vi_mobile i then button else None),
            hv_byLine = proposal_by_line e (vi_locale i) p txHash,
            hv_bottomButton = (if vi_mobile i then button else None),
            hv_alerts = header_alerts active (vi_receipt i) availableVotes (vi_creation i)\<rparr>)
         (wp_transactionHash p))"

section \<open>The voting form's content\<close>

text \<open>The placeholder of the field for a reason is left out.\<close>

datatype vote_text = CastVotes nat dao_vote jsnum | CastOneVote dao_vote jsnum | AbstainOn jsnum

datatype modal_part =
    VotedOn jsnum
  | VoteError string string
  | VoteOptions "(vote_text \<times> bool) list" string bool bool
    \<comment> \<open>the choices with the selected one, the reason, whether \<open>Submit\<close> looks disabled, and spins\<close>

definition vote_option_text :: "nat \<Rightarrow> jsnum \<Rightarrow> dao_vote \<Rightarrow> vote_text" where
  "vote_option_text availableVotes n v =
     (if v = ABSTAIN then AbstainOn n
      else if availableVotes > 1 then CastVotes availableVotes v n
      else CastOneVote v n)"

definition voteModalContent :: "string option \<Rightarrow> nat \<Rightarrow> vote_modal \<Rightarrow> modal_part list" where
  "voteModalContent proposalId availableVotes m =
     (let n = number_of_id proposalId in
      (if vm_isVoteSucessful m then [VotedOn n] else []) @
      (if vm_isVoteFailed m then [VoteError (vm_failureCopy m) (vm_errorMessage m)] else []) @
      (if \<not> vm_isVoteFailed m \<and> \<not> vm_isVoteSucessful m
       then [VoteOptions (map (\<lambda>v. (vote_option_text availableVotes n v, vm_vote m = Some v)) [FOR, AGAINST, ABSTAIN])
               (vm_reason m) (vm_vote m = None) (vm_isLoading m)]
       else []))"

definition VoteModal :: "string option \<Rightarrow> nat \<Rightarrow> vote_modal \<Rightarrow> (jsnum \<times> modal_part list) option" where
  "VoteModal proposalId availableVotes m =
     (if vm_show m then Some (number_of_id proposalId, voteModalContent proposalId availableVotes m) else None)"

section \<open>The frame\<close>

datatype move_label = QueueProposal_label | ExecuteProposal_label

record vote_content =
  vc_quorumModal :: "nat option"  \<comment> \<open>the votes against that the quorum's overlay is given\<close>
  vc_voteModal :: "(jsnum \<times> modal_part list) option"
  vc_header :: header_view
  vc_move :: "(move_label \<times> bool) option"  \<comment> \<open>whether it is disabled, and then spins\<close>
  vc_toDelegateView :: bool
  vc_cards :: "(vote_card_variant \<times> jsnum \<times> rat \<times> string list) list"
  vc_threshold :: "bool \<times> jsnum"
  vc_dates :: "time_copy \<times> int option"
  vc_snapshot :: jsnum

datatype vote_frame = FrameThrows | FrameSpinner | FrameFailed | Frame vote_content

definition vote_active :: "vote_inputs \<Rightarrow> web_proposal \<Rightarrow> bool" where
  "vote_active i p = isActiveForVoting (vi_timestamp i) (vi_now i) (vi_block i) p"

definition move_button :: "vote_inputs \<Rightarrow> vote_page \<Rightarrow> (move_label \<times> bool) option" where
  "move_button i s =
     (if isAwaitingStateChange (vi_now i) (vi_proposal i)
      then Some (if hasSucceeded (vi_proposal i) then QueueProposal_label else ExecuteProposal_label,
                 move_button_disabled (vg_isQueuePending s) (vg_isExecutePending s))
      else None)"

definition vote_cards :: "vote_page \<Rightarrow> web_proposal \<Rightarrow> vote_row list \<Rightarrow> (vote_card_variant \<times> jsnum \<times> rat \<times> string list) list" where
  "vote_cards s p rows =
     map (\<lambda>v. (v, card_number (vg_isDelegateView s) p v (Some rows), percentage p (card_count p v),
               getAlpVotes rows (card_support v)))
       [CardFor, CardAgainst, CardAbstain]"

text \<open>The number shown under \<open>Threshold\<close>.\<close>

definition quorum_shown :: "bool \<Rightarrow> int option \<Rightarrow> web_proposal \<Rightarrow> jsnum" where
  "quorum_shown v2 currentQuorum p =
     (if v2 then Some (case currentQuorum of None \<Rightarrow> 0 | Some q \<Rightarrow> q) else wp_quorumVotes p)"

definition vote_content_of :: "link_env \<Rightarrow> vote_inputs \<Rightarrow> vote_page \<Rightarrow> web_proposal \<Rightarrow> vote_row list \<Rightarrow> vote_frame" where
  "vote_content_of e i s p rows =
     (let date = startOrEndTimeTime (vi_timestamp i) (vi_now i) (vi_block i) p in
      case (isV2Prop (the (vi_dq i)), ProposalHeader e i p (vote_active i p)) of
        (Some v2, Some header) \<Rightarrow>
          if date = Some None then FrameThrows
          else Frame
            \<lparr>vc_quorumModal = (if vg_showQuorumModal s then Some (length (getAlpVotes rows 0)) else None),
             vc_voteModal = VoteModal (wp_id p) (case vi_availableVotes i of None \<Rightarrow> 0 | Some v \<Rightarrow> v) (vg_modal s),
             vc_header = header, vc_move = move_button i s, vc_toDelegateView = (\<not> vg_isDelegateView s),
             vc_cards = vote_cards s p rows, vc_threshold = (v2, quorum_shown v2 (vi_currentQuorum i) p),
             vc_dates = (startOrEndTimeCopy (vi_timestamp i) (vi_now i) (vi_block i) p, Option.bind date (\<lambda>d. d)),
             vc_snapshot = wp_createdBlock p\<rparr>
      | _ \<Rightarrow> FrameThrows)"

definition VotePage :: "link_env \<Rightarrow> vote_inputs \<Rightarrow> vote_page \<Rightarrow> vote_frame" where
  "VotePage e i s =
     (case vote_page_view (vi_proposal i) (vi_loading i) (vi_error i) (vote_page_data i) (vi_loadingDQ i) (vi_dqError i) (vi_dq i) of
        PageSpinner \<Rightarrow> FrameSpinner
      | FailedToFetch \<Rightarrow> FrameFailed
      | PageShown \<Rightarrow> vote_content_of e i s (the (vi_proposal i)) (the (vote_page_data i)))"

section \<open>What happens on the page\<close>

definition alert_set :: "alert_modal option \<Rightarrow> vote_page \<Rightarrow> vote_page" where
  "alert_set a s = (case a of None \<Rightarrow> s | Some m \<Rightarrow> s\<lparr>vg_alerts := m # vg_alerts s\<rparr>)"

text \<open>The effects on the two statuses; neither passes a \<open>getErrorMessage\<close>.\<close>

definition queue_effect :: "vote_page \<Rightarrow> vote_page" where
  "queue_effect s =
     (case onTransactionStateChange (th_status (vg_queue s)) (th_error (vg_queue s)) ''Proposal Queued!'' (\<lambda>_. None) of
        (pending, a) \<Rightarrow>
          alert_set a (case pending of None \<Rightarrow> s | Some b \<Rightarrow> s\<lparr>vg_isQueuePending := b\<rparr>))"

definition execute_effect :: "vote_page \<Rightarrow> vote_page" where
  "execute_effect s =
     (case onTransactionStateChange (th_status (vg_execute s)) (th_error (vg_execute s)) ''Proposal Executed!'' (\<lambda>_. None) of
        (pending, a) \<Rightarrow>
          alert_set a (case pending of None \<Rightarrow> s | Some b \<Rightarrow> s\<lparr>vg_isExecutePending := b\<rparr>))"

text \<open>The function that the move button calls.\<close>

definition move_state :: "vote_inputs \<Rightarrow> vote_page \<Rightarrow> vote_page" where
  "move_state i s =
     (case moveStateAction (vi_connected i) (vi_proposal i) of
        None \<Rightarrow> s
      | Some call \<Rightarrow>
          let t = s\<lparr>vg_calls := vg_calls s @ [call]\<rparr>
          in if hasSucceeded (vi_proposal i) then queue_effect (t\<lparr>vg_queue := hook_send (vg_queue t)\<rparr>)
             else execute_effect (t\<lparr>vg_execute := hook_send (vg_execute t)\<rparr>))"

datatype vote_page_event =
    MoveState
  | ToggleView
  | ClickVote
  | InModal modal_event
  | ClickThreshold
  | DismissQuorum
  | QueueTx hook_event
  | ExecuteTx hook_event

text \<open>While the page shows no content its form is not mounted and loses its state, except what the
  page keeps for it.\<close>

definition unmounted :: "vote_modal \<Rightarrow> vote_modal" where
  "unmounted m = new_vote_modal\<lparr>vm_show := vm_show m, vm_calls := vm_calls m\<rparr>"

definition header_button :: "header_view \<Rightarrow> vote_button option" where
  "header_button h = (case hv_topButton h of None \<Rightarrow> hv_bottomButton h | Some b \<Rightarrow> Some b)"

fun page_content_step :: "vote_inputs \<Rightarrow> vote_content \<Rightarrow> vote_page_event \<Rightarrow> vote_page \<Rightarrow> vote_page" where
  "page_content_step i c MoveState s =
     (case vc_move c of Some (_, False) \<Rightarrow> move_state i s | _ \<Rightarrow> s)"
| "page_content_step i c ToggleView s = s\<lparr>vg_isDelegateView := \<not> vg_isDelegateView s\<rparr>"
| "page_content_step i c ClickVote s =
     (case header_button (vc_header c) of
        None \<Rightarrow> s
      | Some b \<Rightarrow> if vb_disabled b then s
                  else s\<lparr>vg_modal := modal_step (Option.bind (vi_proposal i) wp_id) OpenModal (vg_modal s)\<rparr>)"
| "page_content_step i c (InModal e) s =
     (if e = OpenModal then s
      else s\<lparr>vg_modal := modal_step (Option.bind (vi_proposal i) wp_id) e (vg_modal s)\<rparr>)"
| "page_content_step i c ClickThreshold s = s\<lparr>vg_showQuorumModal := fst (vc_threshold c)\<rparr>"
| "page_content_step i c DismissQuorum s = s\<lparr>vg_showQuorumModal := False\<rparr>"
| "page_content_step i c _ s = s"

text \<open>Transactions are settled whatever the page shows; the rest needs its content.\<close>

fun vote_page_step :: "link_env \<Rightarrow> vote_inputs \<Rightarrow> vote_page_event \<Rightarrow> vote_page \<Rightarrow> vote_page" where
  "vote_page_step e i (QueueTx h) s =
     (case hook_step h (vg_queue s) of None \<Rightarrow> s | Some q \<Rightarrow> queue_effect (s\<lparr>vg_queue := q\<rparr>))"
| "vote_page_step e i (ExecuteTx h) s =
     (case hook_step h (vg_execute s) of None \<Rightarrow> s | Some q \<Rightarrow> execute_effect (s\<lparr>vg_execute := q\<rparr>))"
| "vote_page_step e i ev s =
     (case VotePage e i s of
        Frame c \<Rightarrow> page_content_step i c ev s
      | _ \<Rightarrow> s\<lparr>vg_modal := unmounted (vg_modal s)\<rparr>)"

definition vote_page_run :: "link_env \<Rightarrow> (vote_inputs \<times> vote_page_event) list \<Rightarrow> vote_page \<Rightarrow> vote_page" where
  "vote_page_run e evs s = fold (\<lambda>(i, ev). vote_page_step e i ev) evs s"

section \<open>The move button\<close>

text \<open>The invariant of the page's transactions, and the calls it may have sent.\<close>

definition page_ok :: "vote_page \<Rightarrow> bool" where
  "page_ok s \<longleftrightarrow>
     vg_isQueuePending s = (th_status (vg_queue s) = Mining)
     \<and> vg_isExecutePending s = (th_status (vg_execute s) = Mining)
     \<and> length (vg_calls s) = length (vg_alerts s) + length (th_live (vg_queue s)) + length (th_live (vg_execute s))
     \<and> (\<forall>a\<in>set (vg_alerts s). am_show a)"

definition call_justified :: "vote_inputs \<Rightarrow> dao_call \<Rightarrow> bool" where
  "call_justified i c \<longleftrightarrow>
     (\<exists>p k. vi_proposal i = Some p \<and> wp_id p = Some k \<and> k \<noteq> []
        \<and> (wp_status p = Some proposal_state.SUCCEEDED \<and> c = QueueProposal k
           \<or> wp_status p = Some proposal_state.QUEUED \<and> c = ExecuteProposal k
             \<and> num_le (case wp_eta p of None \<Rightarrow> Some MAX_SAFE_INTEGER | Some eta \<Rightarrow> eta) (Some (vi_now i))))"

lemma length_without: "k < length xs \<Longrightarrow> Suc (length (without_request k xs)) = length xs"
  by (simp add: without_request_def)

lemma new_vote_page_ok: "page_ok new_vote_page"
  by (simp add: page_ok_def new_vote_page_def new_hook_def)

lemma hook_step_settles:
  "hook_step h t = Some u \<Longrightarrow>
     length (th_live t) = length (th_live u) + (if tx_final (th_status u) then 1 else 0)
     \<and> (tx_final (th_status u) \<or> th_status u = Mining)"
  by (cases h) (auto simp: live_request_def tx_final_def length_without dest: length_without split: if_splits)

lemmas effect_defs = onTransactionStateChange_def alert_set_def Let_def

lemma queue_effect_simps [simp]:
  "vg_queue (queue_effect s) = vg_queue s" "vg_execute (queue_effect s) = vg_execute s"
  "vg_calls (queue_effect s) = vg_calls s" "vg_isExecutePending (queue_effect s) = vg_isExecutePending s"
  "vg_isQueuePending (queue_effect s) =
     (if th_status (vg_queue s) = PendingSignature then vg_isQueuePending s else th_status (vg_queue s) = Mining)"
  by (cases "th_status (vg_queue s)"; simp add: queue_effect_def effect_defs)+

lemma execute_effect_simps [simp]:
  "vg_queue (execute_effect s) = vg_queue s" "vg_execute (execute_effect s) = vg_execute s"
  "vg_calls (execute_effect s) = vg_calls s" "vg_isQueuePending (execute_effect s) = vg_isQueuePending s"
  "vg_isExecutePending (execute_effect s) =
     (if th_status (vg_execute s) = PendingSignature then vg_isExecutePending s else th_status (vg_execute s) = Mining)"
  by (cases "th_status (vg_execute s)"; simp add: execute_effect_def effect_defs)+

lemma effect_alerts:
  "\<exists>as. vg_alerts (queue_effect s) = as @ vg_alerts s
     \<and> length as = (if tx_final (th_status (vg_queue s)) then 1 else 0) \<and> (\<forall>a\<in>set as. am_show a)"
  "\<exists>as. vg_alerts (execute_effect s) = as @ vg_alerts s
     \<and> length as = (if tx_final (th_status (vg_execute s)) then 1 else 0) \<and> (\<forall>a\<in>set as. am_show a)"
  by (cases "th_status (vg_queue s)"; simp add: queue_effect_def effect_defs tx_final_def)
    (cases "th_status (vg_execute s)"; simp add: execute_effect_def effect_defs tx_final_def)

lemma queue_settled_ok:
  assumes "page_ok s" "hook_step h (vg_queue s) = Some q"
  shows "page_ok (queue_effect (s\<lparr>vg_queue := q\<rparr>))"
proof -
  let ?t = "s\<lparr>vg_queue := q\<rparr>"
  obtain as where "vg_alerts (queue_effect ?t) = as @ vg_alerts s"
    "length as = (if tx_final (th_status q) then 1 else 0)" "\<forall>a\<in>set as. am_show a"
    using effect_alerts(1) [of ?t] by auto
  moreover have "length (th_live (vg_queue s)) = length (th_live q) + (if tx_final (th_status q) then 1 else 0)"
    "th_status q \<noteq> PendingSignature"
    using hook_step_settles [OF assms(2)] by (auto simp: tx_final_def)
  ultimately show ?thesis using assms(1) by (auto simp: page_ok_def)
qed

lemma execute_settled_ok:
  assumes "page_ok s" "hook_step h (vg_execute s) = Some q"
  shows "page_ok (execute_effect (s\<lparr>vg_execute := q\<rparr>))"
proof -
  let ?t = "s\<lparr>vg_execute := q\<rparr>"
  obtain as where "vg_alerts (execute_effect ?t) = as @ vg_alerts s"
    "length as = (if tx_final (th_status q) then 1 else 0)" "\<forall>a\<in>set as. am_show a"
    using effect_alerts(2) [of ?t] by auto
  moreover have "length (th_live (vg_execute s)) = length (th_live q) + (if tx_final (th_status q) then 1 else 0)"
    "th_status q \<noteq> PendingSignature"
    using hook_step_settles [OF assms(2)] by (auto simp: tx_final_def)
  ultimately show ?thesis using assms(1) by (auto simp: page_ok_def)
qed

text \<open>A click sends one call, justified by what the page shows.\<close>

lemma queue_effect_pending: "th_status (vg_queue s) = PendingSignature \<Longrightarrow> queue_effect s = s"
  by (simp add: queue_effect_def effect_defs)

lemma execute_effect_pending: "th_status (vg_execute s) = PendingSignature \<Longrightarrow> execute_effect s = s"
  by (simp add: execute_effect_def effect_defs)

lemma move_state_eq:
  "move_state i s =
     (case moveStateAction (vi_connected i) (vi_proposal i) of
        None \<Rightarrow> s
      | Some call \<Rightarrow>
          if hasSucceeded (vi_proposal i)
          then s\<lparr>vg_calls := vg_calls s @ [call], vg_queue := hook_send (vg_queue s)\<rparr>
          else s\<lparr>vg_calls := vg_calls s @ [call], vg_execute := hook_send (vg_execute s)\<rparr>)"
  by (simp add: move_state_def hook_send_def queue_effect_pending execute_effect_pending split: option.splits)

lemma move_state_ok:
  assumes "page_ok s" "\<not> move_button_disabled (vg_isQueuePending s) (vg_isExecutePending s)"
  shows "page_ok (move_state i s)"
  using assms by (auto simp: move_state_eq page_ok_def hook_send_def move_button_disabled_def split: option.splits)

lemma moveStateAction_justified:
  assumes "moveStateAction contract p = Some c" "isAwaitingStateChange now p" "vi_proposal i = p" "vi_now i = now"
  shows "call_justified i c"
  using assms
  by (auto simp: moveStateAction_def isAwaitingStateChange_def hasSucceeded_def call_justified_def queueProposal_def
      executeProposal_def Let_def split: option.splits if_splits)

lemma frame_move:
  assumes "VotePage e i s = Frame c"
  shows "vc_move c = move_button i s"
  using assms by (auto simp: VotePage_def vote_content_of_def Let_def split: page_view.splits option.splits if_splits)

lemma other_steps_ok:
  "page_ok s \<Longrightarrow> page_ok (s\<lparr>vg_modal := m\<rparr>)" "page_ok s \<Longrightarrow> page_ok (s\<lparr>vg_isDelegateView := b\<rparr>)"
  "page_ok s \<Longrightarrow> page_ok (s\<lparr>vg_showQuorumModal := b\<rparr>)"
  by (simp_all add: page_ok_def)

lemma content_step_ok:
  assumes "page_ok s" "VotePage e i s = Frame c"
  shows "page_ok (page_content_step i c ev s)"
proof (cases ev)
  case MoveState
  show ?thesis
  proof (cases "vc_move c")
    case (Some m)
    obtain l b where m: "m = (l, b)" by (cases m)
    with Some frame_move [OF assms(2)] have "b = move_button_disabled (vg_isQueuePending s) (vg_isExecutePending s)"
      by (auto simp: move_button_def split: if_splits)
    then show ?thesis using MoveState Some m assms(1) move_state_ok [OF assms(1)] by (cases b) auto
  qed (use MoveState assms in simp)
qed (use assms in \<open>auto simp: other_steps_ok split: option.splits\<close>)

lemma vote_page_step_ok: "page_ok s \<Longrightarrow> page_ok (vote_page_step e i ev s)"
proof (cases ev)
  case (QueueTx h)
  assume "page_ok s"
  then show ?thesis using QueueTx queue_settled_ok [of s h] by (auto split: option.splits)
next
  case (ExecuteTx h)
  assume "page_ok s"
  then show ?thesis using ExecuteTx execute_settled_ok [of s h] by (auto split: option.splits)
qed (auto simp del: page_content_step.simps simp: content_step_ok other_steps_ok split: vote_frame.splits)

lemma content_step_calls:
  assumes "VotePage e i s = Frame c" "x \<in> set (vg_calls (page_content_step i c ev s))"
  shows "x \<in> set (vg_calls s) \<or> ev = MoveState \<and> call_justified i x"
proof (cases ev)
  case MoveState
  have "isAwaitingStateChange (vi_now i) (vi_proposal i)" if "vc_move c \<noteq> None"
    using that frame_move [OF assms(1)] by (auto simp: move_button_def split: if_splits)
  then show ?thesis using MoveState assms(2) moveStateAction_justified
    by (auto simp: move_state_eq split: option.splits bool.splits if_splits)
qed (use assms(2) in \<open>auto split: option.splits if_splits\<close>)

lemma vote_page_step_calls:
  "x \<in> set (vg_calls (vote_page_step e i ev s)) \<Longrightarrow>
     x \<in> set (vg_calls s) \<or> ev = MoveState \<and> call_justified i x"
proof (cases ev)
  case (QueueTx h)
  then show "x \<in> set (vg_calls (vote_page_step e i ev s)) \<Longrightarrow> ?thesis" by (auto split: option.splits)
next
  case (ExecuteTx h)
  then show "x \<in> set (vg_calls (vote_page_step e i ev s)) \<Longrightarrow> ?thesis" by (auto split: option.splits)
qed (auto simp del: page_content_step.simps dest: content_step_calls split: vote_frame.splits)

lemma vote_page_run_simps [simp]:
  "vote_page_run e [] s = s" "vote_page_run e ((i, ev) # evs) s = vote_page_run e evs (vote_page_step e i ev s)"
  by (simp_all add: vote_page_run_def)

lemma vote_page_run_ok: "page_ok s \<Longrightarrow> page_ok (vote_page_run e evs s)"
  by (induction evs arbitrary: s) (auto simp: vote_page_step_ok)

lemma vote_page_run_calls:
  "x \<in> set (vg_calls (vote_page_run e evs s)) \<Longrightarrow>
     x \<in> set (vg_calls s) \<or> (\<exists>i. (i, MoveState) \<in> set evs \<and> call_justified i x)"
proof (induction evs arbitrary: s)
  case (Cons a evs)
  obtain i ev where a: "a = (i, ev)" by (cases a)
  with Cons.IH [of "vote_page_step e i ev s"] Cons.prems vote_page_step_calls [of x e i ev s] show ?case by auto
qed simp


definition demo_link_env :: link_env where
  "demo_link_env = \<lparr>le_chain = Some 1, le_url = (\<lambda>path base. base @ path), le_params = (\<lambda>_. []), le_api_key = []\<rparr>"

definition demo_succeeded :: web_proposal where
  "demo_succeeded = demo_web_proposal\<lparr>wp_status := Some proposal_state.SUCCEEDED, wp_transactionHash := Some ''0x02''\<rparr>"

definition demo_vote_inputs :: vote_inputs where
  "demo_vote_inputs =
     \<lparr>vi_proposal = Some demo_succeeded, vi_timestamp = 1000, vi_now = 1000, vi_block = Some 25, vi_account = Some ''0xa'',
      vi_connected = True, vi_availableVotes = Some 2, vi_currentQuorum = Some 3, vi_loading = False, vi_error = False,
      vi_voters = Some demo_voters, vi_snapshot = Some demo_snapshot, vi_loadingDQ = False, vi_dqError = False,
      vi_dq = Some (Some ''0''), vi_receipt = no_receipt, vi_creation = Some 9, vi_mobile = False, vi_locale = ''en-US''\<rparr>"

lemma demo_frame_shown: "\<exists>c. VotePage demo_link_env demo_vote_inputs s = Frame c"
  by (simp add: VotePage_def demo_vote_inputs_def vote_page_view_def vote_page_data_def vote_rows_def vote_content_of_def
      demo_succeeded_def demo_web_proposal_def isV2Prop_def ProposalHeader_def startOrEndTimeTime_def proposal_start_def
      proposal_end_def block_date_def isBefore_def AVERAGE_BLOCK_TIME_IN_SECS_def Let_def)

lemma demo_click:
  assumes "\<not> vg_isQueuePending s" "\<not> vg_isExecutePending s"
  shows "vote_page_step demo_link_env demo_vote_inputs MoveState s =
     s\<lparr>vg_calls := vg_calls s @ [QueueProposal ''1''], vg_queue := hook_send (vg_queue s)\<rparr>"
proof -
  obtain c where c: "VotePage demo_link_env demo_vote_inputs s = Frame c" using demo_frame_shown by blast
  have "vc_move c = Some (QueueProposal_label, False)"
    using frame_move [OF c] assms
    by (simp add: move_button_def demo_vote_inputs_def isAwaitingStateChange_def hasSucceeded_def demo_succeeded_def
        move_button_disabled_def)
  then show ?thesis using c
    by (simp add: move_state_eq moveStateAction_def demo_vote_inputs_def demo_succeeded_def hasSucceeded_def
        demo_web_proposal_def queueProposal_def)
qed

text \<open>
  The button does not wait for the signature: a second click sends a second transaction, and when
  that one is refused the button is let go while the first is still being mined.
\<close>

definition demo_double_click :: "(vote_inputs \<times> vote_page_event) list" where
  "demo_double_click = map (Pair demo_vote_inputs) [MoveState, MoveState, QueueTx (Signed 0), QueueTx (Refused 1 None)]"

lemma double_click_sends_twice:
  "vg_calls (vote_page_run demo_link_env demo_double_click new_vote_page) = [QueueProposal ''1'', QueueProposal ''1''] \<and>
   th_live (vg_queue (vote_page_run demo_link_env demo_double_click new_vote_page)) = [True] \<and>
   \<not> vg_isQueuePending (vote_page_run demo_link_env demo_double_click new_vote_page)"
  by (simp add: demo_double_click_def demo_click new_vote_page_def new_hook_def hook_send_def live_request_def without_request_def
      queue_effect_def effect_defs del: vote_page_step.simps(3))


section \<open>The button and the contract\<close>

text \<open>\<open>queue\<close> and \<open>execute\<close> of \<open>AlpsDAOLogicV2.sol\<close>, with \<open>executeTransaction\<close> of \<open>AlpsDAOExecutor.sol\<close>: the
  conditions on the state and the time.  Actions that revert, or are queued already at the same time, are left out.\<close>

definition contract_queues :: "nat \<Rightarrow> nat \<Rightarrow> contract_proposal \<Rightarrow> bool" where
  "contract_queues block now q \<longleftrightarrow> contract_state block now q = proposal_state.SUCCEEDED"

definition contract_executes :: "nat \<Rightarrow> nat \<Rightarrow> contract_proposal \<Rightarrow> bool" where
  "contract_executes block now q \<longleftrightarrow>
     contract_state block now q = proposal_state.QUEUED \<and> op_eta q \<le> now \<and> now \<le> op_eta q + 1209600"

lemma contract_state_queued:
  "contract_state block now q = proposal_state.QUEUED \<Longrightarrow> op_eta q \<noteq> 0 \<and> now < op_eta q + 1209600"
  by (auto simp: contract_state_def split: if_splits)

lemma eta_reached:
  fixes now :: int and eta :: nat
  assumes "0 \<le> now"
  shows "int eta * 1000 \<le> now \<longleftrightarrow> eta \<le> nat (now div 1000)"
proof -
  have "int eta * 1000 \<le> now \<longleftrightarrow> int eta \<le> now div 1000" by linarith
  also have "\<dots> \<longleftrightarrow> eta \<le> nat (now div 1000)" using assms by linarith
  finally show ?thesis .
qed

text \<open>
  C23. The move button asks for what the contract accepts.  Let the page show a proposal with the
  contract's state and the contract's time of execution, while none of its transactions is being mined.  A
  click on the button sends exactly one call when the contract, at that block and time, would queue
  or execute the proposal, and that call; and there is no button and no call when it would do neither.
\<close>

theorem move_button_matches_contract:
  fixes i :: vote_inputs and q :: contract_proposal and block :: nat
  defines "now \<equiv> nat (vi_now i div 1000)"
  assumes "VotePage e i s = Frame c" "\<not> vg_isQueuePending s" "\<not> vg_isExecutePending s"
    and "vi_proposal i = Some p" "wp_id p = Some k" "k \<noteq> []" "vi_connected i" "0 \<le> vi_now i"
    and "wp_status p = Some (contract_state block now q)"
    and "wp_eta p = (if op_eta q = 0 then None else Some (Some (int (op_eta q) * 1000)))"
  shows "vg_calls (vote_page_step e i MoveState s) = vg_calls s @
           (if contract_queues block now q then [QueueProposal k]
            else if contract_executes block now q then [ExecuteProposal k] else [])
       \<and> (vc_move c \<noteq> None \<longleftrightarrow> contract_queues block now q \<or> contract_executes block now q)"
proof -
  have move: "vc_move c = move_button i s" by (rule frame_move [OF assms(2)])
  have enabled: "\<not> move_button_disabled (vg_isQueuePending s) (vg_isExecutePending s)"
    using assms(3,4) by (simp add: move_button_disabled_def)
  have succ: "hasSucceeded (vi_proposal i) \<longleftrightarrow> contract_queues block now q"
    using assms(5,10) by (simp add: hasSucceeded_def contract_queues_def)
  have await: "isAwaitingStateChange (vi_now i) (vi_proposal i) \<longleftrightarrow>
      contract_queues block now q \<or> contract_executes block now q"
  proof (cases "contract_state block now q = proposal_state.QUEUED")
    case True
    with contract_state_queued [OF this] eta_reached [OF assms(9), of "op_eta q"] assms(5,10,11) succ show ?thesis
      by (auto simp: isAwaitingStateChange_def contract_executes_def num_le_def now_def)
  next
    case False
    with assms(5,10) succ show ?thesis by (auto simp: isAwaitingStateChange_def contract_executes_def)
  qed
  have "moveStateAction (vi_connected i) (vi_proposal i) =
      Some (if contract_queues block now q then QueueProposal k else ExecuteProposal k)"
    using assms(5-8) succ by (simp add: moveStateAction_def queueProposal_def executeProposal_def)
  then show ?thesis
    using assms(2) move enabled await succ by (auto simp: move_button_def move_state_eq)
qed

theorem move_button_matches_contract_witness:
  "vg_calls (vote_page_step demo_link_env demo_vote_inputs MoveState new_vote_page) = [QueueProposal ''1'']"
proof -
  obtain c where c: "VotePage demo_link_env demo_vote_inputs new_vote_page = Frame c" using demo_frame_shown by blast
  have st: "contract_state 25 1 demo_open_proposal = proposal_state.SUCCEEDED"
    by (simp add: contract_state_def demo_open_proposal_def)
  have p: "\<not> vg_isQueuePending new_vote_page" "\<not> vg_isExecutePending new_vote_page" by (simp_all add: new_vote_page_def)
  have i: "vi_proposal demo_vote_inputs = Some demo_succeeded" "vi_connected demo_vote_inputs" "0 \<le> vi_now demo_vote_inputs"
    "nat (vi_now demo_vote_inputs div 1000) = 1"
    by (simp_all add: demo_vote_inputs_def)
  have w: "wp_id demo_succeeded = Some ''1''" "''1'' \<noteq> []"
    "wp_eta demo_succeeded =
       (if op_eta demo_open_proposal = 0 then None else Some (Some (int (op_eta demo_open_proposal) * 1000)))"
    by (simp_all add: demo_succeeded_def demo_web_proposal_def demo_open_proposal_def)
  have "wp_status demo_succeeded = Some (contract_state 25 (nat (vi_now demo_vote_inputs div 1000)) demo_open_proposal)"
    unfolding i(4) st by (simp add: demo_succeeded_def)
  from move_button_matches_contract [OF c p i(1) w(1,2) i(2,3) this w(3)] st i(4)
  show ?thesis by (simp add: contract_queues_def new_vote_page_def)
qed

section \<open>What the page shows\<close>

text \<open>Once everything is loaded the page throws exactly for an answer about the dynamic quorum without a
  proposal, which line 107 expects and line 277 does not; for a proposal without a transaction hash; and for
  an end or start that is not a number.\<close>

lemma page_throws_iff:
  assumes "vote_page_view (vi_proposal i) (vi_loading i) (vi_error i) (vote_page_data i) (vi_loadingDQ i)
             (vi_dqError i) (vi_dq i) = PageShown" and "vi_proposal i = Some p"
  shows "VotePage e i s = FrameThrows \<longleftrightarrow>
     vi_dq i = Some None \<or> wp_transactionHash p = None
     \<or> startOrEndTimeTime (vi_timestamp i) (vi_now i) (vi_block i) p = Some None"
proof -
  have "vi_dq i \<noteq> None" using assms by (auto simp: vote_page_view_def split: if_splits)
  then show ?thesis using assms
    by (cases "wp_transactionHash p")
      (auto simp: VotePage_def vote_content_of_def Let_def isV2Prop_def ProposalHeader_def split: option.splits)
qed

lemma frame_fields:
  assumes "VotePage e i s = Frame c"
  shows "\<exists>p rows header v2. vi_proposal i = Some p \<and> vote_page_data i = Some rows
     \<and> ProposalHeader e i p (vote_active i p) = Some header \<and> vc_header c = header \<and> vc_cards c = vote_cards s p rows
     \<and> vc_threshold c = (v2, quorum_shown v2 (vi_currentQuorum i) p) \<and> vi_dq i \<noteq> None \<and> isV2Prop (the (vi_dq i)) = Some v2
     \<and> fst (vc_dates c) = startOrEndTimeCopy (vi_timestamp i) (vi_now i) (vi_block i) p"
proof -
  have shown: "vote_page_view (vi_proposal i) (vi_loading i) (vi_error i) (vote_page_data i) (vi_loadingDQ i)
      (vi_dqError i) (vi_dq i) = PageShown"
    using assms by (auto simp: VotePage_def split: page_view.splits)
  then obtain p rows d where i: "vi_proposal i = Some p" "vote_page_data i = Some rows" "vi_dq i = Some d"
    by (auto simp: vote_page_view_def split: if_splits)
  with assms shown show ?thesis
    by (auto simp: VotePage_def vote_content_of_def Let_def split: option.splits if_splits)
qed

lemma header_buttons:
  assumes "ProposalHeader e i p active = Some h"
  shows "header_button h =
       (if active
        then Some (voteButton (vi_account i \<noteq> None) (case vi_availableVotes i of None \<Rightarrow> 0 | Some v \<Rightarrow> v)
               (useHasVotedOnProposal (vi_receipt i)))
        else None)
     \<and> (hv_topButton h = None \<or> hv_bottomButton h = None)"
  using assms by (cases "vi_mobile i"; cases active) (auto simp: ProposalHeader_def Let_def header_button_def)

text \<open>The header's button is there exactly while the dates below say that voting ends, on either screen
  only once, and it can be pressed by a connected holder of votes who has not voted.\<close>

lemma header_offers_vote:
  assumes "VotePage e i s = Frame c"
  shows "(header_button (vc_header c) \<noteq> None \<longleftrightarrow> fst (vc_dates c) = Ends)
       \<and> (hv_topButton (vc_header c) = None \<or> hv_bottomButton (vc_header c) = None)
       \<and> ((\<exists>b. header_button (vc_header c) = Some b \<and> \<not> vb_disabled b) \<longleftrightarrow>
            fst (vc_dates c) = Ends \<and> vi_account i \<noteq> None \<and> vi_availableVotes i \<noteq> None
            \<and> vi_availableVotes i \<noteq> Some 0 \<and> \<not> vr_hasVoted (vi_receipt i))"
proof -
  obtain p header where p: "ProposalHeader e i p (vote_active i p) = Some header" "vc_header c = header"
    "fst (vc_dates c) = startOrEndTimeCopy (vi_timestamp i) (vi_now i) (vi_block i) p"
    using frame_fields [OF assms] by blast
  have "fst (vc_dates c) = Ends \<longleftrightarrow> vote_active i p"
    by (simp add: p(3) vote_active_def startOrEndTimeCopy_def)
  then show ?thesis using header_buttons [OF p(1)] p(2)
    by (auto simp: voteButton_def disableVoteButton_def useHasVotedOnProposal_def split: option.splits)
qed

text \<open>The form keeps its place while the page reloads, but forgets what was chosen and that a vote was sent.\<close>

lemma reload_forgets_vote:
  assumes "\<And>c. VotePage e i s \<noteq> Frame c"
  shows "vg_modal (vote_page_step e i ToggleView s) = unmounted (vg_modal s)
       \<and> vm_show (unmounted (vg_modal s)) = vm_show (vg_modal s) \<and> \<not> vm_isLoading (unmounted (vg_modal s))"
  using assms by (auto simp: unmounted_def new_vote_modal_def split: vote_frame.splits)

end
