(* ===== verification/Web_Create_Page.thy ===== *)
theory Web_Create_Page
  imports Web_Vote_Page
begin

text \<open>
  The page on which a proposal is written, \<open>pages/CreateProposal\<close>, as a whole: its transactions, the text,
  the form, the transaction that proposes, and what its button lets through compared with
  \<open>propose\<close> of the contract.  The functions of single operations are those of the theory on proposals.
\<close>

section \<open>The page\<close>

record create_inputs =
  ci_account :: "string option"
  ci_connected :: bool
  ci_latest :: "web_proposal option"
  ci_availableVotes :: "nat option"
  ci_threshold :: "nat option"

record create_page =
  cr_transactions :: "proposal_transaction list"
  cr_title :: string
  cr_body :: string
  cr_showForm :: bool
  cr_pending :: bool
  cr_hook :: tx_hook
  cr_alerts :: "alert_modal list"
  cr_calls :: "dao_call list"

definition new_create_page :: create_page where
  "new_create_page =
     \<lparr>cr_transactions = [], cr_title = [], cr_body = [], cr_showForm = False, cr_pending = False,
      cr_hook = new_hook, cr_alerts = [], cr_calls = []\<rparr>"

text \<open>The effect on \<open>proposeState\<close>: \<open>or_try_again\<close> is the message of a failure without one.\<close>

definition propose_effect :: "create_page \<Rightarrow> create_page" where
  "propose_effect s =
     (let alert = (\<lambda>title message. s\<lparr>cr_alerts :=
            \<lparr>am_show = True, am_title = Some title, am_message = Some message\<rparr> # cr_alerts s, cr_pending := False\<rparr>)
      in case th_status (cr_hook s) of
           TNone \<Rightarrow> s\<lparr>cr_pending := False\<rparr>
         | PendingSignature \<Rightarrow> s
         | Mining \<Rightarrow> s\<lparr>cr_pending := True\<rparr>
         | Success \<Rightarrow> alert ''Success'' ''Proposal Created!''
         | Fail \<Rightarrow> alert ''Transaction Failed'' (or_try_again (th_error (cr_hook s)))
         | TException \<Rightarrow> alert ''Error'' (or_try_again (th_error (cr_hook s))))"

record create_view =
  cw_form :: bool
  cw_transactions :: "proposal_transaction list"
  cw_title :: string
  cw_body :: string
  cw_button :: "button_text option"  \<comment> \<open>\<open>None\<close>: it spins\<close>
  cw_danger :: bool
  cw_disabled :: bool

definition create_blocked :: "create_inputs \<Rightarrow> bool" where
  "create_blocked i = hasActiveOrPendingProposal (ci_latest i) (ci_account i)"

definition create_enough :: "create_inputs \<Rightarrow> bool" where
  "create_enough i = hasEnoughVote (ci_availableVotes i) (ci_threshold i)"

definition CreateProposalPage :: "create_inputs \<Rightarrow> create_page \<Rightarrow> create_view" where
  "CreateProposalPage i s =
     \<lparr>cw_form = cr_showForm s, cw_transactions = cr_transactions s, cw_title = cr_title s, cw_body = cr_body s,
      cw_button = (if cr_pending s then None
                   else Some (create_button_text (ci_threshold i) (create_blocked i) (create_enough i))),
      cw_danger = (create_blocked i \<or> \<not> create_enough i),
      cw_disabled = create_disabled (isFormInvalid (cr_transactions s) (cr_title s) (cr_body s))
                      (create_blocked i) (create_enough i)\<rparr>"

datatype create_event =
    ShowForm
  | HideForm
  | FormAdds proposal_transaction
  | RemoveAction nat
  | TitleInput string
  | BodyInput string
  | ClickCreate
  | ProposeTx hook_event

text \<open>\<open>bn\<close>: \<open>BigNumber.from\<close>, whose exception rejects the click's promise and sends nothing.\<close>

definition create_click :: "(string \<Rightarrow> int option) \<Rightarrow> create_inputs \<Rightarrow> create_page \<Rightarrow> create_page" where
  "create_click bn i s =
     (case handleCreateProposal bn (ci_connected i) (cr_transactions s) (cr_title s) (cr_body s) of
        Some (Some call) \<Rightarrow>
          propose_effect (s\<lparr>cr_calls := cr_calls s @ [call], cr_hook := hook_send (cr_hook s)\<rparr>)
      | _ \<Rightarrow> s)"

fun create_step :: "(string \<Rightarrow> int option) \<Rightarrow> create_inputs \<Rightarrow> create_event \<Rightarrow> create_page \<Rightarrow> create_page" where
  "create_step bn i ShowForm s = s\<lparr>cr_showForm := True\<rparr>"
| "create_step bn i HideForm s = s\<lparr>cr_showForm := False\<rparr>"
| "create_step bn i (FormAdds t) s =
     (if cr_showForm s
      then s\<lparr>cr_transactions := handleAddProposalAction t (cr_transactions s), cr_showForm := False\<rparr> else s)"
| "create_step bn i (RemoveAction k) s = s\<lparr>cr_transactions := handleRemoveProposalAction k (cr_transactions s)\<rparr>"
| "create_step bn i (TitleInput t) s = s\<lparr>cr_title := t\<rparr>"
| "create_step bn i (BodyInput b) s = s\<lparr>cr_body := b\<rparr>"
| "create_step bn i ClickCreate s = (if cw_disabled (CreateProposalPage i s) then s else create_click bn i s)"
| "create_step bn i (ProposeTx h) s =
     (case hook_step h (cr_hook s) of None \<Rightarrow> s | Some q \<Rightarrow> propose_effect (s\<lparr>cr_hook := q\<rparr>))"

definition create_run :: "(string \<Rightarrow> int option) \<Rightarrow> (create_inputs \<times> create_event) list \<Rightarrow> create_page \<Rightarrow> create_page" where
  "create_run bn evs s = fold (\<lambda>(i, ev). create_step bn i ev) evs s"

section \<open>What the page sends\<close>

text \<open>A call as the contract wants it, sent by an account that may propose.\<close>

definition call_well_formed :: "dao_call \<Rightarrow> bool" where
  "call_well_formed c \<longleftrightarrow>
     (\<exists>targets vals signatures calldatas title body.
        c = Propose targets vals signatures calldatas (proposal_description title body)
        \<and> title \<noteq> [] \<and> body \<noteq> [] \<and> targets \<noteq> [] \<and> length vals = length targets
        \<and> length signatures = length targets \<and> length calldatas = length targets
        \<and> (\<forall>x\<in>set targets \<union> set calldatas. take 2 x = ''0x''))"

definition may_propose :: "create_inputs \<Rightarrow> bool" where
  "may_propose i \<longleftrightarrow>
     (\<exists>v t. ci_availableVotes i = Some v \<and> ci_threshold i = Some t \<and> t < v) \<and> \<not> create_blocked i"

definition create_ok :: "create_page \<Rightarrow> bool" where
  "create_ok s \<longleftrightarrow>
     page_transactions (cr_transactions s)
     \<and> length (cr_calls s) = length (cr_alerts s) + length (th_live (cr_hook s))
     \<and> (\<forall>a\<in>set (cr_alerts s). am_show a)
     \<and> (cr_pending s \<longrightarrow> th_live (cr_hook s) \<noteq> [])"

lemma propose_effect_simps [simp]:
  "cr_transactions (propose_effect s) = cr_transactions s" "cr_hook (propose_effect s) = cr_hook s"
  "cr_calls (propose_effect s) = cr_calls s"
  by (cases "th_status (cr_hook s)"; simp add: propose_effect_def Let_def)+

lemma propose_effect_alerts:
  "\<exists>as. cr_alerts (propose_effect s) = as @ cr_alerts s
     \<and> length as = (if tx_final (th_status (cr_hook s)) then 1 else 0) \<and> (\<forall>a\<in>set as. am_show a)"
  by (cases "th_status (cr_hook s)"; simp add: propose_effect_def Let_def tx_final_def)

lemma propose_effect_pending:
  "th_status (cr_hook s) = PendingSignature \<Longrightarrow> propose_effect s = s"
  "th_status (cr_hook s) \<noteq> PendingSignature \<Longrightarrow> cr_pending (propose_effect s) = (th_status (cr_hook s) = Mining)"
  by (cases "th_status (cr_hook s)"; simp add: propose_effect_def Let_def)+

lemma hook_step_mining: "hook_step h t = Some u \<Longrightarrow> th_status u = Mining \<Longrightarrow> th_live u \<noteq> []"
  by (cases h) (auto simp: live_request_def split: if_splits)

lemma propose_settled_ok:
  assumes "create_ok s" "hook_step h (cr_hook s) = Some q"
  shows "create_ok (propose_effect (s\<lparr>cr_hook := q\<rparr>))"
proof -
  let ?t = "s\<lparr>cr_hook := q\<rparr>"
  obtain as where "cr_alerts (propose_effect ?t) = as @ cr_alerts s"
    "length as = (if tx_final (th_status q) then 1 else 0)" "\<forall>a\<in>set as. am_show a"
    using propose_effect_alerts [of ?t] by auto
  moreover have "length (th_live (cr_hook s)) = length (th_live q) + (if tx_final (th_status q) then 1 else 0)"
    "th_status q \<noteq> PendingSignature"
    using hook_step_settles [OF assms(2)] by (auto simp: tx_final_def)
  moreover have "cr_pending (propose_effect ?t) \<longrightarrow> th_live q \<noteq> []"
    using propose_effect_pending(2) [of ?t] hook_step_mining [OF assms(2)] calculation(5) by auto
  ultimately show ?thesis using assms(1) by (auto simp: create_ok_def)
qed

lemma create_click_eq:
  "create_click bn i s =
     (case handleCreateProposal bn (ci_connected i) (cr_transactions s) (cr_title s) (cr_body s) of
        Some (Some call) \<Rightarrow> s\<lparr>cr_calls := cr_calls s @ [call], cr_hook := hook_send (cr_hook s)\<rparr>
      | _ \<Rightarrow> s)"
  by (simp add: create_click_def hook_send_def propose_effect_pending split: option.splits)

lemma create_click_ok: "create_ok s \<Longrightarrow> create_ok (create_click bn i s)"
  by (auto simp: create_click_eq create_ok_def hook_send_def split: option.splits)

lemma create_step_ok: "create_ok s \<Longrightarrow> create_ok (create_step bn i ev s)"
proof (cases ev)
  case (FormAdds t)
  assume "create_ok s"
  then show ?thesis using FormAdds page_step_ok [of "cr_transactions s" "AddTransaction t"] by (auto simp: create_ok_def)
next
  case (RemoveAction k)
  assume "create_ok s"
  then show ?thesis using RemoveAction page_step_ok [of "cr_transactions s" "RemoveTransaction k"]
    by (auto simp: create_ok_def)
next
  case (ProposeTx h)
  assume "create_ok s"
  then show ?thesis using ProposeTx propose_settled_ok [of s h] by (auto split: option.splits)
qed (auto simp: create_click_ok, auto simp: create_ok_def)

lemma handleCreateProposal_well_formed:
  assumes "page_transactions ts" "\<not> isFormInvalid ts title body"
    and "handleCreateProposal bn contract ts title body = Some (Some c)"
  shows "call_well_formed c"
proof -
  from assms obtain vals where v: "those (map (\<lambda>t. bn (pt_value t)) ts) = Some vals"
    "c = Propose (map pt_address ts) vals (map pt_signature ts) (map pt_calldata ts) (proposal_description title body)"
    by (auto simp: handleCreateProposal_def propose_def split: if_splits)
  from v(1) have "map (\<lambda>t. bn (pt_value t)) ts = map Some vals" by (simp only: those_eq_Some)
  then have "length vals = length ts" by (metis length_map)
  moreover have "\<forall>x\<in>set (map pt_address ts) \<union> set (map pt_calldata ts). take 2 x = ''0x''"
    using assms(1) by (auto simp: page_transactions_def)
  moreover have "title \<noteq> []" "body \<noteq> []" "ts \<noteq> []" using assms(2) by (auto simp: isFormInvalid_def)
  ultimately show ?thesis unfolding call_well_formed_def v(2)
    by (intro exI [where x = "map pt_address ts"] exI [where x = vals] exI [where x = "map pt_signature ts"]
        exI [where x = "map pt_calldata ts"] exI [where x = title] exI [where x = body]) simp
qed

lemma create_step_calls:
  assumes "create_ok s" "c \<in> set (cr_calls (create_step bn i ev s))"
  shows "c \<in> set (cr_calls s) \<or> ev = ClickCreate \<and> may_propose i \<and> call_well_formed c"
proof (cases ev)
  case ClickCreate
  have "may_propose i \<and> \<not> isFormInvalid (cr_transactions s) (cr_title s) (cr_body s)"
    if "\<not> cw_disabled (CreateProposalPage i s)"
    using that by (auto simp: CreateProposalPage_def create_disabled_def may_propose_def create_enough_def
        hasEnoughVote_def split: option.splits)
  then show ?thesis using ClickCreate assms handleCreateProposal_well_formed
    by (auto simp: create_click_eq create_ok_def split: if_splits option.splits)
qed (use assms(2) in \<open>auto split: option.splits if_splits\<close>)

lemma create_run_simps [simp]:
  "create_run bn [] s = s" "create_run bn ((i, ev) # evs) s = create_run bn evs (create_step bn i ev s)"
  by (simp_all add: create_run_def)

lemma create_run_ok: "create_ok s \<Longrightarrow> create_ok (create_run bn evs s)"
  by (induction evs arbitrary: s) (auto simp: create_step_ok)

lemma create_run_calls:
  "create_ok s \<Longrightarrow> c \<in> set (cr_calls (create_run bn evs s)) \<Longrightarrow>
     c \<in> set (cr_calls s) \<or> (\<exists>i. (i, ClickCreate) \<in> set evs \<and> may_propose i) \<and> call_well_formed c"
proof (induction evs arbitrary: s)
  case (Cons a evs)
  obtain i ev where a: "a = (i, ev)" by (cases a)
  with Cons.IH [of "create_step bn i ev s"] Cons.prems create_step_ok [of s bn i ev]
    create_step_calls [of s c bn i ev] show ?case by auto
qed simp

lemma new_create_page_ok: "create_ok new_create_page"
  by (simp add: create_ok_def new_create_page_def new_hook_def page_transactions_def)


definition demo_create_inputs :: create_inputs where
  "demo_create_inputs =
     \<lparr>ci_account = Some ''0xa'', ci_connected = True, ci_latest = Some demo_web_proposal, ci_availableVotes = Some 3,
      ci_threshold = Some 1\<rparr>"

definition demo_action :: proposal_transaction where
  "demo_action = \<lparr>pt_address = ''aa'', pt_value = ''0'', pt_signature = [], pt_calldata = ''0x''\<rparr>"

definition demo_writing :: "(create_inputs \<times> create_event) list" where
  "demo_writing = map (Pair demo_create_inputs)
     [ShowForm, FormAdds demo_action, TitleInput ''T'', BodyInput ''B'', ClickCreate, ProposeTx (Signed 0), ClickCreate]"

text \<open>The button can be pressed while it spins: a second proposal is sent while the first is mined.\<close>

lemma spinning_button_proposes_again:
  "let s = create_run (\<lambda>_. Some 0) demo_writing new_create_page
   in cr_calls s = replicate 2 (Propose [''0xaa''] [0] [[]] [''0x''] (proposal_description ''T'' ''B''))
      \<and> cr_pending s \<and> th_live (cr_hook s) = [True, False]"
  by (simp add: demo_writing_def demo_create_inputs_def new_create_page_def new_hook_def handleAddProposalAction_def
      demo_action_def prefix_0x_def CreateProposalPage_def create_disabled_def isFormInvalid_def create_blocked_def
      create_enough_def hasActiveOrPendingProposal_def demo_web_proposal_def hasEnoughVote_def create_click_eq
      handleCreateProposal_def propose_def hook_send_def live_request_def propose_effect_def numeral_eq_Suc)


section \<open>The button and the contract\<close>

text \<open>The requirements of \<open>propose\<close> in \<open>AlpsDAOLogicV2.sol\<close>; \<open>own\<close> is the state of the sender's last proposal.\<close>

definition contract_takes_proposal :: "nat \<Rightarrow> nat \<Rightarrow> nat \<Rightarrow> proposal_state option \<Rightarrow> bool" where
  "contract_takes_proposal threshold votes actions own \<longleftrightarrow>
     threshold < votes \<and> actions \<noteq> 0 \<and> actions \<le> 10
     \<and> own \<noteq> Some proposal_state.ACTIVE \<and> own \<noteq> Some proposal_state.PENDING"

text \<open>
  C31. The button and the contract's requirements.  The page knows the account's votes, the threshold and the
  last proposal of all with its state.  A click that is let through is one that the contract accepts,
  except for more than ten actions, which the page does not count, and for an account whose own last proposal
  is still pending or active while somebody else has made the last one of all, which the page does not
  look at; and whenever the contract accepts the proposal, and it has a title and a text, the click is let through.
\<close>

theorem create_button_matches_contract:
  fixes s :: create_page
  assumes "ci_availableVotes i = Some votes" and "ci_threshold i = Some threshold"
    and "ci_latest i = Some w" and "wp_proposer w = ci_account i \<Longrightarrow> wp_status w = own"
  defines "n \<equiv> length (cr_transactions s)"
  shows "(\<not> cw_disabled (CreateProposalPage i s) \<longrightarrow>
            contract_takes_proposal threshold votes n own \<or> 10 < n
            \<or> (wp_proposer w \<noteq> ci_account i
                \<and> (own = Some proposal_state.ACTIVE \<or> own = Some proposal_state.PENDING)))
       \<and> (contract_takes_proposal threshold votes n own \<and> cr_title s \<noteq> [] \<and> cr_body s \<noteq> [] \<longrightarrow>
            \<not> cw_disabled (CreateProposalPage i s) \<and> \<not> cw_danger (CreateProposalPage i s))"
proof -
  have enough: "create_enough i \<longleftrightarrow> threshold < votes"
    using assms(1,2) by (auto simp: create_enough_def hasEnoughVote_def)
  have blocked: "create_blocked i \<longleftrightarrow>
      wp_proposer w = ci_account i \<and> (own = Some proposal_state.ACTIVE \<or> own = Some proposal_state.PENDING)"
    using assms(3,4) by (auto simp: create_blocked_def hasActiveOrPendingProposal_def)
  show ?thesis
    by (auto simp: CreateProposalPage_def create_disabled_def isFormInvalid_def contract_takes_proposal_def enough
        blocked n_def)
qed

theorem create_button_matches_contract_witness:
  "contract_takes_proposal 1 3 1 None
   \<and> \<not> cw_disabled (CreateProposalPage demo_create_inputs
        (new_create_page\<lparr>cr_transactions := [demo_action], cr_title := ''T'', cr_body := ''B''\<rparr>))"
proof -
  have ok: "contract_takes_proposal 1 3 1 None" by (simp add: contract_takes_proposal_def)
  have i: "ci_availableVotes demo_create_inputs = Some 3" "ci_threshold demo_create_inputs = Some 1"
    "ci_latest demo_create_inputs = Some demo_web_proposal"
    "wp_proposer demo_web_proposal = ci_account demo_create_inputs \<Longrightarrow> wp_status demo_web_proposal = None"
    by (simp_all add: demo_create_inputs_def demo_web_proposal_def)
  show ?thesis
    using create_button_matches_contract
      [OF i, of "new_create_page\<lparr>cr_transactions := [demo_action], cr_title := ''T'', cr_body := ''B''\<rparr>"] ok
    by simp
qed

end
