(* ===== verification/Web_Frames.thy ===== *)
theory Web_Frames
  imports Web_Chrome Web_Playground Web_Vote_Page
begin

text \<open>
  What surrounds the pages and what leads from one to another: the rows of an alp's activity and what a click on
  their parts opens (\<open>components/profileEvent\<close>), the timer of the auction (\<open>AuctionTimer\<close>), pictures that
  are links (\<open>StandaloneAlp\<close>, \<open>TightStackedCircleAlps\<close>), the navigation bar and the dialogue of wallets
  (\<open>NavBar\<close>, \<open>NavWallet\<close>, \<open>WalletConnectModal\<close>), \<open>CurrentDelegatePannel\<close> and the lookup of avatars
  (\<open>utils/ensAvatar.ts\<close>).
\<close>

section \<open>Rows of an alp's activity\<close>

text \<open>A row says words, names parties, an alp and a proposal's title, and ends in its transaction or status.\<close>

datatype word_part = Says string | Party string | AlpNumber string | TitleOf string

datatype row_end = HashPill string | StatusPill string string

definition TransactionHashPill :: "string \<Rightarrow> string" where
  "TransactionHashPill transactionHash =
     js_substring transactionHash 0 4 @ ''...'' @
     js_substring transactionHash (int (length transactionHash) - 4) (int (length transactionHash))"

definition headline_parts :: "proposal_state option \<Rightarrow> nat option \<Rightarrow> string option \<Rightarrow> word_part list" where
  "headline_parts status supportDetailed voter =
     (case ProposalVoteHeadline status supportDetailed voter of
        (who, words) \<Rightarrow> (case who of None \<Rightarrow> [] | Some a \<Rightarrow> [Party a]) @ [Says words])"

definition support_nat :: "int option \<Rightarrow> nat option" where
  "support_nat supportDetailed = map_option nat supportDetailed"

definition vote_row_end :: "web_proposal \<Rightarrow> row_end" where
  "vote_row_end p = StatusPill (VoteStatusPill (useProposalStatus (wp_status p))) (ProposalStatusCopy (wp_status p))"

text \<open>The alp of a win is printed as it stands in the event.\<close>

definition event_row :: "event_payload \<Rightarrow> word_part list \<times> row_end" where
  "event_row ev =
     (case ev of
        PROPOSAL_VOTE p voter supportDetailed \<Rightarrow>
          (headline_parts (wp_status p) (support_nat supportDetailed) voter @ [TitleOf (wp_title p)], vote_row_end p)
      | DELEGATION previous newDelegate tx \<Rightarrow>
          ([Says ''Delegate changed from'', Party previous, Says ''to'', Party newDelegate], HashPill (TransactionHashPill tx))
      | TRANSFER sender receiver tx \<Rightarrow>
          ([Says ''Holder changed from'', Party sender, Says ''to'', Party receiver], HashPill (TransactionHashPill tx))
      | AUCTION_WIN alpId winner tx \<Rightarrow>
          ([AlpNumber (show_int alpId), Says (win_event_words (show_int alpId)), Party winner], HashPill (TransactionHashPill tx)))"

text \<open>A click: the handlers of the part clicked and of what contains it, the innermost first.\<close>

datatype row_part = RowItself | PartyAt nat | TitlePart | PillPart

datatype row_action = OpensWindow string | Navigates string

definition pill_handler :: "link_env \<Rightarrow> string \<Rightarrow> row_action list" where
  "pill_handler e tx = [OpensWindow (buildEtherscanTxLink e tx)]"

definition party_handler :: "link_env \<Rightarrow> string list \<Rightarrow> nat \<Rightarrow> row_action list" where
  "party_handler e parties k =
     (if k < length parties then [OpensWindow (buildEtherscanAddressLink e (parties ! k))] else [])"

definition voters_of :: "string option \<Rightarrow> int option \<Rightarrow> string list" where
  "voters_of voter supportDetailed =
     (case supportDetailed of None \<Rightarrow> [] | Some _ \<Rightarrow> [case voter of None \<Rightarrow> [] | Some a \<Rightarrow> a])"

definition desktop_click :: "link_env \<Rightarrow> event_payload \<Rightarrow> row_part \<Rightarrow> row_action list" where
  "desktop_click e ev part =
     (case ev of
        PROPOSAL_VOTE p voter supportDetailed \<Rightarrow>
          (case part of
             PartyAt k \<Rightarrow> party_handler e (voters_of voter supportDetailed) k
           | TitlePart \<Rightarrow> [Navigates (proposal_event_target (wp_id p))]
           | _ \<Rightarrow> [])
      | DELEGATION previous newDelegate tx \<Rightarrow>
          (case part of PartyAt k \<Rightarrow> party_handler e [previous, newDelegate] k | PillPart \<Rightarrow> pill_handler e tx | _ \<Rightarrow> [])
      | TRANSFER sender receiver tx \<Rightarrow>
          (case part of
             PartyAt k \<Rightarrow> party_handler e [sender, receiver] k
           | PillPart \<Rightarrow> pill_handler e tx @ [OpensWindow (buildEtherscanTxLink e tx)]
           | _ \<Rightarrow> [])
      | AUCTION_WIN alpId winner tx \<Rightarrow>
          (case part of
             PartyAt k \<Rightarrow> party_handler e [winner] k
           | PillPart \<Rightarrow> pill_handler e tx @ [OpensWindow (buildEtherscanTxLink e tx)]
           | _ \<Rightarrow> []))"

text \<open>On a small screen the whole row is clickable; only the voter's handler stops the propagation.\<close>

definition mobile_click :: "link_env \<Rightarrow> event_payload \<Rightarrow> row_part \<Rightarrow> row_action list" where
  "mobile_click e ev part =
     (let tx_row = (\<lambda>tx. (if part = PillPart then pill_handler e tx else []) @ [OpensWindow (buildEtherscanTxLink e tx)])
      in case ev of
           PROPOSAL_VOTE p voter supportDetailed \<Rightarrow>
             (case part of
                PartyAt k \<Rightarrow>
                  if k < length (voters_of voter supportDetailed) then party_handler e (voters_of voter supportDetailed) k
                  else [Navigates (proposal_event_target (wp_id p))]
              | _ \<Rightarrow> [Navigates (proposal_event_target (wp_id p))])
         | DELEGATION previous newDelegate tx \<Rightarrow> tx_row tx
         | TRANSFER sender receiver tx \<Rightarrow> tx_row tx
         | AUCTION_WIN alpId winner tx \<Rightarrow> tx_row tx)"

text \<open>What a row may lead to.\<close>

definition row_parties :: "event_payload \<Rightarrow> string list" where
  "row_parties ev = [a. Party a \<leftarrow> fst (event_row ev)]"

definition row_transaction :: "event_payload \<Rightarrow> string option" where
  "row_transaction ev =
     (case ev of
        PROPOSAL_VOTE _ _ _ \<Rightarrow> None
      | DELEGATION _ _ tx \<Rightarrow> Some tx
      | TRANSFER _ _ tx \<Rightarrow> Some tx
      | AUCTION_WIN _ _ tx \<Rightarrow> Some tx)"

definition leads_where_it_says :: "link_env \<Rightarrow> event_payload \<Rightarrow> row_action \<Rightarrow> bool" where
  "leads_where_it_says e ev a \<longleftrightarrow>
     (\<exists>x\<in>set (row_parties ev). a = OpensWindow (buildEtherscanAddressLink e x))
     \<or> (\<exists>tx. row_transaction ev = Some tx \<and> a = OpensWindow (buildEtherscanTxLink e tx))
     \<or> (\<exists>p v s. ev = PROPOSAL_VOTE p v s \<and> a = Navigates (proposal_event_target (wp_id p)))"

lemma vote_parties: "row_parties (PROPOSAL_VOTE p voter supportDetailed) = voters_of voter supportDetailed"
  by (auto simp: row_parties_def event_row_def headline_parts_def ProposalVoteHeadline_def voters_of_def support_nat_def
      split: option.splits)

lemma other_parties:
  "row_parties (DELEGATION a b tx) = [a, b]" "row_parties (TRANSFER a b tx) = [a, b]"
  "row_parties (AUCTION_WIN n a tx) = [a]"
  by (simp_all add: row_parties_def event_row_def)

text \<open>
  Clicks on the activity of an alp.  Whatever part is clicked, on either screen, only windows for the
  parties the row names, for its transaction, or the page of its proposal are opened; on a small screen some is always.
  But the pill of a transaction opens its window twice: its own handler and the one around it both run,
  except for a delegation on a large screen.
\<close>

theorem clicks_lead_where_rows_say:
  "(\<forall>a\<in>set (desktop_click e ev part) \<union> set (mobile_click e ev part). leads_where_it_says e ev a)
   \<and> mobile_click e ev part \<noteq> []
   \<and> (row_transaction ev = Some tx \<longrightarrow>
        mobile_click e ev PillPart = replicate 2 (OpensWindow (buildEtherscanTxLink e tx))
        \<and> desktop_click e ev PillPart =
            replicate (if \<exists>x y z. ev = DELEGATION x y z then 1 else 2) (OpensWindow (buildEtherscanTxLink e tx)))"
proof -
  have "leads_where_it_says e ev a" if "a \<in> set (desktop_click e ev part) \<union> set (mobile_click e ev part)" for a
    using that
    by (cases ev; cases part)
      (auto simp: desktop_click_def mobile_click_def party_handler_def pill_handler_def leads_where_it_says_def Let_def
        row_transaction_def vote_parties other_parties nth_Cons' less_Suc_eq split: if_splits)
  moreover have "mobile_click e ev part \<noteq> []"
    by (cases ev; cases part) (auto simp: mobile_click_def party_handler_def Let_def)
  moreover have "row_transaction ev = Some tx \<Longrightarrow>
        mobile_click e ev PillPart = replicate 2 (OpensWindow (buildEtherscanTxLink e tx))
        \<and> desktop_click e ev PillPart =
            replicate (if \<exists>x y z. ev = DELEGATION x y z then 1 else 2) (OpensWindow (buildEtherscanTxLink e tx))"
    by (cases ev) (auto simp: row_transaction_def mobile_click_def desktop_click_def pill_handler_def numeral_eq_Suc)
  ultimately show ?thesis by blast
qed

section \<open>The timer\<close>

datatype timer_heading = AuctionEnded | AuctionEndsIn | TimeLeft | EndsOn int

datatype timer_body = RemainingParts "int \<times> int \<times> int" | ClockAt int

text \<open>
  The component after its effect has run at \<open>now\<close> (seconds): the seconds left, and the two views
  between which a click switches.  \<open>endTimeUnix\<close> is computed from the clock and the seconds left.
\<close>

record auction_timer_state =
  tm_left :: int
  tm_toggle :: bool

definition timer_start :: auction_timer_state where
  "timer_start = \<lparr>tm_left = 0, tm_toggle = True\<rparr>"

definition timer_effect :: "int \<Rightarrow> int \<Rightarrow> auction_timer_state \<Rightarrow> auction_timer_state" where
  "timer_effect endTime now t = t\<lparr>tm_left := auction_timer endTime now\<rparr>"

definition timer_click :: "auction_timer_state \<Rightarrow> auction_timer_state" where
  "timer_click t = t\<lparr>tm_toggle := \<not> tm_toggle t\<rparr>"

definition AuctionTimer :: "bool \<Rightarrow> bool \<Rightarrow> int \<Rightarrow> auction_timer_state \<Rightarrow> timer_heading \<times> timer_body" where
  "AuctionTimer small auctionEnded now t =
     (let endTimeUnix = now + tm_left t
      in if tm_toggle t
         then (if auctionEnded then AuctionEnded else if small then TimeLeft else AuctionEndsIn,
               RemainingParts (duration_parts (tm_left t)))
         else (EndsOn endTimeUnix, ClockAt endTimeUnix))"

text \<open>
  While the auction runs, both views tell its end; the parts leave out whole days.  Once it is
  over the clock of the second view shows the present in place of the end.
\<close>

lemma timer_tells_end:
  fixes t :: auction_timer_state and endTime now :: int
  defines "s \<equiv> timer_effect endTime now t"
  shows "now \<le> endTime \<Longrightarrow> AuctionTimer small ended now (s\<lparr>tm_toggle := False\<rparr>) = (EndsOn endTime, ClockAt endTime)"
    and "now \<le> endTime \<Longrightarrow> endTime < now + 86400 \<Longrightarrow>
           \<exists>h m x. snd (AuctionTimer small ended now (s\<lparr>tm_toggle := True\<rparr>)) = RemainingParts (h, m, x)
             \<and> now + h * 3600 + m * 60 + x = endTime"
    and "endTime \<le> now \<Longrightarrow> AuctionTimer small ended now (s\<lparr>tm_toggle := False\<rparr>) = (EndsOn now, ClockAt now)"
proof -
  show "now \<le> endTime \<Longrightarrow> AuctionTimer small ended now (s\<lparr>tm_toggle := False\<rparr>) = (EndsOn endTime, ClockAt endTime)"
    by (auto simp: s_def AuctionTimer_def timer_effect_def auction_timer_def Let_def)
  show "endTime \<le> now \<Longrightarrow> AuctionTimer small ended now (s\<lparr>tm_toggle := False\<rparr>) = (EndsOn now, ClockAt now)"
    by (auto simp: s_def AuctionTimer_def timer_effect_def auction_timer_def Let_def)
  assume running: "now \<le> endTime" "endTime < now + 86400"
  then have left: "auction_timer endTime now = endTime - now" by (auto simp: auction_timer_def Let_def)
  obtain h m x where parts: "duration_parts (endTime - now) = (h, m, x)" by (metis prod_cases3)
  have "h * 3600 + m * 60 + x = endTime - now"
    using timer_short [of "endTime - now"] running parts by simp
  then show "\<exists>h m x. snd (AuctionTimer small ended now (s\<lparr>tm_toggle := True\<rparr>)) = RemainingParts (h, m, x)
             \<and> now + h * 3600 + m * 60 + x = endTime"
    by (auto simp: s_def AuctionTimer_def timer_effect_def left parts)
qed

text \<open>With a day left the timer shows nothing left.\<close>

lemma whole_day_shown_as_nothing: "duration_parts 86400 = (0, 0, 0)"
  by (simp add: duration_parts_def)

section \<open>Pictures that are links\<close>

text \<open>What is shown of an alp: its picture or the loading picture, and where a click leads.\<close>

record alp_picture =
  pc_image :: string  \<comment> \<open>empty: the loading picture\<close>
  pc_alt :: string
  pc_link :: "int option"  \<comment> \<open>the alp of the link and of the dispatch\<close>
  pc_overlay :: bool

definition no_picture :: alp_picture where
  "no_picture = \<lparr>pc_image = [], pc_alt = ''Alp'', pc_link = None, pc_overlay = False\<rparr>"

text \<open>\<open>draw\<close>: \<open>getAlp\<close> of the seed; its exception is \<open>None\<close>.\<close>

definition StandaloneAlp :: "(alp_seed \<Rightarrow> alp_view option) \<Rightarrow> nat \<Rightarrow> alp_seed option \<Rightarrow> alp_picture option" where
  "StandaloneAlp draw alpId seed =
     (case seed of
        None \<Rightarrow> Some \<lparr>pc_image = [], pc_alt = ''Alp'', pc_link = Some (int alpId), pc_overlay = False\<rparr>
      | Some s \<Rightarrow>
          map_option (\<lambda>a. \<lparr>pc_image = av_image a, pc_alt = av_description a, pc_link = Some (int alpId), pc_overlay = False\<rparr>)
            (draw s))"

definition StandaloneAlpCircular :: "(alp_seed \<Rightarrow> alp_view option) \<Rightarrow> nat \<Rightarrow> alp_seed option \<Rightarrow> alp_picture option" where
  "StandaloneAlpCircular draw alpId seed = (if seed = None then Some no_picture else StandaloneAlp draw alpId seed)"

definition StandaloneAlpRoundedCorners :: "(alp_seed \<Rightarrow> alp_view option) \<Rightarrow> nat \<Rightarrow> alp_seed option \<Rightarrow> alp_picture option" where
  "StandaloneAlpRoundedCorners draw alpId seed = StandaloneAlp draw alpId seed"

text \<open>With the seed that \<open>onLoadSeed\<close> is called with.\<close>

definition StandaloneAlpWithSeed ::
  "(alp_seed \<Rightarrow> alp_view option) \<Rightarrow> nat \<Rightarrow> alp_seed option \<Rightarrow> bool \<Rightarrow> bool \<Rightarrow> (alp_picture \<times> alp_seed option) option" where
  "StandaloneAlpWithSeed draw alpId seed onLoadSeed shouldLinkToProfile =
     (case seed of
        None \<Rightarrow> Some (no_picture, None)
      | Some s \<Rightarrow>
          if seedIsInvalid seed \<or> \<not> onLoadSeed then Some (no_picture, None)
          else map_option (\<lambda>a.
                 (\<lparr>pc_image = av_image a, pc_alt = av_description a,
                   pc_link = (if shouldLinkToProfile then Some (int alpId) else None), pc_overlay = True\<rparr>, Some s))
               (draw s))"

definition alp_click :: "alp_picture \<Rightarrow> app_state \<Rightarrow> app_state" where
  "alp_click pc s =
     (case pc_link pc of
        None \<Rightarrow> s
      | Some n \<Rightarrow> s\<lparr>ap_onDisplay := setOnDisplayAuctionAlpId n (ap_onDisplay s), ap_path := alpPath n\<rparr>)"

lemma app_route_alpPath: "app_route js_Number (alpPath (int n)) = AuctionOf (Some (int n))"
  by (rule conjunct1 [OF paths_lead_back])

text \<open>
  A picture that is a link leads to its alp: the alp on display and the address agree, and the
  address is the route of that alp's page.
\<close>

lemma picture_leads_to_alp:
  assumes "StandaloneAlp draw n seed = Some pc \<or> StandaloneAlpRoundedCorners draw n seed = Some pc
           \<or> StandaloneAlpCircular draw n (Some sd) = Some pc"
  shows "onDisplayAuctionAlpId (ap_onDisplay (alp_click pc s)) = Some (int n)
       \<and> app_route js_Number (ap_path (alp_click pc s)) = AuctionOf (Some (int n))"
proof -
  have "pc_link pc = Some (int n)"
    using assms by (auto simp: StandaloneAlp_def StandaloneAlpRoundedCorners_def StandaloneAlpCircular_def split: option.splits)
  then show ?thesis by (simp add: alp_click_def setOnDisplayAuctionAlpId_def app_route_alpPath)
qed

text \<open>The alp whose traits are all the first ones is never drawn with its overlay: its seed counts as
  not loaded.\<close>

definition zero_seed :: alp_seed where
  "zero_seed = \<lparr>alp_seed.sd_background = 0, alp_seed.sd_body = 0, alp_seed.sd_accessory = 0, alp_seed.sd_head = 0,
     alp_seed.sd_glasses = 0\<rparr>"

lemma first_traits_never_drawn: "StandaloneAlpWithSeed draw n (Some zero_seed) True True = Some (no_picture, None)"
  by (simp add: StandaloneAlpWithSeed_def seedIsInvalid_def zero_seed_def)

text \<open>One circle of a stack: the loading picture until its seed is there, then a picture in a circle.\<close>

record stacked_alp =
  sk_alp :: int
  sk_cx :: int
  sk_cy :: int
  sk_x :: int
  sk_y :: int
  sk_image :: string

definition TightStackedCircleAlp ::
  "(alp_seed \<Rightarrow> alp_view option) \<Rightarrow> int \<Rightarrow> nat \<Rightarrow> int \<Rightarrow> int \<Rightarrow> alp_seed option \<Rightarrow> stacked_alp option option" where
  "TightStackedCircleAlp draw alpId i square shift seed =
     (case seed of
        None \<Rightarrow> Some None
      | Some s \<Rightarrow>
          map_option (\<lambda>a. Some
            \<lparr>sk_alp = alpId, sk_cx = 28 + int i * shift, sk_cy = square - 21 - int i * shift,
             sk_x = 8 + int i * shift, sk_y = 14 - int i * shift, sk_image = av_image a\<rparr>) (draw s))"

text \<open>Of the three circles of a stack every one lies in the square of its frame, with its picture around it.\<close>

lemma stack_inside_square:
  assumes "TightStackedCircleAlp draw n i 55 3 seed = Some (Some k)" "i < MAX_NOUNS_PER_STACK"
  shows "20 \<le> sk_cx k \<and> sk_cx k + 20 \<le> 55 \<and> 20 \<le> sk_cy k \<and> sk_cy k + 20 \<le> 55
       \<and> sk_x k + 20 = sk_cx k \<and> sk_y k + 20 = sk_cy k"
  using assms by (auto simp: TightStackedCircleAlp_def MAX_NOUNS_PER_STACK_def split: option.splits)

section \<open>The navigation bar\<close>

text \<open>\<open>formatTreasury\<close>: the balance in ether with three decimals.  A balance is an object, so zero is
  shown too.\<close>

record navbar_view =
  nb_expanded :: bool
  nb_testnet :: bool
  nb_treasury :: "(string \<times> string) option"  \<comment> \<open>the link to the treasury's holdings and the amount\<close>
  nb_links :: "(string \<times> string) list"
  nb_walletAddress :: string

definition NavBar :: "link_env \<Rightarrow> string \<Rightarrow> (int \<Rightarrow> string) \<Rightarrow> jsnum \<Rightarrow> int option \<Rightarrow> string option \<Rightarrow> bool \<Rightarrow> navbar_view" where
  "NavBar e executor formatTreasury chain treasuryBalance activeAccount isNavExpanded =
     \<lparr>nb_expanded = isNavExpanded, nb_testnet = (chain \<noteq> Some 1),
      nb_treasury = map_option (\<lambda>b. (buildEtherscanHoldingsLink e executor, formatTreasury b)) treasuryBalance,
      nb_links = [(''DAO'', ''/vote''), (''About'', ''https://alpsdao.gitbook.io/about/''), (''Playground'', ''/playground'')],
      nb_walletAddress = (case activeAccount of None \<Rightarrow> ''0'' | Some a \<Rightarrow> if a = [] then ''0'' else a)\<rparr>"

datatype navbar_event = ToggleNav | FollowLink

definition navbar_step :: "navbar_event \<Rightarrow> bool \<Rightarrow> bool" where
  "navbar_step ev isNavExpanded = (case ev of ToggleNav \<Rightarrow> \<not> isNavExpanded | FollowLink \<Rightarrow> False)"

section \<open>Connecting a wallet\<close>

datatype wallet_type = Metamask | Fortmatic | WalletConnect | CoinbaseWallet | Brave | Trezor

text \<open>The connector a button makes, with what it is told of the chain.\<close>

datatype connector_request =
    InjectedConnector "jsnum list"
  | FortmaticConnector jsnum
  | WalletConnectV2 "jsnum list" "jsnum list" "(jsnum \<times> string) list"
  | WalletLinkConnector "jsnum list" string
  | TrezorConnector jsnum string

definition wallet_buttons :: "wallet_type list" where
  "wallet_buttons = [Metamask, Fortmatic, WalletConnect, CoinbaseWallet, Brave, Trezor]"

definition wallet_request :: "jsnum \<Rightarrow> string \<Rightarrow> wallet_type \<Rightarrow> connector_request" where
  "wallet_request CHAIN jsonRpcUri w =
     (let supportedChainIds = [CHAIN] in
      case w of
        Metamask \<Rightarrow> InjectedConnector supportedChainIds
      | Fortmatic \<Rightarrow> FortmaticConnector CHAIN
      | WalletConnect \<Rightarrow> WalletConnectV2 supportedChainIds [CHAIN] [(CHAIN, jsonRpcUri)]
      | CoinbaseWallet \<Rightarrow> WalletLinkConnector supportedChainIds jsonRpcUri
      | Brave \<Rightarrow> InjectedConnector supportedChainIds
      | Trezor \<Rightarrow> TrezorConnector CHAIN jsonRpcUri)"

fun request_chains :: "connector_request \<Rightarrow> jsnum list" where
  "request_chains (InjectedConnector cs) = cs"
| "request_chains (FortmaticConnector c) = [c]"
| "request_chains (WalletConnectV2 cs os rpcs) = cs @ os @ map fst rpcs"
| "request_chains (WalletLinkConnector cs u) = cs"
| "request_chains (TrezorConnector c u) = [c]"

text \<open>No wallet is offered on another chain; two buttons ask for the same injected wallet.\<close>

lemma wallets_on_chain:
  "w \<in> set wallet_buttons \<Longrightarrow> set (request_chains (wallet_request CHAIN u w)) = {CHAIN}"
  "wallet_request CHAIN u Brave = wallet_request CHAIN u Metamask"
  by (cases w; simp add: wallet_request_def) (simp add: wallet_request_def)

text \<open>The account whose delegate the panel names, and what it shows of the address.\<close>

definition panel_account :: "string option \<Rightarrow> string option \<Rightarrow> string" where
  "panel_account delegatee maybeAccount =
     (case delegatee of Some d \<Rightarrow> d | None \<Rightarrow> (case maybeAccount of Some a \<Rightarrow> a | None \<Rightarrow> []))"

definition CurrentDelegatePannel :: "string option \<Rightarrow> string option \<Rightarrow> string \<times> string" where
  "CurrentDelegatePannel delegatee maybeAccount =
     (panel_account delegatee maybeAccount, useShortAddress (panel_account delegatee maybeAccount))"

section \<open>Avatars\<close>

text \<open>
  \<open>useEnsAvatarLookup\<close>: every effect has its own flag \<open>mounted\<close>, cleared when the address changes; a chain of
  three requests, any of which may end without a result, sets the avatar at the end.
\<close>

record avatar_hook =
  ah_effects :: "string list"  \<comment> \<open>the addresses of the effects so far; only the last is mounted\<close>
  ah_avatar :: "string option"

datatype avatar_event =
    AddressChanges string
  | AvatarArrives nat

definition avatar_start :: "string \<Rightarrow> avatar_hook" where
  "avatar_start a = \<lparr>ah_effects = [a], ah_avatar = None\<rparr>"

text \<open>\<open>lookup\<close>: the name, the resolver of the name and its text, as they are answered for an address.\<close>

definition avatar_of :: "(string \<Rightarrow> string option) \<Rightarrow> (string \<Rightarrow> 'r option) \<Rightarrow> ('r \<Rightarrow> string option) \<Rightarrow> string \<Rightarrow> string option" where
  "avatar_of lookupAddress getResolver getText a =
     (if a = [] then None
      else case lookupAddress a of
        None \<Rightarrow> None
      | Some name \<Rightarrow> if name = [] then None else Option.bind (getResolver name) getText)"

definition avatar_step :: "(string \<Rightarrow> string option) \<Rightarrow> avatar_event \<Rightarrow> avatar_hook \<Rightarrow> avatar_hook" where
  "avatar_step avatar ev h =
     (case ev of
        AddressChanges a \<Rightarrow>
          if a = last (ah_effects h) then h
          else \<lparr>ah_effects = ah_effects h @ [a], ah_avatar = Some []\<rparr>
      | AvatarArrives k \<Rightarrow>
          if k + 1 = length (ah_effects h)
          then (case avatar (last (ah_effects h)) of None \<Rightarrow> h | Some v \<Rightarrow> h\<lparr>ah_avatar := Some v\<rparr>)
          else h)"

text \<open>An answer that comes after the address has changed is dropped: the avatar is never another address's.\<close>

lemma avatar_of_current_address:
  fixes avatar :: "string \<Rightarrow> string option" and a :: string and evs :: "avatar_event list"
  defines "h \<equiv> fold (avatar_step avatar) evs (avatar_start a)"
  shows "ah_avatar h = None \<or> ah_avatar h = Some [] \<or> ah_avatar h = avatar (last (ah_effects h))"
proof -
  let ?ok = "\<lambda>h. ah_avatar h = None \<or> ah_avatar h = Some [] \<or> ah_avatar h = avatar (last (ah_effects h))"
  have step: "?ok g \<Longrightarrow> ?ok (avatar_step avatar ev g)" for g ev
    by (auto simp: avatar_step_def split: avatar_event.splits option.splits)
  have "?ok g \<Longrightarrow> ?ok (fold (avatar_step avatar) evs g)" for g
    by (induction evs arbitrary: g) (use step in auto)
  then show ?thesis by (simp add: h_def avatar_start_def)
qed

end
