(* ===== verification/Web_Views.thy ===== *)
theory Web_Views
  imports Web_Frames Web_Wallet Web_Tables
begin

text \<open>
  What components put on the screen, as trees: an element has the names of its classes (or, without any,
  its tag), the handler of a click and its children; texts are leaves.  Sizes, colours and the drawings of icons are left
  out.  Here are the menus of the navigation bar (\<open>NavWallet\<close>, \<open>NavLocaleSwitcher\<close>), the dialogues
  (\<open>Modal\<close>, \<open>WalletConnectModal\<close>, \<open>LanguageSelectionModal\<close>), the rows of votes (\<open>AlpProfileVoteRow\<close>),
  small parts that others use, and the pages of text (\<open>Documentation\<close>, \<open>pages/Alpers\<close>).
\<close>

section \<open>Trees and clicks\<close>

datatype 'h view = El "string list" "'h option" "'h view list" | Tx string

fun texts :: "'h view \<Rightarrow> string list" where
  "texts (Tx s) = [s]"
| "texts (El c h vs) = concat (map texts vs)"

fun handlers :: "'h view \<Rightarrow> 'h list" where
  "handlers (Tx s) = []"
| "handlers (El c h vs) = (case h of None \<Rightarrow> [] | Some x \<Rightarrow> [x]) @ concat (map handlers vs)"

text \<open>A click on a text reaches the handlers around it, the innermost first; one list for every place where the
  text stands.\<close>

fun clicks :: "string \<Rightarrow> 'h view \<Rightarrow> 'h list list" where
  "clicks w (Tx s) = (if s = w then [[]] else [])"
| "clicks w (El c h vs) = map (\<lambda>hs. hs @ (case h of None \<Rightarrow> [] | Some x \<Rightarrow> [x])) (concat (map (clicks w) vs))"

text \<open>No handler inside an element that has one.\<close>

fun one_handler :: "'h view \<Rightarrow> bool" where
  "one_handler (Tx s) \<longleftrightarrow> True"
| "one_handler (El c h vs) \<longleftrightarrow> list_all one_handler vs \<and> (h = None \<or> list_all (\<lambda>v. handlers v = []) vs)"

lemma clicks_handled: "hs \<in> set (clicks w v) \<Longrightarrow> set hs \<subseteq> set (handlers v)"
proof (induction v arbitrary: hs)
  case (El c h vs)
  then show ?case by (fastforce split: option.splits)
qed (simp split: if_splits)

lemma one_handler_clicks: "one_handler v \<Longrightarrow> hs \<in> set (clicks w v) \<Longrightarrow> length hs \<le> 1"
proof (induction v arbitrary: hs)
  case (El c h vs)
  obtain v gs where v: "v \<in> set vs" "gs \<in> set (clicks w v)" "hs = gs @ (case h of None \<Rightarrow> [] | Some x \<Rightarrow> [x])"
    using El.prems(2) by auto
  have "length gs \<le> 1" using El.IH [OF v(1) _ v(2)] El.prems(1) v(1) by (simp add: list_all_iff)
  moreover have "gs = []" if "h \<noteq> None"
    using clicks_handled [OF v(2)] El.prems(1) that v(1) by (auto simp: list_all_iff)
  ultimately show ?case using v(3) by (cases h) auto
qed (simp split: if_splits)

section \<open>Dialogues\<close>

text \<open>\<open>Modal\<close>: the backdrop and the cross dismiss.\<close>

definition Modal :: "string \<Rightarrow> 'h view list \<Rightarrow> 'h \<Rightarrow> 'h view list" where
  "Modal title content onDismiss =
     [El [''backdrop''] (Some onDismiss) [],
      El [''modal''] None
        [El [''closeButton''] (Some onDismiss) [El [''img''] None []],
         El [''h3''] None [Tx title],
         El [''content''] None content]]"

fun wallet_name :: "wallet_type \<Rightarrow> string" where
  "wallet_name Metamask = ''Metamask''"
| "wallet_name Brave = ''Brave''"
| "wallet_name WalletConnect = ''WalletConnect''"
| "wallet_name Fortmatic = ''Fortmatic''"
| "wallet_name Trezor = ''Trezor''"
| "wallet_name CoinbaseWallet = ''Coinbase Wallet''"

definition wallet_logo :: "string \<Rightarrow> string" where
  "wallet_logo walletType =
     (if walletType = ''Metamask'' then ''metamask-fox.svg''
      else if walletType = ''Fortmatic'' then ''fortmatic.svg''
      else if walletType = ''WalletConnect'' then ''walletconnect-logo.svg''
      else if walletType = ''Brave'' then ''brave.svg''
      else if walletType = ''Ledger'' then ''ledger.svg''
      else if walletType = ''Trezor'' then ''trezor.svg''
      else if walletType = ''Coinbase Wallet'' then ''coinbase-wallet-dot.svg''
      else [])"

definition WalletButton :: "'h \<Rightarrow> wallet_type \<Rightarrow> 'h view" where
  "WalletButton onClick walletType =
     El [''walletButton''] (Some onClick)
       [El [''img'', wallet_logo (wallet_name walletType)] None [], Tx (wallet_name walletType)]"

datatype nav_click = Nav nav_action | Activate wallet_type | ClearWalletConnectData

definition WalletConnectModal :: "nav_click \<Rightarrow> nav_click view list" where
  "WalletConnectModal onDismiss =
     Modal ''Connect your wallet''
       [El [''walletConnectModal''] None
          (map (\<lambda>w. WalletButton (Activate w) w) wallet_buttons
           @ [El [''clickable'', ''walletConnectData''] (Some ClearWalletConnectData) [Tx ''Clear WalletConnect Data'']])]
       onDismiss"

section \<open>The wallet in the navigation bar\<close>

text \<open>\<open>pick\<close> chooses a style by the background of the page.\<close>

definition nav_toggle :: "(string \<Rightarrow> string \<Rightarrow> string \<Rightarrow> string) \<Rightarrow> bool \<Rightarrow> 'h \<Rightarrow> 'h view list \<Rightarrow> 'h view" where
  "nav_toggle pick buttonUp onClick content =
     El [''wrapper'', if buttonUp then pick ''whiteInfoSelected'' ''dropdownActive'' ''dropdownActive''
                      else pick ''whiteInfo'' ''coolInfo'' ''warmInfo''] (Some onClick)
       [El [''button''] None (content @ [El [if buttonUp then ''arrowUp'' else ''arrowDown''] None []])]"

definition wallet_menu :: "(string \<Rightarrow> string \<Rightarrow> string \<Rightarrow> string) \<Rightarrow> nav_click view" where
  "wallet_menu pick =
     El [''CustomMenu''] None
       [El [''dropDownTop'', ''button'', ''dropdownPrimaryText'', pick ''whiteInfoSelectedTop'' ''coolInfoSelected'' ''warmInfoSelected'']
          (Some (Nav SwitchWallet)) [Tx ''Switch wallet''],
        El [''dropDownBottom'', ''button'', pick ''whiteInfoSelectedBottom'' ''coolInfoSelected'' ''warmInfoSelected'', ''disconnectText'']
          (Some (Nav DisconnectWallet)) [Tx ''Disconnect'']]"

text \<open>The two forms of the connected wallet: a style sheet hides one of them.  \<open>opened\<close>: the menu is open,
  which the library of the dropdown decides.\<close>

definition walletConnectedContentDesktop ::
  "(string \<Rightarrow> string \<Rightarrow> string \<Rightarrow> string) \<Rightarrow> bool \<Rightarrow> bool \<Rightarrow> string \<Rightarrow> nav_click view" where
  "walletConnectedContentDesktop pick buttonUp opened label =
     El [''alpsNavLink'', ''desktopOnly''] None
       (nav_toggle pick buttonUp (Nav ToggleMenu)
          [El [''icon''] None [El [''Davatar''] None []], El [''dropdownBtnContent''] None [Tx label]]
        # (if opened then [wallet_menu pick] else []))"

definition walletConnectedContentMobile :: "button_style option \<Rightarrow> string \<Rightarrow> nav_click view" where
  "walletConnectedContentMobile buttonStyle label =
     El [''alpsNavLink'', ''mobileOnly''] None
       [El [''connectContentMobileWrapper''] None
          [El [''wrapper'', getNavBarButtonVariant buttonStyle] None
             [El [''button''] None
                [El [''icon''] None [El [''Davatar''] None []], El [''dropdownBtnContent''] None [Tx label]]]],
        El [''connectContentMobileText''] None
          [El [''mobileSwitchWalletText''] (Some (Nav SwitchWallet)) [Tx ''Switch''],
           El [''disconnectText''] (Some (Nav DisconnectWallet)) [Tx ''Sign out'']]]"

definition NavBarButton :: "string \<Rightarrow> 'h view list \<Rightarrow> 'h option \<Rightarrow> bool \<Rightarrow> 'h view" where
  "NavBarButton buttonText buttonIcon onClick disabled =
     El [''wrapper'', ''coolInfo''] (if disabled then None else onClick)
       [El [''button'', if disabled then ''btnDisabled'' else ''btnEnabled''] None
          ((if buttonIcon = [] then [] else [El [''icon''] None buttonIcon]) @ [El [''div''] None [Tx buttonText]])]"

definition WalletConnectButton :: "nav_click view" where
  "WalletConnectButton =
     El [''alpsNavLink'', ''connectBtn''] (Some (Nav nav_action.OpenModal)) [NavBarButton ''Connect'' [] None False]"

text \<open>On wide screens the full name is shown, on narrow ones \<open>nav_label\<close>.\<close>

definition NavWallet ::
  "(string \<Rightarrow> string \<Rightarrow> string \<Rightarrow> string) \<Rightarrow> button_style option \<Rightarrow> bool \<Rightarrow> string \<Rightarrow> string \<Rightarrow> nav_wallet \<times> wallet \<Rightarrow> nav_click view" where
  "NavWallet pick buttonStyle opened desktopLabel mobileLabel s =
     El [] None
       ((if modal_shown s then WalletConnectModal (Nav nav_action.DismissModal) else [])
        @ (if connected_content s
           then [walletConnectedContentDesktop pick (nw_buttonUp (fst s)) opened desktopLabel,
                 walletConnectedContentMobile buttonStyle mobileLabel]
           else [WalletConnectButton]))"

definition desktop_label :: "(string \<Rightarrow> string) \<Rightarrow> string option \<Rightarrow> string \<Rightarrow> string" where
  "desktop_label shortAddress ens address =
     (case ens of None \<Rightarrow> shortAddress address | Some n \<Rightarrow> if n = [] then shortAddress address else n)"

lemmas nav_views = NavWallet_def walletConnectedContentDesktop_def walletConnectedContentMobile_def nav_toggle_def
  wallet_menu_def WalletConnectModal_def Modal_def WalletButton_def WalletConnectButton_def NavBarButton_def wallet_buttons_def

text \<open>
  What is on the screen is what can happen: an action without an element to click on leaves the state as it is;
  no click has two effects; and the labels lead to the actions they name.
\<close>

lemma nav_handlers:
  "handlers (NavWallet pick st opened dl ml s) =
     (if modal_shown s then [Nav nav_action.DismissModal, Nav nav_action.DismissModal] @ map Activate wallet_buttons
        @ [ClearWalletConnectData] else [])
     @ (if connected_content s
        then Nav ToggleMenu # (if opened then [Nav SwitchWallet, Nav DisconnectWallet] else [])
          @ [Nav SwitchWallet, Nav DisconnectWallet]
        else [Nav nav_action.OpenModal])"
  by (simp add: nav_views)

lemma nav_actions_shown:
  assumes "a \<in> {nav_action.OpenModal, nav_action.DismissModal, ToggleMenu, SwitchWallet, DisconnectWallet}"
    and "Nav a \<notin> set (handlers (NavWallet pick st opened dl ml s))"
  shows "nav_step chain public getNetwork a s = s"
  using assms unfolding nav_handlers by (auto simp: nav_step_def split: if_splits)

lemma nav_one_handler: "one_handler (NavWallet pick st opened dl ml s)"
  by (simp add: nav_views)

lemma nav_labels:
  assumes "dl \<notin> {''Switch'', ''Sign out'', ''Disconnect''}" "ml \<notin> {''Switch'', ''Sign out'', ''Disconnect''}"
  shows "clicks ''Sign out'' (NavWallet pick st opened dl ml s) = (if connected_content s then [[Nav DisconnectWallet]] else [])"
    "clicks ''Switch'' (NavWallet pick st opened dl ml s) = (if connected_content s then [[Nav SwitchWallet]] else [])"
    "clicks ''Disconnect'' (NavWallet pick st opened dl ml s) =
       (if connected_content s \<and> opened then [[Nav DisconnectWallet]] else [])"
  using assms by (cases "modal_shown s"; cases "connected_content s"; simp add: nav_views)+

section \<open>Languages\<close>

datatype locale_click = ToggleLocaleMenu | SetLocale string | ShowPicker | DismissPicker | ChooseLocale string

definition label_of :: "string \<Rightarrow> string" where
  "label_of l = (case LOCALE_LABEL l of None \<Rightarrow> [] | Some s \<Rightarrow> s)"

definition tick :: "bool \<Rightarrow> 'h view list" where
  "tick b = (if b then [El [''faCheck''] None []] else [])"

text \<open>The dialogue on narrow screens: a choice sets the language and closes the dialogue.\<close>

definition LanguageSelectionModal :: "string \<Rightarrow> locale_click view list" where
  "LanguageSelectionModal activeLocale =
     Modal ''Select Language''
       [El [''LanguageSelectionModal''] None
          (map (\<lambda>l. El [''languageButton''] (Some (ChooseLocale l)) (Tx (label_of l) # tick (l = activeLocale))) SUPPORTED_LOCALES)]
       DismissPicker"

definition locale_menu :: "(string \<Rightarrow> string \<Rightarrow> string \<Rightarrow> string) \<Rightarrow> string \<Rightarrow> locale_click view" where
  "locale_menu pick activeLocale =
     (let top = pick ''whiteInfoSelectedTop'' ''coolInfoSelected'' ''warmInfoSelected'';
          bottom = pick ''whiteInfoSelectedBottom'' ''coolInfoSelected'' ''warmInfoSelected''
      in El [''CustomMenu''] None
           (map (\<lambda>(l, label, ticked, style).
              El [''button'', ''dropdownPrimaryText'', if style = TopRow then top else bottom,
                  case style of TopRow \<Rightarrow> ''dropDownTop'' | BottomRow \<Rightarrow> ''dropDownBottom'' | InteriorRow \<Rightarrow> ''dropDownInterior'',
                  ''desktopLanguageButton'']
                (Some (SetLocale l)) (Tx (case label of None \<Rightarrow> [] | Some s \<Rightarrow> s) # tick ticked))
            (locale_rows activeLocale)))"

record locale_switcher =
  lw_buttonUp :: bool
  lw_showLanguagePickerModal :: bool

definition NavLocaleSwitcher ::
  "(string \<Rightarrow> string \<Rightarrow> string \<Rightarrow> string) \<Rightarrow> bool \<Rightarrow> string \<Rightarrow> locale_switcher \<Rightarrow> locale_click view" where
  "NavLocaleSwitcher pick opened activeLocale s =
     El [] None
       ((if lw_showLanguagePickerModal s then LanguageSelectionModal activeLocale else [])
        @ [El [''alpsNavLink'', ''mobileOnly''] (Some ShowPicker)
             [NavBarButton ''Language'' [El [''faGlobe''] None []] None False],
           El [''alpsNavLink'', ''desktopOnly''] None
             (nav_toggle pick (lw_buttonUp s) ToggleLocaleMenu [El [''dropdownBtnContent''] None [El [''faGlobe''] None []]]
              # (if opened then [locale_menu pick activeLocale] else []))])"

text \<open>\<open>App\<close> holds what is stored and what the library of translations has loaded.\<close>

definition locale_step ::
  "string list \<Rightarrow> locale_click \<Rightarrow> locale_switcher \<times> string option \<times> i18n_state \<Rightarrow> locale_switcher \<times> string option \<times> i18n_state" where
  "locale_step catalogs c s =
     (case c of
        ToggleLocaleMenu \<Rightarrow> ((fst s)\<lparr>lw_buttonUp := \<not> lw_buttonUp (fst s)\<rparr>, snd s)
      | SetLocale l \<Rightarrow> (fst s, setLocale catalogs l (snd s))
      | ShowPicker \<Rightarrow> ((fst s)\<lparr>lw_showLanguagePickerModal := True\<rparr>, snd s)
      | DismissPicker \<Rightarrow> ((fst s)\<lparr>lw_showLanguagePickerModal := False\<rparr>, snd s)
      | ChooseLocale l \<Rightarrow> ((fst s)\<lparr>lw_showLanguagePickerModal := False\<rparr>, setLocale catalogs l (snd s)))"

text \<open>
  The label of a language leads to that language, in the menu and in the dialogue: each place where it
  stands has one handler, and after it the language is the active one; the dialogue is closed.
\<close>

lemma supported_two: "l \<in> set SUPPORTED_LOCALES \<longleftrightarrow> l = ''en-US'' \<or> l = ''ja-JP''"
  by (simp add: SUPPORTED_LOCALES_def)

lemma language_clicks:
  assumes "l \<in> set SUPPORTED_LOCALES"
  shows "clicks (label_of l) (NavLocaleSwitcher pick opened a s) =
     (if lw_showLanguagePickerModal s then [[ChooseLocale l]] else []) @ (if opened then [[SetLocale l]] else [])"
  using assms
  by (cases "lw_showLanguagePickerModal s"; cases opened; cases "l = ''en-US''"; cases "a = ''en-US''"; cases "a = ''ja-JP''")
    (auto simp: supported_two NavLocaleSwitcher_def LanguageSelectionModal_def locale_menu_def Modal_def NavBarButton_def
      nav_toggle_def label_of_def LOCALE_LABEL_def SUPPORTED_LOCALES_def locale_rows_def tick_def Let_def)

lemma language_chosen:
  assumes "c \<in> {SetLocale l, ChooseLocale l}"
  shows "useActiveLocale (fst (snd (locale_step catalogs c s))) nav detected = l"
    "c = ChooseLocale l \<Longrightarrow> \<not> lw_showLanguagePickerModal (fst (locale_step catalogs c s))"
  using assms by (auto simp: locale_step_def setLocale_def useActiveLocale_def js_coalesce_def)

section \<open>Rows of activity\<close>

text \<open>The rows of a table on wide screens, and the boxes on narrow ones.\<close>

definition DesktopAlpActivityRow :: "string \<Rightarrow> 'h view \<Rightarrow> 'h view list \<Rightarrow> 'h view list \<Rightarrow> 'h view" where
  "DesktopAlpActivityRow activeLocale icon primary secondary =
     El [''tr'', ''wrapper''] None
       [El [''icon''] None [icon],
        El [''activityTableCell''] None [El [''infoContainer''] None primary],
        El (if activeLocale = ''ja-JP'' then [''desktopOnly''] else [[]]) None
          [El [''secondaryContentWrapper''] None [El [''secondaryContentContainer''] None secondary]]]"

definition MobileAlpActivityRow :: "'h \<Rightarrow> 'h view \<Rightarrow> 'h view list \<Rightarrow> 'h view list \<Rightarrow> 'h view" where
  "MobileAlpActivityRow onClick icon primary secondary =
     El [''wrapper''] (Some onClick)
       [El [''icon''] None [icon],
        El [''content''] None [El [''div''] None primary, El [''div''] None secondary]]"

definition hash_pill :: "link_env \<Rightarrow> string \<Rightarrow> row_action view" where
  "hash_pill e tx = El [''transactionHashWrapper''] (Some (OpensWindow (buildEtherscanTxLink e tx)))
       [El [''ExternalLinkIcon''] None [], Tx (TransactionHashPill tx)]"

text \<open>The event of a won alp: \<open>addr\<close> is what \<open>ShortAddress\<close> shows of the winner.\<close>

definition win_verb :: "jsnum \<Rightarrow> string" where
  "win_verb n = (if map_option (\<lambda>i. i mod 10 = 0) n = Some True then '' sent to '' else '' won by '')"

definition DesktopAlpWinEvent :: "link_env \<Rightarrow> string \<Rightarrow> string \<Rightarrow> string \<Rightarrow> string \<Rightarrow> string \<Rightarrow> row_action view" where
  "DesktopAlpWinEvent e activeLocale addr alpId winner tx =
     DesktopAlpActivityRow activeLocale (El [''switchIconWrapper''] None [El [''CakeIcon''] None []])
       [El [''bold''] None [Tx ('' Alp '' @ alpId @ '' '')], Tx (win_verb (parseInt None alpId)),
        El [''address''] (Some (OpensWindow (buildEtherscanAddressLink e winner))) [Tx addr]]
       [El [''div''] (Some (OpensWindow (buildEtherscanTxLink e tx))) [hash_pill e tx]]"

definition MobileAlpWinEvent :: "link_env \<Rightarrow> string \<Rightarrow> string \<Rightarrow> string \<Rightarrow> row_action view" where
  "MobileAlpWinEvent e addr alpId tx =
     MobileAlpActivityRow (OpensWindow (buildEtherscanTxLink e tx)) (El [''iconWrapper''] None [El [''CakeIcon''] None []])
       [El [''bold''] None [Tx ('' Alp '' @ alpId @ '' '')], Tx (win_verb (parseInt None alpId)), El [''bold''] None [Tx addr]]
       [hash_pill e tx]"

text \<open>The trees react to clicks as the rows' table of handlers says: the pill of a won alp opens its
  transaction twice.\<close>

lemma win_rows_click:
  assumes "distinct [addr, TransactionHashPill tx, '' Alp '' @ show_int i @ '' '', '' sent to '', '' won by '']"
  shows "clicks (TransactionHashPill tx) (DesktopAlpWinEvent e loc addr (show_int i) winner tx)
      = [desktop_click e (AUCTION_WIN i winner tx) PillPart]"
    "clicks addr (DesktopAlpWinEvent e loc addr (show_int i) winner tx) = [desktop_click e (AUCTION_WIN i winner tx) (PartyAt 0)]"
    "clicks (TransactionHashPill tx) (MobileAlpWinEvent e addr (show_int i) tx) = [mobile_click e (AUCTION_WIN i winner tx) PillPart]"
    "\<not> one_handler (DesktopAlpWinEvent e loc addr (show_int i) winner tx)"
  using assms
  by (auto simp: DesktopAlpWinEvent_def MobileAlpWinEvent_def DesktopAlpActivityRow_def MobileAlpActivityRow_def hash_pill_def
      win_verb_def desktop_click_def mobile_click_def pill_handler_def party_handler_def)

text \<open>A row of votes: where it leads, the icon, the words, the delegate who voted and the state.\<close>

definition delegate_pill :: "string \<Rightarrow> string \<Rightarrow> 'h view" where
  "delegate_pill proposalId addr =
     El [''pill'', ''Delegate for Proposal '' @ proposalId] None [El [''ScaleIcon''] None [], Tx addr]"

definition status_pill :: "proposal_state option \<Rightarrow> 'h view" where
  "status_pill status = El [VoteStatusPill (selectProposalStatus status), ''alpButton''] None [Tx (selectProposalText status)]"

definition icon_of :: "vote_icon \<Rightarrow> string" where
  "icon_of i = (case i of PendingIcon \<Rightarrow> ''PendingVote.svg'' | AbsentIcon \<Rightarrow> ''AbsentVote.svg'' | YesIcon \<Rightarrow> ''YesVote.svg''
     | AbstainIcon \<Rightarrow> ''Abstain.svg'' | NoIcon \<Rightarrow> ''NoVote.svg'')"

definition profile_row_target :: "string option \<Rightarrow> string" where
  "profile_row_target i = (case i of None \<Rightarrow> ''/vote'' | Some s \<Rightarrow> if s = [] then ''/vote'' else ''/vote/'' @ s)"

text \<open>\<open>vote\<close>: the support, the proposal's id and, when known, the voter's id with the address shown.\<close>

definition AlpProfileVoteRow ::
  "string \<Rightarrow> web_proposal \<Rightarrow> (nat \<times> string \<times> (string \<times> string) option) option \<Rightarrow> row_action view" where
  "AlpProfileVoteRow activeLocale proposal vote =
     (let support = map_option fst vote
      in El [''tr'', ''voteInfoRow''] (Some (Navigates (profile_row_target (wp_id proposal))))
           [El [''voteIcon''] None
              [El [''voteIcon'', icon_of (selectIconForAlpVoteActivityRow (wp_status proposal) support)] None []],
            El [''voteInfoTableCell''] None
              [El [''voteInfoContainer''] None
                 [Tx (selectVotingInfoText (wp_status proposal) support), El [''proposalTitle''] None [Tx (wp_title proposal)]]],
            El (if activeLocale = ''ja-JP'' then [''desktopOnly''] else [[]]) None
              ((case vote of
                  Some (_, proposalId, Some (voter, addr)) \<Rightarrow>
                    [El [''voteStatusWrapper''] None
                       [El [''div'', ''Delegate for Proposal '' @ proposalId] None [El [''svg''] None [], Tx addr]]]
                | _ \<Rightarrow> [])
               @ [El [''voteStatusWrapper''] None [El [''voteProposalStatus''] None [status_pill (wp_status proposal)]]])])"

lemma profile_row_shown:
  "texts (AlpProfileVoteRow loc p vote) =
     [selectVotingInfoText (wp_status p) (map_option fst vote), wp_title p]
     @ (case vote of Some (_, _, Some (voter, addr)) \<Rightarrow> [addr] | _ \<Rightarrow> []) @ [selectProposalText (wp_status p)]"
  "hs \<in> set (clicks w (AlpProfileVoteRow loc p vote)) \<Longrightarrow> hs = [Navigates (profile_row_target (wp_id p))]"
  by (auto simp: AlpProfileVoteRow_def status_pill_def Let_def split: option.splits if_splits)

section \<open>Small parts\<close>

definition VoteProgressBar :: "vote_card_variant \<Rightarrow> rat \<Rightarrow> rat \<times> 'h view" where
  "VoteProgressBar variant share =
     (share,
      El [''wrapper'', case variant of CardFor \<Rightarrow> ''forWrapper'' | CardAgainst \<Rightarrow> ''againstWrapper'' | CardAbstain \<Rightarrow> ''abstainWrapper''] None
        [El [''progressBar'', case variant of CardFor \<Rightarrow> ''forProgressBar'' | CardAgainst \<Rightarrow> ''againstProgressBar''
              | CardAbstain \<Rightarrow> ''abstainProgressBar''] None []])"

definition DelegationCandidateVoteCountInfo :: "'h view \<Rightarrow> int \<Rightarrow> bool \<Rightarrow> 'h view" where
  "DelegationCandidateVoteCountInfo heading voteCount isLoading =
     El [''wrapper''] None
       ((if isLoading then [El [''spinner''] None [El [''BrandSpinner''] None []]] else [])
        @ [El [''voteInfoWrapper''] None
             [El [''div''] None [heading],
              El [''voteCount''] None [Tx (show_int voteCount @ (if voteCount = 1 then '' Vote'' else '' Votes''))]]])"

definition ProfileActivityFeedToggle :: "bool \<Rightarrow> nat \<Rightarrow> 'h \<Rightarrow> 'h view" where
  "ProfileActivityFeedToggle isExpanded numEvents toggleCallback =
     El [''expandCollapseCopy''] (Some toggleCallback)
       (if isExpanded then [Tx ''Show fewer'', El [''faChevronUp''] None []]
        else [Tx (''Show all '' @ show_nat numEvents @ '' events ''), El [''faChevronDown''] None []])"

text \<open>A card or a tooltip: the library shows \<open>content tip\<close> while the pointer is on the children.\<close>

definition HoverCard :: "(string \<Rightarrow> 'h view list) \<Rightarrow> string \<Rightarrow> string \<Rightarrow> bool \<Rightarrow> 'h view list \<Rightarrow> 'h view list" where
  "HoverCard hoverCardContent tip uid over children =
     [El [''hover'', uid] None (if over then hoverCardContent tip else []), El [''div'', uid] None children]"

definition Tooltip :: "(string \<Rightarrow> 'h view list) \<Rightarrow> string \<Rightarrow> string \<Rightarrow> bool \<Rightarrow> 'h view list \<Rightarrow> 'h view list" where
  "Tooltip tooltipContent tip uid over children =
     [El [''hover'', uid] None (if over then tooltipContent tip else []), El [''div'', uid] None children]"

text \<open>The picture of an account: nothing without a provider; once the drawing of the avatar has thrown, the
  plain picture is kept.\<close>

datatype identicon = NoPicture | Davatar string nat | Jazzicon string nat

definition identicon_step :: "bool \<Rightarrow> bool \<Rightarrow> bool" where
  "identicon_step davatar_throws fallback = (fallback \<or> davatar_throws)"

definition Identicon :: "bool \<Rightarrow> bool \<Rightarrow> string \<Rightarrow> nat option \<Rightarrow> identicon" where
  "Identicon provider fallback address size' =
     (let n = (case size' of None \<Rightarrow> 24 | Some k \<Rightarrow> k)
      in if \<not> provider then NoPicture else if fallback then Jazzicon address n else Davatar address n)"

lemma identicon_keeps_fallback:
  "True \<in> set errors \<Longrightarrow> Identicon True (fold identicon_step errors f) a n = Jazzicon a (case n of None \<Rightarrow> 24 | Some k \<Rightarrow> k)"
proof -
  have "fold identicon_step es f \<longleftrightarrow> f \<or> True \<in> set es" for es
    by (induction es arbitrary: f) (auto simp: identicon_step_def)
  then show "True \<in> set errors \<Longrightarrow> ?thesis" by (simp add: Identicon_def Let_def split: option.split)
qed

end
