(* ===== verification/Web_Texts.thy ===== *)
theory Web_Texts
  imports Web_Views
begin

text \<open>
  The pages and parts that are mostly text: \<open>components/Documentation\<close>, \<open>pages/Alpers\<close>, \<open>components/Footer\<close> and
  \<open>NetworkAlert\<close>, word for word, with their links; and which section of the documentation is open.
\<close>

section \<open>The documentation\<close>

datatype doc_click = OpenSection string | FollowUrl string bool  \<comment> \<open>does it open a new window?\<close>

definition Link :: "string \<Rightarrow> string \<Rightarrow> bool \<Rightarrow> doc_click view" where
  "Link txt url leavesPage = El [''link''] (Some (FollowUrl url leavesPage)) [Tx txt]"

definition PlaygroundLink :: "doc_click view" where
  "PlaygroundLink = Link ''Playground'' ''/playground'' False"

definition PublicDomainLink :: "doc_click view" where
  "PublicDomainLink = Link ''public domain'' ''https://creativecommons.org/publicdomain/zero/1.0/'' True"

definition CompoundGovLink :: "doc_click view" where
  "CompoundGovLink = Link ''Compound Governance'' ''https://compound.finance/governance'' True"

definition NounsDAOLink :: "doc_click view" where
  "NounsDAOLink = Link ''Nouns DAO'' ''https://nouns.wtf/'' True"

definition GnarsLink :: "doc_click view" where
  "GnarsLink = Link ''Gnars'' ''https://nouns.build/dao/base/0x880fb3cf5c6cc2d7dfc13a993e839a9411200c17/?tab=about'' True"

record doc_section =
  ds_eventKey :: string
  ds_heading :: "doc_click view list"
  ds_body :: "doc_click view list"

definition documentation_intro :: "doc_click view list" where
  "documentation_intro =
     [El [''h1''] None [Tx ''WTF?''],
      El [''aboutText''] None [Tx (''We take '' @ [CHR 0xE2, CHR 0x8C, CHR 0x90] @ [CHR 0xE2, CHR 0x97, CHR 0xA8] @ ''-'' @ [CHR 0xE2, CHR 0x97, CHR 0xA8] @ ('' deep into the pristine pow of the world. Alps is a club where membership fees go into a '' @
             ''treasury governed by the membership tokens. If you love mountain culture, skiing, '' @
             ''snowboarding, or snow in general, join us by bidding above.''))],
      El [''aboutText''] None [Tx ''Alps is an extension of '', NounsDAOLink, Tx '' and '', GnarsLink, Tx ('', focused on establishing long-term relationships with alpine resorts to proliferate Alps, '' @
             ''provide unique membership perks to members, and support proposals that enhance on-mountain '' @
             ''environments and experiences.'')],
      El [''aboutText''] None [Tx ''Learn more about Alps below or create your own Alps off-chain using our '', PlaygroundLink, Tx ''.'']]"

definition documentation_sections :: "doc_section list" where
  "documentation_sections =
     [\<lparr>ds_eventKey = ''0'', ds_heading = [Tx ''Summary''], ds_body =
         [El [''ul''] None
          [El [''li''] None [Tx ''Alps token artwork is in the '', PublicDomainLink, Tx ''.''],
           El [''li''] None [Tx ''One Alp is trustlessly auctioned every 3 hours, forever.''],
           El [''li''] None [Tx ''100% of Alp auction proceeds are trustlessly sent to the treasury.''],
           El [''li''] None [Tx ''Settlement of one auction kicks off the next.''],
           El [''li''] None [Tx ''All Alp tokens are members of Alps DAO.''],
           El [''li''] None [Tx ''Alps uses a fork of '', CompoundGovLink, Tx ''.''],
           El [''li''] None [Tx ''One Alp is equal to one vote.''],
           El [''li''] None [Tx ''The treasury is controlled exclusively by Alps via governance.''],
           El [''li''] None [Tx ''Artwork is generative and stored directly onchain (not IPFS).''],
           El [''li''] None [Tx (''No explicit rules exist for attribute scarcity; all Alps are equally rare but trait occurrence '' @
             ''can vary, creating dynamics around rarity.'')],
           El [''li''] None [Tx ''Founders receive rewards in the form of Alps (10% of supply for first 5 years).''],
           El [''li''] None [Tx ''The Alpine Council receives rewards in the form of Alps (10% of supply for first 5 years).''],
           El [''li''] None [Tx (''Alps that receive no bids are sent to the Warming Hut (warminghut.eth), a wallet for rescue '' @
             ''opportunities and burn events.'')]]]\<rparr>,
      \<lparr>ds_eventKey = ''1'', ds_heading = [Tx ''Auctions''], ds_body =
         [El [''p''] None [Tx (''The Alps Auction Contract will act as a self-sufficient Alp generation and distribution '' @
             ''mechanism, auctioning one Alp every 3 hours, forever. 100% of auction proceeds (ETH) are '' @
             ''automatically deposited in the Alps DAO treasury.'')],
          El [''p''] None [Tx ''Each auction settlement triggers a new Alp mint and begins a new 3-hour auction.''],
          El [''p''] None [Tx (''While the winning bidder is incentivised to settle the auction, anyone can trigger settlement, '' @
             ''ensuring continuous auctions as long as Ethereum is operational.'')]]\<rparr>,
      \<lparr>ds_eventKey = ''2'', ds_heading = [Tx ''Alps DAO''], ds_body =
         [El [''span''] None [Tx ''Alps utilises '', NounsDAOLink, Tx (CHR 0x27 # ''s fork of ''), CompoundGovLink, Tx ('' and governs the Alps ecosystem. Each Alp represents one vote in governance matters, with '' @
             ''votes delegatable but non-transferable.'')]]\<rparr>,
      \<lparr>ds_eventKey = ''3'', ds_heading = [Tx (''Governance '' @ [CHR 0xE2, CHR 0x80, CHR 0x98] @ ''Slow Start'' @ [CHR 0xE2, CHR 0x80, CHR 0x99])], ds_body =
         [El [''p''] None [Tx (''Founders hold a temporary veto right to block malicious proposals during initial distribution. '' @
             ''This right will be revoked once the community is sufficiently engaged.'')]]\<rparr>,
      \<lparr>ds_eventKey = ''4'', ds_heading = [Tx ''Alp Traits''], ds_body =
         [El [''p''] None [Tx ''Alps are generated pseudo-randomly, with no rules governing trait scarcity. Current traits include:''],
          El [''ul''] None
          [El [''li''] None [Tx ''Backgrounds (7)''],
           El [''li''] None [Tx ''Bodies (32)''],
           El [''li''] None [Tx ''Accessories (182)''],
           El [''li''] None [Tx ''Heads (248)''],
           El [''li''] None [Tx ''Glasses (200)'']],
          El [''span''] None [Tx ''Experiment with Alp generation using the '', PlaygroundLink, Tx ''.'']]\<rparr>]"

text \<open>The accordion keeps the key of the open section; a click on a header opens its section or, when it is
  the open one, closes it.\<close>

definition accordion_step :: "string \<Rightarrow> string option \<Rightarrow> string option" where
  "accordion_step key active = (if active = Some key then None else Some key)"

definition accordion_item :: "string option \<Rightarrow> doc_section \<Rightarrow> doc_click view" where
  "accordion_item active d =
     El [''accordionItem''] None
       ([El [''accordionHeader''] (Some (OpenSection (ds_eventKey d))) (ds_heading d)]
        @ (if active = Some (ds_eventKey d) then [El [''Accordion.Body''] None (ds_body d)] else []))"

definition Documentation :: "string option \<Rightarrow> doc_click view" where
  "Documentation active =
     El [''Section''] None
       [El [''headerWrapper''] None documentation_intro,
        El [''Accordion''] None (map (accordion_item active) documentation_sections)]"

lemma documentation_keys: "map ds_eventKey documentation_sections = [''0'', ''1'', ''2'', ''3'', ''4'']"
  by (simp add: documentation_sections_def)

text \<open>One section is open at a time: a click on a header leaves exactly its own section open, or none.\<close>

lemma one_section_open:
  assumes "d \<in> set documentation_sections"
  shows "filter (\<lambda>x. accordion_step (ds_eventKey d) active = Some (ds_eventKey x)) documentation_sections =
     (if active = Some (ds_eventKey d) then [] else [d])"
proof -
  have "distinct (map ds_eventKey documentation_sections)" unfolding documentation_keys by simp
  then have "filter (\<lambda>x. ds_eventKey d = ds_eventKey x) xs = [d]"
    if "d \<in> set xs" "distinct (map ds_eventKey xs)" for xs
    using that
  proof (induction xs)
    case (Cons x xs)
    then show ?case by (auto simp: filter_empty_conv image_iff)
  qed simp
  with assms \<open>distinct _\<close> show ?thesis by (simp add: accordion_step_def)
qed

section \<open>The founders\<close>

record bio =
  bi_name :: string
  bi_image :: string
  bi_description :: "string option"
  bi_handle :: "string option"

definition bios :: "bio list" where
  "bios = map (\<lambda>(name, image, handle). \<lparr>bi_name = name, bi_image = image, bi_description = None, bi_handle = Some handle\<rparr>)
     [(''4156'', ''4156.png'', ''punk4156''), (''cryptoseneca'', ''cryptoseneca.png'', ''cryptoseneca''),
      (''Kai@eboy'', ''kai.png'', ''eBoyArts''), (''dom'', ''dom.png'', ''dhof''), (''vapeape'', ''vapeape.png'', ''punk4464''),
      (''gremplin'', ''gremplin.png'', ''gremplin''), (''solimander'', ''solimander.png'', ''_solimander_''),
      (''devcarrot'', ''devcarrot.png'', ''carrot_init''), (''timpers'', ''timpers.png'', ''TimpersHD''),
      (''9999'', ''9999.png'', ''lastpunk9999'')]"

definition given :: "string option \<Rightarrow> bool" where
  "given s \<longleftrightarrow> s \<noteq> None \<and> s \<noteq> Some []"

definition BioCard :: "bio \<Rightarrow> doc_click view list" where
  "BioCard b =
     [El [''Card.Img'', bi_image b] None [],
      El [''Card.Title''] None
        (if given (bi_handle b)
         then [El [''a''] (Some (FollowUrl (''https://twitter.com/'' @ the (bi_handle b)) True))
                 [El [''twitterIcon''] None [], Tx (bi_name b)]]
         else [Tx (bi_name b)])]
     @ (if given (bi_description b) then [El [''Card.Text''] None [Tx (the (bi_description b))]] else [])"

definition BioCards :: "nat \<Rightarrow> nat \<Rightarrow> doc_click view list" where
  "BioCards min' max' = map (\<lambda>b. El [''bioGroup''] None (BioCard b)) (drop min' (take max' bios))"

definition AlpersPage :: "doc_click view" where
  "AlpersPage =
     El [''alpersPage''] None
       [El [''h2''] None [Tx ''The Alpers''],
        El [''h3''] None [Tx ''3.5 artists, 6.5 technologists''],
        El [''Row''] None (BioCards 0 5 @ BioCards 5 10),
        El [''h3''] None [Tx (''Alpers'' @ [CHR 0x27] @ '' Reward'')],
        El [''p''] None
          [Tx (''All Alp auction proceeds are sent to the Alps DAO. For this reason, we, the project'' @ [CHR 0x27] @ ''s founders ('' @
               [CHR 0xE2, CHR 0x80, CHR 0x98] @ ''Alpers'' @ [CHR 0xE2, CHR 0x80, CHR 0x99] @
               '') have chosen to compensate ourselves with Alps. Every 10th alp for the first 5 years of the project will be '' @
               ''sent to our multisig (5/10), where it will be vested and distributed to individual Alpers.'')],
        El [''p''] None
          [Tx (''The Alpers reward is intended as compensation for our pre and post-launch contributions to the project, and '' @
               ''to help us participate meaningfully in governance as the project matures. Since there are 10 Alpers, after 5 '' @
               ''years each Alper could receive up to 1% of the Alp supply.'')]]"

text \<open>The two rows of cards show everyone once, in order, and every name leads to its own account.\<close>

lemma cards_show_all:
  "concat (map texts (BioCards 0 5 @ BioCards 5 10)) = map bi_name bios" "length bios = 10"
  "concat (map handlers (BioCards 0 5 @ BioCards 5 10)) =
     map (\<lambda>b. FollowUrl (''https://twitter.com/'' @ the (bi_handle b)) True) bios"
  by (simp_all add: BioCards_def BioCard_def bios_def given_def)

section \<open>The footer and the warning about the network\<close>

datatype ExternalURL = warpcast | discord | twitter | notion | discourse | alpsCenter

fun externalURL :: "ExternalURL \<Rightarrow> string" where
  "externalURL warpcast = ''https://warpcast.com/~/channel/alps''"
| "externalURL discord = ''https://discord.gg/V2uNwrwXga''"
| "externalURL twitter = ''https://twitter.com/AlpsDAO''"
| "externalURL notion = ''https://alps.notion.site/Explore-Alps-a2a9dceeb1d54e10b9cbf3f931c2266f''"
| "externalURL discourse = ''https://discourse.alps.wtf/''"
| "externalURL alpsCenter = ''https://alps.center/''"

definition Footer :: "link_env \<Rightarrow> string \<Rightarrow> doc_click view" where
  "Footer e alpsToken =
     El [''wrapper''] None [El [''container''] None [El [''footerSignature''] None
       [Link ''Alps Center'' (externalURL alpsCenter) True,
        Link ''Discord'' (externalURL discord) True,
        Link ''Warpcast'' (externalURL warpcast) True,
        Link ''Twitter'' (externalURL twitter) True,
        Link ''Etherscan'' (buildEtherscanAddressLink e alpsToken) True]]]"

definition NetworkAlert :: "jsnum \<Rightarrow> doc_click view" where
  "NetworkAlert chain =
     El [''Modal''] None
       [El [''Modal.Header''] None [El [''Modal.Title''] None [Tx ''Wrong Network Detected'']],
        El [''Modal.Body''] None
          [El [''p''] None [Tx (''Alps DAO auctions require you to switch over '' @ networkName chain
                                 @ '' to be able to participate.'')],
           El [''b''] None [Tx ''To get started, please switch your network by following the instructions below:''],
           El [''ol''] None
             [El [''li''] None [Tx ''Open Metamask''],
              El [''li''] None [Tx ''Click the network select dropdown''],
              El [''li''] None [Tx (''Click on '' @ [CHR 0x22] @ metamaskNetworkName chain @ [CHR 0x22])]]]]"

text \<open>The footer leads to five different places, each in a window of its own; the warning cannot be clicked away.\<close>

lemma footer_handlers:
  "handlers (Footer e alpsToken) =
     map (\<lambda>u. FollowUrl u True) (map externalURL [alpsCenter, discord, warpcast, twitter] @ [buildEtherscanAddressLink e alpsToken])"
  by (simp add: Footer_def Link_def)

lemma network_alert_stays: "handlers (NetworkAlert chain) = []"
  by (simp add: NetworkAlert_def)

end
