(* ===== verification/Web_Layouts.thy ===== *)
theory Web_Layouts
  imports Web_Texts Web_Create_Page
begin

text \<open>
  The larger components as trees (see \<open>Web_Views\<close>): the list of proposals (\<open>components/Proposals\<close>), the bid
  form (\<open>Bid\<close>), the panel that changes a delegate (\<open>ChangeDelegatePannel\<close>), an auction
  (\<open>AuctionActivity\<close>, \<open>AlperAlpContent\<close>), a card of votes (\<open>VoteCard\<close>) and the playground.  What they show is computed
  by the functions of the theories on their behaviour; what is proved is that the screen offers exactly the
  steps of those theories.  A component that is a tree elsewhere is an argument.
\<close>

section \<open>The list of proposals\<close>

datatype list_click = PushPath string | OpenDelegation | DismissDelegation | FollowHref string

text \<open>\<open>fromNow\<close> and \<open>number\<close> are the formatters of \<open>dayjs\<close> and of the translations.\<close>

definition countdown_text :: "(jsnum \<Rightarrow> string) \<Rightarrow> countdown \<Rightarrow> string" where
  "countdown_text fromNow c =
     (case c of EndsAt t \<Rightarrow> ''Ends '' @ fromNow t | ExpiresAt t \<Rightarrow> ''Expires '' @ fromNow t | StartsAt t \<Rightarrow> ''Starts '' @ fromNow t)"

definition countdown_pill :: "(jsnum \<Rightarrow> string) \<Rightarrow> countdown \<Rightarrow> 'h view" where
  "countdown_pill fromNow c =
     El [''proposalStatusWrapper''] None
       [El [''proposalStatus'', ''countdownPill''] None
          [El [''countdownPillClock''] None [], El [''countdownPillText''] None [Tx (countdown_text fromNow c)]]]"

text \<open>A row with its countdown twice, for wide and for narrow screens.\<close>

definition proposal_link :: "(jsnum \<Rightarrow> string) \<Rightarrow> (jsnum \<Rightarrow> string) \<Rightarrow>
    string option \<times> string \<times> countdown option \<times> proposal_state option \<Rightarrow> list_click view" where
  "proposal_link fromNow number row =
     (case row of (pid, title, cd, status) \<Rightarrow>
        El [''proposalLink'', ''proposalLinkWithCountdown'']
          (Some (FollowHref (''/vote/'' @ (case pid of None \<Rightarrow> ''undefined'' | Some s \<Rightarrow> s))))
          ([El [''proposalInfoWrapper''] None
              ([El [''proposalTitle''] None
                  [El [''proposalId''] None
                     [Tx (number (parseInt None (case pid of None \<Rightarrow> ''0'' | Some s \<Rightarrow> if s = [] then ''0'' else s)))],
                   El [''span''] None [Tx title]]]
               @ (case cd of None \<Rightarrow> [] | Some c \<Rightarrow> [El [''desktopCountdownWrapper''] None [countdown_pill fromNow c]])
               @ [El [''proposalStatusWrapper'', ''votePillWrapper''] None [Tx (ProposalStatusCopy status)]])]
           @ (case cd of None \<Rightarrow> [] | Some c \<Rightarrow> [El [''mobileCountdownWrapper''] None [countdown_pill fromNow c]])))"

definition null_text :: "null_state \<Rightarrow> string" where
  "null_text s =
     (case s of RequiresVotes n \<Rightarrow> ''Making a proposal requires '' @ show_nat n @ '' votes''
      | NoVotes \<Rightarrow> ''You have no Votes.'' | ConnectWallet \<Rightarrow> ''Connect wallet to make a proposal.'')"

record list_inputs =
  li_account :: js_account
  li_votes :: nat
  li_threshold :: "nat option"
  li_balance :: "nat option"
  li_isMobile :: bool
  li_showDelegateModal :: bool

definition delegate_button :: "list_click view" where
  "delegate_button = El [''changeDelegateBtn''] (Some OpenDelegation) [Tx ''Delegate'']"

definition Proposals ::
  "list_click view list \<Rightarrow> (jsnum \<Rightarrow> string) \<Rightarrow> (jsnum \<Rightarrow> string) \<Rightarrow> list_inputs \<Rightarrow>
     (string option \<times> string \<times> countdown option \<times> proposal_state option) list \<Rightarrow> list_click view" where
  "Proposals delegationModal fromNow number i rows =
     (let enough = hasEnoughVotesToPropose (li_account i) (li_votes i) (li_threshold i);
          hasAlpBalance = ((case li_balance i of None \<Rightarrow> 0 | Some b \<Rightarrow> b) > 0);
          copy = Tx (null_text (nullStateCopy (li_account i) (li_votes i) (li_threshold i)))
      in El [''proposals''] None
        ((if li_showDelegateModal i then delegationModal else [])
         @ [El ([''headerWrapper''] @ (if enough then [] else [''forceFlexRow''])) None
              [El [''heading''] None [Tx ''Proposals''],
               if enough then
                 El [''alpInWalletBtnWrapper''] None
                   ([El [''submitProposalButtonWrapper''] None
                       [El [''generateBtn''] (Some (PushPath ''create-proposal'')) [Tx ''Submit Proposal'']]]
                    @ (if hasAlpBalance then [El [''delegateBtnWrapper''] None [delegate_button]] else []))
               else
                 El [''nullStateSubmitProposalBtnWrapper''] None
                   ((if li_isMobile i then [] else [El [''nullStateCopy''] None [copy]])
                    @ [El [''nullBtnWrapper''] None [El [''generateBtnDisabled''] None [Tx ''Submit Proposal'']]]
                    @ (if \<not> li_isMobile i \<and> hasAlpBalance then [El [''delegateBtnWrapper''] None [delegate_button]] else []))]]
         @ (if li_isMobile i then [El [''nullStateCopy''] None [copy]] else [])
         @ (if li_isMobile i \<and> hasAlpBalance then [El [''div''] None [delegate_button]] else [])
         @ (if rows \<noteq> [] then map (proposal_link fromNow number) rows
            else [El [''Alert''] None
                    [El [''Alert.Heading''] None [Tx ''No proposals found''],
                     El [''p''] None [Tx ''Proposals submitted by community members will appear here.'']]])))"

text \<open>The button leads to the page that writes a proposal only for those who have the votes; a row leads to its
  proposal wherever it is clicked.\<close>

lemma submit_enabled_iff:
  "PushPath ''create-proposal'' \<in> set (handlers (Proposals [] fromNow number i rows)) \<longleftrightarrow>
     hasEnoughVotesToPropose (li_account i) (li_votes i) (li_threshold i)"
proof -
  have "PushPath x \<notin> set (handlers (proposal_link fromNow number r))" for x r
    by (cases r) (auto simp: proposal_link_def countdown_pill_def split: option.splits)
  then show ?thesis by (auto simp: Proposals_def delegate_button_def Let_def)
qed

lemma row_leads_to_proposal:
  "hs \<in> set (clicks w (proposal_link fromNow number (Some k, title, cd, status))) \<Longrightarrow> hs = [FollowHref (''/vote/'' @ k)]"
  by (auto simp: proposal_link_def countdown_pill_def split: option.splits if_splits)

text \<open>On a small screen somebody who can propose is told all the same what a proposal requires.\<close>

lemma mobile_copy_always:
  "li_isMobile i \<Longrightarrow> null_text (nullStateCopy (li_account i) (li_votes i) (li_threshold i))
     \<in> set (texts (Proposals [] fromNow number i rows))"
  by (auto simp: Proposals_def Let_def)

section \<open>The bid form\<close>

datatype bid_click = HideConnect | PlaceBid | SettleByHand | TypesBid

definition bid_label_text :: "bid_label \<Rightarrow> string" where
  "bid_label_text l =
     (case l of PlaceBidLabel \<Rightarrow> ''Place bid'' | BidLabel \<Rightarrow> ''Bid'' | SettleLabel \<Rightarrow> ''Settle''
      | SettleAuctionLabel \<Rightarrow> ''Settle Auction'' | NoLabel \<Rightarrow> [])"

text \<open>\<open>settleBtn\<close>: the button that settles by hand, a component of its own; \<open>ja\<close>: the locale is Japanese.\<close>

definition Bid :: "bid_click view list \<Rightarrow> bid_click view \<Rightarrow> bool \<Rightarrow> string \<Rightarrow> bool \<Rightarrow> bid_view \<Rightarrow> bid_click view" where
  "Bid connectModal settleBtn showConnectModal minBidText ja v =
     El [] None
       ((if showConnectModal \<and> bv_account v = None then connectModal else [])
        @ [El [''InputGroup''] None
             ((if bv_ended v then []
               else [El [''customPlaceholderBidAmt''] None
                       (if bv_value v = []
                        then [Tx ([CHR 0xCE, CHR 0x9E] @ '' '' @ minBidText @ '' ''),
                              El [if ja then ''disableSmallScreens'' else []] None [Tx ''or more'']]
                        else []),
                     El [''bidInput''] (Some TypesBid) [Tx (bv_value v)]])
              @ (if \<not> bv_ended v
                 then [El [''bidBtn''] (if bid_disabled v then None else Some PlaceBid)
                         [if bv_loading v then El [''Spinner''] None [] else Tx (bid_label_text (bv_label v))]]
                 else if bv_account v \<noteq> None then [settleBtn] else []))])"

text \<open>A bid can be placed only while the auction runs, no transaction is mined and a wallet is connected; then
  nothing can be settled.\<close>

lemma bid_button_shown:
  assumes "handlers settleBtn = [SettleByHand]"
  shows "PlaceBid \<in> set (handlers (Bid [] settleBtn sc m ja v)) \<longleftrightarrow> \<not> bv_ended v \<and> \<not> bid_disabled v"
    "SettleByHand \<in> set (handlers (Bid [] settleBtn sc m ja v)) \<longleftrightarrow> bv_ended v \<and> bv_account v \<noteq> None"
  using assms by (auto simp: Bid_def)

section \<open>Changing the delegate\<close>

datatype panel_click = PanelEvent panel_event | OpenTransaction string | DismissPanel | TypesDelegate

definition votes_noun :: "nat \<Rightarrow> string" where
  "votes_noun n = ''Delegate '' @ show_nat n @ (if n = 1 then '' Vote'' else '' Votes'')"

text \<open>A \<open>NavBarButton\<close> passes its click on unless it is disabled; \<open>None\<close> is the empty fragment.\<close>

definition panel_button_view ::
  "link_env \<Rightarrow> string option \<Rightarrow> (string \<Rightarrow> bool) \<Rightarrow> nat \<Rightarrow> delegate_panel \<Rightarrow> panel_click view list" where
  "panel_button_view e txHash isAddress availableVotes p =
     (case primaryButton (dp_state p) of
        Some DelegateButton \<Rightarrow>
          [NavBarButton (votes_noun availableVotes) [] (Some (PanelEvent ClickDelegate)) (delegate_disabled isAddress availableVotes p)]
      | Some EtherscanButton \<Rightarrow>
          [NavBarButton ''View on Etherscan'' []
             (Some (OpenTransaction (buildEtherscanTxLink e (case txHash of None \<Rightarrow> [] | Some h \<Rightarrow> h)))) False]
      | Some CloseButton \<Rightarrow> [NavBarButton ''Close'' [] (Some DismissPanel) False]
      | _ \<Rightarrow> [])"

definition primaryCopy :: "nat \<Rightarrow> string option \<Rightarrow> change_delegate_state \<Rightarrow> string option" where
  "primaryCopy availableVotes errorMessage s =
     usePickByState s [ENTER_DELEGATE_ADDRESS, CHANGING, CHANGE_SUCCESS, CHANGE_FAILURE]
       [''Enter the Ethereum address or ENS name of the account you would like to delegate your votes to.'',
        ''Your '' @ show_nat availableVotes @ '' votes are being delegated to a new account.'',
        ''Your '' @ show_nat availableVotes @ '' votes have been delegated to a new account.'',
        case errorMessage of None \<Rightarrow> [] | Some m \<Rightarrow> m]"

definition input_style :: "input_class \<Rightarrow> string" where
  "input_style c = (case c of InputEmpty \<Rightarrow> ''empty'' | InputValid \<Rightarrow> ''valid'' | InputInvalid \<Rightarrow> ''invalid'')"

text \<open>\<open>candidate\<close>: the component that tells of the votes of the address.\<close>

definition ChangeDelegatePannel ::
  "link_env \<Rightarrow> string \<Rightarrow> (string \<Rightarrow> panel_click view) \<Rightarrow> string option \<Rightarrow> string option \<Rightarrow> string option \<Rightarrow> panel_env \<Rightarrow>
     delegate_panel \<Rightarrow> panel_click view" where
  "ChangeDelegatePannel e locale candidate txHash errorMessage currentDelegate E p =
     (let isAddress = pe_isAddress E; n = pe_availableVotes E
      in El [] None
        ([El [''wrapper''] None
            [El [''title'', if locale \<noteq> ''en-US'' then ''nonEnBottomMargin'' else []] None [Tx (getTitleFromState (dp_state p))],
             El [''copy''] None [Tx (case primaryCopy n errorMessage (dp_state p) of None \<Rightarrow> [] | Some t \<Rightarrow> t)]]]
         @ (if input_shown (pe_delegateTo E) p
            then [El [''delegateInput'', input_style (delegateInputClass isAddress p)] (Some TypesDelegate) [Tx (dp_text p)]] else [])
         @ (if spinner_shown isAddress (pe_delegateTo E) p
            then [El [''delegteDeepLinkSpinner''] None [El [''BrandSpinner''] None []]] else [])
         @ [El [''Collapse''] None
              (case candidate_shown isAddress currentDelegate p of
                 InfoHidden \<Rightarrow> []
               | AlreadyDelegated \<Rightarrow>
                   [El [''alreadyDelegatedCopy''] None [Tx (''You'' @ [CHR 0x27] @ ''ve already delegated to this address'')]]
               | CandidateInfo a \<Rightarrow> [candidate a]),
            El [''buttonWrapper''] None
              ([NavBarButton (if dp_state p = CHANGE_SUCCESS then ''Change'' else ''Close'') []
                  (Some (if dp_state p = CHANGE_SUCCESS then PanelEvent ClickChange else DismissPanel)) False]
               @ (if dp_state p = ENTER_DELEGATE_ADDRESS
                  then [El [''customButtonHighlighter'', if isAddress (dp_address p) then ''extened'' else []] None []] else [])
               @ panel_button_view e txHash isAddress n p)]))"

text \<open>The steps of the panel are offered exactly where they have an effect: a click that is not offered changes
  nothing, and the input is shown exactly when typing does something.\<close>

lemma primaryButton_cases:
  "primaryButton s = Some (case s of ENTER_DELEGATE_ADDRESS \<Rightarrow> DelegateButton | CHANGING \<Rightarrow> EtherscanButton
     | CHANGE_SUCCESS \<Rightarrow> CloseButton | CHANGE_FAILURE \<Rightarrow> panel_button.NoButton)"
  by (cases s) (simp_all add: primaryButton_def)

lemma panel_offers:
  fixes e :: link_env and loc :: string and tx msg cur :: "string option" and E :: panel_env and p :: delegate_panel
  assumes "\<And>a. handlers (candidate a) = []"
  defines "shown \<equiv> set (handlers (ChangeDelegatePannel e loc candidate tx msg cur E p))"
  shows "PanelEvent ClickDelegate \<in> shown \<longleftrightarrow>
      primaryButton (dp_state p) = Some DelegateButton \<and> \<not> delegate_disabled (pe_isAddress E) (pe_availableVotes E) p"
    "PanelEvent ClickChange \<in> shown \<longleftrightarrow> dp_state p = CHANGE_SUCCESS"
    "TypesDelegate \<in> shown \<longleftrightarrow> input_shown (pe_delegateTo E) p"
    "ev \<in> {ClickDelegate, ClickChange} \<Longrightarrow> PanelEvent ev \<notin> shown \<Longrightarrow> panel_step E ev p = p"
proof -
  note shown = shown_def ChangeDelegatePannel_def panel_button_view_def primaryButton_cases NavBarButton_def Let_def
  show d: "PanelEvent ClickDelegate \<in> shown \<longleftrightarrow>
      primaryButton (dp_state p) = Some DelegateButton \<and> \<not> delegate_disabled (pe_isAddress E) (pe_availableVotes E) p"
    using assms(1) unfolding shown by (cases "dp_state p") (auto split: panel_info.split if_splits)
  show c: "PanelEvent ClickChange \<in> shown \<longleftrightarrow> dp_state p = CHANGE_SUCCESS"
    using assms(1) unfolding shown by (cases "dp_state p") (auto split: panel_info.split if_splits)
  show "TypesDelegate \<in> shown \<longleftrightarrow> input_shown (pe_delegateTo E) p"
    using assms(1) unfolding shown by (cases "dp_state p") (auto split: panel_info.split if_splits)
  show "panel_step E ev p = p" if "ev \<in> {ClickDelegate, ClickChange}" "PanelEvent ev \<notin> shown"
    using that d c by (auto split: if_splits)
qed

section \<open>An auction\<close>

datatype activity_click = PrevAuction | NextAuction | ShowBids | HideBids | OpenBids string

text \<open>The arrows; a disabled button has no click.\<close>

definition AuctionNavigation :: "bool \<Rightarrow> bool \<Rightarrow> bool \<Rightarrow> activity_click view" where
  "AuctionNavigation isCool isFirstAuction isLastAuction =
     El [''navArrowsContainer''] None
       [El [if isCool then ''leftArrowCool'' else ''leftArrowWarm''] (if isFirstAuction then None else Some PrevAuction)
          [Tx [CHR 0xE2, CHR 0x86, CHR 0x90]],
        El [if isCool then ''rightArrowCool'' else ''rightArrowWarm''] (if isLastAuction then None else Some NextAuction)
          [Tx [CHR 0xE2, CHR 0x86, CHR 0x92]]]"

definition bid_box :: "(string \<times> string) option \<Rightarrow> 'h view" where
  "bid_box b =
     (case b of None \<Rightarrow> El [''throws''] None []
      | Some (heading, amount) \<Rightarrow>
          El [''wrapper'', ''container'', ''section''] None
            [El [''leftCol''] None [El [''mobileText''] None [Tx heading]], El [''currentBid''] None [Tx amount]])"

text \<open>The parts that are components of their own: the headings, the winner or holder or timer, the form, the card.\<close>

record activity_parts =
  ap_headings :: "activity_click view list"  \<comment> \<open>the date and the title\<close>
  ap_winner :: "holder_part list \<Rightarrow> activity_click view"
  ap_holder :: "int \<Rightarrow> activity_click view"
  ap_timer :: "activity_click view"
  ap_bidForm :: "activity_click view"
  ap_infoCard :: "int \<Rightarrow> activity_click \<Rightarrow> activity_click view"
  ap_history :: "nat \<Rightarrow> activity_click view"
  ap_modal :: "activity_click \<Rightarrow> activity_click view"

definition activity_tree :: "activity_parts \<Rightarrow> activity_click view list \<Rightarrow> bool \<Rightarrow> activity_view \<Rightarrow> activity_click view" where
  "activity_tree P navigation showBidHistoryModal v =
     El [] None
       ((if showBidHistoryModal then [ap_modal P HideBids] else [])
        @ [El [''AuctionActivityWrapper''] None
             ([El [''informationRow''] None
                 [El [''activityRow''] None
                    [El [''AuctionTitleAndNavWrapper''] None ((if av_navigation v then navigation else []) @ take 1 (ap_headings P)),
                     El [''Col''] None (drop 1 (ap_headings P))],
                  El [''activityRow''] None
                    [El [''currentBidCol''] None [bid_box (av_bid v)],
                     El [''auctionTimerCol''] None
                       [case av_side v of WinnerBox w \<Rightarrow> ap_winner P w | HolderBox i \<Rightarrow> ap_holder P i | TimerBox \<Rightarrow> ap_timer P]]]]
              @ (if av_form v then [El [''activityRow''] None [El [''Col''] None [ap_bidForm P]]] else [])
              @ [El [''activityRow''] None
                   [El [''Col''] None
                      ((case av_lower v of
                          InfoCard i \<Rightarrow> [ap_infoCard P i ShowBids] | HistoryBox n \<Rightarrow> [ap_history P n] | NoBox \<Rightarrow> [])
                       @ (case av_button v of
                            bids_button.NoButton \<Rightarrow> []
                          | OpensModal \<Rightarrow> [El [''BidHistoryBtn''] (Some ShowBids) [Tx ''View all bids'']]
                          | OpensEtherscan u \<Rightarrow> [El [''BidHistoryBtn''] (Some (OpenBids u)) [Tx ''View all bids'']]))]])])"

text \<open>The page of an alp without an auction: the same frame with its own texts; \<open>None\<close> is the bid that does not apply.\<close>

definition alper_text :: "alper_block \<Rightarrow> string" where
  "alper_text b =
     (case b of
        NoBlock \<Rightarrow> []
      | FoundersBlock \<Rightarrow>
          ''Because 100% of Alp auction proceeds are sent to the Alps treasury, the founders have chosen to compensate '' @
          ''themselves with Alp tokens. Every 10th Alp for the first 5 years of the project (Alp IDs #0, #10, #20, #30 and so '' @
          ''on) will be automatically sent to a multisig to be vested and shared among the founding members of the project.''
      | CouncilBlock \<Rightarrow>
          ''Every 10th Alp with ID ending in \"5\" for the first 5 years of the project (Alp IDs #5, #15, #25, #35 and so on) '' @
          ''will be automatically sent to The Alpine Council to be utilized by active Alpine Council members in voting.'')"

definition AlperAlpContent ::
  "activity_parts \<Rightarrow> link_env \<Rightarrow> string option \<Rightarrow> bool \<Rightarrow> bool \<Rightarrow> bool \<Rightarrow> int \<Rightarrow> activity_click view" where
  "AlperAlpContent P e activeAccount isCool isFirstAuction isLastAuction alpId =
     (case alper_flags alpId of (alper, council, told) \<Rightarrow>
        El [''AuctionActivityWrapper''] None
          [El [''informationRow''] None
             [El [''activityRow''] None
                [El [''AuctionTitleAndNavWrapper''] None
                   (AuctionNavigation isCool isFirstAuction isLastAuction # take 1 (ap_headings P)),
                 El [''Col''] None (drop 1 (ap_headings P))],
              El [''activityRow''] None
                [El [''currentBidCol''] None [bid_box (CurrentBid None True)],
                 El [''currentBidCol'', ''auctionTimerCol''] None
                   [El [''section''] None [ap_winner P (winner_parts e activeAccount alper council [])]]]],
           El [''activityRow''] None
             [El [''Col''] None
                (if told = NoBlock then []
                 else [El [''bidCollection''] None
                         [El [if isCool then ''bidRowCool'' else ''bidRowWarm'', ''bidRow''] None
                            [El [''mobileText''] None [El [''p''] None [Tx (alper_text told)]]]]])]])"

text \<open>Where the bids can be seen: on the page of the last auction by the button, on others by the card.\<close>

definition quiet_parts :: "activity_parts \<Rightarrow> bool" where
  "quiet_parts P \<longleftrightarrow>
     list_all (\<lambda>v. handlers v = []) (ap_headings P) \<and> (\<forall>w. handlers (ap_winner P w) = []) \<and> (\<forall>i. handlers (ap_holder P i) = [])
     \<and> handlers (ap_timer P) = [] \<and> handlers (ap_bidForm P) = [] \<and> (\<forall>i h. handlers (ap_infoCard P i h) = [h])
     \<and> (\<forall>n. handlers (ap_history P n) = []) \<and> (\<forall>h. handlers (ap_modal P h) = [h])"

lemma bid_box_quiet: "handlers (bid_box b) = []"
  by (simp add: bid_box_def split: option.split prod.split)

lemma headings_quiet:
  "quiet_parts P \<Longrightarrow> concat (map handlers (take k (ap_headings P))) = []"
  "quiet_parts P \<Longrightarrow> concat (map handlers (drop k (ap_headings P))) = []"
  by (auto simp: quiet_parts_def list_all_iff dest: in_set_takeD in_set_dropD)

lemma activity_handlers:
  assumes "quiet_parts P"
  shows "handlers (activity_tree P nav modal v) =
     (if modal then [HideBids] else []) @ (if av_navigation v then concat (map handlers nav) else [])
     @ (case av_lower v of InfoCard i \<Rightarrow> [ShowBids] | _ \<Rightarrow> [])
     @ (case av_button v of bids_button.NoButton \<Rightarrow> [] | OpensModal \<Rightarrow> [ShowBids] | OpensEtherscan u \<Rightarrow> [OpenBids u])"
proof -
  have side: "handlers (case av_side v of WinnerBox w \<Rightarrow> ap_winner P w | HolderBox i \<Rightarrow> ap_holder P i | TimerBox \<Rightarrow> ap_timer P) = []"
    using assms by (simp add: quiet_parts_def split: side_box.split)
  have form: "handlers (ap_bidForm P) = []" "handlers (ap_modal P h) = [h]" "handlers (ap_infoCard P i h) = [h]"
    "handlers (ap_history P n) = []" for h i n
    using assms by (simp_all add: quiet_parts_def)
  show ?thesis
    by (simp only: activity_tree_def handlers.simps map_append concat_append list.map concat.simps append_Nil append_Nil2
        option.case side bid_box_quiet headings_quiet [OF assms])
      (simp add: form headings_quiet [OF assms] split: lower_box.split bids_button.split)
qed

lemma bids_reachable:
  assumes "quiet_parts P"
  shows "ShowBids \<in> set (handlers (activity_tree P [AuctionNavigation cool first isLast] modal
       (AuctionActivity e acc house graph isLast ended a)))
     \<longleftrightarrow> \<not> isLast \<or> (graph \<and> wa_amount a \<noteq> 0)"
  unfolding activity_handlers [OF assms] by (auto simp: AuctionActivity_def AuctionNavigation_def)

section \<open>A card of votes\<close>

definition variant_class :: "vote_card_variant \<Rightarrow> string" where
  "variant_class v = (case v of CardFor \<Rightarrow> ''for'' | CardAgainst \<Rightarrow> ''against'' | CardAbstain \<Rightarrow> ''abstain'')"

definition variant_title :: "vote_card_variant \<Rightarrow> string" where
  "variant_title v = (case v of CardFor \<Rightarrow> ''For'' | CardAgainst \<Rightarrow> ''Against'' | CardAbstain \<Rightarrow> ''Abstain'')"

text \<open>On wide screens the noun agrees with the number, on narrow ones it does not.  \<open>tables\<close>: the two tables of alps.\<close>

definition VoteCard ::
  "(jsnum \<Rightarrow> string) \<Rightarrow> (vote_row list \<Rightarrow> 'h view) \<times> 'h view \<Rightarrow> bool \<Rightarrow> bool \<Rightarrow> web_proposal \<Rightarrow> vote_card_variant \<Rightarrow>
     vote_row list option \<Rightarrow> rat \<Rightarrow> 'h view" where
  "VoteCard number tables isEnUS delegateView p variant rows share =
     (let mine = filteredDelegateGroupedVoteData variant rows;
          n = number (card_number delegateView p variant rows);
          unit = (if isEnUS then ''unitTextEn'' else ''unitTextNonEn'')
      in El [''voteCountCard''] None
        [El [''Card.Text''] None
           [El [if isEnUS then ''voteCardHeaderTextEn'' else ''voteCardHeaderTextNonEn'', variant_class variant] None
              [Tx (variant_title variant)],
            El ([''voteCardVoteCount'', ''desktopOnly''] @ (if isEnUS then [] else [''smallerVoteCountText''])) None
              (Tx n # (if delegateView then [El [unit] None [Tx (if length mine = 1 then ''Address'' else ''Addresses'')]] else []))],
         El [''mobileVoteCountWrapper''] None
           [El [''voteCardVoteCount''] None [Tx n],
            El [''voteCardVoteCount'', unit] None (if delegateView then [Tx ''Addresses''] else [])],
         snd (VoteProgressBar variant share),
         El [''alpProfilePics''] None [if delegateView then fst tables mine else snd tables]])"

lemma card_texts:
  "texts (VoteCard number tables en delegateView p variant rows share) =
     [variant_title variant, number (card_number delegateView p variant rows)]
     @ (if delegateView then [if length (filteredDelegateGroupedVoteData variant rows) = 1 then ''Address'' else ''Addresses''] else [])
     @ [number (card_number delegateView p variant rows)] @ (if delegateView then [''Addresses''] else [])
     @ texts (if delegateView then fst tables (filteredDelegateGroupedVoteData variant rows) else snd tables)"
  by (cases variant) (simp_all add: VoteCard_def VoteProgressBar_def Let_def)

section \<open>The playground\<close>

datatype playground_click =
  ClickGenerate | PickTrait string | ChooseFile | PickType | ClickUpload | ClickAlp nat | ClickClose | FollowLink string

definition out_link :: "string \<Rightarrow> string \<Rightarrow> playground_click view" where
  "out_link txt url = El [''link''] (Some (FollowLink url)) [Tx txt]"

definition alpsProtocolLink :: "playground_click view" where
  "alpsProtocolLink = out_link ''Alps Protocol'' ''https://github.com/AlpsDAO/alps-dao-monorepo/''"

definition nounsAssetsLink :: "playground_click view" where
  "nounsAssetsLink = out_link ''nouns-assets'' ''https://github.com/nounsDAO/nouns-monorepo/tree/master/packages/nouns-assets''"

definition alpsAssetsLink :: "playground_click view" where
  "alpsAssetsLink = out_link ''alps-assets'' ''https://github.com/AlpsDAO/alps-dao-monorepo/tree/master/packages/nouns-assets''"

definition gnarsAssetsLink :: "playground_click view" where
  "gnarsAssetsLink = out_link ''gnars-assets'' ''https://gnars.wtf/''"

definition alpsSDKLink :: "playground_click view" where
  "alpsSDKLink = out_link ''alps-sdk'' ''https://github.com/AlpsDAO/alps-dao-monorepo/tree/master/packages/nouns-sdk''"

definition localized_title :: "string \<Rightarrow> string option" where
  "localized_title = map_of [(''background'', ''Background''), (''body'', ''Body''), (''accessory'', ''Accessory''),
     (''head'', ''Head''), (''glasses'', ''Glasses'')]"

text \<open>The number of years: \<open>parseInt\<close> of a fraction with two decimals, hence a whole number.\<close>

definition years_shown :: "nat \<Rightarrow> nat" where
  "years_shown n = ((200 * n + 365) div 730) div 100"

definition trait_form :: "playground \<Rightarrow> string \<times> string list \<Rightarrow> playground_click view" where
  "trait_form p t =
     El [''traitForm''] None
       [El [''floatingLabel''] None [Tx (case localized_title (fst t) of None \<Rightarrow> [] | Some s \<Rightarrow> s)],
        El [''traitFormBtn'', case selected_trait p t of None \<Rightarrow> ''-1'' | Some v \<Rightarrow> v] (Some (PickTrait (fst t)))
          (map (\<lambda>o'. El [''option''] None [Tx o']) (traitOptions (snd t)))]"

definition upload_form :: "playground \<Rightarrow> playground_click view list" where
  "upload_form p =
     [El [''label''] None [Tx ''Upload Custom Trait'', El [''Popover''] None [Tx ''Only 32x32 PNG images are accepted'']],
      El [''fileUpload'', case pl_isPendingTraitValid p of None \<Rightarrow> [] | Some True \<Rightarrow> ''isValid'' | Some False \<Rightarrow> ''isInvalid'']
        (Some ChooseFile) []]
     @ (if pl_pendingTrait p = None then []
        else [El [''floatingLabel''] None
                [Tx ''Custom Trait Type'',
                 El [''traitFormBtn''] (Some PickType)
                   (map (\<lambda>(key, title). El [''option'', key] None [Tx (pg_capitalizeFirstLetter title)])
                      [(''heads'', ''head''), (''glasses'', ''glasses''), (''bodies'', ''body''), (''accessories'', ''accessory'')])],
              El [''primaryBtn''] (Some ClickUpload) [Tx ''Upload'']])"

definition alp_tile :: "(string \<Rightarrow> string) \<Rightarrow> nat \<times> string \<Rightarrow> playground_click view" where
  "alp_tile btoa x =
     El [''div''] (Some (ClickAlp (fst x))) [El [''alpImg'', ''data:image/svg+xml;base64,'' @ btoa (snd x)] None []]"

definition Playground ::
  "(nat \<Rightarrow> string) \<Rightarrow> (string \<Rightarrow> string) \<Rightarrow> (string \<Rightarrow> playground_click view) \<Rightarrow> (string \<times> string list) list \<Rightarrow> playground \<Rightarrow>
     playground_click view" where
  "Playground number btoa alpModal traits p =
     El [] None
       ((if pl_displayAlp p then
           (case pl_indexOfAlpToDisplay p of None \<Rightarrow> []
            | Some i \<Rightarrow> if i < length (pl_alpSvgs p) then [alpModal (pl_alpSvgs p ! i)] else [])
         else [])
        @ [El [''headerRow''] None
             [El [''span''] None [Tx ''Explore''], El [''h1''] None [Tx ''Playground''],
              El [''p''] None
                [Tx ''The playground was built using the '', alpsProtocolLink,
                 Tx (''. Alp'' @ [CHR 0x27] @ ''s traits are determined by the Seed. The seed was generated using ''), alpsAssetsLink,
                 Tx '' , '', gnarsAssetsLink, Tx '', '', nounsAssetsLink, Tx '' and rendered using the '', alpsSDKLink, Tx ''.'']],
           El [''Col''] None
             ([El [''primaryBtn''] (Some ClickGenerate) [Tx ''Generate Alps''], El [''Row''] None (map (trait_form p) traits)]
              @ upload_form p
              @ [El [''alpYearsFooter''] None
                   [Tx (''You'' @ [CHR 0x27] @ ''ve generated '' @ number (years_shown (length (pl_alpSvgs p))) @ '' years worth of Alps'')]]),
           El [''Col''] None
             (map (alp_tile btoa) (enumerate 0 (pl_alpSvgs p)))])"

text \<open>An upload is offered exactly while a trait is pending, and every drawing can be opened.\<close>

lemma drawn_handlers: "concat (map handlers (map (alp_tile btoa) (enumerate k xs))) = map ClickAlp [k..<k + length xs]"
proof (induction xs arbitrary: k)
  case (Cons x xs)
  have up: "[k..<k + length (x # xs)] = k # [Suc k..<Suc k + length xs]" by (simp add: upt_conv_Cons del: upt_Suc)
  have "handlers (alp_tile btoa (k, x)) = [ClickAlp k]" by (simp add: alp_tile_def)
  then show ?case by (simp only: up enumerate_simps list.map concat.simps append_Cons append_Nil Cons)
qed simp

lemmas playground_links = alpsProtocolLink_def nounsAssetsLink_def alpsAssetsLink_def gnarsAssetsLink_def alpsSDKLink_def out_link_def

lemma playground_handlers:
  assumes "\<forall>svg. handlers (alpModal svg) = [ClickClose]"
  shows "\<exists>M L. set M \<subseteq> {ClickClose} \<and> set L \<subseteq> range FollowLink \<and> handlers (Playground number btoa alpModal traits p) =
     M @ L @ ClickGenerate # map (PickTrait \<circ> fst) traits @ concat (map handlers (upload_form p))
     @ map ClickAlp [0..<length (pl_alpSvgs p)]"
proof -
  let ?modal = "if pl_displayAlp p then (case pl_indexOfAlpToDisplay p of None \<Rightarrow> []
      | Some i \<Rightarrow> if i < length (pl_alpSvgs p) then [alpModal (pl_alpSvgs p ! i)] else []) else []"
  let ?links = "[alpsProtocolLink, alpsAssetsLink, gnarsAssetsLink, nounsAssetsLink, alpsSDKLink]"
  have form: "handlers (trait_form p t) = [(PickTrait \<circ> fst) t]" for t
    by (simp add: trait_form_def comp_def)
  have forms: "concat (map handlers (map (trait_form p) ts)) = map (PickTrait \<circ> fst) ts" for ts
    by (induction ts) (simp_all add: form)
  have "handlers (Playground number btoa alpModal traits p) =
      concat (map handlers ?modal) @ concat (map handlers ?links) @ ClickGenerate # map (PickTrait \<circ> fst) traits
      @ concat (map handlers (upload_form p)) @ map ClickAlp [0..<length (pl_alpSvgs p)]"
    unfolding Playground_def handlers.simps option.case list.map map_append concat_append concat.simps append_Nil
        append_Nil2 append_assoc append_Cons forms drawn_handlers add_0 by (rule refl)
  moreover have "set (concat (map handlers ?modal)) \<subseteq> {ClickClose}"
    using assms by (cases "pl_displayAlp p"; cases "pl_indexOfAlpToDisplay p") simp_all
  moreover have "set (concat (map handlers ?links)) \<subseteq> range FollowLink" by (simp add: playground_links)
  ultimately show ?thesis by blast
qed

lemma playground_offers:
  assumes "\<forall>svg. handlers (alpModal svg) = [ClickClose]"
  shows "ClickUpload \<in> set (handlers (Playground number btoa alpModal traits p)) \<longleftrightarrow> pl_pendingTrait p \<noteq> None"
    "ClickAlp i \<in> set (handlers (Playground number btoa alpModal traits p)) \<longleftrightarrow> i < length (pl_alpSvgs p)"
proof -
  obtain M L where ml: "set M \<subseteq> {ClickClose}" "set L \<subseteq> range FollowLink" and h: "handlers (Playground number btoa alpModal traits p) =
     M @ L @ ClickGenerate # map (PickTrait \<circ> fst) traits @ concat (map handlers (upload_form p))
     @ map ClickAlp [0..<length (pl_alpSvgs p)]"
    using playground_handlers [OF assms, of number btoa traits p] by (elim exE conjE)
  have up: "ClickUpload \<in> set (concat (map handlers (upload_form p))) \<longleftrightarrow> pl_pendingTrait p \<noteq> None"
    "ClickAlp i \<notin> set (concat (map handlers (upload_form p)))"
    by (auto simp: upload_form_def)
  have none: "ClickUpload \<notin> set M" "ClickUpload \<notin> set L" "ClickAlp i \<notin> set M" "ClickAlp i \<notin> set L"
    using ml by auto
  show "ClickUpload \<in> set (handlers (Playground number btoa alpModal traits p)) \<longleftrightarrow> pl_pendingTrait p \<noteq> None"
    "ClickAlp i \<in> set (handlers (Playground number btoa alpModal traits p)) \<longleftrightarrow> i < length (pl_alpSvgs p)"
    using none up by (simp_all add: h image_iff)
qed

lemma first_year: "years_shown n = 0 \<longleftrightarrow> n < 364"
  by (simp add: years_shown_def div_eq_0_iff) linarith

end
