(* ===== verification/Web_App.thy ===== *)
theory Web_App
  imports Web_Layouts
begin

text \<open>
  The application around its pages: \<open>App.tsx\<close> with its alerts and routes, the page \<open>Governance\<close>, the dialogues
  \<open>DelegationModal\<close> and \<open>ProposalTransactionFormModal\<close>, the candidate of a delegation, the pager of votes and
  the chart of \<open>DynamicQuorumInfoModal\<close>, as the trees of \<open>Web_Views\<close>.
\<close>

section \<open>The application\<close>

datatype 'h app_click = DismissAlert | Inside 'h

fun view_map :: "('a \<Rightarrow> 'b) \<Rightarrow> 'a view \<Rightarrow> 'b view" where
  "view_map f (Tx s) = Tx s"
| "view_map f (El c h vs) = El c (map_option f h) (map (view_map f) vs)"

lemma handlers_view_map [simp]: "handlers (view_map f v) = map f (handlers v)"
proof (induction v)
  case (El c h vs)
  then have "concat (map (handlers \<circ> view_map f) vs) = map f (concat (map handlers vs))"
    by (induction vs) simp_all
  then show ?case by (cases h) simp_all
qed simp

lemma texts_view_map [simp]: "texts (view_map f v) = texts v"
proof (induction v)
  case (El c h vs)
  then have "concat (map (texts \<circ> view_map f) vs) = concat (map texts vs)" by (induction vs) simp_all
  then show ?case by simp
qed simp

text \<open>\<open>bar\<close>, \<open>page\<close> and \<open>footer\<close> are the navigation bar, what a route shows, and the footer.\<close>

definition alert_dialogue :: "alert_modal \<Rightarrow> 'h app_click view list" where
  "alert_dialogue m =
     (if am_show m
      then Modal (case am_title m of None \<Rightarrow> [] | Some t \<Rightarrow> t)
             [El [''p''] None [Tx (case am_message m of None \<Rightarrow> [] | Some t \<Rightarrow> t)]] DismissAlert
      else [])"

definition avatar_provider :: "wallet \<Rightarrow> 'p \<Rightarrow> 'p option" where
  "avatar_provider w publicProvider = (if w_chainId w = 1 then Some publicProvider else None)"

definition App :: "nat \<Rightarrow> wallet \<Rightarrow> (string \<Rightarrow> jsnum) \<Rightarrow> string \<Rightarrow> application_state \<Rightarrow>
    doc_click view \<Rightarrow> (web_page \<Rightarrow> doc_click view) \<Rightarrow> doc_click view \<Rightarrow> doc_click app_click view" where
  "App CHAIN w num pathname s bar page footer =
     El [''wrapper''] None
       ((if network_alert CHAIN w then [view_map Inside (NetworkAlert (Some (int CHAIN)))] else [])
        @ alert_dialogue (alertModal s)
        @ map (view_map Inside) [bar, page (app_route num pathname), footer])"

text \<open>What the click on an alert does to the slice, and what connecting a wallet does to the account.\<close>

definition dismiss_alert :: "application_state \<Rightarrow> application_state" where
  "dismiss_alert s = setAlertModal ((alertModal s)\<lparr>am_show := False\<rparr>) s"

text \<open>An alert can be clicked away exactly while it is shown, by its backdrop or its button, and is gone then.\<close>

lemma alert_dismissed:
  "DismissAlert \<in> set (handlers (App CHAIN w num pathname s bar page footer)) \<longleftrightarrow> am_show (alertModal s)"
  "length (filter (\<lambda>h. h = DismissAlert) (handlers (App CHAIN w num pathname s bar page footer)))
     = (if am_show (alertModal s) then 2 else 0)"
  "DismissAlert \<notin> set (handlers (App CHAIN w num pathname (dismiss_alert s) bar page footer))"
  by (auto simp: App_def alert_dialogue_def Modal_def dismiss_alert_def setAlertModal_def filter_map comp_def network_alert_stays)

section \<open>Governance\<close>

text \<open>\<open>eth\<close> and \<open>usd\<close> print a balance in wei, the first with three decimals, the second as an amount of dollars.\<close>

definition Governance_page ::
  "(int \<Rightarrow> string) \<Rightarrow> (int \<Rightarrow> string) \<Rightarrow> nat option \<Rightarrow> int option \<Rightarrow> int option \<Rightarrow> 'h view \<Rightarrow> 'h view" where
  "Governance_page eth usd threshold treasuryBalance treasuryBalanceUSD proposals =
     El [''section''] None [El [''wrapper''] None
       [El [''headerRow''] None [El [''span''] None [Tx ''Governance''], El [''h1''] None [Tx ''Alps DAO'']],
        El [''subheading''] None
          [Tx ''Alps govern '', El [''boldText''] None [Tx ''Alps DAO''],
           Tx ''. Alps can vote on proposals or delegate their vote to a third party. A minimum of '',
           El [''boldText''] None [Tx (case governance_minimum threshold of (n, noun) \<Rightarrow> n @ '' '' @ noun)],
           Tx '' is required to submit proposals.''],
        El [''treasuryInfoCard''] None
          [El [''treasuryAmtWrapper''] None
             [El [''headerRow''] None [El [''span''] None [Tx ''Treasury'']],
              El [''Row''] None
                [El [''ethTreasuryAmt''] None
                   [El [''ethSymbol''] None [Tx [CHR 0xCE, CHR 0x9E]],
                    El [''h1''] None (case treasuryBalance of None \<Rightarrow> [] | Some b \<Rightarrow> [Tx (eth b)])],
                 El [''usdTreasuryAmt''] None
                   [El [''usdBalance''] None (case treasuryBalanceUSD of None \<Rightarrow> [] | Some b \<Rightarrow> [Tx (usd b)])]]],
           El [''treasuryInfoText''] None
             [Tx ''This treasury exists for '', El [''boldText''] None [Tx ''Alps DAO''],
              Tx '' participants to allocate resources for the long-term growth and prosperity of the Alps DAO project.'']],
        proposals]]"

section \<open>The dialogue of a delegation\<close>

datatype 'h delegation_click = DismissDelegationModal | StartChanging | InPanel 'h

definition DelegationModal ::
  "('h \<Rightarrow> 'h delegation_click) \<Rightarrow> delegation_panel \<Rightarrow> 'h view \<Rightarrow> 'h delegation_click view \<Rightarrow> 'h delegation_click view list" where
  "DelegationModal lift p change current =
     [El [''backdrop''] (Some DismissDelegationModal) [],
      El [''closeBtnWrapper''] None [El [''closeBtn''] (Some DismissDelegationModal) [El [''icon''] None []]],
      El [''modal''] None [case p of ChangePanel \<Rightarrow> view_map lift change | CurrentPanel \<Rightarrow> current]]"

definition current_panel :: "string \<times> string \<Rightarrow> 'h delegation_click view" where
  "current_panel acc =
     (case acc of (account, shortAccount) \<Rightarrow>
        El [''wrapper''] None
          [El [''div''] None
             [El [''header''] None
                [El [''title''] None [Tx ''Delegation''],
                 El [''copy''] None
                   [Tx ''Alp votes are not transferable, but are '', El [''emph''] None [Tx ''delegatable''],
                    Tx '', which means you can assign your vote to someone else as long as you own your Alp.'']],
              El [''contentWrapper''] None
                [El [''current''] None [Tx ''Current Delegate''],
                 El [''delegateInfoWrapper''] None
                   [El [''ens''] None [El [''ShortAddress'', account] None []], El [''shortAddress''] None [Tx shortAccount]]]],
           El [''buttonWrapper''] None
             [NavBarButton ''Close'' [] (Some DismissDelegationModal) False,
              NavBarButton ''Update Delegate'' [] (Some StartChanging) False]])"

definition delegation_click :: "'h delegation_click \<Rightarrow> delegation_panel \<Rightarrow> delegation_panel option" where
  "delegation_click c p =
     (case c of DismissDelegationModal \<Rightarrow> None | StartChanging \<Rightarrow> Some (delegation_primary p) | InPanel h \<Rightarrow> Some p)"

text \<open>The dialogue can be left from both panels, and changing the delegate is offered in the first alone.\<close>

lemma delegation_modal_offers:
  fixes change :: "'h view"
  defines "shown p acc \<equiv> concat (map handlers (DelegationModal InPanel p change (current_panel acc)))"
  shows "DismissDelegationModal \<in> set (shown p acc)" "StartChanging \<in> set (shown p acc) \<longleftrightarrow> p = CurrentPanel"
    "delegation_click StartChanging CurrentPanel = Some ChangePanel"
  by (cases p; auto simp: shown_def DelegationModal_def current_panel_def NavBarButton_def delegation_click_def
      delegation_primary_def split: prod.splits)+

section \<open>The candidate\<close>

definition candidate_count :: "candidate_info \<Rightarrow> 'h view" where
  "candidate_count c =
     (case c of
        AlreadyHas n \<Rightarrow> DelegationCandidateVoteCountInfo (Tx ''Already has'') (int n) False
      | Has n \<Rightarrow> DelegationCandidateVoteCountInfo (Tx ''Has'') (int n) False
      | WillHave n \<Rightarrow> DelegationCandidateVoteCountInfo (Tx ''Will have'') (int n) True
      | NowHas n \<Rightarrow> DelegationCandidateVoteCountInfo (Tx ''Now has'') (int n) False)"

definition DelegationCandidateInfo :: "string \<Rightarrow> nat option option \<Rightarrow> change_delegate_state \<Rightarrow> nat \<Rightarrow> 'h view" where
  "DelegationCandidateInfo address votes s willHave =
     (if votes = Some None then El [''spinner''] None [El [''BrandSpinner''] None []]
      else El [''wrapper''] None
        ([El [''delegateCandidateInfoWrapper''] None
            [El [''avatarWrapper''] None [El [''Avatar'', address] None []],
             El [''div''] None
               [El [''ensText''] None [El [''ShortAddress'', address] None []],
                El [''shortAddress''] None [Tx (useShortAddress address)]]]]
         @ (case changeDelegateInfo s (case votes of Some (Some v) \<Rightarrow> v | _ \<Rightarrow> 0) willHave of
              None \<Rightarrow> [] | Some c \<Rightarrow> [candidate_count c])))"

text \<open>The outer \<open>None\<close> is \<open>undefined\<close>, the inner one \<open>null\<close>: the hook has only the first, and the spinner is never
  shown.\<close>

lemma candidate_never_spins:
  "DelegationCandidateInfo address (map_option Some (useAccountVotes contract account getCurrentVotes old)) s willHave
     \<noteq> El [''spinner''] None [El [''BrandSpinner''] None []]"
  by (cases "useAccountVotes contract account getCurrentVotes old") (simp_all add: DelegationCandidateInfo_def)

section \<open>The pager\<close>

definition VoteCardPager :: "bool \<Rightarrow> bool \<Rightarrow> nat \<Rightarrow> nat \<Rightarrow> pager_click view list" where
  "VoteCardPager isLeftDisabled isRightDisabled pages currentPage =
     (let isOnePage = (pages = 1)
      in [El ([''pageDots''] @ (if isOnePage then [''disabled''] else [])) None
            (map (\<lambda>n. El (if n = currentPage then [] else [''disabledPageDot'']) None [Tx [CHR 0xE2, CHR 0x80, CHR 0xA2]]) [0..<pages]),
          El ([''paginationArrowsWrapper''] @ (if isOnePage then [''disabled''] else [])) None
            [El [''paginationArrowBtnWrapper''] (if isLeftDisabled \<or> isOnePage then None else Some LeftArrow) [El [''paginationArrow''] None []],
             El [''paginationArrowBtnWrapper''] (if isRightDisabled \<or> isOnePage then None else Some RightArrow) [El [''paginationArrow''] None []]]])"

text \<open>A button that is disabled has no handler: on the first page and the last the arrows that are offered are
  exactly those that move, and one dot, that of the page, is not dimmed.\<close>

lemma pager_arrows:
  assumes "page < numPages per len" "0 < per"
  shows "a \<in> set (concat (map handlers (VoteCardPager (page = 0) (isRightArrowDisabled per len page) (numPages per len) page)))
      \<longleftrightarrow> pager_step per len page a \<noteq> page"
proof -
  have "concat (map (\<lambda>n. handlers (El (if n = page then [] else [''disabledPageDot'']) None
      [Tx [CHR 0xE2, CHR 0x80, CHR 0xA2]])) xs) = []" for xs :: "nat list"
    by (induction xs) simp_all
  then show ?thesis
    by (cases a) (auto simp: VoteCardPager_def Let_def comp_def)
qed

section \<open>The chart of the dynamic quorum\<close>

text \<open>What the picture draws, in its own coordinates; a line that ends at a hundred percent crosses all of it.  \<open>num\<close>
  prints a number.\<close>

datatype chart_part =
    ChartLine js_number js_number js_number js_number
  | FullLine nat
  | Polygon "(nat \<times> nat) list"
  | Dot js_number js_number
  | Label js_number js_number "string list"

definition plural_alps :: "js_number \<Rightarrow> string" where
  "plural_alps n = (if n = Num 1 then ''Alp'' else ''Alps'')"

definition of_alps :: "(js_number \<Rightarrow> string) \<Rightarrow> nat \<Rightarrow> string" where
  "of_alps num bps = ''('' @ num (Num (of_nat bps / 100)) @ ''% of Alps)''"

definition min_label :: "(js_number \<Rightarrow> string) \<Rightarrow> quorum_props \<Rightarrow> chart_part" where
  "min_label num q =
     (let n = min_quorum_shown q; share = of_alps num (qp_minQuorumBps q)
      in Label (Num (min_label_x q)) (Num 280)
           [''Min Quorum: '' @ num n @ '' '' @ (if min_label_x q = 20 then plural_alps n else ''Alps'') @ '' '', share])"

definition current_label :: "(js_number \<Rightarrow> string) \<Rightarrow> quorum_props \<Rightarrow> chart_part" where
  "current_label num q =
     (let against = qp_againstVotesAbs q
      in Label (current_label_x q) (current_label_y q)
           [''Current Quorum: '' @ num (current_quorum_shown q) @ '' '',
            ''('' @ show_nat against @ '' '' @ (if against = 1 then ''Alp'' else ''Alps'') @ '' Currently Against)''])"

definition quorum_chart :: "(js_number \<Rightarrow> string) \<Rightarrow> quorum_props \<Rightarrow> chart_part list" where
  "quorum_chart num q =
     (let x = plot_x q; y = plot_y q; cross = linearToConstantCrossoverBPS q; bps = qp_againstVotesBps q
      in [FullLine 288, FullLine 32, ChartLine (Num 470) (Num 32) (Num 470) (Num 320),
          Polygon [(950, 288), (950, 32), (470, 32), (0, 288)], Polygon [(950, 320), (950, 288), (0, 288), (0, 320)]]
         @ (if shows_crossover_label q
            then [Label (Num 480) (Num 310) [num (js_scale (1 / 100) cross) @ ''% of Alps Against'']] else [])
         @ [ChartLine x (Num 320) x y, ChartLine (Num 0) y x y, Dot x y,
            Label (Num 20) (Num 24) [''Max Quorum: '' @ num (max_quorum_shown q) @ '' Alps '', of_alps num (qp_maxQuorumBps q)],
            min_label num q]
         @ (if shows_quorum_percentage q
            then [Label (Num 10) (js_shift (- 10) y)
                    [num (js_floor (js_scale (1 / 100) (js_min (Num (of_nat (qp_maxQuorumBps q))) (dqmFunction q bps)))) @ ''% of Alps'']]
            else [])
         @ [current_label num q]
         @ (case shows_against_percentage q of
              None \<Rightarrow> [] | Some (lx, share) \<Rightarrow> [Label lx (Num 310) [num share @ ''% of Alps'']])
         @ (if shows_origin_label q then [Label (Num 4) (Num 310) [''0%'']] else []))"

text \<open>The overlay: on a narrow screen the three quorums in words, otherwise the chart.\<close>

datatype quorum_overlay = Overlay "unit view list" "chart_part list"

definition DynamicQuorumInfoModalOverlay :: "(js_number \<Rightarrow> string) \<Rightarrow> nat \<Rightarrow> string \<Rightarrow> quorum_props \<Rightarrow> quorum_overlay" where
  "DynamicQuorumInfoModalOverlay num innerWidth proposal q =
     Overlay
       [El [''closeBtnWrapper''] None [El [''closeBtn''] (Some ()) [El [''icon''] None []]],
        El [''title''] None [Tx ''Dynamic Quorum''],
        El [''mainCopy''] None
          [Tx (if innerWidth < 1200
               then ''The Quorum (minimum number of For votes required to pass a proposal) is set as a function of the number of '' @
                    ''Against votes a proposal has recieved. It increases quadratically as a function of the % of Alps voting '' @
                    ''against a prop, varying between Min Quorum and Max Quorum.''
               else ''The Quorum (minimum number of For votes required to pass a proposal) is set as a function of the number of '' @
                    ''Against votes a proposal has recieved. The number of For votes required to pass Proposal '' @ proposal @
                    '' is given by the following curve:'')],
        El [''mobileQuorumWrapper''] None
          [El [''mobileQuorumInfo''] None [El [''span''] None [Tx ''Min Quorum:''], Tx ('' '' @ num (min_quorum_shown q) @ '' Alps'')],
           El [''mobileQuorumInfo''] None [El [''span''] None [Tx ''Current Quorum:''], Tx ('' '' @ num (current_quorum_shown q) @ '' Alps'')],
           El [''mobileQuorumInfo''] None [El [''span''] None [Tx ''Max Quorum:''], Tx ('' '' @ num (max_quorum_shown q) @ '' Alps'')]],
        El [''yAxisText''] None [Tx ''Required % of Alps to Pass''],
        El [''xAxisText''] None [Tx ''% of Alps Currently Against''],
        El [''moreDetailsCopy''] None
          [Tx ''More details on how dynamic quorum works can be found '', El [''underline''] None [Tx ''here''], Tx ''.'']]
       (quorum_chart num q)"

text \<open>The word that leads to more details has no link.  Both forms name the same current quorum, and the marked point
  lies where the two indicators meet.\<close>

lemma overlay_agrees:
  assumes "DynamicQuorumInfoModalOverlay num innerWidth proposal q = Overlay vs chart"
  shows "concat (map handlers vs) = [()]"
    "'' '' @ num (current_quorum_shown q) @ '' Alps'' \<in> set (concat (map texts vs))"
    "current_label num q \<in> set chart"
    "Dot (plot_x q) (plot_y q) \<in> set chart" "ChartLine (Num 0) (plot_y q) (plot_x q) (plot_y q) \<in> set chart"
    "ChartLine (plot_x q) (Num 320) (plot_x q) (plot_y q) \<in> set chart"
  using assms by (auto simp: DynamicQuorumInfoModalOverlay_def quorum_chart_def Let_def)

section \<open>The form of a transaction\<close>

text \<open>\<open>label abi func i\<close>: name and type of an input of a function of the interface.\<close>

datatype form_control =
    TypesAddress | TypesValue | Chooses | PicksFile | TypesArgument nat | ClicksBack | ClicksNext | ClosesForm | FollowsLink string

definition form_inputs :: "tx_form \<Rightarrow> nat" where
  "form_inputs f =
     (case tf_abi f of None \<Rightarrow> 0 | Some as \<Rightarrow> (case map_of as (tf_func f) of None \<Rightarrow> 0 | Some n \<Rightarrow> n))"

definition argument_shown :: "tx_form \<Rightarrow> nat \<Rightarrow> string" where
  "argument_shown f i =
     (if i < length (tf_args f) then case tf_args f ! i of None \<Rightarrow> [] | Some a \<Rightarrow> a else [])"

definition function_options :: "tx_form \<Rightarrow> string list" where
  "function_options f = placeholder # (case tf_abi f of None \<Rightarrow> [] | Some as \<Rightarrow> map fst as)"

definition form_summary :: "link_env \<Rightarrow> (string \<Rightarrow> nat \<Rightarrow> string \<times> string) \<Rightarrow> tx_form \<Rightarrow> form_control view list" where
  "form_summary e label f =
     [El [''Row''] None [El [''b''] None [Tx ''Address''],
        El [''a''] (Some (FollowsLink (buildEtherscanAddressLink e (tf_address f)))) [Tx (tf_address f)]],
      El [''Row''] None [El [''b''] None [Tx ''Value''],
        Tx (if tf_value f = [] then ''None'' else tf_value f @ '' ETH'')],
      El [''Row''] None [El [''b''] None [Tx ''Function''], Tx (if tf_func f = [] then ''None'' else tf_func f)],
      El [''Row''] None [El [''b''] None [Tx ''Arguments''], El [''hr''] None [],
        Tx (if form_inputs f \<noteq> 0 then [] else ''None'')]]
     @ map (\<lambda>i. El [''Row''] None [El [''functionName''] None [Tx (show_nat (i + 1) @ ''. '' @ fst (label (tf_func f) i))],
                                  El [''text-break''] None [Tx (argument_shown f i)]]) [0..<form_inputs f]"

definition form_body :: "link_env \<Rightarrow> (string \<Rightarrow> nat \<Rightarrow> string \<times> string) \<Rightarrow> tx_form \<Rightarrow> form_control view list" where
  "form_body e label f =
     (if tf_step f = 0 then
        [El [''label''] None [Tx ''Address (Callee or Recipient)''], El [''callee-address''] (Some TypesAddress) [Tx (tf_address f)]]
      else if tf_step f = 1 then
        [El [''label''] None [Tx ''Value in ETH (Optional)''], El [''eth-value''] (Some TypesValue) [Tx (tf_value f)]]
      else if tf_step f = 2 then
        [El [''label''] None [Tx ''Function (Optional)''],
         El [''function''] (Some Chooses) (map (\<lambda>s. El [''option''] None [Tx s]) (function_options f)),
         El [''label''] None
           [Tx (if tf_abiFile f = Some ''etherscan-abi-download.json'' then ''etherscan-abi-download.json'' else ''ABI'')],
         El ([''import-abi''] @ (if tf_abiValid f = Some True then [''isValid''] else [])
              @ (if tf_abiValid f = Some False then [''isInvalid''] else [])) (Some PicksFile) []]
      else if tf_step f = 3 then
        (if form_inputs f \<noteq> 0
         then [El [''FormGroup''] None (concat (map (\<lambda>i.
                [El [''FormLabel''] None [Tx (fst (label (tf_func f) i))],
                 El [''InputGroup''] None
                   [El [''inputGroupText''] None [Tx (snd (label (tf_func f) i))],
                    El [''FormControl''] (Some (TypesArgument i)) [Tx (argument_shown f i)]]]) [0..<form_inputs f]))]
         else [Tx ''No arguments required ''])
      else if tf_step f = 4 then form_summary e label f
      else [])"

definition ProposalTransactionFormModal ::
  "link_env \<Rightarrow> (string \<Rightarrow> nat \<Rightarrow> string \<times> string) \<Rightarrow> bool \<Rightarrow> tx_form \<Rightarrow> form_control view list" where
  "ProposalTransactionFormModal e label visible f =
     (if \<not> visible then []
      else [El [''transactionFormModal''] None
        [El [''Modal.Header''] None
           [El [''Modal.Title''] None [Tx ''Add a Proposal Transaction''], El [''closeButton''] (Some ClosesForm) []],
         El [''Modal.Body''] None
           ([El [''stepProgressBar''] None (map Tx [''Address'', ''Value'', ''Function'', ''Arguments'', ''Summary''])]
            @ form_body e label f
            @ [El [''Button''] (if tf_step f = 0 then None else Some ClicksBack) [Tx ''Back''],
               El [''Button''] (Some ClicksNext) [Tx (if tf_step f \<noteq> 4 then ''Next'' else ''Add Transaction'')]])]])"

text \<open>The control an event comes from; an interface from the explorer comes from none.\<close>

fun control_of :: "form_event \<Rightarrow> form_control option" where
  "control_of (EditAddress s) = Some TypesAddress"
| "control_of (EditValue s) = Some TypesValue"
| "control_of (ChooseFunction s) = Some Chooses"
| "control_of (EditArgument i s) = Some (TypesArgument i)"
| "control_of (AbiFile parsed filename) = Some PicksFile"
| "control_of (AbiFetched address) = None"
| "control_of Back = Some ClicksBack"
| "control_of Next = Some ClicksNext"
| "control_of Close = Some ClosesForm"

text \<open>
  The events that the form's machine takes to be possible are those for which the dialogue shows a control: a
  function must be among the options, and an argument's input is there for each input of the function.
\<close>

lemma form_summary_handlers: "concat (map handlers (form_summary e label f)) = [FollowsLink (buildEtherscanAddressLink e (tf_address f))]"
proof -
  have "concat (map (\<lambda>i. handlers (El [''Row''] (None :: form_control option)
      [El [''functionName''] None [Tx (show_nat (i + 1) @ ''. '' @ fst (label (tf_func f) i))],
       El [''text-break''] None [Tx (argument_shown f i)]])) xs) = []" for xs by (induction xs) simp_all
  then show ?thesis by (simp add: form_summary_def comp_def)
qed

lemma form_body_handlers:
  "set (concat (map handlers (form_body e label f))) =
     (if tf_step f = 0 then {TypesAddress} else if tf_step f = 1 then {TypesValue} else if tf_step f = 2 then {Chooses, PicksFile}
      else if tf_step f = 3 then TypesArgument ` {..<form_inputs f}
      else if tf_step f = 4 then {FollowsLink (buildEtherscanAddressLink e (tf_address f))} else {})"
proof (cases "tf_step f = 4")
  case True
  then have "form_body e label f = form_summary e label f" by (simp add: form_body_def)
  then show ?thesis using True by (simp only: form_summary_handlers) simp
next
  case False
  have "concat (map (\<lambda>s. handlers (El [''option''] (None :: form_control option) [Tx s])) xs) = []" for xs
    by (induction xs) simp_all
  then show ?thesis using False unfolding form_body_def by (auto simp: comp_def)
qed

lemma form_offers:
  assumes "control_of ev = Some c"
  shows "c \<in> set (concat (map handlers (ProposalTransactionFormModal e label True f)))
       \<and> (\<forall>s. ev = ChooseFunction s \<longrightarrow> s \<in> set (function_options f)) \<longleftrightarrow>
     enabled ev f \<and> (\<forall>i s. ev = EditArgument i s \<longrightarrow> i < form_inputs f)"
proof -
  have opts: "s \<in> set (function_options f) \<longleftrightarrow> s = placeholder \<or> (\<exists>abi. tf_abi f = Some abi \<and> s \<in> fst ` set abi)" for s
    by (cases "tf_abi f") (simp_all add: function_options_def)
  have shown: "set (concat (map handlers (ProposalTransactionFormModal e label True f))) =
      {ClosesForm, ClicksNext} \<union> set (concat (map handlers (form_body e label f))) \<union> (if tf_step f = 0 then {} else {ClicksBack})"
    by (auto simp: ProposalTransactionFormModal_def)
  show ?thesis
    unfolding shown form_body_handlers using assms
    by (cases ev) (auto simp: enabled_def opts split: if_splits)
qed

end
