(* ===== verification/Tasks_Other.thy ===== *)
theory Tasks_Other
  imports Configure
begin

text \<open>
  The remaining tasks of \<open>packages/nouns-contracts/tasks\<close>: the defaults of the deployments against what the
  contracts accept, the loops of the short-times deployments, \<open>deploy-ci\<close>, the configuration after the DAO v1 variant,
  single deployments, proposals from the command line, verification, and art for the first
  descriptor and for tests.
\<close>

section \<open>Defaults and what the contracts accept\<close>

definition deploy_defaults :: deploy_args where
  "deploy_defaults =
     \<lparr>ar_autoDeploy = False, ar_weth = None, ar_dao = None, ar_auctionTimeBuffer = 3 * 60,
      ar_auctionReservePrice = ''80000000000000000'', ar_auctionMinIncrementBidPercentage = 2,
      ar_auctionDuration = 60 * 60 * 3, ar_timelockDelay = 60 * 60 * 24 * 2, ar_votingPeriod = 4 * 60 * 24 * (60 div 12),
      ar_votingDelay = 3 * 60 * 24 * (60 div 12), ar_proposalThresholdBps = 100, ar_quorumVotesBps = 1000,
      ar_minQuorumVotesBPS = 0, ar_maxQuorumVotesBPS = 0, ar_quorumCoefficient = []\<rparr>"

text \<open>The short-times defaults of the two variants; each reads only its own parameters of the quorum.\<close>

definition short_times_defaults :: deploy_args where
  "short_times_defaults =
     \<lparr>ar_autoDeploy = False, ar_weth = None, ar_dao = None, ar_auctionTimeBuffer = 30, ar_auctionReservePrice = ''1'',
      ar_auctionMinIncrementBidPercentage = 2, ar_auctionDuration = 60 * 2, ar_timelockDelay = 60, ar_votingPeriod = 80,
      ar_votingDelay = 1, ar_proposalThresholdBps = 100, ar_quorumVotesBps = 0,
      ar_minQuorumVotesBPS = 1000, ar_maxQuorumVotesBPS = 4000, ar_quorumCoefficient = ''1''\<rparr>"

definition short_times_daov1_defaults :: deploy_args where
  "short_times_daov1_defaults =
     short_times_defaults\<lparr>ar_quorumVotesBps := 1000, ar_minQuorumVotesBPS := 0, ar_maxQuorumVotesBPS := 0,
       ar_quorumCoefficient := []\<rparr>"

text \<open>\<open>initialize\<close> of \<open>AlpsDAOLogicV1.sol\<close> and of \<open>AlpsDAOLogicV2.sol\<close>, the constructor of \<open>AlpsDAOExecutor.sol\<close>.\<close>

definition voting_times_accepted :: "deploy_args \<Rightarrow> bool" where
  "voting_times_accepted a \<longleftrightarrow>
     5760 \<le> ar_votingPeriod a \<and> ar_votingPeriod a \<le> 80640 \<and> 1 \<le> ar_votingDelay a \<and> ar_votingDelay a \<le> 40320
     \<and> 1 \<le> ar_proposalThresholdBps a \<and> ar_proposalThresholdBps a \<le> 1000"

definition logicV1_accepts :: "deploy_args \<Rightarrow> bool" where
  "logicV1_accepts a \<longleftrightarrow> voting_times_accepted a \<and> 200 \<le> ar_quorumVotesBps a \<and> ar_quorumVotesBps a \<le> 2000"

definition quorum_params_accepted :: "deploy_args \<Rightarrow> bool" where
  "quorum_params_accepted a \<longleftrightarrow>
     200 \<le> ar_minQuorumVotesBPS a \<and> ar_minQuorumVotesBPS a \<le> 2000 \<and> ar_maxQuorumVotesBPS a \<le> 6000
     \<and> ar_minQuorumVotesBPS a \<le> ar_maxQuorumVotesBPS a"

definition logicV2_accepts :: "deploy_args \<Rightarrow> bool" where
  "logicV2_accepts a \<longleftrightarrow> voting_times_accepted a \<and> quorum_params_accepted a"

definition executor_accepts :: "deploy_args \<Rightarrow> bool" where
  "executor_accepts a \<longleftrightarrow> 2 * 24 * 60 * 60 \<le> ar_timelockDelay a \<and> ar_timelockDelay a \<le> 30 * 24 * 60 * 60"

text \<open>
  Which contract a name stands for when the loop creates it: what \<open>factory\<close> accepts of the arguments.  The
  test executor and the harnesses check no times; the second harness still checks the quorum.
\<close>

definition factory_accepts :: "contract_name \<Rightarrow> deploy_args \<Rightarrow> bool" where
  "factory_accepts factory a \<longleftrightarrow>
     (case factory of
        AlpsDAOExecutor \<Rightarrow> executor_accepts a
      | AlpsDAOLogicV1 \<Rightarrow> logicV1_accepts a
      | AlpsDAOLogicV2 \<Rightarrow> logicV2_accepts a
      | AlpsDAOLogicV2Harness \<Rightarrow> quorum_params_accepted a
      | _ \<Rightarrow> True)"

lemmas acceptance_defs = factory_accepts_def executor_accepts_def logicV1_accepts_def logicV2_accepts_def
  voting_times_accepted_def quorum_params_accepted_def deploy_defaults_def short_times_defaults_def
  short_times_daov1_defaults_def

text \<open>
  The defaults fit the contracts that each task deploys: those of \<open>deploy\<close> the real executor and logic, the short
  times only the test executor and the harnesses, which is why the short-times loops replace exactly these
  two names.
\<close>

theorem defaults_fit_contracts:
  "factory_accepts AlpsDAOExecutor deploy_defaults \<and> factory_accepts AlpsDAOLogicV1 deploy_defaults
   \<and> (\<forall>name\<in>{AlpsDAOExecutor, AlpsDAOLogicV2}.
        \<not> factory_accepts name short_times_defaults \<and> factory_accepts (nameForFactoryV2 name) short_times_defaults)
   \<and> (\<forall>name\<in>{AlpsDAOExecutor, AlpsDAOLogicV1}.
        \<not> factory_accepts name short_times_daov1_defaults
        \<and> factory_accepts (nameForFactoryV1 name) short_times_daov1_defaults)"
  by (simp add: nameForFactoryV1_def nameForFactoryV2_def acceptance_defs)

section \<open>The loops of the short-times deployments\<close>

text \<open>The tables name the contracts; the loops choose the factory by a switch over the name, and go on as
  \<open>deploy\<close> does.\<close>

definition short_times_contracts :: "string \<Rightarrow> string \<Rightarrow> string \<Rightarrow> string \<Rightarrow> string \<Rightarrow> string \<Rightarrow> deploy_args \<Rightarrow> contract_deployment list" where
  "short_times_contracts dao expectedArt expectedProxy expectedDAO registry weth a =
     art_contracts expectedArt AlpsAttribute @ token_contracts dao expectedProxy registry weth a
     @ dao_contracts AlpsDAOLogicV2 AlpsDAOProxyV2 (\<lambda>n. n) dao expectedDAO
         (QuorumParams (ar_minQuorumVotesBPS a) (ar_maxQuorumVotesBPS a) (ar_quorumCoefficient a)) a"

definition short_times_loop ::
  "deploy_env \<Rightarrow> bool \<Rightarrow> (contract_name \<Rightarrow> string) \<Rightarrow> contract_deployment list \<Rightarrow> chain \<Rightarrow> deployment \<Rightarrow>
   (deploy_error + deployment option) \<times> chain" where
  "short_times_loop env auto typed cs ch d =
     deploy_loop env auto typed (map (\<lambda>c. c\<lparr>cd_factory := nameForFactoryV2 (cd_name c)\<rparr>) cs) ch d"

definition short_times_daov1_contracts ::
  "string \<Rightarrow> string \<Rightarrow> string \<Rightarrow> string \<Rightarrow> string \<Rightarrow> string \<Rightarrow> deploy_args \<Rightarrow> contract_deployment list" where
  "short_times_daov1_contracts dao expectedArt expectedProxy expectedDAO registry weth a =
     art_contracts expectedArt Inflator @ token_contracts dao expectedProxy registry weth a
     @ dao_contracts AlpsDAOLogicV1 AlpsDAOProxy (\<lambda>n. n) dao expectedDAO (Num (ar_quorumVotesBps a)) a"

definition short_times_daov1_loop ::
  "deploy_env \<Rightarrow> bool \<Rightarrow> (contract_name \<Rightarrow> string) \<Rightarrow> contract_deployment list \<Rightarrow> chain \<Rightarrow> deployment \<Rightarrow>
   (deploy_error + deployment option) \<times> chain" where
  "short_times_daov1_loop env auto typed cs ch d =
     deploy_loop env auto typed (map (\<lambda>c. c\<lparr>cd_factory := nameForFactoryV1 (cd_name c)\<rparr>) cs) ch d"

lemma map_factory_art:
  "map (\<lambda>c. c\<lparr>cd_factory := nameForFactoryV2 (cd_name c)\<rparr>) (art_contracts e s) = art_contracts e s"
  "map (\<lambda>c. c\<lparr>cd_factory := nameForFactoryV1 (cd_name c)\<rparr>) (art_contracts e s) = art_contracts e s"
  by (simp_all add: contract_defs nameForFactoryV1_def nameForFactoryV2_def)

lemma map_factory_token:
  "map (\<lambda>c. c\<lparr>cd_factory := nameForFactoryV2 (cd_name c)\<rparr>) (token_contracts dao e r w a) = token_contracts dao e r w a"
  "map (\<lambda>c. c\<lparr>cd_factory := nameForFactoryV1 (cd_name c)\<rparr>) (token_contracts dao e r w a) = token_contracts dao e r w a"
  by (simp_all add: contract_defs nameForFactoryV1_def nameForFactoryV2_def)

lemma map_factory_dao:
  "map (\<lambda>c. c\<lparr>cd_factory := nameForFactoryV2 (cd_name c)\<rparr>) (dao_contracts AlpsDAOLogicV2 AlpsDAOProxyV2 (\<lambda>n. n) dao e q a)
     = dao_contracts AlpsDAOLogicV2 AlpsDAOProxyV2 nameForFactoryV2 dao e q a"
  "map (\<lambda>c. c\<lparr>cd_factory := nameForFactoryV1 (cd_name c)\<rparr>) (dao_contracts AlpsDAOLogicV1 AlpsDAOProxy (\<lambda>n. n) dao e q a)
     = dao_contracts AlpsDAOLogicV1 AlpsDAOProxy nameForFactoryV1 dao e q a"
  by (simp_all add: contract_defs nameForFactoryV1_def nameForFactoryV2_def)

text \<open>The deployment modelled beside \<open>deploy\<close> is the task's loop on the task's table.\<close>

lemma deploy_short_times_loop:
  fixes env :: deploy_env and ch :: chain
  assumes "detect_weth (ar_weth a) chainId = Some weth"
  defines "expected \<equiv> \<lambda>k. de_getContractAddress env (de_deployer env) (ch_nonce ch + k)"
  shows "deploy_short_times env chainId a typed ch =
     short_times_loop env (ar_autoDeploy a) typed
       (short_times_contracts (or_default (ar_dao a) (de_deployer env)) (expected 4) (expected 9) (expected 12)
          (proxy_registry chainId) weth a) ch Map.empty"
    and "deploy_short_times_daov1 env chainId a typed ch =
     short_times_daov1_loop env (ar_autoDeploy a) typed
       (short_times_daov1_contracts (or_default (ar_dao a) (de_deployer env)) (expected 4) (expected 9) (expected 12)
          (proxy_registry chainId) weth a) ch Map.empty"
  using assms(1)
  by (simp_all add: deploy_short_times_def deploy_short_times_daov1_def run_deploy_def short_times_offsets_def
      short_times_loop_def short_times_contracts_def short_times_daov1_loop_def short_times_daov1_contracts_def
      map_factory_art map_factory_token map_factory_dao expected_def Let_def)


section \<open>Deploying by continuous integration, and the DAO v1 variant\<close>

text \<open>
  \<open>deploy-ci\<close> passes \<open>alpersDAO\<close>, which \<open>deploy\<close> does not read, and then logs four addresses by the names of
  the first contracts; \<open>ci_address\<close> is \<open>None\<close> where reading the address of \<open>undefined\<close> throws.
\<close>

datatype ci_contract = CI_NFTDescriptor | CI_AlpsDescriptor | CI_AlpsSeeder | CI_AlpsToken

definition ci_address :: "deployment \<Rightarrow> ci_contract \<Rightarrow> string option" where
  "ci_address d c =
     (case c of
        CI_NFTDescriptor \<Rightarrow> None  \<comment> \<open>no such name among the contracts deployed\<close>
      | CI_AlpsDescriptor \<Rightarrow> None
      | CI_AlpsSeeder \<Rightarrow> address_of d AlpsSeeder
      | CI_AlpsToken \<Rightarrow> address_of d AlpsToken)"

definition deploy_ci ::
  "deploy_env \<Rightarrow> nat \<Rightarrow> deploy_args \<Rightarrow> string \<Rightarrow> (contract_name \<Rightarrow> string) \<Rightarrow> chain \<Rightarrow> (deploy_error + string list) \<times> chain" where
  "deploy_ci env chainId a weth typed ch =
     (case deploy env chainId (a\<lparr>ar_weth := Some weth, ar_dao := None\<rparr>) typed ch of
        (Inl e, ch') \<Rightarrow> (Inl e, ch')
      | (Inr None, ch') \<Rightarrow> (Inl NotDeployed, ch')
      | (Inr (Some d), ch') \<Rightarrow>
          (case those (map (ci_address d) [CI_NFTDescriptor, CI_AlpsDescriptor, CI_AlpsSeeder, CI_AlpsToken]) of
             None \<Rightarrow> (Inl NotDeployed, ch')
           | Some log \<Rightarrow> (Inr log, ch')))"

text \<open>No log is ever written, whatever was deployed.\<close>

lemma deploy_ci_never_logs: "\<exists>e. fst (deploy_ci env chainId a weth typed ch) = Inl e"
  by (auto simp: deploy_ci_def ci_address_def split: prod.splits sum.splits option.splits)

definition deploy_and_configure_short_times_daov1 ::
  "deploy_env \<Rightarrow> nat \<Rightarrow> deploy_args \<Rightarrow> (contract_name \<Rightarrow> string) \<Rightarrow> bool \<Rightarrow> bool \<Rightarrow> chain \<Rightarrow>
   deploy_error + (deployment \<times> config_op list)" where
  "deploy_and_configure_short_times_daov1 env chainId a typed startAuction updateConfigs ch =
     (case fst (deploy_short_times_daov1 env chainId a typed ch) of
        Inl e \<Rightarrow> Inl e
      | Inr None \<Rightarrow> Inl NotDeployed
      | Inr (Some d) \<Rightarrow>
          (case configure_ops startAuction updateConfigs d of None \<Rightarrow> Inl NotDeployed | Some ops \<Rightarrow> Inr (d, ops)))"

section \<open>Single deployments\<close>

text \<open>Prompts: what is typed for the price in gwei, \<open>None\<close> for the default, and for the confirmation.\<close>

definition getGasPriceWithPrompt :: "nat \<Rightarrow> nat option \<Rightarrow> nat" where
  "getGasPriceWithPrompt gasPrice typed =
     (let gasInGwei = (gasPrice + 500000000) div 1000000000
      in (case typed of None \<Rightarrow> gasInGwei | Some g \<Rightarrow> g) * 1000000000)"

definition getDeploymentConfirmationWithPrompt :: "string \<Rightarrow> bool" where
  "getDeploymentConfirmationWithPrompt typed \<longleftrightarrow> typed = ''DEPLOY''"

definition estimated_cost :: "nat \<Rightarrow> nat \<Rightarrow> nat" where
  "estimated_cost deploymentGas gasPrice = deploymentGas * gasPrice"

text \<open>\<open>deploy-v2-logic\<close>: the contract's address, \<open>None\<close> when it is not confirmed; verification is left out.\<close>

definition deploy_v2_logic :: "deploy_env \<Rightarrow> string \<Rightarrow> chain \<Rightarrow> (deploy_error + string option) \<times> chain" where
  "deploy_v2_logic env typed ch =
     (if de_fails env AlpsDAOLogicV2 then (Inl (TransactionFailed AlpsDAOLogicV2), ch)
      else if \<not> getDeploymentConfirmationWithPrompt typed then (Inr None, ch)
      else case send_creation env AlpsDAOLogicV2 ch of (address, ch') \<Rightarrow> (Inr (Some address), ch'))"

text \<open>The default price is the network's, rounded to whole gwei.\<close>

lemma default_price_close:
  "\<bar>int (getGasPriceWithPrompt p None) - int p\<bar> \<le> 500000000"
proof -
  let ?q = "(p + 500000000) div 1000000000"
  have "p + 500000000 = ?q * 1000000000 + (p + 500000000) mod 1000000000" by simp
  moreover have "(p + 500000000) mod 1000000000 < 1000000000" by simp
  ultimately have "?q * 1000000000 \<le> p + 500000000" "p < ?q * 1000000000 + 500000000" by linarith+
  then show ?thesis by (simp add: getGasPriceWithPrompt_def)
qed

text \<open>\<open>deploy-descriptor-attribute\<close>: a new descriptor for an art that exists already.\<close>

definition deploy_descriptor_attribute ::
  "deploy_env \<Rightarrow> string \<Rightarrow> string \<Rightarrow> chain \<Rightarrow> (deploy_error + deployment option) \<times> chain" where
  "deploy_descriptor_attribute env alpsArt svgRenderer ch =
     local_loop env
       [plain AlpsAttribute [], plain NFTDescriptorV2 [],
        (plain AlpsDescriptorV2 [Text alpsArt, Text svgRenderer, AddressOf AlpsAttribute])\<lparr>cd_libraries := [NFTDescriptorV2]\<rparr>]
       ch Map.empty"

text \<open>The arguments that \<open>deploy-test-token\<close> gives the token: the deployer is founder and minter.\<close>

definition test_token_args :: "string \<Rightarrow> string \<Rightarrow> string \<Rightarrow> arg_value list" where
  "test_token_args deployer descriptorAddress seederAddress =
     [VText deployer, VText deployer, VText descriptorAddress, VText seederAddress,
      VText ''0xa5409ec958c83c3f309868babaca7c86dcb077c1'']"

section \<open>Proposals from the command line\<close>

record cli_proposal =
  cp_targets :: "string list"
  cp_values :: "nat list"
  cp_signatures :: "string list"
  cp_calldatas :: "string list"
  cp_description :: string

definition create_proposal :: "string \<Rightarrow> cli_proposal" where
  "create_proposal deployer =
     \<lparr>cp_targets = [deployer], cp_values = [10 ^ 18], cp_signatures = [[]], cp_calldatas = [''0x''],
      cp_description = ''# Test Proposal'' @ [CHR 0x0A] @ ''## This is a **test**.''\<rparr>"

text \<open>\<open>encode\<close>: the ABI encoder on one address.\<close>

definition upgrade_descriptor_via_proposal :: "(string \<Rightarrow> string) \<Rightarrow> string \<Rightarrow> string \<Rightarrow> cli_proposal" where
  "upgrade_descriptor_via_proposal encode descriptor token =
     \<lparr>cp_targets = [token], cp_values = [0], cp_signatures = [''setDescriptor(address)''],
      cp_calldatas = [encode descriptor],
      cp_description = ''# Upgrade AlpsToken descriptor to V2'' @ [CHR 0x0A] @
        ''This proposal calls a function on AlpsToken to set its descriptor to V2.''\<rparr>"

definition proposal_arity_ok :: "cli_proposal \<Rightarrow> bool" where
  "proposal_arity_ok p \<longleftrightarrow>
     length (cp_values p) = length (cp_targets p) \<and> length (cp_signatures p) = length (cp_targets p)
     \<and> length (cp_calldatas p) = length (cp_targets p) \<and> cp_targets p \<noteq> []"

lemma cli_proposals_ok:
  "proposal_arity_ok (create_proposal deployer)" "proposal_arity_ok (upgrade_descriptor_via_proposal encode descriptor token)"
  by (simp_all add: proposal_arity_ok_def create_proposal_def upgrade_descriptor_via_proposal_def)

section \<open>Verification\<close>

text \<open>What waiting for a contract and verifying it end in: \<open>None\<close>, or the message of the exception.  A contract
  without code is waited for.\<close>

record verification_env =
  ve_code :: "string \<Rightarrow> string"
  ve_verify :: "contract_name \<Rightarrow> string option \<Rightarrow> string option"

datatype verify_line = Verifying contract_name | WaitingFor contract_name | VerifyFailed string

definition nameToFullyQualifiedName :: "contract_name \<Rightarrow> string option" where
  "nameToFullyQualifiedName n =
     (case n of
        AlpsAuctionHouseProxy \<Rightarrow> Some ''contracts/proxies/AlpsAuctionHouseProxy.sol:AlpsAuctionHouseProxy''
      | AlpsAuctionHouseProxyAdmin \<Rightarrow> Some ''contracts/proxies/AlpsAuctionHouseProxyAdmin.sol:AlpsAuctionHouseProxyAdmin''
      | AlpsDAOLogicV1Harness \<Rightarrow> Some ''contracts/test/AlpsDAOLogicV1Harness.sol:AlpsDAOLogicV1Harness''
      | _ \<Rightarrow> None)"

definition nameToFullyQualifiedName_daov2 :: "contract_name \<Rightarrow> string option" where
  "nameToFullyQualifiedName_daov2 n =
     (case n of
        AlpsAuctionHouseProxy \<Rightarrow> Some ''contracts/proxies/AlpsAuctionHouseProxy.sol:AlpsAuctionHouseProxy''
      | AlpsAuctionHouseProxyAdmin \<Rightarrow> Some ''contracts/proxies/AlpsAuctionHouseProxyAdmin.sol:AlpsAuctionHouseProxyAdmin''
      | AlpsDAOLogicV2Harness \<Rightarrow> Some ''contracts/test/AlpsDAOLogicV2Harness.sol:AlpsDAOLogicV2Harness''
      | _ \<Rightarrow> None)"

text \<open>\<open>includes\<close>\<close>

definition has_substring :: "string \<Rightarrow> string \<Rightarrow> bool" where
  "has_substring w s \<longleftrightarrow> list_ex (\<lambda>i. take (length w) (drop i s) = w) [0..<Suc (length s)]"

fun verify_loop ::
  "(contract_name \<Rightarrow> string option) \<Rightarrow> verification_env \<Rightarrow> deployed_contract list \<Rightarrow> verify_line list" where
  "verify_loop qualified env [] = []"
| "verify_loop qualified env (c # cs) =
     Verifying (dc_name c) #
     (if ve_code env (dc_address c) = ''0x'' then [WaitingFor (dc_name c)] else []) @
     (case ve_verify env (dc_name c) (qualified (dc_name c)) of
        None \<Rightarrow> []
      | Some message \<Rightarrow> if has_substring ''Reason: Already Verified'' message then [] else [VerifyFailed message]) @
     verify_loop qualified env cs"

definition verify_etherscan :: "verification_env \<Rightarrow> deployed_contract list \<Rightarrow> verify_line list" where
  "verify_etherscan = verify_loop nameToFullyQualifiedName"

definition verify_etherscan_daov2 :: "verification_env \<Rightarrow> deployed_contract list \<Rightarrow> verify_line list" where
  "verify_etherscan_daov2 = verify_loop nameToFullyQualifiedName_daov2"

text \<open>A contract that cannot be verified does not keep the later ones from being tried.\<close>

lemma verify_tries_all: "[n. Verifying n \<leftarrow> verify_loop qualified env cs] = map dc_name cs"
  by (induction cs) (auto split: option.splits)

section \<open>Art in chunks, and for tests\<close>

function chunks :: "nat \<Rightarrow> 'a list \<Rightarrow> 'a list list" where
  "chunks k xs = (if k = 0 \<or> xs = [] then [] else take k xs # chunks k (drop k xs))"
  by auto
termination by (relation "measure (\<lambda>(k, xs). length xs)") auto

declare chunks.simps [simp del]

text \<open>With a size of zero the loop does not end on an array that is not empty: \<open>None\<close>.\<close>

definition chunkArray :: "'a list \<Rightarrow> nat \<Rightarrow> 'a list list option" where
  "chunkArray xs k = (if k = 0 \<and> xs \<noteq> [] then None else Some (chunks k xs))"

lemma chunks_concat: "0 < k \<Longrightarrow> concat (chunks k xs) = xs"
proof (induction k xs rule: chunks.induct)
  case (1 k xs)
  then show ?case by (subst chunks.simps) auto
qed

lemma chunks_sizes: "c \<in> set (chunks k xs) \<Longrightarrow> 0 < length c \<and> length c \<le> k"
proof (induction k xs rule: chunks.induct)
  case (1 k xs)
  from "1.prems" have "k \<noteq> 0 \<and> xs \<noteq> [] \<and> (c = take k xs \<or> c \<in> set (chunks k (drop k xs)))"
    by (subst (asm) chunks.simps) (auto split: if_splits)
  then show ?case using "1.IH" by auto
qed

lemma chunkArray_ten: "chunkArray xs 10 = Some (chunks 10 xs)"
  by (simp add: chunkArray_def)

datatype v1_call =
    V1Backgrounds "string list"
  | V1Colors nat "string list"
  | V1Bodies "string list"
  | V1Accessories "string list"
  | V1Heads "string list"
  | V1Glasses "string list"

definition populate_descriptor_v1 :: "string list \<Rightarrow> string list \<Rightarrow> art_images \<Rightarrow> v1_call list" where
  "populate_descriptor_v1 bgcolors palette im =
     [V1Backgrounds bgcolors, V1Colors 0 palette, V1Bodies (ai_bodies im)]
     @ map V1Accessories (the (chunkArray (ai_accessories im) 10))
     @ map V1Heads (the (chunkArray (ai_heads im) 10))
     @ [V1Glasses (ai_glasses im)]"

text \<open>Every accessory and every head reaches the descriptor once and in order, at most ten in a call.\<close>

lemma populate_v1_complete:
  "concat [xs. V1Accessories xs \<leftarrow> populate_descriptor_v1 bg pal im] = ai_accessories im"
  "concat [xs. V1Heads xs \<leftarrow> populate_descriptor_v1 bg pal im] = ai_heads im"
  "V1Heads xs \<in> set (populate_descriptor_v1 bg pal im) \<Longrightarrow> length xs \<le> 10"
proof -
  have a: "[xs. V1Accessories xs \<leftarrow> map V1Accessories cs] = cs" "[xs. V1Accessories xs \<leftarrow> map V1Heads cs] = []"
    "[xs. V1Heads xs \<leftarrow> map V1Heads cs] = cs" "[xs. V1Heads xs \<leftarrow> map V1Accessories cs] = []" for cs
    by (induction cs) auto
  show "concat [xs. V1Accessories xs \<leftarrow> populate_descriptor_v1 bg pal im] = ai_accessories im"
    "concat [xs. V1Heads xs \<leftarrow> populate_descriptor_v1 bg pal im] = ai_heads im"
    using a by (simp_all add: populate_descriptor_v1_def chunkArray_ten chunks_concat del: concat_map_singleton)
  show "V1Heads xs \<in> set (populate_descriptor_v1 bg pal im) \<Longrightarrow> length xs \<le> 10"
    using chunks_sizes by (fastforce simp: populate_descriptor_v1_def chunkArray_ten)
qed

text \<open>\<open>descriptor-art-to-console\<close>: a slice of the images, or all, as files for the contracts' tests.  Negative
  numbers count from the end in \<open>slice\<close> and are not modelled.\<close>

definition art_slice :: "nat option \<Rightarrow> nat option \<Rightarrow> 'a list \<Rightarrow> 'a list" where
  "art_slice start n xs =
     (case n of
        None \<Rightarrow> xs
      | Some c \<Rightarrow> let s = (case start of None \<Rightarrow> 0 | Some k \<Rightarrow> k) in take c (drop s xs))"

definition descriptor_art_to_console ::
  "(string list \<Rightarrow> descriptor_page) \<Rightarrow> nat option \<Rightarrow> nat option \<Rightarrow> string list \<Rightarrow> string list \<Rightarrow> art_images \<Rightarrow>
   (string \<times> string list) \<times> (string \<times> descriptor_page) list" where
  "descriptor_art_to_console page start n bgcolors palette im =
     ((palette_bytes palette, bgcolors),
      [(''bodiesPage.abi'', page (art_slice start n (ai_bodies im))),
       (''accessoriesPage.abi'', page (art_slice start n (ai_accessories im))),
       (''headsPage.abi'', page (art_slice start n (ai_heads im))),
       (''glassesPage.abi'', page (art_slice start n (ai_glasses im)))])"

lemma whole_art_as_populated:
  "snd (descriptor_art_to_console page start None bg pal im) =
     [(''bodiesPage.abi'', page (ai_bodies im)), (''accessoriesPage.abi'', page (ai_accessories im)),
      (''headsPage.abi'', page (ai_heads im)), (''glassesPage.abi'', page (ai_glasses im))]
   \<and> set (populate_calls page bg pal im) =
       {AddManyBackgrounds bg, SetPalette 0 (fst (fst (descriptor_art_to_console page start None bg pal im))),
        AddBodies (page (ai_bodies im)), AddHeads (page (ai_heads im)), AddGlasses (page (ai_glasses im)),
        AddAccessories (page (ai_accessories im))}"
  by (simp add: descriptor_art_to_console_def art_slice_def populate_calls_def Let_def)

end
