(* ===== verification/Bots_Config.thy ===== *)
theory Bots_Config
  imports Bots_Ticks
begin

text \<open>
  \<open>nouns-bots/src/config.ts\<close> and \<open>clients.ts\<close>: what the environment sets, the defaults, what the clients are built
  with, and which handlers the loop runs.  \<open>num\<close> is \<open>Number\<close>; \<open>None\<close> an undefined variable.
\<close>

record bots_config =
  bc_redisPort :: jsnum
  bc_redisHost :: string
  bc_redisDb :: jsnum
  bc_redisPassword :: "string option"
  bc_nounsSubgraph :: string
  bc_twitterEnabled :: bool
  bc_twitterAppKey :: string
  bc_twitterAppSecret :: string
  bc_twitterAccessToken :: string
  bc_twitterAccessSecret :: string
  bc_nounsTokenAddress :: string
  bc_jsonRpcUrl :: string
  bc_discordEnabled :: bool
  bc_discordWebhookToken :: string
  bc_discordWebhookId :: string
  bc_discordPublicWebhookToken :: string
  bc_discordPublicWebhookId :: string
  bc_pinataEnabled :: bool
  bc_pinataApiKey :: string
  bc_pinataApiSecretKey :: string

definition bots_env :: "(string \<Rightarrow> string option) \<Rightarrow> string \<Rightarrow> string \<Rightarrow> string" where
  "bots_env env key otherwise = (case env key of None \<Rightarrow> otherwise | Some v \<Rightarrow> v)"

definition env_number :: "(string \<Rightarrow> jsnum) \<Rightarrow> (string \<Rightarrow> string option) \<Rightarrow> string \<Rightarrow> int \<Rightarrow> jsnum" where
  "env_number num env key otherwise = (case env key of None \<Rightarrow> Some otherwise | Some v \<Rightarrow> num v)"

definition bots_config :: "(string \<Rightarrow> jsnum) \<Rightarrow> (string \<Rightarrow> string option) \<Rightarrow> bots_config" where
  "bots_config num env =
     \<lparr>bc_redisPort = env_number num env ''REDIS_PORT'' 6379,
      bc_redisHost = bots_env env ''REDIS_HOST'' ''localhost'',
      bc_redisDb = env_number num env ''REDIS_DB'' 0,
      bc_redisPassword = env ''REDIS_PASSWORD'',
      bc_nounsSubgraph = bots_env env ''NOUNS_SUBGRAPH_URL'' ''https://api.thegraph.com/subgraphs/name/nounsdao/nouns-subgraph'',
      bc_twitterEnabled = (env ''TWITTER_ENABLED'' = Some ''true''),
      bc_twitterAppKey = bots_env env ''TWITTER_APP_KEY'' [],
      bc_twitterAppSecret = bots_env env ''TWITTER_APP_SECRET'' [],
      bc_twitterAccessToken = bots_env env ''TWITTER_ACCESS_TOKEN'' [],
      bc_twitterAccessSecret = bots_env env ''TWITTER_ACCESS_SECRET'' [],
      bc_nounsTokenAddress = bots_env env ''NOUNS_TOKEN_ADDRESS'' ''0x9C8fF314C9Bc7F6e59A9d9225Fb22946427eDC03'',
      bc_jsonRpcUrl = bots_env env ''JSON_RPC_URL'' ''http://localhost:8545'',
      bc_discordEnabled = (env ''DISCORD_ENABLED'' = Some ''true''),
      bc_discordWebhookToken = bots_env env ''DISCORD_WEBHOOK_TOKEN'' [],
      bc_discordWebhookId = bots_env env ''DISCORD_WEBHOOK_ID'' [],
      bc_discordPublicWebhookToken = bots_env env ''DISCORD_PUBLIC_WEBHOOK_TOKEN'' [],
      bc_discordPublicWebhookId = bots_env env ''DISCORD_PUBLIC_WEBHOOK_ID'' [],
      bc_pinataEnabled = (env ''PINATA_ENABLED'' = Some ''true''),
      bc_pinataApiKey = bots_env env ''PINATA_API_KEY'' [],
      bc_pinataApiSecretKey = bots_env env ''PINATA_API_SECRET_KEY'' []\<rparr>"

text \<open>What the clients are built with.\<close>

record bots_clients =
  cl_redis :: "jsnum \<times> string \<times> jsnum \<times> string option"
  cl_twitter :: "string \<times> string \<times> string \<times> string"
  cl_jsonRpcProvider :: string
  cl_nounsTokenContract :: "string \<times> string"
  cl_webhooks :: "(string \<times> string) list"  \<comment> \<open>the internal one, then the public one\<close>

definition bots_clients :: "bots_config \<Rightarrow> bots_clients" where
  "bots_clients c =
     \<lparr>cl_redis = (bc_redisPort c, bc_redisHost c, bc_redisDb c, bc_redisPassword c),
      cl_twitter = (bc_twitterAppKey c, bc_twitterAppSecret c, bc_twitterAccessToken c, bc_twitterAccessSecret c),
      cl_jsonRpcProvider = bc_jsonRpcUrl c,
      cl_nounsTokenContract = (bc_nounsTokenAddress c, bc_jsonRpcUrl c),
      cl_webhooks = [(bc_discordWebhookId c, bc_discordWebhookToken c), (bc_discordPublicWebhookId c, bc_discordPublicWebhookToken c)]\<rparr>"

definition handlers_of_config :: "bots_config \<Rightarrow> services \<Rightarrow> outbox lifecycle_handler list" where
  "handlers_of_config c sv = auctionLifecycleHandlers (bc_twitterEnabled c) (bc_discordEnabled c) sv"

text \<open>
  Whatever the environment, the handlers are of the kind that the properties of the loop are about, and the two
  webhooks that the discord handler numbers are there; an empty environment announces nothing.
\<close>

lemma handlers_of_config_configured: "handlers_of_config (bots_config num env) sv \<in> configured"
  by (auto simp: handlers_of_config_def configured_def)

lemma silent_by_default:
  assumes "env ''TWITTER_ENABLED'' \<noteq> Some ''true''" "env ''DISCORD_ENABLED'' \<noteq> Some ''true''"
  shows "handlers_of_config (bots_config num env) sv = []"
    "fst (await_all (map f (handlers_of_config (bots_config num env) sv)) w) = w"
  using assms by (simp_all add: handlers_of_config_def bots_config_def auctionLifecycleHandlers_def)

lemma webhooks_numbered:
  "bc_discordEnabled c \<Longrightarrow> DiscordAuctionLifecycleHandler sv [0..<length (cl_webhooks (bots_clients c))] \<in> set (handlers_of_config c sv)"
  by (simp add: handlers_of_config_def auctionLifecycleHandlers_def bots_clients_def upt_rec)

end
