(* ===== verification/System_Pictures.thy ===== *)
theory System_Pictures
  imports Web_Playground
begin

text \<open>
  From PNG files to the picture of a minted alp: \<open>nouns-assets/scripts/encode.ts\<close> writes the data that
  \<open>nouns-assets/src\<close> reads, the contract draws a seed, and the web application draws the seed's parts.
\<close>

section \<open>The asset module\<close>

text \<open>What \<open>nouns-assets/src/utils.ts\<close> reads from the file that the script wrote; \<open>None\<close> when a folder is missing.\<close>

definition asset_of :: "encoded_image \<Rightarrow> asset_image" where
  "asset_of f = \<lparr>as_filename = fst f, as_data = (case snd f of None \<Rightarrow> [] | Some d \<Rightarrow> d)\<rparr>"

definition asset_module :: "string list \<times> image_data \<Rightarrow> asset_book option" where
  "asset_module file =
     (let folder = (\<lambda>f. map_option (map asset_of) (jm_get (id_images (snd file)) f))
      in case (folder ''bodies'', folder ''accessories'', folder ''heads'', folder ''glasses'') of
           (Some bodies, Some accessories, Some heads, Some glasses) \<Rightarrow>
             Some \<lparr>bk_bgcolors = fst file, bk_bodies = bodies, bk_accessories = accessories, bk_heads = heads,
                   bk_glasses = glasses\<rparr>
         | _ \<Rightarrow> None)"

section \<open>A folder's files in the module\<close>

abbreviation script_encoder :: "dirs \<Rightarrow> encoder" where
  "script_encoder dirs \<equiv> encode_files (\<lambda>_. False) dirs (new_encoder None)"

abbreviation all_calls :: "dirs \<Rightarrow> encode_call list" where
  "all_calls dirs \<equiv> script_calls (\<lambda>_. False) dirs"

definition in_folder :: "string \<Rightarrow> dirs \<Rightarrow> encode_call list" where
  "in_folder f dirs = filter (\<lambda>c. ec_folder c = Some f) (all_calls dirs)"

definition part_folder :: "string \<Rightarrow> bool" where
  "part_folder f \<longleftrightarrow> f \<in> {''bodies'', ''accessories'', ''heads'', ''glasses''}"

lemma names_in_folder: "names_in f (all_calls dirs) = map ec_name (in_folder f dirs)"
  by (simp add: names_in_def in_folder_def)

definition files_ok :: "dirs \<Rightarrow> bool" where
  "files_ok dirs \<longleftrightarrow>
     distinct (map ec_name (all_calls dirs)) \<and> (\<forall>c\<in>set (all_calls dirs). png_ok (ec_png c))
     \<and> length (id_palette (snd (encode_script dirs))) \<le> 256
     \<and> list_all (\<lambda>f. in_folder f dirs \<noteq> [] \<and> length (in_folder f dirs) < 2 ^ 48)
         [''bodies'', ''accessories'', ''heads'', ''glasses'']"

definition folder_assets :: "string \<Rightarrow> dirs \<Rightarrow> asset_image list" where
  "folder_assets f dirs =
     map (\<lambda>c. asset_of (ec_name c, jm_get (enc_images (script_encoder dirs)) (ec_name c))) (in_folder f dirs)"

lemma encoded_folder:
  assumes "files_ok dirs" "part_folder f"
  shows "map_option (map asset_of) (jm_get (id_images (snd (encode_script dirs))) f) = Some (folder_assets f dirs)"
proof -
  have "names_in f (all_calls dirs) \<noteq> []"
    using assms by (auto simp: files_ok_def part_folder_def names_in_folder)
  moreover have "f \<noteq> []" "f \<noteq> ''root''" using assms(2) by (auto simp: part_folder_def)
  moreover have "enc_folders (new_encoder None) = []" by (simp add: new_encoder_def)
  ultimately have "jm_get (id_images (get_data (fold encode_step (all_calls dirs) (new_encoder None)))) f =
      Some (map (\<lambda>n. (n, jm_get (enc_images (fold encode_step (all_calls dirs) (new_encoder None))) n))
        (names_in f (all_calls dirs)))"
    using assms(1) by (intro folder_files) (auto simp: files_ok_def)
  then show ?thesis
    by (simp add: encode_script_def encode_files_steps names_in_folder folder_assets_def)
qed

text \<open>A file of a folder, drawn with the finished palette.\<close>

lemma folder_asset_painted:
  assumes "files_ok dirs" "k < length (in_folder f dirs)"
  shows "\<exists>rs. part_rects (id_palette (snd (encode_script dirs))) (as_data (folder_assets f dirs ! k)) = Some rs
     \<and> paint rs = opaque_pixels (png_Image (ec_png (in_folder f dirs ! k)))"
proof -
  let ?c = "in_folder f dirs ! k" and ?e = "fold encode_step (all_calls dirs) (new_encoder None)"
  have c: "?c \<in> set (all_calls dirs)" using nth_mem [OF assms(2)] by (simp add: in_folder_def)
  from assms(1) c have "distinct (map ec_name (all_calls dirs))" "png_ok (ec_png ?c)"
    "length (id_palette (get_data ?e)) \<le> 256"
    by (auto simp: files_ok_def encode_script_def encode_files_steps)
  note ok = this
  obtain m i m' rle where run: "palette_ok m" "toRLE (png_Image (ec_png ?c)) m = (i, m', rle)"
    "jm_get (enc_images ?e) (ec_name ?c) = Some rle" "palette_ok m'" "extends m' (enc_colors ?e)"
    using collection_image [OF palette_ok_new ok(1) c] by blast
  have pal: "palette_ok (enc_colors ?e)" using encoding.run_inv [OF palette_ok_new] by simp
  have "length m' \<le> 256"
    using extends_length [OF run(4) pal run(5)] ok(3) by (simp add: get_data_def jm_keys_def)
  from part_rects_encoded [OF run(1,2) png_ok_size [OF ok(2)] this pal run(5)] run(3) assms(2)
  show ?thesis by (auto simp: encode_script_def encode_files_steps get_data_def folder_assets_def asset_of_def)
qed

section \<open>The drawing\<close>

lemma svg_parts_painted:
  assumes "list_all2 (\<lambda>d rs. part_rects pal d = Some rs) ds layers"
  shows "svg_parts pal ds start = Some (start @ concat (map render_rect (concat layers)))"
  using assms by (induction ds layers arbitrary: start rule: list_all2_induct) simp_all

lemma buildSVG_painted:
  "list_all2 (\<lambda>d rs. part_rects pal d = Some rs) ds layers \<Longrightarrow>
     buildSVG ds pal bg = Some (svg_head bg @ concat (map render_rect (concat layers)) @ ''</svg>'')"
  by (simp add: buildSVG_def svg_parts_painted)

lemma contract_seed_in_range:
  fixes p :: "256 word" and bk :: asset_book
  assumes "\<forall>n\<in>set (book_counts bk). 0 < n \<and> n < 2 ^ 48"
  defines "s \<equiv> generateSeed p bk"
  shows "sd_background s < length (bk_bgcolors bk)" "sd_body s < length (bk_bodies bk)"
    "sd_accessory s < length (bk_accessories bk)" "sd_head s < length (bk_heads bk)"
    "sd_glasses s < length (bk_glasses bk)"
  using assms(1) unfolding book_counts_ball by (simp_all add: s_def generateSeed_def seeder_part_unat)

text \<open>The files that a seed selects.\<close>

definition selected :: "dirs \<Rightarrow> alp_seed \<Rightarrow> encode_call list" where
  "selected dirs s =
     [in_folder ''bodies'' dirs ! sd_body s, in_folder ''accessories'' dirs ! sd_accessory s,
      in_folder ''heads'' dirs ! sd_head s, in_folder ''glasses'' dirs ! sd_glasses s]"

lemma module_of_files:
  assumes "files_ok dirs"
  defines "bk \<equiv> \<lparr>bk_bgcolors = encode_bgcolors, bk_bodies = folder_assets ''bodies'' dirs,
      bk_accessories = folder_assets ''accessories'' dirs, bk_heads = folder_assets ''heads'' dirs,
      bk_glasses = folder_assets ''glasses'' dirs\<rparr>"
  shows "asset_module (encode_script dirs) = Some bk" "\<forall>n\<in>set (book_counts bk). 0 < n \<and> n < 2 ^ 48"
proof -
  have "fst (encode_script dirs) = encode_bgcolors" by (simp add: encode_script_def)
  then show "asset_module (encode_script dirs) = Some bk"
    by (simp add: asset_module_def Let_def encoded_folder [OF assms(1)] part_folder_def bk_def)
  show "\<forall>n\<in>set (book_counts bk). 0 < n \<and> n < 2 ^ 48"
    using assms(1) unfolding book_counts_ball
    by (simp add: bk_def folder_assets_def files_ok_def encode_bgcolors_def)
qed

lemma selected_drawn:
  assumes "files_ok dirs" "asset_module (encode_script dirs) = Some bk"
    and "sd_background s < length (bk_bgcolors bk)" "sd_body s < length (bk_bodies bk)"
      "sd_accessory s < length (bk_accessories bk)" "sd_head s < length (bk_heads bk)"
      "sd_glasses s < length (bk_glasses bk)"
  shows "\<exists>layers. draw_alp bk (id_palette (snd (encode_script dirs))) s =
       Some (svg_head (encode_bgcolors ! sd_background s) @ concat (map render_rect (concat layers)) @ ''</svg>'')
     \<and> map paint layers = map (\<lambda>c. opaque_pixels (png_Image (ec_png c))) (selected dirs s)"
proof -
  let ?pal = "id_palette (snd (encode_script dirs))"
  have bk: "bk_bgcolors bk = encode_bgcolors" "bk_bodies bk = folder_assets ''bodies'' dirs"
    "bk_accessories bk = folder_assets ''accessories'' dirs" "bk_heads bk = folder_assets ''heads'' dirs"
    "bk_glasses bk = folder_assets ''glasses'' dirs"
    using module_of_files(1) [OF assms(1)] assms(2) by auto
  have len: "length (folder_assets f dirs) = length (in_folder f dirs)" for f by (simp add: folder_assets_def)
  note rs = folder_asset_painted [OF assms(1)]
  obtain r1 r2 r3 r4 where r:
    "part_rects ?pal (as_data (bk_bodies bk ! sd_body s)) = Some r1"
    "paint r1 = opaque_pixels (png_Image (ec_png (in_folder ''bodies'' dirs ! sd_body s)))"
    "part_rects ?pal (as_data (bk_accessories bk ! sd_accessory s)) = Some r2"
    "paint r2 = opaque_pixels (png_Image (ec_png (in_folder ''accessories'' dirs ! sd_accessory s)))"
    "part_rects ?pal (as_data (bk_heads bk ! sd_head s)) = Some r3"
    "paint r3 = opaque_pixels (png_Image (ec_png (in_folder ''heads'' dirs ! sd_head s)))"
    "part_rects ?pal (as_data (bk_glasses bk ! sd_glasses s)) = Some r4"
    "paint r4 = opaque_pixels (png_Image (ec_png (in_folder ''glasses'' dirs ! sd_glasses s)))"
    using rs [of "sd_body s" "''bodies''"] rs [of "sd_accessory s" "''accessories''"] rs [of "sd_head s" "''heads''"]
      rs [of "sd_glasses s" "''glasses''"] assms(4-7)
    unfolding bk len by blast
  have "list_all2 (\<lambda>d rs. part_rects ?pal d = Some rs)
      (map as_data [bk_bodies bk ! sd_body s, bk_accessories bk ! sd_accessory s, bk_heads bk ! sd_head s,
         bk_glasses bk ! sd_glasses s]) [r1, r2, r3, r4]"
    using r by simp
  note drawn = buildSVG_painted [OF this, of "encode_bgcolors ! sd_background s"]
  have "draw_alp bk ?pal s =
      Some (svg_head (encode_bgcolors ! sd_background s) @ concat (map render_rect (concat [r1, r2, r3, r4])) @ ''</svg>'')"
    using assms(3-7) bk(1) drawn by (simp add: draw_alp_def getAlpData_def array_at_def Let_def)
  moreover have "map paint [r1, r2, r3, r4] = map (\<lambda>c. opaque_pixels (png_Image (ec_png c))) (selected dirs s)"
    using r by (simp add: selected_def)
  ultimately show ?thesis by blast
qed

definition sample_folders :: dirs where
  "sample_folders folder =
     [(folder, \<lparr>pb_width = 2, pb_height = 1, pb_data = [17, 0, 0, 255, 1, 2, 3, 0]\<rparr>)]"

lemma sample_calls_of: "all_calls sample_folders = map (\<lambda>f. \<lparr>ec_name = f, ec_png = readPngImage
     \<lparr>pb_width = 2, pb_height = 1, pb_data = [17, 0, 0, 255, 1, 2, 3, 0]\<rparr>, ec_folder = Some (strip_number f)\<rparr>) partfolders"
  by (simp add: script_calls_def partfolders_def sample_folders_def strip_png_def)

lemma sample_palette: "length (id_palette (get_data (fold encode_step (all_calls sample_folders) (new_encoder None)))) \<le> 256"
  unfolding sample_calls_of by code_simp

lemma sample_folders_ok: "files_ok sample_folders"
proof -
  have "map (\<lambda>f. length (in_folder f sample_folders)) [''bodies'', ''accessories'', ''heads'', ''glasses''] = [1, 1, 1, 1]"
    by (simp add: in_folder_def sample_calls_of partfolders_def strip_number_def is_digit_def digit_value_def)
  then have "list_all (\<lambda>f. in_folder f sample_folders \<noteq> [] \<and> length (in_folder f sample_folders) < 2 ^ 48)
      [''bodies'', ''accessories'', ''heads'', ''glasses'']"
    by auto
  moreover have "distinct (map ec_name (all_calls sample_folders))" "\<forall>c\<in>set (all_calls sample_folders). png_ok (ec_png c)"
    by (simp_all add: sample_calls_of partfolders_def png_ok_def readPngImage_def)
  ultimately show ?thesis
    using sample_palette by (simp add: files_ok_def encode_script_def encode_files_steps)
qed

end
