(* ===== verification/System_Auctions.thy ===== *)
theory System_Auctions
  imports Subgraph_Auction Web_Cards "HOL-Library.Multiset"
begin

text \<open>
  From the auction house's events to the page of a past auction: the subgraph indexes the events
  (\<open>nouns-subgraph\<close>), its node answers the web application's query, the answer goes into the slice of past
  auctions, and the hooks read the slice.
\<close>

section \<open>What is indexed of the bids\<close>

definition bid_log :: "nat \<Rightarrow> auction_event list \<Rightarrow> (event_meta \<times> auction_bid_params) list" where
  "bid_log i es = concat (map (\<lambda>e. case e of auction_event.AuctionBid m p \<Rightarrow> if bp_alpId p = i then [(m, p)] else [] | _ \<Rightarrow> []) es)"

definition bid_hashes :: "auction_event list \<Rightarrow> string list" where
  "bid_hashes es = concat (map (\<lambda>e. case e of auction_event.AuctionBid m p \<Rightarrow> [em_txHash m] | _ \<Rightarrow> []) es)"

definition indexed_bid :: "event_meta \<Rightarrow> auction_bid_params \<Rightarrow> bid" where
  "indexed_bid m p =
     \<lparr>bd_alp = show_nat (bp_alpId p), bd_amount = bp_value p, bd_bidder = Some (bp_sender p),
      bd_blockNumber = em_blockNumber m, bd_txIndex = em_txIndex m, bd_auction = show_nat (bp_alpId p),
      bd_blockTimestamp = em_blockTimestamp m\<rparr>"

lemma bid_hashes_Cons [simp]:
  "bid_hashes (e # es) = (case e of auction_event.AuctionBid m p \<Rightarrow> [em_txHash m] | _ \<Rightarrow> []) @ bid_hashes es"
  by (simp add: bid_hashes_def)

lemma bid_log_bids: "map snd (bid_log i es) = bids_on i es"
  by (induction es) (auto simp: bid_log_def bids_on_def split: auction_event.split)

lemma bid_log_hash: "(m, p) \<in> set (bid_log i es) \<Longrightarrow> em_txHash m \<in> set (bid_hashes es) \<and> bp_alpId p = i"
  by (induction es) (auto simp: bid_log_def bid_hashes_def split: auction_event.splits if_splits)

lemma bid_log_distinct: "distinct (bid_hashes es) \<Longrightarrow> distinct (map (\<lambda>(m, p). em_txHash m) (bid_log i es))"
proof (induction es)
  case (Cons e es)
  then have ih: "distinct (map (\<lambda>(m, p). em_txHash m) (bid_log i es))"
    by (cases e) (auto simp: bid_hashes_def)
  show ?case
  proof (cases e)
    case (AuctionBid m p)
    then have "em_txHash m \<notin> set (bid_hashes es)" using Cons.prems by (simp add: bid_hashes_def)
    then have "em_txHash m \<notin> (\<lambda>(m, p). em_txHash m) ` set (bid_log i es)" using bid_log_hash by fastforce
    with ih AuctionBid show ?thesis by (auto simp: bid_log_def)
  qed (use ih in \<open>simp_all add: bid_log_def\<close>)
qed (simp add: bid_log_def)

lemma bid_tables [simp]:
  "st_bids (save_auction a s) = st_bids s" "st_bids (save_bid k b s) = (st_bids s)(k \<mapsto> b)"
  "st_bids (log_error l s) = st_bids s" "st_bids (snd (getOrCreateAccount x s)) = st_bids s"
  by (simp_all add: save_defs getOrCreateAccount_def Let_def split: option.splits)

lemma handle_auction_bids:
  assumes "auctions_keyed s"
  shows "st_bids (handle_auction e s) =
    (case e of
       auction_event.AuctionBid m p \<Rightarrow>
         if st_auctions s (show_nat (bp_alpId p)) = None then st_bids s
         else (st_bids s)(em_txHash m \<mapsto> indexed_bid m p)
     | _ \<Rightarrow> st_bids s)"
proof -
  have acc: "ac_id (fst (getOrCreateAccount x s)) = x" for x
    using assms by (auto simp: auctions_keyed_def account_at_load intro: account_at_id)
  have ids: "au_id b = k \<and> au_alp b = k" if "st_auctions s k = Some b" for k b
    using assms that by (auto simp: auctions_keyed_def)
  show ?thesis
    using acc ids
    by (cases e) (auto simp: handleAuctionCreated_def handleAuctionBid_def handleAuctionExtended_def indexed_bid_def
        handleAuctionSettled_def Let_def case_prod_unfold split: option.splits)
qed

lemma auctions_stay:
  assumes "auctions_keyed s" "st_auctions s k \<noteq> None"
  shows "st_auctions (handle_auction e s) k \<noteq> None"
  using assms by (cases e) (auto simp: handleAuctionCreated_def handleAuctionBid_def handleAuctionExtended_def
      handleAuctionSettled_def Let_def case_prod_unfold split: option.splits)

lemma bid_log_Cons: "bid_log i (e # es) = bid_log i [e] @ bid_log i es"
  by (simp add: bid_log_def)

text \<open>The bids stored for an auction are those indexed since, each under its transaction.\<close>

lemma indexed_bids:
  assumes "auctions_keyed s" "st_auctions s (show_nat i) \<noteq> None" "distinct (bid_hashes es)"
    and "\<And>h b. st_bids s h = Some b \<Longrightarrow> bd_auction b = show_nat i \<Longrightarrow> h \<notin> set (bid_hashes es)"
  shows "st_bids (fold handle_auction es s) h = Some b \<and> bd_auction b = show_nat i \<longleftrightarrow>
     st_bids s h = Some b \<and> bd_auction b = show_nat i
     \<or> (\<exists>(m, p)\<in>set (bid_log i es). h = em_txHash m \<and> b = indexed_bid m p)"
  using assms
proof (induction es arbitrary: s)
  case (Cons e es)
  define t where "t = handle_auction e s"
  have dist: "distinct (bid_hashes es)" using Cons.prems(3) by simp
  have bids: "st_bids t = (case e of
       auction_event.AuctionBid m p \<Rightarrow>
         if st_auctions s (show_nat (bp_alpId p)) = None then st_bids s
         else (st_bids s)(em_txHash m \<mapsto> indexed_bid m p)
     | _ \<Rightarrow> st_bids s)"
    unfolding t_def by (rule handle_auction_bids [OF Cons.prems(1)])
  have fresh: "h \<notin> set (bid_hashes es)" if "st_bids t h = Some b" "bd_auction b = show_nat i" for h b
    using that Cons.prems(3) Cons.prems(4) [of h b]
    by (auto simp: bids split: auction_event.splits if_splits)
  have here: "st_bids t h = Some b \<and> bd_auction b = show_nat i \<longleftrightarrow>
      st_bids s h = Some b \<and> bd_auction b = show_nat i
      \<or> (\<exists>(m, p)\<in>set (bid_log i [e]). h = em_txHash m \<and> b = indexed_bid m p)" for h b
    using Cons.prems(2) Cons.prems(4) [of h b]
    by (auto simp: bids bid_log_def indexed_bid_def split: auction_event.splits if_splits)
  have "st_bids (fold handle_auction es t) h = Some b \<and> bd_auction b = show_nat i \<longleftrightarrow>
     st_bids t h = Some b \<and> bd_auction b = show_nat i
     \<or> (\<exists>(m, p)\<in>set (bid_log i es). h = em_txHash m \<and> b = indexed_bid m p)"
    unfolding t_def
  proof (rule Cons.IH [OF handle_auction_keyed [OF Cons.prems(1)] auctions_stay [OF Cons.prems(1,2)] dist])
    show "\<And>h b. st_bids (handle_auction e s) h = Some b \<Longrightarrow> bd_auction b = show_nat i \<Longrightarrow> h \<notin> set (bid_hashes es)"
      using fresh unfolding t_def by blast
  qed
  then show ?case unfolding here fold_simps t_def [symmetric] by (auto simp: bid_log_Cons [of i e es])
qed (simp add: bid_log_def)

section \<open>The node's answer\<close>

text \<open>
  What the node answers for an auction is what it stores, numbers as strings that \<open>BigNumber.from\<close> (\<open>bn\<close>) reads,
  and the bids derived from the field \<open>auction\<close> of each bid, in any order.
\<close>

definition answers_bid :: "(string \<Rightarrow> int option) \<Rightarrow> store \<Rightarrow> subgraph_bid \<Rightarrow> bool" where
  "answers_bid bn s x \<longleftrightarrow>
     (\<exists>b. st_bids s (gb_id x) = Some b \<and> bn (gb_amount x) = Some (bd_amount b)
        \<and> bn (gb_blockTimestamp x) = Some (bd_blockTimestamp b) \<and> bd_bidder b = Some (gb_bidder x))"

definition answers_auction :: "(string \<Rightarrow> int option) \<Rightarrow> store \<Rightarrow> nat \<Rightarrow> subgraph_auction \<Rightarrow> bool" where
  "answers_auction bn s i g \<longleftrightarrow>
     bn (ga_id g) = Some (int i)
     \<and> (\<exists>a. st_auctions s (show_nat i) = Some a \<and> ga_bidder g = au_bidder a \<and> bn (ga_amount g) = Some (au_amount a)
          \<and> bn (ga_startTime g) = Some (au_startTime a) \<and> bn (ga_endTime g) = Some (au_endTime a))
     \<and> distinct (map gb_id (ga_bids g)) \<and> (\<forall>x\<in>set (ga_bids g). answers_bid bn s x)
     \<and> (\<forall>h. h \<in> gb_id ` set (ga_bids g) \<longleftrightarrow> (\<exists>b. st_bids s h = Some b \<and> bd_auction b = show_nat i))"

text \<open>The whole answer: it parses, and its only entry for this auction is right.\<close>

definition answers :: "(string \<Rightarrow> int option) \<Rightarrow> store \<Rightarrow> nat \<Rightarrow> subgraph_auction list \<Rightarrow> bool" where
  "answers bn s i gs \<longleftrightarrow>
     (\<forall>g\<in>set gs. past_auction bn g \<noteq> None) \<and> (\<exists>g\<in>set gs. bn (ga_id g) = Some (int i))
     \<and> (\<forall>g\<in>set gs. bn (ga_id g) = Some (int i) \<longrightarrow> answers_auction bn s i g)"

text \<open>A bid as the application shows it.\<close>

definition shown_bid :: "event_meta \<times> auction_bid_params \<Rightarrow> bid_event" where
  "shown_bid b =
     (case b of (m, p) \<Rightarrow>
        \<lparr>be_alpId = int (bp_alpId p), be_sender = bp_sender p, be_value = bp_value p, be_extended = False,
         be_transactionHash = em_txHash m, be_timestamp = em_blockTimestamp m\<rparr>)"

lemma deserialized_sorted: "deserializeBids bs = sort_key (\<lambda>b. - be_timestamp b) bs"
  unfolding deserializeBids_def by (rule arg_cong [where f = "sort_key _"], rule map_idI) (simp add: deserializeBid_def)

lemma past_bids_of_answer:
  assumes "answers_auction bn t i g" "distinct (map (\<lambda>(m, p). em_txHash m) L)" "\<forall>(m, p)\<in>set L. bp_alpId p = i"
    and stored: "\<And>h b. st_bids t h = Some b \<and> bd_auction b = show_nat i \<longleftrightarrow> (\<exists>(m, p)\<in>set L. h = em_txHash m \<and> b = indexed_bid m p)"
  shows "\<exists>bs. those (map (past_bid bn g) (ga_bids g)) = Some bs \<and> mset bs = mset (map shown_bid L)"
proof -
  have one: "\<exists>e. past_bid bn g x = Some e \<and> e \<in> shown_bid ` set L \<and> be_transactionHash e = gb_id x"
    if x: "x \<in> set (ga_bids g)" for x
  proof -
    from x assms(1) obtain b where b: "st_bids t (gb_id x) = Some b" "bn (gb_amount x) = Some (bd_amount b)"
      "bn (gb_blockTimestamp x) = Some (bd_blockTimestamp b)" "bd_bidder b = Some (gb_bidder x)"
      by (auto simp: answers_auction_def answers_bid_def)
    from x assms(1) have "\<exists>c. st_bids t (gb_id x) = Some c \<and> bd_auction c = show_nat i"
      unfolding answers_auction_def by blast
    with b(1) have "bd_auction b = show_nat i" by auto
    with b(1) stored obtain m p where mp: "(m, p) \<in> set L" "gb_id x = em_txHash m" "b = indexed_bid m p" by blast
    have "bp_alpId p = i" using mp(1) assms(3) by auto
    with mp b assms(1) have "past_bid bn g x = Some (shown_bid (m, p))"
      by (simp add: past_bid_def answers_auction_def indexed_bid_def shown_bid_def)
    with mp show ?thesis by (auto simp: shown_bid_def)
  qed
  define F where "F = (\<lambda>x. the (past_bid bn g x))"
  have F: "past_bid bn g x = Some (F x) \<and> F x \<in> shown_bid ` set L \<and> be_transactionHash (F x) = gb_id x"
    if "x \<in> set (ga_bids g)" for x
    using one [OF that] by (auto simp: F_def)
  have "those (map (past_bid bn g) xs) = Some (map F xs)" if "set xs \<subseteq> set (ga_bids g)" for xs
    using that by (induction xs) (simp_all add: F)
  then have those: "those (map (past_bid bn g) (ga_bids g)) = Some (map F (ga_bids g))" by blast
  have hashes: "map be_transactionHash (map F (ga_bids g)) = map gb_id (ga_bids g)" using F by simp
  then have "distinct (map F (ga_bids g))"
    using assms(1) distinct_map [of be_transactionHash] unfolding answers_auction_def by metis
  moreover have "map be_transactionHash (map shown_bid L) = map (\<lambda>(m, p). em_txHash m) L"
    by (simp add: shown_bid_def split: prod.split)
  then have dL: "distinct (map shown_bid L)"
    using assms(2) distinct_map [of be_transactionHash "map shown_bid L"] by metis
  moreover have "set (map F (ga_bids g)) = set (map shown_bid L)"
  proof
    show "set (map F (ga_bids g)) \<subseteq> set (map shown_bid L)" using F by auto
    show "set (map shown_bid L) \<subseteq> set (map F (ga_bids g))"
    proof
      fix e assume "e \<in> set (map shown_bid L)"
      then obtain m p where mp: "(m, p) \<in> set L" "e = shown_bid (m, p)" by auto
      then have "\<exists>b. st_bids t (em_txHash m) = Some b \<and> bd_auction b = show_nat i" using stored by blast
      then obtain x where x: "x \<in> set (ga_bids g)" "gb_id x = em_txHash m"
        using assms(1) unfolding answers_auction_def by (metis imageE)
      from F [OF x(1)] obtain l where l: "l \<in> set L" "F x = shown_bid l" "be_transactionHash (F x) = em_txHash m"
        unfolding x(2) by blast
      then have "(\<lambda>(m, p). em_txHash m) l = (\<lambda>(m, p). em_txHash m) (m, p)"
        by (auto simp: shown_bid_def split: prod.splits)
      moreover have "inj_on (\<lambda>(m, p). em_txHash m) (set L)" using assms(2) by (simp add: distinct_map)
      ultimately have "l = (m, p)" using l(1) mp(1) by (metis inj_onD)
      with l(2) x(1) mp(2) show "e \<in> set (map F (ga_bids g))" by force
    qed
  qed
  ultimately have "mset (map F (ga_bids g)) = mset (map shown_bid L)" by (simp only: set_eq_iff_mset_eq_distinct)
  with those show ?thesis by blast
qed

lemma sort_latest:
  assumes "mset bs = mset xs" "sorted_wrt (<) (map be_timestamp xs)"
  shows "sort_key (\<lambda>b. - be_timestamp b) bs = rev xs"
proof (rule sort_key_inj_key_eq)
  show "mset bs = mset (rev xs)" using assms(1) by simp
  have "inj_on be_timestamp (set xs)" using assms(2) by (metis distinct_map strict_sorted_iff)
  then show "inj_on (\<lambda>b. - be_timestamp b) (set bs)"
    using mset_eq_setD [OF assms(1)] by (simp add: inj_on_def)
  show "sorted (map (\<lambda>b. - be_timestamp b) (rev xs))"
    using assms(2) by (simp add: sorted_wrt_map sorted_wrt_rev sorted_map) (rule sorted_wrt_mono_rel, auto)
qed

lemma those_member: "those (map f xs) = Some ys \<Longrightarrow> y \<in> set ys \<longleftrightarrow> (\<exists>x\<in>set xs. f x = Some y)"
  by (induction xs arbitrary: ys) (auto split: option.splits)

lemma those_total: "\<forall>x\<in>set xs. f x \<noteq> None \<Longrightarrow> \<exists>ys. those (map f xs) = Some ys"
  by (induction xs) auto

text \<open>The slice's entry for the auction is the answer's.\<close>

lemma slice_entry:
  assumes "answers bn t i gs"
  shows "\<exists>g\<in>set gs. answers_auction bn t i g
     \<and> List.find (has_auction (int i)) (addPastAuctions bn gs old) = past_auction bn g"
proof -
  from assms have "\<forall>g\<in>set gs. past_auction bn g \<noteq> None" by (simp add: answers_def)
  then obtain past where past: "reduxSafePastAuctions bn gs = Some past"
    using those_total unfolding reduxSafePastAuctions_def by blast
  have member: "x \<in> set past \<longleftrightarrow> (\<exists>g\<in>set gs. past_auction bn g = Some x)" for x
    using those_member [of "past_auction bn" gs past x] past by (simp add: reduxSafePastAuctions_def)
  have mine: "has_auction (int i) x \<longleftrightarrow> bn (ga_id g) = Some (int i)" if "past_auction bn g = Some x" for g x
    using that by (auto simp: past_auction_def has_auction_def split: option.splits)
  have "\<exists>x\<in>set past. has_auction (int i) x"
    using assms member mine unfolding answers_def by (metis option.collapse)
  then obtain x where x: "List.find (has_auction (int i)) past = Some x"
    by (metis find_None_iff option.exhaust)
  then have "x \<in> set past" "has_auction (int i) x" by (auto simp: find_Some_iff)
  then obtain g where "g \<in> set gs" "past_auction bn g = Some x" "bn (ga_id g) = Some (int i)"
    using member mine by blast
  with assms x past show ?thesis by (auto simp: answers_def addPastAuctions_def)
qed

lemma past_auction_of_answer:
  assumes "answers_auction bn t i g" "st_auctions t (show_nat i) = Some a"
    and "those (map (past_bid bn g) (ga_bids g)) = Some bs"
  shows "past_auction bn g = Some
     \<lparr>activeAuction = Some \<lparr>wa_amount = au_amount a, wa_bidder = (case au_bidder a of None \<Rightarrow> [] | Some x \<Rightarrow> x),
        wa_startTime = au_startTime a, wa_endTime = au_endTime a, wa_alpId = int i, wa_settled = False\<rparr>, bids = bs\<rparr>"
  using assms by (auto simp: past_auction_def answers_auction_def)

text \<open>What the slice holds for an auction that was created and run.\<close>

lemma slice_of_run:
  fixes s :: store and es :: "auction_event list" and i :: nat
  assumes "auctions_keyed s" "st_alps s (show_nat i) \<noteq> None" "st_auctions s (show_nat i) = None"
    and "\<forall>h b. st_bids s h = Some b \<longrightarrow> bd_auction b \<noteq> show_nat i"
    and "cp_alpId p = i" "\<forall>e\<in>set es. \<not> created_on i e" "distinct (bid_hashes es)"
    and "answers bn (fold handle_auction (auction_event.AuctionCreated m p # es) s) i gs"
  obtains raw where "mset raw = mset (map shown_bid (bid_log i es))"
    "List.find (has_auction (int i)) (addPastAuctions bn gs old) = Some \<lparr>activeAuction = Some
       \<lparr>wa_amount = (if bids_on i es = [] then 0 else bp_value (last (bids_on i es))),
        wa_bidder = (if bids_on i es = [] then [] else bp_sender (last (bids_on i es))),
        wa_startTime = cp_startTime p, wa_endTime = end_of i es (cp_endTime p), wa_alpId = int i, wa_settled = False\<rparr>,
       bids = raw\<rparr>"
proof -
  let ?c = "auction_event.AuctionCreated m p" and ?L = "bid_log i es"
  let ?t = "fold handle_auction (?c # es) s"
  obtain a where a: "st_auctions ?t (show_nat i) = Some a" "au_startTime a = cp_startTime p"
    "au_endTime a = end_of i es (cp_endTime p)"
    "au_amount a = (if bids_on i es = [] then 0 else bp_value (last (bids_on i es)))"
    "au_bidder a = (if bids_on i es = [] then None else Some (bp_sender (last (bids_on i es))))"
    using created_auction_run [OF assms(1), of p es m] assms(2,3,5,6) by auto
  have created: "st_auctions (handle_auction ?c s) (show_nat i) \<noteq> None" "st_bids (handle_auction ?c s) = st_bids s"
    using assms(2,5) by (auto simp: handleAuctionCreated_def Let_def split: option.splits)
  have stored: "st_bids ?t h = Some b \<and> bd_auction b = show_nat i \<longleftrightarrow> (\<exists>(m, p)\<in>set ?L. h = em_txHash m \<and> b = indexed_bid m p)" for h b
    using indexed_bids [OF handle_auction_keyed [OF assms(1)] created(1) assms(7), of h b] assms(4)
    unfolding created(2) by auto
  obtain g where g: "answers_auction bn ?t i g"
    "List.find (has_auction (int i)) (addPastAuctions bn gs old) = past_auction bn g"
    using slice_entry [OF assms(8)] by blast
  have alp: "\<forall>(m, p)\<in>set ?L. bp_alpId p = i" using bid_log_hash by blast
  obtain raw where raw: "those (map (past_bid bn g) (ga_bids g)) = Some raw" "mset raw = mset (map shown_bid ?L)"
    using past_bids_of_answer [OF g(1) bid_log_distinct [OF assms(7)] alp stored] by blast
  show thesis
    using that [OF raw(2)] past_auction_of_answer [OF g(1) a(1) raw(1)] g(2) a(2-5) by simp
qed

text \<open>Bids of different blocks are listed latest first, and the first row has the last bid and the trophy.\<close>

lemma listed_latest_first:
  assumes "mset raw = mset (map shown_bid ls)" "sorted_wrt (<) (map (em_blockTimestamp \<circ> fst) ls)"
  shows "deserializeBids raw = rev (map shown_bid ls)"
proof -
  have "map be_timestamp (map shown_bid ls) = map (em_blockTimestamp \<circ> fst) ls"
    by (simp add: shown_bid_def split: prod.split)
  with assms(2) have "sorted_wrt (<) (map be_timestamp (map shown_bid ls))" by (simp only:)
  from sort_latest [OF assms(1) this] show ?thesis by (simp only: deserialized_sorted)
qed

lemma trophy_row:
  assumes "bids_on i es \<noteq> []"
  shows "\<exists>rows. BidHistoryModal e w blocked ens (Some (rev (map shown_bid (bid_log i es)))) = ModalRows rows
     \<and> fst (snd (hd rows)) \<and> br_sender (snd (snd (hd rows))) = bp_sender (last (bids_on i es))
     \<and> br_amount (snd (snd (hd rows))) = TruncatedAmount (nat (bp_value (last (bids_on i es))))"
proof -
  have bids: "map snd (bid_log i es) = bids_on i es" by (rule bid_log_bids)
  then have "bid_log i es \<noteq> []" using assms by auto
  then obtain L0 m1 p1 where L: "bid_log i es = L0 @ [(m1, p1)]" by (metis rev_exhaust prod.exhaust)
  then have "last (bids_on i es) = p1"
    using bids by (metis last_map last_snoc snd_conv list.map_disc_iff snoc_eq_iff_butlast)
  then show ?thesis by (simp add: L BidHistoryModal_def modal_row_def bidItem_def shown_bid_def)
qed

section \<open>An example\<close>

definition demo_chain_bid :: "string \<Rightarrow> int \<Rightarrow> string \<Rightarrow> int \<Rightarrow> auction_event" where
  "demo_chain_bid hash time sender amount =
     auction_event.AuctionBid \<lparr>em_txHash = hash, em_txIndex = 0, em_blockNumber = time, em_blockTimestamp = time\<rparr>
       \<lparr>bp_alpId = 1, bp_sender = sender, bp_value = amount, bp_extended = False\<rparr>"

definition demo_chain :: "auction_event list" where
  "demo_chain = [demo_chain_bid ''h1'' 10 ''0xa1'' 5, demo_chain_bid ''h2'' 20 ''0xb2'' 7]"

definition demo_start :: store where
  "demo_start = save_alp (show_nat 1) \<lparr>al_seed = None, al_owner = ''0xhouse''\<rparr> empty_store"

definition demo_opening :: auction_created_params where
  "demo_opening = \<lparr>cp_alpId = 1, cp_startTime = 5, cp_endTime = 20\<rparr>"

definition demo_numerals :: "string \<Rightarrow> int option" where
  "demo_numerals = map_of [(''1'', 1), (''5'', 5), (''7'', 7), (''10'', 10), (''20'', 20)]"

definition demo_answer :: subgraph_auction where
  "demo_answer =
     \<lparr>ga_id = ''1'', ga_amount = ''7'', ga_bidder = Some ''0xb2'', ga_startTime = ''5'', ga_endTime = ''20'',
      ga_bids = [\<lparr>gb_id = ''h1'', gb_amount = ''5'', gb_blockTimestamp = ''10'', gb_bidder = ''0xa1''\<rparr>,
                 \<lparr>gb_id = ''h2'', gb_amount = ''7'', gb_blockTimestamp = ''20'', gb_bidder = ''0xb2''\<rparr>]\<rparr>"

lemma demo_start_ok: "auctions_keyed demo_start" "st_alps demo_start (show_nat 1) \<noteq> None"
  "st_auctions demo_start (show_nat 1) = None" "st_bids demo_start h \<noteq> Some b"
  by (simp_all add: demo_start_def save_alp_def tbl_put_def empty_store_def auctions_keyed_def keyed_accounts_def)

lemma demo_chain_ok: "cp_alpId demo_opening = 1" "\<forall>e\<in>set demo_chain. \<not> created_on 1 e" "distinct (bid_hashes demo_chain)"
  by (simp_all add: demo_opening_def demo_chain_def demo_chain_bid_def created_on_def bid_hashes_def)

abbreviation demo_indexed :: "event_meta \<Rightarrow> store" where
  "demo_indexed m \<equiv> fold handle_auction (auction_event.AuctionCreated m demo_opening # demo_chain) demo_start"

lemma demo_auction:
  "st_auctions (demo_indexed m) (show_nat 1) =
     Some \<lparr>au_id = show_nat 1, au_alp = show_nat 1, au_amount = 7, au_startTime = 5, au_endTime = 20,
       au_bidder = Some ''0xb2'', au_settled = False\<rparr>"
proof -
  let ?s = "handle_auction (auction_event.AuctionCreated m demo_opening) demo_start"
  let ?a = "\<lparr>au_id = show_nat 1, au_alp = show_nat 1, au_amount = 0, au_startTime = 5, au_endTime = 20,
       au_bidder = None, au_settled = False\<rparr>"
  have "st_auctions ?s (show_nat 1) = Some ?a"
    by (simp add: handleAuctionCreated_def demo_opening_def demo_start_def save_alp_def tbl_put_def empty_store_def Let_def)
  moreover have "st_alps ?s (show_nat 1) \<noteq> None" using demo_start_ok(2) unfolding handle_auction_alps .
  ultimately have "st_auctions (fold handle_auction demo_chain ?s) (show_nat 1) = Some (fold (auction_spec 1) demo_chain ?a)"
    by (rule handle_auctions_effect [OF handle_auction_keyed [OF demo_start_ok(1)]])
  moreover have "fold (auction_spec 1) demo_chain ?a = ?a\<lparr>au_amount := 7, au_bidder := Some ''0xb2''\<rparr>"
    by (simp add: demo_chain_def demo_chain_bid_def)
  ultimately show ?thesis by (simp del: handle_auction.simps)
qed

lemma demo_bids:
  "st_bids (demo_indexed m) h = Some b \<and> bd_auction b = show_nat 1 \<longleftrightarrow>
     (\<exists>(m, p)\<in>set (bid_log 1 demo_chain). h = em_txHash m \<and> b = indexed_bid m p)"
proof -
  let ?s = "handle_auction (auction_event.AuctionCreated m demo_opening) demo_start"
  have "st_auctions ?s (show_nat 1) \<noteq> None" "st_bids ?s = st_bids demo_start"
    using demo_start_ok(2) demo_chain_ok(1) by (auto simp: handleAuctionCreated_def Let_def split: option.splits)
  then show ?thesis
    using indexed_bids [where s = ?s and i = 1 and es = demo_chain and h = h and b = b,
        OF handle_auction_keyed [OF demo_start_ok(1)]] demo_start_ok(4) demo_chain_ok(3)
    by auto
qed

lemma demo_log: "bid_log 1 demo_chain =
    [(\<lparr>em_txHash = ''h1'', em_txIndex = 0, em_blockNumber = 10, em_blockTimestamp = 10\<rparr>,
      \<lparr>bp_alpId = 1, bp_sender = ''0xa1'', bp_value = 5, bp_extended = False\<rparr>),
     (\<lparr>em_txHash = ''h2'', em_txIndex = 0, em_blockNumber = 20, em_blockTimestamp = 20\<rparr>,
      \<lparr>bp_alpId = 1, bp_sender = ''0xb2'', bp_value = 7, bp_extended = False\<rparr>)]"
  by (simp add: bid_log_def demo_chain_def demo_chain_bid_def)

lemma demo_answers: "answers demo_numerals (demo_indexed m) 1 [demo_answer]"
proof -
  have one: "(\<exists>b. st_bids (demo_indexed m) h = Some b \<and> bd_auction b = show_nat 1) \<longleftrightarrow> h = ''h1'' \<or> h = ''h2''" for h
    unfolding demo_bids demo_log by auto
  have "\<forall>(n, p)\<in>set (bid_log 1 demo_chain). st_bids (demo_indexed m) (em_txHash n) = Some (indexed_bid n p)"
    using demo_bids [of m] by blast
  then have two: "st_bids (demo_indexed m) ''h1'' \<noteq> None \<and> st_bids (demo_indexed m) ''h2'' \<noteq> None
      \<and> bd_amount (the (st_bids (demo_indexed m) ''h1'')) = 5 \<and> bd_amount (the (st_bids (demo_indexed m) ''h2'')) = 7
      \<and> bd_blockTimestamp (the (st_bids (demo_indexed m) ''h1'')) = 10
      \<and> bd_blockTimestamp (the (st_bids (demo_indexed m) ''h2'')) = 20
      \<and> bd_bidder (the (st_bids (demo_indexed m) ''h1'')) = Some ''0xa1''
      \<and> bd_bidder (the (st_bids (demo_indexed m) ''h2'')) = Some ''0xb2''"
    unfolding demo_log by (simp add: indexed_bid_def del: fold_simps)
  then have "\<forall>x\<in>set (ga_bids demo_answer). answers_bid demo_numerals (demo_indexed m) x"
    by (auto simp: demo_answer_def answers_bid_def demo_numerals_def simp del: fold_simps)
  moreover have "past_auction demo_numerals demo_answer \<noteq> None"
    by (simp add: past_auction_def past_bid_def demo_answer_def demo_numerals_def)
  ultimately show ?thesis
    unfolding answers_def answers_auction_def demo_auction one
    by (simp add: demo_answer_def demo_numerals_def)
qed

text \<open>The page of alp 1 while alp 2 is auctioned.\<close>

definition demo_on_display :: on_display_state where
  "demo_on_display = \<lparr>lastAuctionAlpId = Some 2, onDisplayAuctionAlpId = Some 1\<rparr>"

definition demo_current_auction :: auction_state where
  "demo_current_auction = \<lparr>activeAuction = Some \<lparr>wa_amount = 0, wa_bidder = [], wa_startTime = 30, wa_endTime = 40, wa_alpId = 2,
      wa_settled = False\<rparr>, bids = []\<rparr>"

end
