(* ===== verification/System_Proposals.thy ===== *)
theory System_Proposals
  imports Subgraph_Dao Web_Propose
begin

text \<open>
  The way of a proposal: it is written on the page (\<open>pages/CreateProposal\<close>), sent to the contract, indexed by
  the subgraph from the contract's event together with all that happens to it later (\<open>nouns-subgraph\<close>), asked
  for, and read by \<open>wrappers/nounsDao.ts\<close> into what the pages of proposals show.
\<close>

section \<open>What a proposal keeps\<close>

definition written :: "proposal \<Rightarrow> string \<times> string list \<times> int list \<times> string list \<times> string list \<times> string \<times> string \<times> int \<times> int" where
  "written pr = (pr_proposer pr, pr_targets pr, pr_values pr, pr_signatures pr, pr_calldatas pr, pr_description pr,
     pr_createdTransactionHash pr, pr_startBlock pr, pr_endBlock pr)"

lemma written_updates [simp]:
  "written (pr\<lparr>pr_status := st\<rparr>) = written pr" "written (pr\<lparr>pr_status := st, pr_executionETA := eta\<rparr>) = written pr"
  "written (count_vote sp v pr) = written pr" "written (activate pr) = written pr"
  by (simp_all add: written_def count_vote_def activate_def)

lemma update_quorum_written: "update_quorum q pr = Some pr' \<Longrightarrow> written pr' = written pr"
  by (auto simp: update_quorum_def written_def split: if_splits)

lemma handle_dao_written:
  assumes "proposals_keyed s" "handle_dao e s = Some s'" "st_proposals s (show_nat i) = Some pr" "\<not> creates i e"
  shows "\<exists>pr'. st_proposals s' (show_nat i) = Some pr' \<and> written pr' = written pr"
proof (cases "subject e")
  case None
  with handle_dao_other [OF assms(2) None assms(4)] assms(3) show ?thesis by simp
next
  case (Some j)
  obtain q q' where q: "st_proposals s (show_nat j) = Some q" "st_proposals s' = (st_proposals s)(show_nat j \<mapsto> q')"
    using handle_dao_subject [OF assms(1,2) Some] by blast
  then have "pr_id q = show_nat j" using assms(1) by (simp add: proposals_keyed_def)
  then have "written (the (st_proposals s' (show_nat j))) = written q"
    using assms(2) Some q(1)
    by (cases e) (auto simp: handler_defs Let_def case_prod_unfold update_quorum_fields dest: update_quorum_written)
  with q assms(3) show ?thesis by auto
qed

lemma run_written:
  assumes "proposals_keyed s" "run_dao es s = Some s'" "st_proposals s (show_nat i) = Some pr"
    and "\<forall>e\<in>set es. \<not> creates i e"
  shows "\<exists>pr'. st_proposals s' (show_nat i) = Some pr' \<and> written pr' = written pr"
  using assms
proof (induction es arbitrary: s pr)
  case (Cons e es)
  obtain s1 where s1: "handle_dao e s = Some s1" "run_dao es s1 = Some s'"
    using Cons.prems(2) by (auto split: bind_splits)
  obtain pr1 where pr1: "st_proposals s1 (show_nat i) = Some pr1" "written pr1 = written pr"
    using handle_dao_written [OF Cons.prems(1) s1(1) Cons.prems(3)] Cons.prems(4) by auto
  from Cons.IH [OF handle_dao_keyed [OF Cons.prems(1) s1(1)] s1(2) pr1(1)] Cons.prems(4) pr1(2)
  show ?case by auto
qed simp

lemma created_proposal_stored:
  assumes "handle_dao (ProposalCreated m p) s = Some s1" "keyed_delegates (st_delegates s)"
  shows "\<exists>pr. st_proposals s1 (show_nat (proposal_created_params.pc_id p)) = Some pr
    \<and> written pr = (proposal_created_params.pc_proposer p, proposal_created_params.pc_targets p, proposal_created_params.pc_values p, proposal_created_params.pc_signatures p, proposal_created_params.pc_calldatas p,
        unescape_newlines (proposal_created_params.pc_description p), em_txHash m, proposal_created_params.pc_startBlock p,
        proposal_created_params.pc_endBlock p)
    \<and> pr_forVotes pr = 0 \<and> pr_againstVotes pr = 0 \<and> pr_abstainVotes pr = 0"
proof -
  have "dl_id (fst (getOrCreateDelegate d s')) = d" if "st_delegates s' = st_delegates s" for d s'
    using assms(2) that by (auto simp: getOrCreateDelegate_fst new_delegate_def keyed_delegates_def split: option.splits)
  moreover have "st_delegates (snd (getOrCreateProposal k s)) = st_delegates s"
      "st_delegates (note_missing_delegate d l (snd (getOrCreateProposal k s))) = st_delegates s" for d k l
    by (simp_all add: note_missing_delegate_def getOrCreateProposal_def Let_def save_defs log_error_def split: option.split)
  ultimately show ?thesis
    using assms(1) by (auto simp: handler_defs Let_def case_prod_unfold written_def)
qed

section \<open>What happens to its text\<close>

lemma unescape_is_replace: "unescape_newlines s = replace_newlines s"
  by (induction s rule: replace_newlines.induct) (simp_all add: NL_def)

lemma replace_newlines_plain: "CHR 0x5C \<notin> set s \<Longrightarrow> replace_newlines s = s"
  by (induction s rule: replace_newlines.induct) auto

lemma replaced_description:
  assumes "CHR 0x5C \<notin> set title" "body \<noteq> []"
  shows "replace_newlines (proposal_description title body) = proposal_description title (replace_newlines body)"
proof -
  obtain c cs where "body = c # cs" using assms(2) by (cases body) auto
  then show ?thesis
    using replace_newlines_prefix [of "''# '' @ title @ [NL, NL]" c cs] assms(1)
    by (simp add: proposal_description_def NL_def)
qed

lemma shown_title:
  assumes "title \<noteq> []" "\<not> is_space (hd title)" "NL \<notin> set title" "CHR 0x5C \<notin> set title" "body \<noteq> []"
    and "remove_pairs (CHR ''*'') (remove_pairs (CHR ''_'') title) = title"
  shows "proposal_title (Some (clean_description (unescape_newlines (proposal_description title body)))) = title"
proof -
  have "replace_newlines body \<noteq> []" using assms(5) replace_newlines_nonempty by (cases body) auto
  from cleaned_heading [OF assms(4) this] obtain rest where
    r: "clean_description (proposal_description title (replace_newlines body))
      = replicate 1 (CHR ''#'') @ '' '' @ title @ NL # rest" by blast
  then have "extractHashTitle (clean_description (proposal_description title (replace_newlines body))) = Some title"
    using hash_title [of 1 title rest] assms(1-3) by simp
  with r assms(6) show ?thesis
    unfolding unescape_is_replace replaced_description [OF assms(4,5)]
    by (simp add: proposal_title_def extractTitle_def removeMarkdownStyle_def removeBold_def removeItalics_def)
qed

lemma shown_text:
  assumes "CHR 0x5C \<notin> set title" "CHR 0x5C \<notin> set body" "body \<noteq> []" "\<not> is_quote (last body)"
  shows "clean_description (unescape_newlines (proposal_description title body)) = proposal_description title body"
proof -
  have plain: "CHR 0x5C \<notin> set (proposal_description title body)"
    using assms(1,2) by (simp add: proposal_description_def NL_def)
  have "last (tl (proposal_description title body)) = last body"
    using assms(3) by (simp add: proposal_description_def)
  then show ?thesis
    unfolding clean_description_def unescape_is_replace replace_newlines_plain [OF plain]
    using assms(3,4) by (simp add: strip_quotes_def proposal_description_def is_quote_def)
qed

lemma parseInt_None_show_int: "parseInt None (show_int n) = Some n"
proof (cases "n < 0")
  case True
  let ?m = "nat (- n)"
  have "parseInt None (show_nat ?m) = Some (int ?m)" by (rule parseInt_None_show_nat)
  have ds: "digits_of 10 ?m \<noteq> []" by (subst digits_of.simps) simp
  have lt: "\<forall>d\<in>set (digits_of 10 ?m). d < 10" using digits_of_bound [of 10 ?m] by simp
  then have lt16: "\<forall>d\<in>set (digits_of 10 ?m). d < 16" by auto
  have s: "show_nat ?m = map digit_char (digits_of 10 ?m)" by (simp add: show_nat_def show_base_def)
  have "drop_0x (show_nat ?m) = show_nat ?m" using drop_0x_digits [OF lt16] by (simp add: s)
  with True read_digits_chars [OF _ ds lt] show ?thesis
    by (simp add: parseInt_def show_int_def is_space_def Let_def s digits_val_of)
qed (simp add: show_int_def parseInt_None_show_nat)

section \<open>The contract's event and the node's answer\<close>

text \<open>The contract emits the arguments of the call it accepted; the node of the subgraph answers with the
  fields of the stored entity, integers in decimal and the status by its name.\<close>

definition emits :: "dao_call \<Rightarrow> proposal_created_params \<Rightarrow> bool" where
  "emits c p \<longleftrightarrow> c = Propose (proposal_created_params.pc_targets p) (proposal_created_params.pc_values p)
     (proposal_created_params.pc_signatures p) (proposal_created_params.pc_calldatas p)
     (proposal_created_params.pc_description p)"

fun status_key :: "proposal_status \<Rightarrow> string" where
  "status_key proposal_status.PENDING = ''PENDING''"
| "status_key proposal_status.ACTIVE = ''ACTIVE''"
| "status_key proposal_status.CANCELLED = ''CANCELLED''"
| "status_key proposal_status.VETOED = ''VETOED''"
| "status_key proposal_status.QUEUED = ''QUEUED''"
| "status_key proposal_status.EXECUTED = ''EXECUTED''"

fun shown_decision :: "proposal_status \<Rightarrow> proposal_state" where
  "shown_decision proposal_status.PENDING = PENDING"
| "shown_decision proposal_status.ACTIVE = ACTIVE"
| "shown_decision proposal_status.CANCELLED = CANCELLED"
| "shown_decision proposal_status.VETOED = VETOED"
| "shown_decision proposal_status.QUEUED = QUEUED"
| "shown_decision proposal_status.EXECUTED = EXECUTED"

lemma state_of_status_key: "state_of_key (status_key st) = Some (shown_decision st)"
  by (cases st) (simp_all add: state_of_key_indexed del: list.inject char.inject)

definition answers_proposal :: "store \<Rightarrow> nat \<Rightarrow> subgraph_proposal \<Rightarrow> bool" where
  "answers_proposal s i g =
     (case st_proposals s (show_nat i) of None \<Rightarrow> False | Some pr \<Rightarrow>
        sp_id g = pr_id pr \<and> sp_proposer g = pr_proposer pr \<and> td_targets g = pr_targets pr
        \<and> td_values g = Some (map show_int (pr_values pr)) \<and> td_signatures g = pr_signatures pr
        \<and> td_calldatas g = pr_calldatas pr \<and> sp_description g = Some (pr_description pr)
        \<and> sp_status g = status_key (pr_status pr) \<and> sp_forVotes g = show_int (pr_forVotes pr)
        \<and> sp_againstVotes g = show_int (pr_againstVotes pr) \<and> sp_abstainVotes g = show_int (pr_abstainVotes pr)
        \<and> sp_startBlock g = show_int (pr_startBlock pr) \<and> sp_endBlock g = show_int (pr_endBlock pr)
        \<and> sp_createdTransactionHash g = pr_createdTransactionHash pr)"

section \<open>Transactions as they were typed\<close>

text \<open>What a detail shows of a transaction as it was typed.\<close>

definition shows_typed :: "libs \<Rightarrow> proposal_transaction \<Rightarrow> proposal_detail \<Rightarrow> bool" where
  "shows_typed L t d \<longleftrightarrow>
     (let v = the (lib_from L (pt_value t)) in
      pd_target d = pt_address t
      \<and> (pt_signature t = [] \<longrightarrow> pd_functionSig d = ''transfer'' \<and> pd_callData d = lib_formatEther L v @ '' ETH'')
      \<and> (\<forall>name types. plain_name name \<longrightarrow> plain_name types \<longrightarrow> pt_signature t = name @ ''('' @ types @ '')'' \<longrightarrow>
           pd_functionSig d = name
           \<and> pd_callData d = js_join '','' (the (lib_decode L (js_split (CHR '','') types) (pt_calldata t)))
           \<and> pd_value d = Some (if v > 0 then ''{ value: '' @ lib_formatEther L v @ '' ETH }'' else [])))"

lemma details_show_typed:
  assumes "those (map (\<lambda>t. lib_from L (pt_value t)) ts) = Some vals"
    and "\<forall>n. lib_from L (show_int n) = Some n"
    and "td_targets d = map pt_address ts" "td_values d = Some (map show_int vals)"
    and "td_signatures d = map pt_signature ts" "td_calldatas d = map pt_calldata ts"
    and "formatProposalTransactionDetails L d = Some ds"
  shows "length ds = length ts \<and> (\<forall>i<length ts. shows_typed L (ts ! i) (ds ! i))"
proof -
  have vals: "map (\<lambda>t. lib_from L (pt_value t)) ts = map Some vals" using assms(1) by (simp only: those_eq_Some)
  then have len: "length vals = length ts" by (metis length_map)
  have typed: "lib_from L (pt_value (ts ! i)) = Some (vals ! i)" if "i < length ts" for i
    using arg_cong [OF vals, of "\<lambda>xs. xs ! i"] that len by simp
  have m: "map (\<lambda>(i, target). format_detail L d i target) (enumerate 0 (td_targets d)) = map Some ds"
    using assms(7) by (simp add: formatProposalTransactionDetails_def those_eq_Some)
  have lds: "length ds = length ts" using arg_cong [OF m, of length] assms(3) by simp
  have "shows_typed L (ts ! i) (ds ! i)" if i: "i < length ts" for i
  proof -
    have "format_detail L d i (td_targets d ! i) = Some (ds ! i)"
      using arg_cong [OF m, of "\<lambda>xs. xs ! i"] i lds assms(3) by (simp add: nth_enumerate_eq)
    from format_detail_shows [OF this] have "shows_transaction L d i (ds ! i)" by blast
    moreover have "lib_from L (detail_value d i) = lib_from L (pt_value (ts ! i))"
      using assms(2,4) typed [OF i] i len by (simp add: detail_value_def nth_opt_def)
    ultimately show ?thesis
      using i assms(3,5,6) by (simp add: shows_transaction_def shows_typed_def Let_def)
  qed
  with lds show ?thesis by blast
qed

lemma decisions_final: "x \<in> set (decisions i es) \<Longrightarrow>
    x \<in> {proposal_status.CANCELLED, proposal_status.VETOED, proposal_status.QUEUED, proposal_status.EXECUTED}"
proof (induction es rule: rev_induct)
  case (snoc e es)
  moreover have "decision i e = Some x \<Longrightarrow>
      x \<in> {proposal_status.CANCELLED, proposal_status.VETOED, proposal_status.QUEUED, proposal_status.EXECUTED}"
    by (cases e) (auto split: if_splits)
  ultimately show ?case by (auto simp: decisions_snoc split: option.splits)
qed (simp add: decisions_snoc)

lemma final_state:
  assumes "st \<noteq> proposal_status.PENDING" "st \<noteq> proposal_status.ACTIVE" "st \<noteq> proposal_status.QUEUED"
    and "sp_status g = status_key st"
  shows "getProposalState L block now g = Some (shown_decision st)"
  unfolding getProposalState_def assms(4) state_of_status_key Let_def using assms(1-3) by (cases st) simp_all

lemma decided_state:
  assumes "decisions i es \<noteq> []" "last (decisions i es) \<noteq> proposal_status.QUEUED"
    and "sp_status g = status_key (last (decisions i es))"
  shows "getProposalState L block now g = Some (shown_decision (last (decisions i es)))"
  using decisions_final [OF last_in_set [OF assms(1)]] assms(2,3) by (intro final_state) auto

text \<open>What is in the store after the proposal was created and whatever came later.\<close>

lemma stored_history:
  assumes "proposals_keyed s" "keyed_delegates (st_delegates s)"
    and "run_dao (ProposalCreated m p # es) s = Some t"
    and "\<forall>e\<in>set es. \<not> creates (proposal_created_params.pc_id p) e"
  obtains pr where "st_proposals t (show_nat (proposal_created_params.pc_id p)) = Some pr"
    "pr_id pr = show_nat (proposal_created_params.pc_id p)"
    "written pr = (proposal_created_params.pc_proposer p, proposal_created_params.pc_targets p,
        proposal_created_params.pc_values p, proposal_created_params.pc_signatures p, proposal_created_params.pc_calldatas p,
        unescape_newlines (proposal_created_params.pc_description p), em_txHash m, proposal_created_params.pc_startBlock p,
        proposal_created_params.pc_endBlock p)"
    "pr_forVotes pr = tally (proposal_created_params.pc_id p) 1 es"
    "pr_againstVotes pr = tally (proposal_created_params.pc_id p) 0 es"
    "pr_abstainVotes pr = tally (proposal_created_params.pc_id p) 2 es"
    "decisions (proposal_created_params.pc_id p) es \<noteq> [] \<Longrightarrow>
       pr_status pr = last (decisions (proposal_created_params.pc_id p) es)"
proof -
  let ?i = "proposal_created_params.pc_id p"
  obtain s1 where s1: "handle_dao (ProposalCreated m p) s = Some s1" "run_dao es s1 = Some t"
    using assms(3) by (auto split: bind_splits)
  have keyed: "proposals_keyed s1" by (rule handle_dao_keyed [OF assms(1) s1(1)])
  obtain pr where pr: "st_proposals s1 (show_nat ?i) = Some pr" "written pr =
      (proposal_created_params.pc_proposer p, proposal_created_params.pc_targets p,
        proposal_created_params.pc_values p, proposal_created_params.pc_signatures p, proposal_created_params.pc_calldatas p,
        unescape_newlines (proposal_created_params.pc_description p), em_txHash m, proposal_created_params.pc_startBlock p,
        proposal_created_params.pc_endBlock p)"
    "pr_forVotes pr = 0" "pr_againstVotes pr = 0" "pr_abstainVotes pr = 0"
    using created_proposal_stored [OF s1(1) assms(2)] by blast
  from run_follows [OF keyed s1(2) pr(1) assms(4)] obtain pr1 where pr1: "st_proposals t (show_nat ?i) = Some pr1"
    "pr_forVotes pr1 = tally ?i 1 es" "pr_againstVotes pr1 = tally ?i 0 es" "pr_abstainVotes pr1 = tally ?i 2 es"
    "pr_status pr1 = fold (status_after ?i) es (pr_status pr)"
    using pr(3-5) by auto
  have "written pr1 = written pr" using run_written [OF keyed s1(2) pr(1) assms(4)] pr1(1) by auto
  moreover have "proposals_keyed t" using keyed s1(2)
    by (induction es arbitrary: s1) (auto split: bind_splits dest: handle_dao_keyed)
  then have "pr_id pr1 = show_nat ?i" using pr1(1) by (simp add: proposals_keyed_def)
  ultimately show thesis using that pr1 pr(2) by (simp add: status_run)
qed

section \<open>A concrete proposal\<close>

definition demo_edits :: "page_event list" where
  "demo_edits = [AddTransaction \<lparr>pt_address = ''aa'', pt_value = ''5'', pt_signature = [], pt_calldata = ''0x''\<rparr>,
     AddTransaction \<lparr>pt_address = ''0xbb'', pt_value = ''2'', pt_signature = ''mint(uint256)'', pt_calldata = ''c0de''\<rparr>,
     RemoveTransaction 0]"

definition demo_written :: proposal_created_params where
  "demo_written =
     \<lparr>proposal_created_params.pc_id = 1, proposal_created_params.pc_proposer = ''0xa1'',
      proposal_created_params.pc_targets = [''0xbb''], proposal_created_params.pc_values = [2],
      proposal_created_params.pc_signatures = [''mint(uint256)''], proposal_created_params.pc_calldatas = [''0xc0de''],
      proposal_created_params.pc_startBlock = 200, proposal_created_params.pc_endBlock = 300,
      pc_proposalThreshold = 1, proposal_created_params.pc_quorumVotes = 2,
      proposal_created_params.pc_description = proposal_description ''Fund it'' ''Why not''\<rparr>"

definition demo_later :: "dao_event list" where
  "demo_later =
     [VoteCast sample_meta \<lparr>vc_voter = ''0xa1'', vc_proposalId = 1, vc_support = 1, vc_votes = 3, vc_reason = []\<rparr>,
      ProposalQueued \<lparr>pq_id = 1, pq_eta = 5\<rparr>, ProposalExecuted 1]"

definition demo_reader :: libs where
  "demo_reader = demo_libs\<lparr>lib_from := parseInt None\<rparr>"

definition demo_entity_of :: "proposal \<Rightarrow> subgraph_proposal" where
  "demo_entity_of pr =
     \<lparr>td_targets = pr_targets pr, td_values = Some (map show_int (pr_values pr)), td_result3 = None,
      td_signatures = pr_signatures pr, td_calldatas = pr_calldatas pr, sp_id = pr_id pr,
      sp_description = Some (pr_description pr), sp_status = status_key (pr_status pr),
      sp_forVotes = show_int (pr_forVotes pr), sp_againstVotes = show_int (pr_againstVotes pr),
      sp_abstainVotes = show_int (pr_abstainVotes pr), sp_createdBlock = show_int (pr_createdBlock pr),
      sp_createdTransactionHash = pr_createdTransactionHash pr, sp_startBlock = show_int (pr_startBlock pr),
      sp_endBlock = show_int (pr_endBlock pr), sp_executionETA = map_option show_int (pr_executionETA pr),
      sp_proposer = pr_proposer pr, sp_proposalThreshold = show_int (pr_proposalThreshold pr),
      sp_quorumVotes = show_int (pr_quorumVotes pr)\<rparr>"

lemma demo_entity_answers:
  "st_proposals t (show_nat i) = Some pr \<Longrightarrow> answers_proposal t i (demo_entity_of pr)"
  by (simp add: answers_proposal_def demo_entity_of_def)

lemma demo_later_run: "\<exists>t. run_dao (ProposalCreated sample_meta demo_written # demo_later) empty_store = Some t"
proof -
  have "\<not> Option.is_none (run_dao (ProposalCreated sample_meta demo_written # demo_later) empty_store)" by code_simp
  then show ?thesis by (auto simp: Option.is_none_def)
qed

lemma demo_sent:
  "handleCreateProposal (lib_from demo_reader) True (fold page_step demo_edits []) ''Fund it'' ''Why not''
     = Some (Some (Propose [''0xbb''] [2] [''mint(uint256)''] [''0xc0de''] (proposal_description ''Fund it'' ''Why not'')))"
proof -
  have n: "parseInt None ''2'' = Some 2" by code_simp
  show ?thesis
    by (simp add: demo_edits_def demo_reader_def handleCreateProposal_def handleAddProposalAction_def
        handleRemoveProposalAction_def prefix_0x_def propose_def n)
qed

lemma demo_reader_from: "\<forall>n. lib_from demo_reader (show_int n) = Some n"
  by (simp add: demo_reader_def parseInt_None_show_int)

lemma demo_start_keyed: "proposals_keyed empty_store" "keyed_delegates (st_delegates empty_store)"
    "\<forall>e\<in>set demo_later. \<not> creates (proposal_created_params.pc_id demo_written) e"
  by (simp_all add: proposals_keyed_def keyed_delegates_def empty_store_def demo_later_def creates_def)

lemma demo_details_shown:
  "formatProposalTransactionDetails demo_reader
     \<lparr>td_targets = [''0xbb''], td_values = Some [show_int 2], td_result3 = None, td_signatures = [''mint(uint256)''],
      td_calldatas = [''0xc0de'']\<rparr> \<noteq> None"
proof -
  have "\<not> Option.is_none (formatProposalTransactionDetails demo_reader
     \<lparr>td_targets = [''0xbb''], td_values = Some [show_int 2], td_result3 = None, td_signatures = [''mint(uint256)''],
      td_calldatas = [''0xc0de'']\<rparr>)" by code_simp
  then show ?thesis by (auto simp: Option.is_none_def)
qed

end
