(* ===== verification/System_Deployment.thy ===== *)
theory System_Deployment
  imports Configure Web_Wallet
begin

text \<open>
  From a deployment to the contracts the web application talks to: \<open>deploy\<close> and \<open>update-configs\<close> of
  \<open>nouns-contracts/tasks\<close>, the table of \<open>nouns-sdk/src/contract\<close>, and \<open>useContracts\<close> of the web application.
\<close>

text \<open>The entry of a chain as \<open>nouns-sdk/src/contract/addresses.ts\<close> reads it; \<open>None\<close> when an address is missing.\<close>

definition book_addresses :: "(string \<times> string) list \<Rightarrow> contract_addresses option" where
  "book_addresses book =
     (case those (map (map_of book) [''alpsToken'', ''alpsSeeder'', ''alpsDescriptor'', ''alpsAuctionHouseProxy'',
             ''alpsDaoExecutor'', ''alpsDAOProxy'']) of
        Some [token, seeder, descriptor, house, executor, dao] \<Rightarrow>
          Some \<lparr>ca_alpsToken = token, ca_alpsSeeder = seeder, ca_alpsDescriptor = descriptor,
                ca_alpsAuctionHouseProxy = house, ca_alpsDaoExecutor = executor, ca_alpsDAOProxy = dao\<rparr>
      | _ \<Rightarrow> None)"

definition sdk_table :: "addresses_file \<Rightarrow> jsnum \<Rightarrow> contract_addresses option" where
  "sdk_table file chainId =
     (case chainId of
        Some n \<Rightarrow> if 0 \<le> n then Option.bind (file (nat n)) book_addresses else None
      | None \<Rightarrow> None)"

lemma deploy_all_addresses:
  assumes "\<forall>c. \<not> de_fails env c" and "detect_weth (ar_weth a) chainId = Some weth"
  shows "\<exists>d. fst (deploy env chainId a typed ch) = Inr (Some d) \<and> token_wired d \<and> dao_wired d AlpsDAOLogicV1 AlpsDAOProxy
     \<and> (\<forall>c\<in>{AlpsToken, AlpsSeeder, AlpsDescriptorV2, NFTDescriptorV2, AlpsAuctionHouse, AlpsAuctionHouseProxy,
           AlpsAuctionHouseProxyAdmin, AlpsDAOExecutor, AlpsDAOProxy, AlpsDAOLogicV1}. address_of d c \<noteq> None)"
  using assms
  by (simp add: deploy_def run_deploy_def deploy_offsets_def contract_defs loop_defs Let_def
      token_wired_def dao_wired_def points_to_def argument_def numeral_eq_Suc)

lemma book_complete:
  assumes "\<forall>c\<in>{AlpsToken, AlpsSeeder, AlpsDescriptorV2, NFTDescriptorV2, AlpsAuctionHouse, AlpsAuctionHouseProxy,
      AlpsAuctionHouseProxyAdmin, AlpsDAOExecutor, AlpsDAOProxy, AlpsDAOLogicV1}. address_of d c \<noteq> None"
  shows "\<exists>book. update_configs chainId d old = Some (old(chainId \<mapsto> book)) \<and> book_addresses book = Some
     \<lparr>ca_alpsToken = the (address_of d AlpsToken), ca_alpsSeeder = the (address_of d AlpsSeeder),
      ca_alpsDescriptor = the (address_of d AlpsDescriptorV2),
      ca_alpsAuctionHouseProxy = the (address_of d AlpsAuctionHouseProxy),
      ca_alpsDaoExecutor = the (address_of d AlpsDAOExecutor), ca_alpsDAOProxy = the (address_of d AlpsDAOProxy)\<rparr>"
  using assms by (auto simp: update_configs_def address_book_def book_entry_def book_addresses_def)

end
