(* ===== verification/System_Rewards.thy ===== *)
theory System_Rewards
  imports Web_Cards Tasks_Other
begin

text \<open>
  Who gets which alp, and when: \<open>mint\<close> of \<open>AlpsToken.sol\<close>, called once for every auction that
  \<open>AlpsAuctionHouse.sol\<close> creates, against what the web application assumes of the number of an alp
  (\<open>utils/alperAlp.ts\<close>, \<open>AlperAlpContent\<close>, the birthdays and the auctions shown).
\<close>

section \<open>Minting\<close>

datatype recipient = AlpersDAO | TheCouncil | TheMinter

record minting =
  mi_current :: nat
  mi_log :: "(nat \<times> recipient \<times> int) list"  \<comment> \<open>id, first owner, time\<close>

definition mintTo :: "recipient \<Rightarrow> int \<Rightarrow> minting \<Rightarrow> minting" where
  "mintTo to t s = \<lparr>mi_current = mi_current s + 1, mi_log = mi_log s @ [(mi_current s, to, t)]\<rparr>"

text \<open>One call: perhaps a reward, then the alp that is auctioned; its id is returned.\<close>

definition mint :: "int \<Rightarrow> minting \<Rightarrow> nat \<times> minting" where
  "mint t s =
     (let s1 = (if mi_current s \<le> 14600 \<and> mi_current s mod 10 = 0 then mintTo AlpersDAO t s
                else if mi_current s \<le> 14600 \<and> mi_current s mod 5 = 0 then mintTo TheCouncil t s
                else s)
      in (mi_current s1, mintTo TheMinter t s1))"

text \<open>An auction is created: the alp's id and the time of the block are those of the auction.\<close>

fun create_auctions :: "int list \<Rightarrow> minting \<times> (nat \<times> int) list \<Rightarrow> minting \<times> (nat \<times> int) list" where
  "create_auctions [] x = x"
| "create_auctions (t # ts) (s, as) = (case mint t s of (i, s') \<Rightarrow> create_auctions ts (s', as @ [(i, t)]))"

definition chain_of :: "int list \<Rightarrow> minting \<times> (nat \<times> int) list" where
  "chain_of ts = create_auctions ts (\<lparr>mi_current = 0, mi_log = []\<rparr>, [])"

definition owner_of_id :: "nat \<Rightarrow> recipient" where
  "owner_of_id i = (if i \<le> 14600 \<and> i mod 10 = 0 then AlpersDAO else if i \<le> 14600 \<and> i mod 5 = 0 then TheCouncil else TheMinter)"

definition minted_ok :: "minting \<times> (nat \<times> int) list \<Rightarrow> bool" where
  "minted_ok x \<longleftrightarrow>
     map fst (mi_log (fst x)) = [0..<mi_current (fst x)]
     \<and> (\<forall>(i, to, t)\<in>set (mi_log (fst x)). to = owner_of_id i \<and> (to \<noteq> TheMinter \<longrightarrow> (i + 1, TheMinter, t) \<in> set (mi_log (fst x))))
     \<and> snd x = map (\<lambda>(i, to, t). (i, t)) (filter (\<lambda>(i, to, t). to = TheMinter) (mi_log (fst x)))"

lemma owner_after_reward: "i mod 5 = 0 \<Longrightarrow> owner_of_id (Suc i) = TheMinter"
proof -
  assume "i mod 5 = 0"
  then have "Suc i mod 10 \<noteq> 0" "Suc i mod 5 \<noteq> 0" by presburger+
  then show ?thesis by (simp add: owner_of_id_def)
qed

lemma reward_iff: "owner_of_id i \<noteq> TheMinter \<longleftrightarrow> i \<le> 14600 \<and> i mod 5 = 0"
proof -
  have "i mod 10 = 0 \<Longrightarrow> i mod 5 = 0" by presburger
  then show ?thesis by (auto simp: owner_of_id_def)
qed

lemma mint_cases:
  obtains (reward) to where "to \<noteq> TheMinter" "to = owner_of_id (mi_current s)" "mi_current s mod 5 = 0"
      "mint t s = (mi_current s + 1, \<lparr>mi_current = mi_current s + 2,
         mi_log = mi_log s @ [(mi_current s, to, t), (mi_current s + 1, TheMinter, t)]\<rparr>)"
  | (plain) "owner_of_id (mi_current s) = TheMinter"
      "mint t s = (mi_current s, \<lparr>mi_current = mi_current s + 1, mi_log = mi_log s @ [(mi_current s, TheMinter, t)]\<rparr>)"
proof (cases "owner_of_id (mi_current s) = TheMinter")
  case True
  then show thesis
    by (intro plain) (auto simp: mint_def mintTo_def owner_of_id_def Let_def split: if_splits)
next
  case False
  moreover have "mi_current s mod 5 = 0" using False reward_iff [of "mi_current s"] by simp
  ultimately show thesis
    by (intro reward [of "owner_of_id (mi_current s)"]) (auto simp: mint_def mintTo_def owner_of_id_def Let_def split: if_splits)
qed

lemma mint_ok:
  assumes "minted_ok (s, as)"
  shows "minted_ok (case mint t s of (i, s') \<Rightarrow> (s', as @ [(i, t)]))"
proof (cases rule: mint_cases [of s t])
  case (reward to)
  then show ?thesis
    using assms owner_after_reward [of "mi_current s"] by (auto simp: minted_ok_def)
next
  case plain
  then show ?thesis using assms by (auto simp: minted_ok_def)
qed

lemma create_auctions_ok: "minted_ok x \<Longrightarrow> minted_ok (create_auctions ts x)"
proof (induction ts arbitrary: x)
  case (Cons t ts)
  then show ?case using mint_ok [of "fst x" "snd x" t] by (cases x) (auto split: prod.splits)
qed simp

lemma chain_of_ok: "minted_ok (chain_of ts)"
  unfolding chain_of_def by (rule create_auctions_ok) (simp add: minted_ok_def)

text \<open>
  The task \<open>mint-alp\<close> takes the token of the second event of its transaction for the new alp.  One \<open>_mintTo\<close> emits the
  votes of the receiver's delegate, two transfers and the creation.
\<close>

datatype token_log = VotesChanged | TransferLog nat | CreatedLog nat

definition mint_logs :: "nat \<Rightarrow> token_log list" where
  "mint_logs tokenId = [VotesChanged, TransferLog tokenId, TransferLog tokenId, CreatedLog tokenId]"

definition mint_receipt :: "int \<Rightarrow> minting \<Rightarrow> token_log list" where
  "mint_receipt t s = concat (map mint_logs [mi_current s..<mi_current (snd (mint t s))])"

text \<open>The outer \<open>None\<close> is an exception: there is no such event, or it has no token.\<close>

definition mint_alp :: "token_log list \<Rightarrow> nat option" where
  "mint_alp events =
     (if 1 < length events then case events ! 1 of TransferLog i \<Rightarrow> Some i | CreatedLog i \<Rightarrow> Some i | VotesChanged \<Rightarrow> None
      else None)"

text \<open>It reports the first alp of the transaction: the reward, whenever there is one, instead of the alp returned.\<close>

lemma mint_alp_reports:
  "mint_alp (mint_receipt t s) = Some (mi_current s)"
  "mi_current s = fst (mint t s) \<longleftrightarrow> owner_of_id (mi_current s) = TheMinter"
proof -
  have "mi_current s < mi_current (snd (mint t s))" by (cases rule: mint_cases [of s t]) simp_all
  then show "mint_alp (mint_receipt t s) = Some (mi_current s)"
    by (simp add: mint_receipt_def upt_conv_Cons mint_logs_def mint_alp_def)
  show "mi_current s = fst (mint t s) \<longleftrightarrow> owner_of_id (mi_current s) = TheMinter"
    by (cases rule: mint_cases [of s t]) auto
qed

section \<open>The pages\<close>

text \<open>The slice of past auctions holds the auctions of the chain.\<close>

definition holds_auctions :: "(nat \<times> int) list \<Rightarrow> auction_state list \<Rightarrow> bool" where
  "holds_auctions as past \<longleftrightarrow>
     (\<forall>x\<in>set past. \<exists>a. activeAuction x = Some a \<and> (\<exists>(i, t)\<in>set as. wa_alpId a = int i \<and> wa_startTime a = t))
     \<and> (\<forall>(i, t)\<in>set as. \<exists>x\<in>set past. has_auction (int i) x)"

lemma auctions_distinct: "minted_ok x \<Longrightarrow> distinct (map fst (snd x))"
proof -
  assume x: "minted_ok x"
  let ?rewarded = "filter (\<lambda>(i, to, t). to = TheMinter) (mi_log (fst x))"
  have "distinct (map fst (mi_log (fst x)))" using x by (simp add: minted_ok_def)
  then have "distinct (map fst ?rewarded)" by (rule distinct_map_filter)
  moreover have "map fst (snd x) = map fst ?rewarded" using x by (simp add: minted_ok_def case_prod_beta comp_def)
  ultimately show ?thesis by (simp only:)
qed

lemma slice_finds:
  assumes "holds_auctions as past" "distinct (map fst as)" "(i, t) \<in> set as"
  shows "\<exists>a. findAuction (int i) past = Some (Some a) \<and> Option.bind (List.find (has_auction (int i)) past) activeAuction = Some a
    \<and> wa_startTime a = t"
proof -
  have same: "t' = t" if "(i, t') \<in> set as" for t' using assms(2,3) that by (meson eq_key_imp_eq_value)
  have "\<exists>a. findAuction (int i) xs = Some (Some a) \<and> Option.bind (List.find (has_auction (int i)) xs) activeAuction = Some a
      \<and> wa_startTime a = t"
    if "\<exists>x\<in>set xs. has_auction (int i) x"
      "\<forall>x\<in>set xs. \<exists>a. activeAuction x = Some a \<and> (\<exists>(i, t)\<in>set as. wa_alpId a = int i \<and> wa_startTime a = t)" for xs
    using that
  proof (induction xs)
    case (Cons x xs)
    obtain a j u where a: "activeAuction x = Some a" "(j, u) \<in> set as" "wa_alpId a = int j" "wa_startTime a = u"
      using Cons.prems(2) by auto
    show ?case
    proof (cases "j = i")
      case True
      with a same [of u] show ?thesis by (simp add: has_auction_def)
    next
      case False
      with a Cons show ?thesis by (simp add: has_auction_def)
    qed
  qed simp
  then show ?thesis using assms(1,3) unfolding holds_auctions_def by blast
qed

lemma multiple_of_five [simp]:
  "int k mod 5 = 0 \<longleftrightarrow> k mod 5 = 0" "int k mod 10 = 0 \<longleftrightarrow> k mod 10 = 0"
  by presburger+

lemma alper_iff: "isAlperAlp (int k) \<longleftrightarrow> k mod 5 = 0"
proof -
  have "k mod 10 = 0 \<Longrightarrow> k mod 5 = 0" by presburger
  then show ?thesis by (auto simp: isAlperAlp_def)
qed

lemma next_auction:
  assumes "minted_ok (s, as)" "k < mi_current s"
  obtains to t where "(k, to, t) \<in> set (mi_log s)" "to = owner_of_id k" "to = TheMinter \<Longrightarrow> (k, t) \<in> set as"
    "to \<noteq> TheMinter \<Longrightarrow> (k + 1, t) \<in> set as"
proof -
  note ok = assms(1) [unfolded minted_ok_def fst_conv snd_conv]
  have "k \<in> set (map fst (mi_log s))" using ok assms(2) by simp
  then obtain to t where l: "(k, to, t) \<in> set (mi_log s)" by auto
  moreover have "(k + 1, TheMinter, t) \<in> set (mi_log s)" if "to \<noteq> TheMinter" using ok l that by blast
  moreover have "(j, u) \<in> set as" if "(j, TheMinter, u) \<in> set (mi_log s)" for j u using ok that by force
  ultimately show thesis using that ok by blast
qed

text \<open>Where an alp is shown as born, on its page and in its card.\<close>

lemma reward_page:
  assumes "k mod 5 = 0" "holds_auctions as past" "distinct (map fst as)" "(k + 1, t) \<in> set as"
    and "onDisplayAuctionAlpId od = Some (int k)" "activeAuction cur = Some c" "wa_alpId c \<noteq> int k"
  shows "\<exists>a. useOnDisplayAuction cur od past = Some (Some a) \<and> wa_startTime a = t
    \<and> AlpInfoRowBirthday (int k) past = Born (t * 1000)"
proof -
  obtain b where b: "findAuction (int (k + 1)) past = Some (Some b)"
    "Option.bind (List.find (has_auction (int (k + 1))) past) activeAuction = Some b" "wa_startTime b = t"
    using slice_finds [OF assms(2-4)] by blast
  then have "past \<noteq> []" by auto
  then have "AlpInfoRowBirthday (int k) past = Born (t * 1000)"
    using assms(1) b(2,3) by (simp add: AlpInfoRowBirthday_def getAlpBirthday_def alper_iff add.commute)
  with assms(1,5-7) b(1,3) show ?thesis
    by (simp add: useOnDisplayAuction_def alper_iff generateEmptyAlperAuction_def deserializeAuction_def Let_def add.commute)
qed

lemma auction_page:
  assumes "k mod 5 \<noteq> 0" "holds_auctions as past" "distinct (map fst as)" "(k, t) \<in> set as"
    and "onDisplayAuctionAlpId od = Some (int k)" "activeAuction cur = Some c" "wa_alpId c \<noteq> int k"
  shows "\<exists>a. useOnDisplayAuction cur od past = Some (Some a) \<and> wa_startTime a = t
    \<and> AlpInfoRowBirthday (int k) past = Born (t * 1000)"
proof -
  obtain b where b: "findAuction (int k) past = Some (Some b)"
    "Option.bind (List.find (has_auction (int k)) past) activeAuction = Some b" "wa_startTime b = t"
    using slice_finds [OF assms(2-4)] by blast
  then have "past \<noteq> []" by auto
  with assms(1,5-7) b(2,3) show ?thesis
    by (simp add: useOnDisplayAuction_def alper_iff deserializeAuction_def AlpInfoRowBirthday_def getAlpBirthday_def)
qed

lemma flags_of_id:
  "alper_flags (int k) = (k mod 10 = 0, k mod 5 = 0 \<and> k mod 10 \<noteq> 0,
     if k mod 10 = 0 then FoundersBlock else if k mod 5 = 0 then CouncilBlock else NoBlock)"
  by (simp add: alper_flags_def)

lemma slice_never_throws: "holds_auctions as past \<Longrightarrow> \<exists>r. findAuction i past = Some r"
proof -
  have "\<forall>x\<in>set xs. \<exists>a. activeAuction x = Some a \<Longrightarrow> \<exists>r. findAuction i xs = Some r" for xs
    by (induction xs) (auto split: option.splits)
  then show "holds_auctions as past \<Longrightarrow> ?thesis" unfolding holds_auctions_def by blast
qed

lemma later_page:
  assumes "k mod 5 = 0" "holds_auctions as past"
    and "onDisplayAuctionAlpId od = Some (int k)" "activeAuction cur = Some c" "wa_alpId c \<noteq> int k"
  shows "\<exists>a. useOnDisplayAuction cur od past = Some (Some a) \<and> wa_amount a = 0 \<and> wa_bidder a = []"
proof -
  obtain r where "findAuction (int k + 1) past = Some r" using slice_never_throws [OF assms(2)] by blast
  with assms show ?thesis
    by (cases r) (simp_all add: useOnDisplayAuction_def alper_iff generateEmptyAlperAuction_def deserializeAuction_def
        emptyAlperAuction_def Let_def)
qed


section \<open>How long the rewards last\<close>

lemma create_auctions_snoc:
  "create_auctions (xs @ [t]) x = (case create_auctions xs x of (s, as) \<Rightarrow> case mint t s of (i, s') \<Rightarrow> (s', as @ [(i, t)]))"
proof (induction xs arbitrary: x)
  case Nil
  then show ?case by (cases x) (simp split: prod.split)
next
  case (Cons u xs)
  then show ?case by (cases x) (simp split: prod.split)
qed

lemma quarters:
  "(n + 3) div 4 = (if n mod 4 = 0 then n div 4 else n div 4 + 1)" "(n + (n + 3) div 4) mod 5 = 0 \<longleftrightarrow> n mod 4 = (0 :: nat)"
proof -
  obtain q r where n: "n = 4 * q + r" "r < 4" by (metis mult_div_mod_eq mod_less_divisor zero_less_numeral)
  have m: "n mod 4 = r" "n div 4 = q" using n by simp_all
  consider "r = 0" | "r = 1" | "r = 2" | "r = 3" using n(2) by linarith
  then have d: "(n + 3) div 4 = (if r = 0 then q else q + 1)" by cases (simp_all add: n(1))
  then show "(n + 3) div 4 = (if n mod 4 = 0 then n div 4 else n div 4 + 1)" by (simp add: m)
  have "n + (n + 3) div 4 = 5 * q + (if r = 0 then 0 else r + 1)" using d n(1) by simp
  then have "(n + (n + 3) div 4) mod 5 = (if r = 0 then 0 else r + 1) mod 5" by simp
  with n(2) m show "(n + (n + 3) div 4) mod 5 = 0 \<longleftrightarrow> n mod 4 = 0" by simp
qed

lemma mint_numbers:
  assumes "mi_current s = n + (n + 3) div 4" "n \<le> 11680"
  shows "fst (mint t s) = n + n div 4 + 1" "mi_current (snd (mint t s)) = Suc n + (Suc n + 3) div 4"
proof -
  have c: "mi_current s \<le> 14600" using assms by simp
  have next_n: "(Suc n + 3) div 4 = n div 4 + 1" by simp
  have "fst (mint t s) = n + n div 4 + 1 \<and> mi_current (snd (mint t s)) = Suc n + (Suc n + 3) div 4"
  proof (cases rule: mint_cases [of s t])
    case (reward to)
    have "n mod 4 = 0" using reward(3) unfolding assms(1) quarters(2) .
    then have "mi_current s = n + n div 4" using assms(1) quarters(1) [of n] by simp
    with reward(4) next_n show ?thesis by simp
  next
    case plain
    then have "mi_current s mod 5 \<noteq> 0" using reward_iff [of "mi_current s"] c by simp
    then have "n mod 4 \<noteq> 0" unfolding assms(1) quarters(2) .
    then have "mi_current s = n + n div 4 + 1" using assms(1) quarters(1) [of n] by simp
    with plain(2) next_n show ?thesis by simp
  qed
  then show "fst (mint t s) = n + n div 4 + 1" "mi_current (snd (mint t s)) = Suc n + (Suc n + 3) div 4" by blast+
qed

lemma chain_numbers:
  assumes "length ts \<le> 11681"
  shows "mi_current (fst (chain_of ts)) = length ts + (length ts + 3) div 4
    \<and> snd (chain_of ts) = map (\<lambda>(n, t). (n + n div 4 + 1, t)) (enumerate 0 ts)"
  using assms
proof (induction ts rule: rev_induct)
  case Nil
  then show ?case by (simp add: chain_of_def)
next
  case (snoc t ts)
  obtain s as where x: "chain_of ts = (s, as)" by (cases "chain_of ts")
  with snoc have c: "mi_current s = length ts + (length ts + 3) div 4" "length ts \<le> 11680"
    and as: "as = map (\<lambda>(n, t). (n + n div 4 + 1, t)) (enumerate 0 ts)" by simp_all
  have "chain_of (ts @ [t]) = (case mint t s of (i, s') \<Rightarrow> (s', as @ [(i, t)]))"
    using x unfolding chain_of_def create_auctions_snoc by simp
  then show ?case
    using mint_numbers [OF c, of t] as by (simp add: enumerate_append_eq split: prod.splits)
qed

lemma create_auctions_extends:
  "\<exists>L A. mi_log (fst (create_auctions ts x)) = mi_log (fst x) @ L \<and> snd (create_auctions ts x) = snd x @ A
     \<and> mi_current (fst x) \<le> mi_current (fst (create_auctions ts x))"
proof (induction ts arbitrary: x)
  case (Cons t ts)
  obtain s as where x: "x = (s, as)" by (cases x)
  obtain i s' where m: "mint t s = (i, s')" by (cases "mint t s")
  have "\<exists>L. mi_log s' = mi_log s @ L \<and> mi_current s \<le> mi_current s'"
    using m by (cases rule: mint_cases [of s t]) auto
  then show ?case using Cons.IH [of "(s', as @ [(i, t)])"] x m by auto
qed simp

lemma chain_split:
  "chain_of (xs @ ys) = create_auctions ys (chain_of xs)"
proof (induction ys rule: rev_induct)
  case (snoc y ys)
  have "chain_of ((xs @ ys) @ [y]) = (case chain_of (xs @ ys) of (s, as) \<Rightarrow> case mint y s of (i, s') \<Rightarrow> (s', as @ [(i, y)]))"
    unfolding chain_of_def create_auctions_snoc ..
  with snoc show ?case unfolding create_auctions_snoc by simp
qed simp

text \<open>A reward is minted together with the alp of the number after it.\<close>

lemma reward_time:
  assumes "chain_of ts = (s, as)" "(i, to, t) \<in> set (mi_log s)" "to \<noteq> TheMinter" "as ! n = (i + 1, u)" "n < length as"
  shows "t = u"
proof -
  have ok: "minted_ok (s, as)" using chain_of_ok [of ts] assms(1) by simp
  have "(i + 1, TheMinter, t) \<in> set (mi_log s)" using ok assms(2,3) by (auto simp: minted_ok_def)
  then have "(i + 1, t) \<in> set as" using ok by (force simp: minted_ok_def)
  moreover have "(i + 1, u) \<in> set as" using assms(4,5) by (metis nth_mem)
  moreover have "distinct (map fst as)" using auctions_distinct [OF ok] by simp
  ultimately show ?thesis by (meson eq_key_imp_eq_value)
qed

lemma minted_iff: "minted_ok (s, as) \<Longrightarrow> (\<exists>to t. (i, to, t) \<in> set (mi_log s)) \<longleftrightarrow> i < mi_current s"
proof -
  assume "minted_ok (s, as)"
  then have "i \<in> set (map fst (mi_log s)) \<longleftrightarrow> i < mi_current s" by (simp add: minted_ok_def)
  then show ?thesis by force
qed

lemma minted_owner: "minted_ok (s, as) \<Longrightarrow> (i, to, t) \<in> set (mi_log s) \<Longrightarrow> to = owner_of_id i"
  by (auto simp: minted_ok_def)

lemma last_reward_minted:
  "(\<exists>t. (14600, AlpersDAO, t) \<in> set (mi_log (fst (chain_of ts)))) \<longleftrightarrow> 11680 < length ts"
proof -
  obtain s as where x: "chain_of ts = (s, as)" by (cases "chain_of ts")
  have ok: "minted_ok (s, as)" using chain_of_ok [of ts] x by simp
  have "owner_of_id 14600 = AlpersDAO" by (simp add: owner_of_id_def)
  then have "(\<exists>t. (14600, AlpersDAO, t) \<in> set (mi_log s)) \<longleftrightarrow> 14600 < mi_current s"
    using minted_iff [OF ok, of 14600] minted_owner [OF ok, of 14600] by metis
  moreover have "14600 < mi_current s \<longleftrightarrow> 11680 < length ts"
  proof (cases "length ts \<le> 11680")
    case True
    then have "mi_current s = length ts + (length ts + 3) div 4" using chain_numbers [of ts] x by simp
    moreover have "(length ts + 3) div 4 \<le> 2920" using div_le_mono [of "length ts + 3" 11683 4] True by simp
    ultimately show ?thesis using True by simp
  next
    case False
    let ?ts = "take 11681 ts"
    have "length ?ts = 11681" using False by simp
    then have "mi_current (fst (chain_of ?ts)) = 14602" using chain_numbers [of ?ts] by simp
    moreover have "mi_current (fst (chain_of ?ts)) \<le> mi_current s"
      using create_auctions_extends [of "drop 11681 ts" "chain_of ?ts"] chain_split [of ?ts "drop 11681 ts"] x
      by (simp only: append_take_drop_id fst_conv) (metis fst_conv)
    ultimately show ?thesis using False by simp
  qed
  ultimately show ?thesis using x by simp
qed

lemma auction_of_number:
  assumes "chain_of ts = (s, as)" "n \<le> 11680" "n < length ts"
  shows "as ! n = (n + n div 4 + 1, ts ! n) \<and> n < length as"
proof -
  let ?p = "take 11681 ts"
  have "length ?p \<le> 11681" by simp
  from conjunct2 [OF chain_numbers [OF this]]
  have p: "snd (chain_of ?p) = map (\<lambda>(n, t). (n + n div 4 + 1, t)) (enumerate 0 ?p)" .
  obtain A where "snd (chain_of ts) = snd (chain_of ?p) @ A"
    using create_auctions_extends [of "drop 11681 ts" "chain_of ?p"] chain_split [of ?p "drop 11681 ts"]
    by (simp only: append_take_drop_id) blast
  with p assms show ?thesis by (simp add: nth_append nth_enumerate_eq)
qed

lemma multiples_of_ten: "card {i. i \<le> 14600 \<and> i mod 10 = (0 :: nat)} = 1461"
proof -
  have "{i. i \<le> 14600 \<and> i mod 10 = (0 :: nat)} = (\<lambda>q. 10 * q) ` {..1460}"
  proof (intro equalityI subsetI)
    fix i :: nat
    assume "i \<in> {i. i \<le> 14600 \<and> i mod 10 = 0}"
    then have "i = 10 * (i div 10)" "i div 10 \<le> 1460" by auto
    then show "i \<in> (\<lambda>q. 10 * q) ` {..1460}" by blast
  qed auto
  moreover have "inj_on (\<lambda>q::nat. 10 * q) {..1460}" by (simp add: inj_on_def)
  ultimately show ?thesis by (simp add: card_image)
qed

text \<open>
  C40. The rewards last four years, not five.  When auctions of the default duration follow each other without a
  pause, the last reward of the founders is minted exactly four years (of 365 days) after the first alp and with the
  auction after 11680 others; nobody is rewarded later, and the founders end with 1461 alps.
\<close>

theorem rewards_last_four_years:
  assumes "ts = map (\<lambda>n. t0 + int n * ar_auctionDuration deploy_defaults) [0..<N]" "11680 < N"
  shows "(14600, AlpersDAO, t0 + 4 * (365 * 24 * 60 * 60)) \<in> set (mi_log (fst (chain_of ts)))
     \<and> (\<forall>(i, to, t)\<in>set (mi_log (fst (chain_of ts))). to \<noteq> TheMinter \<longrightarrow> t \<le> t0 + 4 * (365 * 24 * 60 * 60))
     \<and> card {i. \<exists>t. (i, AlpersDAO, t) \<in> set (mi_log (fst (chain_of ts)))} = 1461"
proof -
  obtain s as where x: "chain_of ts = (s, as)" by (cases "chain_of ts")
  have ok: "minted_ok (s, as)" using chain_of_ok [of ts] x by simp
  have time: "as ! n = (n + n div 4 + 1, t0 + int n * 10800) \<and> n < length as" if "n \<le> 11680" for n
    using auction_of_number [OF x, of n] that assms by (simp add: deploy_defaults_def)
  have reward: "t = t0 + 4 * int (i div 5) * 10800 \<and> i div 5 \<le> 2920" if "(i, to, t) \<in> set (mi_log s)" "to \<noteq> TheMinter" for i to t
  proof -
    have i: "i \<le> 14600" "i mod 5 = 0" using minted_owner [OF ok that(1)] that(2) reward_iff [of i] by auto
    then have "i = 5 * (i div 5)" "i div 5 \<le> 2920" by auto
    with time [of "4 * (i div 5)"] reward_time [OF x that, of "4 * (i div 5)"] show ?thesis by simp
  qed
  obtain t where t: "(14600, AlpersDAO, t) \<in> set (mi_log s)"
    using last_reward_minted [of ts] assms x by auto
  then have "t = t0 + 4 * (365 * 24 * 60 * 60)" using reward [of 14600 AlpersDAO t] by simp
  moreover have "{i. \<exists>t. (i, AlpersDAO, t) \<in> set (mi_log s)} = {i. i \<le> 14600 \<and> i mod 10 = 0}"
  proof -
    have "14600 < mi_current s" using minted_iff [OF ok, of 14600] t by blast
    then have "(\<exists>t. (i, AlpersDAO, t) \<in> set (mi_log s)) \<longleftrightarrow> owner_of_id i = AlpersDAO" for i
      using minted_iff [OF ok, of i] minted_owner [OF ok, of i] reward_iff [of i] by (metis le_less_trans recipient.distinct(3))
    then show ?thesis by (auto simp: owner_of_id_def split: if_splits)
  qed
  moreover have "t \<le> t0 + 4 * (365 * 24 * 60 * 60)" if "(i, to, t) \<in> set (mi_log s)" "to \<noteq> TheMinter" for i to t
    using reward [OF that] by simp
  ultimately show ?thesis using t x multiples_of_ten by auto
qed

section \<open>An example\<close>

text \<open>Five auctions: alps 0 and 5 are rewards.\<close>

definition demo_mints :: "(nat \<times> int) list" where
  "demo_mints = [(1, 100), (2, 200), (3, 300), (4, 400), (6, 500)]"

definition demo_slice :: "auction_state list" where
  "demo_slice = map (\<lambda>(i, t). \<lparr>activeAuction = Some \<lparr>wa_amount = 9, wa_bidder = ''0xa1'', wa_startTime = t, wa_endTime = t + 90,
     wa_alpId = int i, wa_settled = True\<rparr>, bids = []\<rparr>) demo_mints"

definition demo_sixth :: web_auction where
  "demo_sixth = \<lparr>wa_amount = 0, wa_bidder = [], wa_startTime = 500, wa_endTime = 590, wa_alpId = 6, wa_settled = False\<rparr>"

lemma demo_minted:
  "chain_of [100, 200, 300, 400, 500] =
     (\<lparr>mi_current = 7, mi_log = [(0, AlpersDAO, 100), (1, TheMinter, 100), (2, TheMinter, 200), (3, TheMinter, 300),
        (4, TheMinter, 400), (5, TheCouncil, 500), (6, TheMinter, 500)]\<rparr>, demo_mints)"
  by (simp add: chain_of_def mint_def mintTo_def demo_mints_def)

lemma demo_held: "holds_auctions demo_mints demo_slice"
  by (simp add: holds_auctions_def demo_mints_def demo_slice_def has_auction_def)


theorem rewards_last_four_years_witness:
  "(14600, AlpersDAO, 0 + 4 * (365 * 24 * 60 * 60)) \<in> set (mi_log (fst (chain_of
      (map (\<lambda>n. 0 + int n * ar_auctionDuration deploy_defaults) [0..<11681]))))"
proof -
  have "11680 < (11681 :: nat)" by simp
  from conjunct1 [OF rewards_last_four_years [OF refl this, of 0]] show ?thesis .
qed

end
