(* ===== verification/System_Bots.thy ===== *)
theory System_Bots
  imports Bots_Ticks Subgraph_Auction
begin

text \<open>
  From the auction house through the subgraph to the bots: the events of the house are folded into the tables, every
  tick of the loop asks for the last auction, and the handlers announce it.
\<close>

section \<open>The house and its tables\<close>

text \<open>The auctions stored under numbers, later numbers having started later.\<close>

definition stored_auction :: "store \<Rightarrow> nat \<Rightarrow> auction option" where
  "stored_auction s i = st_auctions s (show_nat i)"

definition house_ok :: "store \<Rightarrow> bool" where
  "house_ok s \<longleftrightarrow> (\<forall>k a. st_auctions s k = Some a \<longrightarrow> au_id a = k \<and> (\<exists>i. k = show_nat i))
     \<and> (\<forall>i j a b. stored_auction s i = Some a \<longrightarrow> stored_auction s j = Some b \<longrightarrow> i < j \<longrightarrow> au_startTime a < au_startTime b)"

text \<open>The indexer handles the events of the token and of the house in the order of the chain.\<close>

datatype indexed_event = House auction_event | Token token_event

fun handle_chain :: "indexed_event \<Rightarrow> store \<Rightarrow> store" where
  "handle_chain (House e) s = handle_auction e s"
| "handle_chain (Token e) s = handle_token e s"

text \<open>What the contracts emit: an auction is created for an alp that exists, with a number and a time that are larger
  than all before; everything else may happen at any moment.\<close>

definition opens_well :: "auction_event \<Rightarrow> store \<Rightarrow> bool" where
  "opens_well e s \<longleftrightarrow>
     (case e of
        AuctionCreated m p \<Rightarrow> st_alps s (show_nat (cp_alpId p)) \<noteq> None
          \<and> (\<forall>i a. stored_auction s i = Some a \<longrightarrow> i < cp_alpId p \<and> au_startTime a < cp_startTime p)
      | _ \<Rightarrow> True)"

fun chain_run :: "indexed_event list \<Rightarrow> store \<Rightarrow> bool" where
  "chain_run [] s \<longleftrightarrow> True"
| "chain_run (e # es) s \<longleftrightarrow> (case e of House h \<Rightarrow> opens_well h s | Token _ \<Rightarrow> True) \<and> chain_run es (handle_chain e s)"

fun created_ids :: "indexed_event list \<Rightarrow> nat list" where
  "created_ids [] = []"
| "created_ids (House (AuctionCreated m p) # es) = cp_alpId p # created_ids es"
| "created_ids (_ # es) = created_ids es"

text \<open>The events of the token leave the auctions alone.\<close>

lemma token_saves [simp]:
  "st_auctions (save_transferEvent k te s) = st_auctions s" "st_auctions (save_delegationEvent k de s) = st_auctions s"
  "st_auctions (save_delegate d s) = st_auctions s" "st_auctions (save_governance g s) = st_auctions s"
  "st_auctions (save_alp k a s) = st_auctions s" "st_auctions (save_seed k sd s) = st_auctions s"
  "st_auctions (save_owner k x s) = st_auctions s" "st_auctions (snd (getOrCreateDelegate x s)) = st_auctions s"
  "st_auctions (delegation_events m alps x y s) = st_auctions s"
proof -
  show "st_auctions (delegation_events m alps x y s) = st_auctions s"
    unfolding delegation_events_def by (induction alps arbitrary: s) (simp_all add: save_defs)
qed (simp_all add: save_defs save_owner_def getOrCreateDelegate_def getOrCreateDelegateWithNullOption_def getGovernanceEntity_def Let_def split: option.splits)

lemma token_parts [simp]:
  "st_auctions (represent_out k h s) = st_auctions s" "st_auctions (represent_in k d s) = st_auctions s"
  "st_auctions (snd (transfer_burn r gs)) = st_auctions (snd gs)"
  by (cases h; cases gs; simp add: represent_eqs transfer_burn_def Let_def split: option.splits)+

lemma transfer_parts [simp]:
  "st_auctions (transfer_in k a g s) = st_auctions s"
  "st_auctions (snd (snd (transfer_out k hs))) = st_auctions (snd (snd hs))"
  "st_auctions (snd (snd (transfer_debit z k hs))) = st_auctions (snd (snd hs))"
  by (cases hs; simp add: transfer_in_def transfer_out_def transfer_debit_def Let_def)+

lemma token_auctions: "st_auctions (handle_token e s) = st_auctions s"
  by (cases e) (auto simp: handleTransfer_def handleDelegateChanged_def handleDelegateVotesChanged_def handleAlpCreated_def Let_def case_prod_unfold split: option.splits)

text \<open>Any event but a creation leaves numbers and starts alone.\<close>

lemma other_events:
  assumes "\<forall>m p. e \<noteq> AuctionCreated m p" "house_ok s"
  shows "map_option au_startTime (st_auctions (handle_auction e s) k) = map_option au_startTime (st_auctions s k)"
    "map_option au_id (st_auctions (handle_auction e s) k) = map_option au_id (st_auctions s k)"
proof -
  have id: "au_id a = k" if "st_auctions s k = Some a" for k a using assms(2) that by (auto simp: house_ok_def)
  have "map_option au_startTime (st_auctions (handle_auction e s) k) = map_option au_startTime (st_auctions s k)
      \<and> map_option au_id (st_auctions (handle_auction e s) k) = map_option au_id (st_auctions s k)"
    using assms(1) id
    by (cases e) (auto simp: handleAuctionBid_def handleAuctionExtended_def handleAuctionSettled_def Let_def case_prod_unfold
        split: option.splits)
  then show "map_option au_startTime (st_auctions (handle_auction e s) k) = map_option au_startTime (st_auctions s k)"
    "map_option au_id (st_auctions (handle_auction e s) k) = map_option au_id (st_auctions s k)" by blast+
qed

lemma house_ok_maps:
  assumes "house_ok s" "\<And>k. map_option au_startTime (st_auctions t k) = map_option au_startTime (st_auctions s k)"
    "\<And>k. map_option au_id (st_auctions t k) = map_option au_id (st_auctions s k)"
  shows "house_ok t"
proof -
  have old: "\<exists>b. st_auctions s k = Some b \<and> au_startTime b = au_startTime a \<and> au_id b = au_id a" if "st_auctions t k = Some a" for k a
    using assms(2,3) [of k] that by (cases "st_auctions s k") simp_all
  show ?thesis
    unfolding house_ok_def stored_auction_def
  proof (intro conjI allI impI)
    fix k a
    assume "st_auctions t k = Some a"
    from old [OF this] obtain b where "st_auctions s k = Some b" "au_id b = au_id a" by blast
    with assms(1) show "au_id a = k" "\<exists>i. k = show_nat i" by (force simp: house_ok_def)+
  next
    fix i j :: nat and a b
    assume ij: "st_auctions t (show_nat i) = Some a" "st_auctions t (show_nat j) = Some b" "i < j"
    obtain c where c: "st_auctions s (show_nat i) = Some c" "au_startTime c = au_startTime a" using old [OF ij(1)] by blast
    obtain d where d: "st_auctions s (show_nat j) = Some d" "au_startTime d = au_startTime b" using old [OF ij(2)] by blast
    have "au_startTime c < au_startTime d" using assms(1) c(1) d(1) ij(3) by (simp add: house_ok_def stored_auction_def)
    with c(2) d(2) show "au_startTime a < au_startTime b" by simp
  qed
qed

lemma created_effect:
  assumes "st_alps s (show_nat (cp_alpId p)) \<noteq> None"
  shows "\<exists>a. st_auctions (handle_auction (AuctionCreated m p) s) = (st_auctions s)(show_nat (cp_alpId p) \<mapsto> a)
     \<and> au_id a = show_nat (cp_alpId p) \<and> au_startTime a = cp_startTime p"
  using assms by (auto simp: handleAuctionCreated_def Let_def)

lemma house_step:
  assumes "house_ok s" "opens_well e s"
  shows "house_ok (handle_auction e s)"
    "stored_auction (handle_auction e s) i \<noteq> None \<longleftrightarrow> stored_auction s i \<noteq> None \<or> (\<exists>m p. e = AuctionCreated m p \<and> cp_alpId p = i)"
proof -
  have "house_ok (handle_auction e s) \<and> (stored_auction (handle_auction e s) i \<noteq> None \<longleftrightarrow>
      stored_auction s i \<noteq> None \<or> (\<exists>m p. e = AuctionCreated m p \<and> cp_alpId p = i))"
  proof (cases "\<exists>m p. e = AuctionCreated m p")
    case True
    then obtain m p where e: "e = AuctionCreated m p" by blast
    with assms(2) [unfolded opens_well_def] have new: "st_alps s (show_nat (cp_alpId p)) \<noteq> None"
      "\<And>j b. stored_auction s j = Some b \<Longrightarrow> j < cp_alpId p \<and> au_startTime b < cp_startTime p" by auto
    obtain a where a: "st_auctions (handle_auction e s) = (st_auctions s)(show_nat (cp_alpId p) \<mapsto> a)"
      "au_id a = show_nat (cp_alpId p)" "au_startTime a = cp_startTime p"
      using created_effect [OF new(1)] unfolding e by blast
    have stored: "stored_auction (handle_auction e s) j = (if j = cp_alpId p then Some a else stored_auction s j)" for j
      using a(1) by (auto simp: stored_auction_def)
    have "house_ok (handle_auction e s)"
      unfolding house_ok_def stored
    proof (intro conjI allI impI)
      fix k b
      assume "st_auctions (handle_auction e s) k = Some b"
      then show "au_id b = k" "\<exists>i. k = show_nat i"
        using a assms(1) by (auto simp: house_ok_def split: if_splits)
    next
      fix i j b c
      assume ij: "(if i = cp_alpId p then Some a else stored_auction s i) = Some b"
        "(if j = cp_alpId p then Some a else stored_auction s j) = Some c" "i < j"
      show "au_startTime b < au_startTime c"
      proof (cases "j = cp_alpId p")
        case True
        with ij a(3) new(2) [of i b] show ?thesis by simp
      next
        case False
        with ij new(2) [of j c] have "i \<noteq> cp_alpId p" by auto
        with False ij assms(1) show ?thesis by (simp add: house_ok_def)
      qed
    qed
    moreover have "stored_auction (handle_auction e s) i \<noteq> None \<longleftrightarrow> stored_auction s i \<noteq> None \<or> cp_alpId p = i"
      unfolding stored by auto
    ultimately show ?thesis using e by auto
  next
    case False
    then have "\<forall>m p. e \<noteq> AuctionCreated m p" by blast
    note maps = other_events [OF this assms(1)]
    have "stored_auction (handle_auction e s) i \<noteq> None \<longleftrightarrow> stored_auction s i \<noteq> None"
      using maps(1) [of "show_nat i"] unfolding stored_auction_def by (metis option.map_disc_iff)
    then show ?thesis using house_ok_maps [OF assms(1) maps] False by blast
  qed
  then show "house_ok (handle_auction e s)"
    "stored_auction (handle_auction e s) i \<noteq> None \<longleftrightarrow> stored_auction s i \<noteq> None \<or> (\<exists>m p. e = AuctionCreated m p \<and> cp_alpId p = i)"
    by blast+
qed

lemma chain_step:
  assumes "house_ok s" "chain_run (e # es) s"
  shows "house_ok (handle_chain e s)"
    "stored_auction (handle_chain e s) i \<noteq> None \<longleftrightarrow> stored_auction s i \<noteq> None \<or> i \<in> set (created_ids [e])"
    "i \<in> set (created_ids [e]) \<Longrightarrow> stored_auction s j \<noteq> None \<Longrightarrow> j < i"
proof -
  have "house_ok (handle_chain e s)
    \<and> (stored_auction (handle_chain e s) i \<noteq> None \<longleftrightarrow> stored_auction s i \<noteq> None \<or> i \<in> set (created_ids [e]))
    \<and> (i \<in> set (created_ids [e]) \<longrightarrow> stored_auction s j \<noteq> None \<longrightarrow> j < i)"
  proof (cases e)
    case (Token t)
    then show ?thesis using assms(1) by (simp add: house_ok_def stored_auction_def token_auctions)
  next
    case (House h)
    with assms(2) have opens: "opens_well h s" by simp
    have ids: "i \<in> set (created_ids [e]) \<longleftrightarrow> (\<exists>m p. h = AuctionCreated m p \<and> cp_alpId p = i)"
      using House by (cases h) auto
    then show ?thesis using house_step [OF assms(1) opens] opens House by (auto simp: opens_well_def simp del: handle_auction.simps)
  qed
  then show "house_ok (handle_chain e s)"
    "stored_auction (handle_chain e s) i \<noteq> None \<longleftrightarrow> stored_auction s i \<noteq> None \<or> i \<in> set (created_ids [e])"
    "i \<in> set (created_ids [e]) \<Longrightarrow> stored_auction s j \<noteq> None \<Longrightarrow> j < i" by blast+
qed

lemma created_ids_Cons: "created_ids (e # es) = created_ids [e] @ created_ids es"
  by (cases e; cases "(case e of House h \<Rightarrow> h)") auto

lemma created_ids_one: "sorted_wrt (<) (created_ids [e])"
  by (cases e; cases "(case e of House h \<Rightarrow> h)") auto

lemma chain_fold:
  assumes "house_ok s" "chain_run es s"
  shows "house_ok (fold handle_chain es s)
    \<and> (\<forall>i. stored_auction (fold handle_chain es s) i \<noteq> None \<longleftrightarrow> stored_auction s i \<noteq> None \<or> i \<in> set (created_ids es))
    \<and> sorted_wrt (<) (created_ids es) \<and> (\<forall>i j. j \<in> set (created_ids es) \<longrightarrow> stored_auction s i \<noteq> None \<longrightarrow> i < j)"
  using assms
proof (induction es arbitrary: s)
  case (Cons e es)
  note step = chain_step [OF Cons.prems]
  have "chain_run es (handle_chain e s)" using Cons.prems(2) by simp
  note ih = Cons.IH [OF step(1) this]
  have new: "\<forall>i\<in>set (created_ids [e]). \<forall>j\<in>set (created_ids es). i < j" using ih step(2) by blast
  have stored: "stored_auction (fold handle_chain (e # es) s) i \<noteq> None
      \<longleftrightarrow> stored_auction s i \<noteq> None \<or> i \<in> set (created_ids (e # es))" for i
    using ih step(2) [of i] unfolding created_ids_Cons [of e es] by auto
  have later: "\<forall>i j. j \<in> set (created_ids (e # es)) \<longrightarrow> stored_auction s i \<noteq> None \<longrightarrow> i < j"
    using ih step(2,3) unfolding created_ids_Cons [of e es] set_append by blast
  have "sorted_wrt (<) (created_ids (e # es))"
    unfolding created_ids_Cons [of e es] sorted_wrt_append using ih new created_ids_one by blast
  with ih stored later show ?case by simp
qed simp

section \<open>What the node answers\<close>

text \<open>The auction that started last, with the bid of the highest block if there is one.\<close>

definition bots_answer :: "store \<Rightarrow> auction_bids \<Rightarrow> bool" where
  "bots_answer s x \<longleftrightarrow>
     (\<exists>a. stored_auction s (ab_id x) = Some a \<and> ab_endTime x = au_endTime a
        \<and> (\<forall>k b. st_auctions s k = Some b \<longrightarrow> au_startTime b \<le> au_startTime a))
     \<and> length (ab_bids x) \<le> 1
     \<and> (ab_bids x = [] \<longleftrightarrow> (\<forall>h y. st_bids s h = Some y \<longrightarrow> bd_auction y \<noteq> show_nat (ab_id x)))
     \<and> (\<forall>b\<in>set (ab_bids x). \<exists>y. st_bids s (bb_id b) = Some y \<and> bd_auction y = show_nat (ab_id x)
          \<and> bd_bidder y = Some (bb_bidder b) \<and> bb_amount b = show_int (bd_amount y)
          \<and> (\<forall>h z. st_bids s h = Some z \<longrightarrow> bd_auction z = show_nat (ab_id x) \<longrightarrow> bd_blockNumber z \<le> bd_blockNumber y))"

lemma answer_is_latest:
  assumes "house_ok s" "bots_answer s x"
  shows "stored_auction s (ab_id x) \<noteq> None" "stored_auction s i \<noteq> None \<Longrightarrow> i \<le> ab_id x"
proof -
  obtain a where a: "stored_auction s (ab_id x) = Some a"
    "\<And>k b. st_auctions s k = Some b \<Longrightarrow> au_startTime b \<le> au_startTime a"
    using assms(2) by (auto simp: bots_answer_def)
  then show "stored_auction s (ab_id x) \<noteq> None" by simp
  show "i \<le> ab_id x" if stored: "stored_auction s i \<noteq> None"
  proof (rule ccontr)
    assume "\<not> i \<le> ab_id x"
    moreover obtain b where b: "stored_auction s i = Some b" using stored by auto
    ultimately have "au_startTime a < au_startTime b" using assms(1) a(1) by (auto simp: house_ok_def)
    moreover have "au_startTime b \<le> au_startTime a" using a(2) b by (simp add: stored_auction_def)
    ultimately show False by simp
  qed
qed

section \<open>Ticks while every service works\<close>

definition services_up :: "auction_tick \<Rightarrow> bool" where
  "services_up t \<longleftrightarrow> at_twitter t \<and> at_discord t \<and> (\<forall>n. sv_counter (at_services t) n)
     \<and> (\<forall>i. \<exists>png. sv_png (at_services t) i = Some (Some png)) \<and> (\<forall>png. sv_upload (at_services t) png \<noteq> None)
     \<and> (\<forall>text. sv_tweet (at_services t) text \<noteq> None) \<and> (\<forall>c. sv_discord (at_services t) c)"

definition run_tick :: "auction_tick \<Rightarrow> outbox bot_world \<Rightarrow> outbox bot_world" where
  "run_tick t w = fst (processAuctionTick (auctionLifecycleHandlers (at_twitter t) (at_discord t) (at_services t))
     (sv_counter (at_services t)) (at_latest t) (at_now t) w)"

lemma run_ticks_fold: "run_ticks ts w = fold run_tick ts w"
  by (simp add: run_ticks_def run_tick_def [abs_def])

text \<open>What later phases of a tick leave alone.\<close>

definition settled :: "nat \<Rightarrow> outbox bot_world \<Rightarrow> outbox bot_world \<Rightarrow> bool" where
  "settled c w w' \<longleftrightarrow> same started_tweets w w' \<and> same (started_messages c) w w'
     \<and> cached_number w' auctionCacheKey = cached_number w auctionCacheKey"

lemma settled_trans: "settled c a b \<Longrightarrow> settled c b d \<Longrightarrow> settled c a d"
  by (simp add: settled_def same_def)

lemma settled_refl [simp]: "settled c w w"
  by (simp add: settled_def same_def)

lemma keeps_cached: "keeps w w' \<Longrightarrow> cached_number w' auctionCacheKey = cached_number w auctionCacheKey"
  by (simp add: keeps_def cached_number_def redis_string_def)

lemma settled_set:
  "k \<noteq> auctionCacheKey \<Longrightarrow> settled c w (redis_set k v w)"
  by (simp add: settled_def same_def cached_number_def redis_string_def redis_get_set)

lemma settled_counter: "settled c w (fst (incrementCounter ok n w))"
  by (simp add: settled_def same_def cached_number_def redis_string_def)

lemma settled_bid: "hs \<in> configured \<Longrightarrow> settled c w (fst (new_bid_phase hs i b w))"
proof -
  assume hs: "hs \<in> configured"
  let ?w = "updateBidCache (bb_id b) w"
  have "settled c ?w (fst (await_all (map (\<lambda>h. lh_newBid h i b) hs) ?w))"
    using configured_new_bid [OF hs refl, where i = i and b = b and w = ?w and c = c] keeps_cached by (auto simp: settled_def)
  moreover have "settled c w ?w" unfolding updateBidCache_def by (rule settled_set) (simp add: key_defs)
  ultimately show ?thesis by (simp add: new_bid_phase_def then_do_fst settled_trans)
qed

lemma settled_ending: "hs \<in> configured \<Longrightarrow> settled c w (fst (ending_soon_phase hs i w))"
proof -
  assume hs: "hs \<in> configured"
  let ?w = "updateAuctionEndingSoonCache i w"
  have "settled c ?w (fst (await_all (map (\<lambda>h. optional_call (lh_endingSoon h) i) hs) ?w))"
    using configured_ending_soon [OF hs refl, where i = i and w = ?w and c = c] keeps_cached by (auto simp: settled_def)
  moreover have "settled c w ?w" unfolding updateAuctionEndingSoonCache_def by (rule settled_set) (simp add: key_defs)
  ultimately show ?thesis by (simp add: ending_soon_phase_def then_do_fst settled_trans)
qed

text \<open>A new auction is announced everywhere, and its promise resolves.\<close>

lemma discord_send_up:
  assumes "\<forall>c. sv_discord sv c"
  shows "ob_discord (bw_out (fst (discord_send sv cs m w))) = ob_discord (bw_out w) @ map (\<lambda>c. (c, m)) cs"
    "snd (discord_send sv cs m w)"
proof -
  have "ob_discord (bw_out (fst (discord_send sv cs m w))) = ob_discord (bw_out w) @ map (\<lambda>c. (c, m)) cs
      \<and> snd (discord_send sv cs m w)"
  proof (induction cs arbitrary: w)
    case (Cons c cs)
    let ?w = "w\<lparr>bw_out := (bw_out w)\<lparr>ob_discord := ob_discord (bw_out w) @ [(c, m)]\<rparr>\<rparr>"
    have "discord_send sv (c # cs) m w = discord_send sv cs m ?w"
      using assms by (simp add: discord_send_def split: prod.splits)
    with Cons [of ?w] show ?case by simp
  qed (simp add: discord_send_def)
  then show "ob_discord (bw_out (fst (discord_send sv cs m w))) = ob_discord (bw_out w) @ map (\<lambda>c. (c, m)) cs"
    "snd (discord_send sv cs m w)" by blast+
qed

lemma announce_up:
  assumes "services_up t" "c = 0 \<or> c = 1"
  defines "hs \<equiv> auctionLifecycleHandlers (at_twitter t) (at_discord t) (at_services t)"
  shows "snd (await_all (map (\<lambda>h. lh_newAuction h i) hs) w)"
    "started_tweets (bw_out (fst (await_all (map (\<lambda>h. lh_newAuction h i) hs) w)))
       = started_tweets (bw_out w) @ [formatAuctionStartedTweetText i]"
    "started_messages c (bw_out (fst (await_all (map (\<lambda>h. lh_newAuction h i) hs) w)))
       = started_messages c (bw_out w) @ [auction_message i]"
proof -
  let ?sv = "at_services t"
  obtain png where png: "sv_png ?sv (show_nat i) = Some (Some png)" using assms(1) unfolding services_up_def by blast
  obtain media where media: "sv_upload ?sv png = Some media" using assms(1) unfolding services_up_def by blast
  obtain tid where tid: "sv_tweet ?sv (formatAuctionStartedTweetText i) = Some tid" using assms(1) unfolding services_up_def by blast
  define w1 where "w1 = fst (send_tweet (Tweet (formatAuctionStartedTweetText i) media tid) tid w)"
  have tweet: "twitter_handleNewAuction ?sv i w = (w1, True)"
    using png media tid by (simp add: twitter_handleNewAuction_def Let_def w1_def send_tweet_def)
  have up: "\<forall>c. sv_discord ?sv c" using assms(1) by (simp add: services_up_def)
  let ?d = "discord_send ?sv [0, 1] (auction_message i) w1"
  have run: "await_all (map (\<lambda>h. lh_newAuction h i) hs) w = ?d"
    using assms(1) tweet png discord_send_up(2) [OF up, of "[0, 1]" "auction_message i" w1]
    by (simp add: hs_def services_up_def auctionLifecycleHandlers_def discord_handleNewAuction_def split: prod.splits)
  have titled: "dm_title (auction_message i) = ''New Auction Discovered''" by (simp add: auction_message_def Let_def)
  show "snd (await_all (map (\<lambda>h. lh_newAuction h i) hs) w)"
    unfolding run using discord_send_up(2) [OF up] .
  have same: "started_tweets (bw_out (fst ?d)) = started_tweets (bw_out w1)" using discord_tweets [OF refl] by blast
  have "started_tweets (bw_out w1) = started_tweets (bw_out w) @ [formatAuctionStartedTweetText i]"
    using tweets_append(1) [OF send_tweet_effect(3)] by (simp add: w1_def)
  with same show "started_tweets (bw_out (fst (await_all (map (\<lambda>h. lh_newAuction h i) hs) w)))
       = started_tweets (bw_out w) @ [formatAuctionStartedTweetText i]" unfolding run by simp
  have "ob_discord (bw_out w1) = ob_discord (bw_out w)" by (simp add: w1_def send_tweet_effect(2))
  then show "started_messages c (bw_out (fst (await_all (map (\<lambda>h. lh_newAuction h i) hs) w)))
       = started_messages c (bw_out w) @ [auction_message i]"
    unfolding run started_messages_def discord_send_up(1) [OF up] using assms(2) titled by auto
qed

lemma settled_then:
  "(\<And>w. settled c w (fst (q w))) \<Longrightarrow> settled c (fst (p w)) (fst (then_do p q w))"
  by (simp add: then_do_fst)

lemma settled_seq:
  "(\<And>w. settled c w (fst (p w))) \<Longrightarrow> (\<And>w. settled c w (fst (q w))) \<Longrightarrow> settled c w (fst (then_do p q w))"
  using settled_trans by (simp add: then_do_fst) blast

lemma announcement:
  assumes "services_up t" "c = 0 \<or> c = 1" "w' = fst (new_auction_phase
      (auctionLifecycleHandlers (at_twitter t) (at_discord t) (at_services t)) (sv_counter (at_services t)) i w)"
  shows "started_tweets (bw_out w') = started_tweets (bw_out w) @ [formatAuctionStartedTweetText i]"
    "started_messages c (bw_out w') = started_messages c (bw_out w) @ [auction_message i]"
    "cached_number w' auctionCacheKey = Some (int i)"
proof -
  let ?hs = "auctionLifecycleHandlers (at_twitter t) (at_discord t) (at_services t)"
  let ?count = "incrementCounter (sv_counter (at_services t))"
  define w1 where "w1 = updateAuctionCache i (fst (?count (buildCounterName ''auctions_discovered'') w))"
  define w2 where "w2 = fst (await_all (map (\<lambda>h. lh_newAuction h i) ?hs) w1)"
  have up: "snd (?count n v)" for n and v :: "outbox bot_world"
    using assms(1) by (simp add: services_up_def incrementCounter_def)
  note announce = announce_up [OF assms(1,2), of i w1, folded w2_def]
  have w': "w' = fst (?count (buildCounterName ''auction_cache_updates'') w2)"
    using announce(1) by (simp add: assms(3) new_auction_phase_def then_do_fst up w1_def w2_def)
  have w1: "bw_out w1 = bw_out w" "cached_number w1 auctionCacheKey = Some (int i)"
    by (simp_all add: w1_def updateAuctionCache_def cached_number_set)
  from announce(2,3) w1(1) show "started_tweets (bw_out w') = started_tweets (bw_out w) @ [formatAuctionStartedTweetText i]"
    "started_messages c (bw_out w') = started_messages c (bw_out w) @ [auction_message i]" by (simp_all add: w')
  have "?hs \<in> configured" by (auto simp: configured_def)
  from configured_new_auction [OF this w2_def] have "keeps w1 w2" by blast
  from keeps_cached [OF this] w1(2) show "cached_number w' auctionCacheKey = Some (int i)"
    by (simp add: w' cached_number_def redis_string_def)
qed

lemma tick_announces:
  assumes "services_up t" "d = 0 \<or> d = 1" "at_latest t = Some x" "cached_number w auctionCacheKey = Some (int n)"
  defines "fresh \<equiv> (if n < ab_id x then [ab_id x] else [])"
  shows "started_tweets (bw_out (run_tick t w)) = started_tweets (bw_out w) @ map formatAuctionStartedTweetText fresh"
    "started_messages d (bw_out (run_tick t w)) = started_messages d (bw_out w) @ map auction_message fresh"
    "cached_number (run_tick t w) auctionCacheKey = Some (int (max n (ab_id x)))"
proof -
  let ?hs = "auctionLifecycleHandlers (at_twitter t) (at_discord t) (at_services t)"
  let ?counter = "sv_counter (at_services t)"
  let ?first = "if num_lt (getAuctionCache w) (Some (int (ab_id x))) then new_auction_phase ?hs ?counter (ab_id x) else resolved"
  have hs: "?hs \<in> configured" by (auto simp: configured_def)
  define w1 where "w1 = fst (?first w)"
  have lt: "num_lt (getAuctionCache w) (Some (int (ab_id x))) \<longleftrightarrow> n < ab_id x"
    using assms(4) by (simp add: getAuctionCache_def num_lt_def)
  have w1: "started_tweets (bw_out w1) = started_tweets (bw_out w) @ map formatAuctionStartedTweetText fresh"
    "started_messages d (bw_out w1) = started_messages d (bw_out w) @ map auction_message fresh"
    "cached_number w1 auctionCacheKey = Some (int (max n (ab_id x)))"
    using announcement [OF assms(1,2) refl, of "ab_id x" w] assms(4)
    by (simp_all add: w1_def lt fresh_def resolved_def max_def)
  have phases: "settled d v (fst ((case ab_bids x of [] \<Rightarrow> resolved
        | b # _ \<Rightarrow> if getBidCache w \<noteq> bb_id b then new_bid_phase ?hs (ab_id x) b else resolved) v))"
    "settled d v (fst ((if P then ending_soon_phase ?hs (ab_id x) else resolved) v))" for v P
    by (auto simp: resolved_def settled_bid [OF hs] settled_ending [OF hs] split: list.split)
  have "settled d w1 (run_tick t w)"
    unfolding run_tick_def processAuctionTick_def Let_def assms(3) option.case w1_def
    by (intro settled_then settled_seq settled_counter phases)
  with w1 show "started_tweets (bw_out (run_tick t w)) = started_tweets (bw_out w) @ map formatAuctionStartedTweetText fresh"
    "started_messages d (bw_out (run_tick t w)) = started_messages d (bw_out w) @ map auction_message fresh"
    "cached_number (run_tick t w) auctionCacheKey = Some (int (max n (ab_id x)))"
    by (simp_all add: settled_def same_def)
qed

section \<open>The run of chain, indexer and bots\<close>

text \<open>The events indexed before each tick, and the tick.\<close>

type_synonym watch = "(indexed_event list \<times> auction_tick) list"

fun well_served :: "watch \<Rightarrow> store \<Rightarrow> bool" where
  "well_served [] s \<longleftrightarrow> True"
| "well_served ((es, t) # rs) s \<longleftrightarrow> chain_run es s \<and> services_up t
     \<and> (case at_latest t of None \<Rightarrow> False | Some x \<Rightarrow> bots_answer (fold handle_chain es s) x)
     \<and> well_served rs (fold handle_chain es s)"

text \<open>The auctions a tick can see as new: the last of those created since the tick before.\<close>

definition newest :: "watch \<Rightarrow> nat list" where
  "newest rs = concat (map (\<lambda>(es, t). if created_ids es = [] then [] else [last (created_ids es)]) rs)"

definition knows_latest :: "store \<Rightarrow> nat \<Rightarrow> bool" where
  "knows_latest s n \<longleftrightarrow> stored_auction s n \<noteq> None \<and> (\<forall>i. stored_auction s i \<noteq> None \<longrightarrow> i \<le> n)"

lemma answer_knows: "house_ok s \<Longrightarrow> bots_answer s x \<Longrightarrow> knows_latest s (ab_id x)"
  using answer_is_latest by (auto simp: knows_latest_def)

lemma latest_after:
  assumes "house_ok s" "chain_run es s" "knows_latest s n" "knows_latest (fold handle_chain es s) m"
  shows "m = (if created_ids es = [] then n else last (created_ids es))" "n < m \<longleftrightarrow> created_ids es \<noteq> []"
proof -
  note run = chain_fold [OF assms(1,2)]
  have "m = (if created_ids es = [] then n else last (created_ids es)) \<and> (n < m \<longleftrightarrow> created_ids es \<noteq> [])"
  proof (cases "created_ids es = []")
    case True
    with run assms(3,4) have "m \<le> n" "n \<le> m" by (auto simp: knows_latest_def)
    with True show ?thesis by simp
  next
    case False
    let ?l = "last (created_ids es)"
    have l: "?l \<in> set (created_ids es)" using False by simp
    have largest: "i \<le> ?l" if "i \<in> set (created_ids es)" for i
    proof -
      have "sorted_wrt (<) (butlast (created_ids es) @ [?l])" using run False by simp
      then have "\<forall>i\<in>set (butlast (created_ids es)). i < ?l" by (simp add: sorted_wrt_append)
      moreover have "i \<in> set (butlast (created_ids es) @ [?l])" using that False by simp
      ultimately show ?thesis by auto
    qed
    have "?l \<le> m" using run l assms(4) by (auto simp: knows_latest_def)
    moreover have "m \<le> ?l"
    proof -
      have "stored_auction s m \<noteq> None \<or> m \<in> set (created_ids es)" using run assms(4) by (auto simp: knows_latest_def)
      then show ?thesis using run l largest by (meson less_imp_le)
    qed
    moreover have "n < ?l" using run l assms(3) by (auto simp: knows_latest_def)
    ultimately show ?thesis using False by simp
  qed
  then show "m = (if created_ids es = [] then n else last (created_ids es))" "n < m \<longleftrightarrow> created_ids es \<noteq> []" by blast+
qed

lemma watch_announces:
  assumes "house_ok s" "knows_latest s n" "well_served rs s" "d = 0 \<or> d = 1"
    and "cached_number w auctionCacheKey = Some (int n)"
  shows "started_tweets (bw_out (fold run_tick (map snd rs) w))
      = started_tweets (bw_out w) @ map formatAuctionStartedTweetText (newest rs)
    \<and> started_messages d (bw_out (fold run_tick (map snd rs) w))
      = started_messages d (bw_out w) @ map auction_message (newest rs)"
  using assms
proof (induction rs arbitrary: s n w)
  case Nil
  then show ?case by (simp add: newest_def)
next
  case (Cons r rs)
  obtain es t where r: "r = (es, t)" by (cases r)
  let ?s = "fold handle_chain es s"
  obtain x where x: "chain_run es s" "services_up t" "at_latest t = Some x" "bots_answer ?s x" "well_served rs ?s"
    using Cons.prems(3) by (auto simp: r split: option.splits)
  have ok: "house_ok ?s" using chain_fold [OF Cons.prems(1) x(1)] by blast
  have latest: "knows_latest ?s (ab_id x)" by (rule answer_knows [OF ok x(4)])
  note after = latest_after [OF Cons.prems(1) x(1) Cons.prems(2) latest]
  note tick = tick_announces [OF x(2) Cons.prems(4) x(3) Cons.prems(5)]
  have "max n (ab_id x) = ab_id x" using after by (auto simp: max_def split: if_splits)
  with tick(3) have "cached_number (run_tick t w) auctionCacheKey = Some (int (ab_id x))" by simp
  note ih = Cons.IH [OF ok latest x(5) Cons.prems(4) this]
  have "newest (r # rs) = (if n < ab_id x then [ab_id x] else []) @ newest rs"
    using after by (simp add: newest_def r)
  with ih tick(1,2) show ?case by (simp add: r)
qed

lemma newest_all:
  "\<forall>(es, t)\<in>set rs. length (created_ids es) \<le> 1 \<Longrightarrow> newest rs = concat (map (\<lambda>(es, t). created_ids es) rs)"
proof (induction rs)
  case (Cons r rs)
  obtain es t where r: "r = (es, t)" by (cases r)
  have "(if created_ids es = [] then [] else [last (created_ids es)]) = created_ids es"
    using Cons.prems by (cases "created_ids es") (auto simp: r)
  with Cons show ?case by (simp add: newest_def r)
qed (simp add: newest_def)

section \<open>A run of two auctions\<close>

definition demo_services :: services where
  "demo_services = \<lparr>sv_ens = (\<lambda>_. None), sv_formatEther = (\<lambda>v. v), sv_png = (\<lambda>i. Some (Some i)), sv_upload = Some,
     sv_tweet = Some, sv_discord = (\<lambda>_. True), sv_counter = (\<lambda>_. True)\<rparr>"

definition demo_house :: store where
  "demo_house = empty_store
     \<lparr>st_alps := [show_nat 1 \<mapsto> \<lparr>al_seed = None, al_owner = ''0xhouse''\<rparr>],
      st_auctions := [show_nat 0 \<mapsto> \<lparr>au_id = show_nat 0, au_alp = show_nat 0, au_amount = 0, au_startTime = 10,
        au_endTime = 20, au_bidder = None, au_settled = True\<rparr>]\<rparr>"

definition demo_answer_of :: "nat \<Rightarrow> int \<Rightarrow> auction_bids" where
  "demo_answer_of i ends = \<lparr>ab_id = i, ab_endTime = ends, ab_bids = []\<rparr>"

definition demo_tick :: "nat \<Rightarrow> int \<Rightarrow> auction_tick" where
  "demo_tick i ends = \<lparr>at_twitter = True, at_discord = True, at_services = demo_services,
     at_latest = Some (demo_answer_of i ends), at_now = 15\<rparr>"

definition demo_watch :: watch where
  "demo_watch =
     [([], demo_tick 0 20),
      ([House (AuctionCreated sample_meta \<lparr>cp_alpId = 1, cp_startTime = 30, cp_endTime = 40\<rparr>)], demo_tick 1 40)]"

lemma demo_house_ok: "house_ok demo_house" "bots_answer demo_house (demo_answer_of 0 20)"
  by (auto simp: house_ok_def stored_auction_def demo_house_def bots_answer_def demo_answer_of_def empty_store_def
      split: if_splits)

lemma demo_services_up: "services_up (demo_tick i ends)"
  by (simp add: services_up_def demo_tick_def demo_services_def)

lemma demo_watch_ok: "well_served demo_watch demo_house"
proof -
  let ?s = "handleAuctionCreated sample_meta \<lparr>cp_alpId = 1, cp_startTime = 30, cp_endTime = 40\<rparr> demo_house"
  have s: "st_auctions ?s = (st_auctions demo_house)(show_nat 1 \<mapsto> \<lparr>au_id = show_nat 1, au_alp = show_nat 1,
      au_amount = 0, au_startTime = 30, au_endTime = 40, au_bidder = None, au_settled = False\<rparr>)" "st_bids ?s = Map.empty"
    by (simp_all add: handleAuctionCreated_def Let_def demo_house_def empty_store_def save_defs)
  have "bots_answer ?s (demo_answer_of 1 40)"
    unfolding bots_answer_def stored_auction_def s by (auto simp: demo_answer_of_def demo_house_def)
  moreover have "opens_well (AuctionCreated sample_meta \<lparr>cp_alpId = 1, cp_startTime = 30, cp_endTime = 40\<rparr>) demo_house"
    by (auto simp: opens_well_def stored_auction_def demo_house_def split: if_splits)
  ultimately show ?thesis
    using demo_house_ok(2) by (simp add: demo_watch_def demo_services_up) (simp add: demo_tick_def)
qed

section \<open>Properties\<close>

text \<open>
  C14. While the services work and the indexer has handled the events of the token and of the auction house before each
  tick, bots that start with an auction in the tables announce, on Twitter and on each Discord webhook, the last auction
  opened between two ticks, each once, in the order of the chain, and nothing else; when the ticks are dense enough that no two
  auctions open between them, these are all the auctions the house opens.
\<close>

theorem every_auction_announced:
  assumes "house_ok s" "bots_answer s x" "well_served rs s" "c = 0 \<or> c = 1"
  defines "w \<equiv> run_ticks (map snd rs) (fst (setupAuction (Some x) fresh_world))"
  shows "started_tweets (bw_out w) = map formatAuctionStartedTweetText (newest rs)
    \<and> started_messages c (bw_out w) = map auction_message (newest rs)
    \<and> ((\<forall>(es, t)\<in>set rs. length (created_ids es) \<le> 1) \<longrightarrow> newest rs = concat (map (\<lambda>(es, t). created_ids es) rs))"
proof -
  let ?w = "fst (setupAuction (Some x) fresh_world)"
  have w: "bw_out ?w = empty_outbox" "cached_number ?w auctionCacheKey = Some (int (ab_id x))"
    by (simp_all add: setupAuction_def updateAuctionCache_def cached_number_set) (simp add: fresh_world_def)
  from watch_announces [OF assms(1) answer_knows [OF assms(1,2)] assms(3,4) w(2)] w(1) newest_all [of rs] show ?thesis
    by (auto simp: w_def run_ticks_fold started_tweets_def started_messages_def empty_outbox_def)
qed

theorem every_auction_announced_witness:
  "started_tweets (bw_out (run_ticks (map snd demo_watch) (fst (setupAuction (Some (demo_answer_of 0 20)) fresh_world))))
     = [formatAuctionStartedTweetText 1]"
  using every_auction_announced [OF demo_house_ok demo_watch_ok, of 0] by (simp add: demo_watch_def newest_def)

end
