(* ===== verification/Spec2Isabelle.thy ===== *)
theory Spec2Isabelle
  imports Sdk_Collection Subgraph_Auction Subgraph_Dao Bots_Ticks Web_Auction Web_Dao Configure Assets_Seed
    Web_Activity Web_Token Web_Functions Api Web_Bid Web_Propose
    Web_Vote Web_Tables Web_Quorum Web_Delegate Web_Playground Web_Chrome Web_Queries
    Web_Create_Page Web_Frames Web_Views Web_Texts Web_Layouts Web_App Tasks_Other Bots_Config
    System_Pictures System_Auctions System_Proposals System_Deployment System_Rewards System_Bots
begin

text \<open>
  A development about the TypeScript of the Alps DAO monorepo (\<open>src/packages\<close>): the programs around
  a set of contracts that auction one alp after another and let the holders govern a treasury.

  \<^bold>\<open>The system.\<close>  Five programs read the same chain.  The SDK encodes pictures into a run-length
  format and draws them as SVG; the asset scripts and the playground drive it.  The subgraph folds
  the contracts' events into tables of accounts, delegates, auctions, proposals and votes.  The bots
  poll the subgraph, compare with a cache and announce what is new.  The web application keeps
  slices of the state of the auction, of event logs and of past auctions, reads contracts and
  subgraph, and sends transactions.  The deployment tasks create and configure the contracts.

  \<^bold>\<open>Theories.\<close>  \<open>Prelude\<close> holds what all share: JavaScript's operations on strings, numerals
  (\<open>parseInt\<close>, \<open>Number\<close>, hexadecimal) and maps, the locale \<open>keyed_store\<close> of a store by key, and the
  collections of simplification rules.

  \<^item> \<open>Sdk_Image\<close>, \<open>Sdk_Svg\<close>, \<open>Sdk_Collection\<close>: \<open>nouns-sdk/src/image\<close> and \<open>nouns-assets/scripts\<close>.
    Encoding and drawing are inverse to each other: what is drawn from an encoded picture paints
    exactly its opaque pixels, for single pictures and for collections that share a colour table.
  \<^item> \<open>Assets_Seed\<close>: \<open>nouns-assets/src/utils.ts\<close>; the seed computed from a block hash is that of
    \<open>AlpsSeeder.sol\<close>, on machine words.
  \<^item> \<open>Subgraph_Store\<close>, \<open>Subgraph_Token\<close>, \<open>Subgraph_Auction\<close>, \<open>Subgraph_Dao\<close>: \<open>nouns-subgraph/src\<close>.
    Tables are maps; a handler loads copies and saves whole entities, in the order of the code.  The
    tables mirror an abstract contract: owners, delegates, the last bid, a proposal's history, the
    dynamic quorum with \<open>i32\<close> arithmetic.
  \<^item> \<open>Bots_Cache\<close>, \<open>Bots_Ticks\<close>, \<open>Bots_Config\<close>: \<open>nouns-bots/src\<close>.  A tick runs over redis, the services and the
    handlers, any of which may fail; nothing is announced twice.
  \<^item> \<open>Web_Hooks\<close>, \<open>Web_Auction\<close>, \<open>Web_Logs\<close>, \<open>Web_Token\<close>, \<open>Web_Dao\<close>, \<open>Web_Activity\<close>: slices, updaters and
    readers of \<open>nouns-webapp/src\<close> (\<open>state\<close>, \<open>hooks\<close>, \<open>wrappers\<close>, \<open>utils\<close>, \<open>index.tsx\<close>).  Reducers are
    functions of a state, hooks functions of a state and of the answers they got.
  \<^item> \<open>Web_Bid\<close>, \<open>Web_Propose\<close>, \<open>Web_Vote\<close>, \<open>Web_Tables\<close>, \<open>Web_Quorum\<close>, \<open>Web_Delegate\<close>, \<open>Web_Playground\<close>:
    the pages and forms with a state of their own, as state machines over what users, wallets and
    services do, and their agreement with the contracts' rules.
  \<^item> \<open>Web_Page\<close>: \<open>pages/Auction\<close>, the buttons and keys of \<open>AuctionNavigation\<close> and \<open>AlperAlpContent\<close>: effects run
    after renders until nothing changes; the alp shown, the address bar and the store keep in step.
  \<^item> \<open>Web_Cards\<close>, \<open>Web_Chrome\<close>: what winners, bids, hover cards, proposals, feeds, menus and the
    navigation bar show for given answers and state, the routes of \<open>App\<close> and the choice of a language.
  \<^item> \<open>Web_Vote_Page\<close>, \<open>Web_Create_Page\<close>: \<open>pages/Vote\<close> and \<open>pages/CreateProposal\<close> as wholes, each hook with
    any number of transactions under way, and their buttons against the contract's conditions.
  \<^item> \<open>Web_Frames\<close>: rows of activity and what a click on their parts opens, the timer, pictures that are
    links, the navigation bar, the wallets offered, avatars.
  \<^item> \<open>Web_Views\<close>, \<open>Web_Texts\<close>, \<open>Web_Layouts\<close>, \<open>Web_App\<close>: what components render, as trees of elements with their texts
    and what a click on them does: dialogues, menus, rows, the documentation, the list of proposals, bids, the
    delegation panel, the card of votes, the playground, the form of a transaction, the application.  The
    lemmas say that the controls shown are those with which the state machines above can be driven.
  \<^item> \<open>Web_Wallet\<close>: configuration by chain, contracts, the WalletConnect connector and the wallet's menu.
  \<^item> \<open>Web_Queries\<close>: all GraphQL queries as syntax trees, and that they fit the subgraph's schema and
    serve the readers of their answers.
  \<^item> \<open>Web_Functions\<close>, \<open>Api\<close>: the serverless functions and the metadata service.
  \<^item> \<open>Deploy\<close>, \<open>Configure\<close>, \<open>Tasks_Other\<close>: \<open>nouns-contracts/tasks\<close>: the loop that deploys with predicted
    addresses, the transactions of the configuration, and the remaining tasks.
  \<^item> \<open>System_Pictures\<close>, \<open>System_Auctions\<close>, \<open>System_Proposals\<close>, \<open>System_Deployment\<close>, \<open>System_Rewards\<close>,
    \<open>System_Bots\<close>: compositions of the parts above, from end to end; the theorems of the first four stand below.  A minted alp's seed leads to its
    picture; the events of an auction lead through the subgraph to the page of that auction; a proposal is written
    in the browser and read there again; a deployment's addresses reach the browser; the rewards of
    \<open>AlpsToken.sol\<close> are what the pages take for rewards; and the bots announce every auction the subgraph shows them.

  \<^bold>\<open>Interfaces.\<close>  \<open>keyed_store\<close> is interpreted on JavaScript maps, on the subgraph's tables and on
  redis; \<open>reducer\<close> (a step that keeps an invariant) on the slices; \<open>lifecycle\<close> (a handler that
  announces without touching the cache) on both bots.  Positions on the chain are linearly ordered by
  an instance of \<open>linorder\<close>.

  \<^bold>\<open>Conventions.\<close>  A program's names are kept; a name that clashes has a prefix or suffix.  Code that
  is not under \<open>src/\<close> (ethers, bignumber.js, redis, Apollo, the name service, GraphQL answers, the
  PNG decoder) is an argument or a field of an environment, with documented laws as hypotheses.
  \<open>None\<close> or the left side of a sum is an exception or a rejection.  Strings are lists of characters, code
  points beyond ASCII as their bytes; JavaScript's integral numbers are exact integers with \<open>None\<close>
  for \<open>NaN\<close>, fractions exact rationals (the theories say so where rounding is left out);
  \<open>BigNumber\<close> is an integer; \<open>i32\<close> and the seed's integers are words.  Concurrency is a list of
  events in an arbitrary order; within one event the code runs to its end.

  \<^bold>\<open>Termination and fuel.\<close>  Loops are recursive with a measure (the scans of a picture, the shuffle);
  the drawing loop, which does not end on numbers that are \<open>NaN\<close>, returns \<open>None\<close> then, and
  \<open>part_rects_returns_iff\<close> says exactly when it returns.  No fuel is used elsewhere.

  \<^bold>\<open>Not modelled.\<close>  The contracts themselves, apart from the rules that clients must agree with; styles, sizes, icons
  and animations of JSX, and translations of texts (a view is a value or a tree that says which parts are shown, with
  which data, and what they do; texts are the English ones); the inside of third-party dialogues, editors,
  clients and date formats, which are arguments; the wiring of providers at the start of the browser's program
  (\<open>index.tsx\<close> from line 182) and of \<open>hardhat.config.ts\<close>; tests and their helpers; tasks that only print what one call
  to the network returns.
\<close>

section \<open>Pictures\<close>

text \<open>
  C5. From PNG files to the picture of a minted alp.  Let the script encode four folders of files with
  distinct names, at most 255 pixels wide and high, into at most 256 colours, and let the module read what it
  wrote.  Whatever random number the contract draws the seed from, the application draws the alp: its picture is an SVG of
  the background the seed selects and four layers in the order body, accessory, head, glasses, and each layer
  paints exactly the opaque pixels, in their colours, of the file that the seed selects in its folder.
\<close>

theorem minted_alp_painted:
  fixes dirs :: dirs and p :: "256 word"
  assumes "files_ok dirs"
  shows "\<exists>bk a layers. asset_module (encode_script dirs) = Some bk
     \<and> getAlp btoa bk (id_palette (snd (encode_script dirs))) alpId (generateSeed p bk) = Some a
     \<and> av_image a = ''data:image/svg+xml;base64,'' @
         btoa (svg_head (encode_bgcolors ! alp_seed.sd_background (generateSeed p bk)) @
               concat (map render_rect (concat layers)) @ ''</svg>'')
     \<and> map paint layers = map (\<lambda>c. opaque_pixels (png_Image (ec_png c))) (selected dirs (generateSeed p bk))"
proof -
  obtain bk where bk: "asset_module (encode_script dirs) = Some bk" "\<forall>n\<in>set (book_counts bk). 0 < n \<and> n < 2 ^ 48"
    using module_of_files [OF assms] by blast
  let ?s = "generateSeed p bk"
  obtain layers svg where drawn: "draw_alp bk (id_palette (snd (encode_script dirs))) ?s = Some svg"
    and svg: "svg = svg_head (encode_bgcolors ! alp_seed.sd_background ?s) @ concat (map render_rect (concat layers)) @ ''</svg>''"
    and layers: "map paint layers = map (\<lambda>c. opaque_pixels (png_Image (ec_png c))) (selected dirs ?s)"
    using selected_drawn [OF assms bk(1) contract_seed_in_range [OF bk(2)]] by blast
  from drawn obtain a where "getAlp btoa bk (id_palette (snd (encode_script dirs))) alpId ?s = Some a"
    "av_image a = ''data:image/svg+xml;base64,'' @ btoa svg"
    by (simp add: getAlp_def)
  with bk(1) layers show ?thesis unfolding svg by blast
qed

theorem minted_alp_painted_witness:
  "\<exists>bk a. asset_module (encode_script sample_folders) = Some bk
     \<and> getAlp (\<lambda>s. s) bk (id_palette (snd (encode_script sample_folders))) 7 (generateSeed 5 bk) = Some a"
  using minted_alp_painted [OF sample_folders_ok, of "\<lambda>s. s" 7 5] by blast

section \<open>Auctions\<close>



section \<open>Proposals\<close>



section \<open>Deployment\<close>

text \<open>
  C16. From the deployment to the contracts the application talks to.  When the network accepts every transaction of
  \<open>deploy\<close> and WETH is known, whatever was typed at the prompts, \<open>update-configs\<close> writes the chain's entry and leaves the
  others; the SDK then finds the chain; and the application, with any provider, talks to the token, the
  auction house and the DAO that were deployed, of which the token was made with this auction house as
  its minter, this descriptor and this seeder, and the DAO with this token and the executor whose treasury is
  shown, which obeys this DAO.
\<close>

theorem deployed_application_connected:
  fixes env :: deploy_env and ch :: chain and old :: addresses_file and provider :: connection
  assumes "\<forall>c. \<not> de_fails env c" and "detect_weth (ar_weth a) chainId = Some weth"
  shows "\<exists>d file book. fst (deploy env chainId a typed ch) = Inr (Some d) \<and> update_configs chainId d old = Some file
     \<and> (\<forall>n. n \<noteq> chainId \<longrightarrow> sdk_table file (Some (int n)) = sdk_table old (Some (int n)))
     \<and> getContractAddressesForChainOrThrow (sdk_table file) (Some (int chainId)) = Inr book
     \<and> wc_token (useContracts book lido (Some provider)) = map_option (\<lambda>x. (x, runner_of provider)) (address_of d AlpsToken)
     \<and> wc_auctionHouse (useContracts book lido (Some provider)) =
         map_option (\<lambda>x. (x, runner_of provider)) (address_of d AlpsAuctionHouseProxy)
     \<and> wc_daoV2 (useContracts book lido (Some provider)) =
         map_option (\<lambda>x. (x, runner_of provider)) (address_of d AlpsDAOProxy)
     \<and> map (argument d AlpsToken) [1, 2, 3] =
         map (Some \<circ> VText) [ca_alpsAuctionHouseProxy book, ca_alpsDescriptor book, ca_alpsSeeder book]
     \<and> map (argument d AlpsDAOProxy) [0, 1] = map (Some \<circ> VText) [ca_alpsDaoExecutor book, ca_alpsToken book]
     \<and> argument d AlpsDAOExecutor 0 = Some (VText (ca_alpsDAOProxy book))"
proof -
  obtain d where d: "fst (deploy env chainId a typed ch) = Inr (Some d)" "token_wired d" "dao_wired d AlpsDAOLogicV1 AlpsDAOProxy"
    and known: "\<forall>c\<in>{AlpsToken, AlpsSeeder, AlpsDescriptorV2, NFTDescriptorV2, AlpsAuctionHouse, AlpsAuctionHouseProxy,
      AlpsAuctionHouseProxyAdmin, AlpsDAOExecutor, AlpsDAOProxy, AlpsDAOLogicV1}. address_of d c \<noteq> None"
    using deploy_all_addresses [OF assms] by blast
  let ?book = "\<lparr>ca_alpsToken = the (address_of d AlpsToken), ca_alpsSeeder = the (address_of d AlpsSeeder),
      ca_alpsDescriptor = the (address_of d AlpsDescriptorV2),
      ca_alpsAuctionHouseProxy = the (address_of d AlpsAuctionHouseProxy),
      ca_alpsDaoExecutor = the (address_of d AlpsDAOExecutor), ca_alpsDAOProxy = the (address_of d AlpsDAOProxy)\<rparr>"
  obtain e where e: "update_configs chainId d old = Some (old(chainId \<mapsto> e))" "book_addresses e = Some ?book"
    using book_complete [OF known] by blast
  let ?file = "old(chainId \<mapsto> e)"
  have "sdk_table ?file (Some (int chainId)) = Some ?book" using e(2) by (simp add: sdk_table_def)
  then have found: "getContractAddressesForChainOrThrow (sdk_table ?file) (Some (int chainId)) = Inr ?book"
    by (simp add: getContractAddressesForChainOrThrow_def)
  have others: "\<forall>n. n \<noteq> chainId \<longrightarrow> sdk_table ?file (Some (int n)) = sdk_table old (Some (int n))"
    by (simp add: sdk_table_def)
  have wired: "map (argument d AlpsToken) [1, 2, 3] =
         map (Some \<circ> VText) [ca_alpsAuctionHouseProxy ?book, ca_alpsDescriptor ?book, ca_alpsSeeder ?book]"
    "map (argument d AlpsDAOProxy) [0, 1] = map (Some \<circ> VText) [ca_alpsDaoExecutor ?book, ca_alpsToken ?book]"
    "argument d AlpsDAOExecutor 0 = Some (VText (ca_alpsDAOProxy ?book))"
    using d(2,3) known by (auto simp: token_wired_def dao_wired_def points_to_def)
  show ?thesis
    by (intro exI [of _ d] exI [of _ ?file] exI [of _ ?book] conjI d(1) e(1) others found wired)
      (use known in \<open>auto simp: useContracts_def\<close>)
qed

theorem deployed_application_connected_witness:
  "\<exists>d file book. fst (deploy demo_env 4 demo_args (\<lambda>_. ''SKIP'') Deploy.demo_chain) = Inr (Some d)
     \<and> update_configs 4 d Map.empty = Some file
     \<and> getContractAddressesForChainOrThrow (sdk_table file) (Some 4) = Inr book"
proof -
  have "\<forall>c. \<not> de_fails demo_env c" by (simp add: demo_env_def)
  from deployed_application_connected [OF this demo_weth, of "\<lambda>_. ''SKIP''" Deploy.demo_chain Map.empty None undefined]
  show ?thesis by auto
qed

end
